(* ===== verification/Prelude.thy ===== *)
theory Prelude
  imports Main "HOL-Library.Char_ord" "HOL-Library.List_Lexorder"
    "HOL-Library.Product_Lexorder" "HOL-Library.Multiset"
begin

text \<open>
  Shared vocabulary of the development.

  A Go \<open>string\<close> and a Go \<open>[]byte\<close> are both a list of bytes, so both are \<^typ>\<open>string\<close>
  here (a \<^typ>\<open>char\<close> is one byte) and the conversions between them disappear.  Go's
  \<open>(value, error)\<close> results are sums with the error on the left, and a lone \<open>error\<close> result
  is an \<open>option\<close> whose \<^term>\<open>None\<close> is \<open>nil\<close>.  Go's \<open>int\<close>, \<open>int64\<close> and \<open>time.Duration\<close>
  are \<^typ>\<open>int\<close>; where an operation can leave the 64-bit range \<open>wrap64\<close> is written out.
  Instants (\<open>time.Time\<close>) are \<^typ>\<open>int\<close> nanoseconds after the zero \<open>Time\<close>.

  The theory models the functions of package \<open>strings\<close> that the code calls.  Only the
  Unicode case tables stay outside: \<open>ToLower\<close> and \<open>ToUpper\<close> take the mapping of a string
  that holds a byte above 127 as an argument and are exact on every other string.
\<close>

named_theorems go_simps \<open>unfolding rules of the Go library functions\<close>
named_theorems inv_intros \<open>preservation of component invariants\<close>

type_synonym gotime = int
type_synonym duration = int
type_synonym bytes = string

section \<open>64-bit integers\<close>

definition wrap64 :: "int \<Rightarrow> int" where
  "wrap64 x = (x + 2 ^ 63) mod 2 ^ 64 - 2 ^ 63"

definition int64 :: "int \<Rightarrow> bool" where
  "int64 x \<longleftrightarrow> - (2 ^ 63) \<le> x \<and> x < 2 ^ 63"

section \<open>Package strings\<close>

definition isASCII :: "char \<Rightarrow> bool" where
  "isASCII c \<longleftrightarrow> of_char c < (128 :: nat)"

definition asciiLower :: "char \<Rightarrow> char" where
  "asciiLower c = (let n = of_char c :: nat in
     if 65 \<le> n \<and> n \<le> 90 then char_of (n + 32) else c)"

definition asciiUpper :: "char \<Rightarrow> char" where
  "asciiUpper c = (let n = of_char c :: nat in
     if 97 \<le> n \<and> n \<le> 122 then char_of (n - 32) else c)"

definition ToLower :: "(string \<Rightarrow> string) \<Rightarrow> string \<Rightarrow> string" where
  "ToLower uc s = (if list_all isASCII s then map asciiLower s else uc s)"

definition ToUpper :: "(string \<Rightarrow> string) \<Rightarrow> string \<Rightarrow> string" where
  "ToUpper uc s = (if list_all isASCII s then map asciiUpper s else uc s)"

definition HasPrefix :: "string \<Rightarrow> string \<Rightarrow> bool" where
  "HasPrefix s p \<longleftrightarrow> take (length p) s = p"

definition HasSuffix :: "string \<Rightarrow> string \<Rightarrow> bool" where
  "HasSuffix s p \<longleftrightarrow> length p \<le> length s \<and> drop (length s - length p) s = p"

definition TrimPrefix :: "string \<Rightarrow> string \<Rightarrow> string" where
  "TrimPrefix s p = (if HasPrefix s p then drop (length p) s else s)"

definition TrimSuffix :: "string \<Rightarrow> string \<Rightarrow> string" where
  "TrimSuffix s p = (if HasSuffix s p then take (length s - length p) s else s)"

definition CutPrefix :: "string \<Rightarrow> string \<Rightarrow> string \<times> bool" where
  "CutPrefix s p = (if HasPrefix s p then (drop (length p) s, True) else (s, False))"

fun Contains :: "string \<Rightarrow> string \<Rightarrow> bool" where
  "Contains [] p = (p = [])"
| "Contains (c # s) p = (HasPrefix (c # s) p \<or> Contains s p)"

text \<open>\<open>strings.Split\<close> for a one-byte separator; it never returns the empty slice.\<close>

fun Split :: "string \<Rightarrow> char \<Rightarrow> string list" where
  "Split [] d = [[]]"
| "Split (c # s) d =
     (if c = d then [] # Split s d
      else case Split s d of [] \<Rightarrow> [[c]] | w # ws \<Rightarrow> (c # w) # ws)"

text \<open>\<open>strings.SplitN(s, d, 2)\<close> for a one-byte separator.\<close>

definition SplitN2 :: "string \<Rightarrow> char \<Rightarrow> string list" where
  "SplitN2 s d =
     (if d \<in> set s
      then [takeWhile (\<lambda>c. c \<noteq> d) s, tl (dropWhile (\<lambda>c. c \<noteq> d) s)] else [s])"

fun Join :: "string list \<Rightarrow> string \<Rightarrow> string" where
  "Join [] sep = []"
| "Join [w] sep = w"
| "Join (w # ws) sep = w @ sep @ Join ws sep"

text \<open>
  The UTF-8 encodings of the runes for which \<open>unicode.IsSpace\<close> holds.  \<open>TrimSpace\<close> removes
  such encodings at both ends, which is what its ASCII fast path and its fallback to
  \<open>TrimFunc\<close> compute together: the encodings are prefix free and suffix free.
\<close>

definition goSpaces :: "string list" where
  "goSpaces =
    [[CHR 0x09], [CHR 0x0A], [CHR 0x0B], [CHR 0x0C], [CHR 0x0D], [CHR 0x20],
     [CHR 0xC2, CHR 0x85], [CHR 0xC2, CHR 0xA0], [CHR 0xE1, CHR 0x9A, CHR 0x80],
     [CHR 0xE2, CHR 0x80, CHR 0x80], [CHR 0xE2, CHR 0x80, CHR 0x81],
     [CHR 0xE2, CHR 0x80, CHR 0x82], [CHR 0xE2, CHR 0x80, CHR 0x83],
     [CHR 0xE2, CHR 0x80, CHR 0x84], [CHR 0xE2, CHR 0x80, CHR 0x85],
     [CHR 0xE2, CHR 0x80, CHR 0x86], [CHR 0xE2, CHR 0x80, CHR 0x87],
     [CHR 0xE2, CHR 0x80, CHR 0x88], [CHR 0xE2, CHR 0x80, CHR 0x89],
     [CHR 0xE2, CHR 0x80, CHR 0x8A], [CHR 0xE2, CHR 0x80, CHR 0xA8],
     [CHR 0xE2, CHR 0x80, CHR 0xA9], [CHR 0xE2, CHR 0x80, CHR 0xAF],
     [CHR 0xE2, CHR 0x81, CHR 0x9F], [CHR 0xE3, CHR 0x80, CHR 0x80]]"

fun trimFuel :: "nat \<Rightarrow> string list \<Rightarrow> string \<Rightarrow> string" where
  "trimFuel 0 ws s = s"
| "trimFuel (Suc n) ws s =
     (case find (HasPrefix s) ws of
        None \<Rightarrow> s
      | Some w \<Rightarrow> trimFuel n ws (drop (length w) s))"

text \<open>
  Every word that is stripped is non-empty, so a string is consumed after at most as many
  rounds as it has bytes.
\<close>

definition trimWords :: "string list \<Rightarrow> string \<Rightarrow> string" where
  "trimWords ws s = trimFuel (length s) ws s"

definition TrimSpace :: "string \<Rightarrow> string" where
  "TrimSpace s = rev (trimWords (map rev goSpaces) (rev (trimWords goSpaces s)))"

text \<open>\<open>strconv.Atoi\<close>: an optional sign and decimal digits, in the range of \<open>int\<close>.\<close>

definition isDigit :: "char \<Rightarrow> bool" where
  "isDigit c \<longleftrightarrow> 48 \<le> (of_char c :: nat) \<and> (of_char c :: nat) \<le> 57"

definition digitsVal :: "string \<Rightarrow> int" where
  "digitsVal s = foldl (\<lambda>v c. 10 * v + (of_char c - 48)) 0 s"

definition Atoi :: "string \<Rightarrow> int option" where
  "Atoi s =
     (let (neg, d) = (case s of [] \<Rightarrow> (False, [])
           | c # r \<Rightarrow> if c = CHR ''-'' then (True, r) else if c = CHR ''+'' then (False, r) else (False, s))
      in if d = [] \<or> \<not> list_all isDigit d then None
         else let v = (if neg then - digitsVal d else digitsVal d)
              in if int64 v then Some v else None)"

definition visible :: "char \<Rightarrow> bool" where
  "visible c \<longleftrightarrow> 33 \<le> (of_char c :: nat) \<and> (of_char c :: nat) \<le> 126"

section \<open>Maps and time\<close>

text \<open>
  A \<open>range\<close> over a Go map visits every key once in an unspecified order.  A definition that
  ranges over a map takes the order of that run as an argument, and \<open>rangeOrder\<close> says which
  lists are such orders.
\<close>

definition rangeOrder :: "'k list \<Rightarrow> ('k \<rightharpoonup> 'v) \<Rightarrow> bool" where
  "rangeOrder order m \<longleftrightarrow> distinct order \<and> set order = dom m"

definition rangeValues :: "'k list \<Rightarrow> ('k \<rightharpoonup> 'v) \<Rightarrow> 'v list" where
  "rangeValues order m = List.map_filter m order"

text \<open>\<open>Time.Sub\<close> saturates at the range of \<open>Duration\<close>.\<close>

definition timeSub :: "gotime \<Rightarrow> gotime \<Rightarrow> duration" where
  "timeSub t u = max (- (2 ^ 63)) (min (2 ^ 63 - 1) (t - u))"

definition IsZero :: "gotime \<Rightarrow> bool" where
  "IsZero t \<longleftrightarrow> t = 0"

definition Second :: duration where
  "Second = 1000000000"

definition Milliseconds :: "duration \<Rightarrow> int" where
  "Milliseconds d = (if d \<ge> 0 then d div 1000000 else - (- d div 1000000))"

section \<open>Lemmas on the library functions\<close>

lemma wrap64_id [simp]: "int64 x \<Longrightarrow> wrap64 x = x"
  by (simp add: wrap64_def int64_def)

lemma wrap64_range [simp]: "int64 (wrap64 x)"
  by (simp add: wrap64_def int64_def)

lemma HasPrefix_append [simp]: "HasPrefix (p @ s) p"
  by (simp add: HasPrefix_def)

lemma HasPrefixE: "HasPrefix s p \<Longrightarrow> \<exists>r. s = p @ r"
  by (metis HasPrefix_def append_take_drop_id)

lemma HasPrefix_iff: "HasPrefix s p \<longleftrightarrow> (\<exists>r. s = p @ r)"
  by (auto dest: HasPrefixE)

lemma HasSuffix_append [simp]: "HasSuffix (s @ p) p"
  by (simp add: HasSuffix_def)

lemma HasSuffix_iff: "HasSuffix s p \<longleftrightarrow> (\<exists>r. s = r @ p)"
  by (metis HasSuffix_append HasSuffix_def append_take_drop_id)

lemma TrimSuffix_append [simp]: "TrimSuffix (s @ p) p = s"
  by (simp add: TrimSuffix_def)

lemma TrimPrefix_append [simp]: "TrimPrefix (p @ s) p = s"
  by (simp add: TrimPrefix_def)

lemma CutPrefix_append [simp]: "CutPrefix (p @ s) p = (s, True)"
  by (simp add: CutPrefix_def)

lemma Contains_single: "Contains s [c] \<longleftrightarrow> c \<in> set s"
  by (induction s) (auto simp: HasPrefix_def)

lemma Contains_iff: "Contains s p \<longleftrightarrow> (\<exists>u v. s = u @ p @ v)"
proof (induction s)
  case Nil
  then show ?case by simp
next
  case (Cons c s)
  then show ?case
    by (auto simp: HasPrefix_iff Cons_eq_append_conv)
qed

lemma Split_nonempty [simp]: "Split s d \<noteq> []"
  by (cases s) (auto split: list.splits)

lemma Split_no_sep: "d \<notin> set s \<Longrightarrow> Split s d = [s]"
  by (induction s) auto

lemma Split_words: "w \<in> set (Split s d) \<Longrightarrow> d \<notin> set w"
proof (induction s arbitrary: w)
  case Nil
  then show ?case by simp
next
  case (Cons c s)
  then show ?case
    by (cases "Split s d") (auto split: if_splits)
qed

lemma Split_set: "w \<in> set (Split s d) \<Longrightarrow> set w \<subseteq> set s"
proof (induction s arbitrary: w)
  case Nil
  then show ?case by simp
next
  case (Cons c s)
  then show ?case
    by (cases "Split s d") (fastforce split: if_splits)+
qed

lemma Split_snoc_sep: "Split (s @ [d]) d = Split s d @ [[]]"
  by (induction s) (auto split: list.splits)

lemma Split_append_sep: "d \<notin> set a \<Longrightarrow> Split (a @ d # b) d = a # Split b d"
  by (induction a) auto

lemma Split_two: "d \<in> set s \<Longrightarrow> 2 \<le> length (Split s d)"
  by (induction s) (auto simp: Suc_le_eq split: list.splits)

lemma Split_covers: "c \<in> set s \<Longrightarrow> c \<noteq> d \<Longrightarrow> \<exists>w \<in> set (Split s d). c \<in> set w"
proof (induction s)
  case Nil
  then show ?case by simp
next
  case (Cons x s)
  then show ?case
    by (cases "Split s d") auto
qed

lemma asciiLower_idem [simp]: "asciiLower (asciiLower c) = asciiLower c"
  by (simp add: asciiLower_def Let_def)

lemma isASCII_lower [simp]: "isASCII (asciiLower c) = isASCII c"
  by (simp add: isASCII_def asciiLower_def Let_def)

subsection \<open>TrimSpace\<close>

lemma find_HasPrefix_word:
  "find (HasPrefix s) ws = Some w \<Longrightarrow> w \<in> set ws \<and> HasPrefix s w"
  by (metis find_Some_iff nth_mem)

lemma trimFuel_suffix: "\<exists>u. s = u @ trimFuel n ws s"
proof (induction n arbitrary: s)
  case 0
  then show ?case by simp
next
  case (Suc n)
  show ?case
  proof (cases "find (HasPrefix s) ws")
    case None
    then show ?thesis by simp
  next
    case (Some w)
    obtain u where "drop (length w) s = u @ trimFuel n ws (drop (length w) s)"
      using Suc.IH by blast
    then show ?thesis
      using Some by (metis append.assoc append_take_drop_id option.simps(5) trimFuel.simps(2))
  qed
qed

lemma trimWords_suffix: "\<exists>u. s = u @ trimWords ws s"
  unfolding trimWords_def by (rule trimFuel_suffix)

lemma trimFuel_done:
  assumes "[] \<notin> set ws" "length s \<le> n" "w \<in> set ws"
  shows "\<not> HasPrefix (trimFuel n ws s) w"
  using assms
proof (induction n arbitrary: s)
  case 0
  then show ?case by (auto simp: HasPrefix_def)
next
  case (Suc n)
  show ?case
  proof (cases "find (HasPrefix s) ws")
    case None
    then have "\<not> HasPrefix s w" using Suc.prems(3) by (simp add: find_None_iff)
    with None show ?thesis by simp
  next
    case (Some v)
    then have "v \<in> set ws" by (simp add: find_HasPrefix_word)
    with Suc.prems(1) have "v \<noteq> []" by auto
    with Suc.prems(2) have "length (drop (length v) s) \<le> n" by (cases v) auto
    with Suc.IH Suc.prems Some show ?thesis by simp
  qed
qed

lemma trimWords_done: "[] \<notin> set ws \<Longrightarrow> w \<in> set ws \<Longrightarrow> \<not> HasPrefix (trimWords ws s) w"
  unfolding trimWords_def by (rule trimFuel_done) simp_all

lemma trimWords_fix: "\<forall>w \<in> set ws. \<not> HasPrefix s w \<Longrightarrow> trimWords ws s = s"
proof -
  assume "\<forall>w \<in> set ws. \<not> HasPrefix s w"
  then have "find (HasPrefix s) ws = None" by (simp add: find_None_iff)
  then show ?thesis by (cases "length s") (simp_all add: trimWords_def)
qed

lemma goSpaces_nonempty: "[] \<notin> set goSpaces" "[] \<notin> set (map rev goSpaces)"
  by (simp_all add: goSpaces_def)

lemma TrimSpace_parts: "\<exists>u v. s = u @ TrimSpace s @ v"
proof -
  let ?l = "trimWords goSpaces s"
  obtain u where u: "s = u @ ?l" using trimWords_suffix by blast
  obtain v where "rev ?l = v @ trimWords (map rev goSpaces) (rev ?l)"
    using trimWords_suffix by blast
  then have "?l = TrimSpace s @ rev v"
    unfolding TrimSpace_def by (metis rev_append rev_rev_ident)
  with u show ?thesis by metis
qed

lemma TrimSpace_set: "set (TrimSpace s) \<subseteq> set s"
  using TrimSpace_parts [of s] by (metis Un_subset_iff order_refl set_append)

lemma TrimSpace_length: "length (TrimSpace s) \<le> length s"
  using TrimSpace_parts [of s] by (metis length_append le_add1 le_add2 order_trans)

lemma TrimSpace_idem [simp]: "TrimSpace (TrimSpace s) = TrimSpace s"
proof -
  let ?l = "trimWords goSpaces s" and ?t = "TrimSpace s"
  have rt: "rev ?t = trimWords (map rev goSpaces) (rev ?l)"
    by (simp add: TrimSpace_def)
  obtain v where "rev ?l = v @ rev ?t"
    using trimWords_suffix rt by metis
  then have l: "?l = ?t @ rev v" by (metis rev_append rev_rev_ident)
  have "\<not> HasPrefix ?t w" if "w \<in> set goSpaces" for w
  proof
    assume "HasPrefix ?t w"
    then have "HasPrefix ?l w" using l by (auto simp: HasPrefix_iff)
    with trimWords_done [OF goSpaces_nonempty(1) that] show False by blast
  qed
  then have 1: "trimWords goSpaces ?t = ?t" by (blast intro: trimWords_fix)
  have "trimWords (map rev goSpaces) (rev ?t) = rev ?t"
    using trimWords_done [OF goSpaces_nonempty(2)] rt by (metis trimWords_fix)
  with 1 show ?thesis by (simp add: TrimSpace_def)
qed

lemma TrimSpace_Nil [simp]: "TrimSpace [] = []"
  by (simp add: TrimSpace_def trimWords_def)

lemma goSpaces_visible:
  "w \<in> set goSpaces \<Longrightarrow> \<not> visible (hd w)" "w \<in> set goSpaces \<Longrightarrow> \<not> visible (last w)"
  by (auto simp: goSpaces_def visible_def)

lemma not_HasPrefix_visible:
  assumes "list_all visible s" "w \<noteq> []" "\<not> visible (hd w)"
  shows "\<not> HasPrefix s w"
  using assms by (cases w) (auto simp: HasPrefix_iff)

lemma TrimSpace_visible: "list_all visible s \<Longrightarrow> TrimSpace s = s"
proof -
  assume v: "list_all visible s"
  have 1: "trimWords goSpaces s = s"
    using v goSpaces_visible(1) goSpaces_nonempty(1)
    by (intro trimWords_fix) (metis not_HasPrefix_visible)
  have vr: "list_all visible (rev s)" using v by simp
  have "\<not> HasPrefix (rev s) (rev w)" if "w \<in> set goSpaces" for w
  proof (rule not_HasPrefix_visible [OF vr])
    show "rev w \<noteq> []" using that goSpaces_nonempty(1) by auto
    then show "\<not> visible (hd (rev w))" using goSpaces_visible(2) [OF that] by (simp add: hd_rev)
  qed
  then have "trimWords (map rev goSpaces) (rev s) = rev s"
    by (intro trimWords_fix) simp
  with 1 show ?thesis by (simp add: TrimSpace_def)
qed

section \<open>Maps\<close>

lemma option_eqI: "(\<And>q. x = Some q \<longleftrightarrow> y = Some q) \<Longrightarrow> x = y"
  by (cases x; cases y) auto

lemma rangeValues_set: "set order = dom m \<Longrightarrow> set (rangeValues order m) = ran m"
  by (force simp: rangeValues_def List.map_filter_def ran_def)

lemma rangeValues_mset:
  assumes "rangeOrder xs m" "rangeOrder ys m"
  shows "mset (rangeValues xs m) = mset (rangeValues ys m)"
proof -
  from assms have "mset xs = mset ys"
    by (auto simp: rangeOrder_def simp flip: set_eq_iff_mset_eq_distinct)
  then have "mset (map (the \<circ> m) (filter (\<lambda>x. m x \<noteq> None) xs)) =
      mset (map (the \<circ> m) (filter (\<lambda>x. m x \<noteq> None) ys))"
    by (simp add: mset_filter)
  then show ?thesis by (simp add: rangeValues_def List.map_filter_def comp_def)
qed

lemma length_rangeValues: "rangeOrder xs m \<Longrightarrow> length (rangeValues xs m) = card (dom m)"
proof -
  assume r: "rangeOrder xs m"
  then have "filter (\<lambda>x. m x \<noteq> None) xs = xs" by (auto simp: rangeOrder_def filter_id_conv)
  then show ?thesis using r distinct_card [of xs]
    by (simp add: rangeValues_def List.map_filter_def rangeOrder_def)
qed

text \<open>
  Sorting the values of a map by a key that tells them apart gives the same list whatever the
  order in which the map was visited.
\<close>

lemma sort_key_mset_eq:
  assumes "mset xs = mset ys" "inj_on f (set xs)"
  shows "sort_key f xs = sort_key f ys"
proof (rule properties_for_sort_key)
  show "mset (sort_key f ys) = mset xs" using assms by simp
  show "sorted (map f (sort_key f ys))" by simp
  fix k
  assume "k \<in> set (sort_key f ys)"
  have s: "set xs = set ys" using assms(1) by (metis set_mset_mset)
  have "filter (\<lambda>x. f k = f x) zs = replicate (count (mset zs) k) k" if "set zs = set xs" "k \<in> set xs" for zs
    using that assms(2)
  proof -
    have "filter (\<lambda>x. f k = f x) zs = filter (\<lambda>x. k = x) zs"
      using that assms(2) by (intro filter_cong) (auto simp: inj_on_def)
    then show ?thesis by (simp add: replicate_count_mset_eq_filter_eq)
  qed
  then show "filter (\<lambda>x. f k = f x) (sort_key f ys) = filter (\<lambda>x. f k = f x) xs"
    using assms s \<open>k \<in> set (sort_key f ys)\<close> by simp
qed

lemma ran_upd_fresh: "m k = None \<Longrightarrow> ran (m(k \<mapsto> v)) = insert v (ran m)"
  by (rule ran_map_upd)

lemma card_dom_upd: "finite (dom m) \<Longrightarrow> card (dom (m(k \<mapsto> v))) \<le> Suc (card (dom m))"
  by (simp add: card_insert_if)

end
