(* ===== verification/Names.thy ===== *)
theory Names
  imports Prelude
begin

text \<open>
  Package \<open>protocol/names\<close>: the syntax of a subdomain label and the generator of random
  ones.  A \<open>range\<close> over a Go string yields runes, but every byte above 127 starts or
  continues a rune outside the accepted ASCII ranges, so the test is made byte by byte.
  The random source (\<open>crypto/rand\<close>) is an argument: \<open>draw i\<close> is what the \<open>i\<close>-th call of
  \<open>rand.Int(rand.Reader, 36)\<close> returns, \<^term>\<open>None\<close> for an error.
\<close>

datatype name_error =
    SubdomainRequired
  | SubdomainTooLong
  | SubdomainHyphen
  | SubdomainCharacter
  | RandomLength
  | RandomSource

definition MaxSubdomainLength :: nat where
  "MaxSubdomainLength = 63"

definition randomAlphabet :: string where
  "randomAlphabet = ''abcdefghijklmnopqrstuvwxyz0123456789''"

definition labelChar :: "char \<Rightarrow> bool" where
  "labelChar c \<longleftrightarrow> (let n = of_char c :: nat in
     97 \<le> n \<and> n \<le> 122 \<or> 48 \<le> n \<and> n \<le> 57 \<or> c = CHR ''-'')"

definition ValidateSubdomain :: "string \<Rightarrow> name_error option" where
  "ValidateSubdomain name =
     (if name = [] then Some SubdomainRequired
      else if length name > MaxSubdomainLength then Some SubdomainTooLong
      else if hd name = CHR ''-'' \<or> last name = CHR ''-'' then Some SubdomainHyphen
      else if \<not> list_all labelChar name then Some SubdomainCharacter
      else None)"

fun randomBytes :: "(nat \<Rightarrow> nat option) \<Rightarrow> nat \<Rightarrow> nat \<Rightarrow> name_error + string" where
  "randomBytes draw i 0 = Inr []"
| "randomBytes draw i (Suc n) =
     (case draw i of
        None \<Rightarrow> Inl RandomSource
      | Some k \<Rightarrow> (case randomBytes draw (Suc i) n of
                    Inl e \<Rightarrow> Inl e
                  | Inr r \<Rightarrow> Inr (randomAlphabet ! k # r)))"

definition RandomSubdomain :: "(nat \<Rightarrow> nat option) \<Rightarrow> int \<Rightarrow> name_error + string" where
  "RandomSubdomain draw len =
     (if len \<le> 0 \<or> len > int MaxSubdomainLength then Inl RandomLength
      else randomBytes draw 0 (nat len))"

text \<open>What the documentation of \<open>rand.Int(reader, max)\<close> promises: a result below \<open>max\<close>.\<close>

definition drawsBelow :: "nat \<Rightarrow> (nat \<Rightarrow> nat option) \<Rightarrow> bool" where
  "drawsBelow m draw \<longleftrightarrow> (\<forall>i. case draw i of None \<Rightarrow> True | Some k \<Rightarrow> k < m)"

section \<open>Lemmas\<close>

lemma labelChar_ascii: "labelChar c \<Longrightarrow> isASCII c"
  by (auto simp: labelChar_def isASCII_def Let_def)

lemma labelChar_visible: "labelChar c \<Longrightarrow> visible c"
  by (auto simp: labelChar_def visible_def Let_def)

lemma labelChar_lower: "labelChar c \<Longrightarrow> asciiLower c = c"
  by (auto simp: labelChar_def asciiLower_def Let_def)

lemma labelChar_not_dot: "\<not> labelChar CHR ''.''"
  by (simp add: labelChar_def Let_def)

lemma ToLower_label: "list_all labelChar s \<Longrightarrow> ToLower uc s = s"
  by (induction s) (auto simp: ToLower_def labelChar_ascii labelChar_lower list_all_iff)

lemma TrimSpace_label: "list_all labelChar s \<Longrightarrow> TrimSpace s = s"
  by (rule TrimSpace_visible) (auto simp: list_all_iff labelChar_visible)

lemma ValidateSubdomain_iff:
  "ValidateSubdomain s = None \<longleftrightarrow>
     s \<noteq> [] \<and> length s \<le> 63 \<and> hd s \<noteq> CHR ''-'' \<and> last s \<noteq> CHR ''-'' \<and> list_all labelChar s"
  by (auto simp: ValidateSubdomain_def MaxSubdomainLength_def)

lemma valid_labelD: "ValidateSubdomain s = None \<Longrightarrow> list_all labelChar s"
  by (simp add: ValidateSubdomain_iff)

lemma randomAlphabet_length: "length randomAlphabet = 36"
  by (simp add: randomAlphabet_def)

lemma randomAlphabet_label: "list_all labelChar randomAlphabet" "CHR ''-'' \<notin> set randomAlphabet"
  by (simp_all add: randomAlphabet_def labelChar_def Let_def)

lemma randomBytes_alphabet:
  assumes "drawsBelow 36 draw" "randomBytes draw i n = Inr s"
  shows "length s = n \<and> set s \<subseteq> set randomAlphabet"
  using assms(2)
proof (induction n arbitrary: i s)
  case 0
  then show ?case by simp
next
  case (Suc n)
  then obtain k r where k: "draw i = Some k" and r: "randomBytes draw (Suc i) n = Inr r"
    and s: "s = randomAlphabet ! k # r"
    by (auto split: option.splits sum.splits)
  from k assms(1) have "k < length randomAlphabet"
    unfolding drawsBelow_def randomAlphabet_length by (metis option.simps(5))
  with Suc.IH [OF r] s show ?case by auto
qed

lemma alphabet_valid:
  assumes "s \<noteq> []" "length s \<le> 63" "set s \<subseteq> set randomAlphabet"
  shows "ValidateSubdomain s = None"
proof -
  have "hd s \<in> set randomAlphabet" "last s \<in> set randomAlphabet" using assms by auto
  then have "hd s \<noteq> CHR ''-''" "last s \<noteq> CHR ''-''" using randomAlphabet_label(2) by metis+
  moreover have "list_all labelChar s"
    using assms(3) randomAlphabet_label(1) by (auto simp: list_all_iff)
  ultimately show ?thesis using assms by (simp add: ValidateSubdomain_iff)
qed

text \<open>The generator never runs out of random bytes when the source does not fail.\<close>

lemma randomBytes_total: "\<forall>i. draw i \<noteq> None \<Longrightarrow> \<exists>s. randomBytes draw i n = Inr s"
proof (induction n arbitrary: i)
  case 0
  then show ?case by simp
next
  case (Suc n)
  then obtain k r where "draw i = Some k" "randomBytes draw (Suc i) n = Inr r" by blast
  then show ?case by simp
qed

lemma RandomSubdomain_error_iff:
  assumes "\<forall>i. draw i \<noteq> None"
  shows "(\<exists>e. RandomSubdomain draw n = Inl e) \<longleftrightarrow> \<not> (1 \<le> n \<and> n \<le> 63)"
  using randomBytes_total [OF assms, of 0 "nat n"]
  by (auto simp: RandomSubdomain_def MaxSubdomainLength_def)

lemma RandomSubdomain_valid:
  assumes "drawsBelow 36 draw" "RandomSubdomain draw n = Inr s"
  shows "ValidateSubdomain s = None \<and> int (length s) = n \<and> CHR ''-'' \<notin> set s"
proof -
  from assms(2) have n: "0 < n" "n \<le> 63" and r: "randomBytes draw 0 (nat n) = Inr s"
    by (auto simp: RandomSubdomain_def MaxSubdomainLength_def split: if_splits)
  from randomBytes_alphabet [OF assms(1) r] n have "length s = nat n" "set s \<subseteq> set randomAlphabet"
    by auto
  moreover from this n have "s \<noteq> []" "length s \<le> 63" by auto
  ultimately show ?thesis using alphabet_valid [of s] randomAlphabet_label(2) n by auto
qed

section \<open>Properties\<close>

text \<open>
  With a random source that works as documented, \<open>RandomSubdomain\<close> returns for every
  length from 1 to 63 a label of exactly that length that \<open>ValidateSubdomain\<close> accepts.
\<close>

theorem RandomSubdomain_ok:
  assumes "drawsBelow 36 draw" "\<forall>i. draw i \<noteq> None" "1 \<le> n" "n \<le> 63"
  shows "\<exists>s. RandomSubdomain draw n = Inr s \<and> int (length s) = n \<and> ValidateSubdomain s = None"
proof (cases "RandomSubdomain draw n")
  case (Inl e)
  then show ?thesis using RandomSubdomain_error_iff [OF assms(2), of n] assms by auto
next
  case (Inr s)
  then show ?thesis using RandomSubdomain_valid [OF assms(1) Inr] by simp
qed

theorem RandomSubdomain_ok_witness:
  "\<exists>s. RandomSubdomain (\<lambda>i. Some (i mod 36)) 8 = Inr s \<and> int (length s) = 8 \<and> ValidateSubdomain s = None"
  by (rule RandomSubdomain_ok) (simp_all add: drawsBelow_def)

end
