(* ===== verification/Headers.thy ===== *)
theory Headers
  imports Prelude
begin

text \<open>
  Package \<open>protocol/httpwire\<close>: the request and response payloads and the header rewriting
  done on every hop.  An \<open>http.Header\<close> is a map from canonical field names to the list of
  their values; \<open>Get\<close>, \<open>Values\<close>, \<open>Set\<close>, \<open>Add\<close> and \<open>Del\<close> canonicalise the name they are given
  with \<open>CanonicalMIMEHeaderKey\<close>.
\<close>

type_synonym http_header = "string \<rightharpoonup> string list"

record Request =
  req_Method :: string
  req_Path :: string
  req_Query :: string
  req_Header :: http_header
  req_Body :: bytes

record RequestStart =
  rs_Method :: string
  rs_Path :: string
  rs_Query :: string
  rs_Header :: http_header
  rs_ContentLength :: int

record Response =
  resp_Status :: int
  resp_Header :: http_header
  resp_Body :: bytes

record ResponseStart =
  rst_Status :: int
  rst_Header :: http_header

record BodyChunk =
  bc_Data :: bytes

section \<open>net/http header maps\<close>

definition tokenChar :: "char \<Rightarrow> bool" where
  "tokenChar c \<longleftrightarrow> (let n = of_char c :: nat in
     48 \<le> n \<and> n \<le> 57 \<or> 65 \<le> n \<and> n \<le> 90 \<or> 97 \<le> n \<and> n \<le> 122 \<or>
     c \<in> set ''!#$%&*+-.^_`|~'' \<or> n = 39)"

fun canonicalFrom :: "bool \<Rightarrow> string \<Rightarrow> string" where
  "canonicalFrom up [] = []"
| "canonicalFrom up (c # s) =
     (let d = (if up then asciiUpper c else asciiLower c) in d # canonicalFrom (d = CHR ''-'') s)"

definition CanonicalMIMEHeaderKey :: "string \<Rightarrow> string" where
  "CanonicalMIMEHeaderKey s = (if list_all tokenChar s then canonicalFrom True s else s)"

definition hdrValues :: "http_header \<Rightarrow> string \<Rightarrow> string list" where
  "hdrValues h k = (case h (CanonicalMIMEHeaderKey k) of None \<Rightarrow> [] | Some vs \<Rightarrow> vs)"

definition hdrGet :: "http_header \<Rightarrow> string \<Rightarrow> string" where
  "hdrGet h k = (case hdrValues h k of [] \<Rightarrow> [] | v # vs \<Rightarrow> v)"

definition hdrDel :: "string \<Rightarrow> http_header \<Rightarrow> http_header" where
  "hdrDel k h = h(CanonicalMIMEHeaderKey k := None)"

definition hdrSet :: "string \<Rightarrow> string \<Rightarrow> http_header \<Rightarrow> http_header" where
  "hdrSet k v h = h(CanonicalMIMEHeaderKey k \<mapsto> [v])"

definition hdrAdd :: "string \<Rightarrow> string \<Rightarrow> http_header \<Rightarrow> http_header" where
  "hdrAdd k v h = h(CanonicalMIMEHeaderKey k \<mapsto> hdrValues h k @ [v])"

section \<open>httpwire\<close>

definition hopByHopHeaders :: "string list" where
  "hopByHopHeaders =
     [''Connection'', ''Keep-Alive'', ''Proxy-Authenticate'', ''Proxy-Authorization'',
      ''TE'', ''Trailer'', ''Transfer-Encoding'', ''Upgrade'']"

definition connectionTokens :: "http_header \<Rightarrow> string list" where
  "connectionTokens h =
     filter (\<lambda>t. t \<noteq> [])
       (map TrimSpace (concat (map (\<lambda>v. Split v CHR '','') (hdrValues h ''Connection''))))"

definition StripHopByHopHeaders :: "http_header \<Rightarrow> http_header" where
  "StripHopByHopHeaders header =
     fold hdrDel hopByHopHeaders (fold hdrDel (connectionTokens header) header)"

definition AddForwardedHeaders ::
  "http_header \<Rightarrow> string \<Rightarrow> string \<Rightarrow> string \<Rightarrow> string \<Rightarrow> http_header" where
  "AddForwardedHeaders header tunnelID originalHost proto remoteAddr =
     (let f0 = header;
          f1 = (if remoteAddr \<noteq> [] then hdrSet ''X-Forwarded-For'' remoteAddr f0 else f0);
          f2 = (if originalHost \<noteq> [] then hdrSet ''X-Forwarded-Host'' originalHost f1 else f1);
          f3 = (if proto \<noteq> [] then hdrSet ''X-Forwarded-Proto'' proto f2 else f2);
          f4 = (if tunnelID \<noteq> [] then hdrSet ''X-Porthook-Tunnel-ID'' tunnelID f3 else f3)
      in f4)"

section \<open>Lemmas\<close>

lemma of_char_asciiLower:
  "(of_char (asciiLower c) :: nat) =
     (if 65 \<le> (of_char c :: nat) \<and> (of_char c :: nat) \<le> 90 then of_char c + 32 else of_char c)"
  by (simp add: asciiLower_def Let_def)

lemma of_char_asciiUpper:
  "(of_char (asciiUpper c) :: nat) =
     (if 97 \<le> (of_char c :: nat) \<and> (of_char c :: nat) \<le> 122 then of_char c - 32 else of_char c)"
  by (auto simp: asciiUpper_def Let_def)

lemma asciiUpper_idem: "asciiUpper (asciiUpper c) = asciiUpper c"
proof -
  have "(of_char (asciiUpper (asciiUpper c)) :: nat) = of_char (asciiUpper c)"
    by (auto simp: of_char_asciiUpper)
  then show ?thesis by simp
qed

lemma canonicalFrom_idem: "canonicalFrom up (canonicalFrom up s) = canonicalFrom up s"
  by (induction s arbitrary: up) (simp_all add: Let_def asciiUpper_idem)

lemma tokenChar_case [simp]:
  "tokenChar c \<Longrightarrow> tokenChar (asciiLower c)" "tokenChar c \<Longrightarrow> tokenChar (asciiUpper c)"
proof -
  assume t: "tokenChar c"
  show "tokenChar (asciiLower c)"
  proof (cases "asciiLower c = c")
    case False
    then have "65 \<le> (of_char c :: nat)" "(of_char c :: nat) \<le> 90"
      by (auto simp: asciiLower_def Let_def split: if_splits)
    then have "97 \<le> (of_char (asciiLower c) :: nat)" "(of_char (asciiLower c) :: nat) \<le> 122"
      by (simp_all add: of_char_asciiLower)
    then show ?thesis unfolding tokenChar_def Let_def by blast
  qed (simp add: t)
  show "tokenChar (asciiUpper c)"
  proof (cases "asciiUpper c = c")
    case False
    then have "97 \<le> (of_char c :: nat)" "(of_char c :: nat) \<le> 122"
      by (auto simp: asciiUpper_def Let_def split: if_splits)
    then have "65 \<le> (of_char (asciiUpper c) :: nat)" "(of_char (asciiUpper c) :: nat) \<le> 90"
      by (simp_all add: of_char_asciiUpper)
    then show ?thesis unfolding tokenChar_def Let_def by blast
  qed (simp add: t)
qed

lemma canonicalFrom_token: "list_all tokenChar s \<Longrightarrow> list_all tokenChar (canonicalFrom up s)"
  by (induction s arbitrary: up) (auto simp: Let_def)

lemma CanonicalMIMEHeaderKey_idem [simp]:
  "CanonicalMIMEHeaderKey (CanonicalMIMEHeaderKey k) = CanonicalMIMEHeaderKey k"
  by (simp add: CanonicalMIMEHeaderKey_def canonicalFrom_token canonicalFrom_idem)

lemma fold_hdrDel:
  "fold hdrDel ks h n = (if n \<in> CanonicalMIMEHeaderKey ` set ks then None else h n)"
  by (induction ks arbitrary: h) (auto simp: hdrDel_def)

lemma StripHopByHopHeaders_apply:
  "StripHopByHopHeaders h n =
     (if n \<in> CanonicalMIMEHeaderKey ` (set hopByHopHeaders \<union> set (connectionTokens h))
      then None else h n)"
  by (auto simp: StripHopByHopHeaders_def fold_hdrDel)

lemma hop_canonical:
  "CanonicalMIMEHeaderKey ` set hopByHopHeaders =
     {''Connection'', ''Keep-Alive'', ''Proxy-Authenticate'', ''Proxy-Authorization'',
      ''Te'', ''Trailer'', ''Transfer-Encoding'', ''Upgrade''}"
  by code_simp

lemma canonical_names:
  "CanonicalMIMEHeaderKey ''Authorization'' = ''Authorization''"
  "CanonicalMIMEHeaderKey ''Connection'' = ''Connection''"
  "CanonicalMIMEHeaderKey ''Upgrade'' = ''Upgrade''"
  "CanonicalMIMEHeaderKey ''X-Forwarded-For'' = ''X-Forwarded-For''"
  "CanonicalMIMEHeaderKey ''X-Forwarded-Host'' = ''X-Forwarded-Host''"
  "CanonicalMIMEHeaderKey ''X-Forwarded-Proto'' = ''X-Forwarded-Proto''"
  "CanonicalMIMEHeaderKey ''X-Porthook-Tunnel-ID'' = ''X-Porthook-Tunnel-Id''"
  "CanonicalMIMEHeaderKey ''X-Real-IP'' = ''X-Real-Ip''"
  by code_simp+

lemma AddForwardedHeaders_other:
  assumes "n \<notin> {''X-Forwarded-For'', ''X-Forwarded-Host'', ''X-Forwarded-Proto'', ''X-Porthook-Tunnel-Id''}"
  shows "AddForwardedHeaders h t host p a n = h n"
  using assms by (simp add: AddForwardedHeaders_def hdrSet_def canonical_names Let_def)

lemma AddForwardedHeaders_set:
  "t \<noteq> [] \<Longrightarrow> AddForwardedHeaders h t host p a ''X-Porthook-Tunnel-Id'' = Some [t]"
  "a \<noteq> [] \<Longrightarrow> AddForwardedHeaders h t host p a ''X-Forwarded-For'' = Some [a]"
  "host \<noteq> [] \<Longrightarrow> AddForwardedHeaders h t host p a ''X-Forwarded-Host'' = Some [host]"
  "p \<noteq> [] \<Longrightarrow> AddForwardedHeaders h t host p a ''X-Forwarded-Proto'' = Some [p]"
  by (simp_all add: AddForwardedHeaders_def hdrSet_def canonical_names Let_def)

text \<open>Removing the hop-by-hop fields is stable: a second pass finds nothing more to remove.\<close>

lemma connectionTokens_strip: "connectionTokens (StripHopByHopHeaders h) = []"
proof -
  have "StripHopByHopHeaders h ''Connection'' = None"
    unfolding StripHopByHopHeaders_apply by (simp add: image_Un hop_canonical)
  then show ?thesis by (simp add: connectionTokens_def hdrValues_def canonical_names)
qed

lemma StripHopByHopHeaders_idem:
  "StripHopByHopHeaders (StripHopByHopHeaders h) = StripHopByHopHeaders h"
  by (rule ext) (simp add: StripHopByHopHeaders_apply connectionTokens_strip image_Un)

section \<open>Properties\<close>

text \<open>
  \<open>StripHopByHopHeaders\<close> removes exactly the eight hop-by-hop fields and the fields the
  request's own \<open>Connection\<close> values name, under their canonical names; every other field keeps
  all its values.
\<close>

theorem StripHopByHopHeaders_exact:
  "StripHopByHopHeaders h n =
     (if n \<in> {''Connection'', ''Keep-Alive'', ''Proxy-Authenticate'', ''Proxy-Authorization'',
             ''Te'', ''Trailer'', ''Transfer-Encoding'', ''Upgrade''} \<union>
            CanonicalMIMEHeaderKey ` set (connectionTokens h)
      then None else h n)"
  by (simp only: StripHopByHopHeaders_apply image_Un hop_canonical)

end
