(* ===== verification/Messages.thy ===== *)
theory Messages
  imports Headers
begin

text \<open>
  Packages \<open>protocol/messages\<close>, \<open>protocol/wsproxy\<close> and \<open>protocol/wswire\<close>: the envelopes and
  binary body frames exchanged between the gateway and the agent, protocol negotiation, and the
  reading and writing of both on a WebSocket connection.  JSON (\<open>encoding/json\<close>) is a value of
  the record \<open>json\<close>, one field per type that is marshalled or unmarshalled.
\<close>

section \<open>Message types and payloads\<close>

datatype msg_type =
    TypeAuthRequest | TypeAuthOK | TypeAuthError
  | TypeTunnelRegister | TypeTunnelRegistered | TypeTunnelError
  | TypePing | TypePong
  | TypeHTTPRequest | TypeHTTPRequestStart | TypeHTTPRequestBody | TypeHTTPRequestEnd
  | TypeHTTPResponse | TypeHTTPResponseStart | TypeHTTPResponseBody | TypeHTTPResponseEnd
  | TypeHTTPStreamError | TypeHTTPStreamCancel
  | TypeWSOpen | TypeWSAccept | TypeWSError | TypeWSClose | TypeWSCancel
  | TypeWSMessageText | TypeWSMessageBinary
  | OtherType string

record AuthRequest =
  ar_Token :: string
  ar_AgentVersion :: string
  ar_ProtocolVersion :: string
  ar_Capabilities :: "string list"

record AuthOK =
  ok_ProtocolVersion :: string
  ok_Capabilities :: "string list"

record ErrorPayload =
  ep_Code :: string
  ep_Message :: string

record TunnelRegister =
  tr_Protocol :: string
  tr_LocalTarget :: string
  tr_RequestedSubdomain :: string

record TunnelRegistered =
  td_TunnelID :: string
  td_PublicURL :: string
  td_Subdomain :: string

record StreamCancel =
  sc_Reason :: string

record WSOpen =
  wo_Path :: string
  wo_Query :: string
  wo_Header :: http_header
  wo_Subprotocols :: "string list"

record WSAccept =
  wa_Subprotocol :: string

record WSClose =
  wc_Code :: int
  wc_Reason :: string

text \<open>The values the code passes as \<open>payload any\<close>, and the raw JSON of an envelope.\<close>

datatype payload =
    PNil
  | PAuthRequest AuthRequest | PAuthOK AuthOK | PError ErrorPayload
  | PTunnelRegister TunnelRegister | PTunnelRegistered TunnelRegistered
  | PStreamCancel StreamCancel
  | PRequest Request | PRequestStart RequestStart
  | PResponse Response | PResponseStart ResponseStart
  | PWSOpen WSOpen | PWSAccept WSAccept | PWSClose WSClose

record Envelope =
  env_Type :: msg_type
  env_StreamID :: string
  env_TunnelID :: string
  env_Payload :: bytes

record json =
  marshal :: "payload \<Rightarrow> bytes option"
  unAuthRequest :: "bytes \<Rightarrow> AuthRequest option"
  unAuthOK :: "bytes \<Rightarrow> AuthOK option"
  unError :: "bytes \<Rightarrow> ErrorPayload option"
  unTunnelRegister :: "bytes \<Rightarrow> TunnelRegister option"
  unTunnelRegistered :: "bytes \<Rightarrow> TunnelRegistered option"
  unStreamCancel :: "bytes \<Rightarrow> StreamCancel option"
  unRequest :: "bytes \<Rightarrow> Request option"
  unRequestStart :: "bytes \<Rightarrow> RequestStart option"
  unResponse :: "bytes \<Rightarrow> Response option"
  unResponseStart :: "bytes \<Rightarrow> ResponseStart option"
  unBodyChunk :: "bytes \<Rightarrow> BodyChunk option"
  unWSOpen :: "bytes \<Rightarrow> WSOpen option"
  unWSAccept :: "bytes \<Rightarrow> WSAccept option"
  unWSClose :: "bytes \<Rightarrow> WSClose option"
  marshalEnvelope :: "Envelope \<Rightarrow> bytes option"
  unEnvelope :: "bytes \<Rightarrow> Envelope option"

datatype msg_error =
    MessageTypeRequired
  | EncodePayload
  | PayloadRequired
  | DecodePayloadFailed msg_type
  | UnsupportedBodyType msg_type
  | UnsupportedFrameByte char
  | StreamIDRequired
  | StreamIDTooLong
  | TunnelIDTooLong
  | FrameTooShort
  | FrameMagic
  | FrameTruncated
  | JSONMessage
  | UnsupportedMessageType
  | ConnError

definition marshalPayload :: "json \<Rightarrow> payload \<Rightarrow> msg_error + bytes" where
  "marshalPayload js p =
     (if p = PNil then Inr ''{}''
      else case marshal js p of None \<Rightarrow> Inl EncodePayload | Some raw \<Rightarrow> Inr raw)"

definition NewStream ::
  "json \<Rightarrow> msg_type \<Rightarrow> string \<Rightarrow> string \<Rightarrow> payload \<Rightarrow> msg_error + Envelope" where
  "NewStream js typ streamID tunnelID p =
     (if typ = OtherType [] then Inl MessageTypeRequired
      else case marshalPayload js p of
             Inl e \<Rightarrow> Inl e
           | Inr raw \<Rightarrow> Inr \<lparr>env_Type = typ, env_StreamID = streamID, env_TunnelID = tunnelID,
                             env_Payload = raw\<rparr>)"

definition NewEnvelope :: "json \<Rightarrow> msg_type \<Rightarrow> payload \<Rightarrow> msg_error + Envelope" where
  "NewEnvelope js typ p = NewStream js typ [] [] p"

definition DecodePayload :: "(bytes \<Rightarrow> 'a option) \<Rightarrow> Envelope \<Rightarrow> msg_error + 'a" where
  "DecodePayload un env =
     (if env_Payload env = [] then Inl PayloadRequired
      else case un (env_Payload env) of
             None \<Rightarrow> Inl (DecodePayloadFailed (env_Type env))
           | Some v \<Rightarrow> Inr v)"

section \<open>Protocol versions and capabilities\<close>

definition ProtocolVersion :: string where
  "ProtocolVersion = ''0.3''"

definition MinSupportedProtocolVersion :: string where
  "MinSupportedProtocolVersion = ''0.2''"

definition CapabilityWebSocketTunnel :: string where
  "CapabilityWebSocketTunnel = ''websocket_tunnel''"

definition RequiredProtocolCapabilities :: "string list" where
  "RequiredProtocolCapabilities = [''stream_start_end'', ''binary_body_frames'', ''stream_cancel'']"

definition DefaultProtocolCapabilities :: "string list" where
  "DefaultProtocolCapabilities = RequiredProtocolCapabilities @ [CapabilityWebSocketTunnel]"

definition parseProtocolVersion :: "string \<Rightarrow> (int \<times> int) option" where
  "parseProtocolVersion version =
     (case SplitN2 version CHR ''.'' of
        [a, b] \<Rightarrow> (case (Atoi a, Atoi b) of
                    (Some major, Some minor) \<Rightarrow>
                      if major < 0 \<or> minor < 0 then None else Some (major, minor)
                  | _ \<Rightarrow> None)
      | _ \<Rightarrow> None)"

definition IsProtocolVersionSupported :: "string \<Rightarrow> bool" where
  "IsProtocolVersionSupported version =
     (case parseProtocolVersion version of
        None \<Rightarrow> False
      | Some (major, minor) \<Rightarrow>
          let (minMajor, minMinor) =
                (case parseProtocolVersion MinSupportedProtocolVersion of
                   None \<Rightarrow> (0, 0) | Some p \<Rightarrow> p)
          in if major \<noteq> minMajor then major > minMajor else minor \<ge> minMinor)"

definition MissingRequiredCapabilities :: "string list \<Rightarrow> string list \<Rightarrow> string list" where
  "MissingRequiredCapabilities capabilities required =
     (if required = [] then []
      else let m0 = foldl (\<lambda>m c. insert c m) {} required;
               m1 = foldl (\<lambda>m c. m - {c}) m0 capabilities
           in sorted_list_of_set m1)"

section \<open>Binary body frames\<close>

record BinaryBodyFrame =
  bf_Type :: msg_type
  bf_StreamID :: string
  bf_TunnelID :: string
  bf_Data :: bytes

definition binaryBodyMagic :: string where
  "binaryBodyMagic = ''PHB1''"

definition binaryBodyHeader :: nat where
  "binaryBodyHeader = length binaryBodyMagic + 1 + 2 + 2"

definition binaryBodyFrameType :: "msg_type \<Rightarrow> msg_error + char" where
  "binaryBodyFrameType typ =
     (case typ of
        TypeHTTPRequestBody \<Rightarrow> Inr (char_of (1 :: nat))
      | TypeHTTPResponseBody \<Rightarrow> Inr (char_of (2 :: nat))
      | TypeWSMessageText \<Rightarrow> Inr (char_of (3 :: nat))
      | TypeWSMessageBinary \<Rightarrow> Inr (char_of (4 :: nat))
      | _ \<Rightarrow> Inl (UnsupportedBodyType typ))"

definition binaryBodyMessageType :: "char \<Rightarrow> msg_error + msg_type" where
  "binaryBodyMessageType b =
     (let n = of_char b :: nat in
      if n = 1 then Inr TypeHTTPRequestBody
      else if n = 2 then Inr TypeHTTPResponseBody
      else if n = 3 then Inr TypeWSMessageText
      else if n = 4 then Inr TypeWSMessageBinary
      else Inl (UnsupportedFrameByte b))"

definition PutUint16 :: "nat \<Rightarrow> bytes" where
  "PutUint16 n = (let v = n mod 65536 in [char_of (v div 256), char_of (v mod 256)])"

definition Uint16 :: "bytes \<Rightarrow> nat" where
  "Uint16 b = of_char (b ! 0) * 256 + of_char (b ! 1)"

definition NewBinaryBodyFrame ::
  "msg_type \<Rightarrow> string \<Rightarrow> string \<Rightarrow> bytes \<Rightarrow> msg_error + bytes" where
  "NewBinaryBodyFrame typ streamID tunnelID data =
     (case binaryBodyFrameType typ of
        Inl e \<Rightarrow> Inl e
      | Inr frameType \<Rightarrow>
          if streamID = [] then Inl StreamIDRequired
          else if length streamID > 65535 then Inl StreamIDTooLong
          else if length tunnelID > 65535 then Inl TunnelIDTooLong
          else Inr (binaryBodyMagic @ [frameType] @ PutUint16 (length streamID)
                    @ PutUint16 (length tunnelID) @ streamID @ tunnelID @ data))"

definition DecodeBinaryBodyFrame :: "bytes \<Rightarrow> msg_error + BinaryBodyFrame" where
  "DecodeBinaryBodyFrame frame =
     (if length frame < binaryBodyHeader then Inl FrameTooShort
      else if take (length binaryBodyMagic) frame \<noteq> binaryBodyMagic then Inl FrameMagic
      else case binaryBodyMessageType (frame ! length binaryBodyMagic) of
             Inl e \<Rightarrow> Inl e
           | Inr typ \<Rightarrow>
               let streamLen = Uint16 (drop (length binaryBodyMagic + 1) frame);
                   tunnelLen = Uint16 (drop (length binaryBodyMagic + 3) frame)
               in if length frame < binaryBodyHeader + streamLen + tunnelLen then Inl FrameTruncated
                  else let streamID = take streamLen (drop binaryBodyHeader frame);
                           tunnelID = take tunnelLen (drop (binaryBodyHeader + streamLen) frame)
                       in if streamID = [] then Inl StreamIDRequired
                          else Inr \<lparr>bf_Type = typ, bf_StreamID = streamID, bf_TunnelID = tunnelID,
                                    bf_Data = drop (binaryBodyHeader + streamLen + tunnelLen) frame\<rparr>)"

section \<open>Messages on a WebSocket connection\<close>

datatype ws_kind = MessageText | MessageBinary | MessageOther

record Message =
  msg_Envelope :: Envelope
  msg_Body :: bytes
  msg_BinaryBody :: bool

definition ReadLimitForChunkBytes :: "int \<Rightarrow> int" where
  "ReadLimitForChunkBytes chunkBytes =
     (let c = (if chunkBytes \<le> 0 then 32768 else chunkBytes) in wrap64 (wrap64 (c * 2) + 16384))"

text \<open>
  \<open>wireRead\<close> gets what \<open>conn.Read\<close> returned (\<^term>\<open>None\<close> for its error); \<open>WriteEnvelope\<close> and
  \<open>WriteBinaryBody\<close> yield what is handed to \<open>conn.Write\<close>.
\<close>

definition wireRead :: "json \<Rightarrow> (ws_kind \<times> bytes) option \<Rightarrow> msg_error + Message" where
  "wireRead js r =
     (case r of
        None \<Rightarrow> Inl ConnError
      | Some (MessageText, data) \<Rightarrow>
          (case unEnvelope js data of
             None \<Rightarrow> Inl JSONMessage
           | Some env \<Rightarrow> Inr \<lparr>msg_Envelope = env, msg_Body = [], msg_BinaryBody = False\<rparr>)
      | Some (MessageBinary, data) \<Rightarrow>
          (case DecodeBinaryBodyFrame data of
             Inl e \<Rightarrow> Inl e
           | Inr frame \<Rightarrow>
               (case NewStream js (bf_Type frame) (bf_StreamID frame) (bf_TunnelID frame) PNil of
                  Inl e \<Rightarrow> Inl e
                | Inr env \<Rightarrow> Inr \<lparr>msg_Envelope = env, msg_Body = bf_Data frame,
                                   msg_BinaryBody = True\<rparr>))
      | Some (MessageOther, data) \<Rightarrow> Inl UnsupportedMessageType)"

definition WriteEnvelope :: "json \<Rightarrow> Envelope \<Rightarrow> msg_error + (ws_kind \<times> bytes)" where
  "WriteEnvelope js env =
     (case marshalEnvelope js env of
        None \<Rightarrow> Inl JSONMessage
      | Some data \<Rightarrow> Inr (MessageText, data))"

definition WriteBinaryBody ::
  "msg_type \<Rightarrow> string \<Rightarrow> string \<Rightarrow> bytes \<Rightarrow> msg_error + (ws_kind \<times> bytes)" where
  "WriteBinaryBody typ streamID tunnelID data =
     (case NewBinaryBodyFrame typ streamID tunnelID data of
        Inl e \<Rightarrow> Inl e
      | Inr frame \<Rightarrow> Inr (MessageBinary, frame))"

section \<open>Lemmas\<close>

lemma Uint16_PutUint16: "n \<le> 65535 \<Longrightarrow> Uint16 (PutUint16 n @ r) = n"
  by (simp add: Uint16_def PutUint16_def Let_def)

lemma PutUint16_Uint16:
  assumes "b = x # y # r"
  shows "PutUint16 (Uint16 b) = [x, y]" "Uint16 b \<le> 65535"
proof -
  have xy: "of_char x < (256 :: nat)" "of_char y < (256 :: nat)" by simp_all
  then have "of_char x * 256 + of_char y \<le> (65535 :: nat)" by linarith
  then have u: "Uint16 b \<le> 65535" by (simp add: assms Uint16_def)
  from xy have "Uint16 b div 256 = of_char x" "Uint16 b mod 256 = of_char y"
    by (simp_all add: assms Uint16_def)
  with u show "PutUint16 (Uint16 b) = [x, y]" by (simp only: PutUint16_def Let_def) simp
  from u show "Uint16 b \<le> 65535" .
qed

lemma frame_type_message_type:
  "binaryBodyFrameType typ = Inr b \<longleftrightarrow> binaryBodyMessageType b = Inr typ"
proof
  assume "binaryBodyFrameType typ = Inr b"
  then show "binaryBodyMessageType b = Inr typ"
    by (cases "typ") (auto simp: binaryBodyFrameType_def binaryBodyMessageType_def Let_def)
next
  assume "binaryBodyMessageType b = Inr typ"
  have char: "char_of n = b" if "of_char b = n" for n :: nat using that by auto
  from \<open>binaryBodyMessageType b = Inr typ\<close> show "binaryBodyFrameType typ = Inr b"
    by (auto simp: binaryBodyFrameType_def binaryBodyMessageType_def Let_def intro: char
        split: if_splits)
qed

lemma NewBinaryBodyFrame_Inr_iff:
  "NewBinaryBodyFrame typ s t d = Inr f \<longleftrightarrow>
     (\<exists>b. binaryBodyFrameType typ = Inr b \<and> s \<noteq> [] \<and> length s \<le> 65535 \<and> length t \<le> 65535 \<and>
          f = binaryBodyMagic @ [b] @ PutUint16 (length s) @ PutUint16 (length t) @ s @ t @ d)"
  by (auto simp: NewBinaryBodyFrame_def split: sum.splits)

lemma PutUint16_length [simp]: "length (PutUint16 n) = 2"
  by (simp add: PutUint16_def Let_def)

lemma binaryBodyHeader_9 [simp]: "binaryBodyHeader = 9" "length binaryBodyMagic = 4"
  by (simp_all add: binaryBodyHeader_def binaryBodyMagic_def)

lemma frame_length:
  assumes "NewBinaryBodyFrame typ s t d = Inr f"
  shows "length f = 9 + length s + length t + length d"
  using assms by (auto simp: NewBinaryBodyFrame_Inr_iff)

lemma drop9: "drop (9 + n) (p # q # u # v # b # w # x # y # z # r) = drop n r"
  by (simp add: eval_nat_numeral)

lemma decode_layout:
  assumes "length s \<le> 65535" "length t \<le> 65535" "s \<noteq> []" "binaryBodyMessageType b = Inr typ"
  shows "DecodeBinaryBodyFrame
           (binaryBodyMagic @ [b] @ PutUint16 (length s) @ PutUint16 (length t) @ s @ t @ d) =
         Inr \<lparr>bf_Type = typ, bf_StreamID = s, bf_TunnelID = t, bf_Data = d\<rparr>"
proof -
  obtain a1 a2 where a: "PutUint16 (length s) = [a1, a2]" by (simp add: PutUint16_def Let_def)
  obtain c1 c2 where c: "PutUint16 (length t) = [c1, c2]" by (simp add: PutUint16_def Let_def)
  have "Uint16 (a1 # a2 # r) = length s" "Uint16 (c1 # c2 # r) = length t" for r
    using Uint16_PutUint16 [OF assms(1), of r] Uint16_PutUint16 [OF assms(2), of r]
    by (simp_all add: a c)
  with assms show ?thesis
    by (simp add: DecodeBinaryBodyFrame_def a c Let_def binaryBodyMagic_def add.assoc drop9)
qed

lemma decode_encode:
  assumes "NewBinaryBodyFrame typ s t d = Inr f"
  shows "DecodeBinaryBodyFrame f = Inr \<lparr>bf_Type = typ, bf_StreamID = s, bf_TunnelID = t, bf_Data = d\<rparr>"
  using assms decode_layout by (auto simp: NewBinaryBodyFrame_Inr_iff frame_type_message_type)

lemma decode_shape:
  assumes "DecodeBinaryBodyFrame f = Inr fr"
  shows "\<exists>b a1 a2 c1 c2 r. f = binaryBodyMagic @ [b, a1, a2, c1, c2] @ r \<and>
           binaryBodyMessageType b = Inr (bf_Type fr) \<and>
           Uint16 [a1, a2] + Uint16 [c1, c2] \<le> length r \<and>
           bf_StreamID fr = take (Uint16 [a1, a2]) r \<and> bf_StreamID fr \<noteq> [] \<and>
           bf_TunnelID fr = take (Uint16 [c1, c2]) (drop (Uint16 [a1, a2]) r) \<and>
           bf_Data fr = drop (Uint16 [a1, a2] + Uint16 [c1, c2]) r"
proof -
  from assms have len: "9 \<le> length f" and m: "take 4 f = binaryBodyMagic"
    by (auto simp: DecodeBinaryBodyFrame_def split: if_splits)
  obtain b a1 a2 c1 c2 r where "drop 4 f = b # a1 # a2 # c1 # c2 # r"
  proof -
    obtain g where g: "g = drop 4 f" by blast
    with len have "Suc (Suc (Suc (Suc (Suc 0)))) \<le> length g" by simp
    then show thesis using that by (auto simp: Suc_le_length_iff simp flip: g)
  qed
  with m have f: "f = binaryBodyMagic @ [b, a1, a2, c1, c2] @ r"
    by (metis append_Cons append_Nil append_take_drop_id)
  have u: "Uint16 (c1 # c2 # r) = Uint16 [c1, c2]" "Uint16 (a1 # a2 # c1 # c2 # r) = Uint16 [a1, a2]"
    by (simp_all add: Uint16_def)
  have "DecodeBinaryBodyFrame f =
    (case binaryBodyMessageType b of Inl e \<Rightarrow> Inl e
     | Inr ty \<Rightarrow> if length r < Uint16 [a1, a2] + Uint16 [c1, c2] then Inl FrameTruncated
        else if take (Uint16 [a1, a2]) r = [] then Inl StreamIDRequired
        else Inr \<lparr>bf_Type = ty, bf_StreamID = take (Uint16 [a1, a2]) r,
          bf_TunnelID = take (Uint16 [c1, c2]) (drop (Uint16 [a1, a2]) r),
          bf_Data = drop (Uint16 [a1, a2] + Uint16 [c1, c2]) r\<rparr>)"
    by (simp add: DecodeBinaryBodyFrame_def f u binaryBodyMagic_def Let_def add.assoc drop9
        split: sum.split)
  with assms have "binaryBodyMessageType b = Inr (bf_Type fr) \<and>
      Uint16 [a1, a2] + Uint16 [c1, c2] \<le> length r \<and>
      bf_StreamID fr = take (Uint16 [a1, a2]) r \<and> bf_StreamID fr \<noteq> [] \<and>
      bf_TunnelID fr = take (Uint16 [c1, c2]) (drop (Uint16 [a1, a2]) r) \<and>
      bf_Data fr = drop (Uint16 [a1, a2] + Uint16 [c1, c2]) r"
    by (simp split: sum.splits if_splits) auto
  with f show ?thesis by blast
qed

lemma encode_decode:
  assumes "DecodeBinaryBodyFrame f = Inr fr"
  shows "NewBinaryBodyFrame (bf_Type fr) (bf_StreamID fr) (bf_TunnelID fr) (bf_Data fr) = Inr f"
proof -
  from decode_shape [OF assms] obtain b a1 a2 c1 c2 r where
    f: "f = binaryBodyMagic @ [b, a1, a2, c1, c2] @ r"
    and b: "binaryBodyMessageType b = Inr (bf_Type fr)"
    and le: "Uint16 [a1, a2] + Uint16 [c1, c2] \<le> length r"
    and s: "bf_StreamID fr = take (Uint16 [a1, a2]) r" "bf_StreamID fr \<noteq> []"
    and t: "bf_TunnelID fr = take (Uint16 [c1, c2]) (drop (Uint16 [a1, a2]) r)"
    and d: "bf_Data fr = drop (Uint16 [a1, a2] + Uint16 [c1, c2]) r" by blast
  have ls: "length (bf_StreamID fr) = Uint16 [a1, a2]" and lt: "length (bf_TunnelID fr) = Uint16 [c1, c2]"
    using le by (simp_all add: s(1) t)
  have "bf_StreamID fr @ bf_TunnelID fr @ bf_Data fr = r"
    by (simp add: s(1) t d) (metis append_take_drop_id drop_drop add.commute)
  then show ?thesis
    using b s(2) PutUint16_Uint16 [of "[a1, a2]" a1 a2 "[]"] PutUint16_Uint16 [of "[c1, c2]" c1 c2 "[]"]
    by (simp add: NewBinaryBodyFrame_Inr_iff frame_type_message_type f ls lt)
qed

lemma MissingRequired_fold:
  "foldl (\<lambda>m c. insert c m) A xs = A \<union> set xs" "foldl (\<lambda>m c. m - {c}) A xs = A - set xs"
  by (induction xs arbitrary: A) auto

lemma MissingRequiredCapabilities_eq:
  "MissingRequiredCapabilities caps req = sorted_list_of_set (set req - set caps)"
  by (simp add: MissingRequiredCapabilities_def MissingRequired_fold)

lemma MissingRequiredCapabilities_Nil_iff:
  "MissingRequiredCapabilities caps req = [] \<longleftrightarrow> set req \<subseteq> set caps"
  by (simp add: MissingRequiredCapabilities_eq)

lemma ReadLimit_default: "ReadLimitForChunkBytes 32768 = 81920"
  by (simp add: ReadLimitForChunkBytes_def wrap64_def)

lemma ReadLimit_eq:
  assumes "0 < c" "c \<le> 2 ^ 61"
  shows "ReadLimitForChunkBytes c = 2 * c + 16384"
  using assms by (simp add: ReadLimitForChunkBytes_def Let_def int64_def)

lemma parse_min: "parseProtocolVersion MinSupportedProtocolVersion = Some (0, 2)"
  by code_simp

section \<open>Properties\<close>

text \<open>
  C14: Binary body frames are coded one to one: a byte string is the encoding of a message type,
  stream id, tunnel id and data exactly when decoding it gives them back.
\<close>

theorem binary_frame_bijective:
  "NewBinaryBodyFrame typ s t d = Inr f \<longleftrightarrow>
   DecodeBinaryBodyFrame f = Inr \<lparr>bf_Type = typ, bf_StreamID = s, bf_TunnelID = t, bf_Data = d\<rparr>"
  using decode_encode encode_decode by fastforce

text \<open>
  A frame that carries one body chunk fits the read limit its receiver derives from the same
  chunk size, as long as the two identifiers take at most 16375 bytes together; so the
  connection is not torn down by a well-formed body frame.
\<close>

theorem body_frame_fits_read_limit:
  assumes "NewBinaryBodyFrame typ s t d = Inr f" "0 < c" "c \<le> 2 ^ 61"
    and "int (length d) \<le> c" "length s + length t \<le> 16375"
  shows "int (length f) \<le> ReadLimitForChunkBytes c"
  using frame_length [OF assms(1)] assms(2-) by (simp add: ReadLimit_eq)

theorem body_frame_fits_read_limit_witness:
  "int (length (binaryBodyMagic @ [char_of (1 :: nat)] @ PutUint16 (length ''s1'') @ PutUint16 (length ''t'') @ ''s1'' @ ''t'' @ ''data''))
     \<le> ReadLimitForChunkBytes 32768"
  by (rule body_frame_fits_read_limit [of TypeHTTPRequestBody "''s1''" "''t''" "''data''"])
    (simp_all add: NewBinaryBodyFrame_Inr_iff binaryBodyFrameType_def)

end
