(* ===== verification/Stores.thy ===== *)
theory Stores
  imports Prelude
begin

text \<open>
  The contract of the stores the gateway and the control plane keep their records in: a record
  has an identifier and a second unique key (a tunnel's subdomain, a token's hash, a
  reservation's name, ...), and it can be created, looked up by either, changed and deleted.
  The contract is stated as locales; the clients' lemmas are proved once from it.  The registry
  and the five memory stores interpret it.  The second half of the theory holds what the
  interpretations share, the consistency of a pair of maps \<open>byID\<close> and \<open>byKey\<close>.
\<close>

section \<open>The contract\<close>

locale keyed_store =
  fixes inv :: "'s \<Rightarrow> bool"
    and ident :: "'r \<Rightarrow> 'i"
    and key :: "'r \<Rightarrow> 'k"
    and admissible :: "'r \<Rightarrow> bool"
    and empty :: 's
    and create :: "'s \<Rightarrow> 'r \<Rightarrow> 'e + 's"
    and lookupID :: "'s \<Rightarrow> 'i \<Rightarrow> 'r option"
    and lookupKey :: "'s \<Rightarrow> 'k \<Rightarrow> 'r option"
  assumes empty_inv: "inv empty"
    and empty_lookup: "lookupID empty i = None"
    and lookup_ident: "inv s \<Longrightarrow> lookupID s i = Some r \<Longrightarrow> ident r = i"
    and lookup_key: "inv s \<Longrightarrow> lookupKey s k = Some r \<longleftrightarrow> lookupID s (ident r) = Some r \<and> key r = k"
    and create_total: "inv s \<Longrightarrow> admissible r \<Longrightarrow> lookupID s (ident r) = None \<Longrightarrow>
          lookupKey s (key r) = None \<Longrightarrow> \<exists>s'. create s r = Inr s'"
    and create_guard: "inv s \<Longrightarrow> create s r = Inr s' \<Longrightarrow>
          admissible r \<and> lookupID s (ident r) = None \<and> lookupKey s (key r) = None"
    and create_inv: "inv s \<Longrightarrow> create s r = Inr s' \<Longrightarrow> inv s'"
    and create_lookup: "inv s \<Longrightarrow> create s r = Inr s' \<Longrightarrow>
          lookupID s' i = (if i = ident r then Some r else lookupID s i)"
begin

definition records :: "'s \<Rightarrow> 'r set" where
  "records s = {r. lookupID s (ident r) = Some r}"

lemma records_empty: "records empty = {}"
  by (simp add: records_def empty_lookup)

lemma records_iff: "inv s \<Longrightarrow> r \<in> records s \<longleftrightarrow> (\<exists>i. lookupID s i = Some r)"
  using lookup_ident by (auto simp: records_def)

lemma records_key_unique:
  "inv s \<Longrightarrow> r \<in> records s \<Longrightarrow> q \<in> records s \<Longrightarrow> key r = key q \<Longrightarrow> r = q"
  using lookup_key by (metis (mono_tags) mem_Collect_eq option.inject records_def)

lemma records_ident_unique:
  "r \<in> records s \<Longrightarrow> q \<in> records s \<Longrightarrow> ident r = ident q \<Longrightarrow> r = q"
  by (simp add: records_def)

lemma lookupKey_records: "inv s \<Longrightarrow> lookupKey s k = Some r \<longleftrightarrow> r \<in> records s \<and> key r = k"
  by (simp add: lookup_key records_def)

lemma lookupKey_None: "inv s \<Longrightarrow> lookupKey s k = None \<longleftrightarrow> (\<forall>r\<in>records s. key r \<noteq> k)"
  using lookupKey_records by (metis not_None_eq)

text \<open>Creation inserts exactly the new record, or fails because one of its keys is taken.\<close>

lemma create_records:
  assumes "inv s" "create s r = Inr s'"
  shows "records s' = insert r (records s)"
proof -
  have "lookupID s (ident r) = None" using create_guard [OF assms] by simp
  then show ?thesis using create_lookup [OF assms] by (auto simp: records_def split: if_splits)
qed

lemma create_error_iff:
  assumes "inv s"
  shows "(\<exists>e. create s r = Inl e) \<longleftrightarrow>
    \<not> admissible r \<or> lookupID s (ident r) \<noteq> None \<or> lookupKey s (key r) \<noteq> None"
proof (cases "create s r")
  case (Inl e)
  then show ?thesis using create_total [OF assms, of r] by auto
next
  case (Inr s')
  then show ?thesis using create_guard [OF assms Inr] by auto
qed

lemma create_lookupKey:
  assumes "inv s" "create s r = Inr s'"
  shows "lookupKey s' k = (if k = key r then Some r else lookupKey s k)"
proof -
  note rec = create_records [OF assms] and inv' = create_inv [OF assms]
  have free: "\<forall>q\<in>records s. key q \<noteq> key r"
    using create_guard [OF assms] lookupKey_None [OF assms(1)] by simp
  show ?thesis
    by (rule option_eqI)
      (use free in \<open>auto simp: lookupKey_records [OF inv'] lookupKey_records [OF assms(1)] rec\<close>)
qed

end

locale keyed_store_delete =
  keyed_store inv ident key admissible empty create lookupID lookupKey
  for inv :: "'s \<Rightarrow> bool" and ident :: "'r \<Rightarrow> 'i" and key :: "'r \<Rightarrow> 'k" and admissible empty
    and create :: "'s \<Rightarrow> 'r \<Rightarrow> 'e + 's" and lookupID lookupKey +
  fixes delete :: "'s \<Rightarrow> 'i \<Rightarrow> 's"
  assumes delete_inv: "inv s \<Longrightarrow> inv (delete s i)"
    and delete_lookup: "inv s \<Longrightarrow> lookupID (delete s i) j = (if j = i then None else lookupID s j)"
begin

lemma delete_records: "inv s \<Longrightarrow> records (delete s i) = {r \<in> records s. ident r \<noteq> i}"
  by (auto simp: records_def delete_lookup)

text \<open>Deleting a record frees its key, and touches no other key.\<close>

lemma delete_lookupKey:
  assumes "inv s"
  shows "lookupKey (delete s i) k =
    (case lookupKey s k of None \<Rightarrow> None | Some r \<Rightarrow> if ident r = i then None else Some r)"
proof -
  have "lookupKey (delete s i) k = Some q \<longleftrightarrow> lookupKey s k = Some q \<and> ident q \<noteq> i" for q
    by (auto simp: lookupKey_records [OF delete_inv [OF assms]] lookupKey_records [OF assms]
        delete_records [OF assms])
  then show ?thesis by (intro option_eqI) (auto split: option.split if_splits)
qed

lemma delete_create:
  assumes "inv s" "create s r = Inr s'"
  shows "records (delete s' (ident r)) = records s"
  using create_guard [OF assms]
  by (auto simp: records_def delete_lookup [OF create_inv [OF assms]] create_lookup [OF assms])

lemma delete_frees_key:
  assumes "inv s" "lookupID s i = Some r"
  shows "lookupKey (delete s i) (key r) = None"
proof -
  have "ident r = i" using lookup_ident [OF assms] .
  then have "lookupKey s (key r) = Some r" using assms by (simp add: lookup_key)
  with \<open>ident r = i\<close> show ?thesis by (simp add: delete_lookupKey [OF assms(1)])
qed

end

locale keyed_store_modify =
  keyed_store inv ident key admissible empty create lookupID lookupKey
  for inv :: "'s \<Rightarrow> bool" and ident :: "'r \<Rightarrow> 'i" and key :: "'r \<Rightarrow> 'k" and admissible empty
    and create :: "'s \<Rightarrow> 'r \<Rightarrow> 'e + 's" and lookupID lookupKey +
  fixes modify :: "'s \<Rightarrow> 'i \<Rightarrow> 'a \<Rightarrow> 's" and change :: "'a \<Rightarrow> 'r \<Rightarrow> 'r"
  assumes modify_inv: "inv s \<Longrightarrow> inv (modify s i a)"
    and modify_lookup: "inv s \<Longrightarrow>
          lookupID (modify s i a) j = (if j = i then map_option (change a) (lookupID s i) else lookupID s j)"
    and change_ident: "ident (change a r) = ident r"
    and change_key: "key (change a r) = key r"
begin

lemma modify_lookupKey:
  assumes "inv s"
  shows "lookupKey (modify s i a) k =
    map_option (\<lambda>r. if ident r = i then change a r else r) (lookupKey s k)"
proof -
  note keyD = lookup_key [OF modify_inv [OF assms]] lookup_key [OF assms] modify_lookup [OF assms]
  have known: "\<exists>r. lookupKey s k = Some r" if q: "lookupKey (modify s i a) k = Some q" for q
  proof (cases "ident q = i")
    case True
    with q obtain r where r: "lookupID s i = Some r" "q = change a r" "key q = k" by (auto simp: keyD)
    then have "lookupKey s k = Some r" "ident r = i"
      using lookup_ident [OF assms r(1)] by (auto simp: keyD change_key)
    then show ?thesis by auto
  qed (use q in \<open>auto simp: keyD\<close>)
  show ?thesis
  proof (cases "lookupKey s k")
    case None
    with known show ?thesis by (cases "lookupKey (modify s i a) k") auto
  next
    case (Some r)
    then have "lookupKey (modify s i a) k = Some (if ident r = i then change a r else r)"
      by (auto simp: keyD change_ident change_key)
    with Some show ?thesis by simp
  qed
qed

end

locale keyed_store_update =
  keyed_store inv ident key admissible empty create lookupID lookupKey
  for inv :: "'s \<Rightarrow> bool" and ident :: "'r \<Rightarrow> 'i" and key :: "'r \<Rightarrow> 'k" and admissible empty
    and create :: "'s \<Rightarrow> 'r \<Rightarrow> 'e + 's" and lookupID lookupKey +
  fixes update :: "'s \<Rightarrow> 'r \<Rightarrow> 'e + 's"
  assumes update_guard: "inv s \<Longrightarrow> update s r = Inr s' \<Longrightarrow>
          lookupID s (ident r) \<noteq> None \<and> (case lookupKey s (key r) of None \<Rightarrow> True | Some q \<Rightarrow> ident q = ident r)"
    and update_inv: "inv s \<Longrightarrow> update s r = Inr s' \<Longrightarrow> inv s'"
    and update_lookup: "inv s \<Longrightarrow> update s r = Inr s' \<Longrightarrow>
          lookupID s' i = (if i = ident r then Some r else lookupID s i)"
begin

lemma update_records:
  assumes "inv s" "update s r = Inr s'"
  shows "records s' = insert r {q \<in> records s. ident q \<noteq> ident r}"
  using update_lookup [OF assms] by (auto simp: records_def split: if_splits)

lemma update_lookupKey:
  assumes "inv s" "update s r = Inr s'"
  shows "lookupKey s' k = (if k = key r then Some r
     else case lookupKey s k of None \<Rightarrow> None | Some q \<Rightarrow> if ident q = ident r then None else Some q)"
proof -
  note rec = update_records [OF assms] and inv' = update_inv [OF assms]
  have other: "ident q = ident r" if "q \<in> records s" "key q = key r" for q
  proof -
    have "lookupKey s (key r) = Some q" using that by (simp add: lookupKey_records [OF assms(1)])
    then show ?thesis using update_guard [OF assms] by simp
  qed
  have "lookupKey s' k = Some q \<longleftrightarrow> (if k = key r then q = r
      else lookupKey s k = Some q \<and> ident q \<noteq> ident r)" for q
    using other by (auto simp: lookupKey_records [OF inv'] lookupKey_records [OF assms(1)] rec)
  then show ?thesis by (intro option_eqI) (auto split: option.split if_splits)
qed

end

section \<open>Two maps that index each other\<close>

definition indexed :: "('r \<Rightarrow> 'i) \<Rightarrow> ('r \<Rightarrow> 'k) \<Rightarrow> ('i \<rightharpoonup> 'r) \<Rightarrow> ('k \<rightharpoonup> 'i) \<Rightarrow> bool" where
  "indexed ident key byID byKey \<longleftrightarrow>
     (\<forall>i r. byID i = Some r \<longrightarrow> ident r = i \<and> byKey (key r) = Some i) \<and>
     (\<forall>k i. byKey k = Some i \<longrightarrow> (\<exists>r. byID i = Some r \<and> key r = k))"

lemma indexed_empty: "indexed ident key Map.empty Map.empty"
  by (simp add: indexed_def)

lemma indexed_ident: "indexed ident key m n \<Longrightarrow> m i = Some r \<Longrightarrow> ident r = i"
  by (simp add: indexed_def)

lemma indexed_lookup:
  assumes "indexed ident key m n"
  shows "(case n k of None \<Rightarrow> None | Some i \<Rightarrow> m i) = Some r \<longleftrightarrow> m (ident r) = Some r \<and> key r = k"
proof (cases "n k")
  case None
  moreover have "n k \<noteq> None" if "m (ident r) = Some r" "key r = k"
    using assms that unfolding indexed_def by blast
  ultimately show ?thesis by auto
next
  case (Some i)
  then obtain q where "m i = Some q" "key q = k" "ident q = i" using assms unfolding indexed_def by blast
  moreover have "i = ident r" if "m (ident r) = Some r" "key r = k"
    using assms that Some unfolding indexed_def by (metis option.inject)
  ultimately show ?thesis using Some by auto
qed

lemma indexed_key_free:
  assumes "indexed ident key m n"
  shows "(case n k of None \<Rightarrow> None | Some i \<Rightarrow> m i) = None \<longleftrightarrow> n k = None"
  using assms unfolding indexed_def by (cases "n k") fastforce+

lemma indexed_insert:
  assumes "indexed ident key m n" "m (ident r) = None" "n (key r) = None"
  shows "indexed ident key (m(ident r \<mapsto> r)) (n(key r \<mapsto> ident r))"
  using assms unfolding indexed_def by (auto split: if_splits) (metis option.distinct(1))+

lemma indexed_delete:
  assumes "indexed ident key m n" "m i = Some r"
  shows "indexed ident key (m(i := None)) (n(key r := None))"
  using assms unfolding indexed_def by (auto split: if_splits) (metis option.inject)+

lemma indexed_replace:
  assumes "indexed ident key m n" "m i = Some r" "ident r' = i" "key r' = key r"
  shows "indexed ident key (m(i \<mapsto> r')) n" "indexed ident key (m(i \<mapsto> r')) (n(key r' \<mapsto> i))"
proof -
  show *: "indexed ident key (m(i \<mapsto> r')) n"
    using assms unfolding indexed_def by (auto split: if_splits) (metis option.inject)+
  have "n(key r' \<mapsto> i) = n" using assms by (auto simp: indexed_def)
  with * show "indexed ident key (m(i \<mapsto> r')) (n(key r' \<mapsto> i))" by simp
qed

lemma indexed_rekey:
  assumes "indexed ident key m n" "m (ident r') = Some r"
    and "n (key r') = None \<or> n (key r') = Some (ident r')"
  shows "indexed ident key (m(ident r' \<mapsto> r')) (n(key r := None, key r' \<mapsto> ident r'))"
  using assms unfolding indexed_def by (auto split: if_splits) (metis option.inject option.distinct(1))+

end
