(* ===== verification/Registry.thy ===== *)
theory Registry
  imports Stores Messages
begin

text \<open>
  Package \<open>registry\<close> of the gateway: the live tunnels, found by tunnel id and by subdomain.
  Both maps of the code hold a pointer to the same \<open>Session\<close>, whose fields are not written
  after registration, so both hold the value here.
\<close>

record Session =
  ss_TunnelID :: string
  ss_Subdomain :: string
  ss_PublicURL :: string
  ss_LocalTarget :: string
  ss_Protocol :: string
  ss_AgentVersion :: string
  ss_ProtocolVersion :: string
  ss_Capabilities :: "string list"
  ss_CreatedAt :: gotime

record Registry =
  byTunnelID :: "string \<rightharpoonup> Session"
  bySubdomain :: "string \<rightharpoonup> Session"

datatype registry_error =
    SessionRequired
  | RegTunnelIDRequired
  | RegSubdomainRequired
  | ErrTunnelIDAlreadyRegistered
  | ErrSubdomainAlreadyRegistered

definition HasCapability :: "Session option \<Rightarrow> string \<Rightarrow> bool" where
  "HasCapability s capability =
     (case s of None \<Rightarrow> False | Some ss \<Rightarrow> list_ex (\<lambda>c. c = capability) (ss_Capabilities ss))"

definition NewRegistry :: Registry where
  "NewRegistry = \<lparr>byTunnelID = Map.empty, bySubdomain = Map.empty\<rparr>"

definition Register :: "Registry \<Rightarrow> Session option \<Rightarrow> registry_error + Registry" where
  "Register r session =
     (case session of
        None \<Rightarrow> Inl SessionRequired
      | Some s \<Rightarrow>
          if ss_TunnelID s = [] then Inl RegTunnelIDRequired
          else if ss_Subdomain s = [] then Inl RegSubdomainRequired
          else if byTunnelID r (ss_TunnelID s) \<noteq> None then Inl ErrTunnelIDAlreadyRegistered
          else if bySubdomain r (ss_Subdomain s) \<noteq> None then Inl ErrSubdomainAlreadyRegistered
          else Inr \<lparr>byTunnelID = (byTunnelID r)(ss_TunnelID s \<mapsto> s),
                    bySubdomain = (bySubdomain r)(ss_Subdomain s \<mapsto> s)\<rparr>)"

definition LookupByTunnelID :: "Registry \<Rightarrow> string \<Rightarrow> Session option" where
  "LookupByTunnelID r tunnelID = byTunnelID r tunnelID"

definition LookupBySubdomain :: "Registry \<Rightarrow> string \<Rightarrow> Session option" where
  "LookupBySubdomain r subdomain = bySubdomain r subdomain"

definition Unregister :: "Registry \<Rightarrow> string \<Rightarrow> Registry" where
  "Unregister r tunnelID =
     (case byTunnelID r tunnelID of
        None \<Rightarrow> r
      | Some session \<Rightarrow>
          \<lparr>byTunnelID = (byTunnelID r)(tunnelID := None),
           bySubdomain = (bySubdomain r)(ss_Subdomain session := None)\<rparr>)"

definition RegistryCount :: "Registry \<Rightarrow> nat" where
  "RegistryCount r = card (dom (byTunnelID r))"

definition RegistryList :: "Registry \<Rightarrow> string list \<Rightarrow> Session list" where
  "RegistryList r order = rangeValues order (byTunnelID r)"

definition registry_inv :: "Registry \<Rightarrow> bool" where
  "registry_inv r \<longleftrightarrow>
     finite (dom (byTunnelID r)) \<and>
     (\<forall>i s. byTunnelID r i = Some s \<longrightarrow> ss_TunnelID s = i \<and> i \<noteq> [] \<and> ss_Subdomain s \<noteq> []) \<and>
     (\<forall>k s. bySubdomain r k = Some s \<longleftrightarrow> byTunnelID r (ss_TunnelID s) = Some s \<and> ss_Subdomain s = k)"

text \<open>The registry's operations as a labelled step relation.\<close>

inductive registry_step :: "Registry \<Rightarrow> Registry \<Rightarrow> bool" where
  step_register: "Register r (Some s) = Inr r' \<Longrightarrow> registry_step r r'"
| step_unregister: "registry_step r (Unregister r i)"

inductive registry_reach :: "Registry \<Rightarrow> bool" where
  reach_new: "registry_reach NewRegistry"
| reach_step: "registry_reach r \<Longrightarrow> registry_step r r' \<Longrightarrow> registry_reach r'"

text \<open>A registry with one tunnel, used as an example below.\<close>

definition demoSession :: Session where
  "demoSession = \<lparr>ss_TunnelID = ''tun_1'', ss_Subdomain = ''demo'', ss_PublicURL = ''http://demo.localhost'',
     ss_LocalTarget = ''http://127.0.0.1:3000'', ss_Protocol = ''http'', ss_AgentVersion = ''0.3.0'',
     ss_ProtocolVersion = ''0.3'', ss_Capabilities = DefaultProtocolCapabilities, ss_CreatedAt = 0\<rparr>"

definition demoRegistry :: Registry where
  "demoRegistry = \<lparr>byTunnelID = [''tun_1'' \<mapsto> demoSession], bySubdomain = [''demo'' \<mapsto> demoSession]\<rparr>"

section \<open>Lemmas\<close>

lemma Register_Inr_iff:
  "Register r (Some s) = Inr r' \<longleftrightarrow>
     ss_TunnelID s \<noteq> [] \<and> ss_Subdomain s \<noteq> [] \<and> byTunnelID r (ss_TunnelID s) = None \<and>
     bySubdomain r (ss_Subdomain s) = None \<and>
     r' = \<lparr>byTunnelID = (byTunnelID r)(ss_TunnelID s \<mapsto> s),
           bySubdomain = (bySubdomain r)(ss_Subdomain s \<mapsto> s)\<rparr>"
  by (auto simp: Register_def)

lemma registry_invD:
  assumes "registry_inv r"
  shows "finite (dom (byTunnelID r))"
    and "byTunnelID r i = Some s \<Longrightarrow> ss_TunnelID s = i \<and> i \<noteq> [] \<and> ss_Subdomain s \<noteq> []"
    and "bySubdomain r k = Some s \<longleftrightarrow> byTunnelID r (ss_TunnelID s) = Some s \<and> ss_Subdomain s = k"
  using assms by (simp_all add: registry_inv_def)

lemma registry_invI:
  assumes "finite (dom m)"
    and "\<And>i s. m i = Some s \<Longrightarrow> ss_TunnelID s = i \<and> i \<noteq> [] \<and> ss_Subdomain s \<noteq> []"
    and "\<And>k s. n k = Some s \<longleftrightarrow> m (ss_TunnelID s) = Some s \<and> ss_Subdomain s = k"
  shows "registry_inv \<lparr>byTunnelID = m, bySubdomain = n\<rparr>"
  unfolding registry_inv_def using assms by simp

lemma registry_inv_Register [inv_intros]:
  assumes inv: "registry_inv r" and ok: "Register r (Some s) = Inr r'"
  shows "registry_inv r'"
proof -
  note r = registry_invD [OF inv]
  have s: "ss_TunnelID s \<noteq> []" "ss_Subdomain s \<noteq> []" "byTunnelID r (ss_TunnelID s) = None"
    "bySubdomain r (ss_Subdomain s) = None"
    and r': "r' = \<lparr>byTunnelID = (byTunnelID r)(ss_TunnelID s \<mapsto> s),
                  bySubdomain = (bySubdomain r)(ss_Subdomain s \<mapsto> s)\<rparr>"
    using ok by (simp_all add: Register_Inr_iff)
  show ?thesis unfolding r'
  proof (rule registry_invI)
    show "((bySubdomain r)(ss_Subdomain s \<mapsto> s)) k = Some q \<longleftrightarrow>
        ((byTunnelID r)(ss_TunnelID s \<mapsto> s)) (ss_TunnelID q) = Some q \<and> ss_Subdomain q = k" for k q
      using r(3) [of k q] r(3) [of "ss_Subdomain s" q] s by auto
  qed (use r(1,2) s in \<open>auto split: if_splits\<close>)
qed

lemma registry_inv_Unregister [inv_intros]:
  assumes inv: "registry_inv r"
  shows "registry_inv (Unregister r i)"
proof (cases "byTunnelID r i")
  case None
  then show ?thesis using inv by (simp add: Unregister_def)
next
  case (Some s)
  note r = registry_invD [OF inv]
  have sub: "bySubdomain r (ss_Subdomain s) = Some s" "ss_TunnelID s = i"
    using r(2) [OF Some] Some by (simp_all add: r(3))
  have eq: "Unregister r i = \<lparr>byTunnelID = (byTunnelID r)(i := None),
      bySubdomain = (bySubdomain r)(ss_Subdomain s := None)\<rparr>"
    using Some by (simp add: Unregister_def)
  show ?thesis unfolding eq
  proof (rule registry_invI)
    show "((bySubdomain r)(ss_Subdomain s := None)) k = Some q \<longleftrightarrow>
        ((byTunnelID r)(i := None)) (ss_TunnelID q) = Some q \<and> ss_Subdomain q = k" for k q
    proof (cases "k = ss_Subdomain s")
      case True
      have "ss_TunnelID q = i" if "byTunnelID r (ss_TunnelID q) = Some q" "ss_Subdomain q = k"
        using r(3) [of k q] that sub True by simp
      with True show ?thesis by auto
    next
      case False
      have "ss_Subdomain q \<noteq> k" if "ss_TunnelID q = i" "byTunnelID r i = Some q"
        using that Some False by simp
      with False r(3) [of k q] show ?thesis by auto
    qed
  qed (use r(1,2) in \<open>auto split: if_splits\<close>)
qed

interpretation reg: keyed_store_delete registry_inv ss_TunnelID ss_Subdomain
  "\<lambda>s. ss_TunnelID s \<noteq> [] \<and> ss_Subdomain s \<noteq> []" NewRegistry "\<lambda>r s. Register r (Some s)"
  LookupByTunnelID LookupBySubdomain Unregister
proof unfold_locales
  fix r s r' i j k
  show "registry_inv NewRegistry" by (simp add: registry_inv_def NewRegistry_def)
  show "LookupByTunnelID NewRegistry i = None" by (simp add: LookupByTunnelID_def NewRegistry_def)
  assume inv: "registry_inv r"
  show "LookupByTunnelID r i = Some s \<Longrightarrow> ss_TunnelID s = i"
    using registry_invD(2) [OF inv] by (simp add: LookupByTunnelID_def)
  show "LookupBySubdomain r k = Some s \<longleftrightarrow> LookupByTunnelID r (ss_TunnelID s) = Some s \<and> ss_Subdomain s = k"
    using registry_invD(3) [OF inv] by (simp add: LookupByTunnelID_def LookupBySubdomain_def)
  show "registry_inv (Unregister r i)" using inv by (rule registry_inv_Unregister)
  show "LookupByTunnelID (Unregister r i) j = (if j = i then None else LookupByTunnelID r j)"
    by (simp add: LookupByTunnelID_def Unregister_def split: option.split)
  show "ss_TunnelID s \<noteq> [] \<and> ss_Subdomain s \<noteq> [] \<Longrightarrow> LookupByTunnelID r (ss_TunnelID s) = None \<Longrightarrow>
      LookupBySubdomain r (ss_Subdomain s) = None \<Longrightarrow> \<exists>s'. Register r (Some s) = Inr s'"
    by (simp add: LookupByTunnelID_def LookupBySubdomain_def Register_Inr_iff)
  assume ok: "Register r (Some s) = Inr r'"
  show "registry_inv r'" using inv ok by (rule registry_inv_Register)
  show "(ss_TunnelID s \<noteq> [] \<and> ss_Subdomain s \<noteq> []) \<and> LookupByTunnelID r (ss_TunnelID s) = None \<and>
      LookupBySubdomain r (ss_Subdomain s) = None"
    using ok by (simp add: LookupByTunnelID_def LookupBySubdomain_def Register_Inr_iff)
  show "LookupByTunnelID r' i = (if i = ss_TunnelID s then Some s else LookupByTunnelID r i)"
    using ok by (simp add: LookupByTunnelID_def Register_Inr_iff)
qed

lemma registry_reach_inv: "registry_reach r \<Longrightarrow> registry_inv r"
  by (induction rule: registry_reach.induct)
    (auto elim!: registry_step.cases intro: inv_intros reg.empty_inv)

lemma Unregister_count:
  assumes "registry_inv r" "LookupByTunnelID r i \<noteq> None"
  shows "RegistryCount r = Suc (RegistryCount (Unregister r i))"
proof -
  from assms obtain s where s: "byTunnelID r i = Some s" by (auto simp: LookupByTunnelID_def)
  then have "dom (byTunnelID (Unregister r i)) = dom (byTunnelID r) - {i}"
    by (auto simp: Unregister_def)
  moreover have "finite (dom (byTunnelID r))" "i \<in> dom (byTunnelID r)"
    using assms s by (auto simp: registry_inv_def)
  ultimately show ?thesis by (metis RegistryCount_def card_Suc_Diff1)
qed

lemma demo_register: "Register NewRegistry (Some demoSession) = Inr demoRegistry"
  by (simp add: Register_Inr_iff NewRegistry_def demoRegistry_def demoSession_def)

lemma demo_reach: "registry_reach demoRegistry"
  by (rule reach_step [OF reach_new step_register [OF demo_register]])

section \<open>Properties\<close>

text \<open>
  In every state the registry can reach, the two lookups agree: a subdomain leads to a
  session exactly when that session is the one registered under its own tunnel id and has this
  subdomain.  So a public host name leads to at most one tunnel.
\<close>

theorem registry_lookups_agree:
  assumes "registry_reach r"
  shows "LookupBySubdomain r k = Some s \<longleftrightarrow>
         LookupByTunnelID r (ss_TunnelID s) = Some s \<and> ss_Subdomain s = k"
  by (rule reg.lookup_key [OF registry_reach_inv [OF assms]])

theorem registry_lookups_agree_witness:
  "LookupBySubdomain demoRegistry ''demo'' = Some demoSession \<longleftrightarrow>
   LookupByTunnelID demoRegistry ''tun_1'' = Some demoSession \<and> ss_Subdomain demoSession = ''demo''"
  using registry_lookups_agree [OF demo_reach, of "''demo''" demoSession] by (simp add: demoSession_def)

text \<open>
  Registration and removal in a reachable registry.  A registered session is found under its
  subdomain; a second one for the same subdomain is refused; and after \<open>Unregister\<close> the subdomain
  is free again while every subdomain leads where it led before the registration.
\<close>

theorem registry_register_unregister:
  assumes "registry_reach r" "Register r (Some s) = Inr r'"
  shows "LookupBySubdomain r' (ss_Subdomain s) = Some s \<and>
    (\<forall>q. ss_Subdomain q = ss_Subdomain s \<longrightarrow> (\<exists>e. Register r' (Some q) = Inl e)) \<and>
    (\<forall>k. LookupBySubdomain (Unregister r' (ss_TunnelID s)) k = LookupBySubdomain r k)"
proof -
  note inv = registry_reach_inv [OF assms(1)]
  note inv' = reg.create_inv [OF inv assms(2)] and key = reg.create_lookupKey [OF inv assms(2)]
  have "\<exists>e. Register r' (Some q) = Inl e" if "ss_Subdomain q = ss_Subdomain s" for q
    using that by (simp add: reg.create_error_iff [OF inv'] key)
  moreover have "LookupBySubdomain (Unregister r' (ss_TunnelID s)) k = LookupBySubdomain r k" for k
    by (rule option_eqI)
      (simp add: reg.lookupKey_records reg.delete_inv inv inv' reg.delete_create [OF inv assms(2)])
  ultimately show ?thesis by (simp add: key)
qed

theorem registry_register_unregister_witness:
  "LookupBySubdomain demoRegistry ''demo'' = Some demoSession \<and>
   LookupBySubdomain (Unregister demoRegistry ''tun_1'') ''demo'' = LookupBySubdomain NewRegistry ''demo''"
  using registry_register_unregister [OF reach_new demo_register] by (simp add: demoSession_def)

end
