(* ===== verification/Encodings.thy ===== *)
theory Encodings
  imports Prelude
begin

text \<open>
  The text encodings of Go's library that the code uses for secrets and hashes: unpadded base64
  with the URL and the standard alphabet, lower-case hexadecimal, and decimal numbers as
  \<open>Sprintf\<close> prints and \<open>Sscanf\<close> reads them.
\<close>

section \<open>Base64 and hexadecimal\<close>

definition urlAlphabet :: string where
  "urlAlphabet = ''ABCDEFGHIJKLMNOPQRSTUVWXYZabcdefghijklmnopqrstuvwxyz0123456789-_''"

definition stdAlphabet :: string where
  "stdAlphabet = ''ABCDEFGHIJKLMNOPQRSTUVWXYZabcdefghijklmnopqrstuvwxyz0123456789+/''"

fun sextets :: "bytes \<Rightarrow> nat list" where
  "sextets [] = []"
| "sextets [a] = (let v = of_char a * 16 in [v div 64, v mod 64])"
| "sextets [a, b] =
     (let v = (of_char a * 256 + of_char b) * 4 in [v div 4096, v div 64 mod 64, v mod 64])"
| "sextets (a # b # c # r) =
     (let v = (of_char a * 256 + of_char b) * 256 + of_char c
      in [v div 262144, v div 4096 mod 64, v div 64 mod 64, v mod 64] @ sextets r)"

definition RawURLEncoding :: "bytes \<Rightarrow> string" where
  "RawURLEncoding b = map (\<lambda>n. urlAlphabet ! n) (sextets b)"

definition RawStdEncoding :: "bytes \<Rightarrow> string" where
  "RawStdEncoding b = map (\<lambda>n. stdAlphabet ! n) (sextets b)"

text \<open>
  \<open>RawStdEncoding.DecodeString\<close> skips line breaks, refuses every other byte outside the alphabet
  and a final group of one, and ignores left-over low bits.
\<close>

fun unsextets :: "nat list \<Rightarrow> bytes option" where
  "unsextets [] = Some []"
| "unsextets [w] = None"
| "unsextets [w, x] = Some [char_of ((w * 64 + x) div 16)]"
| "unsextets [w, x, y] =
     (let v = ((w * 64 + x) * 64 + y) div 4 in Some [char_of (v div 256), char_of (v mod 256)])"
| "unsextets (w # x # y # z # r) =
     (let v = ((w * 64 + x) * 64 + y) * 64 + z
      in map_option (\<lambda>t. [char_of (v div 65536), char_of (v div 256 mod 256), char_of (v mod 256)] @ t)
           (unsextets r))"

definition alphabetIndex :: "string \<Rightarrow> char \<Rightarrow> nat option" where
  "alphabetIndex al c = find (\<lambda>i. al ! i = c) [0..<length al]"

definition RawDecode :: "string \<Rightarrow> string \<Rightarrow> bytes option" where
  "RawDecode al s =
     (let cs = filter (\<lambda>c. c \<noteq> CHR 0x0D \<and> c \<noteq> CHR 0x0A) s;
          vs = map (alphabetIndex al) cs
      in if None \<in> set vs then None else unsextets (map the vs))"

definition RawStdDecode :: "string \<Rightarrow> bytes option" where
  "RawStdDecode s = RawDecode stdAlphabet s"

definition RawURLDecode :: "string \<Rightarrow> bytes option" where
  "RawURLDecode s = RawDecode urlAlphabet s"

definition hexAlphabet :: string where
  "hexAlphabet = ''0123456789abcdef''"

definition hexEncode :: "bytes \<Rightarrow> string" where
  "hexEncode b =
     concat (map (\<lambda>c. [hexAlphabet ! (of_char c div 16), hexAlphabet ! (of_char c mod 16)]) b)"

section \<open>Decimal numbers\<close>

fun showNat :: "nat \<Rightarrow> string" where
  "showNat n = (if n < 10 then [char_of (48 + n)] else showNat (n div 10) @ [char_of (48 + n mod 10)])"

declare showNat.simps [simp del]

definition showInt :: "int \<Rightarrow> string" where
  "showInt n = (if n < 0 then ''-'' @ showNat (nat (- n)) else showNat (nat n))"

text \<open>
  \<open>Sscanf\<close> on a literal and on the verb \<open>%d\<close>: white space before a number is skipped, a newline
  there is an error, and the digits must fit the operand (signed 64 bits, or unsigned \<open>w\<close> bits).
  Both return the rest of the input.
\<close>

definition scanLiteral :: "string \<Rightarrow> string \<Rightarrow> string option" where
  "scanLiteral lit s = (if HasPrefix s lit then Some (drop (length lit) s) else None)"

definition scanSpace :: "string \<Rightarrow> string option" where
  "scanSpace s =
     (let t = trimWords goSpaces s
      in if CHR 0x0A \<in> set (take (length s - length t) s) then None else Some t)"

definition scanUint :: "nat \<Rightarrow> string \<Rightarrow> (nat \<times> string) option" where
  "scanUint w s =
     (case scanSpace s of
        None \<Rightarrow> None
      | Some t \<Rightarrow>
          let d = takeWhile isDigit t; v = nat (digitsVal d)
          in if d = [] \<or> v \<ge> 2 ^ w then None else Some (v, dropWhile isDigit t))"

definition scanInt :: "string \<Rightarrow> (int \<times> string) option" where
  "scanInt s =
     (case scanSpace s of
        None \<Rightarrow> None
      | Some t \<Rightarrow>
          let (neg, u) = (case t of [] \<Rightarrow> (False, [])
                | c # r \<Rightarrow> if c = CHR ''-'' then (True, r) else if c = CHR ''+'' then (False, r) else (False, t));
              d = takeWhile isDigit u;
              v = (if neg then - digitsVal d else digitsVal d)
          in if d = [] \<or> \<not> int64 v then None else Some (v, dropWhile isDigit u))"

section \<open>Lemmas on base64\<close>

lemma sextets_bound: "list_all (\<lambda>n. n < 64) (sextets b)"
proof (induction b rule: sextets.induct)
  case (2 a)
  have "of_char a < (256 :: nat)" by simp
  then have "of_char a * 16 div 64 < (64 :: nat)" by (intro less_mult_imp_div_less) linarith
  then show ?case unfolding sextets.simps Let_def list.pred_inject by (intro conjI) simp_all
next
  case (3 a b)
  have "of_char a < (256 :: nat)" "of_char b < (256 :: nat)" by simp_all
  then have "of_char a * 256 + of_char b \<le> (65535 :: nat)" by linarith
  then have "(of_char a * 256 + of_char b) * 4 \<le> (65535 :: nat) * 4" by (rule mult_right_mono) simp
  then have "(of_char a * 256 + of_char b) * 4 < 64 * (4096 :: nat)" by (rule le_less_trans) simp
  then have "(of_char a * 256 + of_char b) * 4 div 4096 < (64 :: nat)" by (rule less_mult_imp_div_less)
  then show ?case unfolding sextets.simps Let_def list.pred_inject by (intro conjI) simp_all
next
  case (4 a b c r)
  have "of_char a < (256 :: nat)" "of_char b < (256 :: nat)" "of_char c < (256 :: nat)" by simp_all
  then have "of_char a * 256 + of_char b \<le> (65535 :: nat)" by linarith
  then have "(of_char a * 256 + of_char b) * 256 \<le> (65535 :: nat) * 256" by (rule mult_right_mono) simp
  from add_le_less_mono [OF this \<open>of_char c < (256 :: nat)\<close>]
  have "(of_char a * 256 + of_char b) * 256 + of_char c < 64 * (262144 :: nat)" by simp
  then have "((of_char a * 256 + of_char b) * 256 + of_char c) div 262144 < (64 :: nat)"
    by (rule less_mult_imp_div_less)
  then show ?case using 4 unfolding sextets.simps Let_def list.pred_inject list_all_append
    by (intro conjI) simp_all
qed simp

lemma alphabet_nth_visible:
  assumes "length al = 64" "list_all visible al"
  shows "list_all visible (map (\<lambda>n. al ! n) (sextets b))"
  using sextets_bound [of b] assms by (auto simp: list_all_iff)

lemma RawURLEncoding_visible: "list_all visible (RawURLEncoding b)"
  unfolding RawURLEncoding_def
  by (rule alphabet_nth_visible) (simp_all add: urlAlphabet_def visible_def)

lemma TrimSpace_RawURLEncoding:
  "list_all visible p \<Longrightarrow> TrimSpace (p @ RawURLEncoding b) = p @ RawURLEncoding b"
  by (rule TrimSpace_visible) (use RawURLEncoding_visible [of b] in \<open>auto simp: list_all_iff\<close>)

lemma digits64:
  fixes v :: nat
  shows "v div 4096 * 64 + v div 64 mod 64 = v div 64"
    and "v div 262144 * 64 + v div 4096 mod 64 = v div 4096"
proof -
  have "v div 64 div 64 = v div 4096" "v div 4096 div 64 = v div 262144"
    by (simp_all flip: div_mult2_eq)
  then show "v div 4096 * 64 + v div 64 mod 64 = v div 64"
    and "v div 262144 * 64 + v div 4096 mod 64 = v div 4096"
    using div_mult_mod_eq [of "v div 64" 64] div_mult_mod_eq [of "v div 4096" 64] by simp_all
qed

lemma quot_rem: "r < m \<Longrightarrow> (q * m + r) div m = q \<and> (q * m + r) mod m = r" for q r m :: nat
  by auto

lemma unsextets_sextets: "unsextets (sextets b) = Some b"
proof (induction b rule: sextets.induct)
  case (2 a)
  have "of_char a * 16 div 64 * 64 + of_char a * 16 mod 64 = (of_char a * 16 :: nat)" by (rule div_mult_mod_eq)
  then show ?case by (simp only: sextets.simps unsextets.simps Let_def) simp
next
  case (3 a b)
  let ?v = "(of_char a * 256 + of_char b) * 4 :: nat"
  have ab: "of_char b < (256 :: nat)" by simp
  have "(?v div 4096 * 64 + ?v div 64 mod 64) * 64 + ?v mod 64 = ?v"
    by (simp only: digits64 div_mult_mod_eq)
  then have "((?v div 4096 * 64 + ?v div 64 mod 64) * 64 + ?v mod 64) div 4 = of_char a * 256 + of_char b"
    by (simp only:) simp
  then show ?case using ab by (simp only: sextets.simps unsextets.simps Let_def) simp
next
  case (4 a b c r)
  let ?v = "(of_char a * 256 + of_char b) * 256 + of_char c :: nat"
  have bc: "of_char b < (256 :: nat)" "of_char c < (256 :: nat)" by simp_all
  have v: "((?v div 262144 * 64 + ?v div 4096 mod 64) * 64 + ?v div 64 mod 64) * 64 + ?v mod 64 = ?v"
    by (simp only: digits64 div_mult_mod_eq)
  have d: "?v div 256 = of_char a * 256 + of_char b" "?v mod 256 = of_char c"
    using quot_rem [OF bc(2)] by blast+
  have "?v div 65536 = ?v div 256 div 256" by (simp flip: div_mult2_eq)
  then have "?v div 65536 = of_char a" "?v div 256 mod 256 = of_char b"
    using quot_rem [OF bc(1), of "of_char a"] by (simp_all only: d)
  then show ?case using 4 d(2) by (simp only: sextets.simps unsextets.simps Let_def append.simps v) simp
qed simp

lemma RawDecode_sextets:
  assumes len: "length al = 64" and dist: "distinct al" and vis: "list_all visible al"
  shows "RawDecode al (map (\<lambda>n. al ! n) (sextets b)) = Some b"
proof -
  let ?enc = "map (\<lambda>n. al ! n) (sextets b)"
  have ix: "alphabetIndex al (al ! n) = Some n" if "n < 64" for n
  proof -
    have "find (\<lambda>i. al ! i = al ! n) [0..<64] = Some n"
      unfolding find_Some_iff using that len dist
      by (auto simp: nth_eq_iff_index_eq intro!: exI [of _ n])
    then show ?thesis by (simp add: alphabetIndex_def len)
  qed
  have keep: "filter (\<lambda>c. c \<noteq> CHR 0x0D \<and> c \<noteq> CHR 0x0A) ?enc = ?enc"
  proof -
    have "list_all visible ?enc" using sextets_bound [of b] vis len by (auto simp: list_all_iff)
    moreover have "\<not> visible CHR 0x0D" "\<not> visible CHR 0x0A" by (simp_all add: visible_def)
    ultimately show ?thesis by (auto simp: filter_id_conv list_all_iff)
  qed
  have "map (alphabetIndex al) ?enc = map Some (sextets b)"
    using sextets_bound [of b] by (auto simp: list_all_iff ix)
  then show ?thesis unfolding RawDecode_def Let_def keep
    by (simp only:) (auto simp: unsextets_sextets comp_def)
qed

lemma alphabets_ok:
  "length stdAlphabet = 64" "distinct stdAlphabet" "list_all visible stdAlphabet"
  "length urlAlphabet = 64" "distinct urlAlphabet" "list_all visible urlAlphabet"
  by (simp_all add: stdAlphabet_def urlAlphabet_def visible_def)

lemma RawStdDecode_Encoding: "RawStdDecode (RawStdEncoding b) = Some b"
  unfolding RawStdDecode_def RawStdEncoding_def by (rule RawDecode_sextets) (rule alphabets_ok)+

lemma RawURLDecode_Encoding: "RawURLDecode (RawURLEncoding b) = Some b"
  unfolding RawURLDecode_def RawURLEncoding_def by (rule RawDecode_sextets) (rule alphabets_ok)+

section \<open>Lemmas on decimal numbers\<close>

lemma digit_char: "k < 10 \<Longrightarrow> isDigit (char_of (48 + k))" "k < 10 \<Longrightarrow> (of_char (char_of (48 + k)) :: int) = 48 + int k"
proof -
  assume k: "k < 10"
  then have n: "(of_char (char_of (48 + k)) :: nat) = 48 + k" by simp
  with k show "isDigit (char_of (48 + k))" by (simp add: isDigit_def)
  have "(of_char (char_of (48 + k)) :: int) = int (of_char (char_of (48 + k)))"
    by (simp only: of_nat_of_char)
  with n show "(of_char (char_of (48 + k)) :: int) = 48 + int k" by simp
qed

lemma showNat_digits: "showNat n \<noteq> [] \<and> list_all isDigit (showNat n)"
  by (induction n rule: showNat.induct) (subst (1 2) showNat.simps, simp add: digit_char)

lemma digitsVal_snoc: "digitsVal (s @ [c]) = 10 * digitsVal s + (of_char c - 48)"
  by (simp add: digitsVal_def)

lemma digitsVal_showNat: "digitsVal (showNat n) = int n"
proof (induction n rule: showNat.induct)
  case (1 n)
  show ?case
  proof (cases "n < 10")
    case True
    then show ?thesis by (subst showNat.simps) (simp add: digitsVal_def digit_char)
  next
    case False
    have "10 * int (n div 10) + int (n mod 10) = int n"
      using mult_div_mod_eq [of 10 n] by linarith
    then show ?thesis using 1 False by (subst showNat.simps) (simp add: digitsVal_snoc digit_char)
  qed
qed

lemma digit_visible: "isDigit c \<Longrightarrow> visible c"
  by (simp add: isDigit_def visible_def)

lemma scanSpace_visible: "s = c # r \<Longrightarrow> visible c \<Longrightarrow> scanSpace s = Some s"
proof -
  assume s: "s = c # r" and v: "visible c"
  have "trimWords goSpaces s = s"
  proof (rule trimWords_fix, clarify)
    fix w
    assume w: "w \<in> set goSpaces" "HasPrefix s w"
    then obtain x y where "w = x # y" using goSpaces_nonempty(1) by (metis neq_Nil_conv)
    with w s have "x = c" by (auto simp: HasPrefix_iff)
    with w(1) \<open>w = x # y\<close> v show False using goSpaces_visible(1) by fastforce
  qed
  then show ?thesis by (simp add: scanSpace_def)
qed

lemma showNat_Cons: "\<exists>c r. showNat n = c # r \<and> isDigit c"
  using showNat_digits [of n] by (cases "showNat n") auto

lemma takeWhile_showNat:
  assumes "r = [] \<or> \<not> isDigit (hd r)"
  shows "takeWhile isDigit (showNat n @ r) = showNat n" "dropWhile isDigit (showNat n @ r) = r"
  using showNat_digits [of n] assms
  by (auto simp: takeWhile_append dropWhile_append list_all_iff takeWhile_eq_Nil_iff hd_in_set dropWhile_eq_Cons_conv
      takeWhile_eq_all_conv dropWhile_eq_self_iff)

lemma scanUint_showNat:
  assumes "n < 2 ^ w" "r = [] \<or> \<not> isDigit (hd r)"
  shows "scanUint w (showNat n @ r) = Some (n, r)"
proof -
  obtain c q where "showNat n = c # q" "isDigit c" using showNat_Cons by blast
  then have "scanSpace (showNat n @ r) = Some (showNat n @ r)" by (simp add: scanSpace_visible digit_visible)
  then show ?thesis using assms showNat_digits [of n]
    by (simp add: scanUint_def takeWhile_showNat digitsVal_showNat Let_def)
qed

lemma scanInt_showNat:
  assumes "n < 2 ^ 63" "r = [] \<or> \<not> isDigit (hd r)"
  shows "scanInt (showNat n @ r) = Some (int n, r)"
proof -
  obtain c q where cq: "showNat n = c # q" "isDigit c" using showNat_Cons by blast
  then have sp: "scanSpace (c # q @ r) = Some (c # q @ r)" by (simp add: scanSpace_visible digit_visible)
  have c: "c \<noteq> CHR ''-''" "c \<noteq> CHR ''+''" using cq(2) by (auto simp: isDigit_def)
  have "int64 (int n)" using assms(1) by (simp add: int64_def)
  then show ?thesis
    using takeWhile_showNat [OF assms(2), of n] showNat_digits [of n] c digitsVal_showNat [of n]
    by (simp add: scanInt_def sp cq Let_def)
qed

end
