(* ===== verification/Tokens.thy ===== *)
theory Tokens
  imports Stores Encodings
begin

text \<open>
  Package \<open>tokens\<close> of the control plane: the tokens agents authenticate with, their memory
  store and the service on it.  SHA-256 is the argument \<open>sha256\<close>, so every statement holds for
  any hash function; \<open>rand i n\<close> is what the \<open>i\<close>-th \<open>rand.Read\<close> of an operation returns for
  \<open>n\<close> bytes, and \<open>now\<close> the reading of the clock.
\<close>

section \<open>Records and memory store\<close>

record TokenRecord =
  tk_ID :: string
  tk_Name :: string
  tk_TokenHash :: string
  tk_Scopes :: "string list"
  tk_CreatedAt :: gotime
  tk_LastUsedAt :: "gotime option"
  tk_RevokedAt :: "gotime option"

record CreatedToken =
  ct_ID :: string
  ct_Name :: string
  ct_Token :: string
  ct_Scopes :: "string list"
  ct_CreatedAt :: gotime

record TokenSummary =
  tsm_ID :: string
  tsm_Name :: string
  tsm_Scopes :: "string list"
  tsm_CreatedAt :: gotime
  tsm_LastUsedAt :: "gotime option"
  tsm_RevokedAt :: "gotime option"

record ValidationResult =
  vr_Valid :: bool
  vr_TokenID :: string
  vr_Scopes :: "string list"

record TokenStore =
  tk_byID :: "string \<rightharpoonup> TokenRecord"
  tk_byHash :: "string \<rightharpoonup> string"

datatype token_error =
    TokenStoreRequired
  | ErrTokenAlreadyExists
  | ErrTokenNameRequired
  | ErrUnsupportedScope string
  | TokenSecret

definition NewTokenStore :: TokenStore where
  "NewTokenStore = \<lparr>tk_byID = Map.empty, tk_byHash = Map.empty\<rparr>"

definition tokenCreate :: "TokenStore \<Rightarrow> TokenRecord \<Rightarrow> token_error + TokenStore" where
  "tokenCreate s record =
     (if tk_byID s (tk_ID record) \<noteq> None then Inl ErrTokenAlreadyExists
      else if tk_byHash s (tk_TokenHash record) \<noteq> None then Inl ErrTokenAlreadyExists
      else Inr \<lparr>tk_byID = (tk_byID s)(tk_ID record \<mapsto> record),
                tk_byHash = (tk_byHash s)(tk_TokenHash record \<mapsto> tk_ID record)\<rparr>)"

definition tokenLookupByHash :: "TokenStore \<Rightarrow> string \<Rightarrow> TokenRecord option" where
  "tokenLookupByHash s h = (case tk_byHash s h of None \<Rightarrow> None | Some i \<Rightarrow> tk_byID s i)"

definition tokenLookupByID :: "TokenStore \<Rightarrow> string \<Rightarrow> TokenRecord option" where
  "tokenLookupByID s i = tk_byID s i"

definition tokenList :: "TokenStore \<Rightarrow> string list \<Rightarrow> TokenRecord list" where
  "tokenList s order =
     sort_key (\<lambda>r. (- tk_CreatedAt r, tk_ID r)) (rangeValues order (tk_byID s))"

definition tokenMarkUsed :: "TokenStore \<Rightarrow> string \<Rightarrow> gotime \<Rightarrow> TokenStore" where
  "tokenMarkUsed s i usedAt =
     (case tk_byID s i of
        None \<Rightarrow> s
      | Some record \<Rightarrow>
          if tk_RevokedAt record \<noteq> None then s
          else s\<lparr>tk_byID := (tk_byID s)(i \<mapsto> record\<lparr>tk_LastUsedAt := Some usedAt\<rparr>)\<rparr>)"

definition tokenRevoke :: "TokenStore \<Rightarrow> string \<Rightarrow> gotime \<Rightarrow> TokenStore" where
  "tokenRevoke s i revokedAt =
     (case tk_byID s i of
        None \<Rightarrow> s
      | Some record \<Rightarrow> s\<lparr>tk_byID := (tk_byID s)(i \<mapsto> record\<lparr>tk_RevokedAt := Some revokedAt\<rparr>)\<rparr>)"

section \<open>Service\<close>

definition ScopeRegisterTunnel :: string where
  "ScopeRegisterTunnel = ''register_tunnel''"

definition knownScopes :: "string list" where
  "knownScopes = [ScopeRegisterTunnel]"

definition isKnownScope :: "string \<Rightarrow> bool" where
  "isKnownScope scope = list_ex (\<lambda>k. k = scope) knownScopes"

definition hasScope :: "string list \<Rightarrow> string \<Rightarrow> bool" where
  "hasScope scopes required = list_ex (\<lambda>s. s = required) scopes"

fun normalizeScopesFrom :: "string list \<Rightarrow> string list \<Rightarrow> token_error + string list" where
  "normalizeScopesFrom out [] = Inr out"
| "normalizeScopesFrom out (scope # rest) =
     (let sc = TrimSpace scope in
      if sc = [] then normalizeScopesFrom out rest
      else if \<not> isKnownScope sc then Inl (ErrUnsupportedScope sc)
      else if sc \<in> set out then normalizeScopesFrom out rest
      else normalizeScopesFrom (out @ [sc]) rest)"

definition normalizeScopes :: "string list \<Rightarrow> token_error + string list" where
  "normalizeScopes scopes = normalizeScopesFrom [] scopes"

definition HashToken :: "(bytes \<Rightarrow> bytes) \<Rightarrow> string \<Rightarrow> string" where
  "HashToken sha256 tok = hexEncode (sha256 tok)"

definition randomSecret :: "(nat \<Rightarrow> nat \<Rightarrow> bytes option) \<Rightarrow> nat \<Rightarrow> string \<Rightarrow> nat \<Rightarrow> token_error + string" where
  "randomSecret rand i prefix bytesLen =
     (case rand i bytesLen of
        None \<Rightarrow> Inl TokenSecret
      | Some data \<Rightarrow> Inr (prefix @ RawURLEncoding data))"

definition CreateToken ::
  "(bytes \<Rightarrow> bytes) \<Rightarrow> (nat \<Rightarrow> nat \<Rightarrow> bytes option) \<Rightarrow> gotime \<Rightarrow> TokenStore option \<Rightarrow> string \<Rightarrow> string list
     \<Rightarrow> token_error + CreatedToken \<times> TokenStore" where
  "CreateToken sha256 rand now store reqName reqScopes =
     (case store of None \<Rightarrow> Inl TokenStoreRequired | Some s \<Rightarrow>
      let name = TrimSpace reqName in
      if name = [] then Inl ErrTokenNameRequired
      else case randomSecret rand 0 ''ph_'' 32 of Inl e \<Rightarrow> Inl e | Inr tok \<Rightarrow>
           case randomSecret rand 1 ''tok_'' 16 of Inl e \<Rightarrow> Inl e | Inr ident \<Rightarrow>
           case normalizeScopes reqScopes of Inl e \<Rightarrow> Inl e | Inr scopes0 \<Rightarrow>
           let scopes = (if scopes0 = [] then [ScopeRegisterTunnel] else scopes0);
               record = \<lparr>tk_ID = ident, tk_Name = name, tk_TokenHash = HashToken sha256 tok,
                         tk_Scopes = scopes, tk_CreatedAt = now, tk_LastUsedAt = None,
                         tk_RevokedAt = None\<rparr>
           in case tokenCreate s record of Inl e \<Rightarrow> Inl e
              | Inr s' \<Rightarrow> Inr (\<lparr>ct_ID = ident, ct_Name = name, ct_Token = tok, ct_Scopes = scopes,
                               ct_CreatedAt = now\<rparr>, s'))"

definition invalidToken :: ValidationResult where
  "invalidToken = \<lparr>vr_Valid = False, vr_TokenID = [], vr_Scopes = []\<rparr>"

definition ValidateToken ::
  "(bytes \<Rightarrow> bytes) \<Rightarrow> gotime \<Rightarrow> TokenStore option \<Rightarrow> string \<Rightarrow> string
     \<Rightarrow> token_error + ValidationResult \<times> TokenStore" where
  "ValidateToken sha256 now store tok0 requiredScope0 =
     (case store of None \<Rightarrow> Inl TokenStoreRequired | Some s \<Rightarrow>
      let tok = TrimSpace tok0 in
      if tok = [] then Inr (invalidToken, s)
      else case tokenLookupByHash s (HashToken sha256 tok) of
             None \<Rightarrow> Inr (invalidToken, s)
           | Some record \<Rightarrow>
               if tk_RevokedAt record \<noteq> None then Inr (invalidToken, s)
               else let requiredScope = TrimSpace requiredScope0 in
                    if requiredScope \<noteq> [] \<and> \<not> isKnownScope requiredScope
                    then Inl (ErrUnsupportedScope requiredScope)
                    else if requiredScope \<noteq> [] \<and> \<not> hasScope (tk_Scopes record) requiredScope
                    then Inr (invalidToken, s)
                    else Inr (\<lparr>vr_Valid = True, vr_TokenID = tk_ID record, vr_Scopes = tk_Scopes record\<rparr>,
                              tokenMarkUsed s (tk_ID record) now))"

definition tokenSummary :: "TokenRecord \<Rightarrow> TokenSummary" where
  "tokenSummary r = \<lparr>tsm_ID = tk_ID r, tsm_Name = tk_Name r, tsm_Scopes = tk_Scopes r,
     tsm_CreatedAt = tk_CreatedAt r, tsm_LastUsedAt = tk_LastUsedAt r, tsm_RevokedAt = tk_RevokedAt r\<rparr>"

definition ListTokens :: "TokenStore option \<Rightarrow> string list \<Rightarrow> token_error + TokenSummary list" where
  "ListTokens store order =
     (case store of None \<Rightarrow> Inl TokenStoreRequired | Some s \<Rightarrow>
      Inr (map tokenSummary (tokenList s order)))"

definition GetToken :: "TokenStore option \<Rightarrow> string \<Rightarrow> token_error + TokenSummary option" where
  "GetToken store id0 =
     (case store of None \<Rightarrow> Inl TokenStoreRequired | Some s \<Rightarrow>
      let i = TrimSpace id0 in
      if i = [] then Inr None else Inr (map_option tokenSummary (tokenLookupByID s i)))"

definition RevokeToken :: "gotime \<Rightarrow> TokenStore option \<Rightarrow> string \<Rightarrow> token_error + TokenStore" where
  "RevokeToken now store id0 =
     (case store of None \<Rightarrow> Inl TokenStoreRequired | Some s \<Rightarrow>
      let i = TrimSpace id0 in
      if i = [] then Inr s else Inr (tokenRevoke s i now))"

definition token_inv :: "TokenStore \<Rightarrow> bool" where
  "token_inv s \<longleftrightarrow> indexed tk_ID tk_TokenHash (tk_byID s) (tk_byHash s)"

text \<open>Every way the service changes the store.\<close>

inductive token_step :: "(bytes \<Rightarrow> bytes) \<Rightarrow> TokenStore \<Rightarrow> TokenStore \<Rightarrow> bool" for sha256 where
  "CreateToken sha256 rand now (Some s) n sc = Inr (ct, s') \<Longrightarrow> token_step sha256 s s'"
| "ValidateToken sha256 now (Some s) t sc = Inr (v, s') \<Longrightarrow> token_step sha256 s s'"
| "RevokeToken now (Some s) i = Inr s' \<Longrightarrow> token_step sha256 s s'"

section \<open>Lemmas\<close>

lemma tokenCreate_Inr_iff:
  "tokenCreate s r = Inr s' \<longleftrightarrow> tk_byID s (tk_ID r) = None \<and> tk_byHash s (tk_TokenHash r) = None \<and>
     s' = \<lparr>tk_byID = (tk_byID s)(tk_ID r \<mapsto> r), tk_byHash = (tk_byHash s)(tk_TokenHash r \<mapsto> tk_ID r)\<rparr>"
  by (auto simp: tokenCreate_def)

interpretation tok: keyed_store token_inv tk_ID tk_TokenHash "\<lambda>r. True" NewTokenStore
  tokenCreate tokenLookupByID tokenLookupByHash
proof unfold_locales
  fix s r s' i k
  show "token_inv NewTokenStore" by (simp add: token_inv_def NewTokenStore_def indexed_empty)
  show "tokenLookupByID NewTokenStore i = None" by (simp add: tokenLookupByID_def NewTokenStore_def)
  assume inv: "token_inv s"
  then have ix: "indexed tk_ID tk_TokenHash (tk_byID s) (tk_byHash s)" by (simp add: token_inv_def)
  show "tokenLookupByID s i = Some r \<Longrightarrow> tk_ID r = i"
    using indexed_ident [OF ix] by (simp add: tokenLookupByID_def)
  show "tokenLookupByHash s k = Some r \<longleftrightarrow> tokenLookupByID s (tk_ID r) = Some r \<and> tk_TokenHash r = k"
    using indexed_lookup [OF ix] by (simp add: tokenLookupByHash_def tokenLookupByID_def)
  have free: "tokenLookupByHash s k = None \<longleftrightarrow> tk_byHash s k = None" for k
    using indexed_key_free [OF ix] by (simp add: tokenLookupByHash_def)
  show "True \<Longrightarrow> tokenLookupByID s (tk_ID r) = None \<Longrightarrow> tokenLookupByHash s (tk_TokenHash r) = None \<Longrightarrow>
      \<exists>s'. tokenCreate s r = Inr s'"
    by (simp add: tokenCreate_Inr_iff tokenLookupByID_def free)
  assume ok: "tokenCreate s r = Inr s'"
  then show "True \<and> tokenLookupByID s (tk_ID r) = None \<and> tokenLookupByHash s (tk_TokenHash r) = None"
    by (simp add: tokenCreate_Inr_iff tokenLookupByID_def free)
  show "tokenLookupByID s' i = (if i = tk_ID r then Some r else tokenLookupByID s i)"
    using ok by (simp add: tokenCreate_Inr_iff tokenLookupByID_def)
  show "token_inv s'"
    using ok indexed_insert [OF ix] by (simp add: tokenCreate_Inr_iff token_inv_def)
qed

lemma token_inv_replace:
  assumes "token_inv s" "tk_byID s i = Some r" "tk_ID r' = tk_ID r" "tk_TokenHash r' = tk_TokenHash r"
  shows "token_inv (s\<lparr>tk_byID := (tk_byID s)(i \<mapsto> r')\<rparr>)"
proof -
  have ix: "indexed tk_ID tk_TokenHash (tk_byID s) (tk_byHash s)" using assms(1) by (simp add: token_inv_def)
  have "tk_ID r' = i" using indexed_ident [OF ix assms(2)] assms(3) by simp
  then show ?thesis using indexed_replace(1) [OF ix assms(2) _ assms(4)] by (simp add: token_inv_def)
qed

interpretation tok_use: keyed_store_modify token_inv tk_ID tk_TokenHash "\<lambda>r. True" NewTokenStore
  tokenCreate tokenLookupByID tokenLookupByHash tokenMarkUsed
  "\<lambda>t r. if tk_RevokedAt r \<noteq> None then r else r\<lparr>tk_LastUsedAt := Some t\<rparr>"
proof unfold_locales
  fix s i t j
  assume inv: "token_inv s"
  show "token_inv (tokenMarkUsed s i t)"
    using inv token_inv_replace [OF inv] by (auto simp: tokenMarkUsed_def split: option.split)
  show "tokenLookupByID (tokenMarkUsed s i t) j =
      (if j = i then map_option (\<lambda>r. if tk_RevokedAt r \<noteq> None then r else r\<lparr>tk_LastUsedAt := Some t\<rparr>)
         (tokenLookupByID s i) else tokenLookupByID s j)"
    by (auto simp: tokenMarkUsed_def tokenLookupByID_def split: option.split)
qed auto

interpretation tok_revoke: keyed_store_modify token_inv tk_ID tk_TokenHash "\<lambda>r. True" NewTokenStore
  tokenCreate tokenLookupByID tokenLookupByHash tokenRevoke "\<lambda>t r. r\<lparr>tk_RevokedAt := Some t\<rparr>"
proof unfold_locales
  fix s i t j
  assume inv: "token_inv s"
  show "token_inv (tokenRevoke s i t)"
    using inv token_inv_replace [OF inv] by (auto simp: tokenRevoke_def split: option.split)
  show "tokenLookupByID (tokenRevoke s i t) j =
      (if j = i then map_option (\<lambda>r. r\<lparr>tk_RevokedAt := Some t\<rparr>) (tokenLookupByID s i)
       else tokenLookupByID s j)"
    by (auto simp: tokenRevoke_def tokenLookupByID_def split: option.split)
qed auto

lemma CreateToken_Inr:
  assumes "CreateToken sha256 rand now (Some s) n sc = Inr (ct, s')"
  shows "\<exists>d r. rand 0 32 = Some d \<and> ct_Token ct = ''ph_'' @ RawURLEncoding d \<and>
    tokenCreate s r = Inr s' \<and> tk_ID r = ct_ID ct \<and> tk_Scopes r = ct_Scopes ct \<and> tk_RevokedAt r = None \<and>
    tk_TokenHash r = HashToken sha256 (ct_Token ct) \<and> ct_Scopes ct \<noteq> []"
  using assms
  by (auto simp: CreateToken_def randomSecret_def Let_def split: if_splits sum.splits option.splits)

lemma ValidateToken_Inr:
  assumes "ValidateToken sha256 now (Some s) t sc = Inr (v, s')"
  shows "v = invalidToken \<and> s' = s \<or>
    (\<exists>r. tokenLookupByHash s (HashToken sha256 (TrimSpace t)) = Some r \<and> tk_RevokedAt r = None \<and>
      (TrimSpace sc = [] \<or> TrimSpace sc \<in> set (tk_Scopes r)) \<and>
      v = \<lparr>vr_Valid = True, vr_TokenID = tk_ID r, vr_Scopes = tk_Scopes r\<rparr> \<and>
      s' = tokenMarkUsed s (tk_ID r) now)"
proof (cases "tokenLookupByHash s (HashToken sha256 (TrimSpace t))")
  case None
  then show ?thesis using assms by (simp add: ValidateToken_def Let_def split: if_splits)
next
  case (Some r)
  then show ?thesis using assms
    by (simp add: ValidateToken_def Let_def hasScope_def list_ex_iff split: if_splits)
qed

lemma RevokeToken_Inr:
  assumes "RevokeToken now (Some s) i = Inr s'"
  shows "s' = s \<or> s' = tokenRevoke s (TrimSpace i) now"
  using assms by (auto simp: RevokeToken_def Let_def split: if_splits)

lemma token_step_inv: "token_step sha256 s s' \<Longrightarrow> token_inv s \<Longrightarrow> token_inv s'"
proof (induction rule: token_step.induct)
  case 1
  then show ?case using CreateToken_Inr tok.create_inv by blast
next
  case 2
  then show ?case using ValidateToken_Inr tok_use.modify_inv by blast
next
  case 3
  then show ?case using RevokeToken_Inr tok_revoke.modify_inv by blast
qed

text \<open>A record keeps its hash, and a revoked record stays revoked, whatever the service does.\<close>

lemma token_step_revoked:
  assumes "token_step sha256 s s'" "token_inv s"
    and "tokenLookupByID s i = Some r" "tk_RevokedAt r \<noteq> None"
  shows "\<exists>r'. tokenLookupByID s' i = Some r' \<and> tk_TokenHash r' = tk_TokenHash r \<and> tk_RevokedAt r' \<noteq> None"
  using assms
proof (induction rule: token_step.induct)
  case (1 rand now s n sc ct s')
  then obtain q where "tokenCreate s q = Inr s'" using CreateToken_Inr by blast
  moreover from this have "tk_ID q \<noteq> i" using tok.create_guard [OF 1(2)] 1(3) by auto
  ultimately show ?case using tok.create_lookup [OF 1(2)] 1(3,4) by auto
next
  case (2 now s t sc v s')
  have "tokenLookupByID (tokenMarkUsed s j now) i = Some r" for j
    using 2(3,4) by (auto simp: tok_use.modify_lookup [OF 2(2)])
  with ValidateToken_Inr [OF 2(1)] 2(3,4) show ?case by auto
next
  case (3 now s j s')
  from RevokeToken_Inr [OF 3(1)] show ?case
    using tok_revoke.modify_lookup [OF 3(2)] 3(3,4) by auto
qed

lemma token_steps_revoked:
  assumes "(token_step sha256)\<^sup>*\<^sup>* s s'" "token_inv s"
    and "tokenLookupByID s i = Some r" "tk_RevokedAt r \<noteq> None"
  shows "token_inv s' \<and>
    (\<exists>r'. tokenLookupByID s' i = Some r' \<and> tk_TokenHash r' = tk_TokenHash r \<and> tk_RevokedAt r' \<noteq> None)"
  using assms
proof (induction rule: rtranclp_induct)
  case base
  then show ?case by blast
next
  case (step t u)
  then obtain q where q: "token_inv t" "tokenLookupByID t i = Some q" "tk_TokenHash q = tk_TokenHash r"
    "tk_RevokedAt q \<noteq> None" by blast
  then show ?case using token_step_revoked [OF step(2) q(1,2,4)] token_step_inv [OF step(2) q(1)] by auto
qed

lemma tokenList_order:
  assumes "token_inv s" "rangeOrder xs (tk_byID s)" "rangeOrder ys (tk_byID s)"
  shows "tokenList s xs = tokenList s ys"
  unfolding tokenList_def
proof (rule sort_key_mset_eq [OF rangeValues_mset [OF assms(2,3)]])
  have "set (rangeValues xs (tk_byID s)) = ran (tk_byID s)"
    using assms(2) by (simp add: rangeOrder_def rangeValues_set)
  moreover have "inj_on (\<lambda>r. (- tk_CreatedAt r, tk_ID r)) (ran (tk_byID s))"
  proof (rule inj_onI)
    fix x y
    assume "x \<in> ran (tk_byID s)" "y \<in> ran (tk_byID s)"
      and eq: "(- tk_CreatedAt x, tk_ID x) = (- tk_CreatedAt y, tk_ID y)"
    then obtain i j where ij: "tk_byID s i = Some x" "tk_byID s j = Some y" by (auto simp: ran_def)
    then have "tk_ID x = i" "tk_ID y = j"
      using tok.lookup_ident [OF assms(1)] by (simp_all add: tokenLookupByID_def)
    with eq ij show "x = y" by simp
  qed
  ultimately show "inj_on (\<lambda>r. (- tk_CreatedAt r, tk_ID r)) (set (rangeValues xs (tk_byID s)))" by simp
qed

lemma ValidateToken_revoked:
  assumes "token_inv s" "tokenLookupByID s i = Some r" "tk_RevokedAt r \<noteq> None"
    and "tk_TokenHash r = HashToken sha256 (TrimSpace t)"
  shows "ValidateToken sha256 now (Some s) t sc = Inr (invalidToken, s)"
proof -
  have "tk_ID r = i" using tok.lookup_ident [OF assms(1,2)] .
  then have "tokenLookupByHash s (HashToken sha256 (TrimSpace t)) = Some r"
    using assms by (simp add: tok.lookup_key)
  with assms(3) show ?thesis by (simp add: ValidateToken_def Let_def)
qed

lemma CreateToken_validates:
  assumes inv: "token_inv s" and cr: "CreateToken sha256 rand now (Some s) n scopes = Inr (ct, s')"
    and sc: "sc \<in> set (ct_Scopes ct)" "isKnownScope sc" "TrimSpace sc = sc"
  shows "\<exists>s''. ValidateToken sha256 t (Some s') (ct_Token ct) sc =
    Inr (\<lparr>vr_Valid = True, vr_TokenID = ct_ID ct, vr_Scopes = ct_Scopes ct\<rparr>, s'')"
proof -
  from CreateToken_Inr [OF cr] obtain d r where r: "ct_Token ct = ''ph_'' @ RawURLEncoding d"
    "tokenCreate s r = Inr s'" "tk_ID r = ct_ID ct" "tk_Scopes r = ct_Scopes ct" "tk_RevokedAt r = None"
    "tk_TokenHash r = HashToken sha256 (ct_Token ct)" by blast
  have trim: "TrimSpace (ct_Token ct) = ct_Token ct" "ct_Token ct \<noteq> []"
    unfolding r(1) by (rule TrimSpace_RawURLEncoding) (simp_all add: visible_def)
  have "tokenLookupByHash s' (HashToken sha256 (ct_Token ct)) = Some r"
    using tok.create_lookupKey [OF inv r(2)] r(6) by simp
  with r sc trim show ?thesis by (simp add: ValidateToken_def Let_def hasScope_def list_ex_iff)
qed

lemma token_reach_inv: "(token_step sha256)\<^sup>*\<^sup>* NewTokenStore s \<Longrightarrow> token_inv s"
  by (induction rule: rtranclp_induct) (simp_all add: tok.empty_inv token_step_inv)

text \<open>A token created in an empty store, used as an example below.\<close>

lemma demo_token:
  "\<exists>ct s. CreateToken id (\<lambda>i n. Some (replicate n CHR ''k'')) 5 (Some NewTokenStore) ''ci'' [] = Inr (ct, s) \<and>
     ct_ID ct = ''tok_'' @ RawURLEncoding (replicate 16 CHR ''k'') \<and> ct_Scopes ct = [ScopeRegisterTunnel]"
proof -
  have "TrimSpace ''ci'' = ''ci''" by code_simp
  then show ?thesis
    by (simp add: CreateToken_def randomSecret_def normalizeScopes_def tokenCreate_def NewTokenStore_def Let_def)
qed

section \<open>Properties\<close>

text \<open>
  C12: A revoked token is refused for ever.  Once \<open>RevokeToken\<close> has been called for the record of
  a token in a store the service can reach, no later sequence of creations, validations and
  revocations makes \<open>ValidateToken\<close> accept that token, whatever scope is asked for.
\<close>

theorem revoked_token_never_validates:
  assumes "(token_step sha256)\<^sup>*\<^sup>* NewTokenStore s" "RevokeToken now (Some s) i = Inr s1"
    and "TrimSpace i \<noteq> []" "tokenLookupByID s (TrimSpace i) = Some r"
    and "(token_step sha256)\<^sup>*\<^sup>* s1 s2" "HashToken sha256 (TrimSpace t) = tk_TokenHash r"
  shows "ValidateToken sha256 now' (Some s2) t sc = Inr (invalidToken, s2)"
proof -
  note inv = token_reach_inv [OF assms(1)]
  have s1: "s1 = tokenRevoke s (TrimSpace i) now" using assms(2,3) by (simp add: RevokeToken_def Let_def)
  have "tokenLookupByID s1 (TrimSpace i) = Some (r\<lparr>tk_RevokedAt := Some now\<rparr>)"
    using assms(4) by (simp add: s1 tok_revoke.modify_lookup [OF inv])
  from token_steps_revoked [OF assms(5) _ this] obtain q where
    "token_inv s2" "tokenLookupByID s2 (TrimSpace i) = Some q" "tk_TokenHash q = tk_TokenHash r" "tk_RevokedAt q \<noteq> None"
    using tok_revoke.modify_inv [OF inv] s1 by auto
  then show ?thesis using ValidateToken_revoked assms(6) by simp
qed

theorem revoked_token_never_validates_witness:
  "\<exists>ct s s1. CreateToken id (\<lambda>i n. Some (replicate n CHR ''k'')) 5 (Some NewTokenStore) ''ci'' [] = Inr (ct, s) \<and>
     RevokeToken 6 (Some s) (ct_ID ct) = Inr s1 \<and>
     ValidateToken id 7 (Some s1) (ct_Token ct) ''register_tunnel'' = Inr (invalidToken, s1)"
proof -
  obtain ct s where cr: "CreateToken id (\<lambda>i n. Some (replicate n CHR ''k'')) 5 (Some NewTokenStore) ''ci'' [] = Inr (ct, s)"
    and ident: "ct_ID ct = ''tok_'' @ RawURLEncoding (replicate 16 CHR ''k'')" using demo_token by blast
  from CreateToken_Inr [OF cr] obtain d r where r: "ct_Token ct = ''ph_'' @ RawURLEncoding d"
    "tokenCreate NewTokenStore r = Inr s" "tk_ID r = ct_ID ct" "tk_TokenHash r = HashToken id (ct_Token ct)" by blast
  have step: "(token_step id)\<^sup>*\<^sup>* NewTokenStore s" using token_step.intros(1) [OF cr] by blast
  have ne: "ct_ID ct \<noteq> []" by (simp add: ident)
  have trim: "TrimSpace (ct_ID ct) = ct_ID ct"
    unfolding ident by (rule TrimSpace_RawURLEncoding) (simp add: visible_def)
  have trim': "TrimSpace (ct_Token ct) = ct_Token ct"
    unfolding r(1) by (rule TrimSpace_RawURLEncoding) (simp add: visible_def)
  have rev: "RevokeToken 6 (Some s) (ct_ID ct) = Inr (tokenRevoke s (ct_ID ct) 6)"
    by (simp add: RevokeToken_def trim ne Let_def)
  have "tokenLookupByID s (TrimSpace (ct_ID ct)) = Some r"
    using tok.create_lookup [OF tok.empty_inv r(2)] by (simp add: trim r(3))
  from revoked_token_never_validates [OF step rev _ this rtranclp.rtrancl_refl, of "ct_Token ct" 7 "''register_tunnel''"]
  show ?thesis using cr rev by (auto simp: trim trim' ne r(4))
qed

text \<open>
  A token works from the moment it is created: in any store the service can reach, the
  secret that \<open>CreateToken\<close> hands out validates for every scope it was created with, and the
  result names the new token's id.
\<close>

theorem created_token_validates:
  assumes "(token_step sha256)\<^sup>*\<^sup>* NewTokenStore s" "CreateToken sha256 rand now (Some s) n scopes = Inr (ct, s')"
    and "sc \<in> set (ct_Scopes ct)" "isKnownScope sc" "TrimSpace sc = sc"
  shows "\<exists>s''. ValidateToken sha256 t (Some s') (ct_Token ct) sc =
    Inr (\<lparr>vr_Valid = True, vr_TokenID = ct_ID ct, vr_Scopes = ct_Scopes ct\<rparr>, s'')"
  by (rule CreateToken_validates [OF token_reach_inv [OF assms(1)] assms(2-)])

theorem created_token_validates_witness:
  "\<exists>ct s s''. CreateToken id (\<lambda>i n. Some (replicate n CHR ''k'')) 5 (Some NewTokenStore) ''ci'' [] = Inr (ct, s) \<and>
     ValidateToken id 7 (Some s) (ct_Token ct) ''register_tunnel'' =
       Inr (\<lparr>vr_Valid = True, vr_TokenID = ct_ID ct, vr_Scopes = ct_Scopes ct\<rparr>, s'')"
proof -
  obtain ct s where cr: "CreateToken id (\<lambda>i n. Some (replicate n CHR ''k'')) 5 (Some NewTokenStore) ''ci'' [] = Inr (ct, s)"
    and sc: "ct_Scopes ct = [ScopeRegisterTunnel]" using demo_token by blast
  have "TrimSpace ScopeRegisterTunnel = ScopeRegisterTunnel" "isKnownScope ScopeRegisterTunnel" by code_simp+
  from created_token_validates [OF rtranclp.rtrancl_refl cr _ this(2,1), of 7]
  show ?thesis using cr sc by (auto simp: ScopeRegisterTunnel_def)
qed

text \<open>
  \<open>ValidateToken\<close> is sound: when it answers that a token is valid, the store holds a record
  with the hash of the trimmed token that is not revoked and has the scope asked for, and the
  result carries that record's id and scopes.
\<close>

theorem validated_token_is_live:
  assumes "token_inv s" "ValidateToken sha256 now (Some s) t sc = Inr (v, s')" "vr_Valid v"
  shows "\<exists>r. tokenLookupByID s (vr_TokenID v) = Some r \<and> tk_TokenHash r = HashToken sha256 (TrimSpace t) \<and>
    tk_RevokedAt r = None \<and> vr_Scopes v = tk_Scopes r \<and>
    (TrimSpace sc = [] \<or> TrimSpace sc \<in> set (tk_Scopes r)) \<and>
    (\<exists>r'. tokenLookupByID s' (vr_TokenID v) = Some r' \<and> tk_LastUsedAt r' = Some now)"
proof -
  from ValidateToken_Inr [OF assms(2)] assms(3) obtain r where
    r: "tokenLookupByHash s (HashToken sha256 (TrimSpace t)) = Some r" "tk_RevokedAt r = None"
      "TrimSpace sc = [] \<or> TrimSpace sc \<in> set (tk_Scopes r)"
      "v = \<lparr>vr_Valid = True, vr_TokenID = tk_ID r, vr_Scopes = tk_Scopes r\<rparr>"
      "s' = tokenMarkUsed s (tk_ID r) now"
    by (auto simp: invalidToken_def)
  from r(1) have l: "tokenLookupByID s (tk_ID r) = Some r" "tk_TokenHash r = HashToken sha256 (TrimSpace t)"
    using tok.lookup_key [OF assms(1)] by auto
  have "tokenLookupByID s' (tk_ID r) = Some (r\<lparr>tk_LastUsedAt := Some now\<rparr>)"
    using l r(2) by (simp add: r(5) tok_use.modify_lookup [OF assms(1)])
  with r l show ?thesis by simp
qed

theorem validated_token_is_live_witness:
  "\<exists>r. tokenLookupByID \<lparr>tk_byID = [''tok_1'' \<mapsto> \<lparr>tk_ID = ''tok_1'', tk_Name = ''ci'', tk_TokenHash = ''61'',
      tk_Scopes = [''register_tunnel''], tk_CreatedAt = 0, tk_LastUsedAt = None, tk_RevokedAt = None\<rparr>],
      tk_byHash = [''61'' \<mapsto> ''tok_1'']\<rparr> ''tok_1'' = Some r \<and> tk_TokenHash r = HashToken id ''a''"
proof -
  let ?r = "\<lparr>tk_ID = ''tok_1'', tk_Name = ''ci'', tk_TokenHash = ''61'',
      tk_Scopes = [''register_tunnel''], tk_CreatedAt = 0, tk_LastUsedAt = None, tk_RevokedAt = None\<rparr>"
  let ?s = "\<lparr>tk_byID = [''tok_1'' \<mapsto> ?r], tk_byHash = [''61'' \<mapsto> ''tok_1'']\<rparr>"
  have h: "HashToken id (TrimSpace ''a'') = ''61''" "TrimSpace ''a'' = ''a''"
    "TrimSpace ''register_tunnel'' = ''register_tunnel''" by code_simp+
  have "ValidateToken id 9 (Some ?s) ''a'' ''register_tunnel'' =
      Inr (\<lparr>vr_Valid = True, vr_TokenID = ''tok_1'', vr_Scopes = [''register_tunnel'']\<rparr>, tokenMarkUsed ?s ''tok_1'' 9)"
    using h by (simp add: ValidateToken_def tokenLookupByHash_def isKnownScope_def knownScopes_def
        ScopeRegisterTunnel_def hasScope_def Let_def)
  moreover have "token_inv ?s" by (auto simp: token_inv_def indexed_def split: if_splits)
  ultimately show ?thesis using validated_token_is_live [of ?s id 9 "''a''" "''register_tunnel''"] h(2) by fastforce
qed

end
