(* ===== verification/AdminTokens.thy ===== *)
theory AdminTokens
  imports Stores Encodings
begin

text \<open>
  Package \<open>admintokens\<close> of the control plane: the scoped tokens of its administrators.  The
  package repeats the structure of \<open>tokens\<close> with other scopes, another order of checks and
  several required scopes per validation; hash, random source and clock are arguments as there.
\<close>

section \<open>Records and memory store\<close>

record AdminTokenRecord =
  at_ID :: string
  at_Name :: string
  at_TokenHash :: string
  at_Scopes :: "string list"
  at_CreatedAt :: gotime
  at_LastUsedAt :: "gotime option"
  at_RevokedAt :: "gotime option"

record AdminCreatedToken =
  act_ID :: string
  act_Name :: string
  act_Token :: string
  act_Scopes :: "string list"
  act_CreatedAt :: gotime

record AdminTokenSummary =
  asm_ID :: string
  asm_Name :: string
  asm_Scopes :: "string list"
  asm_CreatedAt :: gotime
  asm_LastUsedAt :: "gotime option"
  asm_RevokedAt :: "gotime option"

record AdminValidationResult =
  avr_Valid :: bool
  avr_TokenID :: string
  avr_Name :: string
  avr_Scopes :: "string list"

record AdminTokenStore =
  at_byID :: "string \<rightharpoonup> AdminTokenRecord"
  at_byHash :: "string \<rightharpoonup> string"

datatype admin_token_error =
    AdminTokenStoreRequired
  | ErrAdminTokenAlreadyExists
  | ErrAdminTokenNameRequired
  | ErrUnsupportedAdminScope string
  | AdminTokenSecret

definition NewAdminTokenStore :: AdminTokenStore where
  "NewAdminTokenStore = \<lparr>at_byID = Map.empty, at_byHash = Map.empty\<rparr>"

definition adminTokenCreate :: "AdminTokenStore \<Rightarrow> AdminTokenRecord \<Rightarrow> admin_token_error + AdminTokenStore" where
  "adminTokenCreate s record =
     (if at_byID s (at_ID record) \<noteq> None then Inl ErrAdminTokenAlreadyExists
      else if at_byHash s (at_TokenHash record) \<noteq> None then Inl ErrAdminTokenAlreadyExists
      else Inr \<lparr>at_byID = (at_byID s)(at_ID record \<mapsto> record),
                at_byHash = (at_byHash s)(at_TokenHash record \<mapsto> at_ID record)\<rparr>)"

definition adminTokenLookupByHash :: "AdminTokenStore \<Rightarrow> string \<Rightarrow> AdminTokenRecord option" where
  "adminTokenLookupByHash s h = (case at_byHash s h of None \<Rightarrow> None | Some i \<Rightarrow> at_byID s i)"

definition adminTokenLookupByID :: "AdminTokenStore \<Rightarrow> string \<Rightarrow> AdminTokenRecord option" where
  "adminTokenLookupByID s i = at_byID s i"

definition adminTokenList :: "AdminTokenStore \<Rightarrow> string list \<Rightarrow> AdminTokenRecord list" where
  "adminTokenList s order =
     sort_key (\<lambda>r. (- at_CreatedAt r, at_ID r)) (rangeValues order (at_byID s))"

definition adminTokenMarkUsed :: "AdminTokenStore \<Rightarrow> string \<Rightarrow> gotime \<Rightarrow> AdminTokenStore" where
  "adminTokenMarkUsed s i usedAt =
     (case at_byID s i of
        None \<Rightarrow> s
      | Some record \<Rightarrow>
          if at_RevokedAt record \<noteq> None then s
          else s\<lparr>at_byID := (at_byID s)(i \<mapsto> record\<lparr>at_LastUsedAt := Some usedAt\<rparr>)\<rparr>)"

definition adminTokenRevoke :: "AdminTokenStore \<Rightarrow> string \<Rightarrow> gotime \<Rightarrow> AdminTokenStore" where
  "adminTokenRevoke s i revokedAt =
     (case at_byID s i of
        None \<Rightarrow> s
      | Some record \<Rightarrow> s\<lparr>at_byID := (at_byID s)(i \<mapsto> record\<lparr>at_RevokedAt := Some revokedAt\<rparr>)\<rparr>)"

section \<open>Service\<close>

definition ScopeAdminTokens :: string where
  "ScopeAdminTokens = ''admin_tokens''"

definition ScopeTokens :: string where
  "ScopeTokens = ''tokens''"

definition ScopeReservations :: string where
  "ScopeReservations = ''reservations''"

definition ScopeDomains :: string where
  "ScopeDomains = ''domains''"

definition ScopeAccessPolicies :: string where
  "ScopeAccessPolicies = ''access_policies''"

definition ScopeAuditHistory :: string where
  "ScopeAuditHistory = ''audit_history''"

definition ScopeRuntimeDiagnostics :: string where
  "ScopeRuntimeDiagnostics = ''runtime_diagnostics''"

definition adminKnownScopes :: "string list" where
  "adminKnownScopes =
     [ScopeAdminTokens, ScopeTokens, ScopeReservations, ScopeDomains, ScopeAccessPolicies,
      ScopeAuditHistory, ScopeRuntimeDiagnostics]"

definition DefaultScopes :: "string list" where
  "DefaultScopes = adminKnownScopes"

definition isKnownAdminScope :: "string \<Rightarrow> bool" where
  "isKnownAdminScope scope = list_ex (\<lambda>k. k = scope) adminKnownScopes"

definition hasAdminScope :: "string list \<Rightarrow> string \<Rightarrow> bool" where
  "hasAdminScope scopes required = list_ex (\<lambda>s. s = required) scopes"

fun normalizeAdminScopesFrom :: "string list \<Rightarrow> string list \<Rightarrow> admin_token_error + string list" where
  "normalizeAdminScopesFrom out [] = Inr out"
| "normalizeAdminScopesFrom out (scope # rest) =
     (let sc = TrimSpace scope in
      if sc = [] then normalizeAdminScopesFrom out rest
      else if \<not> isKnownAdminScope sc then Inl (ErrUnsupportedAdminScope sc)
      else if sc \<in> set out then normalizeAdminScopesFrom out rest
      else normalizeAdminScopesFrom (out @ [sc]) rest)"

definition normalizeAdminScopes :: "string list \<Rightarrow> admin_token_error + string list" where
  "normalizeAdminScopes scopes = normalizeAdminScopesFrom [] scopes"

definition HashAdminToken :: "(bytes \<Rightarrow> bytes) \<Rightarrow> string \<Rightarrow> string" where
  "HashAdminToken sha256 tok = hexEncode (sha256 tok)"

definition randomAdminSecret :: "(nat \<Rightarrow> nat \<Rightarrow> bytes option) \<Rightarrow> nat \<Rightarrow> string \<Rightarrow> nat \<Rightarrow> admin_token_error + string" where
  "randomAdminSecret rand i prefix bytesLen =
     (case rand i bytesLen of
        None \<Rightarrow> Inl AdminTokenSecret
      | Some data \<Rightarrow> Inr (prefix @ RawURLEncoding data))"

definition CreateAdminToken ::
  "(bytes \<Rightarrow> bytes) \<Rightarrow> (nat \<Rightarrow> nat \<Rightarrow> bytes option) \<Rightarrow> gotime \<Rightarrow> AdminTokenStore option \<Rightarrow> string \<Rightarrow> string list
     \<Rightarrow> admin_token_error + AdminCreatedToken \<times> AdminTokenStore" where
  "CreateAdminToken sha256 rand now store reqName reqScopes =
     (case store of None \<Rightarrow> Inl AdminTokenStoreRequired | Some s \<Rightarrow>
      let name = TrimSpace reqName in
      if name = [] then Inl ErrAdminTokenNameRequired
      else case normalizeAdminScopes reqScopes of Inl e \<Rightarrow> Inl e | Inr scopes0 \<Rightarrow>
           let scopes = (if scopes0 = [] then DefaultScopes else scopes0) in
           case randomAdminSecret rand 0 ''pat_'' 32 of Inl e \<Rightarrow> Inl e | Inr tok \<Rightarrow>
           case randomAdminSecret rand 1 ''adm_'' 16 of Inl e \<Rightarrow> Inl e | Inr ident \<Rightarrow>
           let record = \<lparr>at_ID = ident, at_Name = name, at_TokenHash = HashAdminToken sha256 tok,
                         at_Scopes = scopes, at_CreatedAt = now, at_LastUsedAt = None,
                         at_RevokedAt = None\<rparr>
           in case adminTokenCreate s record of Inl e \<Rightarrow> Inl e
              | Inr s' \<Rightarrow> Inr (\<lparr>act_ID = ident, act_Name = name, act_Token = tok, act_Scopes = scopes,
                               act_CreatedAt = now\<rparr>, s'))"

definition invalidAdminToken :: AdminValidationResult where
  "invalidAdminToken = \<lparr>avr_Valid = False, avr_TokenID = [], avr_Name = [], avr_Scopes = []\<rparr>"

definition ValidateAdminToken ::
  "(bytes \<Rightarrow> bytes) \<Rightarrow> gotime \<Rightarrow> AdminTokenStore option \<Rightarrow> string \<Rightarrow> string list
     \<Rightarrow> admin_token_error + AdminValidationResult \<times> AdminTokenStore" where
  "ValidateAdminToken sha256 now store tok0 requiredScopes =
     (case store of None \<Rightarrow> Inl AdminTokenStoreRequired | Some s \<Rightarrow>
      let tok = TrimSpace tok0 in
      if tok = [] then Inr (invalidAdminToken, s)
      else case find (\<lambda>sc. TrimSpace sc \<noteq> [] \<and> \<not> isKnownAdminScope (TrimSpace sc)) requiredScopes of
             Some sc \<Rightarrow> Inl (ErrUnsupportedAdminScope (TrimSpace sc))
           | None \<Rightarrow>
               case adminTokenLookupByHash s (HashAdminToken sha256 tok) of
                 None \<Rightarrow> Inr (invalidAdminToken, s)
               | Some record \<Rightarrow>
                   if at_RevokedAt record \<noteq> None then Inr (invalidAdminToken, s)
                   else if list_ex (\<lambda>sc. sc \<noteq> [] \<and> \<not> hasAdminScope (at_Scopes record) sc) requiredScopes
                   then Inr (invalidAdminToken, s)
                   else Inr (\<lparr>avr_Valid = True, avr_TokenID = at_ID record, avr_Name = at_Name record,
                              avr_Scopes = at_Scopes record\<rparr>,
                             adminTokenMarkUsed s (at_ID record) now))"

definition adminTokenSummary :: "AdminTokenRecord \<Rightarrow> AdminTokenSummary" where
  "adminTokenSummary r = \<lparr>asm_ID = at_ID r, asm_Name = at_Name r, asm_Scopes = at_Scopes r,
     asm_CreatedAt = at_CreatedAt r, asm_LastUsedAt = at_LastUsedAt r, asm_RevokedAt = at_RevokedAt r\<rparr>"

definition ListAdminTokens :: "AdminTokenStore option \<Rightarrow> string list \<Rightarrow> admin_token_error + AdminTokenSummary list" where
  "ListAdminTokens store order =
     (case store of None \<Rightarrow> Inl AdminTokenStoreRequired | Some s \<Rightarrow>
      Inr (map adminTokenSummary (adminTokenList s order)))"

definition GetAdminToken :: "AdminTokenStore option \<Rightarrow> string \<Rightarrow> admin_token_error + AdminTokenSummary option" where
  "GetAdminToken store id0 =
     (case store of None \<Rightarrow> Inl AdminTokenStoreRequired | Some s \<Rightarrow>
      let i = TrimSpace id0 in
      if i = [] then Inr None else Inr (map_option adminTokenSummary (adminTokenLookupByID s i)))"

definition RevokeAdminToken :: "gotime \<Rightarrow> AdminTokenStore option \<Rightarrow> string \<Rightarrow> admin_token_error + AdminTokenStore" where
  "RevokeAdminToken now store id0 =
     (case store of None \<Rightarrow> Inl AdminTokenStoreRequired | Some s \<Rightarrow>
      let i = TrimSpace id0 in
      if i = [] then Inr s else Inr (adminTokenRevoke s i now))"

definition admin_token_inv :: "AdminTokenStore \<Rightarrow> bool" where
  "admin_token_inv s \<longleftrightarrow> indexed at_ID at_TokenHash (at_byID s) (at_byHash s)"

text \<open>Every way the service changes the store.\<close>

inductive admin_token_step :: "(bytes \<Rightarrow> bytes) \<Rightarrow> AdminTokenStore \<Rightarrow> AdminTokenStore \<Rightarrow> bool" for sha256 where
  "CreateAdminToken sha256 rand now (Some s) n sc = Inr (ct, s') \<Longrightarrow> admin_token_step sha256 s s'"
| "ValidateAdminToken sha256 now (Some s) t sc = Inr (v, s') \<Longrightarrow> admin_token_step sha256 s s'"
| "RevokeAdminToken now (Some s) i = Inr s' \<Longrightarrow> admin_token_step sha256 s s'"

section \<open>Lemmas\<close>

lemma adminTokenCreate_Inr_iff:
  "adminTokenCreate s r = Inr s' \<longleftrightarrow> at_byID s (at_ID r) = None \<and> at_byHash s (at_TokenHash r) = None \<and>
     s' = \<lparr>at_byID = (at_byID s)(at_ID r \<mapsto> r), at_byHash = (at_byHash s)(at_TokenHash r \<mapsto> at_ID r)\<rparr>"
  by (auto simp: adminTokenCreate_def)

interpretation adm: keyed_store admin_token_inv at_ID at_TokenHash "\<lambda>r. True" NewAdminTokenStore
  adminTokenCreate adminTokenLookupByID adminTokenLookupByHash
proof unfold_locales
  fix s r s' i k
  show "admin_token_inv NewAdminTokenStore" by (simp add: admin_token_inv_def NewAdminTokenStore_def indexed_empty)
  show "adminTokenLookupByID NewAdminTokenStore i = None" by (simp add: adminTokenLookupByID_def NewAdminTokenStore_def)
  assume inv: "admin_token_inv s"
  then have ix: "indexed at_ID at_TokenHash (at_byID s) (at_byHash s)" by (simp add: admin_token_inv_def)
  show "adminTokenLookupByID s i = Some r \<Longrightarrow> at_ID r = i"
    using indexed_ident [OF ix] by (simp add: adminTokenLookupByID_def)
  show "adminTokenLookupByHash s k = Some r \<longleftrightarrow> adminTokenLookupByID s (at_ID r) = Some r \<and> at_TokenHash r = k"
    using indexed_lookup [OF ix] by (simp add: adminTokenLookupByHash_def adminTokenLookupByID_def)
  have free: "adminTokenLookupByHash s k = None \<longleftrightarrow> at_byHash s k = None" for k
    using indexed_key_free [OF ix] by (simp add: adminTokenLookupByHash_def)
  show "True \<Longrightarrow> adminTokenLookupByID s (at_ID r) = None \<Longrightarrow> adminTokenLookupByHash s (at_TokenHash r) = None \<Longrightarrow>
      \<exists>s'. adminTokenCreate s r = Inr s'"
    by (simp add: adminTokenCreate_Inr_iff adminTokenLookupByID_def free)
  assume ok: "adminTokenCreate s r = Inr s'"
  then show "True \<and> adminTokenLookupByID s (at_ID r) = None \<and> adminTokenLookupByHash s (at_TokenHash r) = None"
    by (simp add: adminTokenCreate_Inr_iff adminTokenLookupByID_def free)
  show "adminTokenLookupByID s' i = (if i = at_ID r then Some r else adminTokenLookupByID s i)"
    using ok by (simp add: adminTokenCreate_Inr_iff adminTokenLookupByID_def)
  show "admin_token_inv s'"
    using ok indexed_insert [OF ix] by (simp add: adminTokenCreate_Inr_iff admin_token_inv_def)
qed

lemma admin_token_inv_replace:
  assumes "admin_token_inv s" "at_byID s i = Some r" "at_ID r' = at_ID r" "at_TokenHash r' = at_TokenHash r"
  shows "admin_token_inv (s\<lparr>at_byID := (at_byID s)(i \<mapsto> r')\<rparr>)"
proof -
  have ix: "indexed at_ID at_TokenHash (at_byID s) (at_byHash s)" using assms(1) by (simp add: admin_token_inv_def)
  have "at_ID r' = i" using indexed_ident [OF ix assms(2)] assms(3) by simp
  then show ?thesis using indexed_replace(1) [OF ix assms(2) _ assms(4)] by (simp add: admin_token_inv_def)
qed

interpretation adm_use: keyed_store_modify admin_token_inv at_ID at_TokenHash "\<lambda>r. True" NewAdminTokenStore
  adminTokenCreate adminTokenLookupByID adminTokenLookupByHash adminTokenMarkUsed
  "\<lambda>t r. if at_RevokedAt r \<noteq> None then r else r\<lparr>at_LastUsedAt := Some t\<rparr>"
proof unfold_locales
  fix s i t j
  assume inv: "admin_token_inv s"
  show "admin_token_inv (adminTokenMarkUsed s i t)"
    using inv admin_token_inv_replace [OF inv] by (auto simp: adminTokenMarkUsed_def split: option.split)
  show "adminTokenLookupByID (adminTokenMarkUsed s i t) j =
      (if j = i then map_option (\<lambda>r. if at_RevokedAt r \<noteq> None then r else r\<lparr>at_LastUsedAt := Some t\<rparr>)
         (adminTokenLookupByID s i) else adminTokenLookupByID s j)"
    by (auto simp: adminTokenMarkUsed_def adminTokenLookupByID_def split: option.split)
qed auto

interpretation adm_revoke: keyed_store_modify admin_token_inv at_ID at_TokenHash "\<lambda>r. True" NewAdminTokenStore
  adminTokenCreate adminTokenLookupByID adminTokenLookupByHash adminTokenRevoke "\<lambda>t r. r\<lparr>at_RevokedAt := Some t\<rparr>"
proof unfold_locales
  fix s i t j
  assume inv: "admin_token_inv s"
  show "admin_token_inv (adminTokenRevoke s i t)"
    using inv admin_token_inv_replace [OF inv] by (auto simp: adminTokenRevoke_def split: option.split)
  show "adminTokenLookupByID (adminTokenRevoke s i t) j =
      (if j = i then map_option (\<lambda>r. r\<lparr>at_RevokedAt := Some t\<rparr>) (adminTokenLookupByID s i)
       else adminTokenLookupByID s j)"
    by (auto simp: adminTokenRevoke_def adminTokenLookupByID_def split: option.split)
qed auto

lemma CreateAdminToken_Inr:
  assumes "CreateAdminToken sha256 rand now (Some s) n sc = Inr (ct, s')"
  shows "\<exists>d r. rand 0 32 = Some d \<and> act_Token ct = ''pat_'' @ RawURLEncoding d \<and>
    adminTokenCreate s r = Inr s' \<and> at_ID r = act_ID ct \<and> at_Scopes r = act_Scopes ct \<and> at_RevokedAt r = None \<and>
    at_TokenHash r = HashAdminToken sha256 (act_Token ct)"
  using assms
  by (auto simp: CreateAdminToken_def randomAdminSecret_def Let_def split: if_splits sum.splits option.splits)

lemma ValidateAdminToken_Inr:
  assumes "ValidateAdminToken sha256 now (Some s) t scs = Inr (v, s')"
  shows "v = invalidAdminToken \<and> s' = s \<or>
    (\<exists>r. adminTokenLookupByHash s (HashAdminToken sha256 (TrimSpace t)) = Some r \<and> at_RevokedAt r = None \<and>
      (\<forall>sc\<in>set scs. sc = [] \<or> sc \<in> set (at_Scopes r)) \<and>
      v = \<lparr>avr_Valid = True, avr_TokenID = at_ID r, avr_Name = at_Name r, avr_Scopes = at_Scopes r\<rparr> \<and>
      s' = adminTokenMarkUsed s (at_ID r) now)"
proof (cases "adminTokenLookupByHash s (HashAdminToken sha256 (TrimSpace t))")
  case None
  then show ?thesis using assms
    by (simp add: ValidateAdminToken_def Let_def split: if_splits option.splits)
next
  case (Some r)
  then show ?thesis using assms
    by (simp add: ValidateAdminToken_def Let_def hasAdminScope_def list_ex_iff split: if_splits option.splits)
qed

lemma RevokeAdminToken_Inr:
  assumes "RevokeAdminToken now (Some s) i = Inr s'"
  shows "s' = s \<or> s' = adminTokenRevoke s (TrimSpace i) now"
  using assms by (auto simp: RevokeAdminToken_def Let_def split: if_splits)

lemma admin_token_step_inv: "admin_token_step sha256 s s' \<Longrightarrow> admin_token_inv s \<Longrightarrow> admin_token_inv s'"
proof (induction rule: admin_token_step.induct)
  case 1
  then show ?case using CreateAdminToken_Inr adm.create_inv by blast
next
  case 2
  then show ?case using ValidateAdminToken_Inr adm_use.modify_inv by blast
next
  case 3
  then show ?case using RevokeAdminToken_Inr adm_revoke.modify_inv by blast
qed

text \<open>A record keeps its hash, and a revoked record stays revoked, whatever the service does.\<close>

lemma admin_token_step_revoked:
  assumes "admin_token_step sha256 s s'" "admin_token_inv s"
    and "adminTokenLookupByID s i = Some r" "at_RevokedAt r \<noteq> None"
  shows "\<exists>r'. adminTokenLookupByID s' i = Some r' \<and> at_TokenHash r' = at_TokenHash r \<and> at_RevokedAt r' \<noteq> None"
  using assms
proof (induction rule: admin_token_step.induct)
  case (1 rand now s n sc ct s')
  then obtain q where "adminTokenCreate s q = Inr s'" using CreateAdminToken_Inr by blast
  moreover from this have "at_ID q \<noteq> i" using adm.create_guard [OF 1(2)] 1(3) by auto
  ultimately show ?case using adm.create_lookup [OF 1(2)] 1(3,4) by auto
next
  case (2 now s t sc v s')
  have "adminTokenLookupByID (adminTokenMarkUsed s j now) i = Some r" for j
    using 2(3,4) by (auto simp: adm_use.modify_lookup [OF 2(2)])
  with ValidateAdminToken_Inr [OF 2(1)] 2(3,4) show ?case by auto
next
  case (3 now s j s')
  from RevokeAdminToken_Inr [OF 3(1)] show ?case
    using adm_revoke.modify_lookup [OF 3(2)] 3(3,4) by auto
qed

lemma admin_token_steps_revoked:
  assumes "(admin_token_step sha256)\<^sup>*\<^sup>* s s'" "admin_token_inv s"
    and "adminTokenLookupByID s i = Some r" "at_RevokedAt r \<noteq> None"
  shows "admin_token_inv s' \<and>
    (\<exists>r'. adminTokenLookupByID s' i = Some r' \<and> at_TokenHash r' = at_TokenHash r \<and> at_RevokedAt r' \<noteq> None)"
  using assms
proof (induction rule: rtranclp_induct)
  case base
  then show ?case by blast
next
  case (step t u)
  then obtain q where q: "admin_token_inv t" "adminTokenLookupByID t i = Some q" "at_TokenHash q = at_TokenHash r"
    "at_RevokedAt q \<noteq> None" by blast
  then show ?case using admin_token_step_revoked [OF step(2) q(1,2,4)] admin_token_step_inv [OF step(2) q(1)] by auto
qed

lemma adminTokenList_order:
  assumes "admin_token_inv s" "rangeOrder xs (at_byID s)" "rangeOrder ys (at_byID s)"
  shows "adminTokenList s xs = adminTokenList s ys"
  unfolding adminTokenList_def
proof (rule sort_key_mset_eq [OF rangeValues_mset [OF assms(2,3)]])
  have "set (rangeValues xs (at_byID s)) = ran (at_byID s)"
    using assms(2) by (simp add: rangeOrder_def rangeValues_set)
  moreover have "inj_on (\<lambda>r. (- at_CreatedAt r, at_ID r)) (ran (at_byID s))"
  proof (rule inj_onI)
    fix x y
    assume "x \<in> ran (at_byID s)" "y \<in> ran (at_byID s)"
      and eq: "(- at_CreatedAt x, at_ID x) = (- at_CreatedAt y, at_ID y)"
    then obtain i j where ij: "at_byID s i = Some x" "at_byID s j = Some y" by (auto simp: ran_def)
    then have "at_ID x = i" "at_ID y = j"
      using adm.lookup_ident [OF assms(1)] by (simp_all add: adminTokenLookupByID_def)
    with eq ij show "x = y" by simp
  qed
  ultimately show "inj_on (\<lambda>r. (- at_CreatedAt r, at_ID r)) (set (rangeValues xs (at_byID s)))" by simp
qed

lemma ValidateAdminToken_lookup:
  assumes "admin_token_inv s" "adminTokenLookupByID s i = Some r"
    and "at_TokenHash r = HashAdminToken sha256 (TrimSpace t)"
  shows "adminTokenLookupByHash s (HashAdminToken sha256 (TrimSpace t)) = Some r"
  using adm.lookup_ident [OF assms(1,2)] assms by (simp add: adm.lookup_key)

lemma admin_token_reach_inv: "(admin_token_step sha256)\<^sup>*\<^sup>* NewAdminTokenStore s \<Longrightarrow> admin_token_inv s"
  by (induction rule: rtranclp_induct) (simp_all add: adm.empty_inv admin_token_step_inv)


end
