(* ===== verification/Reserved.thy ===== *)
theory Reserved
  imports Stores Names Encodings
begin

text \<open>
  Package \<open>reserved\<close> of the control plane: reserved subdomains, each owned by one agent token,
  their memory store and the service that authorises a tunnel to use one.
\<close>

section \<open>Records and memory store\<close>

record ReservationRecord =
  rv_ID :: string
  rv_Name :: string
  rv_TokenID :: string
  rv_CreatedAt :: gotime

record AuthorizationResult =
  az_Allowed :: bool
  az_Reason :: string

record ReservationStore =
  rv_byID :: "string \<rightharpoonup> ReservationRecord"
  rv_byName :: "string \<rightharpoonup> string"

datatype reserved_error =
    ReservedStoreRequired
  | ErrReservationAlreadyExists
  | ErrReservationNameRequired
  | ErrReservationTokenIDRequired
  | ErrReservationNotFound
  | InvalidReservedSubdomain string name_error
  | ReservationSecret

definition NewReservationStore :: ReservationStore where
  "NewReservationStore = \<lparr>rv_byID = Map.empty, rv_byName = Map.empty\<rparr>"

definition reservationCreate :: "ReservationStore \<Rightarrow> ReservationRecord \<Rightarrow> reserved_error + ReservationStore" where
  "reservationCreate s record =
     (if rv_byID s (rv_ID record) \<noteq> None then Inl ErrReservationAlreadyExists
      else if rv_byName s (rv_Name record) \<noteq> None then Inl ErrReservationAlreadyExists
      else Inr \<lparr>rv_byID = (rv_byID s)(rv_ID record \<mapsto> record),
                rv_byName = (rv_byName s)(rv_Name record \<mapsto> rv_ID record)\<rparr>)"

definition reservationList :: "ReservationStore \<Rightarrow> string list \<Rightarrow> ReservationRecord list" where
  "reservationList s order = sort_key (\<lambda>r. (rv_Name r, rv_ID r)) (rangeValues order (rv_byID s))"

definition reservationLookupByID :: "ReservationStore \<Rightarrow> string \<Rightarrow> ReservationRecord option" where
  "reservationLookupByID s i = rv_byID s i"

definition reservationLookupByName :: "ReservationStore \<Rightarrow> string \<Rightarrow> ReservationRecord option" where
  "reservationLookupByName s name = (case rv_byName s name of None \<Rightarrow> None | Some i \<Rightarrow> rv_byID s i)"

definition reservationDelete :: "ReservationStore \<Rightarrow> string \<Rightarrow> ReservationStore" where
  "reservationDelete s i =
     (case rv_byID s i of
        None \<Rightarrow> s
      | Some record \<Rightarrow> \<lparr>rv_byID = (rv_byID s)(i := None),
                        rv_byName = (rv_byName s)(rv_Name record := None)\<rparr>)"

section \<open>Service\<close>

definition NormalizeName :: "(string \<Rightarrow> string) \<Rightarrow> string \<Rightarrow> reserved_error + string" where
  "NormalizeName uc name0 =
     (let name = ToLower uc (TrimSpace name0) in
      if name = [] then Inl ErrReservationNameRequired
      else case ValidateSubdomain name of
             Some e \<Rightarrow> Inl (InvalidReservedSubdomain name e)
           | None \<Rightarrow> Inr name)"

definition randomReservationID :: "(nat \<Rightarrow> nat \<Rightarrow> bytes option) \<Rightarrow> reserved_error + string" where
  "randomReservationID rand =
     (case rand 0 16 of None \<Rightarrow> Inl ReservationSecret | Some data \<Rightarrow> Inr (''rs_'' @ RawURLEncoding data))"

definition CreateReservation ::
  "(string \<Rightarrow> string) \<Rightarrow> (nat \<Rightarrow> nat \<Rightarrow> bytes option) \<Rightarrow> gotime \<Rightarrow> ReservationStore option \<Rightarrow> string \<Rightarrow> string
     \<Rightarrow> reserved_error + ReservationRecord \<times> ReservationStore" where
  "CreateReservation uc rand now store reqName reqTokenID =
     (case store of None \<Rightarrow> Inl ReservedStoreRequired | Some s \<Rightarrow>
      case NormalizeName uc reqName of Inl e \<Rightarrow> Inl e | Inr name \<Rightarrow>
      let tokenID = TrimSpace reqTokenID in
      if tokenID = [] then Inl ErrReservationTokenIDRequired
      else case randomReservationID rand of Inl e \<Rightarrow> Inl e | Inr ident \<Rightarrow>
           let record = \<lparr>rv_ID = ident, rv_Name = name, rv_TokenID = tokenID, rv_CreatedAt = now\<rparr>
           in case reservationCreate s record of Inl e \<Rightarrow> Inl e | Inr s' \<Rightarrow> Inr (record, s'))"

definition ListReservations :: "ReservationStore option \<Rightarrow> string list \<Rightarrow> reserved_error + ReservationRecord list" where
  "ListReservations store order =
     (case store of None \<Rightarrow> Inl ReservedStoreRequired | Some s \<Rightarrow> Inr (reservationList s order))"

definition GetReservation :: "ReservationStore option \<Rightarrow> string \<Rightarrow> reserved_error + ReservationRecord option" where
  "GetReservation store id0 =
     (case store of None \<Rightarrow> Inl ReservedStoreRequired | Some s \<Rightarrow>
      let i = TrimSpace id0 in if i = [] then Inr None else Inr (reservationLookupByID s i))"

definition GetReservationByName ::
  "(string \<Rightarrow> string) \<Rightarrow> ReservationStore option \<Rightarrow> string \<Rightarrow> reserved_error + ReservationRecord option" where
  "GetReservationByName uc store name0 =
     (case store of None \<Rightarrow> Inl ReservedStoreRequired | Some s \<Rightarrow>
      case NormalizeName uc name0 of Inl e \<Rightarrow> Inl e | Inr name \<Rightarrow> Inr (reservationLookupByName s name))"

definition DeleteReservation :: "ReservationStore option \<Rightarrow> string \<Rightarrow> reserved_error + ReservationStore" where
  "DeleteReservation store id0 =
     (case store of None \<Rightarrow> Inl ReservedStoreRequired | Some s \<Rightarrow>
      let i = TrimSpace id0 in
      if i = [] then Inl ErrReservationNotFound
      else case reservationLookupByID s i of
             None \<Rightarrow> Inl ErrReservationNotFound
           | Some r \<Rightarrow> Inr (reservationDelete s i))"

definition denied :: "string \<Rightarrow> AuthorizationResult" where
  "denied reason = \<lparr>az_Allowed = False, az_Reason = reason\<rparr>"

definition Authorize ::
  "(string \<Rightarrow> string) \<Rightarrow> ReservationStore option \<Rightarrow> string \<Rightarrow> string \<Rightarrow> reserved_error + AuthorizationResult" where
  "Authorize uc store tokenID0 subdomain =
     (case store of None \<Rightarrow> Inl ReservedStoreRequired | Some s \<Rightarrow>
      let tokenID = TrimSpace tokenID0 in
      if tokenID = [] then Inr (denied ''missing_token_id'')
      else case NormalizeName uc subdomain of Inl e \<Rightarrow> Inl e | Inr name \<Rightarrow>
           case reservationLookupByName s name of
             None \<Rightarrow> Inr (denied ''not_reserved'')
           | Some record \<Rightarrow>
               if rv_TokenID record \<noteq> tokenID then Inr (denied ''reserved_for_another_token'')
               else Inr \<lparr>az_Allowed = True, az_Reason = []\<rparr>)"

definition reservation_inv :: "ReservationStore \<Rightarrow> bool" where
  "reservation_inv s \<longleftrightarrow> indexed rv_ID rv_Name (rv_byID s) (rv_byName s)"

text \<open>Stored names are valid labels with an owner.\<close>

definition reservation_wf :: "ReservationStore \<Rightarrow> bool" where
  "reservation_wf s \<longleftrightarrow> reservation_inv s \<and>
     (\<forall>i r. reservationLookupByID s i = Some r \<longrightarrow> ValidateSubdomain (rv_Name r) = None \<and> rv_TokenID r \<noteq> [])"

inductive reservation_step :: "(string \<Rightarrow> string) \<Rightarrow> ReservationStore \<Rightarrow> ReservationStore \<Rightarrow> bool" for uc where
  "CreateReservation uc rand now (Some s) n t = Inr (r, s') \<Longrightarrow> reservation_step uc s s'"
| "DeleteReservation (Some s) i = Inr s' \<Longrightarrow> reservation_step uc s s'"

section \<open>Lemmas\<close>

lemma NormalizeName_Inr_iff:
  "NormalizeName uc s = Inr n \<longleftrightarrow> n = ToLower uc (TrimSpace s) \<and> ValidateSubdomain n = None"
  by (cases "ToLower uc (TrimSpace s) = []")
    (auto simp: NormalizeName_def Let_def ValidateSubdomain_def [of "[]"] split: option.splits)

text \<open>A normal name is a valid label and is its own normal form.\<close>

lemma NormalizeName_fix: "ValidateSubdomain n = None \<Longrightarrow> NormalizeName uc n = Inr n"
  by (simp add: NormalizeName_Inr_iff ToLower_label TrimSpace_label valid_labelD)

lemma reservationCreate_Inr_iff:
  "reservationCreate s r = Inr s' \<longleftrightarrow> rv_byID s (rv_ID r) = None \<and> rv_byName s (rv_Name r) = None \<and>
     s' = \<lparr>rv_byID = (rv_byID s)(rv_ID r \<mapsto> r), rv_byName = (rv_byName s)(rv_Name r \<mapsto> rv_ID r)\<rparr>"
  by (auto simp: reservationCreate_def)

interpretation rsv: keyed_store_delete reservation_inv rv_ID rv_Name "\<lambda>r. True" NewReservationStore
  reservationCreate reservationLookupByID reservationLookupByName reservationDelete
proof unfold_locales
  fix s r s' i j k
  show "reservation_inv NewReservationStore"
    by (simp add: reservation_inv_def NewReservationStore_def indexed_empty)
  show "reservationLookupByID NewReservationStore i = None"
    by (simp add: reservationLookupByID_def NewReservationStore_def)
  assume inv: "reservation_inv s"
  then have ix: "indexed rv_ID rv_Name (rv_byID s) (rv_byName s)" by (simp add: reservation_inv_def)
  show "reservationLookupByID s i = Some r \<Longrightarrow> rv_ID r = i"
    using indexed_ident [OF ix] by (simp add: reservationLookupByID_def)
  show "reservationLookupByName s k = Some r \<longleftrightarrow> reservationLookupByID s (rv_ID r) = Some r \<and> rv_Name r = k"
    using indexed_lookup [OF ix] by (simp add: reservationLookupByName_def reservationLookupByID_def)
  have free: "reservationLookupByName s k = None \<longleftrightarrow> rv_byName s k = None" for k
    using indexed_key_free [OF ix] by (simp add: reservationLookupByName_def)
  show "True \<Longrightarrow> reservationLookupByID s (rv_ID r) = None \<Longrightarrow> reservationLookupByName s (rv_Name r) = None \<Longrightarrow>
      \<exists>s'. reservationCreate s r = Inr s'"
    by (simp add: reservationCreate_Inr_iff reservationLookupByID_def free)
  show "reservation_inv (reservationDelete s i)"
    using inv indexed_delete [OF ix] by (auto simp: reservationDelete_def reservation_inv_def split: option.split)
  show "reservationLookupByID (reservationDelete s i) j = (if j = i then None else reservationLookupByID s j)"
    by (simp add: reservationDelete_def reservationLookupByID_def split: option.split)
  assume ok: "reservationCreate s r = Inr s'"
  then show "True \<and> reservationLookupByID s (rv_ID r) = None \<and> reservationLookupByName s (rv_Name r) = None"
    by (simp add: reservationCreate_Inr_iff reservationLookupByID_def free)
  show "reservationLookupByID s' i = (if i = rv_ID r then Some r else reservationLookupByID s i)"
    using ok by (simp add: reservationCreate_Inr_iff reservationLookupByID_def)
  show "reservation_inv s'"
    using ok indexed_insert [OF ix] by (simp add: reservationCreate_Inr_iff reservation_inv_def)
qed

lemma CreateReservation_Inr:
  assumes "CreateReservation uc rand now (Some s) n t = Inr (r, s')"
  shows "reservationCreate s r = Inr s' \<and> rv_Name r = ToLower uc (TrimSpace n) \<and>
    ValidateSubdomain (rv_Name r) = None \<and> rv_TokenID r = TrimSpace t \<and> rv_TokenID r \<noteq> []"
  using assms
  by (auto simp: CreateReservation_def NormalizeName_Inr_iff Let_def split: sum.splits if_splits)

lemma DeleteReservation_Inr:
  assumes "DeleteReservation (Some s) i = Inr s'"
  shows "s' = reservationDelete s (TrimSpace i) \<and> reservationLookupByID s (TrimSpace i) \<noteq> None"
  using assms by (auto simp: DeleteReservation_def Let_def split: option.splits if_splits)

lemma reservation_step_inv: "reservation_step uc s s' \<Longrightarrow> reservation_inv s \<Longrightarrow> reservation_inv s'"
  by (induction rule: reservation_step.induct)
    (use CreateReservation_Inr DeleteReservation_Inr rsv.create_inv rsv.delete_inv in blast)+

lemma reservation_wf_records:
  "reservation_wf s \<longleftrightarrow> reservation_inv s \<and>
     (\<forall>r\<in>rsv.records s. ValidateSubdomain (rv_Name r) = None \<and> rv_TokenID r \<noteq> [])"
  using rsv.records_iff by (auto simp: reservation_wf_def)

lemma reservation_wf_step:
  assumes "reservation_step uc s s'" "reservation_wf s"
  shows "reservation_wf s'"
  using assms
proof (induction rule: reservation_step.induct)
  case (1 rand now s n t r s')
  note c = CreateReservation_Inr [OF 1(1)]
  have inv: "reservation_inv s" using 1(2) by (simp add: reservation_wf_records)
  have "rsv.records s' = insert r (rsv.records s)" using rsv.create_records [OF inv] c by blast
  then show ?case using 1(2) c rsv.create_inv [OF inv] by (auto simp: reservation_wf_records)
next
  case (2 s i s')
  have inv: "reservation_inv s" using 2(2) by (simp add: reservation_wf_records)
  then show ?case using 2(2) DeleteReservation_Inr [OF 2(1)] rsv.delete_records [OF inv] rsv.delete_inv [OF inv]
    by (auto simp: reservation_wf_records)
qed

lemma reservation_reach_wf: "(reservation_step uc)\<^sup>*\<^sup>* NewReservationStore s \<Longrightarrow> reservation_wf s"
proof (induction rule: rtranclp_induct)
  case base
  then show ?case by (simp add: reservation_wf_records rsv.empty_inv rsv.records_empty)
qed (rule reservation_wf_step)

lemma Authorize_allowed_iff:
  assumes "reservation_inv s"
  shows "Authorize uc (Some s) t d = Inr a \<and> az_Allowed a \<longleftrightarrow>
    (\<exists>r\<in>rsv.records s. rv_Name r = ToLower uc (TrimSpace d) \<and> ValidateSubdomain (rv_Name r) = None \<and>
       rv_TokenID r = TrimSpace t \<and> TrimSpace t \<noteq> [] \<and> a = \<lparr>az_Allowed = True, az_Reason = []\<rparr>)"
  (is "?L \<longleftrightarrow> ?R")
proof
  assume ?L
  then obtain r where "TrimSpace t \<noteq> []" "NormalizeName uc d = Inr (ToLower uc (TrimSpace d))"
    "reservationLookupByName s (ToLower uc (TrimSpace d)) = Some r" "rv_TokenID r = TrimSpace t"
    "a = \<lparr>az_Allowed = True, az_Reason = []\<rparr>"
    by (auto simp: Authorize_def denied_def NormalizeName_Inr_iff Let_def
        split: if_splits sum.splits option.splits)
  then show ?R using rsv.lookupKey_records [OF assms] by (auto simp: NormalizeName_Inr_iff)
next
  assume ?R
  then obtain r where "r \<in> rsv.records s" "rv_Name r = ToLower uc (TrimSpace d)"
    "ValidateSubdomain (rv_Name r) = None" "rv_TokenID r = TrimSpace t" "TrimSpace t \<noteq> []"
    and a: "a = \<lparr>az_Allowed = True, az_Reason = []\<rparr>" by blast
  then have "NormalizeName uc d = Inr (rv_Name r)" "reservationLookupByName s (rv_Name r) = Some r"
    "rv_TokenID r = TrimSpace t" "TrimSpace t \<noteq> []"
    using rsv.lookupKey_records [OF assms] by (auto simp: NormalizeName_Inr_iff)
  then show ?L by (simp add: Authorize_def Let_def a)
qed

lemma demo_reservation:
  "\<exists>r s. CreateReservation id (\<lambda>i n. Some (replicate n CHR ''k'')) 5 (Some NewReservationStore) '' Demo '' ''tok_1'' = Inr (r, s) \<and>
     rv_Name r = ''demo'' \<and> rv_TokenID r = ''tok_1'' \<and> reservationLookupByID s (rv_ID r) = Some r"
proof -
  have "NormalizeName id '' Demo '' = Inr ''demo''" "TrimSpace ''tok_1'' = ''tok_1''" by code_simp+
  then show ?thesis
    by (simp add: CreateReservation_def randomReservationID_def reservationCreate_def NewReservationStore_def
        reservationLookupByID_def Let_def)
qed

section \<open>Properties\<close>

text \<open>
  C16: In every store the service can reach, \<open>Authorize\<close> allows a token to use a subdomain exactly
  when the store holds a reservation of the normalised name that belongs to that token.
\<close>

theorem Authorize_owner_only:
  assumes "(reservation_step uc)\<^sup>*\<^sup>* NewReservationStore s"
  shows "(\<exists>a. Authorize uc (Some s) t d = Inr a \<and> az_Allowed a) \<longleftrightarrow>
    (\<exists>i r. reservationLookupByID s i = Some r \<and> rv_Name r = ToLower uc (TrimSpace d) \<and> rv_TokenID r = TrimSpace t)"
proof -
  have wf: "reservation_wf s" by (rule reservation_reach_wf [OF assms])
  then have inv: "reservation_inv s" by (simp add: reservation_wf_def)
  show ?thesis
    using wf rsv.records_iff [OF inv] unfolding Authorize_allowed_iff [OF inv] reservation_wf_records by metis
qed

theorem Authorize_owner_only_witness:
  "\<exists>r s. CreateReservation id (\<lambda>i n. Some (replicate n CHR ''k'')) 5 (Some NewReservationStore) '' Demo '' ''tok_1'' = Inr (r, s) \<and>
     (\<exists>a. Authorize id (Some s) ''tok_1'' ''DEMO'' = Inr a \<and> az_Allowed a)"
proof -
  obtain r s where cr: "CreateReservation id (\<lambda>i n. Some (replicate n CHR ''k'')) 5 (Some NewReservationStore) '' Demo '' ''tok_1'' = Inr (r, s)"
    and r: "rv_Name r = ''demo''" "rv_TokenID r = ''tok_1''" "reservationLookupByID s (rv_ID r) = Some r"
    using demo_reservation by blast
  have "(reservation_step id)\<^sup>*\<^sup>* NewReservationStore s" using reservation_step.intros(1) [OF cr] by blast
  moreover have "ToLower id (TrimSpace ''DEMO'') = ''demo''" "TrimSpace ''tok_1'' = ''tok_1''" by code_simp+
  ultimately show ?thesis
    using Authorize_owner_only [of id s "''tok_1''" "''DEMO''"] r cr by auto
qed

text \<open>
  A subdomain has one owner: when two tokens are both authorised for the same subdomain in a
  reachable store, their ids are the same.
\<close>

theorem Authorize_unique_owner:
  assumes "(reservation_step uc)\<^sup>*\<^sup>* NewReservationStore s"
    and "Authorize uc (Some s) t d = Inr a" "az_Allowed a"
    and "Authorize uc (Some s) u d = Inr b" "az_Allowed b"
  shows "TrimSpace t = TrimSpace u"
proof -
  have inv: "reservation_inv s" using reservation_reach_wf [OF assms(1)] by (simp add: reservation_wf_def)
  show ?thesis
    using Authorize_allowed_iff [OF inv, of uc t d a] Authorize_allowed_iff [OF inv, of uc u d b] assms(2-)
      rsv.records_key_unique [OF inv] by metis
qed

theorem Authorize_unique_owner_witness:
  "\<exists>r s a. CreateReservation id (\<lambda>i n. Some (replicate n CHR ''k'')) 5 (Some NewReservationStore) '' Demo '' ''tok_1'' = Inr (r, s) \<and>
     Authorize id (Some s) ''tok_1'' ''demo'' = Inr a \<and> az_Allowed a \<and> TrimSpace '' tok_1'' = TrimSpace ''tok_1''"
proof -
  obtain r s where cr: "CreateReservation id (\<lambda>i n. Some (replicate n CHR ''k'')) 5 (Some NewReservationStore) '' Demo '' ''tok_1'' = Inr (r, s)"
    and r: "rv_Name r = ''demo''" "rv_TokenID r = ''tok_1''" "reservationLookupByID s (rv_ID r) = Some r"
    using demo_reservation by blast
  have reach: "(reservation_step id)\<^sup>*\<^sup>* NewReservationStore s" using reservation_step.intros(1) [OF cr] by blast
  have inv: "reservation_inv s" using reservation_reach_wf [OF reach] by (simp add: reservation_wf_def)
  have t: "TrimSpace ''tok_1'' = ''tok_1''" "TrimSpace '' tok_1'' = ''tok_1''" "NormalizeName id ''demo'' = Inr ''demo''" by code_simp+
  have "reservationLookupByName s ''demo'' = Some r" using r by (simp add: rsv.lookup_key [OF inv])
  then have "Authorize id (Some s) ''tok_1'' ''demo'' = Inr \<lparr>az_Allowed = True, az_Reason = []\<rparr>"
    "Authorize id (Some s) '' tok_1'' ''demo'' = Inr \<lparr>az_Allowed = True, az_Reason = []\<rparr>"
    using t r by (simp_all add: Authorize_def Let_def)
  from Authorize_unique_owner [OF reach this(2) _ this(1)] this(1) cr show ?thesis by auto
qed

end
