(* ===== verification/CustomDomains.thy ===== *)
theory CustomDomains
  imports Stores Names Encodings
begin

text \<open>
  Package \<open>customdomains\<close> of the control plane: host names that customers point at a reserved
  subdomain, their verification through a DNS TXT record, the memory store and the service.
  The resolver is an argument: \<open>lookupTXT name\<close> is its answer, \<^term>\<open>None\<close> for an error.
\<close>

section \<open>Records and memory store\<close>

datatype DomainStatus = StatusPendingVerification | StatusActive | StatusVerificationFailed

record DomainRecord =
  dm_ID :: string
  dm_Hostname :: string
  dm_ReservedSubdomainID :: string
  dm_Status :: DomainStatus
  dm_VerificationToken :: string
  dm_VerifiedAt :: "gotime option"
  dm_CreatedAt :: gotime
  dm_UpdatedAt :: gotime

record DomainSummary =
  ds_ID :: string
  ds_Hostname :: string
  ds_ReservedSubdomainID :: string
  ds_Status :: DomainStatus
  ds_VerificationToken :: string
  ds_VerificationName :: string
  ds_VerifiedAt :: "gotime option"
  ds_CreatedAt :: gotime
  ds_UpdatedAt :: gotime

record DomainStore =
  dm_byID :: "string \<rightharpoonup> DomainRecord"
  dm_byHostname :: "string \<rightharpoonup> string"

datatype domain_error =
    DomainStoreRequired
  | ErrDomainAlreadyExists
  | ErrDomainHostnameRequired
  | ErrDomainReservedSubdomainIDRequired
  | ErrDomainInvalidHostname string
  | ErrDomainNotFound
  | VerificationTokenEmpty
  | DomainSecret

definition NewDomainStore :: DomainStore where
  "NewDomainStore = \<lparr>dm_byID = Map.empty, dm_byHostname = Map.empty\<rparr>"

definition domainCreate :: "DomainStore \<Rightarrow> DomainRecord \<Rightarrow> domain_error + DomainStore" where
  "domainCreate s record =
     (if dm_byID s (dm_ID record) \<noteq> None then Inl ErrDomainAlreadyExists
      else if dm_byHostname s (dm_Hostname record) \<noteq> None then Inl ErrDomainAlreadyExists
      else Inr \<lparr>dm_byID = (dm_byID s)(dm_ID record \<mapsto> record),
                dm_byHostname = (dm_byHostname s)(dm_Hostname record \<mapsto> dm_ID record)\<rparr>)"

definition domainList :: "DomainStore \<Rightarrow> string list \<Rightarrow> DomainRecord list" where
  "domainList s order = sort_key (\<lambda>r. (dm_Hostname r, dm_ID r)) (rangeValues order (dm_byID s))"

definition domainLookupByID :: "DomainStore \<Rightarrow> string \<Rightarrow> DomainRecord option" where
  "domainLookupByID s i = dm_byID s i"

definition domainLookupByHostname :: "DomainStore \<Rightarrow> string \<Rightarrow> DomainRecord option" where
  "domainLookupByHostname s h = (case dm_byHostname s h of None \<Rightarrow> None | Some i \<Rightarrow> dm_byID s i)"

definition domainUpdate :: "DomainStore \<Rightarrow> DomainRecord \<Rightarrow> domain_error + DomainStore" where
  "domainUpdate s record =
     (case dm_byID s (dm_ID record) of
        None \<Rightarrow> Inl ErrDomainNotFound
      | Some existing \<Rightarrow>
          let put = (\<lambda>names. \<lparr>dm_byID = (dm_byID s)(dm_ID record \<mapsto> record),
                              dm_byHostname = names(dm_Hostname record \<mapsto> dm_ID record)\<rparr>)
          in if dm_Hostname existing \<noteq> dm_Hostname record then
               (case dm_byHostname s (dm_Hostname record) of
                  Some otherID \<Rightarrow>
                    if otherID \<noteq> dm_ID record then Inl ErrDomainAlreadyExists
                    else Inr (put ((dm_byHostname s)(dm_Hostname existing := None)))
                | None \<Rightarrow> Inr (put ((dm_byHostname s)(dm_Hostname existing := None))))
             else Inr (put (dm_byHostname s)))"

definition domainDelete :: "DomainStore \<Rightarrow> string \<Rightarrow> DomainStore" where
  "domainDelete s i =
     (case dm_byID s i of
        None \<Rightarrow> s
      | Some record \<Rightarrow> \<lparr>dm_byID = (dm_byID s)(i := None),
                        dm_byHostname = (dm_byHostname s)(dm_Hostname record := None)\<rparr>)"

section \<open>Service\<close>

datatype label_error = LabelEmpty | LabelTooLong | LabelHyphen | LabelCharacter

definition validateHostnameLabel :: "string \<Rightarrow> label_error option" where
  "validateHostnameLabel label =
     (if label = [] then Some LabelEmpty
      else if length label > 63 then Some LabelTooLong
      else if hd label = CHR ''-'' \<or> last label = CHR ''-'' then Some LabelHyphen
      else if \<not> list_all labelChar label then Some LabelCharacter
      else None)"

definition NormalizeHostname :: "(string \<Rightarrow> string) \<Rightarrow> string \<Rightarrow> domain_error + string" where
  "NormalizeHostname uc hostname0 =
     (let hostname = TrimSuffix (ToLower uc (TrimSpace hostname0)) ''.'' in
      if hostname = [] then Inl ErrDomainHostnameRequired
      else if Contains hostname '':'' \<or> Contains hostname ''*'' then Inl (ErrDomainInvalidHostname hostname)
      else if length hostname > 253 then Inl (ErrDomainInvalidHostname hostname)
      else if \<not> Contains hostname ''.'' then Inl (ErrDomainInvalidHostname hostname)
      else if \<not> list_all (\<lambda>label. validateHostnameLabel label = None) (Split hostname CHR ''.'')
      then Inl (ErrDomainInvalidHostname hostname)
      else Inr hostname)"

definition VerificationName :: "(string \<Rightarrow> string) \<Rightarrow> string \<Rightarrow> string" where
  "VerificationName uc hostname = ''_porthook.'' @ TrimSuffix (ToLower uc (TrimSpace hostname)) ''.''"

definition verificationTXTMatches :: "string list \<Rightarrow> string \<Rightarrow> bool" where
  "verificationTXTMatches values tok =
     list_ex (\<lambda>v. TrimSpace v = tok \<or> TrimSpace v = ''porthook-domain-verification='' @ tok) values"

definition domainSummarize :: "(string \<Rightarrow> string) \<Rightarrow> DomainRecord \<Rightarrow> DomainSummary" where
  "domainSummarize uc r = \<lparr>ds_ID = dm_ID r, ds_Hostname = dm_Hostname r,
     ds_ReservedSubdomainID = dm_ReservedSubdomainID r, ds_Status = dm_Status r,
     ds_VerificationToken = dm_VerificationToken r, ds_VerificationName = VerificationName uc (dm_Hostname r),
     ds_VerifiedAt = dm_VerifiedAt r, ds_CreatedAt = dm_CreatedAt r, ds_UpdatedAt = dm_UpdatedAt r\<rparr>"

definition randomDomainID :: "(nat \<Rightarrow> nat \<Rightarrow> bytes option) \<Rightarrow> domain_error + string" where
  "randomDomainID rand =
     (case rand 0 16 of None \<Rightarrow> Inl DomainSecret | Some data \<Rightarrow> Inr (''cd_'' @ RawURLEncoding data))"

definition randomVerificationToken :: "(nat \<Rightarrow> nat \<Rightarrow> bytes option) \<Rightarrow> domain_error + string" where
  "randomVerificationToken rand =
     (case rand 1 24 of None \<Rightarrow> Inl DomainSecret | Some data \<Rightarrow> Inr (''phdv_'' @ RawURLEncoding data))"

definition CreateDomain ::
  "(string \<Rightarrow> string) \<Rightarrow> (nat \<Rightarrow> nat \<Rightarrow> bytes option) \<Rightarrow> gotime \<Rightarrow> DomainStore option \<Rightarrow> string \<Rightarrow> string
     \<Rightarrow> domain_error + DomainSummary \<times> DomainStore" where
  "CreateDomain uc rand now store reqHostname reqReservedID =
     (case store of None \<Rightarrow> Inl DomainStoreRequired | Some s \<Rightarrow>
      case NormalizeHostname uc reqHostname of Inl e \<Rightarrow> Inl e | Inr hostname \<Rightarrow>
      let reservedSubdomainID = TrimSpace reqReservedID in
      if reservedSubdomainID = [] then Inl ErrDomainReservedSubdomainIDRequired
      else case randomDomainID rand of Inl e \<Rightarrow> Inl e | Inr ident \<Rightarrow>
           case randomVerificationToken rand of Inl e \<Rightarrow> Inl e | Inr verificationToken \<Rightarrow>
           let record = \<lparr>dm_ID = ident, dm_Hostname = hostname, dm_ReservedSubdomainID = reservedSubdomainID,
                         dm_Status = StatusPendingVerification, dm_VerificationToken = verificationToken,
                         dm_VerifiedAt = None, dm_CreatedAt = now, dm_UpdatedAt = now\<rparr>
           in case domainCreate s record of Inl e \<Rightarrow> Inl e
              | Inr s' \<Rightarrow> Inr (domainSummarize uc record, s'))"

definition ListDomains :: "(string \<Rightarrow> string) \<Rightarrow> DomainStore option \<Rightarrow> string list \<Rightarrow> domain_error + DomainSummary list" where
  "ListDomains uc store order =
     (case store of None \<Rightarrow> Inl DomainStoreRequired | Some s \<Rightarrow>
      Inr (map (domainSummarize uc) (domainList s order)))"

definition VerifyDomain ::
  "(string \<Rightarrow> string) \<Rightarrow> (string \<Rightarrow> string list option) \<Rightarrow> gotime \<Rightarrow> DomainStore option \<Rightarrow> string
     \<Rightarrow> domain_error + DomainSummary \<times> DomainStore" where
  "VerifyDomain uc lookupTXT now store id0 =
     (case store of None \<Rightarrow> Inl DomainStoreRequired | Some s \<Rightarrow>
      let i = TrimSpace id0 in
      if i = [] then Inl ErrDomainNotFound
      else case domainLookupByID s i of
             None \<Rightarrow> Inl ErrDomainNotFound
           | Some record \<Rightarrow>
               if dm_Status record = StatusActive then Inr (domainSummarize uc record, s)
               else if TrimSpace (dm_VerificationToken record) = [] then Inl VerificationTokenEmpty
               else let verified = (case lookupTXT (VerificationName uc (dm_Hostname record)) of
                                      None \<Rightarrow> False
                                    | Some txtValues \<Rightarrow>
                                        verificationTXTMatches txtValues (dm_VerificationToken record));
                        record' = record\<lparr>dm_Status := (if verified then StatusActive else StatusVerificationFailed),
                                         dm_VerifiedAt := (if verified then Some now else dm_VerifiedAt record),
                                         dm_UpdatedAt := now\<rparr>
                    in case domainUpdate s record' of Inl e \<Rightarrow> Inl e
                       | Inr s' \<Rightarrow> Inr (domainSummarize uc record', s'))"

definition GetDomain :: "(string \<Rightarrow> string) \<Rightarrow> DomainStore option \<Rightarrow> string \<Rightarrow> domain_error + DomainSummary option" where
  "GetDomain uc store id0 =
     (case store of None \<Rightarrow> Inl DomainStoreRequired | Some s \<Rightarrow>
      let i = TrimSpace id0 in
      if i = [] then Inr None else Inr (map_option (domainSummarize uc) (domainLookupByID s i)))"

definition GetDomainByHostname ::
  "(string \<Rightarrow> string) \<Rightarrow> DomainStore option \<Rightarrow> string \<Rightarrow> domain_error + DomainSummary option" where
  "GetDomainByHostname uc store hostname0 =
     (case store of None \<Rightarrow> Inl DomainStoreRequired | Some s \<Rightarrow>
      case NormalizeHostname uc hostname0 of Inl e \<Rightarrow> Inl e
      | Inr hostname \<Rightarrow> Inr (map_option (domainSummarize uc) (domainLookupByHostname s hostname)))"

definition DeleteDomain :: "DomainStore option \<Rightarrow> string \<Rightarrow> domain_error + DomainStore" where
  "DeleteDomain store id0 =
     (case store of None \<Rightarrow> Inl DomainStoreRequired | Some s \<Rightarrow>
      let i = TrimSpace id0 in
      if i = [] then Inl ErrDomainNotFound
      else case domainLookupByID s i of
             None \<Rightarrow> Inl ErrDomainNotFound
           | Some r \<Rightarrow> Inr (domainDelete s i))"

definition domain_inv :: "DomainStore \<Rightarrow> bool" where
  "domain_inv s \<longleftrightarrow> indexed dm_ID dm_Hostname (dm_byID s) (dm_byHostname s)"

text \<open>
  The steps of the service, with a log of the TXT answers that \<open>VerifyDomain\<close> received; the log
  is not part of the program.  An active domain is not looked up again.
\<close>

type_synonym txt_log = "(string \<times> string list option) list"

inductive domain_step :: "(string \<Rightarrow> string) \<Rightarrow> DomainStore \<times> txt_log \<Rightarrow> DomainStore \<times> txt_log \<Rightarrow> bool" for uc where
  create: "CreateDomain uc rand now (Some s) h i = Inr (r, s') \<Longrightarrow> domain_step uc (s, l) (s', l)"
| verify: "VerifyDomain uc txt now (Some s) i = Inr (r, s') \<Longrightarrow>
     l' = (if map_option dm_Status (domainLookupByID s (TrimSpace i)) = Some StatusActive then l
           else (ds_VerificationName r, txt (ds_VerificationName r)) # l) \<Longrightarrow>
     domain_step uc (s, l) (s', l')"
| remove: "DeleteDomain (Some s) i = Inr s' \<Longrightarrow> domain_step uc (s, l) (s', l)"

definition verified_by :: "(string \<Rightarrow> string) \<Rightarrow> txt_log \<Rightarrow> DomainRecord \<Rightarrow> bool" where
  "verified_by uc l r \<longleftrightarrow> (\<exists>values. (VerificationName uc (dm_Hostname r), Some values) \<in> set l \<and>
     verificationTXTMatches values (dm_VerificationToken r))"

section \<open>Lemmas\<close>

lemma domainCreate_Inr_iff:
  "domainCreate s r = Inr s' \<longleftrightarrow> dm_byID s (dm_ID r) = None \<and> dm_byHostname s (dm_Hostname r) = None \<and>
     s' = \<lparr>dm_byID = (dm_byID s)(dm_ID r \<mapsto> r), dm_byHostname = (dm_byHostname s)(dm_Hostname r \<mapsto> dm_ID r)\<rparr>"
  by (auto simp: domainCreate_def)

interpretation dom: keyed_store_delete domain_inv dm_ID dm_Hostname "\<lambda>r. True" NewDomainStore
  domainCreate domainLookupByID domainLookupByHostname domainDelete
proof unfold_locales
  fix s r s' i j k
  show "domain_inv NewDomainStore"
    by (simp add: domain_inv_def NewDomainStore_def indexed_empty)
  show "domainLookupByID NewDomainStore i = None"
    by (simp add: domainLookupByID_def NewDomainStore_def)
  assume inv: "domain_inv s"
  then have ix: "indexed dm_ID dm_Hostname (dm_byID s) (dm_byHostname s)" by (simp add: domain_inv_def)
  show "domainLookupByID s i = Some r \<Longrightarrow> dm_ID r = i"
    using indexed_ident [OF ix] by (simp add: domainLookupByID_def)
  show "domainLookupByHostname s k = Some r \<longleftrightarrow> domainLookupByID s (dm_ID r) = Some r \<and> dm_Hostname r = k"
    using indexed_lookup [OF ix] by (simp add: domainLookupByHostname_def domainLookupByID_def)
  have free: "domainLookupByHostname s k = None \<longleftrightarrow> dm_byHostname s k = None" for k
    using indexed_key_free [OF ix] by (simp add: domainLookupByHostname_def)
  show "True \<Longrightarrow> domainLookupByID s (dm_ID r) = None \<Longrightarrow> domainLookupByHostname s (dm_Hostname r) = None \<Longrightarrow>
      \<exists>s'. domainCreate s r = Inr s'"
    by (simp add: domainCreate_Inr_iff domainLookupByID_def free)
  show "domain_inv (domainDelete s i)"
    using inv indexed_delete [OF ix] by (auto simp: domainDelete_def domain_inv_def split: option.split)
  show "domainLookupByID (domainDelete s i) j = (if j = i then None else domainLookupByID s j)"
    by (simp add: domainDelete_def domainLookupByID_def split: option.split)
  assume ok: "domainCreate s r = Inr s'"
  then show "True \<and> domainLookupByID s (dm_ID r) = None \<and> domainLookupByHostname s (dm_Hostname r) = None"
    by (simp add: domainCreate_Inr_iff domainLookupByID_def free)
  show "domainLookupByID s' i = (if i = dm_ID r then Some r else domainLookupByID s i)"
    using ok by (simp add: domainCreate_Inr_iff domainLookupByID_def)
  show "domain_inv s'"
    using ok indexed_insert [OF ix] by (simp add: domainCreate_Inr_iff domain_inv_def)
qed

lemma domainUpdate_Inr:
  assumes "domainUpdate s r = Inr s'"
  shows "\<exists>e. dm_byID s (dm_ID r) = Some e \<and>
     (dm_Hostname e = dm_Hostname r \<and>
        s' = \<lparr>dm_byID = (dm_byID s)(dm_ID r \<mapsto> r), dm_byHostname = (dm_byHostname s)(dm_Hostname r \<mapsto> dm_ID r)\<rparr> \<or>
      (dm_byHostname s (dm_Hostname r) = None \<or> dm_byHostname s (dm_Hostname r) = Some (dm_ID r)) \<and>
        s' = \<lparr>dm_byID = (dm_byID s)(dm_ID r \<mapsto> r),
              dm_byHostname = (dm_byHostname s)(dm_Hostname e := None, dm_Hostname r \<mapsto> dm_ID r)\<rparr>)"
  using assms by (auto simp: domainUpdate_def Let_def split: option.splits if_splits)

interpretation dom_upd: keyed_store_update domain_inv dm_ID dm_Hostname "\<lambda>r. True" NewDomainStore
  domainCreate domainLookupByID domainLookupByHostname domainUpdate
proof unfold_locales
  fix s r s' i
  assume inv: "domain_inv s" and ok: "domainUpdate s r = Inr s'"
  have ix: "indexed dm_ID dm_Hostname (dm_byID s) (dm_byHostname s)" using inv by (simp add: domain_inv_def)
  from domainUpdate_Inr [OF ok] obtain e where e: "dm_byID s (dm_ID r) = Some e" and
    c: "dm_Hostname e = dm_Hostname r \<and>
        s' = \<lparr>dm_byID = (dm_byID s)(dm_ID r \<mapsto> r), dm_byHostname = (dm_byHostname s)(dm_Hostname r \<mapsto> dm_ID r)\<rparr> \<or>
      (dm_byHostname s (dm_Hostname r) = None \<or> dm_byHostname s (dm_Hostname r) = Some (dm_ID r)) \<and>
        s' = \<lparr>dm_byID = (dm_byID s)(dm_ID r \<mapsto> r),
              dm_byHostname = (dm_byHostname s)(dm_Hostname e := None, dm_Hostname r \<mapsto> dm_ID r)\<rparr>" by blast
  show "domainLookupByID s' i = (if i = dm_ID r then Some r else domainLookupByID s i)"
    using c by (auto simp: domainLookupByID_def)
  show "domain_inv s'"
    using c indexed_replace(2) [OF ix e] indexed_rekey [OF ix e] by (auto simp: domain_inv_def)
  have "dm_byHostname s (dm_Hostname e) = Some (dm_ID r)" using ix e by (simp add: indexed_def)
  then have "dm_byHostname s (dm_Hostname r) = None \<or> dm_byHostname s (dm_Hostname r) = Some (dm_ID r)"
    using c by auto
  moreover have "dm_ID e = dm_ID r" using indexed_ident [OF ix e] .
  ultimately show "domainLookupByID s (dm_ID r) \<noteq> None \<and>
      (case domainLookupByHostname s (dm_Hostname r) of None \<Rightarrow> True | Some q \<Rightarrow> dm_ID q = dm_ID r)"
    using e by (auto simp: domainLookupByID_def domainLookupByHostname_def)
qed

lemma NormalizeHostname_Inr:
  assumes "NormalizeHostname uc h = Inr n"
  shows "n = TrimSuffix (ToLower uc (TrimSpace h)) ''.'' \<and> n \<noteq> [] \<and> length n \<le> 253 \<and>
    CHR '':'' \<notin> set n \<and> CHR ''*'' \<notin> set n \<and> CHR ''.'' \<in> set n \<and>
    list_all (\<lambda>w. validateHostnameLabel w = None) (Split n CHR ''.'')"
  using assms by (auto simp: NormalizeHostname_def Let_def Contains_single split: if_splits)

lemma valid_hostname_char:
  assumes "list_all (\<lambda>w. validateHostnameLabel w = None) (Split n CHR ''.'')" "c \<in> set n"
  shows "labelChar c \<or> c = CHR ''.''"
proof (cases "c = CHR ''.''")
  case False
  then obtain w where "w \<in> set (Split n CHR ''.'')" "c \<in> set w" using Split_covers [OF assms(2)] by blast
  then have "validateHostnameLabel w = None" using assms(1) by (auto simp: list_all_iff)
  then show ?thesis using \<open>c \<in> set w\<close>
    by (auto simp: validateHostnameLabel_def list_all_iff split: if_splits)
qed simp

lemma valid_hostname_no_suffix:
  assumes "list_all (\<lambda>w. validateHostnameLabel w = None) (Split n CHR ''.'')"
  shows "TrimSuffix n ''.'' = n"
proof (cases "HasSuffix n ''.''")
  case True
  then obtain m where "n = m @ ''.''" by (auto simp: HasSuffix_iff)
  then have "[] \<in> set (Split n CHR ''.'')" by (simp add: Split_snoc_sep)
  then show ?thesis using assms by (auto simp: list_all_iff validateHostnameLabel_def)
qed (simp add: TrimSuffix_def)

lemma NormalizeHostname_fix:
  assumes "NormalizeHostname uc h = Inr n"
  shows "NormalizeHostname uc n = Inr n"
proof -
  note n = NormalizeHostname_Inr [OF assms]
  have "visible c \<and> isASCII c \<and> asciiLower c = c" if "c \<in> set n" for c
  proof -
    have "labelChar c \<or> c = CHR ''.''" using valid_hostname_char n that by blast
    moreover have "visible CHR ''.''" "isASCII CHR ''.''" "asciiLower CHR ''.'' = CHR ''.''"
      by (simp_all add: visible_def isASCII_def asciiLower_def)
    ultimately show ?thesis using labelChar_visible labelChar_ascii labelChar_lower by blast
  qed
  then have "list_all visible n" "list_all isASCII n" "map asciiLower n = n"
    by (auto simp: list_all_iff intro: map_idI)
  then have "TrimSpace n = n" "ToLower uc n = n" by (simp_all add: TrimSpace_visible ToLower_def)
  moreover have "TrimSuffix n ''.'' = n" using n valid_hostname_no_suffix by blast
  ultimately show ?thesis using n [THEN conjunct2]
    by (simp add: NormalizeHostname_def Contains_single Let_def)
qed

lemma CreateDomain_Inr:
  assumes "CreateDomain uc rand now (Some s) h i = Inr (d, s')"
  shows "\<exists>r. domainCreate s r = Inr s' \<and> dm_Status r = StatusPendingVerification \<and>
    NormalizeHostname uc h = Inr (dm_Hostname r) \<and> d = domainSummarize uc r"
  using assms by (auto simp: CreateDomain_def Let_def split: sum.splits if_splits)

lemma VerifyDomain_Inr:
  assumes "VerifyDomain uc txt now (Some s) i = Inr (d, s')"
  shows "\<exists>r. domainLookupByID s (TrimSpace i) = Some r \<and>
    (dm_Status r = StatusActive \<and> s' = s \<and> d = domainSummarize uc r \<or>
     dm_Status r \<noteq> StatusActive \<and>
     (\<exists>r'. domainUpdate s r' = Inr s' \<and> dm_ID r' = dm_ID r \<and> dm_Hostname r' = dm_Hostname r \<and>
        dm_VerificationToken r' = dm_VerificationToken r \<and> d = domainSummarize uc r' \<and>
        (dm_Status r' = StatusActive \<longleftrightarrow> (\<exists>values. txt (VerificationName uc (dm_Hostname r)) = Some values \<and>
            verificationTXTMatches values (dm_VerificationToken r)))))"
  using assms
  by (auto simp: VerifyDomain_def Let_def split: sum.splits if_splits option.splits)

lemma DeleteDomain_Inr:
  assumes "DeleteDomain (Some s) i = Inr s'"
  shows "s' = domainDelete s (TrimSpace i)"
  using assms by (auto simp: DeleteDomain_def Let_def split: option.splits if_splits)

lemma verified_by_Cons: "verified_by uc l r \<Longrightarrow> verified_by uc (e # l) r"
  by (auto simp: verified_by_def)

lemma domain_step_verified:
  assumes "domain_step uc a b" "domain_inv (fst a)"
    and "\<forall>r\<in>dom.records (fst a). dm_Status r = StatusActive \<longrightarrow> verified_by uc (snd a) r"
  shows "domain_inv (fst b) \<and> (\<forall>r\<in>dom.records (fst b). dm_Status r = StatusActive \<longrightarrow> verified_by uc (snd b) r)"
  using assms
proof (induction rule: domain_step.induct)
  case (create rand now s h i d s' l)
  then obtain r where r: "domainCreate s r = Inr s'" "dm_Status r = StatusPendingVerification"
    using CreateDomain_Inr by blast
  then show ?case
    using create(2,3) dom.create_inv [OF _ r(1)] dom.create_records [OF _ r(1)] by auto
next
  case (verify resolve now s i d s' l' l)
  then have inv: "domain_inv s" by simp
  from VerifyDomain_Inr [OF verify(1)] obtain r where r: "domainLookupByID s (TrimSpace i) = Some r"
    and c: "dm_Status r = StatusActive \<and> s' = s \<or> dm_Status r \<noteq> StatusActive \<and>
     (\<exists>r'. domainUpdate s r' = Inr s' \<and> dm_ID r' = dm_ID r \<and> dm_Hostname r' = dm_Hostname r \<and>
        dm_VerificationToken r' = dm_VerificationToken r \<and> d = domainSummarize uc r' \<and>
        (dm_Status r' = StatusActive \<longleftrightarrow> (\<exists>values. resolve (VerificationName uc (dm_Hostname r)) = Some values \<and>
            verificationTXTMatches values (dm_VerificationToken r))))" by blast
  from c show ?case
  proof (elim disjE conjE exE)
    assume "dm_Status r = StatusActive" "s' = s"
    then show ?thesis using verify(2-) r by simp
  next
    fix r'
    assume ns: "dm_Status r \<noteq> StatusActive" and u: "domainUpdate s r' = Inr s'"
      and h: "dm_Hostname r' = dm_Hostname r" and t: "dm_VerificationToken r' = dm_VerificationToken r"
      and d: "d = domainSummarize uc r'"
      and st: "dm_Status r' = StatusActive \<longleftrightarrow> (\<exists>values. resolve (VerificationName uc (dm_Hostname r)) = Some values \<and>
            verificationTXTMatches values (dm_VerificationToken r))"
    have l': "l' = (VerificationName uc (dm_Hostname r'), resolve (VerificationName uc (dm_Hostname r'))) # l"
      using verify(2) ns r d by (simp add: domainSummarize_def)
    have "verified_by uc l' r'" if "dm_Status r' = StatusActive"
      using st that h t by (auto simp: verified_by_def l')
    moreover have "verified_by uc l' q" if "q \<in> dom.records s" "dm_Status q = StatusActive" for q
      using verify(4) that verified_by_Cons l' by simp
    ultimately show ?thesis using dom_upd.update_inv [OF inv u] dom_upd.update_records [OF inv u] by auto
  qed
next
  case (remove s i s' l)
  then show ?case using DeleteDomain_Inr [OF remove(1)] dom.delete_inv dom.delete_records by auto
qed

lemma domain_reach_verified:
  "(domain_step uc)\<^sup>*\<^sup>* (NewDomainStore, []) b \<Longrightarrow> domain_inv (fst b) \<and>
     (\<forall>r\<in>dom.records (fst b). dm_Status r = StatusActive \<longrightarrow> verified_by uc (snd b) r)"
proof (induction rule: rtranclp_induct)
  case base
  then show ?case by (simp add: dom.empty_inv dom.records_empty)
next
  case (step b c)
  then show ?case using domain_step_verified by blast
qed

section \<open>Properties\<close>

text \<open>
  C15: A custom domain is active only after its owner proved control of it: in every state the
  service can reach, each active domain has seen a TXT answer for its own verification name that
  contains its verification token.
\<close>

theorem active_domain_was_verified:
  assumes "(domain_step uc)\<^sup>*\<^sup>* (NewDomainStore, []) (s, l)" "domainLookupByID s i = Some r"
    and "dm_Status r = StatusActive"
  shows "\<exists>values. (VerificationName uc (dm_Hostname r), Some values) \<in> set l \<and>
    verificationTXTMatches values (dm_VerificationToken r)"
  using domain_reach_verified [OF assms(1)] dom.records_iff [of s r] assms(2,3)
  by (auto simp: verified_by_def)

theorem active_domain_was_verified_witness:
  "\<exists>d s d' s' r. CreateDomain id (\<lambda>i n. Some (replicate n CHR ''k'')) 5 (Some NewDomainStore) ''shop.example.com'' ''rs_1'' = Inr (d, s) \<and>
     VerifyDomain id (\<lambda>n. Some [ds_VerificationToken d]) 6 (Some s) (ds_ID d) = Inr (d', s') \<and>
     domainLookupByID s' (ds_ID d) = Some r \<and>
     (\<exists>values. (VerificationName id (dm_Hostname r), Some values) \<in> set [(ds_VerificationName d', Some [ds_VerificationToken d])] \<and>
        verificationTXTMatches values (dm_VerificationToken r))"
proof -
  define r where "r = \<lparr>dm_ID = ''cd_'' @ RawURLEncoding (replicate 16 CHR ''k''), dm_Hostname = ''shop.example.com'',
    dm_ReservedSubdomainID = ''rs_1'', dm_Status = StatusPendingVerification,
    dm_VerificationToken = ''phdv_'' @ RawURLEncoding (replicate 24 CHR ''k''),
    dm_VerifiedAt = None, dm_CreatedAt = 5, dm_UpdatedAt = 5\<rparr>"
  define s where "s = \<lparr>dm_byID = [dm_ID r \<mapsto> r], dm_byHostname = [dm_Hostname r \<mapsto> dm_ID r]\<rparr>"
  define r' where "r' = r\<lparr>dm_Status := StatusActive, dm_VerifiedAt := Some 6, dm_UpdatedAt := 6\<rparr>"
  define s' where "s' = \<lparr>dm_byID = [dm_ID r \<mapsto> r'], dm_byHostname = [dm_Hostname r \<mapsto> dm_ID r]\<rparr>"
  have norm: "NormalizeHostname id ''shop.example.com'' = Inr ''shop.example.com''" "TrimSpace ''rs_1'' = ''rs_1''"
    by code_simp+
  have cr: "CreateDomain id (\<lambda>i n. Some (replicate n CHR ''k'')) 5 (Some NewDomainStore) ''shop.example.com'' ''rs_1'' =
      Inr (domainSummarize id r, s)"
    using norm by (simp add: CreateDomain_def randomDomainID_def randomVerificationToken_def domainCreate_def
        NewDomainStore_def Let_def r_def s_def)
  have trim: "TrimSpace (dm_ID r) = dm_ID r" "TrimSpace (dm_VerificationToken r) = dm_VerificationToken r"
    unfolding r_def DomainRecord.select_convs
    by (rule TrimSpace_RawURLEncoding; simp add: visible_def)+
  have ne: "dm_ID r \<noteq> []" "dm_VerificationToken r \<noteq> []" "dm_Status r = StatusPendingVerification" by (simp_all add: r_def)
  have look: "domainLookupByID s (dm_ID r) = Some r" by (simp add: domainLookupByID_def s_def)
  have same: "dm_ID r' = dm_ID r" "dm_Hostname r' = dm_Hostname r" "dm_VerificationToken r' = dm_VerificationToken r"
    "dm_Status r' = StatusActive" by (simp_all add: r'_def)
  have upd: "domainUpdate s r' = Inr s'" using same by (simp add: domainUpdate_def s_def s'_def)
  have vd: "VerifyDomain id (\<lambda>n. Some [dm_VerificationToken r]) 6 (Some s) (dm_ID r) = Inr (domainSummarize id r', s')"
    using upd look ne trim by (simp add: VerifyDomain_def verificationTXTMatches_def Let_def r'_def)
  have "(domain_step id)\<^sup>*\<^sup>* (NewDomainStore, []) (s', [(ds_VerificationName (domainSummarize id r'), Some [dm_VerificationToken r])])"
    using domain_step.create [OF cr, of "[]"] domain_step.verify [OF vd refl, of "[]"] look ne trim
    by (auto intro: rtranclp.rtrancl_into_rtrancl)
  moreover have "domainLookupByID s' (dm_ID r) = Some r'" by (simp add: domainLookupByID_def s'_def)
  ultimately have "\<exists>values. (VerificationName id (dm_Hostname r'), Some values) \<in> set [(ds_VerificationName (domainSummarize id r'), Some [dm_VerificationToken r])] \<and>
        verificationTXTMatches values (dm_VerificationToken r')"
    using active_domain_was_verified same(4) by blast
  moreover have "ds_ID (domainSummarize id r) = dm_ID r" "ds_VerificationToken (domainSummarize id r) = dm_VerificationToken r"
    by (simp_all add: domainSummarize_def)
  ultimately show ?thesis using cr vd \<open>domainLookupByID s' (dm_ID r) = Some r'\<close> by metis
qed

text \<open>
  \<open>NormalizeHostname\<close> returns host names of at most 253 bytes made of at least two valid
  labels, without port or wildcard, and is idempotent.
\<close>

theorem NormalizeHostname_sound:
  assumes "NormalizeHostname uc h = Inr n"
  shows "NormalizeHostname uc n = Inr n \<and> length n \<le> 253 \<and> 2 \<le> length (Split n CHR ''.'') \<and>
    (\<forall>w\<in>set (Split n CHR ''.''). ValidateSubdomain w = None)"
proof -
  note n = NormalizeHostname_Inr [OF assms]
  have "ValidateSubdomain w = None" if "w \<in> set (Split n CHR ''.'')" for w
    using n that by (auto simp: list_all_iff validateHostnameLabel_def ValidateSubdomain_def
        MaxSubdomainLength_def split: if_splits)
  moreover have "2 \<le> length (Split n CHR ''.'')" using n Split_two by blast
  ultimately show ?thesis using n NormalizeHostname_fix [OF assms] by auto
qed

theorem NormalizeHostname_sound_witness:
  "NormalizeHostname id '' Shop.Example.COM. '' = Inr ''shop.example.com'' \<and>
   NormalizeHostname id ''shop.example.com'' = Inr ''shop.example.com''"
proof -
  have "NormalizeHostname id '' Shop.Example.COM. '' = Inr ''shop.example.com''" by code_simp
  with NormalizeHostname_sound [OF this] show ?thesis by blast
qed

end
