(* ===== verification/Password.thy ===== *)
theory Password
  imports Encodings
begin

text \<open>
  \<open>access/password.go\<close> of the control plane: Argon2id hashes of basic-auth passwords, printed as
  \<open>$argon2id$v=..$m=..,t=..,p=..$salt$key\<close> and parsed again for verification.  The key
  derivation of \<open>golang.org/x/crypto/argon2\<close> is the record \<open>argon2\<close>: its version number and
  \<open>IDKey password salt time memory threads keyLen\<close>, \<^term>\<open>None\<close> when it panics.
\<close>

record argon2 =
  a2Version :: nat
  IDKey :: "bytes \<Rightarrow> bytes \<Rightarrow> nat \<Rightarrow> nat \<Rightarrow> nat \<Rightarrow> nat \<Rightarrow> bytes option"

datatype password_error = PasswordSalt | ErrPasswordHashMalformed | Argon2Panic

definition argon2idPrefix :: string where
  "argon2idPrefix = ''$argon2id$''"

definition argon2idMemoryKiB :: nat where
  "argon2idMemoryKiB = 19 * 1024"

definition argon2idIterations :: nat where
  "argon2idIterations = 2"

definition argon2idParallel :: nat where
  "argon2idParallel = 1"

definition HashPassword :: "argon2 \<Rightarrow> (nat \<Rightarrow> bytes option) \<Rightarrow> string \<Rightarrow> password_error + string" where
  "HashPassword a2 rand password =
     (case rand 16 of
        None \<Rightarrow> Inl PasswordSalt
      | Some salt \<Rightarrow>
          (case IDKey a2 password salt argon2idIterations argon2idMemoryKiB argon2idParallel 32 of
             None \<Rightarrow> Inl Argon2Panic
           | Some key \<Rightarrow>
               Inr (argon2idPrefix @ ''v='' @ showNat (a2Version a2) @ ''$m='' @ showNat argon2idMemoryKiB
                    @ '',t='' @ showNat argon2idIterations @ '',p='' @ showNat argon2idParallel
                    @ ''$'' @ RawStdEncoding salt @ ''$'' @ RawStdEncoding key)))"

definition IsPasswordHash :: "string \<Rightarrow> bool" where
  "IsPasswordHash hash = HasPrefix hash argon2idPrefix"

definition scanVersion :: "string \<Rightarrow> int option" where
  "scanVersion s =
     (case scanLiteral ''v='' s of None \<Rightarrow> None | Some r \<Rightarrow> map_option fst (scanInt r))"

definition scanParams :: "string \<Rightarrow> (nat \<times> nat \<times> nat) option" where
  "scanParams s =
     (case scanLiteral ''m='' s of None \<Rightarrow> None | Some r1 \<Rightarrow>
      case scanUint 32 r1 of None \<Rightarrow> None | Some (m, r2) \<Rightarrow>
      case scanLiteral '',t='' r2 of None \<Rightarrow> None | Some r3 \<Rightarrow>
      case scanUint 32 r3 of None \<Rightarrow> None | Some (t, r4) \<Rightarrow>
      case scanLiteral '',p='' r4 of None \<Rightarrow> None | Some r5 \<Rightarrow>
      case scanUint 8 r5 of None \<Rightarrow> None | Some (p, r6) \<Rightarrow> Some (m, t, p))"

definition parseArgon2idHash ::
  "argon2 \<Rightarrow> string \<Rightarrow> password_error + (nat \<times> nat \<times> nat \<times> bytes \<times> bytes)" where
  "parseArgon2idHash a2 hash =
     (if \<not> HasPrefix hash argon2idPrefix then Inl ErrPasswordHashMalformed
      else case Split (TrimPrefix hash argon2idPrefix) CHR ''$'' of
             [f0, f1, f2, f3] \<Rightarrow>
               (case scanVersion f0 of None \<Rightarrow> Inl ErrPasswordHashMalformed | Some version \<Rightarrow>
                if version \<noteq> int (a2Version a2) then Inl ErrPasswordHashMalformed
                else case scanParams f1 of None \<Rightarrow> Inl ErrPasswordHashMalformed | Some (m, t, p) \<Rightarrow>
                     case RawStdDecode f2 of None \<Rightarrow> Inl ErrPasswordHashMalformed | Some salt \<Rightarrow>
                     case RawStdDecode f3 of None \<Rightarrow> Inl ErrPasswordHashMalformed | Some key \<Rightarrow>
                     if salt = [] \<or> key = [] then Inl ErrPasswordHashMalformed
                     else Inr (m, t, p, salt, key))
           | _ \<Rightarrow> Inl ErrPasswordHashMalformed)"

definition VerifyPassword :: "argon2 \<Rightarrow> string \<Rightarrow> string \<Rightarrow> password_error + bool" where
  "VerifyPassword a2 hash password =
     (case parseArgon2idHash a2 hash of
        Inl e \<Rightarrow> Inl e
      | Inr (m, t, p, salt, key) \<Rightarrow>
          (case IDKey a2 password salt t m p (length key) of
             None \<Rightarrow> Inl Argon2Panic
           | Some candidate \<Rightarrow> Inr (candidate = key)))"

text \<open>What the documentation of the key derivation and of the random source promises.\<close>

definition argon2_ok :: "argon2 \<Rightarrow> bool" where
  "argon2_ok a2 \<longleftrightarrow> a2Version a2 < 2 ^ 31 \<and>
     (\<forall>pw salt t m p n. 1 \<le> t \<longrightarrow> 1 \<le> p \<longrightarrow> (\<exists>key. IDKey a2 pw salt t m p n = Some key \<and> length key = n))"

definition fills :: "(nat \<Rightarrow> bytes option) \<Rightarrow> bool" where
  "fills rand \<longleftrightarrow> (\<forall>n d. rand n = Some d \<longrightarrow> length d = n)"

section \<open>Lemmas\<close>

lemma scanLiteral_append [simp]: "scanLiteral p (p @ r) = Some r"
  by (simp add: scanLiteral_def)

lemma scanVersion_print: "n < 2 ^ 63 \<Longrightarrow> scanVersion (''v='' @ showNat n) = Some (int n)"
  using scanInt_showNat [of n "[]"] by (simp only: scanVersion_def scanLiteral_append) simp

lemma scanParams_print:
  assumes "m < 2 ^ 32" "t < 2 ^ 32" "p < 2 ^ 8"
  shows "scanParams (''m='' @ showNat m @ '',t='' @ showNat t @ '',p='' @ showNat p) = Some (m, t, p)"
proof -
  have "\<not> isDigit CHR '',''" by (simp add: isDigit_def)
  then have "scanUint 32 (showNat m @ '',t='' @ r) = Some (m, '',t='' @ r)"
    "scanUint 32 (showNat t @ '',p='' @ r) = Some (t, '',p='' @ r)" for r
    using scanUint_showNat assms by auto
  moreover have "scanUint 8 (showNat p) = Some (p, [])"
    using scanUint_showNat [OF assms(3), of "[]"] by simp
  ultimately show ?thesis by (simp only: scanParams_def scanLiteral_append option.case prod.case)
qed

lemma showNat_set: "set (showNat n) \<subseteq> Collect isDigit"
  using showNat_digits [of n] by (auto simp: list_all_iff)

lemma no_dollar:
  "CHR ''$'' \<notin> set (showNat n)" "CHR ''$'' \<notin> set (RawStdEncoding b)"
proof -
  have "\<not> isDigit CHR ''$''" by (simp add: isDigit_def)
  then show "CHR ''$'' \<notin> set (showNat n)" using showNat_set by blast
  have "length stdAlphabet = 64" by (simp add: stdAlphabet_def)
  then have "set (RawStdEncoding b) \<subseteq> set stdAlphabet"
    using sextets_bound [of b] by (auto simp: RawStdEncoding_def list_all_iff intro!: nth_mem)
  moreover have "CHR ''$'' \<notin> set stdAlphabet" by (simp add: stdAlphabet_def)
  ultimately show "CHR ''$'' \<notin> set (RawStdEncoding b)" by blast
qed

lemma hash_fields:
  assumes "HashPassword a2 rand pw = Inr h"
  shows "\<exists>salt key. rand 16 = Some salt \<and>
    IDKey a2 pw salt argon2idIterations argon2idMemoryKiB argon2idParallel 32 = Some key \<and>
    HasPrefix h argon2idPrefix \<and>
    Split (TrimPrefix h argon2idPrefix) CHR ''$'' =
      [''v='' @ showNat (a2Version a2),
       ''m='' @ showNat argon2idMemoryKiB @ '',t='' @ showNat argon2idIterations @ '',p='' @ showNat argon2idParallel,
       RawStdEncoding salt, RawStdEncoding key]"
proof -
  from assms obtain salt key where sk: "rand 16 = Some salt"
    "IDKey a2 pw salt argon2idIterations argon2idMemoryKiB argon2idParallel 32 = Some key"
    and h: "h = argon2idPrefix @ ((''v='' @ showNat (a2Version a2)) @ CHR ''$'' #
      (''m='' @ showNat argon2idMemoryKiB @ '',t='' @ showNat argon2idIterations @ '',p='' @ showNat argon2idParallel) @
      CHR ''$'' # RawStdEncoding salt @ CHR ''$'' # RawStdEncoding key)"
    by (auto simp: HashPassword_def split: option.splits)
  have "Split (TrimPrefix h argon2idPrefix) CHR ''$'' =
      [''v='' @ showNat (a2Version a2),
       ''m='' @ showNat argon2idMemoryKiB @ '',t='' @ showNat argon2idIterations @ '',p='' @ showNat argon2idParallel,
       RawStdEncoding salt, RawStdEncoding key]"
    unfolding h TrimPrefix_append
    by (subst Split_append_sep, simp add: no_dollar)+ (simp add: Split_no_sep no_dollar)
  then show ?thesis using sk h by auto
qed

lemma parse_hash:
  assumes "argon2_ok a2" "fills rand" "HashPassword a2 rand pw = Inr h"
  shows "\<exists>salt key. IDKey a2 pw salt argon2idIterations argon2idMemoryKiB argon2idParallel 32 = Some key \<and>
    length key = 32 \<and>
    parseArgon2idHash a2 h = Inr (argon2idMemoryKiB, argon2idIterations, argon2idParallel, salt, key)"
proof -
  from hash_fields [OF assms(3)] obtain salt key where sk: "rand 16 = Some salt"
    "IDKey a2 pw salt argon2idIterations argon2idMemoryKiB argon2idParallel 32 = Some key"
    and p: "HasPrefix h argon2idPrefix" and f: "Split (TrimPrefix h argon2idPrefix) CHR ''$'' =
      [''v='' @ showNat (a2Version a2),
       ''m='' @ showNat argon2idMemoryKiB @ '',t='' @ showNat argon2idIterations @ '',p='' @ showNat argon2idParallel,
       RawStdEncoding salt, RawStdEncoding key]" by blast
  have "1 \<le> argon2idIterations" "1 \<le> argon2idParallel"
    by (simp_all add: argon2idIterations_def argon2idParallel_def)
  then have key: "length key = 32" using assms(1) sk(2) unfolding argon2_ok_def by (metis option.inject)
  have salt: "length salt = 16" using assms(2) sk(1) by (simp add: fills_def)
  have "scanVersion (''v='' @ showNat (a2Version a2)) = Some (int (a2Version a2))"
    using assms(1) by (intro scanVersion_print) (simp add: argon2_ok_def)
  moreover have "scanParams (''m='' @ showNat argon2idMemoryKiB @ '',t='' @ showNat argon2idIterations @ '',p='' @ showNat argon2idParallel) =
      Some (argon2idMemoryKiB, argon2idIterations, argon2idParallel)"
    by (rule scanParams_print) (simp_all add: argon2idMemoryKiB_def argon2idIterations_def argon2idParallel_def)
  moreover have "salt \<noteq> []" "key \<noteq> []" using key salt by auto
  ultimately have "parseArgon2idHash a2 h = Inr (argon2idMemoryKiB, argon2idIterations, argon2idParallel, salt, key)"
    using p f by (simp only: parseArgon2idHash_def list.case RawStdDecode_Encoding) simp
  then show ?thesis using sk key by blast
qed

lemma Verify_HashPassword:
  assumes "argon2_ok a2" "fills rand" "HashPassword a2 rand pw = Inr h"
  shows "\<exists>salt. VerifyPassword a2 h pw' = Inr (IDKey a2 pw' salt argon2idIterations argon2idMemoryKiB argon2idParallel 32 =
      IDKey a2 pw salt argon2idIterations argon2idMemoryKiB argon2idParallel 32)"
proof -
  from parse_hash [OF assms] obtain salt key where k: "IDKey a2 pw salt argon2idIterations argon2idMemoryKiB argon2idParallel 32 = Some key"
    "length key = 32" "parseArgon2idHash a2 h = Inr (argon2idMemoryKiB, argon2idIterations, argon2idParallel, salt, key)" by blast
  have "1 \<le> argon2idIterations" "1 \<le> argon2idParallel"
    by (simp_all add: argon2idIterations_def argon2idParallel_def)
  then obtain key' where "IDKey a2 pw' salt argon2idIterations argon2idMemoryKiB argon2idParallel 32 = Some key'"
    using assms(1) unfolding argon2_ok_def by blast
  with k have "VerifyPassword a2 h pw' = Inr (IDKey a2 pw' salt argon2idIterations argon2idMemoryKiB argon2idParallel 32 =
      IDKey a2 pw salt argon2idIterations argon2idMemoryKiB argon2idParallel 32)"
    by (simp add: VerifyPassword_def)
  then show ?thesis ..
qed

lemma HashPassword_prefix: "HashPassword a2 rand pw = Inr h \<Longrightarrow> IsPasswordHash h \<and> h \<noteq> []"
  by (auto simp: HashPassword_def IsPasswordHash_def argon2idPrefix_def HasPrefix_def split: option.splits)

end
