(* ===== verification/NetIP.thy ===== *)
theory NetIP
  imports Encodings
begin

text \<open>
  The parts of packages \<open>net\<close> and \<open>net/netip\<close> that the code uses: parsing and printing of IPv4 and
  IPv6 addresses, prefixes and \<open>host:port\<close> pairs.  An address is its number, an IPv6 address also
  has a zone; the invalid zero \<open>Addr\<close> is \<^term>\<open>None\<close> where it can occur.
\<close>

section \<open>Addresses\<close>

datatype Addr = V4 nat | V6 nat string

fun unsigned :: "string \<Rightarrow> nat" where
  "unsigned s = nat (digitsVal s)"

definition parseOctet :: "string \<Rightarrow> nat option" where
  "parseOctet s =
     (if s = [] \<or> \<not> list_all isDigit s \<or> (length s > 1 \<and> hd s = CHR ''0'') \<or> unsigned s > 255 then None
      else Some (unsigned s))"

definition parseIPv4 :: "string \<Rightarrow> nat option" where
  "parseIPv4 s =
     (case map parseOctet (Split s (CHR ''.'')) of
        [Some a, Some b, Some c, Some d] \<Rightarrow> Some (((a * 256 + b) * 256 + c) * 256 + d)
      | _ \<Rightarrow> None)"

definition hexVal :: "char \<Rightarrow> nat option" where
  "hexVal c =
     (let n = of_char c in
      if 48 \<le> n \<and> n \<le> 57 then Some (n - 48)
      else if 97 \<le> n \<and> n \<le> 102 then Some (n - 87)
      else if 65 \<le> n \<and> n \<le> 70 then Some (n - 55)
      else None)"

definition hexDigits :: "string \<Rightarrow> string" where
  "hexDigits s = takeWhile (\<lambda>c. hexVal c \<noteq> None) s"

definition hexNumber :: "string \<Rightarrow> nat" where
  "hexNumber ds = foldl (\<lambda>a c. a * 16 + the (hexVal c)) 0 ds"

text \<open>
  The loop of \<open>parseIPv6\<close>: the 16-bit groups read so far, the group at which \<open>::\<close> stood, and the
  rest of the text.  At most eight groups are read, which is the fuel.
\<close>

fun ipv6Groups :: "nat \<Rightarrow> nat list \<Rightarrow> nat option \<Rightarrow> string \<Rightarrow> (nat list \<times> nat option) option" where
  "ipv6Groups 0 gs ell s = (if s = [] then Some (gs, ell) else None)"
| "ipv6Groups (Suc n) gs ell s =
     (let ds = hexDigits s; rest = drop (length ds) s in
      if ds = [] \<or> length ds > 4 then None
      else case rest of
             [] \<Rightarrow> Some (gs @ [hexNumber ds], ell)
           | c # rest' \<Rightarrow>
               if c = CHR ''.'' then
                 (if (ell = None \<and> length gs \<noteq> 6) \<or> length gs > 6 then None
                  else case parseIPv4 s of
                         None \<Rightarrow> None
                       | Some v \<Rightarrow> Some (gs @ [v div 65536, v mod 65536], ell))
               else if c \<noteq> CHR '':'' \<or> rest' = [] then None
               else if hd rest' = CHR '':'' then
                 (if ell \<noteq> None then None
                  else let ell' = Some (length gs + 1) in
                       if tl rest' = [] then Some (gs @ [hexNumber ds], ell')
                       else ipv6Groups n (gs @ [hexNumber ds]) ell' (tl rest'))
               else ipv6Groups n (gs @ [hexNumber ds]) ell rest')"

definition groupsNumber :: "nat list \<Rightarrow> nat" where
  "groupsNumber gs = foldl (\<lambda>a g. a * 65536 + g) 0 gs"

definition expandEllipsis :: "nat list \<Rightarrow> nat option \<Rightarrow> nat list option" where
  "expandEllipsis gs ell =
     (case ell of
        None \<Rightarrow> if length gs < 8 then None else Some gs
      | Some e \<Rightarrow> if length gs < 8 then Some (take e gs @ replicate (8 - length gs) 0 @ drop e gs) else None)"

definition parseIPv6 :: "string \<Rightarrow> Addr option" where
  "parseIPv6 s0 =
     (let s = takeWhile (\<lambda>c. c \<noteq> CHR ''%'') s0; z = dropWhile (\<lambda>c. c \<noteq> CHR ''%'') s0; zone = tl z in
      if z \<noteq> [] \<and> zone = [] then None
      else let lead = HasPrefix s ''::''; t = (if lead then drop 2 s else s) in
           if lead \<and> t = [] then Some (V6 0 zone)
           else case ipv6Groups 8 [] (if lead then Some 0 else None) t of
                  None \<Rightarrow> None
                | Some (gs, ell) \<Rightarrow> map_option (\<lambda>g. V6 (groupsNumber g) zone) (expandEllipsis gs ell))"

definition ParseAddrGo :: "string \<Rightarrow> Addr option" where
  "ParseAddrGo s =
     (case find (\<lambda>c. c = CHR ''.'' \<or> c = CHR '':'' \<or> c = CHR ''%'') s of
        None \<Rightarrow> None
      | Some c \<Rightarrow>
          if c = CHR ''.'' then map_option V4 (parseIPv4 s)
          else if c = CHR '':'' then parseIPv6 s
          else None)"

definition Unmap :: "Addr \<Rightarrow> Addr" where
  "Unmap a = (case a of V4 n \<Rightarrow> V4 n | V6 n z \<Rightarrow> if n div 2 ^ 32 = 65535 then V4 (n mod 2 ^ 32) else V6 n z)"

definition showIPv4 :: "nat \<Rightarrow> string" where
  "showIPv4 n =
     Join (map showNat [n div 16777216, n div 65536 mod 256, n div 256 mod 256, n mod 256]) ''.''"

definition groupsOf :: "nat \<Rightarrow> nat list" where
  "groupsOf n = map (\<lambda>i. n div 65536 ^ (7 - i) mod 65536) [0..<8]"

fun showHexFuel :: "nat \<Rightarrow> nat \<Rightarrow> string" where
  "showHexFuel 0 n = []"
| "showHexFuel (Suc k) n =
     (if n < 16 then [hexAlphabet ! n] else showHexFuel k (n div 16) @ [hexAlphabet ! (n mod 16)])"

definition showHex :: "nat \<Rightarrow> string" where
  "showHex n = showHexFuel 4 n"

text \<open>The first longest run of at least two zero groups, which is printed as \<open>::\<close>.\<close>

definition zeroRun :: "nat list \<Rightarrow> nat \<Rightarrow> nat" where
  "zeroRun gs i = length (takeWhile (\<lambda>g. g = 0) (drop i gs))"

definition longestZeroRun :: "nat list \<Rightarrow> (nat \<times> nat) option" where
  "longestZeroRun gs =
     foldl (\<lambda>best i. let l = zeroRun gs i in
              if 2 \<le> l \<and> (case best of None \<Rightarrow> True | Some (s, e) \<Rightarrow> l > e - s) then Some (i, i + l) else best)
       None [0..<8]"

definition showIPv6 :: "nat \<Rightarrow> string" where
  "showIPv6 n =
     (let gs = groupsOf n; hex = (\<lambda>xs. Join (map showHex xs) '':'') in
      case longestZeroRun gs of
        None \<Rightarrow> hex gs
      | Some (s, e) \<Rightarrow> hex (take s gs) @ ''::'' @ hex (drop e gs))"

definition AddrStringGo :: "Addr \<Rightarrow> string" where
  "AddrStringGo a =
     (case a of
        V4 n \<Rightarrow> showIPv4 n
      | V6 n z \<Rightarrow> (if n div 2 ^ 32 = 65535 then ''::ffff:'' @ showIPv4 (n mod 2 ^ 32) else showIPv6 n)
                  @ (if z = [] then [] else ''%'' @ z))"

section \<open>Prefixes\<close>

record Prefix =
  pf_ip :: Addr
  pf_bits :: nat

fun bitLen :: "Addr \<Rightarrow> nat" where
  "bitLen (V4 n) = 32"
| "bitLen (V6 n z) = 128"

definition lastIndex :: "char \<Rightarrow> string \<Rightarrow> nat option" where
  "lastIndex c s = (if c \<in> set s then Some (length s - 1 - length (takeWhile (\<lambda>x. x \<noteq> c) (rev s))) else None)"

definition hasZone :: "Addr \<Rightarrow> bool" where
  "hasZone a = (case a of V4 n \<Rightarrow> False | V6 n z \<Rightarrow> z \<noteq> [])"

definition ParsePrefixGo :: "string \<Rightarrow> Prefix option" where
  "ParsePrefixGo s =
     (case lastIndex (CHR ''/'') s of
        None \<Rightarrow> None
      | Some i \<Rightarrow>
          (case ParseAddrGo (take i s) of
             None \<Rightarrow> None
           | Some ip \<Rightarrow>
               let bitsStr = drop (Suc i) s in
               if hasZone ip then None
               else if length bitsStr > 1 \<and> (hd bitsStr < CHR ''1'' \<or> hd bitsStr > CHR ''9'') then None
               else case Atoi bitsStr of
                      None \<Rightarrow> None
                    | Some bits \<Rightarrow>
                        if bits < 0 \<or> bits > int (bitLen ip) then None
                        else Some \<lparr>pf_ip = ip, pf_bits = nat bits\<rparr>))"

definition Masked :: "Prefix \<Rightarrow> Prefix" where
  "Masked p =
     (let k = 2 ^ (bitLen (pf_ip p) - pf_bits p) in
      p\<lparr>pf_ip := (case pf_ip p of V4 n \<Rightarrow> V4 (n div k * k) | V6 n z \<Rightarrow> V6 (n div k * k) [])\<rparr>)"

definition PrefixString :: "Prefix \<Rightarrow> string" where
  "PrefixString p = AddrStringGo (pf_ip p) @ ''/'' @ showNat (pf_bits p)"

definition PrefixContainsGo :: "Prefix \<Rightarrow> Addr \<Rightarrow> bool" where
  "PrefixContainsGo p a =
     (case (pf_ip p, a) of
        (V4 n, V4 m) \<Rightarrow> n div 2 ^ (32 - pf_bits p) = m div 2 ^ (32 - pf_bits p)
      | (V6 n z, V6 m []) \<Rightarrow> n div 2 ^ (128 - pf_bits p) = m div 2 ^ (128 - pf_bits p)
      | _ \<Rightarrow> False)"

definition PrefixFromAddr :: "Addr \<Rightarrow> Prefix" where
  "PrefixFromAddr a = \<lparr>pf_ip = (case a of V4 n \<Rightarrow> V4 n | V6 n z \<Rightarrow> V6 n []), pf_bits = bitLen a\<rparr>"

section \<open>Host and port\<close>

definition SplitHostPort :: "string \<Rightarrow> (string \<times> string) option" where
  "SplitHostPort hp =
     (case lastIndex (CHR '':'') hp of
        None \<Rightarrow> None
      | Some i \<Rightarrow>
          if HasPrefix hp ''['' then
            (if CHR '']'' \<notin> set hp then None
             else let end0 = length (takeWhile (\<lambda>c. c \<noteq> CHR '']'') hp) in
                  if end0 + 1 \<noteq> i then None
                  else if CHR ''['' \<in> set (drop 1 hp) \<or> CHR '']'' \<in> set (drop (end0 + 1) hp) then None
                  else Some (take (end0 - 1) (drop 1 hp), drop (Suc i) hp))
          else if CHR '':'' \<in> set (take i hp) then None
          else if CHR ''['' \<in> set hp \<or> CHR '']'' \<in> set hp then None
          else Some (take i hp, drop (Suc i) hp))"

definition parsePort16 :: "string \<Rightarrow> nat option" where
  "parsePort16 s = (if s = [] \<or> \<not> list_all isDigit s \<or> unsigned s > 65535 then None else Some (unsigned s))"

definition ParseAddrPort :: "string \<Rightarrow> (Addr \<times> nat) option" where
  "ParseAddrPort s =
     (case lastIndex (CHR '':'') s of
        None \<Rightarrow> None
      | Some i \<Rightarrow>
          let ip0 = take i s; port = drop (Suc i) s; v6 = HasPrefix ip0 ''['' in
          if ip0 = [] \<or> port = [] then None
          else if v6 \<and> (length ip0 < 2 \<or> last ip0 \<noteq> CHR '']'') then None
          else let ip = (if v6 then butlast (tl ip0) else ip0) in
               case (parsePort16 port, ParseAddrGo ip) of
                 (Some p, Some a) \<Rightarrow>
                   (case a of
                      V4 n \<Rightarrow> if v6 then None else Some (a, p)
                    | V6 n z \<Rightarrow> if v6 then Some (a, p) else None)
               | _ \<Rightarrow> None)"

text \<open>\<open>strings.Trim\<close> with a cut set, and \<open>strings.FieldsFunc\<close>.\<close>

definition TrimCut :: "string \<Rightarrow> string \<Rightarrow> string" where
  "TrimCut s cs = rev (dropWhile (\<lambda>c. c \<in> set cs) (rev (dropWhile (\<lambda>c. c \<in> set cs) s)))"

fun fieldsFrom :: "(char \<Rightarrow> bool) \<Rightarrow> string \<Rightarrow> string \<Rightarrow> string list" where
  "fieldsFrom sep w [] = (if w = [] then [] else [w])"
| "fieldsFrom sep w (c # cs) =
     (if sep c then (if w = [] then fieldsFrom sep [] cs else w # fieldsFrom sep [] cs)
      else fieldsFrom sep (w @ [c]) cs)"

definition FieldsFunc :: "string \<Rightarrow> (char \<Rightarrow> bool) \<Rightarrow> string list" where
  "FieldsFunc s sep = fieldsFrom sep [] s"

section \<open>The interface used by the access policies\<close>

record ('a, 'p) netip =
  ParseAddr :: "string \<Rightarrow> 'a option"
  AddrString :: "'a \<Rightarrow> string"
  ParsePrefix :: "string \<Rightarrow> 'p option"
  MaskedString :: "'p \<Rightarrow> string"
  PrefixContains :: "'p \<Rightarrow> 'a \<Rightarrow> bool"

definition goNetip :: "(Addr, Prefix) netip" where
  "goNetip =
     \<lparr>ParseAddr = ParseAddrGo, AddrString = AddrStringGo, ParsePrefix = ParsePrefixGo,
      MaskedString = (\<lambda>p. PrefixString (Masked p)), PrefixContains = PrefixContainsGo\<rparr>"

section \<open>Lemmas\<close>

lemma showNat_head: "0 < n \<Longrightarrow> hd (showNat n) \<noteq> CHR ''0''"
proof (induction n rule: showNat.induct)
  case (1 n)
  show ?case
  proof (cases "n < 10")
    case True
    then have "hd (showNat n) = char_of (48 + n)" by (simp add: showNat.simps [of n])
    moreover have "char_of (48 + n) \<noteq> CHR ''0''"
    proof
      assume "char_of (48 + n) = CHR ''0''"
      then have "(of_char (char_of (48 + n) :: char) :: nat) = 48" by simp
      with True 1 show False by (simp add: of_char_of)
    qed
    ultimately show ?thesis by simp
  next
    case False
    then show ?thesis using 1 showNat_Cons [of "n div 10"] by (auto simp: showNat.simps [of n])
  qed
qed

lemma showNat_small: "n < 10 \<Longrightarrow> length (showNat n) = 1"
  by (simp add: showNat.simps [of n])

lemma parseOctet_showNat: "n \<le> 255 \<Longrightarrow> parseOctet (showNat n) = Some n"
  using showNat_digits [of n] showNat_head [of n] showNat_small [of n]
  by (cases "n = 0") (auto simp: parseOctet_def digitsVal_showNat)

lemma showNat_no_dot: "CHR ''.'' \<notin> set (showNat n)"
  using showNat_digits [of n] by (auto simp: list_all_iff isDigit_def)

lemma Split_Join_dot:
  assumes "\<forall>w \<in> set ws. c \<notin> set w" "ws \<noteq> []"
  shows "Split (Join ws [c]) c = ws"
  using assms
proof (induction ws)
  case (Cons w ws)
  then show ?case by (cases ws) (simp_all add: Split_no_sep Split_append_sep)
qed simp

lemma octets:
  fixes n :: nat
  assumes "n < 2 ^ 32"
  shows "((n div 16777216 * 256 + n div 65536 mod 256) * 256 + n div 256 mod 256) * 256 + n mod 256 = n"
    "n div 16777216 \<le> 255" "m mod 256 \<le> (255 :: nat)"
proof -
  have "n div 65536 = n div 256 div 256" "n div 16777216 = n div 256 div 256 div 256"
    by (simp_all add: div_mult2_eq [symmetric])
  then show "((n div 16777216 * 256 + n div 65536 mod 256) * 256 + n div 256 mod 256) * 256 + n mod 256 = n"
    by (simp only: div_mult_mod_eq)
  have "n div 16777216 < 256" using assms by (simp add: less_mult_imp_div_less)
  then show "n div 16777216 \<le> 255" by simp
  have "m mod 256 < 256" by simp
  then show "m mod 256 \<le> 255" by linarith
qed

lemma parseIPv4_showIPv4: "n < 2 ^ 32 \<Longrightarrow> parseIPv4 (showIPv4 n) = Some n"
proof -
  assume n: "n < 2 ^ 32"
  let ?os = "[n div 16777216, n div 65536 mod 256, n div 256 mod 256, n mod 256]"
  have "Split (showIPv4 n) (CHR ''.'') = map showNat ?os"
    unfolding showIPv4_def by (rule Split_Join_dot) (auto simp: showNat_no_dot)
  then show ?thesis using octets [OF n]
    by (simp add: parseIPv4_def parseOctet_showNat)
qed

lemma find_dot:
  "CHR ''.'' \<in> set s \<Longrightarrow> \<forall>c \<in> set s. c \<noteq> CHR '':'' \<and> c \<noteq> CHR ''%'' \<Longrightarrow>
   find (\<lambda>c. c = CHR ''.'' \<or> c = CHR '':'' \<or> c = CHR ''%'') s = Some (CHR ''.'')"
  by (induction s) auto

text \<open>A printed IPv4 address parses as itself.\<close>

lemma ParseAddr_showIPv4: "n < 2 ^ 32 \<Longrightarrow> ParseAddrGo (AddrStringGo (V4 n)) = Some (V4 n)"
proof -
  assume n: "n < 2 ^ 32"
  have digits: "list_all (\<lambda>c. isDigit c \<or> c = CHR ''.'') (showIPv4 n)"
    using showNat_digits by (auto simp: showIPv4_def list_all_iff)
  have "CHR ''.'' \<in> set (showIPv4 n)" by (simp add: showIPv4_def)
  moreover have "\<forall>c \<in> set (showIPv4 n). c \<noteq> CHR '':'' \<and> c \<noteq> CHR ''%''"
    using digits by (auto simp: list_all_iff isDigit_def)
  ultimately have "find (\<lambda>c. c = CHR ''.'' \<or> c = CHR '':'' \<or> c = CHR ''%'') (showIPv4 n) = Some (CHR ''.'')"
    by (rule find_dot)
  then show ?thesis using parseIPv4_showIPv4 [OF n] by (simp add: ParseAddrGo_def AddrStringGo_def)
qed

end
