(* ===== verification/Access.thy ===== *)
theory Access
  imports Stores Password NetIP
begin

text \<open>
  Package \<open>access\<close> of the control plane: the access policy of a reserved subdomain (public, basic
  auth, bearer token or an IP allow list), its memory store, the service and the check of a
  request against a policy.  A panic of the key derivation during a check (a stored hash with
  zero rounds) aborts the request in the code and counts as a mismatch here.  SHA-256 and the Unicode case tables are arguments as elsewhere;
  \<open>net/netip\<close> is the record \<open>netip\<close>, of which the theory \<open>NetIP\<close> gives the instance \<open>goNetip\<close>.
\<close>

section \<open>Records and memory store\<close>

datatype PolicyMode = ModePublic | ModeBasicAuth | ModeBearerToken | ModeIPAllowlist | OtherMode string

record PolicyRecord =
  pl_ID :: string
  pl_ReservedSubdomainID :: string
  pl_Mode :: PolicyMode
  pl_BasicUsername :: string
  pl_SecretHash :: string
  pl_IPAllowlist :: "string list"
  pl_CreatedAt :: gotime
  pl_UpdatedAt :: gotime

record CreatePolicyRequest =
  cp_ReservedSubdomainID :: string
  cp_Mode :: string
  cp_BasicUsername :: string
  cp_BasicPassword :: string
  cp_BearerToken :: string
  cp_IPAllowlist :: "string list"

record UpdatePolicyRequest =
  up_Mode :: string
  up_BasicUsername :: string
  up_BasicPassword :: string
  up_BearerToken :: string
  up_IPAllowlist :: "string list"

record PolicySummary =
  ps_ID :: string
  ps_ReservedSubdomainID :: string
  ps_Mode :: PolicyMode
  ps_BasicUsername :: string
  ps_SecretConfigured :: bool
  ps_IPAllowlist :: "string list"
  ps_CreatedAt :: gotime
  ps_UpdatedAt :: gotime

record CheckPolicyRequest =
  ck_ReservedSubdomainID :: string
  ck_RemoteIP :: string
  ck_BasicUsername :: string
  ck_BasicPassword :: string
  ck_BearerToken :: string

record CheckPolicyResult =
  cr_Allowed :: bool
  cr_Mode :: PolicyMode
  cr_Reason :: string

record PolicyStore =
  pl_byID :: "string \<rightharpoonup> PolicyRecord"
  pl_byReservation :: "string \<rightharpoonup> string"

datatype access_error =
    PolicyStoreRequired
  | ErrPolicyAlreadyExists
  | ErrPolicyReservedSubdomainIDRequired
  | ErrPolicyModeRequired
  | ErrPolicyModeUnsupported string
  | ErrPolicySecretRequired
  | ErrPolicyBasicUsernameRequired
  | ErrPolicyIPAllowlistRequired
  | InvalidAllowlistEntry string
  | ErrPolicyNotFound
  | PolicyHash password_error
  | PolicySecret

definition NewPolicyStore :: PolicyStore where
  "NewPolicyStore = \<lparr>pl_byID = Map.empty, pl_byReservation = Map.empty\<rparr>"

definition policyCreate :: "PolicyStore \<Rightarrow> PolicyRecord \<Rightarrow> access_error + PolicyStore" where
  "policyCreate s record =
     (if pl_byID s (pl_ID record) \<noteq> None then Inl ErrPolicyAlreadyExists
      else if pl_byReservation s (pl_ReservedSubdomainID record) \<noteq> None then Inl ErrPolicyAlreadyExists
      else Inr \<lparr>pl_byID = (pl_byID s)(pl_ID record \<mapsto> record),
                pl_byReservation = (pl_byReservation s)(pl_ReservedSubdomainID record \<mapsto> pl_ID record)\<rparr>)"

definition policyUpdate :: "PolicyStore \<Rightarrow> PolicyRecord \<Rightarrow> access_error + PolicyStore" where
  "policyUpdate s record =
     (case pl_byID s (pl_ID record) of
        None \<Rightarrow> Inl ErrPolicyNotFound
      | Some existing \<Rightarrow>
          if pl_ReservedSubdomainID existing \<noteq> pl_ReservedSubdomainID record
          then Inl ErrPolicyReservedSubdomainIDRequired
          else Inr \<lparr>pl_byID = (pl_byID s)(pl_ID record \<mapsto> record),
                    pl_byReservation = (pl_byReservation s)(pl_ReservedSubdomainID record \<mapsto> pl_ID record)\<rparr>)"

definition policyList :: "PolicyStore \<Rightarrow> string list \<Rightarrow> PolicyRecord list" where
  "policyList s order =
     sort_key (\<lambda>r. (pl_ReservedSubdomainID r, pl_ID r)) (rangeValues order (pl_byID s))"

definition policyLookupByID :: "PolicyStore \<Rightarrow> string \<Rightarrow> PolicyRecord option" where
  "policyLookupByID s i = pl_byID s i"

definition policyLookupByReservedSubdomainID :: "PolicyStore \<Rightarrow> string \<Rightarrow> PolicyRecord option" where
  "policyLookupByReservedSubdomainID s k =
     (case pl_byReservation s k of None \<Rightarrow> None | Some i \<Rightarrow> pl_byID s i)"

definition policyDelete :: "PolicyStore \<Rightarrow> string \<Rightarrow> PolicyStore" where
  "policyDelete s i =
     (case pl_byID s i of
        None \<Rightarrow> s
      | Some record \<Rightarrow> \<lparr>pl_byID = (pl_byID s)(i := None),
                        pl_byReservation = (pl_byReservation s)(pl_ReservedSubdomainID record := None)\<rparr>)"

section \<open>Modes, secrets and allow lists\<close>

definition policyModeOf :: "string \<Rightarrow> PolicyMode" where
  "policyModeOf s =
     (if s = ''public'' then ModePublic else if s = ''basic_auth'' then ModeBasicAuth
      else if s = ''bearer_token'' then ModeBearerToken else if s = ''ip_allowlist'' then ModeIPAllowlist
      else OtherMode s)"

fun policyModeString :: "PolicyMode \<Rightarrow> string" where
  "policyModeString ModePublic = ''public''"
| "policyModeString ModeBasicAuth = ''basic_auth''"
| "policyModeString ModeBearerToken = ''bearer_token''"
| "policyModeString ModeIPAllowlist = ''ip_allowlist''"
| "policyModeString (OtherMode s) = s"

definition supportedModes :: "PolicyMode list" where
  "supportedModes = [ModePublic, ModeBasicAuth, ModeBearerToken, ModeIPAllowlist]"

definition NormalizeMode :: "(string \<Rightarrow> string) \<Rightarrow> string \<Rightarrow> access_error + PolicyMode" where
  "NormalizeMode uc mode0 =
     (let mode = ToLower uc (TrimSpace mode0) in
      if mode = [] then Inl ErrPolicyModeRequired
      else if policyModeOf mode \<notin> set supportedModes then Inl (ErrPolicyModeUnsupported mode)
      else Inr (policyModeOf mode))"

definition normalizeIPAllowlistValue :: "('a, 'p) netip \<Rightarrow> string \<Rightarrow> access_error + string" where
  "normalizeIPAllowlistValue ip v =
     (case ParsePrefix ip v of
        Some prefix \<Rightarrow> Inr (MaskedString ip prefix)
      | None \<Rightarrow> (case ParseAddr ip v of
                   None \<Rightarrow> Inl (InvalidAllowlistEntry v)
                 | Some addr \<Rightarrow> Inr (AddrString ip addr)))"

fun normalizeAllowlistFrom :: "('a, 'p) netip \<Rightarrow> string list \<Rightarrow> string list \<Rightarrow> access_error + string list" where
  "normalizeAllowlistFrom ip out [] = (if out = [] then Inl ErrPolicyIPAllowlistRequired else Inr out)"
| "normalizeAllowlistFrom ip out (v # vs) =
     (let w = TrimSpace v in
      if w = [] then normalizeAllowlistFrom ip out vs
      else case normalizeIPAllowlistValue ip w of
             Inl e \<Rightarrow> Inl e
           | Inr n \<Rightarrow> if n \<in> set out then normalizeAllowlistFrom ip out vs
                      else normalizeAllowlistFrom ip (out @ [n]) vs)"

definition NormalizeIPAllowlist :: "('a, 'p) netip \<Rightarrow> string list \<Rightarrow> access_error + string list" where
  "NormalizeIPAllowlist ip values = normalizeAllowlistFrom ip [] values"

definition HashSecret :: "(bytes \<Rightarrow> bytes) \<Rightarrow> string \<Rightarrow> string" where
  "HashSecret sha256 secret = hexEncode (sha256 secret)"

definition secretEqual :: "(bytes \<Rightarrow> bytes) \<Rightarrow> string \<Rightarrow> string \<Rightarrow> bool" where
  "secretEqual sha256 got want = (if got = [] \<or> want = [] then False else sha256 got = sha256 want)"

definition secretHashEqual :: "string \<Rightarrow> string \<Rightarrow> bool" where
  "secretHashEqual gotHash wantHash =
     (if gotHash = [] \<or> wantHash = [] \<or> length gotHash \<noteq> length wantHash then False
      else gotHash = wantHash)"

definition basicAuthMatches ::
  "(bytes \<Rightarrow> bytes) \<Rightarrow> argon2 \<Rightarrow> PolicyRecord \<Rightarrow> string \<Rightarrow> string \<Rightarrow> bool \<times> bool" where
  "basicAuthMatches sha256 a2 record username0 password0 =
     (let username = TrimSpace username0; password = TrimSpace password0 in
      if username = [] \<or> password = [] \<or> pl_BasicUsername record = [] \<or> pl_SecretHash record = []
      then (False, False)
      else if \<not> secretEqual sha256 username (pl_BasicUsername record) then (False, False)
      else if IsPasswordHash (pl_SecretHash record)
      then ((case VerifyPassword a2 (pl_SecretHash record) password of Inl e \<Rightarrow> False | Inr ok \<Rightarrow> ok), False)
      else (secretHashEqual (HashSecret sha256 password) (pl_SecretHash record), True))"

definition ipAllowed :: "('a, 'p) netip \<Rightarrow> string \<Rightarrow> string list \<Rightarrow> bool" where
  "ipAllowed ip remoteIP0 allowlist =
     (let remoteIP = TrimSpace remoteIP0 in
      if remoteIP = [] then False
      else case ParseAddr ip remoteIP of
             None \<Rightarrow> False
           | Some addr \<Rightarrow>
               list_ex (\<lambda>v. case ParsePrefix ip v of
                              Some prefix \<Rightarrow> PrefixContains ip prefix addr
                            | None \<Rightarrow> ParseAddr ip v = Some addr) allowlist)"

section \<open>Service\<close>

definition policySummarize :: "PolicyRecord \<Rightarrow> PolicySummary" where
  "policySummarize r = \<lparr>ps_ID = pl_ID r, ps_ReservedSubdomainID = pl_ReservedSubdomainID r, ps_Mode = pl_Mode r,
     ps_BasicUsername = pl_BasicUsername r, ps_SecretConfigured = (pl_SecretHash r \<noteq> []),
     ps_IPAllowlist = pl_IPAllowlist r, ps_CreatedAt = pl_CreatedAt r, ps_UpdatedAt = pl_UpdatedAt r\<rparr>"

definition hashedPassword :: "argon2 \<Rightarrow> (nat \<Rightarrow> bytes option) \<Rightarrow> string \<Rightarrow> access_error + string" where
  "hashedPassword a2 rand password =
     (case HashPassword a2 rand password of Inl e \<Rightarrow> Inl (PolicyHash e) | Inr h \<Rightarrow> Inr h)"

definition newPolicyRecord ::
  "(string \<Rightarrow> string) \<Rightarrow> (bytes \<Rightarrow> bytes) \<Rightarrow> argon2 \<Rightarrow> (nat \<Rightarrow> bytes option) \<Rightarrow> ('a, 'p) netip
     \<Rightarrow> CreatePolicyRequest \<Rightarrow> gotime \<Rightarrow> access_error + PolicyRecord" where
  "newPolicyRecord uc sha256 a2 rand ip req now =
     (let reservedSubdomainID = TrimSpace (cp_ReservedSubdomainID req) in
      if reservedSubdomainID = [] then Inl ErrPolicyReservedSubdomainIDRequired
      else case NormalizeMode uc (cp_Mode req) of Inl e \<Rightarrow> Inl e | Inr mode \<Rightarrow>
           let record = \<lparr>pl_ID = [], pl_ReservedSubdomainID = reservedSubdomainID, pl_Mode = mode,
                         pl_BasicUsername = [], pl_SecretHash = [], pl_IPAllowlist = [],
                         pl_CreatedAt = now, pl_UpdatedAt = now\<rparr>
           in case mode of
                ModePublic \<Rightarrow> Inr record
              | ModeBasicAuth \<Rightarrow>
                  let username = TrimSpace (cp_BasicUsername req); password = TrimSpace (cp_BasicPassword req) in
                  if username = [] then Inl ErrPolicyBasicUsernameRequired
                  else if password = [] then Inl ErrPolicySecretRequired
                  else (case hashedPassword a2 rand password of Inl e \<Rightarrow> Inl e
                        | Inr hash \<Rightarrow> Inr (record\<lparr>pl_BasicUsername := username, pl_SecretHash := hash\<rparr>))
              | ModeBearerToken \<Rightarrow>
                  let tok = TrimSpace (cp_BearerToken req) in
                  if tok = [] then Inl ErrPolicySecretRequired
                  else Inr (record\<lparr>pl_SecretHash := HashSecret sha256 tok\<rparr>)
              | ModeIPAllowlist \<Rightarrow>
                  (case NormalizeIPAllowlist ip (cp_IPAllowlist req) of Inl e \<Rightarrow> Inl e
                   | Inr allowlist \<Rightarrow> Inr (record\<lparr>pl_IPAllowlist := allowlist\<rparr>))
              | OtherMode m \<Rightarrow> Inl (ErrPolicyModeUnsupported m))"

definition updatedPolicyRecord ::
  "(string \<Rightarrow> string) \<Rightarrow> (bytes \<Rightarrow> bytes) \<Rightarrow> argon2 \<Rightarrow> (nat \<Rightarrow> bytes option) \<Rightarrow> ('a, 'p) netip
     \<Rightarrow> PolicyRecord \<Rightarrow> UpdatePolicyRequest \<Rightarrow> gotime \<Rightarrow> access_error + PolicyRecord" where
  "updatedPolicyRecord uc sha256 a2 rand ip existing req now =
     (let modeText = (if TrimSpace (up_Mode req) = [] then policyModeString (pl_Mode existing)
                      else TrimSpace (up_Mode req)) in
      case NormalizeMode uc modeText of Inl e \<Rightarrow> Inl e | Inr mode \<Rightarrow>
      let record = \<lparr>pl_ID = pl_ID existing, pl_ReservedSubdomainID = pl_ReservedSubdomainID existing,
                    pl_Mode = mode, pl_BasicUsername = [], pl_SecretHash = [], pl_IPAllowlist = [],
                    pl_CreatedAt = pl_CreatedAt existing, pl_UpdatedAt = now\<rparr>
      in case mode of
           ModePublic \<Rightarrow> Inr record
         | ModeBasicAuth \<Rightarrow>
             let username0 = TrimSpace (up_BasicUsername req);
                 username = (if username0 = [] \<and> pl_Mode existing = ModeBasicAuth
                             then pl_BasicUsername existing else username0);
                 password = TrimSpace (up_BasicPassword req)
             in if username = [] then Inl ErrPolicyBasicUsernameRequired
                else if password \<noteq> [] then
                  (case hashedPassword a2 rand password of Inl e \<Rightarrow> Inl e
                   | Inr hash \<Rightarrow> Inr (record\<lparr>pl_BasicUsername := username, pl_SecretHash := hash\<rparr>))
                else if pl_Mode existing = ModeBasicAuth \<and> pl_SecretHash existing \<noteq> [] then
                  Inr (record\<lparr>pl_BasicUsername := username, pl_SecretHash := pl_SecretHash existing\<rparr>)
                else Inl ErrPolicySecretRequired
         | ModeBearerToken \<Rightarrow>
             let tok = TrimSpace (up_BearerToken req) in
             if tok \<noteq> [] then Inr (record\<lparr>pl_SecretHash := HashSecret sha256 tok\<rparr>)
             else if pl_Mode existing = ModeBearerToken \<and> pl_SecretHash existing \<noteq> [] then
               Inr (record\<lparr>pl_SecretHash := pl_SecretHash existing\<rparr>)
             else Inl ErrPolicySecretRequired
         | ModeIPAllowlist \<Rightarrow>
             if up_IPAllowlist req = [] \<and> pl_Mode existing = ModeIPAllowlist \<and> pl_IPAllowlist existing \<noteq> []
             then Inr (record\<lparr>pl_IPAllowlist := pl_IPAllowlist existing\<rparr>)
             else (case NormalizeIPAllowlist ip (up_IPAllowlist req) of Inl e \<Rightarrow> Inl e
                   | Inr allowlist \<Rightarrow> Inr (record\<lparr>pl_IPAllowlist := allowlist\<rparr>))
         | OtherMode m \<Rightarrow> Inl (ErrPolicyModeUnsupported m))"

definition randomPolicyID :: "(nat \<Rightarrow> bytes option) \<Rightarrow> access_error + string" where
  "randomPolicyID rand =
     (case rand 16 of None \<Rightarrow> Inl PolicySecret | Some data \<Rightarrow> Inr (''ap_'' @ RawURLEncoding data))"

definition CreatePolicy ::
  "(string \<Rightarrow> string) \<Rightarrow> (bytes \<Rightarrow> bytes) \<Rightarrow> argon2 \<Rightarrow> (nat \<Rightarrow> bytes option) \<Rightarrow> (nat \<Rightarrow> bytes option)
     \<Rightarrow> ('a, 'p) netip \<Rightarrow> gotime \<Rightarrow> PolicyStore option \<Rightarrow> CreatePolicyRequest
     \<Rightarrow> access_error + PolicySummary \<times> PolicyStore" where
  "CreatePolicy uc sha256 a2 rand randID ip now store req =
     (case store of None \<Rightarrow> Inl PolicyStoreRequired | Some s \<Rightarrow>
      case newPolicyRecord uc sha256 a2 rand ip req now of Inl e \<Rightarrow> Inl e | Inr record0 \<Rightarrow>
      case randomPolicyID randID of Inl e \<Rightarrow> Inl e | Inr ident \<Rightarrow>
      let record = record0\<lparr>pl_ID := ident\<rparr> in
      case policyCreate s record of Inl e \<Rightarrow> Inl e | Inr s' \<Rightarrow> Inr (policySummarize record, s'))"

definition UpdatePolicy ::
  "(string \<Rightarrow> string) \<Rightarrow> (bytes \<Rightarrow> bytes) \<Rightarrow> argon2 \<Rightarrow> (nat \<Rightarrow> bytes option) \<Rightarrow> ('a, 'p) netip
     \<Rightarrow> gotime \<Rightarrow> PolicyStore option \<Rightarrow> string \<Rightarrow> UpdatePolicyRequest
     \<Rightarrow> access_error + PolicySummary \<times> PolicyStore" where
  "UpdatePolicy uc sha256 a2 rand ip now store id0 req =
     (case store of None \<Rightarrow> Inl PolicyStoreRequired | Some s \<Rightarrow>
      let i = TrimSpace id0 in
      if i = [] then Inl ErrPolicyNotFound
      else case policyLookupByID s i of None \<Rightarrow> Inl ErrPolicyNotFound | Some existing \<Rightarrow>
           case updatedPolicyRecord uc sha256 a2 rand ip existing req now of Inl e \<Rightarrow> Inl e | Inr record0 \<Rightarrow>
           let record = record0\<lparr>pl_ID := pl_ID existing, pl_CreatedAt := pl_CreatedAt existing\<rparr> in
           case policyUpdate s record of Inl e \<Rightarrow> Inl e | Inr s' \<Rightarrow> Inr (policySummarize record, s'))"

definition ListPolicies :: "PolicyStore option \<Rightarrow> string list \<Rightarrow> access_error + PolicySummary list" where
  "ListPolicies store order =
     (case store of None \<Rightarrow> Inl PolicyStoreRequired | Some s \<Rightarrow> Inr (map policySummarize (policyList s order)))"

definition GetPolicy :: "PolicyStore option \<Rightarrow> string \<Rightarrow> access_error + PolicySummary option" where
  "GetPolicy store id0 =
     (case store of None \<Rightarrow> Inl PolicyStoreRequired | Some s \<Rightarrow>
      let i = TrimSpace id0 in
      if i = [] then Inr None else Inr (map_option policySummarize (policyLookupByID s i)))"

definition GetPolicyForReservedSubdomain :: "PolicyStore option \<Rightarrow> string \<Rightarrow> access_error + PolicySummary option" where
  "GetPolicyForReservedSubdomain store id0 =
     (case store of None \<Rightarrow> Inl PolicyStoreRequired | Some s \<Rightarrow>
      let i = TrimSpace id0 in
      if i = [] then Inr None
      else Inr (map_option policySummarize (policyLookupByReservedSubdomainID s i)))"

definition DeletePolicy :: "PolicyStore option \<Rightarrow> string \<Rightarrow> access_error + PolicyStore" where
  "DeletePolicy store id0 =
     (case store of None \<Rightarrow> Inl PolicyStoreRequired | Some s \<Rightarrow>
      let i = TrimSpace id0 in
      if i = [] then Inl ErrPolicyNotFound
      else case policyLookupByID s i of None \<Rightarrow> Inl ErrPolicyNotFound
           | Some r \<Rightarrow> Inr (policyDelete s i))"

text \<open>
  \<open>upgradeBasicAuthHash\<close> gets the record that \<open>CheckPolicy\<close> read and the store at the moment of
  the write; in a run without interference the two belong together.
\<close>

definition upgradeBasicAuthHash ::
  "argon2 \<Rightarrow> (nat \<Rightarrow> bytes option) \<Rightarrow> PolicyStore \<Rightarrow> PolicyRecord \<Rightarrow> string \<Rightarrow> PolicyStore" where
  "upgradeBasicAuthHash a2 rand s record password =
     (case HashPassword a2 rand (TrimSpace password) of
        Inl e \<Rightarrow> s
      | Inr hash \<Rightarrow> (case policyUpdate s (record\<lparr>pl_SecretHash := hash\<rparr>) of Inl e \<Rightarrow> s | Inr s' \<Rightarrow> s'))"

definition decided :: "bool \<Rightarrow> PolicyMode \<Rightarrow> string \<Rightarrow> CheckPolicyResult" where
  "decided allowed mode reason = \<lparr>cr_Allowed = allowed, cr_Mode = mode, cr_Reason = reason\<rparr>"

definition CheckPolicy ::
  "(bytes \<Rightarrow> bytes) \<Rightarrow> argon2 \<Rightarrow> (nat \<Rightarrow> bytes option) \<Rightarrow> ('a, 'p) netip \<Rightarrow> PolicyStore option
     \<Rightarrow> CheckPolicyRequest \<Rightarrow> access_error + CheckPolicyResult \<times> PolicyStore" where
  "CheckPolicy sha256 a2 rand ip store req =
     (case store of None \<Rightarrow> Inl PolicyStoreRequired | Some s \<Rightarrow>
      let reservedSubdomainID = TrimSpace (ck_ReservedSubdomainID req) in
      if reservedSubdomainID = [] then Inl ErrPolicyReservedSubdomainIDRequired
      else case policyLookupByReservedSubdomainID s reservedSubdomainID of
             None \<Rightarrow> Inr (decided True ModePublic ''no_policy'', s)
           | Some record \<Rightarrow>
               (case pl_Mode record of
                  ModePublic \<Rightarrow> Inr (decided True ModePublic ''public'', s)
                | ModeBasicAuth \<Rightarrow>
                    (case basicAuthMatches sha256 a2 record (ck_BasicUsername req) (ck_BasicPassword req) of
                       (matched, needsUpgrade) \<Rightarrow>
                         if \<not> matched then Inr (decided False ModeBasicAuth ''basic_auth_required'', s)
                         else Inr (decided True ModeBasicAuth [],
                                   if needsUpgrade then upgradeBasicAuthHash a2 rand s record (ck_BasicPassword req)
                                   else s))
                | ModeBearerToken \<Rightarrow>
                    if \<not> secretHashEqual (HashSecret sha256 (TrimSpace (ck_BearerToken req))) (pl_SecretHash record)
                    then Inr (decided False ModeBearerToken ''bearer_token_required'', s)
                    else Inr (decided True ModeBearerToken [], s)
                | ModeIPAllowlist \<Rightarrow>
                    if \<not> ipAllowed ip (ck_RemoteIP req) (pl_IPAllowlist record)
                    then Inr (decided False ModeIPAllowlist ''ip_not_allowed'', s)
                    else Inr (decided True ModeIPAllowlist [], s)
                | OtherMode m \<Rightarrow> Inr (decided False (OtherMode m) ''unsupported_policy_mode'', s)))"

definition policy_inv :: "PolicyStore \<Rightarrow> bool" where
  "policy_inv s \<longleftrightarrow> indexed pl_ID pl_ReservedSubdomainID (pl_byID s) (pl_byReservation s)"

text \<open>A stored policy has the credentials its mode needs.\<close>

definition policy_complete :: "PolicyRecord \<Rightarrow> bool" where
  "policy_complete r = (case pl_Mode r of
      ModePublic \<Rightarrow> True
    | ModeBasicAuth \<Rightarrow> pl_BasicUsername r \<noteq> [] \<and> pl_SecretHash r \<noteq> []
    | ModeBearerToken \<Rightarrow> pl_SecretHash r \<noteq> []
    | ModeIPAllowlist \<Rightarrow> pl_IPAllowlist r \<noteq> []
    | OtherMode m \<Rightarrow> False)"

definition policy_wf :: "PolicyStore \<Rightarrow> bool" where
  "policy_wf s \<longleftrightarrow> policy_inv s \<and> (\<forall>i r. policyLookupByID s i = Some r \<longrightarrow> policy_complete r)"

text \<open>The credentials in a request satisfy a policy.\<close>

definition satisfies ::
  "(bytes \<Rightarrow> bytes) \<Rightarrow> argon2 \<Rightarrow> ('a, 'p) netip \<Rightarrow> PolicyRecord \<Rightarrow> CheckPolicyRequest \<Rightarrow> bool" where
  "satisfies sha256 a2 ip r req = (case pl_Mode r of
      ModePublic \<Rightarrow> True
    | ModeBasicAuth \<Rightarrow>
        sha256 (TrimSpace (ck_BasicUsername req)) = sha256 (pl_BasicUsername r) \<and>
        TrimSpace (ck_BasicUsername req) \<noteq> [] \<and> pl_BasicUsername r \<noteq> [] \<and>
        TrimSpace (ck_BasicPassword req) \<noteq> [] \<and> pl_SecretHash r \<noteq> [] \<and>
        (if IsPasswordHash (pl_SecretHash r)
         then VerifyPassword a2 (pl_SecretHash r) (TrimSpace (ck_BasicPassword req)) = Inr True
         else HashSecret sha256 (TrimSpace (ck_BasicPassword req)) = pl_SecretHash r)
    | ModeBearerToken \<Rightarrow>
        pl_SecretHash r \<noteq> [] \<and> HashSecret sha256 (TrimSpace (ck_BearerToken req)) = pl_SecretHash r
    | ModeIPAllowlist \<Rightarrow>
        (\<exists>addr. ParseAddr ip (TrimSpace (ck_RemoteIP req)) = Some addr \<and> TrimSpace (ck_RemoteIP req) \<noteq> [] \<and>
           (\<exists>v\<in>set (pl_IPAllowlist r). case ParsePrefix ip v of
              Some prefix \<Rightarrow> PrefixContains ip prefix addr | None \<Rightarrow> ParseAddr ip v = Some addr))
    | OtherMode m \<Rightarrow> False)"

text \<open>SHA-256 has 32-byte results.\<close>

definition hashes :: "(bytes \<Rightarrow> bytes) \<Rightarrow> bool" where
  "hashes sha256 \<longleftrightarrow> (\<forall>b. length (sha256 b) = 32)"

text \<open>Small instances of the parameters and a store, used in the examples below.\<close>

definition demoArgon2 :: argon2 where
  "demoArgon2 = \<lparr>a2Version = 19, IDKey = (\<lambda>pw salt t m p n.
     if t < 1 \<or> p < 1 then None else Some (take n (pw @ replicate n CHR 0x00)))\<rparr>"

definition demoSHA :: "bytes \<Rightarrow> bytes" where
  "demoSHA b = take 32 (b @ replicate 32 CHR 0x00)"

definition demoNetip :: "(string, string) netip" where
  "demoNetip = \<lparr>ParseAddr = Some, AddrString = id, ParsePrefix = (\<lambda>s. None), MaskedString = id,
     PrefixContains = (\<lambda>p a. False)\<rparr>"

definition demoPolicy :: PolicyRecord where
  "demoPolicy = \<lparr>pl_ID = ''ap_1'', pl_ReservedSubdomainID = ''rs_1'', pl_Mode = ModeBasicAuth,
     pl_BasicUsername = ''amy'', pl_SecretHash = HashSecret demoSHA ''old'', pl_IPAllowlist = [],
     pl_CreatedAt = 0, pl_UpdatedAt = 0\<rparr>"

definition demoPolicies :: PolicyStore where
  "demoPolicies = \<lparr>pl_byID = [''ap_1'' \<mapsto> demoPolicy], pl_byReservation = [''rs_1'' \<mapsto> ''ap_1'']\<rparr>"

definition demoCheck :: CheckPolicyRequest where
  "demoCheck = \<lparr>ck_ReservedSubdomainID = ''rs_1'', ck_RemoteIP = [], ck_BasicUsername = ''amy'',
     ck_BasicPassword = ''old'', ck_BearerToken = []\<rparr>"

inductive policy_step :: "(string \<Rightarrow> string) \<Rightarrow> (bytes \<Rightarrow> bytes) \<Rightarrow> argon2 \<Rightarrow> ('a, 'p) netip
    \<Rightarrow> PolicyStore \<Rightarrow> PolicyStore \<Rightarrow> bool" for uc sha256 a2 ip where
  "CreatePolicy uc sha256 a2 rand randID ip now (Some s) req = Inr (p, s') \<Longrightarrow> policy_step uc sha256 a2 ip s s'"
| "UpdatePolicy uc sha256 a2 rand ip now (Some s) i ureq = Inr (p, s') \<Longrightarrow> policy_step uc sha256 a2 ip s s'"
| "DeletePolicy (Some s) i = Inr s' \<Longrightarrow> policy_step uc sha256 a2 ip s s'"
| "CheckPolicy sha256 a2 rand ip (Some s) creq = Inr (c, s') \<Longrightarrow> policy_step uc sha256 a2 ip s s'"

section \<open>Lemmas\<close>

lemma policyCreate_Inr_iff:
  "policyCreate s r = Inr s' \<longleftrightarrow> pl_byID s (pl_ID r) = None \<and> pl_byReservation s (pl_ReservedSubdomainID r) = None \<and>
     s' = \<lparr>pl_byID = (pl_byID s)(pl_ID r \<mapsto> r), pl_byReservation = (pl_byReservation s)(pl_ReservedSubdomainID r \<mapsto> pl_ID r)\<rparr>"
  by (auto simp: policyCreate_def)

interpretation pol: keyed_store_delete policy_inv pl_ID pl_ReservedSubdomainID "\<lambda>r. True" NewPolicyStore
  policyCreate policyLookupByID policyLookupByReservedSubdomainID policyDelete
proof unfold_locales
  fix s r s' i j k
  show "policy_inv NewPolicyStore"
    by (simp add: policy_inv_def NewPolicyStore_def indexed_empty)
  show "policyLookupByID NewPolicyStore i = None"
    by (simp add: policyLookupByID_def NewPolicyStore_def)
  assume inv: "policy_inv s"
  then have ix: "indexed pl_ID pl_ReservedSubdomainID (pl_byID s) (pl_byReservation s)" by (simp add: policy_inv_def)
  show "policyLookupByID s i = Some r \<Longrightarrow> pl_ID r = i"
    using indexed_ident [OF ix] by (simp add: policyLookupByID_def)
  show "policyLookupByReservedSubdomainID s k = Some r \<longleftrightarrow>
      policyLookupByID s (pl_ID r) = Some r \<and> pl_ReservedSubdomainID r = k"
    using indexed_lookup [OF ix] by (simp add: policyLookupByReservedSubdomainID_def policyLookupByID_def)
  have free: "policyLookupByReservedSubdomainID s k = None \<longleftrightarrow> pl_byReservation s k = None" for k
    using indexed_key_free [OF ix] by (simp add: policyLookupByReservedSubdomainID_def)
  show "True \<Longrightarrow> policyLookupByID s (pl_ID r) = None \<Longrightarrow>
      policyLookupByReservedSubdomainID s (pl_ReservedSubdomainID r) = None \<Longrightarrow> \<exists>s'. policyCreate s r = Inr s'"
    by (simp add: policyCreate_Inr_iff policyLookupByID_def free)
  show "policy_inv (policyDelete s i)"
    using inv indexed_delete [OF ix] by (auto simp: policyDelete_def policy_inv_def split: option.split)
  show "policyLookupByID (policyDelete s i) j = (if j = i then None else policyLookupByID s j)"
    by (simp add: policyDelete_def policyLookupByID_def split: option.split)
  assume ok: "policyCreate s r = Inr s'"
  then show "True \<and> policyLookupByID s (pl_ID r) = None \<and>
      policyLookupByReservedSubdomainID s (pl_ReservedSubdomainID r) = None"
    by (simp add: policyCreate_Inr_iff policyLookupByID_def free)
  show "policyLookupByID s' i = (if i = pl_ID r then Some r else policyLookupByID s i)"
    using ok by (simp add: policyCreate_Inr_iff policyLookupByID_def)
  show "policy_inv s'"
    using ok indexed_insert [OF ix] by (simp add: policyCreate_Inr_iff policy_inv_def)
qed

lemma policyUpdate_Inr_iff:
  "policyUpdate s r = Inr s' \<longleftrightarrow>
     (\<exists>e. pl_byID s (pl_ID r) = Some e \<and> pl_ReservedSubdomainID e = pl_ReservedSubdomainID r) \<and>
     s' = \<lparr>pl_byID = (pl_byID s)(pl_ID r \<mapsto> r), pl_byReservation = (pl_byReservation s)(pl_ReservedSubdomainID r \<mapsto> pl_ID r)\<rparr>"
  by (auto simp: policyUpdate_def split: option.splits)

interpretation pol_upd: keyed_store_update policy_inv pl_ID pl_ReservedSubdomainID "\<lambda>r. True" NewPolicyStore
  policyCreate policyLookupByID policyLookupByReservedSubdomainID policyUpdate
proof unfold_locales
  fix s r s' i
  assume inv: "policy_inv s" and ok: "policyUpdate s r = Inr s'"
  have ix: "indexed pl_ID pl_ReservedSubdomainID (pl_byID s) (pl_byReservation s)" using inv by (simp add: policy_inv_def)
  from ok obtain e where e: "pl_byID s (pl_ID r) = Some e" "pl_ReservedSubdomainID e = pl_ReservedSubdomainID r"
    and s': "s' = \<lparr>pl_byID = (pl_byID s)(pl_ID r \<mapsto> r), pl_byReservation = (pl_byReservation s)(pl_ReservedSubdomainID r \<mapsto> pl_ID r)\<rparr>"
    by (auto simp: policyUpdate_Inr_iff)
  show "policyLookupByID s' i = (if i = pl_ID r then Some r else policyLookupByID s i)"
    by (simp add: policyLookupByID_def s')
  show "policy_inv s'"
    using indexed_replace(2) [OF ix e(1) refl] e(2) by (simp add: policy_inv_def s')
  have "pl_byReservation s (pl_ReservedSubdomainID r) = Some (pl_ID r)"
    using ix e unfolding indexed_def by metis
  moreover have "pl_ID e = pl_ID r" using indexed_ident [OF ix e(1)] .
  ultimately show "policyLookupByID s (pl_ID r) \<noteq> None \<and>
      (case policyLookupByReservedSubdomainID s (pl_ReservedSubdomainID r) of None \<Rightarrow> True | Some q \<Rightarrow> pl_ID q = pl_ID r)"
    using e by (simp add: policyLookupByID_def policyLookupByReservedSubdomainID_def)
qed

lemma secretHashEqual_iff: "secretHashEqual x y \<longleftrightarrow> x = y \<and> y \<noteq> []"
  by (auto simp: secretHashEqual_def)

lemma basicAuthMatches_fst:
  assumes "pl_Mode r = ModeBasicAuth"
  shows "fst (basicAuthMatches sha256 a2 r (ck_BasicUsername req) (ck_BasicPassword req)) \<longleftrightarrow>
    satisfies sha256 a2 ip r req"
  using assms
  by (auto simp: basicAuthMatches_def satisfies_def secretEqual_def secretHashEqual_iff Let_def split: sum.splits)

lemma ipAllowed_iff:
  assumes "pl_Mode r = ModeIPAllowlist"
  shows "ipAllowed ip (ck_RemoteIP req) (pl_IPAllowlist r) \<longleftrightarrow> satisfies sha256 a2 ip r req"
  using assms by (auto simp: ipAllowed_def satisfies_def list_ex_iff Let_def split: option.splits)

lemma CheckPolicy_decision:
  assumes "TrimSpace (ck_ReservedSubdomainID req) \<noteq> []"
  shows "\<exists>c s'. CheckPolicy sha256 a2 rand ip (Some s) req = Inr (c, s') \<and>
    (cr_Allowed c \<longleftrightarrow> (case policyLookupByReservedSubdomainID s (TrimSpace (ck_ReservedSubdomainID req)) of
        None \<Rightarrow> True | Some r \<Rightarrow> satisfies sha256 a2 ip r req))"
proof (cases "policyLookupByReservedSubdomainID s (TrimSpace (ck_ReservedSubdomainID req))")
  case None
  then show ?thesis using assms by (simp add: CheckPolicy_def decided_def Let_def)
next
  case (Some r)
  note b = basicAuthMatches_fst [of r sha256 a2 req ip] and i = ipAllowed_iff [of r ip req sha256 a2]
  show ?thesis
  proof (cases "pl_Mode r")
    case ModeBasicAuth
    then show ?thesis using assms Some b
      by (cases "basicAuthMatches sha256 a2 r (ck_BasicUsername req) (ck_BasicPassword req)")
        (auto simp: CheckPolicy_def decided_def Let_def)
  next
    case ModeBearerToken
    then show ?thesis using assms Some
      by (auto simp: CheckPolicy_def decided_def satisfies_def secretHashEqual_iff Let_def)
  next
    case ModeIPAllowlist
    then show ?thesis using assms Some i by (simp add: CheckPolicy_def decided_def Let_def)
  qed (use assms Some in \<open>simp_all add: CheckPolicy_def decided_def satisfies_def Let_def\<close>)
qed

text \<open>The only change a check makes to the store is the upgrade of a legacy hash.\<close>

lemma CheckPolicy_store:
  assumes "CheckPolicy sha256 a2 rand ip (Some s) req = Inr (c, s')"
  shows "s' = s \<or> (\<exists>r. policyLookupByReservedSubdomainID s (TrimSpace (ck_ReservedSubdomainID req)) = Some r \<and>
    pl_Mode r = ModeBasicAuth \<and> satisfies sha256 a2 ip r req \<and> \<not> IsPasswordHash (pl_SecretHash r) \<and>
    s' = upgradeBasicAuthHash a2 rand s r (ck_BasicPassword req))"
proof (cases "policyLookupByReservedSubdomainID s (TrimSpace (ck_ReservedSubdomainID req))")
  case None
  then show ?thesis using assms by (simp add: CheckPolicy_def Let_def split: if_splits)
next
  case (Some r)
  show ?thesis
  proof (cases "pl_Mode r")
    case ModeBasicAuth
    obtain m u where mu: "basicAuthMatches sha256 a2 r (ck_BasicUsername req) (ck_BasicPassword req) = (m, u)"
      by fastforce
    have "m \<longleftrightarrow> satisfies sha256 a2 ip r req" using basicAuthMatches_fst [OF ModeBasicAuth, of sha256 a2 req ip] mu by simp
    moreover have "u \<Longrightarrow> \<not> IsPasswordHash (pl_SecretHash r)"
      using mu by (auto simp: basicAuthMatches_def Let_def split: if_splits)
    ultimately show ?thesis using assms Some ModeBasicAuth mu
      by (auto simp: CheckPolicy_def Let_def split: if_splits)
  qed (use assms Some in \<open>auto simp: CheckPolicy_def Let_def split: if_splits\<close>)
qed

lemma upgrade_cases:
  "upgradeBasicAuthHash a2 rand s r pw = s \<or>
   (\<exists>h. HashPassword a2 rand (TrimSpace pw) = Inr h \<and>
      policyUpdate s (r\<lparr>pl_SecretHash := h\<rparr>) = Inr (upgradeBasicAuthHash a2 rand s r pw))"
  by (auto simp: upgradeBasicAuthHash_def split: sum.split)

lemma policyMode_supported:
  "NormalizeMode uc m = Inr mode \<Longrightarrow> mode \<in> {ModePublic, ModeBasicAuth, ModeBearerToken, ModeIPAllowlist}"
  by (auto simp: NormalizeMode_def supportedModes_def Let_def split: if_splits)

lemma normalizeAllowlistFrom_nonempty: "normalizeAllowlistFrom ip out vs = Inr l \<Longrightarrow> l \<noteq> []"
  by (induction ip out vs rule: normalizeAllowlistFrom.induct) (auto simp: Let_def split: if_splits sum.splits)

lemma hexEncode_Nil: "hexEncode b = [] \<longleftrightarrow> b = []"
  by (cases b) (simp_all add: hexEncode_def)

lemma HashSecret_nonempty: "hashes sha256 \<Longrightarrow> HashSecret sha256 t \<noteq> []"
  by (auto simp: HashSecret_def hexEncode_Nil hashes_def) (metis list.size(3) zero_neq_numeral)

lemma newPolicyRecord_complete:
  assumes "hashes sha256" "newPolicyRecord uc sha256 a2 rand ip req now = Inr r"
  shows "policy_complete r"
proof -
  obtain mode where m: "NormalizeMode uc (cp_Mode req) = Inr mode" and ne: "TrimSpace (cp_ReservedSubdomainID req) \<noteq> []"
    using assms(2) by (cases "NormalizeMode uc (cp_Mode req)") (auto simp: newPolicyRecord_def Let_def split: if_splits)
  note defs = newPolicyRecord_def Let_def policy_complete_def
  show ?thesis
  proof (cases mode)
    case ModeBasicAuth
    then show ?thesis using assms m ne HashPassword_prefix [of a2 rand]
      by (auto simp: defs hashedPassword_def split: if_splits sum.splits)
  next
    case ModeIPAllowlist
    then show ?thesis using assms m ne
      by (auto simp: defs NormalizeIPAllowlist_def normalizeAllowlistFrom_nonempty split: sum.splits)
  qed (use assms m ne in \<open>auto simp: defs HashSecret_nonempty split: if_splits\<close>)
qed

lemma updatedPolicyRecord_complete:
  assumes "hashes sha256" "updatedPolicyRecord uc sha256 a2 rand ip e req now = Inr r"
  shows "policy_complete r \<and> pl_ID r = pl_ID e \<and> pl_ReservedSubdomainID r = pl_ReservedSubdomainID e"
proof -
  let ?text = "if TrimSpace (up_Mode req) = [] then policyModeString (pl_Mode e) else TrimSpace (up_Mode req)"
  obtain mode where m: "NormalizeMode uc ?text = Inr mode"
    using assms(2) by (cases "NormalizeMode uc ?text") (auto simp: updatedPolicyRecord_def Let_def)
  define base where "base = \<lparr>pl_ID = pl_ID e, pl_ReservedSubdomainID = pl_ReservedSubdomainID e,
    pl_Mode = mode, pl_BasicUsername = [], pl_SecretHash = [], pl_IPAllowlist = [],
    pl_CreatedAt = pl_CreatedAt e, pl_UpdatedAt = now\<rparr>"
  note upd = assms(2) [unfolded updatedPolicyRecord_def Let_def m sum.case, folded base_def]
  have b: "pl_ID base = pl_ID e" "pl_ReservedSubdomainID base = pl_ReservedSubdomainID e" "pl_Mode base = mode"
    by (simp_all add: base_def)
  show ?thesis
  proof (cases mode)
    case ModeBasicAuth
    then show ?thesis using upd b HashPassword_prefix [of a2 rand]
      by (auto simp: policy_complete_def hashedPassword_def split: if_splits sum.splits)
  next
    case ModeIPAllowlist
    then show ?thesis using upd b
      by (auto simp: policy_complete_def NormalizeIPAllowlist_def normalizeAllowlistFrom_nonempty
          split: if_splits sum.splits)
  qed (use assms(1) upd b in \<open>auto simp: policy_complete_def HashSecret_nonempty split: if_splits\<close>)
qed

lemma policy_wf_records:
  "policy_wf s \<longleftrightarrow> policy_inv s \<and> (\<forall>r\<in>pol.records s. policy_complete r)"
  using pol.records_iff by (auto simp: policy_wf_def)

lemma policy_wf_update:
  assumes "policy_wf s" "policyUpdate s r = Inr s'" "policy_complete r"
  shows "policy_wf s'"
proof -
  have inv: "policy_inv s" using assms(1) by (simp add: policy_wf_def)
  show ?thesis using pol_upd.update_inv [OF inv assms(2)] pol_upd.update_records [OF inv assms(2)] assms(1,3)
    by (auto simp: policy_wf_records)
qed

lemma policy_wf_step:
  assumes "hashes sha256" "policy_step uc sha256 a2 ip s s'" "policy_wf s"
  shows "policy_wf s'"
  using assms(2,3)
proof (induction rule: policy_step.induct)
  case (1 rand randID now s req p s')
  then obtain r0 i where r0: "newPolicyRecord uc sha256 a2 rand ip req now = Inr r0"
    "policyCreate s (r0\<lparr>pl_ID := i\<rparr>) = Inr s'"
    by (auto simp: CreatePolicy_def Let_def split: sum.splits)
  have inv: "policy_inv s" using 1(2) by (simp add: policy_wf_def)
  have "policy_complete (r0\<lparr>pl_ID := i\<rparr>)"
    using newPolicyRecord_complete [OF assms(1) r0(1)]
    by (simp add: policy_complete_def split: PolicyMode.splits)
  then show ?case using 1(2) pol.create_inv [OF inv r0(2)] pol.create_records [OF inv r0(2)]
    by (auto simp: policy_wf_records)
next
  case (2 rand now s i ureq p s')
  then obtain e r0 where r0: "updatedPolicyRecord uc sha256 a2 rand ip e ureq now = Inr r0"
    "policyUpdate s (r0\<lparr>pl_ID := pl_ID e, pl_CreatedAt := pl_CreatedAt e\<rparr>) = Inr s'"
    by (auto simp: UpdatePolicy_def Let_def split: sum.splits option.splits if_splits)
  have "policy_complete (r0\<lparr>pl_ID := pl_ID e, pl_CreatedAt := pl_CreatedAt e\<rparr>)"
    using updatedPolicyRecord_complete [OF assms(1) r0(1)]
    by (simp add: policy_complete_def split: PolicyMode.splits)
  then show ?case using policy_wf_update [OF 2(2) r0(2)] by simp
next
  case (3 s i s')
  then have inv: "policy_inv s" by (simp add: policy_wf_def)
  from 3(1) have "s' = policyDelete s (TrimSpace i)"
    by (auto simp: DeletePolicy_def Let_def split: option.splits if_splits)
  then show ?case using 3(2) pol.delete_inv [OF inv] pol.delete_records [OF inv] by (auto simp: policy_wf_records)
next
  case (4 rand s creq c s')
  have inv: "policy_inv s" using 4(2) by (simp add: policy_wf_def)
  show ?case
  proof (rule disjE [OF CheckPolicy_store [OF 4(1)]])
    assume "\<exists>r. policyLookupByReservedSubdomainID s (TrimSpace (ck_ReservedSubdomainID creq)) = Some r \<and>
      pl_Mode r = ModeBasicAuth \<and> satisfies sha256 a2 ip r creq \<and> \<not> IsPasswordHash (pl_SecretHash r) \<and>
      s' = upgradeBasicAuthHash a2 rand s r (ck_BasicPassword creq)"
    then obtain r where r: "policyLookupByReservedSubdomainID s (TrimSpace (ck_ReservedSubdomainID creq)) = Some r"
      "pl_Mode r = ModeBasicAuth" and s': "s' = upgradeBasicAuthHash a2 rand s r (ck_BasicPassword creq)" by blast
    have "policy_complete r" using 4(2) r(1) pol.lookupKey_records [OF inv] by (auto simp: policy_wf_records)
    then have "policy_complete (r\<lparr>pl_SecretHash := h\<rparr>)" if "h \<noteq> []" for h
      using that r(2) by (simp add: policy_complete_def)
    then show ?thesis using upgrade_cases [of a2 rand s r "ck_BasicPassword creq"] 4(2) s'
      policy_wf_update [OF 4(2)] HashPassword_prefix by metis
  qed (use 4(2) in simp)
qed

lemma policy_reach_wf:
  assumes "hashes sha256" "(policy_step uc sha256 a2 ip)\<^sup>*\<^sup>* NewPolicyStore s"
  shows "policy_wf s"
  using assms(2)
proof (induction rule: rtranclp_induct)
  case base
  then show ?case by (simp add: policy_wf_records pol.empty_inv pol.records_empty)
next
  case (step s t)
  then show ?case using policy_wf_step [OF assms(1)] by blast
qed

lemma upgraded_satisfies:
  assumes "argon2_ok a2" "fills rand" "satisfies sha256 a2 ip r req" "pl_Mode r = ModeBasicAuth"
    and "HashPassword a2 rand (TrimSpace (ck_BasicPassword req)) = Inr h"
  shows "satisfies sha256 a2 ip (r\<lparr>pl_SecretHash := h\<rparr>) req"
proof -
  have "VerifyPassword a2 h (TrimSpace (ck_BasicPassword req)) = Inr True"
    using Verify_HashPassword [OF assms(1,2,5), of "TrimSpace (ck_BasicPassword req)"] by simp
  then show ?thesis using assms(3,4) HashPassword_prefix [OF assms(5)] by (simp add: satisfies_def)
qed

lemma CheckPolicy_again:
  assumes "argon2_ok a2" "fills rand" "policy_inv s" "CheckPolicy sha256 a2 rand ip (Some s) req = Inr (c, s')" "cr_Allowed c"
  shows "\<exists>c' s''. CheckPolicy sha256 a2 rand' ip (Some s') req = Inr (c', s'') \<and> cr_Allowed c'"
proof -
  let ?k = "TrimSpace (ck_ReservedSubdomainID req)"
  have k: "?k \<noteq> []" using assms(4) by (auto simp: CheckPolicy_def Let_def)
  have sat: "case policyLookupByReservedSubdomainID s ?k of None \<Rightarrow> True | Some r \<Rightarrow> satisfies sha256 a2 ip r req"
    using CheckPolicy_decision [OF k, of sha256 a2 rand ip s] assms(4,5) by auto
  have "case policyLookupByReservedSubdomainID s' ?k of None \<Rightarrow> True | Some r \<Rightarrow> satisfies sha256 a2 ip r req"
  proof (cases "s' = s")
    case False
    with CheckPolicy_store [OF assms(4)] obtain r where r: "policyLookupByReservedSubdomainID s ?k = Some r"
      "pl_Mode r = ModeBasicAuth" "satisfies sha256 a2 ip r req" and s': "s' = upgradeBasicAuthHash a2 rand s r (ck_BasicPassword req)"
      by blast
    with False upgrade_cases [of a2 rand s r "ck_BasicPassword req"] obtain h where
      h: "HashPassword a2 rand (TrimSpace (ck_BasicPassword req)) = Inr h" "policyUpdate s (r\<lparr>pl_SecretHash := h\<rparr>) = Inr s'"
      by auto
    have "pl_ReservedSubdomainID r = ?k" using r(1) pol.lookup_key [OF assms(3)] by blast
    then have "policyLookupByReservedSubdomainID s' ?k = Some (r\<lparr>pl_SecretHash := h\<rparr>)"
      using pol_upd.update_lookupKey [OF assms(3) h(2), of ?k] by simp
    then show ?thesis using upgraded_satisfies [OF assms(1,2) r(3,2) h(1)] by simp
  qed (use sat in simp)
  then show ?thesis using CheckPolicy_decision [OF k, of sha256 a2 rand' ip s'] by auto
qed

lemma demo_parameters: "argon2_ok demoArgon2" "hashes demoSHA" "fills (\<lambda>n. Some (replicate n CHR ''k''))"
  by (auto simp: argon2_ok_def demoArgon2_def hashes_def demoSHA_def fills_def)

lemma demo_store:
  "policy_inv demoPolicies" "policyLookupByReservedSubdomainID demoPolicies ''rs_1'' = Some demoPolicy"
  by (auto simp: policy_inv_def demoPolicies_def demoPolicy_def indexed_def policyLookupByReservedSubdomainID_def)

lemma demo_trim: "TrimSpace ''rs_1'' = ''rs_1''" "TrimSpace ''amy'' = ''amy''" "TrimSpace ''old'' = ''old''"
  "TrimSpace ''ap_1'' = ''ap_1''"
  by code_simp+

lemma demo_satisfies: "satisfies demoSHA demoArgon2 demoNetip demoPolicy demoCheck"
proof -
  have "\<not> IsPasswordHash (HashSecret demoSHA ''old'')" by code_simp
  then show ?thesis using HashSecret_nonempty [OF demo_parameters(2), of "''old''"] demo_trim
    by (simp add: satisfies_def demoPolicy_def demoCheck_def)
qed

section \<open>Properties\<close>

text \<open>
  C13: \<open>CheckPolicy\<close> always answers for a non-empty reservation id, and it allows the request
  exactly when the reservation has no policy or the request's credentials satisfy the one it
  has: the right user name and password, the right bearer token, or an address on the list.
\<close>

theorem CheckPolicy_exact:
  assumes "TrimSpace (ck_ReservedSubdomainID req) \<noteq> []"
  shows "\<exists>c s'. CheckPolicy sha256 a2 rand ip (Some s) req = Inr (c, s') \<and>
    (cr_Allowed c \<longleftrightarrow> (case policyLookupByReservedSubdomainID s (TrimSpace (ck_ReservedSubdomainID req)) of
        None \<Rightarrow> True | Some r \<Rightarrow> satisfies sha256 a2 ip r req))"
  by (rule CheckPolicy_decision [OF assms])

theorem CheckPolicy_exact_witness:
  "\<exists>c s'. CheckPolicy demoSHA demoArgon2 (\<lambda>n. None) demoNetip (Some demoPolicies) demoCheck = Inr (c, s') \<and>
     (cr_Allowed c \<longleftrightarrow> satisfies demoSHA demoArgon2 demoNetip demoPolicy demoCheck)"
  using CheckPolicy_exact [of demoCheck demoSHA demoArgon2 "\<lambda>n. None" demoNetip demoPolicies]
  by (simp add: demoCheck_def demo_trim demo_store)

text \<open>
  Every policy the service can have stored has the credentials its mode asks for: a user
  name and a password hash, a token hash or a non-empty list.  So no stored policy is satisfied
  by empty credentials, and none has an unsupported mode.
\<close>

theorem stored_policies_complete:
  assumes "hashes sha256" "(policy_step uc sha256 a2 ip)\<^sup>*\<^sup>* NewPolicyStore s" "policyLookupByID s i = Some r"
  shows "policy_complete r"
  using policy_reach_wf [OF assms(1,2)] assms(3) by (simp add: policy_wf_def)

theorem stored_policies_complete_witness:
  "\<exists>p s i r. CreatePolicy id demoSHA demoArgon2 (\<lambda>n. Some (replicate n CHR ''k'')) (\<lambda>n. Some (replicate n CHR ''k''))
      demoNetip 0 (Some NewPolicyStore) \<lparr>cp_ReservedSubdomainID = ''rs_1'', cp_Mode = ''public'', cp_BasicUsername = [],
        cp_BasicPassword = [], cp_BearerToken = [], cp_IPAllowlist = []\<rparr> = Inr (p, s) \<and>
     policyLookupByID s i = Some r \<and> policy_complete r"
proof -
  let ?req = "\<lparr>cp_ReservedSubdomainID = ''rs_1'', cp_Mode = ''public'', cp_BasicUsername = [],
        cp_BasicPassword = [], cp_BearerToken = [], cp_IPAllowlist = []\<rparr>"
  have "NormalizeMode id ''public'' = Inr ModePublic" by code_simp
  then obtain p s r where cr: "CreatePolicy id demoSHA demoArgon2 (\<lambda>n. Some (replicate n CHR ''k'')) (\<lambda>n. Some (replicate n CHR ''k''))
      demoNetip 0 (Some NewPolicyStore) ?req = Inr (p, s)" and r: "policyLookupByID s (ps_ID p) = Some r"
    by (simp add: CreatePolicy_def newPolicyRecord_def randomPolicyID_def policyCreate_def NewPolicyStore_def
        policyLookupByID_def policySummarize_def demo_trim Let_def)
  have "(policy_step id demoSHA demoArgon2 demoNetip)\<^sup>*\<^sup>* NewPolicyStore s"
    using policy_step.intros(1) [OF cr] by blast
  from stored_policies_complete [OF demo_parameters(2) this r] cr r show ?thesis by blast
qed

text \<open>
  The lazy upgrade of a legacy password hash does not lock anybody out: after a request was
  allowed, the same request is allowed again in the store the first check left behind.
\<close>

theorem upgrade_keeps_access:
  assumes "argon2_ok a2" "fills rand" "policy_inv s"
    and "CheckPolicy sha256 a2 rand ip (Some s) req = Inr (c, s')" "cr_Allowed c"
  shows "\<exists>c' s''. CheckPolicy sha256 a2 rand' ip (Some s') req = Inr (c', s'') \<and> cr_Allowed c'"
  by (rule CheckPolicy_again [OF assms])

theorem upgrade_keeps_access_witness:
  "\<exists>c s' c' s''. CheckPolicy demoSHA demoArgon2 (\<lambda>n. Some (replicate n CHR ''k'')) demoNetip (Some demoPolicies) demoCheck = Inr (c, s') \<and>
     cr_Allowed c \<and> CheckPolicy demoSHA demoArgon2 (\<lambda>n. None) demoNetip (Some s') demoCheck = Inr (c', s'') \<and> cr_Allowed c'"
proof -
  have "TrimSpace (ck_ReservedSubdomainID demoCheck) \<noteq> []" by (simp add: demoCheck_def demo_trim)
  from CheckPolicy_decision [OF this, of demoSHA demoArgon2 "\<lambda>n. Some (replicate n CHR ''k'')" demoNetip demoPolicies]
  obtain c s' where c: "CheckPolicy demoSHA demoArgon2 (\<lambda>n. Some (replicate n CHR ''k'')) demoNetip (Some demoPolicies) demoCheck = Inr (c, s')"
    "cr_Allowed c"
    using demo_satisfies by (auto simp: demoCheck_def demo_trim demo_store)
  from upgrade_keeps_access [OF demo_parameters(1,3) demo_store(1) c, of "\<lambda>n. None"] c show ?thesis by blast
qed

text \<open>
  C19: The lazy upgrade writes back the record it has read.  When an administrator updates the
  policy between the read and the write of a check, the write restores the old mode, user name
  and password, and the update is lost.
\<close>

theorem upgrade_overwrites_update:
  assumes "policy_inv s" "policyLookupByReservedSubdomainID s k = Some r"
    and "UpdatePolicy uc sha256 a2 rand ip now (Some s) (pl_ID r) req = Inr (p, s')" "TrimSpace (pl_ID r) = pl_ID r"
    and "hashes sha256" "HashPassword a2 rand' (TrimSpace pw) = Inr h"
  shows "policyLookupByReservedSubdomainID (upgradeBasicAuthHash a2 rand' s' r pw) k = Some (r\<lparr>pl_SecretHash := h\<rparr>)"
proof -
  have r: "policyLookupByID s (pl_ID r) = Some r" "pl_ReservedSubdomainID r = k"
    using assms(2) pol.lookup_key [OF assms(1)] by blast+
  from assms(3,4) r(1) obtain r0 where r0: "updatedPolicyRecord uc sha256 a2 rand ip r req now = Inr r0"
    "policyUpdate s (r0\<lparr>pl_ID := pl_ID r, pl_CreatedAt := pl_CreatedAt r\<rparr>) = Inr s'"
    by (auto simp: UpdatePolicy_def Let_def split: sum.splits option.splits if_splits)
  have inv': "policy_inv s'" using pol_upd.update_inv [OF assms(1) r0(2)] .
  have "policyLookupByID s' (pl_ID r) = Some (r0\<lparr>pl_ID := pl_ID r, pl_CreatedAt := pl_CreatedAt r\<rparr>)"
    using pol_upd.update_lookup [OF assms(1) r0(2), of "pl_ID r"] by simp
  moreover have "pl_ReservedSubdomainID r0 = k" using updatedPolicyRecord_complete [OF assms(5) r0(1)] r(2) by simp
  ultimately have u: "policyUpdate s' (r\<lparr>pl_SecretHash := h\<rparr>) = Inr (upgradeBasicAuthHash a2 rand' s' r pw)"
    using assms(6) r(2) by (simp add: upgradeBasicAuthHash_def policyUpdate_def policyLookupByID_def)
  show ?thesis using pol_upd.update_lookupKey [OF inv' u, of k] r(2) by simp
qed

theorem upgrade_overwrites_update_witness:
  "\<exists>p s' h. UpdatePolicy id demoSHA demoArgon2 (\<lambda>n. None) demoNetip 9 (Some demoPolicies) ''ap_1''
       \<lparr>up_Mode = ''bearer_token'', up_BasicUsername = [], up_BasicPassword = [], up_BearerToken = ''amy'', up_IPAllowlist = []\<rparr> = Inr (p, s') \<and>
     ps_Mode p = ModeBearerToken \<and>
     policyLookupByReservedSubdomainID (upgradeBasicAuthHash demoArgon2 (\<lambda>n. Some (replicate n CHR ''k'')) s' demoPolicy ''old'') ''rs_1'' =
       Some (demoPolicy\<lparr>pl_SecretHash := h\<rparr>)"
proof -
  let ?req = "\<lparr>up_Mode = ''bearer_token'', up_BasicUsername = [], up_BasicPassword = [], up_BearerToken = ''amy'', up_IPAllowlist = []\<rparr>"
  have "NormalizeMode id (TrimSpace ''bearer_token'') = Inr ModeBearerToken" "TrimSpace ''bearer_token'' \<noteq> []" by code_simp+
  then obtain p s' where u: "UpdatePolicy id demoSHA demoArgon2 (\<lambda>n. None) demoNetip 9 (Some demoPolicies) (pl_ID demoPolicy) ?req = Inr (p, s')"
    "ps_Mode p = ModeBearerToken"
    by (simp add: UpdatePolicy_def updatedPolicyRecord_def policyUpdate_def policyLookupByID_def demoPolicies_def demoPolicy_def
        policySummarize_def demo_trim Let_def)
  obtain h where h: "HashPassword demoArgon2 (\<lambda>n. Some (replicate n CHR ''k'')) (TrimSpace ''old'') = Inr h"
    by (simp add: HashPassword_def demoArgon2_def argon2idIterations_def argon2idParallel_def)
  have "TrimSpace (pl_ID demoPolicy) = pl_ID demoPolicy" by (simp add: demoPolicy_def demo_trim)
  from upgrade_overwrites_update [OF demo_store u(1) this demo_parameters(2) h] u show ?thesis
    by (auto simp: demoPolicy_def)
qed

end
