(* ===== verification/Float64.thy ===== *)
theory Float64
  imports Complex_Main "HOL-Library.Log_Nat"
begin

text \<open>
  The \<open>float64\<close> arithmetic of the rate limiters.  Every operation computes the exact rational
  result and rounds it, so the limiters are defined over a rounding function.  The locale
  \<open>rounding\<close> says what their lemmas need of it, and \<open>rounding_error\<close> how far a result is off; they are
  interpreted on \<open>fl\<close>, rounding to nearest even with 53 significant bits and gradual underflow.
  Overflow to infinity is left out: the limiters' values stay far below \<open>2 ^ 1024\<close>.
\<close>

definition expo :: "rat \<Rightarrow> int" where
  "expo x = (let (a, b) = quotient_of x;
                 k = int (floorlog 2 (nat a)) - int (floorlog 2 (nat b))
             in if 2 powi k \<le> x then k else k - 1)"

definition roundHalfEven :: "rat \<Rightarrow> int" where
  "roundHalfEven x = (let f = \<lfloor>x\<rfloor>; d = x - of_int f
     in if d < 1 / 2 then f else if d > 1 / 2 then f + 1 else if even f then f else f + 1)"

definition flPos :: "rat \<Rightarrow> rat" where
  "flPos x = (let e = max (- 1074) (expo x - 52) in of_int (roundHalfEven (x / 2 powi e)) * 2 powi e)"

definition fl :: "rat \<Rightarrow> rat" where
  "fl x = (if x = 0 then 0 else if 0 < x then flPos x else - flPos (- x))"

locale rounding =
  fixes rnd :: "rat \<Rightarrow> rat"
  assumes mono: "x \<le> y \<Longrightarrow> rnd x \<le> rnd y"
    and exact: "\<bar>n\<bar> \<le> 2 ^ 53 \<Longrightarrow> rnd (of_int n) = of_int n"
begin

lemma rnd_0: "rnd 0 = 0"
  using exact [of 0] by simp

lemma rnd_1: "rnd 1 = 1"
  using exact [of 1] by simp

lemma rnd_nonneg: "0 \<le> x \<Longrightarrow> 0 \<le> rnd x"
  using mono [of 0 x] by (simp add: rnd_0)

lemma rnd_le_fixed: "rnd y = y \<Longrightarrow> x \<le> y \<Longrightarrow> rnd x \<le> y"
  using mono [of x y] by simp

lemma rnd_ge_fixed: "rnd y = y \<Longrightarrow> y \<le> x \<Longrightarrow> y \<le> rnd x"
  using mono [of y x] by simp

end

text \<open>Half of the smallest positive number, and the error of an operation.\<close>

definition tiny :: rat where
  "tiny = 2 powi (- 1075)"

locale rounding_error = rounding +
  assumes error: "0 \<le> x \<Longrightarrow> rnd x \<le> x + x / 2 ^ 53 + tiny"

section \<open>Rounding to nearest even\<close>

lemma roundHalfEven_bounds: "\<bar>of_int (roundHalfEven x) - x\<bar> \<le> 1 / 2"
proof -
  have "of_int \<lfloor>x\<rfloor> \<le> x" "x < of_int \<lfloor>x\<rfloor> + 1" by linarith+
  then show ?thesis by (auto simp: roundHalfEven_def Let_def abs_le_iff)
qed

lemma roundHalfEven_int: "roundHalfEven (of_int n) = n"
  by (simp add: roundHalfEven_def)

lemma roundHalfEven_floor: "\<lfloor>x\<rfloor> \<le> roundHalfEven x \<and> roundHalfEven x \<le> \<lfloor>x\<rfloor> + 1"
  by (simp add: roundHalfEven_def Let_def)

lemma roundHalfEven_mono:
  assumes "x \<le> y"
  shows "roundHalfEven x \<le> roundHalfEven y"
proof (cases "\<lfloor>x\<rfloor> = \<lfloor>y\<rfloor>")
  case True
  then show ?thesis using assms by (auto simp: roundHalfEven_def Let_def)
next
  case False
  then have "\<lfloor>x\<rfloor> + 1 \<le> \<lfloor>y\<rfloor>" using floor_mono [OF assms] by linarith
  then show ?thesis using roundHalfEven_floor [of x] roundHalfEven_floor [of y] by linarith
qed

lemma powi_pos [simp]: "(0 :: rat) < 2 powi k"
  by (simp add: zero_less_power_int)

lemma powi_less_iff: "(2 :: rat) powi i < 2 powi j \<longleftrightarrow> i < j"
proof
  assume "(2 :: rat) powi i < 2 powi j"
  then show "i < j" using power_int_increasing [of j i "2 :: rat"] by (cases "i < j") auto
qed (simp add: power_int_strict_increasing)

lemma floorlog_powi:
  assumes "0 < a"
  shows "(2 :: rat) powi (int (floorlog 2 (nat a)) - 1) \<le> of_int a"
    and "of_int a < (2 :: rat) powi int (floorlog 2 (nat a))"
proof -
  obtain m where m: "floorlog 2 (nat a) = Suc m" using assms by (auto simp: floorlog_def)
  have "2 ^ m \<le> nat a" "nat a < 2 ^ Suc m" using floorlog_bounds [of "nat a" 2] assms m by simp_all
  then have "int (2 ^ m) \<le> int (nat a)" "int (nat a) < int (2 ^ Suc m)" by (simp_all only: of_nat_le_iff of_nat_less_iff)
  then have "2 ^ m \<le> a" "a < 2 ^ Suc m" using assms by simp_all
  then have "(of_int (2 ^ m) :: rat) \<le> of_int a" "(of_int a :: rat) < of_int (2 ^ Suc m)"
    by (simp_all only: of_int_le_iff of_int_less_iff)
  then show "(2 :: rat) powi (int (floorlog 2 (nat a)) - 1) \<le> of_int a"
    and "of_int a < (2 :: rat) powi int (floorlog 2 (nat a))"
    unfolding m power_int_of_nat by simp_all
qed

lemma expo_bounds:
  assumes "0 < x"
  shows "2 powi expo x \<le> x \<and> x < 2 powi (expo x + 1)"
proof -
  obtain a b where q: "quotient_of x = (a, b)" by fastforce
  have b: "0 < b" using quotient_of_denom_pos [OF q] .
  have x: "x = of_int a / of_int b" using quotient_of_div [OF q] .
  then have a: "0 < a" using assms b by (simp add: zero_less_divide_iff)
  define m n where "m = int (floorlog 2 (nat a))" and "n = int (floorlog 2 (nat b))"
  note pa = floorlog_powi [OF a, folded m_def] and pb = floorlog_powi [OF b, folded n_def]
  have b': "(0 :: rat) < of_int b" using b by simp
  have lo: "2 powi (m - n - 1) \<le> x"
  proof -
    have "2 powi (m - n - 1) * of_int b \<le> 2 powi (m - n - 1) * (2 :: rat) powi n"
      using pb(2) by (intro mult_left_mono) simp_all
    also have "\<dots> = 2 powi (m - 1)" by (simp flip: power_int_add)
    also have "\<dots> \<le> of_int a" by (rule pa(1))
    finally show ?thesis unfolding x pos_le_divide_eq [OF b'] .
  qed
  have hi: "x < 2 powi (m - n + 1)"
  proof -
    have "of_int a < (2 :: rat) powi m" by (rule pa(2))
    also have "\<dots> = 2 powi (m - n + 1) * (2 :: rat) powi (n - 1)" by (simp flip: power_int_add)
    also have "\<dots> \<le> 2 powi (m - n + 1) * of_int b" using pb(1) by (intro mult_left_mono) simp_all
    finally show ?thesis unfolding x pos_divide_less_eq [OF b'] .
  qed
  have "expo x = (if 2 powi (m - n) \<le> x then m - n else m - n - 1)"
    by (simp add: expo_def q Let_def m_def n_def)
  then show ?thesis using lo hi by (auto simp: algebra_simps)
qed

lemma expo_unique:
  assumes "0 < x" "2 powi k \<le> x" "x < 2 powi (k + 1)"
  shows "expo x = k"
proof -
  have "(2 :: rat) powi k < 2 powi (expo x + 1)" "(2 :: rat) powi expo x < 2 powi (k + 1)"
    using expo_bounds [OF assms(1)] assms by linarith+
  then show ?thesis by (simp add: powi_less_iff)
qed

lemma expo_mono:
  assumes "0 < x" "x \<le> y"
  shows "expo x \<le> expo y"
proof -
  have "0 < y" using assms by linarith
  have "(2 :: rat) powi expo x < 2 powi (expo y + 1)"
    using expo_bounds [OF assms(1)] expo_bounds [OF \<open>0 < y\<close>] assms(2) by linarith
  then show ?thesis by (simp add: powi_less_iff)
qed

section \<open>The interpretations\<close>

lemma flPos_le:
  assumes "0 < x" "0 \<le> n" "x \<le> of_int n * 2 powi (max (- 1074) (expo x - 52))"
  shows "flPos x \<le> of_int n * 2 powi (max (- 1074) (expo x - 52))"
proof -
  let ?e = "max (- 1074) (expo x - 52)"
  have "x / 2 powi ?e \<le> of_int n" using assms(3) by (simp add: pos_divide_le_eq)
  then have "roundHalfEven (x / 2 powi ?e) \<le> n" using roundHalfEven_mono roundHalfEven_int by metis
  then show ?thesis by (simp add: flPos_def Let_def mult_right_mono)
qed

lemma flPos_ge:
  assumes "of_int n * 2 powi (max (- 1074) (expo x - 52)) \<le> x"
  shows "of_int n * 2 powi (max (- 1074) (expo x - 52)) \<le> flPos x"
proof -
  let ?e = "max (- 1074) (expo x - 52)"
  have "of_int n \<le> x / 2 powi ?e" using assms by (simp add: pos_le_divide_eq)
  then have "n \<le> roundHalfEven (x / 2 powi ?e)" using roundHalfEven_mono roundHalfEven_int by metis
  then show ?thesis by (simp add: flPos_def Let_def mult_right_mono)
qed

lemma flPos_nonneg: "0 < x \<Longrightarrow> 0 \<le> flPos x"
  using flPos_ge [of 0 x] by simp

lemma flPos_mono:
  assumes "0 < x" "x \<le> y"
  shows "flPos x \<le> flPos y"
proof -
  have y: "0 < y" using assms by linarith
  let ?e = "max (- 1074) (expo x - 52)" and ?f = "max (- 1074) (expo y - 52)"
  show ?thesis
  proof (cases "?e = ?f")
    case True
    then have "x / 2 powi ?e \<le> y / 2 powi ?f" using assms(2) by (simp add: divide_right_mono)
    then have "roundHalfEven (x / 2 powi ?e) \<le> roundHalfEven (y / 2 powi ?f)" by (rule roundHalfEven_mono)
    then show ?thesis using True by (simp add: flPos_def Let_def mult_right_mono)
  next
    case False
    then have lt: "expo x < expo y" "?f = expo y - 52" "?e + 53 \<le> expo y"
      using expo_mono [OF assms] by auto
    have "x < 2 powi (expo x + 1)" using expo_bounds [OF assms(1)] by simp
    also have "(2 :: rat) powi (expo x + 1) \<le> 2 powi (53 + ?e)" by (intro power_int_increasing) auto
    also have "(2 :: rat) powi (53 + ?e) = of_int (2 ^ 53) * 2 powi ?e" by (simp add: power_int_add)
    finally have "x \<le> of_int (2 ^ 53) * 2 powi ?e" by simp
    then have "flPos x \<le> of_int (2 ^ 53) * 2 powi ?e" by (intro flPos_le assms) simp_all
    also have "\<dots> = 2 powi (53 + ?e)" by (simp add: power_int_add)
    also have "\<dots> \<le> 2 powi expo y" using lt(3) by (intro power_int_increasing) auto
    also have "2 powi expo y = of_int (2 ^ 52) * (2 :: rat) powi ?f"
      using power_int_add [of "2 :: rat" 52 "expo y - 52"] by (simp add: lt(2))
    also have "\<dots> \<le> flPos y"
      by (rule flPos_ge) (use expo_bounds [OF y] calculation in \<open>simp add: lt(2) power_int_diff\<close>)
    finally show ?thesis .
  qed
qed

lemma flPos_int:
  assumes "0 < n" "n \<le> 2 ^ 53"
  shows "flPos (of_int n) = of_int n"
proof (cases "n = 2 ^ 53")
  case True
  have "expo (of_int n) = 53"
    by (rule expo_unique) (simp_all add: True)
  then show ?thesis using roundHalfEven_int [of "2 ^ 52"] by (simp add: flPos_def True Let_def)
next
  case False
  then have "n < 2 ^ 53" using assms(2) by simp
  then have "(of_int n :: rat) < of_int (2 ^ 53)" by (simp only: of_int_less_iff)
  then have "(2 :: rat) powi expo (of_int n) < 2 powi 53"
    using expo_bounds [of "of_int n"] assms(1) by simp
  then have "expo (of_int n) < 53" by (simp only: powi_less_iff)
  define k where "k = nat (- max (- 1074) (expo (of_int n) - 52))"
  have k: "max (- 1074) (expo (of_int n) - 52) = - int k"
    using \<open>expo (of_int n) < 53\<close> by (simp add: k_def)
  have "of_int n / (2 :: rat) powi (- int k) = of_int (n * 2 ^ k)"
    by (simp add: power_int_minus power_int_of_nat divide_inverse)
  then have "flPos (of_int n) = of_int (n * 2 ^ k) * 2 powi (- int k)"
    by (simp only: flPos_def Let_def k roundHalfEven_int)
  then show ?thesis by (simp add: power_int_minus power_int_of_nat)
qed

interpretation f64: rounding fl
proof
  show "fl x \<le> fl y" if "x \<le> y" for x y
    using that flPos_mono [of x y] flPos_mono [of "- y" "- x"] flPos_nonneg [of y] flPos_nonneg [of "- x"]
    by (auto simp: fl_def)
  show "fl (of_int n) = of_int n" if "\<bar>n\<bar> \<le> 2 ^ 53" for n
    using that flPos_int [of n] flPos_int [of "- n"] by (auto simp: fl_def)
qed

lemma tiny_bounds: "0 < tiny" "tiny * 2 ^ 120 \<le> 1"
proof -
  have "tiny * 2 ^ 120 = 2 powi (- 1075) * 2 powi int 120" unfolding tiny_def power_int_of_nat by simp
  also have "\<dots> = 2 powi (- 955)" by (subst power_int_add [symmetric]) simp_all
  also have "\<dots> \<le> 2 powi 0" by (intro power_int_increasing) simp_all
  finally show "tiny * 2 ^ 120 \<le> 1" by simp
qed (simp add: tiny_def)

lemma fl_error: "0 \<le> x \<Longrightarrow> fl x \<le> x + x / 2 ^ 53 + tiny"
proof (cases "x = 0")
  case False
  assume "0 \<le> x"
  then have x: "0 < x" using False by simp
  let ?e = "max (- 1074) (expo x - 52)"
  have "of_int (roundHalfEven (x / 2 powi ?e)) \<le> x / 2 powi ?e + 1 / 2"
    using roundHalfEven_bounds [of "x / 2 powi ?e"] by linarith
  then have "flPos x \<le> (x / 2 powi ?e + 1 / 2) * 2 powi ?e"
    unfolding flPos_def Let_def by (intro mult_right_mono) simp_all
  also have "\<dots> = x + 2 powi ?e / 2" by (simp add: distrib_right)
  also have "2 powi ?e / 2 \<le> x / 2 ^ 53 + tiny"
  proof (cases "expo x - 52 \<le> - 1074")
    case True
    have t: "(2 :: rat) powi (- 1074) / 2 = tiny"
      using power_int_add [of "2 :: rat" "- 1075" 1] by (simp add: tiny_def)
    have m: "?e = - 1074" using True by simp
    show ?thesis unfolding m t using x by simp
  next
    case False
    have "(2 :: rat) powi (expo x - 52) / 2 = 2 powi expo x / 2 ^ 53"
      using power_int_diff [of "2 :: rat" "expo x" 52] by simp
    then show ?thesis using False expo_bounds [OF x] tiny_bounds(1) by (simp add: max_def divide_right_mono add_increasing2)
  qed
  finally show ?thesis using x by (simp add: fl_def)
qed (simp add: fl_def tiny_bounds less_imp_le)

interpretation f64e: rounding_error fl
  by unfold_locales (rule fl_error)

end
