(* ===== verification/RateLimit.thy ===== *)
theory RateLimit
  imports Prelude Float64
begin

text \<open>
  \<open>ratelimit.go\<close> and \<open>auth_throttle.go\<close> of the gateway: the token bucket of a tunnel and the
  throttle of failed credential checks.  Numbers of type \<open>float64\<close> are rationals and every
  operation on them goes through the rounding function \<open>rnd\<close>; \<open>fl\<close> gives the program.  A nil
  limiter is \<^term>\<open>None\<close>.
\<close>

section \<open>Token bucket\<close>

record rateLimiter =
  rl_rate :: rat
  rl_capacity :: rat
  rl_tokens :: rat
  rl_last :: gotime

definition goQuot :: "int \<Rightarrow> int \<Rightarrow> int" where
  "goQuot a b = sgn a * sgn b * (\<bar>a\<bar> div \<bar>b\<bar>)"

definition goRem :: "int \<Rightarrow> int \<Rightarrow> int" where
  "goRem a b = a - b * goQuot a b"

definition Seconds :: "(rat \<Rightarrow> rat) \<Rightarrow> duration \<Rightarrow> rat" where
  "Seconds rnd d =
     rnd (rnd (of_int (goQuot d Second)) + rnd (rnd (of_int (goRem d Second)) / 1000000000))"

definition newRateLimiter :: "(rat \<Rightarrow> rat) \<Rightarrow> int \<Rightarrow> int \<Rightarrow> gotime \<Rightarrow> rateLimiter option" where
  "newRateLimiter rnd requestsPerSecond burst now =
     (if requestsPerSecond \<le> 0 \<or> burst \<le> 0 then None
      else Some \<lparr>rl_rate = rnd (of_int requestsPerSecond), rl_capacity = rnd (of_int burst),
                 rl_tokens = rnd (of_int burst), rl_last = now\<rparr>)"

definition refilled :: "(rat \<Rightarrow> rat) \<Rightarrow> rateLimiter \<Rightarrow> gotime \<Rightarrow> rat" where
  "refilled rnd l now =
     (if now > rl_last l then
        (let t = rnd (rl_tokens l + rnd (Seconds rnd (timeSub now (rl_last l)) * rl_rate l))
         in if t > rl_capacity l then rl_capacity l else t)
      else rl_tokens l)"

definition allow :: "(rat \<Rightarrow> rat) \<Rightarrow> rateLimiter option \<Rightarrow> gotime \<Rightarrow> bool \<times> rateLimiter option" where
  "allow rnd l now =
     (case l of
        None \<Rightarrow> (True, None)
      | Some l0 \<Rightarrow>
          let l1 = l0\<lparr>rl_tokens := refilled rnd l0 now,
                      rl_last := (if now > rl_last l0 then now else rl_last l0)\<rparr>
          in if rl_tokens l1 < 1 then (False, Some l1)
             else (True, Some (l1\<lparr>rl_tokens := rnd (rl_tokens l1 - 1)\<rparr>)))"

definition peek :: "(rat \<Rightarrow> rat) \<Rightarrow> rateLimiter option \<Rightarrow> gotime \<Rightarrow> bool" where
  "peek rnd l now = (case l of None \<Rightarrow> True | Some l0 \<Rightarrow> refilled rnd l0 now \<ge> 1)"

text \<open>A sequence of calls of \<open>allow\<close> at given times.\<close>

fun allows :: "(rat \<Rightarrow> rat) \<Rightarrow> rateLimiter option \<Rightarrow> gotime list \<Rightarrow> bool list \<times> rateLimiter option" where
  "allows rnd l [] = ([], l)"
| "allows rnd l (t # ts) =
     (let (b, l') = allow rnd l t; (bs, l'') = allows rnd l' ts in (b # bs, l''))"

definition limiter_inv :: "(rat \<Rightarrow> rat) \<Rightarrow> rateLimiter \<Rightarrow> bool" where
  "limiter_inv rnd l \<longleftrightarrow> 0 \<le> rl_rate l \<and> 0 \<le> rl_tokens l \<and> rl_tokens l \<le> rl_capacity l \<and>
     rnd (rl_capacity l) = rl_capacity l"

section \<open>Throttle of failed credential checks\<close>

definition authAttemptMaxKeys :: nat where
  "authAttemptMaxKeys = 10000"

definition defaultAuthAttemptLimit :: int where
  "defaultAuthAttemptLimit = 5"

definition defaultAuthAttemptWindow :: duration where
  "defaultAuthAttemptWindow = 60 * Second"

record authAttemptEntry =
  ae_limiter :: "rateLimiter option"
  ae_lastSeen :: gotime

record authAttemptThrottle =
  th_entries :: "string \<rightharpoonup> authAttemptEntry"
  th_limit :: int
  th_window :: duration

definition newAuthAttemptThrottle :: "int \<Rightarrow> duration \<Rightarrow> authAttemptThrottle" where
  "newAuthAttemptThrottle limit window =
     \<lparr>th_entries = Map.empty,
      th_limit = (if limit \<le> 0 then defaultAuthAttemptLimit else limit),
      th_window = (if window \<le> 0 then defaultAuthAttemptWindow else window)\<rparr>"

definition blocked :: "(rat \<Rightarrow> rat) \<Rightarrow> authAttemptThrottle option \<Rightarrow> string \<Rightarrow> gotime \<Rightarrow> bool" where
  "blocked rnd t key now =
     (case t of
        None \<Rightarrow> False
      | Some th \<Rightarrow> (case th_entries th key of
                      None \<Rightarrow> False
                    | Some entry \<Rightarrow> \<not> peek rnd (ae_limiter entry) now))"

definition newAttemptLimiter :: "(rat \<Rightarrow> rat) \<Rightarrow> int \<Rightarrow> duration \<Rightarrow> gotime \<Rightarrow> rateLimiter option" where
  "newAttemptLimiter rnd limit window now =
     (if limit \<le> 0 \<or> window \<le> 0 then None
      else Some \<lparr>rl_rate = rnd (rnd (of_int limit) / Seconds rnd window), rl_capacity = rnd (of_int limit),
                 rl_tokens = rnd (of_int limit), rl_last = now\<rparr>)"

text \<open>The loop of \<open>evictOldestLocked\<close> over one order of the entries.\<close>

fun oldestFrom :: "(string \<rightharpoonup> authAttemptEntry) \<Rightarrow> (string \<times> gotime) option \<Rightarrow> string list \<Rightarrow> (string \<times> gotime) option" where
  "oldestFrom m best [] = best"
| "oldestFrom m best (k # ks) =
     (case m k of
        None \<Rightarrow> oldestFrom m best ks
      | Some entry \<Rightarrow>
          (case best of
             None \<Rightarrow> oldestFrom m (Some (k, ae_lastSeen entry)) ks
           | Some (k0, seen) \<Rightarrow>
               if ae_lastSeen entry < seen then oldestFrom m (Some (k, ae_lastSeen entry)) ks
               else oldestFrom m (Some (k0, seen)) ks))"

definition evictOldestLocked :: "string list \<Rightarrow> authAttemptThrottle \<Rightarrow> authAttemptThrottle" where
  "evictOldestLocked order t =
     (case oldestFrom (th_entries t) None order of
        None \<Rightarrow> t
      | Some (k, seen) \<Rightarrow> t\<lparr>th_entries := (th_entries t)(k := None)\<rparr>)"

definition recordFailure ::
  "(rat \<Rightarrow> rat) \<Rightarrow> string list \<Rightarrow> authAttemptThrottle option \<Rightarrow> string \<Rightarrow> gotime \<Rightarrow> authAttemptThrottle option" where
  "recordFailure rnd order t key now =
     (case t of
        None \<Rightarrow> None
      | Some t0 \<Rightarrow>
          let (t1, entry) =
                (case th_entries t0 key of
                   Some entry \<Rightarrow> (t0, entry)
                 | None \<Rightarrow>
                     ((if card (dom (th_entries t0)) \<ge> authAttemptMaxKeys then evictOldestLocked order t0 else t0),
                      \<lparr>ae_limiter = newAttemptLimiter rnd (th_limit t0) (th_window t0) now, ae_lastSeen = now\<rparr>));
              entry' = entry\<lparr>ae_lastSeen := now, ae_limiter := snd (allow rnd (ae_limiter entry) now)\<rparr>
          in Some (t1\<lparr>th_entries := (th_entries t1)(key \<mapsto> entry')\<rparr>))"

text \<open>A run of the throttle: each failure comes with an order in which the map may be visited.\<close>

inductive throttle_step :: "(rat \<Rightarrow> rat) \<Rightarrow> authAttemptThrottle \<Rightarrow> string \<times> gotime \<Rightarrow> authAttemptThrottle \<Rightarrow> bool" for rnd where
  "rangeOrder order (th_entries t) \<Longrightarrow> recordFailure rnd order (Some t) key now = Some t' \<Longrightarrow>
     throttle_step rnd t (key, now) t'"

inductive throttle_run :: "(rat \<Rightarrow> rat) \<Rightarrow> authAttemptThrottle \<Rightarrow> (string \<times> gotime) list \<Rightarrow> authAttemptThrottle \<Rightarrow> bool" for rnd where
  run_nil: "throttle_run rnd t [] t"
| run_step: "throttle_run rnd t es t' \<Longrightarrow> throttle_step rnd t' e t'' \<Longrightarrow> throttle_run rnd t (es @ [e]) t''"

section \<open>Lemmas on the bucket\<close>

lemma peek_allow: "peek rnd l now = fst (allow rnd l now)"
  by (auto simp: peek_def allow_def Let_def split: option.split)

context rounding
begin

lemma Seconds_nonneg: "0 \<le> d \<Longrightarrow> 0 \<le> Seconds rnd d"
proof -
  assume "0 \<le> d"
  then have "0 \<le> goQuot d Second" "0 \<le> goRem d Second"
    by (auto simp: goQuot_def goRem_def Second_def sgn_if minus_mult_div_eq_mod)
  then show ?thesis unfolding Seconds_def by (intro rnd_nonneg add_nonneg_nonneg divide_nonneg_nonneg) simp_all
qed

lemma refilled_bounds:
  assumes "limiter_inv rnd l"
  shows "0 \<le> refilled rnd l now" "refilled rnd l now \<le> rl_capacity l"
proof -
  have inv: "0 \<le> rl_rate l" "0 \<le> rl_tokens l" "rl_tokens l \<le> rl_capacity l"
    using assms by (auto simp: limiter_inv_def)
  have "0 \<le> rnd (rl_tokens l + rnd (Seconds rnd (timeSub now (rl_last l)) * rl_rate l))" if "now > rl_last l"
  proof -
    have "0 \<le> timeSub now (rl_last l)" using that by (simp add: timeSub_def)
    then have "0 \<le> Seconds rnd (timeSub now (rl_last l)) * rl_rate l" using inv by (simp add: Seconds_nonneg)
    then show ?thesis using inv by (intro rnd_nonneg add_nonneg_nonneg) auto
  qed
  then show "0 \<le> refilled rnd l now" "refilled rnd l now \<le> rl_capacity l"
    using inv by (auto simp: refilled_def Let_def)
qed

lemma allow_inv:
  assumes "limiter_inv rnd l" "allow rnd (Some l) now = (b, Some l')"
  shows "limiter_inv rnd l' \<and> rl_capacity l' = rl_capacity l \<and> rl_rate l' = rl_rate l"
proof -
  note r = refilled_bounds [OF assms(1), of now]
  have "0 \<le> rnd (refilled rnd l now - 1) \<and> rnd (refilled rnd l now - 1) \<le> rl_capacity l" if "1 \<le> refilled rnd l now"
    using that r assms(1) rnd_nonneg [of "refilled rnd l now - 1"]
      rnd_le_fixed [of "rl_capacity l" "refilled rnd l now - 1"] by (simp add: limiter_inv_def)
  then show ?thesis using assms r by (auto simp: allow_def limiter_inv_def Let_def split: if_splits)
qed

lemma allow_Some: "\<exists>b l'. allow rnd (Some l) now = (b, Some l')"
  by (auto simp: allow_def Let_def)

lemma allows_inv:
  assumes "limiter_inv rnd l" "allows rnd (Some l) ts = (bs, r)"
  shows "\<exists>l'. r = Some l' \<and> limiter_inv rnd l' \<and> rl_capacity l' = rl_capacity l \<and> rl_rate l' = rl_rate l"
  using assms
proof (induction ts arbitrary: l bs)
  case Nil
  then show ?case by auto
next
  case (Cons t ts)
  obtain b l1 where a: "allow rnd (Some l) t = (b, Some l1)" using allow_Some by blast
  obtain bs' r' where b: "allows rnd (Some l1) ts = (bs', r')" by fastforce
  have "limiter_inv rnd l1 \<and> rl_capacity l1 = rl_capacity l \<and> rl_rate l1 = rl_rate l"
    using allow_inv [OF Cons.prems(1) a] .
  then show ?case using Cons.IH [of l1 bs'] Cons.prems(2) a b by (auto simp: Let_def)
qed

lemma new_inv:
  assumes "newRateLimiter rnd rps burst now = Some l" "burst \<le> 2 ^ 53"
  shows "limiter_inv rnd l \<and> rl_capacity l = of_int burst \<and> rl_tokens l = of_int burst \<and> rl_last l = now"
proof -
  from assms have p: "0 < rps" "0 < burst" and l: "l = \<lparr>rl_rate = rnd (of_int rps), rl_capacity = rnd (of_int burst),
      rl_tokens = rnd (of_int burst), rl_last = now\<rparr>"
    by (auto simp: newRateLimiter_def split: if_splits)
  have "rnd (of_int burst) = of_int burst" using p assms(2) by (intro exact) simp
  then show ?thesis using p rnd_nonneg [of "of_int rps"] by (simp add: l limiter_inv_def)
qed

text \<open>At one instant a bucket with \<open>n\<close> tokens allows \<open>n\<close> requests and then refuses.\<close>

lemma burst_exact:
  assumes "limiter_inv rnd l" "rl_tokens l = of_nat n" "n \<le> 2 ^ 53" "now \<le> rl_last l"
  shows "fst (allows rnd (Some l) (replicate k now)) = replicate (min n k) True @ replicate (k - n) False"
  using assms
proof (induction k arbitrary: l n)
  case 0
  then show ?case by simp
next
  case (Suc k)
  have ref: "refilled rnd l now = rl_tokens l" using Suc.prems(4) by (simp add: refilled_def)
  show ?case
  proof (cases n)
    case 0
    then have "allow rnd (Some l) now = (False, Some l)"
      using Suc.prems ref by (simp add: allow_def Let_def)
    then show ?thesis using Suc.IH [OF Suc.prems(1) _ _ Suc.prems(4), of 0] Suc.prems(2) 0
      by (simp add: Let_def split_beta)
  next
    case (Suc m)
    have "rnd (of_nat m) = of_nat m" using exact [of "int m"] Suc.prems(3) Suc by simp
    then have a: "allow rnd (Some l) now = (True, Some (l\<lparr>rl_tokens := of_nat m\<rparr>))"
      using Suc.prems ref Suc by (simp add: allow_def Let_def)
    have "fst (allows rnd (Some (l\<lparr>rl_tokens := of_nat m\<rparr>)) (replicate k now)) =
        replicate (min m k) True @ replicate (k - m) False"
      using allow_inv [OF Suc.prems(1) a] Suc.prems Suc by (intro Suc.IH) simp_all
    then show ?thesis using a Suc by (simp add: Let_def split_beta)
  qed
qed

end

section \<open>The bound of the bucket\<close>

context rounding_error
begin

lemma Seconds_error:
  assumes "0 \<le> d" "d < 2 ^ 63"
  shows "Seconds rnd d \<le> of_int d / 1000000000 * (1 + 3 / 2 ^ 53) + 3 * tiny"
proof -
  define q r where "q = d div Second" and "r = d mod Second"
  have qr: "goQuot d Second = q" "goRem d Second = r"
    using assms(1) by (auto simp: goQuot_def goRem_def Second_def q_def r_def sgn_if minus_mult_div_eq_mod)
  have d: "d = 1000000000 * q + r" "0 \<le> q" "0 \<le> r" "r < 1000000000"
    using assms(1) by (auto simp: q_def r_def Second_def)
  then have exact_qr: "rnd (of_int q) = of_int q" "rnd (of_int r) = of_int r" using assms(2) by (auto intro!: exact)
  define D R where "D = (of_int d :: rat) / 1000000000" and "R = (of_int r :: rat) / 1000000000"
  have "(of_int d :: rat) = 1000000000 * of_int q + of_int r" unfolding d(1) by simp
  then have D: "D = of_int q + R" "0 \<le> R" "R \<le> D" using d by (simp_all add: D_def R_def field_simps)
  define y where "y = of_int q + rnd R"
  have y: "0 \<le> y" "y \<le> D + R / 2 ^ 53 + tiny"
    using error [of R] rnd_nonneg [of R] D d(2) by (simp_all add: y_def)
  have "Seconds rnd d = rnd y" by (simp add: Seconds_def qr exact_qr y_def R_def)
  also have "\<dots> \<le> y + y / 2 ^ 53 + tiny" using error [OF y(1)] .
  also have "\<dots> \<le> D * (1 + 3 / 2 ^ 53) + 3 * tiny" using y(2) D tiny_bounds(1) by (simp add: field_simps)
  finally show ?thesis by (simp add: D_def)
qed

text \<open>What the bucket gains in a time, and what a call changes.\<close>

lemma gain_error:
  assumes "0 \<le> rate" "rate \<le> 2 ^ 53" "0 \<le> d" "d < 2 ^ 63"
  shows "rnd (Seconds rnd d * rate) \<le> rate * (1 + 1 / 2 ^ 50) * (of_int d / 1000000000) + 1 / 2 ^ 60"
proof -
  define P where "P = rate * (of_int d / 1000000000)"
  have P: "0 \<le> P" using assms by (simp add: P_def)
  have "Seconds rnd d * rate \<le> (of_int d / 1000000000 * (1 + 3 / 2 ^ 53) + 3 * tiny) * rate"
    using Seconds_error [OF assms(3,4)] assms(1) by (rule mult_right_mono)
  also have "\<dots> = P * (1 + 3 / 2 ^ 53) + 3 * (tiny * rate)" by (simp add: P_def algebra_simps)
  also have "tiny * rate \<le> tiny * 2 ^ 53" using assms(2) tiny_bounds(1) by (intro mult_left_mono) simp_all
  finally have z: "Seconds rnd d * rate \<le> P * (1 + 3 / 2 ^ 53) + 3 * (tiny * 2 ^ 53)" by simp
  have "0 \<le> Seconds rnd d * rate" using Seconds_nonneg [OF assms(3)] assms(1) by simp
  from error [OF this] z P tiny_bounds have "rnd (Seconds rnd d * rate) \<le> P * (1 + 1 / 2 ^ 50) + 1 / 2 ^ 60"
    by (simp add: field_simps)
  then show ?thesis by (simp add: P_def algebra_simps)
qed

lemma refilled_error:
  assumes "limiter_inv rnd l" "rl_rate l \<le> 2 ^ 53" "1 \<le> rl_capacity l"
  shows "refilled rnd l now \<le> rl_tokens l
    + rl_rate l * (1 + 1 / 2 ^ 50) * (of_int (max (rl_last l) now - rl_last l) / 1000000000) + rl_capacity l / 2 ^ 52"
proof (cases "now > rl_last l")
  case True
  have inv: "0 \<le> rl_rate l" "0 \<le> rl_tokens l" using assms(1) by (auto simp: limiter_inv_def)
  define d where "d = timeSub now (rl_last l)"
  have d: "0 \<le> d" "d < 2 ^ 63" "d \<le> now - rl_last l" using True by (auto simp: d_def timeSub_def)
  define x where "x = rl_tokens l + rnd (Seconds rnd d * rl_rate l)"
  define G where "G = rl_rate l * (1 + 1 / 2 ^ 50)"
  have "G * (of_int d / 1000000000) \<le> G * (of_int (now - rl_last l) / 1000000000)"
    using d(3) inv(1) by (intro mult_left_mono divide_right_mono) (simp_all add: G_def)
  moreover define K where "K = G * (of_int (now - rl_last l) / 1000000000)"
  ultimately have x: "x \<le> rl_tokens l + K + 1 / 2 ^ 60"
    using gain_error [OF inv(1) assms(2) d(1,2)] by (simp add: x_def G_def)
  have "0 \<le> x" using inv Seconds_nonneg [OF d(1)] by (simp add: x_def rnd_nonneg)
  have "refilled rnd l now \<le> x + rl_capacity l / 2 ^ 53 + tiny"
  proof (cases "x \<le> rl_capacity l")
    case True
    have "refilled rnd l now \<le> rnd x" using \<open>now > rl_last l\<close> by (simp add: refilled_def Let_def x_def d_def)
    with error [OF \<open>0 \<le> x\<close>] True show ?thesis by (simp add: field_simps)
  next
    case False
    with refilled_bounds(2) [OF assms(1), of now] assms(3) tiny_bounds(1) show ?thesis by (simp add: field_simps)
  qed
  with x assms(3) tiny_bounds have "refilled rnd l now \<le> rl_tokens l + K + rl_capacity l / 2 ^ 52" by (simp add: field_simps)
  then show ?thesis using True by (simp add: K_def G_def max_def)
next
  case False
  then show ?thesis using assms(3) by (simp add: refilled_def max_def)
qed

lemma allow_error:
  assumes "limiter_inv rnd l" "rl_rate l \<le> 2 ^ 53" "1 \<le> rl_capacity l" "allow rnd (Some l) t = (b, Some l')"
  shows "rl_last l' = max (rl_last l) t"
    and "rl_tokens l' + (if b then 1 else 0) \<le> refilled rnd l t + rl_capacity l / 2 ^ 52"
proof -
  show "rl_last l' = max (rl_last l) t" using assms(4) by (auto simp: allow_def Let_def max_def split: if_splits)
  have "rnd (refilled rnd l t - 1) + 1 \<le> refilled rnd l t + rl_capacity l / 2 ^ 52" if "1 \<le> refilled rnd l t"
    using error [of "refilled rnd l t - 1"] that refilled_bounds(2) [OF assms(1), of t] assms(3) tiny_bounds
    by (simp add: field_simps)
  then show "rl_tokens l' + (if b then 1 else 0) \<le> refilled rnd l t + rl_capacity l / 2 ^ 52"
    using assms(3,4) by (auto simp: allow_def Let_def split: if_splits)
qed

text \<open>
  The requests that a bucket allows are paid from its tokens, from what it gains until the latest of the
  calls, and from one rounding error per call.
\<close>

lemma allows_error:
  assumes "limiter_inv rnd l" "rl_rate l \<le> 2 ^ 53" "1 \<le> rl_capacity l"
  shows "of_nat (length (filter (\<lambda>b. b) (fst (allows rnd (Some l) ts)))) \<le> rl_tokens l
    + rl_rate l * (1 + 1 / 2 ^ 50) * (of_int (Max (insert (rl_last l) (set ts)) - rl_last l) / 1000000000)
    + of_nat (length ts) * (rl_capacity l / 2 ^ 51)"
  using assms
proof (induction ts arbitrary: l)
  case Nil
  then show ?case by (simp add: limiter_inv_def)
next
  case (Cons t ts)
  obtain b l1 where a: "allow rnd (Some l) t = (b, Some l1)" using allow_Some by blast
  obtain bs r where bs: "allows rnd (Some l1) ts = (bs, r)" by fastforce
  have inv: "limiter_inv rnd l1" "rl_capacity l1 = rl_capacity l" "rl_rate l1 = rl_rate l"
    using allow_inv [OF Cons.prems(1) a] by simp_all
  note step = allow_error [OF Cons.prems a] and ref = refilled_error [OF Cons.prems, of t]
  define G where "G = rl_rate l * (1 + 1 / 2 ^ 50)"
  define e where "e = Max (insert (rl_last l) (set (t # ts)))"
  have "Max (insert (rl_last l1) (set ts)) = e"
    unfolding e_def step(1) by (cases "ts = []") (simp_all add: max.assoc max.left_commute)
  then have "of_nat (length (filter (\<lambda>b. b) bs)) \<le> rl_tokens l1 + G * (of_int (e - rl_last l1) / 1000000000)
      + of_nat (length ts) * (rl_capacity l / 2 ^ 51)"
    using Cons.IH [OF inv(1)] Cons.prems(2,3) bs inv(2,3) by (simp add: G_def)
  moreover have "G * (of_int (e - rl_last l1) / 1000000000) + G * (of_int (rl_last l1 - rl_last l) / 1000000000)
      = G * (of_int (e - rl_last l) / 1000000000)"
    by (simp add: algebra_simps diff_divide_distrib)
  moreover have "rl_capacity l / 2 ^ 52 + rl_capacity l / 2 ^ 52 = rl_capacity l / 2 ^ 51" by simp
  ultimately have "of_nat (length (filter (\<lambda>b. b) bs)) + (if b then 1 else 0) \<le> rl_tokens l
      + G * (of_int (e - rl_last l) / 1000000000) + of_nat (length ts) * (rl_capacity l / 2 ^ 51) + rl_capacity l / 2 ^ 51"
    using step(2) ref unfolding G_def [symmetric] step(1) by linarith
  then show ?case unfolding e_def [symmetric] G_def [symmetric] using a bs by (cases b) (simp_all add: Let_def algebra_simps add_divide_distrib)
qed

text \<open>In a window of calls the tokens of the first one are at most the capacity.\<close>

lemma window_error:
  assumes "limiter_inv rnd l" "rl_rate l \<le> 2 ^ 53" "1 \<le> rl_capacity l"
  shows "of_nat (length (filter (\<lambda>b. b) (fst (allows rnd (Some l) (t # ts))))) \<le> rl_capacity l
    + rl_rate l * (1 + 1 / 2 ^ 50) * (of_int (Max (set (t # ts)) - t) / 1000000000)
    + of_nat (length (t # ts)) * (rl_capacity l / 2 ^ 51)"
proof -
  obtain b l1 where a: "allow rnd (Some l) t = (b, Some l1)" using allow_Some by blast
  obtain bs r where bs: "allows rnd (Some l1) ts = (bs, r)" by fastforce
  have inv: "limiter_inv rnd l1" "rl_capacity l1 = rl_capacity l" "rl_rate l1 = rl_rate l"
    using allow_inv [OF assms(1) a] by simp_all
  define G where "G = rl_rate l * (1 + 1 / 2 ^ 50)"
  have "0 \<le> G" using assms(1) by (simp add: G_def limiter_inv_def)
  note step = allow_error [OF assms a]
  have "Max (insert (rl_last l1) (set ts)) - rl_last l1 \<le> Max (set (t # ts)) - t"
    unfolding step(1) by (cases "ts = []") (auto simp: max_def)
  then have "G * (of_int (Max (insert (rl_last l1) (set ts)) - rl_last l1) / 1000000000)
      \<le> G * (of_int (Max (set (t # ts)) - t) / 1000000000)"
    using \<open>0 \<le> G\<close> by (intro mult_left_mono divide_right_mono) simp_all
  moreover have "of_nat (length (filter (\<lambda>b. b) bs)) \<le> rl_tokens l1
      + G * (of_int (Max (insert (rl_last l1) (set ts)) - rl_last l1) / 1000000000) + of_nat (length ts) * (rl_capacity l / 2 ^ 51)"
    using allows_error [OF inv(1), of ts] assms(2,3) bs inv(2,3) by (simp add: G_def)
  moreover have "rl_capacity l / 2 ^ 52 \<le> rl_capacity l / 2 ^ 51" using assms(3) by (intro divide_left_mono) simp_all
  ultimately have "of_nat (length (filter (\<lambda>b. b) bs)) + (if b then 1 else 0) \<le> rl_capacity l
      + G * (of_int (Max (set (t # ts)) - t) / 1000000000) + of_nat (length ts) * (rl_capacity l / 2 ^ 51) + rl_capacity l / 2 ^ 51"
    using step(2) refilled_bounds(2) [OF assms(1), of t] by linarith
  then show ?thesis unfolding G_def [symmetric] using a bs by (cases b) (simp_all add: Let_def algebra_simps add_divide_distrib)
qed

end

lemma allows_append:
  "allows rnd l (ts @ us) = (let (bs, l') = allows rnd l ts; (cs, l'') = allows rnd l' us in (bs @ cs, l''))"
  by (induction ts arbitrary: l) (auto simp: Let_def split: prod.splits)

lemma allows_length: "length (fst (allows rnd l ts)) = length ts"
  by (induction ts arbitrary: l) (simp_all add: Let_def split_beta)

section \<open>Lemmas on the throttle\<close>

inductive_cases throttle_runE: "throttle_run rnd t es t'"
inductive_cases throttle_stepE: "throttle_step rnd t (key, now) t'"

lemma throttle_run_snoc:
  assumes "throttle_run rnd t (es @ [e]) t''"
  obtains t' where "throttle_run rnd t es t'" "throttle_step rnd t' e t''"
  using assms by (auto elim: throttle_runE)

lemma oldestFrom_min:
  assumes "\<forall>k seen. best = Some (k, seen) \<longrightarrow> (\<exists>e. m k = Some e \<and> ae_lastSeen e = seen)"
    and "best \<noteq> None \<or> (\<exists>k\<in>set ks. m k \<noteq> None)"
  shows "\<exists>k e. oldestFrom m best ks = Some (k, ae_lastSeen e) \<and> m k = Some e \<and>
    (\<forall>k0 seen. best = Some (k0, seen) \<longrightarrow> ae_lastSeen e \<le> seen) \<and>
    (\<forall>k'\<in>set ks. \<forall>e'. m k' = Some e' \<longrightarrow> ae_lastSeen e \<le> ae_lastSeen e')"
  using assms
proof (induction ks arbitrary: best)
  case Nil
  then show ?case by auto
next
  case (Cons k ks)
  show ?case
  proof (cases "m k")
    case None
    then show ?thesis using Cons.IH [of best] Cons.prems by auto
  next
    case (Some e)
    define best' where "best' = (case best of None \<Rightarrow> Some (k, ae_lastSeen e)
      | Some (k0, seen) \<Rightarrow> if ae_lastSeen e < seen then Some (k, ae_lastSeen e) else Some (k0, seen))"
    have step: "oldestFrom m best (k # ks) = oldestFrom m best' ks"
      using Some by (auto simp: best'_def split: option.splits)
    have "best' \<noteq> None" by (auto simp: best'_def split: option.split)
    then obtain k1 s1 where b': "best' = Some (k1, s1)" by (cases best') auto
    have le: "s1 \<le> ae_lastSeen e" "\<forall>k0 seen. best = Some (k0, seen) \<longrightarrow> s1 \<le> seen" "\<exists>e1. m k1 = Some e1 \<and> ae_lastSeen e1 = s1"
      using b' Some Cons.prems(1) by (auto simp: best'_def split: option.splits if_splits)
    from Cons.IH [of best'] b' le(3) obtain k2 e2 where
      "oldestFrom m best' ks = Some (k2, ae_lastSeen e2)" "m k2 = Some e2" "ae_lastSeen e2 \<le> s1"
      "\<forall>k'\<in>set ks. \<forall>e'. m k' = Some e' \<longrightarrow> ae_lastSeen e2 \<le> ae_lastSeen e'" by auto
    then show ?thesis using step le(1,2) Some by (intro exI [of _ k2] exI [of _ e2]) fastforce
  qed
qed

lemma evict_oldest:
  assumes "rangeOrder order (th_entries t)" "dom (th_entries t) \<noteq> {}"
  shows "\<exists>k e. th_entries t k = Some e \<and> evictOldestLocked order t = t\<lparr>th_entries := (th_entries t)(k := None)\<rparr> \<and>
    (\<forall>k' e'. th_entries t k' = Some e' \<longrightarrow> ae_lastSeen e \<le> ae_lastSeen e')"
proof -
  have ord: "set order = dom (th_entries t)" using assms(1) by (simp add: rangeOrder_def)
  then have "\<exists>k\<in>set order. th_entries t k \<noteq> None" using assms(2) by (metis domIff ex_in_conv)
  from oldestFrom_min [of None "th_entries t" order] this obtain k e where
    "oldestFrom (th_entries t) None order = Some (k, ae_lastSeen e)" "th_entries t k = Some e"
    "\<forall>k'\<in>set order. \<forall>e'. th_entries t k' = Some e' \<longrightarrow> ae_lastSeen e \<le> ae_lastSeen e'" by auto
  then show ?thesis using ord by (intro exI [of _ k] exI [of _ e]) (auto simp: evictOldestLocked_def)
qed

lemma recordFailure_entries:
  assumes "rangeOrder order (th_entries t)" "recordFailure rnd order (Some t) key now = Some t'"
  shows "th_limit t' = th_limit t \<and> th_window t' = th_window t \<and>
    (\<exists>m e. th_entries t' = m(key \<mapsto> e) \<and>
       (m = th_entries t \<and> (key \<in> dom (th_entries t) \<or> card (dom (th_entries t)) < authAttemptMaxKeys) \<or>
        (\<exists>k. k \<in> dom (th_entries t) \<and> m = (th_entries t)(k := None))))"
proof (cases "th_entries t key")
  case (Some e)
  then obtain e' where "t' = t\<lparr>th_entries := (th_entries t)(key \<mapsto> e')\<rparr>"
    using assms(2) by (auto simp: recordFailure_def Let_def)
  then show ?thesis using Some by (auto intro!: exI [of _ "th_entries t"])
next
  case None
  show ?thesis
  proof (cases "authAttemptMaxKeys \<le> card (dom (th_entries t))")
    case True
    then have "dom (th_entries t) \<noteq> {}" by (auto simp: authAttemptMaxKeys_def)
    from evict_oldest [OF assms(1) this] obtain k where k: "k \<in> dom (th_entries t)"
      "evictOldestLocked order t = t\<lparr>th_entries := (th_entries t)(k := None)\<rparr>" by blast
    then obtain e' where "t' = t\<lparr>th_entries := (th_entries t)(k := None, key \<mapsto> e')\<rparr>"
      using None True assms(2) by (auto simp: recordFailure_def Let_def)
    then show ?thesis using k(1) by (auto intro!: exI [of _ "(th_entries t)(k := None)"])
  next
    case False
    then obtain e' where "t' = t\<lparr>th_entries := (th_entries t)(key \<mapsto> e')\<rparr>"
      using None assms(2) by (auto simp: recordFailure_def Let_def)
    then show ?thesis using False by (auto intro!: exI [of _ "th_entries t"])
  qed
qed

lemma recordFailure_entry:
  assumes "recordFailure rnd order (Some t) key now = Some t'"
  shows "th_entries t' key = Some (let entry = (case th_entries t key of Some entry \<Rightarrow> entry
      | None \<Rightarrow> \<lparr>ae_limiter = newAttemptLimiter rnd (th_limit t) (th_window t) now, ae_lastSeen = now\<rparr>)
    in entry\<lparr>ae_lastSeen := now, ae_limiter := snd (allow rnd (ae_limiter entry) now)\<rparr>)"
  using assms by (cases "th_entries t key") (auto simp: recordFailure_def Let_def)

lemma throttle_bound_step:
  assumes "throttle_step rnd t (key, now) t'" "finite (dom (th_entries t))" "card (dom (th_entries t)) \<le> authAttemptMaxKeys"
  shows "finite (dom (th_entries t')) \<and> card (dom (th_entries t')) \<le> authAttemptMaxKeys"
proof -
  from assms(1) obtain order where o: "rangeOrder order (th_entries t)" "recordFailure rnd order (Some t) key now = Some t'"
    by (auto elim: throttle_stepE)
  from recordFailure_entries [OF o] obtain m e where m: "th_entries t' = m(key \<mapsto> e)"
    and c: "m = th_entries t \<and> (key \<in> dom (th_entries t) \<or> card (dom (th_entries t)) < authAttemptMaxKeys) \<or>
        (\<exists>k. k \<in> dom (th_entries t) \<and> m = (th_entries t)(k := None))" by blast
  have fin: "finite (dom m)" using c assms(2) by auto
  show ?thesis
  proof (cases "m = th_entries t \<and> key \<in> dom (th_entries t)")
    case True
    then show ?thesis using m assms by (simp add: insert_absorb)
  next
    case False
    with c consider "card (dom m) < authAttemptMaxKeys"
      | k where "k \<in> dom (th_entries t)" "m = (th_entries t)(k := None)" by blast
    then have "card (dom m) < authAttemptMaxKeys"
    proof cases
      case (2 k)
      then have "dom m = dom (th_entries t) - {k}" by auto
      then show ?thesis using 2(1) assms(2,3) card_Diff1_less [of "dom (th_entries t)" k] by simp
    qed simp
    then show ?thesis using m fin card_dom_upd [OF fin, of key e] by simp
  qed
qed

lemma throttle_run_inv:
  assumes "throttle_run rnd t es t'" "finite (dom (th_entries t))" "card (dom (th_entries t)) \<le> authAttemptMaxKeys"
  shows "finite (dom (th_entries t')) \<and> card (dom (th_entries t')) \<le> authAttemptMaxKeys"
  using assms
proof (induction rule: throttle_run.induct)
  case (run_step t es t' e t'')
  then show ?case using throttle_bound_step [of rnd t' "fst e" "snd e" t''] by simp
qed simp

lemma throttle_run_keys:
  assumes "throttle_run rnd t es t'"
  shows "dom (th_entries t') \<subseteq> dom (th_entries t) \<union> fst ` set es"
  using assms
proof (induction rule: throttle_run.induct)
  case (run_step t es t' e t'')
  obtain key now where e: "e = (key, now)" by fastforce
  from run_step(2) obtain order where o: "rangeOrder order (th_entries t')" "recordFailure rnd order (Some t') key now = Some t''"
    unfolding e by (auto elim: throttle_stepE)
  have "dom (th_entries t'') \<subseteq> insert key (dom (th_entries t'))"
    using recordFailure_entries [OF o] by (auto split: if_splits)
  then show ?case using run_step(3) e by auto
qed simp

lemma throttle_run_config:
  "throttle_run rnd t es t' \<Longrightarrow> th_limit t' = th_limit t \<and> th_window t' = th_window t"
proof (induction rule: throttle_run.induct)
  case (run_step t es t' e t'')
  obtain key now where e: "e = (key, now)" by fastforce
  from run_step(2) obtain order where o: "rangeOrder order (th_entries t')" "recordFailure rnd order (Some t') key now = Some t''"
    unfolding e by (auto elim: throttle_stepE)
  show ?case using recordFailure_entries [OF o] run_step(3) by simp
qed simp

context rounding
begin

lemma attempt_limiter_inv:
  assumes "newAttemptLimiter rnd limit window now = Some l" "limit \<le> 2 ^ 53"
  shows "limiter_inv rnd l \<and> rl_tokens l = of_int limit \<and> rl_last l = now"
proof -
  from assms have p: "0 < limit" "0 < window" and l: "l = \<lparr>rl_rate = rnd (rnd (of_int limit) / Seconds rnd window),
      rl_capacity = rnd (of_int limit), rl_tokens = rnd (of_int limit), rl_last = now\<rparr>"
    by (auto simp: newAttemptLimiter_def split: if_splits)
  have e: "rnd (of_int limit) = of_int limit" using p assms(2) by (intro exact) simp
  moreover have "0 \<le> rnd (of_int limit / Seconds rnd window)"
    using p by (intro rnd_nonneg divide_nonneg_nonneg Seconds_nonneg) auto
  ultimately show ?thesis using p by (simp add: l limiter_inv_def)
qed

text \<open>What a failure at an instant that is not later than the last refill does to its entry.\<close>

lemma allow_same_instant:
  assumes "limiter_inv rnd l" "rl_tokens l = of_nat n" "n \<le> 2 ^ 53" "rl_last l = now"
  shows "allow rnd (Some l) now = (n \<noteq> 0, Some (l\<lparr>rl_tokens := of_nat (n - 1)\<rparr>))"
proof (cases n)
  case 0
  then show ?thesis using assms by (simp add: allow_def refilled_def Let_def)
next
  case (Suc m)
  have "rnd (of_nat m) = of_nat m" using exact [of "int m"] assms(3) Suc by simp
  then show ?thesis using assms Suc by (simp add: allow_def refilled_def Let_def)
qed

lemma failures_same_instant:
  assumes "throttle_run rnd t (replicate n (key, now)) t'" "th_entries t key = None"
    and "0 < th_limit t" "th_limit t \<le> 2 ^ 53" "0 < th_window t" "0 < n"
  shows "\<exists>e l. th_entries t' key = Some e \<and> ae_limiter e = Some l \<and> limiter_inv rnd l \<and> rl_last l = now \<and>
    rl_tokens l = of_nat (nat (th_limit t) - n)"
  using assms
proof (induction n arbitrary: t')
  case 0
  then show ?case by simp
next
  case (Suc n)
  from Suc.prems(1) have "throttle_run rnd t (replicate n (key, now) @ [(key, now)]) t'"
    by (simp add: replicate_append_same)
  then obtain t1 where r: "throttle_run rnd t (replicate n (key, now)) t1" "throttle_step rnd t1 (key, now) t'"
    by (rule throttle_run_snoc)
  from r(2) obtain order where o: "rangeOrder order (th_entries t1)" "recordFailure rnd order (Some t1) key now = Some t'"
    by (auto elim: throttle_stepE)
  have cfg: "th_limit t1 = th_limit t" "th_window t1 = th_window t" using throttle_run_config [OF r(1)] by auto
  have "\<exists>e l. (case th_entries t1 key of Some entry \<Rightarrow> entry
      | None \<Rightarrow> \<lparr>ae_limiter = newAttemptLimiter rnd (th_limit t1) (th_window t1) now, ae_lastSeen = now\<rparr>) = e \<and>
      ae_limiter e = Some l \<and> limiter_inv rnd l \<and> rl_last l = now \<and> rl_tokens l = of_nat (nat (th_limit t) - n)"
  proof (cases "n = 0")
    case True
    with r(1) have "t1 = t" by (auto elim: throttle_runE)
    obtain l where l: "newAttemptLimiter rnd (th_limit t) (th_window t) now = Some l"
      using Suc.prems(3,5) by (simp add: newAttemptLimiter_def)
    note inv = attempt_limiter_inv [OF l Suc.prems(4)]
    have "limiter_inv rnd l" "rl_last l = now" "rl_tokens l = of_nat (nat (th_limit t) - n)"
      using inv Suc.prems(3) True by simp_all
    then show ?thesis using \<open>t1 = t\<close> Suc.prems(2) l by simp
  next
    case False
    then show ?thesis using Suc.IH [OF r(1) Suc.prems(2-5)] by auto
  qed
  then obtain e l where e: "(case th_entries t1 key of Some entry \<Rightarrow> entry
      | None \<Rightarrow> \<lparr>ae_limiter = newAttemptLimiter rnd (th_limit t1) (th_window t1) now, ae_lastSeen = now\<rparr>) = e"
    "ae_limiter e = Some l" "limiter_inv rnd l" "rl_last l = now" "rl_tokens l = of_nat (nat (th_limit t) - n)" by blast
  have a: "allow rnd (Some l) now = (nat (th_limit t) - n \<noteq> 0, Some (l\<lparr>rl_tokens := of_nat (nat (th_limit t) - n - 1)\<rparr>))"
    by (rule allow_same_instant [OF e(3,5) _ e(4)]) (use Suc.prems(4) in \<open>simp add: nat_le_iff\<close>)
  have "th_entries t' key = Some (e\<lparr>ae_lastSeen := now, ae_limiter := snd (allow rnd (ae_limiter e) now)\<rparr>)"
    using recordFailure_entry [OF o(2)] e(1) by simp
  then have "th_entries t' key = Some (e\<lparr>ae_lastSeen := now,
      ae_limiter := Some (l\<lparr>rl_tokens := of_nat (nat (th_limit t) - n - 1)\<rparr>)\<rparr>)"
    by (simp only: e(2) a snd_conv)
  moreover have "limiter_inv rnd (l\<lparr>rl_tokens := of_nat (nat (th_limit t) - n - 1)\<rparr>)"
    using allow_inv [OF e(3) a] by blast
  moreover have "nat (th_limit t) - n - 1 = nat (th_limit t) - Suc n" by simp
  ultimately show ?case using e(4) by (auto simp del: of_nat_diff)
qed

lemma blocked_same_instant:
  assumes "throttle_run rnd t (replicate n (key, now)) t'" "th_entries t key = None"
    and "0 < th_limit t" "th_limit t \<le> 2 ^ 53" "0 < th_window t"
  shows "blocked rnd (Some t') key now \<longleftrightarrow> th_limit t \<le> int n"
proof (cases "n = 0")
  case True
  with assms(1) have "t' = t" by (auto elim: throttle_runE)
  then show ?thesis using assms(2,3) True by (simp add: blocked_def)
next
  case False
  then obtain e l where el: "th_entries t' key = Some e" "ae_limiter e = Some l" "limiter_inv rnd l" "rl_last l = now"
    "rl_tokens l = of_nat (nat (th_limit t) - n)"
    using failures_same_instant [OF assms] by auto
  have "refilled rnd l now = of_nat (nat (th_limit t) - n)" using el(4,5) by (simp add: refilled_def)
  then have "peek rnd (Some l) now \<longleftrightarrow> 1 \<le> nat (th_limit t) - n" by (simp add: peek_def)
  then show ?thesis using el(1,2) by (auto simp: blocked_def)
qed

end

lemma demo_failure: "\<exists>t. throttle_run fl (newAuthAttemptThrottle 1 Second) [(''demo|10.0.0.1'', 0)] t"
proof -
  let ?t = "newAuthAttemptThrottle 1 Second"
  obtain t' where t': "recordFailure fl [] (Some ?t) ''demo|10.0.0.1'' 0 = Some t'"
    by (simp add: recordFailure_def Let_def split_beta)
  have "rangeOrder [] (th_entries ?t)" by (simp add: rangeOrder_def newAuthAttemptThrottle_def)
  then have "throttle_run fl ?t ([] @ [(''demo|10.0.0.1'', 0)]) t'"
    using run_step [OF run_nil] throttle_step.intros t' by blast
  then show ?thesis by auto
qed

section \<open>Properties\<close>

text \<open>
  In the program's floating-point arithmetic the bucket of a rate limiter never runs below
  zero or above its burst size, whatever the times at which requests arrive.
\<close>

theorem bucket_stays_in_range:
  assumes "newRateLimiter fl rps burst start = Some l" "burst \<le> 2 ^ 53"
  shows "\<exists>l'. snd (allows fl (Some l) ts) = Some l' \<and> 0 \<le> rl_tokens l' \<and> rl_tokens l' \<le> of_int burst"
proof -
  have new: "limiter_inv fl l \<and> rl_capacity l = of_int burst" using f64.new_inv [OF assms] by simp
  obtain bs r where "allows fl (Some l) ts = (bs, r)" by fastforce
  then show ?thesis using f64.allows_inv [of l ts bs r] new by (auto simp: limiter_inv_def)
qed

theorem bucket_stays_in_range_witness:
  "\<exists>l'. snd (allows fl (newRateLimiter fl 10 20 0) [5, 7, 3]) = Some l' \<and> 0 \<le> rl_tokens l' \<and> rl_tokens l' \<le> of_int 20"
proof -
  obtain l where l: "newRateLimiter fl 10 20 0 = Some l" by (simp add: newRateLimiter_def)
  show ?thesis using bucket_stays_in_range [OF l, of "[5, 7, 3]"] l by simp
qed

text \<open>
  In the program's floating-point arithmetic a new limiter allows exactly \<open>burst\<close> requests
  that arrive at its creation instant and refuses every further one.
\<close>

theorem burst_is_exact:
  assumes "newRateLimiter fl rps burst start = Some l" "burst \<le> 2 ^ 53"
  shows "fst (allows fl (Some l) (replicate k start)) =
    replicate (min (nat burst) k) True @ replicate (k - nat burst) False"
proof -
  have new: "limiter_inv fl l" "rl_tokens l = of_int burst" "rl_last l = start" using f64.new_inv [OF assms] by auto
  have "0 < burst" using assms(1) by (auto simp: newRateLimiter_def split: if_splits)
  then have "rl_tokens l = of_nat (nat burst)" "nat burst \<le> 2 ^ 53" using new assms(2) by (simp_all add: nat_le_iff)
  then show ?thesis using f64.burst_exact [OF new(1)] new(3) by simp
qed

theorem burst_is_exact_witness:
  "fst (allows fl (newRateLimiter fl 1 2 0) (replicate 3 0)) = [True, True, False]"
proof -
  obtain l where l: "newRateLimiter fl 1 2 0 = Some l" by (simp add: newRateLimiter_def)
  show ?thesis using burst_is_exact [OF l, of 3] l by (simp add: numeral_eq_Suc)
qed

text \<open>
  C17: the token bucket bounds the request rate, in the program's floating-point arithmetic.  In every
  window of consecutive calls of \<open>allow\<close> in the life of a limiter, the number of requests allowed is at
  most the burst plus the rate times the length of the window, where the rounding of \<open>float64\<close> adds
  at most one part in \<open>2 ^ 50\<close> to the rate and one part in \<open>2 ^ 51\<close> of the burst for every call.  The times of
  the calls need not be in order: the window is as long as from its first call to its latest.
\<close>

theorem rate_is_bounded:
  assumes "newRateLimiter fl rps burst start = Some l" "rps \<le> 2 ^ 53" "burst \<le> 2 ^ 53"
  shows "of_nat (length (filter (\<lambda>b. b) (drop (length before) (fst (allows fl (Some l) (before @ t # window)))))) \<le>
    (of_int burst :: rat) + of_int rps * (1 + 1 / 2 ^ 50) * (of_int (Max (set (t # window)) - t) / 1000000000)
      + of_nat (length (t # window)) * (of_int burst / 2 ^ 51)"
proof -
  have new: "limiter_inv fl l" "rl_capacity l = of_int burst" using f64.new_inv [OF assms(1,3)] by auto
  have pos: "0 < rps" "0 < burst" and "rl_rate l = fl (of_int rps)"
    using assms(1) by (auto simp: newRateLimiter_def split: if_splits)
  then have rate: "rl_rate l = of_int rps" using f64.exact [of rps] assms(2) by simp
  obtain bs r where bs: "allows fl (Some l) before = (bs, r)" by fastforce
  with f64.allows_inv [OF new(1) bs] obtain l1 where
    l1: "r = Some l1" "limiter_inv fl l1" "rl_capacity l1 = of_int burst" "rl_rate l1 = of_int rps" using new(2) rate by auto
  have "length bs = length before" using allows_length [of fl "Some l" before] bs by simp
  then have "drop (length before) (fst (allows fl (Some l) (before @ t # window))) = fst (allows fl (Some l1) (t # window))"
    by (simp add: allows_append bs l1(1) del: allows.simps split: prod.split)
  moreover have "rl_rate l1 \<le> 2 ^ 53" "1 \<le> rl_capacity l1"
    using of_int_le_iff [of rps "2 ^ 53", where 'a = rat] of_int_le_iff [of 1 burst, where 'a = rat] assms(2) pos(2) l1(3,4) by simp_all
  ultimately show ?thesis using f64e.window_error [OF l1(2), of t window] l1(3,4) by (simp only:)
qed

theorem rate_is_bounded_witness:
  "of_nat (length (filter (\<lambda>b. b) (drop 2 (fst (allows fl (newRateLimiter fl 10 20 0) [0, 7, 1000000000, 2000000000, 1500000000])))))
     \<le> (of_int 20 :: rat) + of_int 10 * (1 + 1 / 2 ^ 50) * (of_int 1000000000 / 1000000000) + of_nat 3 * (of_int 20 / 2 ^ 51)"
proof -
  obtain l where l: "newRateLimiter fl 10 20 0 = Some l" by (simp add: newRateLimiter_def)
  show ?thesis using rate_is_bounded [OF l, of "[0, 7]" 1000000000 "[2000000000, 1500000000]"] unfolding l
    by (simp del: allows.simps flip: numeral_2_eq_2)
qed

text \<open>
  \<open>peek\<close> foretells \<open>allow\<close>: it reports exactly whether a call of \<open>allow\<close> at the same time
  would succeed, in any arithmetic.
\<close>

theorem peek_foretells_allow: "peek rnd l now = fst (allow rnd l now)"
  by (rule peek_allow)

text \<open>
  The throttle's memory is bounded: whatever failures are recorded and in whatever order Go
  visits the map, it holds at most 10000 entries, and only for keys that have failed.
\<close>

theorem throttle_memory_bounded:
  assumes "throttle_run fl (newAuthAttemptThrottle limit window) es t"
  shows "card (dom (th_entries t)) \<le> 10000 \<and> dom (th_entries t) \<subseteq> fst ` set es"
  using throttle_run_inv [OF assms] throttle_run_keys [OF assms]
  by (simp add: newAuthAttemptThrottle_def authAttemptMaxKeys_def)

theorem throttle_memory_bounded_witness:
  "\<exists>t. throttle_run fl (newAuthAttemptThrottle 1 Second) [(''demo|10.0.0.1'', 0)] t \<and>
     card (dom (th_entries t)) \<le> 10000 \<and> dom (th_entries t) \<subseteq> {''demo|10.0.0.1''}"
proof -
  obtain t where "throttle_run fl (newAuthAttemptThrottle 1 Second) [(''demo|10.0.0.1'', 0)] t"
    using demo_failure by blast
  then show ?thesis using throttle_memory_bounded by fastforce
qed

text \<open>
  A key that has not failed before is blocked exactly when it has failed as often as the
  limit allows, for failures at one instant and in floating-point arithmetic.
\<close>

theorem throttle_blocks_at_limit:
  assumes "throttle_run fl t (replicate n (key, now)) t'" "th_entries t key = None"
    and "0 < th_limit t" "th_limit t \<le> 2 ^ 53" "0 < th_window t"
  shows "blocked fl (Some t') key now \<longleftrightarrow> th_limit t \<le> int n"
  by (rule f64.blocked_same_instant [OF assms])

theorem throttle_blocks_at_limit_witness:
  "\<exists>t. throttle_run fl (newAuthAttemptThrottle 1 Second) [(''demo|10.0.0.1'', 0)] t \<and> blocked fl (Some t) ''demo|10.0.0.1'' 0"
proof -
  obtain t where "throttle_run fl (newAuthAttemptThrottle 1 Second) [(''demo|10.0.0.1'', 0)] t"
    using demo_failure by blast
  then have run: "throttle_run fl (newAuthAttemptThrottle 1 Second) (replicate 1 (''demo|10.0.0.1'', 0)) t" by simp
  then show ?thesis using throttle_blocks_at_limit [OF run]
    by (auto simp: newAuthAttemptThrottle_def Second_def)
qed

end
