(* ===== verification/StreamDeadline.thy ===== *)
theory StreamDeadline
  imports Prelude
begin

text \<open>
  \<open>streamdeadline.go\<close> of the gateway: the three timers that bound a stream.  A timer is the
  instant at which it fires, if it is armed, with the cause its function cancels the stream's
  context with; the first cause stays.  Time passes between the operations: \<open>elapse\<close> fires the
  timers that are due, the earlier one first, and its first argument says which of two timers
  due at the same instant runs first.
\<close>

datatype cause =
    Canceled
  | DeadlineExceeded
  | StreamRequestTimeout
  | StreamIdleTimeout
  | StreamMaxLifetimeExceeded
  | OtherCause

record streamDeadlinePolicy =
  sp_RequestTimeout :: duration
  sp_IdleTimeout :: duration
  sp_MaxLifetime :: duration

record timer =
  tm_at :: "gotime option"
  tm_cause :: cause

record streamDeadline =
  sd_policy :: streamDeadlinePolicy
  sd_phase :: "timer option"
  sd_max :: "timer option"
  sd_stopped :: bool
  sd_cause :: "cause option"

definition AfterFunc :: "duration \<Rightarrow> gotime \<Rightarrow> cause \<Rightarrow> timer" where
  "AfterFunc d now c = \<lparr>tm_at = Some (now + max 0 d), tm_cause = c\<rparr>"

definition newStreamDeadline :: "streamDeadlinePolicy \<Rightarrow> gotime \<Rightarrow> streamDeadline" where
  "newStreamDeadline policy now =
     \<lparr>sd_policy = policy,
      sd_phase = (if sp_RequestTimeout policy > 0
                  then Some (AfterFunc (sp_RequestTimeout policy) now StreamRequestTimeout) else None),
      sd_max = (if sp_MaxLifetime policy > 0
                then Some (AfterFunc (sp_MaxLifetime policy) now StreamMaxLifetimeExceeded) else None),
      sd_stopped = False, sd_cause = None\<rparr>"

definition MarkResponseStarted :: "streamDeadline \<Rightarrow> gotime \<Rightarrow> streamDeadline" where
  "MarkResponseStarted d now =
     (if sd_stopped d then d
      else d\<lparr>sd_phase := (if sp_IdleTimeout (sd_policy d) > 0
               then Some (AfterFunc (sp_IdleTimeout (sd_policy d)) now StreamIdleTimeout) else None)\<rparr>)"

definition Touch :: "streamDeadline \<Rightarrow> gotime \<Rightarrow> streamDeadline" where
  "Touch d now =
     (if sd_stopped d then d
      else case sd_phase d of
             None \<Rightarrow> d
           | Some t \<Rightarrow> d\<lparr>sd_phase := Some (t\<lparr>tm_at := Some (now + max 0 (sp_IdleTimeout (sd_policy d)))\<rparr>)\<rparr>)"

definition cancelWith :: "cause \<Rightarrow> streamDeadline \<Rightarrow> streamDeadline" where
  "cancelWith c d = d\<lparr>sd_cause := (case sd_cause d of None \<Rightarrow> Some c | Some c0 \<Rightarrow> Some c0)\<rparr>"

definition StopDeadline :: "streamDeadline \<Rightarrow> streamDeadline" where
  "StopDeadline d =
     (if sd_stopped d then d
      else cancelWith Canceled
             (d\<lparr>sd_stopped := True,
                sd_phase := map_option (\<lambda>t. t\<lparr>tm_at := None\<rparr>) (sd_phase d),
                sd_max := map_option (\<lambda>t. t\<lparr>tm_at := None\<rparr>) (sd_max d)\<rparr>))"

section \<open>The passing of time\<close>

definition due :: "timer option \<Rightarrow> gotime \<Rightarrow> gotime option" where
  "due t now = (case t of None \<Rightarrow> None | Some tm \<Rightarrow>
     (case tm_at tm of None \<Rightarrow> None | Some a \<Rightarrow> if a \<le> now then Some a else None))"

definition firePhase :: "streamDeadline \<Rightarrow> streamDeadline" where
  "firePhase d = (case sd_phase d of None \<Rightarrow> d
     | Some t \<Rightarrow> cancelWith (tm_cause t) (d\<lparr>sd_phase := Some (t\<lparr>tm_at := None\<rparr>)\<rparr>))"

definition fireMax :: "streamDeadline \<Rightarrow> streamDeadline" where
  "fireMax d = (case sd_max d of None \<Rightarrow> d
     | Some t \<Rightarrow> cancelWith (tm_cause t) (d\<lparr>sd_max := Some (t\<lparr>tm_at := None\<rparr>)\<rparr>))"

definition elapse :: "bool \<Rightarrow> streamDeadline \<Rightarrow> gotime \<Rightarrow> streamDeadline" where
  "elapse phaseFirst d now =
     (case (due (sd_phase d) now, due (sd_max d) now) of
        (None, None) \<Rightarrow> d
      | (Some p, None) \<Rightarrow> firePhase d
      | (None, Some m) \<Rightarrow> fireMax d
      | (Some p, Some m) \<Rightarrow>
          if p < m \<or> p = m \<and> phaseFirst then fireMax (firePhase d) else firePhase (fireMax d))"

datatype deadline_op = OpNone | OpMark | OpTouch | OpStop

fun applyOp :: "deadline_op \<Rightarrow> gotime \<Rightarrow> streamDeadline \<Rightarrow> streamDeadline" where
  "applyOp OpNone now d = d"
| "applyOp OpMark now d = MarkResponseStarted d now"
| "applyOp OpTouch now d = Touch d now"
| "applyOp OpStop now d = StopDeadline d"

fun deadlineRun :: "streamDeadline \<Rightarrow> (bool \<times> gotime \<times> deadline_op) list \<Rightarrow> streamDeadline" where
  "deadlineRun d [] = d"
| "deadlineRun d ((b, now, op) # r) = deadlineRun (applyOp op now (elapse b d now)) r"

text \<open>Consecutive instants lie less than the idle timeout apart, if there is one.\<close>

fun gapsBelow :: "duration \<Rightarrow> gotime list \<Rightarrow> bool" where
  "gapsBelow idle (t # u # r) \<longleftrightarrow> t \<le> u \<and> (idle > 0 \<longrightarrow> u < t + idle) \<and> gapsBelow idle (u # r)"
| "gapsBelow idle _ \<longleftrightarrow> True"

text \<open>While the stream is not stopped, its lifetime timer stays armed or has fired.\<close>

definition life_inv :: "gotime \<Rightarrow> streamDeadline \<Rightarrow> bool" where
  "life_inv limit d \<longleftrightarrow> sd_cause d \<noteq> None \<or>
     (\<exists>t. sd_max d = Some t \<and> tm_at t = Some limit \<and> tm_cause t = StreamMaxLifetimeExceeded)"

text \<open>An active stream: marked, its idle timer set by the last activity.\<close>

definition active_at :: "gotime \<Rightarrow> gotime option \<Rightarrow> streamDeadline \<Rightarrow> bool" where
  "active_at now limit d \<longleftrightarrow> sd_cause d = None \<and> \<not> sd_stopped d \<and>
     sd_phase d = (if sp_IdleTimeout (sd_policy d) > 0
        then Some \<lparr>tm_at = Some (now + sp_IdleTimeout (sd_policy d)), tm_cause = StreamIdleTimeout\<rparr> else None) \<and>
     (case sd_max d of None \<Rightarrow> limit = None | Some t \<Rightarrow> tm_at t = limit \<and> limit \<noteq> None)"

section \<open>Lemmas\<close>

lemma fire_keeps [simp]:
  "sd_policy (firePhase d) = sd_policy d" "sd_policy (fireMax d) = sd_policy d"
  "sd_stopped (firePhase d) = sd_stopped d" "sd_stopped (fireMax d) = sd_stopped d"
  "sd_max (firePhase d) = sd_max d" "sd_phase (fireMax d) = sd_phase d"
  by (auto simp: firePhase_def fireMax_def cancelWith_def split: option.split)

lemma elapse_keeps [simp]:
  "sd_policy (elapse b d now) = sd_policy d" "sd_stopped (elapse b d now) = sd_stopped d"
  by (auto simp: elapse_def split: option.split)

lemma fireMax_cause: "sd_max d = Some t \<Longrightarrow> sd_cause (fireMax d) \<noteq> None"
  by (auto simp: fireMax_def cancelWith_def split: option.split)

lemma cause_stays: "sd_cause d \<noteq> None \<Longrightarrow> sd_cause (applyOp op now (elapse b d now)) = sd_cause d"
  by (cases op)
    (auto simp: elapse_def firePhase_def fireMax_def cancelWith_def MarkResponseStarted_def Touch_def
      StopDeadline_def split: option.split)

lemma run_cause_stays: "sd_cause d \<noteq> None \<Longrightarrow> sd_cause (deadlineRun d ops) = sd_cause d"
  by (induction d ops rule: deadlineRun.induct) (simp_all add: cause_stays)

lemma elapse_life:
  assumes "life_inv limit d"
  shows "life_inv limit (elapse b d now)" "limit \<le> now \<Longrightarrow> sd_cause (elapse b d now) \<noteq> None"
  using assms
  by (auto simp: life_inv_def elapse_def due_def firePhase_def fireMax_def cancelWith_def
      split: option.splits if_splits)

lemma applyOp_life:
  assumes "life_inv limit d" "op \<noteq> OpStop"
  shows "life_inv limit (applyOp op now d)" "sd_cause d \<noteq> None \<Longrightarrow> sd_cause (applyOp op now d) \<noteq> None"
  using assms
  by (cases op; auto simp: life_inv_def MarkResponseStarted_def Touch_def split: option.split)+

lemma run_life:
  assumes "life_inv limit d" "\<forall>(b, now, op) \<in> set ops. op \<noteq> OpStop" "\<exists>(b, now, op) \<in> set ops. limit \<le> now"
  shows "sd_cause (deadlineRun d ops) \<noteq> None"
  using assms
proof (induction d ops rule: deadlineRun.induct)
  case (2 d b now op r)
  then have op: "op \<noteq> OpStop" by auto
  have inv: "life_inv limit (applyOp op now (elapse b d now))"
    using applyOp_life(1) [OF elapse_life(1) [OF 2(2)] op] .
  show ?case
  proof (cases "limit \<le> now")
    case True
    then have "sd_cause (applyOp op now (elapse b d now)) \<noteq> None"
      using applyOp_life(2) [OF elapse_life(1) [OF 2(2)] op] elapse_life(2) [OF 2(2)] by blast
    then show ?thesis by (simp add: run_cause_stays)
  next
    case False
    then show ?thesis using 2(1) [OF inv] 2(3,4) by auto
  qed
qed simp

lemma active_touch:
  assumes "active_at t limit d" "t \<le> u" "sp_IdleTimeout (sd_policy d) > 0 \<longrightarrow> u < t + sp_IdleTimeout (sd_policy d)"
    and "case limit of None \<Rightarrow> True | Some m \<Rightarrow> u < m"
  shows "active_at u limit (applyOp OpTouch u (elapse b d u))" "sd_policy (applyOp OpTouch u (elapse b d u)) = sd_policy d"
proof -
  have "elapse b d u = d" using assms
    by (auto simp: active_at_def elapse_def due_def split: option.splits if_splits)
  then show "active_at u limit (applyOp OpTouch u (elapse b d u))" "sd_policy (applyOp OpTouch u (elapse b d u)) = sd_policy d"
    using assms(1) by (auto simp: active_at_def Touch_def split: option.splits if_splits)
qed

lemma active_run:
  assumes "active_at t limit d" "gapsBelow (sp_IdleTimeout (sd_policy d)) (t # map snd ts)"
    and "\<forall>u\<in>set (map snd ts). case limit of None \<Rightarrow> True | Some m \<Rightarrow> u < m"
  shows "sd_cause (deadlineRun d (map (\<lambda>(b, u). (b, u, OpTouch)) ts)) = None"
  using assms
proof (induction ts arbitrary: t d)
  case Nil
  then show ?case by (simp add: active_at_def)
next
  case (Cons x ts)
  obtain b u where x: "x = (b, u)" by fastforce
  have "t \<le> u" "sp_IdleTimeout (sd_policy d) > 0 \<longrightarrow> u < t + sp_IdleTimeout (sd_policy d)"
    "case limit of None \<Rightarrow> True | Some m \<Rightarrow> u < m"
    using Cons.prems x by auto
  from active_touch [OF Cons.prems(1) this, of b] Cons.IH Cons.prems(2,3) x show ?case by simp
qed

section \<open>Properties\<close>

text \<open>
  C18: An active stream lives: when the response starts before the request timeout and activity
  follows with gaps below the idle timeout, no timer cancels the stream as long as it is
  younger than its maximum lifetime.
\<close>

theorem active_stream_is_not_cancelled:
  assumes "start \<le> t" "sp_RequestTimeout policy > 0 \<longrightarrow> t < start + sp_RequestTimeout policy"
    and "gapsBelow (sp_IdleTimeout policy) (t # map snd ts)"
    and "\<forall>u\<in>set (t # map snd ts). sp_MaxLifetime policy > 0 \<longrightarrow> u < start + sp_MaxLifetime policy"
  shows "sd_cause (deadlineRun (newStreamDeadline policy start)
    ((b, t, OpMark) # map (\<lambda>(b, u). (b, u, OpTouch)) ts)) = None"
proof -
  let ?d = "newStreamDeadline policy start"
  let ?limit = "if sp_MaxLifetime policy > 0 then Some (start + sp_MaxLifetime policy) else None"
  have "elapse b ?d t = ?d"
    using assms(2,4) by (auto simp: elapse_def due_def newStreamDeadline_def AfterFunc_def)
  then have "active_at t ?limit (applyOp OpMark t (elapse b ?d t))"
    "sd_policy (applyOp OpMark t (elapse b ?d t)) = policy"
    by (auto simp: active_at_def MarkResponseStarted_def newStreamDeadline_def AfterFunc_def)
  then show ?thesis using active_run [of t ?limit "applyOp OpMark t (elapse b ?d t)" ts] assms(3,4) by simp
qed

theorem active_stream_is_not_cancelled_witness:
  "sd_cause (deadlineRun (newStreamDeadline \<lparr>sp_RequestTimeout = 30, sp_IdleTimeout = 60, sp_MaxLifetime = 3600\<rparr> 0)
     [(True, 29, OpMark), (True, 80, OpTouch), (False, 130, OpTouch)]) = None"
  using active_stream_is_not_cancelled [of 0 29 "\<lparr>sp_RequestTimeout = 30, sp_IdleTimeout = 60, sp_MaxLifetime = 3600\<rparr>"
      "[(True, 80), (False, 130)]" True] by simp

text \<open>
  The maximum lifetime is a hard bound: a stream with a positive maximum lifetime that is
  not stopped is cancelled once that time has passed, whatever activity it shows.
\<close>

theorem lifetime_is_absolute:
  assumes "sp_MaxLifetime policy > 0" "\<forall>(b, now, op) \<in> set ops. op \<noteq> OpStop"
    and "\<exists>(b, now, op) \<in> set ops. start + sp_MaxLifetime policy \<le> now"
  shows "sd_cause (deadlineRun (newStreamDeadline policy start) ops) \<noteq> None"
  using assms(1) by (intro run_life [OF _ assms(2,3)]) (simp add: life_inv_def newStreamDeadline_def AfterFunc_def)

theorem lifetime_is_absolute_witness:
  "sd_cause (deadlineRun (newStreamDeadline \<lparr>sp_RequestTimeout = 30, sp_IdleTimeout = 0, sp_MaxLifetime = 100\<rparr> 0)
     [(True, 10, OpMark), (True, 60, OpTouch), (True, 100, OpTouch)]) \<noteq> None"
  by (rule lifetime_is_absolute) simp_all

text \<open>
  \<open>Touch\<close> before the response has started is not a no-op: it moves the running request
  timer to the idle timeout, still with the cause of a request timeout.
\<close>

theorem touch_moves_request_timer:
  assumes "sp_RequestTimeout policy > 0"
  shows "sd_phase (Touch (newStreamDeadline policy start) now) =
    Some \<lparr>tm_at = Some (now + max 0 (sp_IdleTimeout policy)), tm_cause = StreamRequestTimeout\<rparr>"
  using assms by (simp add: Touch_def newStreamDeadline_def AfterFunc_def)

theorem touch_moves_request_timer_witness:
  "sd_phase (Touch (newStreamDeadline \<lparr>sp_RequestTimeout = 30, sp_IdleTimeout = 60, sp_MaxLifetime = 0\<rparr> 0) 5) =
   Some \<lparr>tm_at = Some 65, tm_cause = StreamRequestTimeout\<rparr>"
  using touch_moves_request_timer [of "\<lparr>sp_RequestTimeout = 30, sp_IdleTimeout = 60, sp_MaxLifetime = 0\<rparr>" 0 5] by simp

end
