(* ===== verification/Session.thy ===== *)
theory Session
  imports Registry RateLimit StreamDeadline
begin

text \<open>
  \<open>session.go\<close> and \<open>wsstream.go\<close> of the gateway: the connection to one agent, its stream slots and
  pending streams, and the round trip of a public request through it.

  A round trip is a function of what its environment does.  \<open>wr i\<close> is the result of the \<open>i\<close>-th
  write to the agent; the request body is the list of results of \<open>body.Read\<close>; the \<open>select\<close> loop
  that waits for the response is given the list of events it receives, and \<open>wb i\<close> is the result
  of the \<open>i\<close>-th write to the public client.  A list that ends before the code returns means that
  the code is still waiting, which is the value \<^term>\<open>None\<close>.  Byte counters are unbounded.
\<close>

section \<open>Slots and pending streams\<close>

record agentSession =
  as_tunnel :: Session
  as_done :: bool
  as_streams :: "(nat \<times> nat) option"
  as_limiter :: "rateLimiter option"
  as_pending :: "string \<rightharpoonup> nat"

datatype session_error =
    AgentDisconnected
  | ErrStreamLimitExceeded
  | BuildMessage msg_error
  | DecodeMessage msg_error
  | WriteTunnelRequest "cause option"
  | WriteRequestStart "cause option"
  | WriteRequestBody "cause option"
  | WriteRequestEnd "cause option"
  | WriteWSOpen "cause option"
  | ReadRequestBody "cause option"
  | ErrRequestBodyTooLarge
  | ContextDone cause
  | BodyBeforeStart
  | ResponseChunkTooLarge
  | ResponseWrite "cause option"
  | ErrShortWrite
  | AgentReported string
  | UnexpectedResponse msg_type

definition newAgentSession :: "(rat \<Rightarrow> rat) \<Rightarrow> Session \<Rightarrow> int \<Rightarrow> int \<Rightarrow> int \<Rightarrow> gotime \<Rightarrow> agentSession" where
  "newAgentSession rnd tunnel maxConcurrentStreams rps burst now =
     \<lparr>as_tunnel = tunnel, as_done = False,
      as_streams = (if maxConcurrentStreams > 0 then Some (0, nat maxConcurrentStreams) else None),
      as_limiter = newRateLimiter rnd rps burst now, as_pending = Map.empty\<rparr>"

definition allowRequest :: "(rat \<Rightarrow> rat) \<Rightarrow> agentSession \<Rightarrow> gotime \<Rightarrow> bool \<times> agentSession" where
  "allowRequest rnd s now =
     (let (ok, l) = allow rnd (as_limiter s) now in (ok, s\<lparr>as_limiter := l\<rparr>))"

definition acquireStream :: "agentSession \<Rightarrow> session_error + agentSession" where
  "acquireStream s =
     (if as_done s then Inl AgentDisconnected
      else case as_streams s of
             None \<Rightarrow> Inr s
           | Some (n, cap) \<Rightarrow>
               if n < cap then Inr (s\<lparr>as_streams := Some (Suc n, cap)\<rparr>) else Inl ErrStreamLimitExceeded)"

definition releaseStream :: "agentSession \<Rightarrow> agentSession" where
  "releaseStream s =
     (case as_streams s of
        None \<Rightarrow> s
      | Some (n, cap) \<Rightarrow> if n > 0 then s\<lparr>as_streams := Some (n - 1, cap)\<rparr> else s)"

definition activeStreams :: "agentSession \<Rightarrow> nat" where
  "activeStreams s = (case as_streams s of None \<Rightarrow> 0 | Some (n, cap) \<Rightarrow> n)"

definition streamCapacity :: "agentSession \<Rightarrow> nat" where
  "streamCapacity s = (case as_streams s of None \<Rightarrow> 0 | Some (n, cap) \<Rightarrow> cap)"

definition addPending :: "string \<Rightarrow> nat \<Rightarrow> agentSession \<Rightarrow> agentSession" where
  "addPending streamID ch s = s\<lparr>as_pending := (as_pending s)(streamID \<mapsto> ch)\<rparr>"

definition removePending :: "string \<Rightarrow> agentSession \<Rightarrow> agentSession" where
  "removePending streamID s = s\<lparr>as_pending := (as_pending s)(streamID := None)\<rparr>"

definition closeDone :: "agentSession \<Rightarrow> agentSession" where
  "closeDone s = s\<lparr>as_done := True\<rparr>"

section \<open>Messages to the agent\<close>

datatype sent = SentEnvelope Envelope | SentBody msg_type string bytes

datatype wres = WOk | WErr "cause option"

definition sessionWrite :: "json \<Rightarrow> (nat \<Rightarrow> wres) \<Rightarrow> sent list \<Rightarrow> Envelope \<Rightarrow> wres \<times> sent list" where
  "sessionWrite js wr out env =
     (case WriteEnvelope js env of
        Inl e \<Rightarrow> (WErr None, out)
      | Inr frame \<Rightarrow> (wr (length out), out @ [SentEnvelope env]))"

definition writeBinaryBody ::
  "(nat \<Rightarrow> wres) \<Rightarrow> agentSession \<Rightarrow> sent list \<Rightarrow> msg_type \<Rightarrow> string \<Rightarrow> bytes \<Rightarrow> wres \<times> sent list" where
  "writeBinaryBody wr s out typ streamID body =
     (case WriteBinaryBody typ streamID (ss_TunnelID (as_tunnel s)) body of
        Inl e \<Rightarrow> (WErr None, out)
      | Inr frame \<Rightarrow> (wr (length out), out @ [SentBody typ streamID body]))"

definition cancelStream ::
  "json \<Rightarrow> (nat \<Rightarrow> wres) \<Rightarrow> agentSession \<Rightarrow> sent list \<Rightarrow> string \<Rightarrow> string \<Rightarrow> sent list" where
  "cancelStream js wr s out streamID reason =
     (case NewStream js TypeHTTPStreamCancel streamID (ss_TunnelID (as_tunnel s)) (PStreamCancel \<lparr>sc_Reason = reason\<rparr>) of
        Inl e \<Rightarrow> out
      | Inr env \<Rightarrow> snd (sessionWrite js wr out env))"

text \<open>The part of an error that \<open>errors.Is\<close> compares with the context causes.\<close>

fun errorCause :: "session_error \<Rightarrow> cause option" where
  "errorCause (WriteTunnelRequest c) = c"
| "errorCause (WriteRequestStart c) = c"
| "errorCause (WriteRequestBody c) = c"
| "errorCause (WriteRequestEnd c) = c"
| "errorCause (WriteWSOpen c) = c"
| "errorCause (ReadRequestBody c) = c"
| "errorCause (ContextDone c) = Some c"
| "errorCause (ResponseWrite c) = c"
| "errorCause _ = None"

definition streamCancelReason :: "cause option \<Rightarrow> string" where
  "streamCancelReason c =
     (case c of
        Some StreamRequestTimeout \<Rightarrow> ''gateway timed out waiting for a response''
      | Some StreamIdleTimeout \<Rightarrow> ''gateway stream idle timeout''
      | Some StreamMaxLifetimeExceeded \<Rightarrow> ''gateway stream exceeded its maximum lifetime''
      | Some DeadlineExceeded \<Rightarrow> ''gateway stream timeout''
      | Some Canceled \<Rightarrow> ''public request canceled''
      | _ \<Rightarrow> ''gateway stream canceled'')"

definition streamCancelReasonForError :: "session_error \<Rightarrow> string" where
  "streamCancelReasonForError e =
     (if e = ErrRequestBodyTooLarge then ''public request body too large''
      else if errorCause e = Some DeadlineExceeded \<or> errorCause e = Some Canceled
      then streamCancelReason (errorCause e)
      else ''gateway stream failed'')"

definition isStreamContextDoneCause :: "session_error \<Rightarrow> bool" where
  "isStreamContextDoneCause e \<longleftrightarrow>
     errorCause e \<in> {Some Canceled, Some DeadlineExceeded, Some StreamRequestTimeout,
                     Some StreamIdleTimeout, Some StreamMaxLifetimeExceeded}"

section \<open>Round trips\<close>

datatype event = CtxDone cause | AgentDone | Received Message

text \<open>\<open>ctx.Err()\<close>, where \<open>CtxDone\<close> carries \<open>context.Cause(ctx)\<close>.\<close>

definition ctxErr :: "cause \<Rightarrow> cause" where
  "ctxErr c = (if c = DeadlineExceeded then DeadlineExceeded else Canceled)"

definition roundTrip ::
  "json \<Rightarrow> (nat \<Rightarrow> wres) \<Rightarrow> agentSession \<Rightarrow> nat \<Rightarrow> string \<Rightarrow> Request \<Rightarrow> event option
     \<Rightarrow> ((session_error + Response) \<times> sent list \<times> agentSession) option" where
  "roundTrip js wr s ch streamID req ev =
     (case acquireStream s of
        Inl e \<Rightarrow> Some (Inl e, [], s)
      | Inr s1 \<Rightarrow>
          let s2 = addPending streamID ch s1;
              leave = (\<lambda>r out. Some (r, out, releaseStream (removePending streamID s2)))
          in case NewStream js TypeHTTPRequest streamID (ss_TunnelID (as_tunnel s)) (PRequest req) of
               Inl e \<Rightarrow> leave (Inl (BuildMessage e)) []
             | Inr env \<Rightarrow>
                 (case sessionWrite js wr [] env of
                    (WErr c, out) \<Rightarrow> leave (Inl (WriteTunnelRequest c)) out
                  | (WOk, out) \<Rightarrow>
                      (case ev of
                         None \<Rightarrow> None
                       | Some (CtxDone c) \<Rightarrow>
                           leave (Inl (ContextDone (ctxErr c)))
                             (cancelStream js wr s2 out streamID (streamCancelReason (Some (ctxErr c))))
                       | Some AgentDone \<Rightarrow> leave (Inl AgentDisconnected) out
                       | Some (Received m) \<Rightarrow>
                           let respEnv = msg_Envelope m in
                           if env_Type respEnv = TypeHTTPResponse then
                             leave (case DecodePayload (unResponse js) respEnv of
                                      Inl e \<Rightarrow> Inl (DecodeMessage e) | Inr r \<Rightarrow> Inr r) out
                           else if env_Type respEnv = TypeHTTPStreamError then
                             leave (case DecodePayload (unError js) respEnv of
                                      Inl e \<Rightarrow> Inl (DecodeMessage e) | Inr p \<Rightarrow> Inl (AgentReported (ep_Message p))) out
                           else leave (Inl (UnexpectedResponse (env_Type respEnv))) out)))"

record streamRoundTripResult =
  rr_Status :: int
  rr_RequestBytes :: int
  rr_ResponseBytes :: int

definition defaultMaxBodyBytes :: int where
  "defaultMaxBodyBytes = 2 ^ 20"

definition defaultStreamChunkBytes :: int where
  "defaultStreamChunkBytes = 32768"

datatype read_end = ReadEOF | ReadFailed "cause option"

fun writeBodyLoop ::
  "(nat \<Rightarrow> wres) \<Rightarrow> agentSession \<Rightarrow> string \<Rightarrow> int \<Rightarrow> int \<Rightarrow> sent list \<Rightarrow> (bytes \<times> read_end option) list
     \<Rightarrow> (int \<times> session_error option \<times> sent list) option" where
  "writeBodyLoop wr s streamID maxBodyBytes sofar out [] = None"
| "writeBodyLoop wr s streamID maxBodyBytes sofar out ((chunk, readErr) # reads) =
     (let sofar' = sofar + int (length chunk) in
      if chunk \<noteq> [] \<and> sofar' > maxBodyBytes then Some (sofar', Some ErrRequestBodyTooLarge, out)
      else case (if chunk \<noteq> [] then writeBinaryBody wr s out TypeHTTPRequestBody streamID chunk else (WOk, out)) of
             (WErr c, out') \<Rightarrow> Some (sofar', Some (WriteRequestBody c), out')
           | (WOk, out') \<Rightarrow>
               (case readErr of
                  Some ReadEOF \<Rightarrow> Some (sofar', None, out')
                | Some (ReadFailed c) \<Rightarrow> Some (sofar', Some (ReadRequestBody c), out')
                | None \<Rightarrow> writeBodyLoop wr s streamID maxBodyBytes sofar' out' reads))"

definition writeRequestBody ::
  "(nat \<Rightarrow> wres) \<Rightarrow> agentSession \<Rightarrow> string \<Rightarrow> (bytes \<times> read_end option) list option \<Rightarrow> int \<Rightarrow> sent list
     \<Rightarrow> (int \<times> session_error option \<times> sent list) option" where
  "writeRequestBody wr s streamID body maxBodyBytes out =
     (case body of
        None \<Rightarrow> Some (0, None, out)
      | Some reads \<Rightarrow>
          writeBodyLoop wr s streamID (if maxBodyBytes \<le> 0 then defaultMaxBodyBytes else maxBodyBytes) 0 out reads)"

definition responseBodyChunk :: "json \<Rightarrow> Message \<Rightarrow> int \<Rightarrow> session_error + bytes" where
  "responseBodyChunk js m chunkBytes =
     (case (if msg_BinaryBody m then Inr (msg_Body m)
            else case DecodePayload (unBodyChunk js) (msg_Envelope m) of
                   Inl e \<Rightarrow> Inl (DecodeMessage e) | Inr p \<Rightarrow> Inr (bc_Data p)) of
        Inl e \<Rightarrow> Inl e
      | Inr chunk \<Rightarrow> if int (length chunk) > chunkBytes then Inl ResponseChunkTooLarge else Inr chunk)"

text \<open>What the public client is sent: the header block, or the first \<open>n\<close> bytes of a chunk.\<close>

datatype pub = PubStart ResponseStart | PubBody bytes nat

definition pubWrite :: "(nat \<Rightarrow> nat \<times> cause option option) \<Rightarrow> pub list \<Rightarrow> bytes \<Rightarrow> nat \<times> cause option option \<times> pub list" where
  "pubWrite wb pub chunk = (let (n, e) = wb (length pub) in (n, e, pub @ [PubBody chunk n]))"

definition statusOr502 :: "int \<Rightarrow> int" where
  "statusOr502 st = (if st \<le> 0 then 502 else st)"

definition handleWholeResponse ::
  "json \<Rightarrow> (nat \<Rightarrow> nat \<times> cause option option) \<Rightarrow> Envelope \<Rightarrow> streamRoundTripResult \<Rightarrow> pub list
     \<Rightarrow> streamRoundTripResult \<times> session_error option \<times> pub list" where
  "handleWholeResponse js wb env res pub =
     (case DecodePayload (unResponse js) env of
        Inl e \<Rightarrow> (res, Some (DecodeMessage e), pub)
      | Inr resp \<Rightarrow>
          let st = statusOr502 (resp_Status resp);
              res1 = res\<lparr>rr_Status := st\<rparr>;
              pub1 = pub @ [PubStart \<lparr>rst_Status = st, rst_Header = resp_Header resp\<rparr>]
          in if resp_Body resp = [] then (res1, None, pub1)
             else (case pubWrite wb pub1 (resp_Body resp) of
                     (n, e, pub2) \<Rightarrow>
                       let res2 = res1\<lparr>rr_ResponseBytes := rr_ResponseBytes res1 + int n\<rparr> in
                       case e of
                         Some c \<Rightarrow> (res2, Some (ResponseWrite c), pub2)
                       | None \<Rightarrow> if n \<noteq> length (resp_Body resp) then (res2, Some ErrShortWrite, pub2)
                                 else (res2, None, pub2)))"

fun readStreamResponse ::
  "json \<Rightarrow> (nat \<Rightarrow> wres) \<Rightarrow> (nat \<Rightarrow> nat \<times> cause option option) \<Rightarrow> agentSession \<Rightarrow> string \<Rightarrow> int
     \<Rightarrow> bool \<Rightarrow> streamRoundTripResult \<Rightarrow> sent list \<Rightarrow> pub list \<Rightarrow> event list
     \<Rightarrow> (streamRoundTripResult \<times> session_error option \<times> sent list \<times> pub list) option" where
  "readStreamResponse js wr wb s streamID chunkBytes started res out pub [] = None"
| "readStreamResponse js wr wb s streamID chunkBytes started res out pub (ev # evs) =
     (case ev of
        CtxDone c \<Rightarrow>
          Some (res, Some (ContextDone c), cancelStream js wr s out streamID (streamCancelReason (Some c)), pub)
      | AgentDone \<Rightarrow> Some (res, Some AgentDisconnected, out, pub)
      | Received m \<Rightarrow>
          (case env_Type (msg_Envelope m) of
             TypeHTTPResponseStart \<Rightarrow>
               (case DecodePayload (unResponseStart js) (msg_Envelope m) of
                  Inl e \<Rightarrow> Some (res, Some (DecodeMessage e), out, pub)
                | Inr resp0 \<Rightarrow>
                    let resp = resp0\<lparr>rst_Status := statusOr502 (rst_Status resp0)\<rparr>
                    in readStreamResponse js wr wb s streamID chunkBytes True
                         (res\<lparr>rr_Status := rst_Status resp\<rparr>) out (pub @ [PubStart resp]) evs)
           | TypeHTTPResponseBody \<Rightarrow>
               if \<not> started then Some (res, Some BodyBeforeStart, out, pub)
               else (case responseBodyChunk js m chunkBytes of
                       Inl e \<Rightarrow> Some (res, Some e, out, pub)
                     | Inr chunk \<Rightarrow>
                         (case pubWrite wb pub chunk of
                            (n, e, pub1) \<Rightarrow>
                              let res1 = res\<lparr>rr_ResponseBytes := rr_ResponseBytes res + int n\<rparr> in
                              case e of
                                Some c \<Rightarrow> Some (res1, Some (ResponseWrite c), out, pub1)
                              | None \<Rightarrow>
                                  if n \<noteq> length chunk then Some (res1, Some ErrShortWrite, out, pub1)
                                  else readStreamResponse js wr wb s streamID chunkBytes started res1 out pub1 evs))
           | TypeHTTPResponseEnd \<Rightarrow>
               if \<not> started then
                 Some (res\<lparr>rr_Status := 200\<rparr>, None, out,
                       pub @ [PubStart \<lparr>rst_Status = 200, rst_Header = Map.empty\<rparr>])
               else Some (res, None, out, pub)
           | TypeHTTPResponse \<Rightarrow>
               (case handleWholeResponse js wb (msg_Envelope m) res pub of
                  (res1, e, pub1) \<Rightarrow> Some (res1, e, out, pub1))
           | TypeHTTPStreamError \<Rightarrow>
               (case DecodePayload (unError js) (msg_Envelope m) of
                  Inl e \<Rightarrow> Some (res, Some (DecodeMessage e), out, pub)
                | Inr p \<Rightarrow> Some (res, Some (AgentReported (ep_Message p)), out, pub))
           | t \<Rightarrow> Some (res, Some (UnexpectedResponse t), out, pub)))"

definition streamRoundTrip ::
  "json \<Rightarrow> (nat \<Rightarrow> wres) \<Rightarrow> (nat \<Rightarrow> nat \<times> cause option option) \<Rightarrow> agentSession \<Rightarrow> nat \<Rightarrow> string
     \<Rightarrow> RequestStart \<Rightarrow> (bytes \<times> read_end option) list option \<Rightarrow> int \<Rightarrow> int \<Rightarrow> event list
     \<Rightarrow> (streamRoundTripResult \<times> session_error option \<times> sent list \<times> pub list \<times> agentSession) option" where
  "streamRoundTrip js wr wb s ch streamID req body maxBodyBytes chunkBytes evs =
     (let res0 = \<lparr>rr_Status = 0, rr_RequestBytes = 0, rr_ResponseBytes = 0\<rparr> in
      case acquireStream s of
        Inl e \<Rightarrow> Some (res0, Some e, [], [], s)
      | Inr s1 \<Rightarrow>
          let s2 = addPending streamID ch s1;
              s3 = releaseStream (removePending streamID s2);
              tid = ss_TunnelID (as_tunnel s)
          in case NewStream js TypeHTTPRequestStart streamID tid (PRequestStart req) of
               Inl e \<Rightarrow> Some (res0, Some (BuildMessage e), [], [], s3)
             | Inr start \<Rightarrow>
                 (case sessionWrite js wr [] start of
                    (WErr c, out) \<Rightarrow> Some (res0, Some (WriteRequestStart c), out, [], s3)
                  | (WOk, out) \<Rightarrow>
                      (case writeRequestBody wr s2 streamID body maxBodyBytes out of
                         None \<Rightarrow> None
                       | Some (n, Some e, out1) \<Rightarrow>
                           Some (res0\<lparr>rr_RequestBytes := n\<rparr>, Some e,
                                 cancelStream js wr s2 out1 streamID (streamCancelReasonForError e), [], s3)
                       | Some (n, None, out1) \<Rightarrow>
                           let res1 = res0\<lparr>rr_RequestBytes := n\<rparr> in
                           (case NewStream js TypeHTTPRequestEnd streamID tid PNil of
                              Inl e \<Rightarrow> Some (res1, Some (BuildMessage e), out1, [], s3)
                            | Inr end0 \<Rightarrow>
                                (case sessionWrite js wr out1 end0 of
                                   (WErr c, out2) \<Rightarrow> Some (res1, Some (WriteRequestEnd c), out2, [], s3)
                                 | (WOk, out2) \<Rightarrow>
                                     (case readStreamResponse js wr wb s2 streamID
                                             (if chunkBytes \<le> 0 then defaultStreamChunkBytes else chunkBytes)
                                             False res1 out2 [] evs of
                                        None \<Rightarrow> None
                                      | Some (res2, None, out3, pub) \<Rightarrow> Some (res2, None, out3, pub, s3)
                                      | Some (res2, Some e, out3, pub) \<Rightarrow>
                                          Some (res2, Some e,
                                                (if isStreamContextDoneCause e then out3
                                                 else cancelStream js wr s2 out3 streamID (streamCancelReasonForError e)),
                                                pub, s3)))))))"

section \<open>WebSocket streams\<close>

definition openWSStream ::
  "json \<Rightarrow> (nat \<Rightarrow> wres) \<Rightarrow> agentSession \<Rightarrow> nat \<Rightarrow> string \<Rightarrow> WSOpen \<Rightarrow> event option
     \<Rightarrow> ((session_error + WSAccept) \<times> sent list \<times> agentSession) option" where
  "openWSStream js wr s ch streamID opn ev =
     (case acquireStream s of
        Inl e \<Rightarrow> Some (Inl e, [], s)
      | Inr s1 \<Rightarrow>
          let s2 = addPending streamID ch s1;
              cleanup = releaseStream (removePending streamID s2)
          in case NewStream js TypeWSOpen streamID (ss_TunnelID (as_tunnel s)) (PWSOpen opn) of
               Inl e \<Rightarrow> Some (Inl (BuildMessage e), [], cleanup)
             | Inr env \<Rightarrow>
                 (case sessionWrite js wr [] env of
                    (WErr c, out) \<Rightarrow> Some (Inl (WriteWSOpen c), out, cleanup)
                  | (WOk, out) \<Rightarrow>
                      (case ev of
                         None \<Rightarrow> None
                       | Some (CtxDone c) \<Rightarrow> Some (Inl (ContextDone c), out, cleanup)
                       | Some AgentDone \<Rightarrow> Some (Inl AgentDisconnected, out, cleanup)
                       | Some (Received m) \<Rightarrow>
                           if env_Type (msg_Envelope m) = TypeWSAccept then
                             (case DecodePayload (unWSAccept js) (msg_Envelope m) of
                                Inl e \<Rightarrow> Some (Inl (DecodeMessage e), out, cleanup)
                              | Inr a \<Rightarrow> Some (Inr a, out, s2))
                           else if env_Type (msg_Envelope m) = TypeWSError then
                             (case DecodePayload (unError js) (msg_Envelope m) of
                                Inl e \<Rightarrow> Some (Inl (DecodeMessage e), out, cleanup)
                              | Inr p \<Rightarrow> Some (Inl (AgentReported (ep_Message p)), out, cleanup))
                           else Some (Inl (UnexpectedResponse (env_Type (msg_Envelope m))), out, cleanup))))"

record wsStream =
  wst_streamID :: string
  wst_closed :: bool

definition SendMessage ::
  "(nat \<Rightarrow> wres) \<Rightarrow> agentSession \<Rightarrow> wsStream \<Rightarrow> sent list \<Rightarrow> msg_type \<Rightarrow> bytes \<Rightarrow> wres \<times> sent list" where
  "SendMessage wr s w out typ data = writeBinaryBody wr s out typ (wst_streamID w) data"

definition SendClose ::
  "json \<Rightarrow> (nat \<Rightarrow> wres) \<Rightarrow> agentSession \<Rightarrow> wsStream \<Rightarrow> sent list \<Rightarrow> int \<Rightarrow> string \<Rightarrow> wres \<times> sent list" where
  "SendClose js wr s w out code reason =
     (case NewStream js TypeWSClose (wst_streamID w) (ss_TunnelID (as_tunnel s)) (PWSClose \<lparr>wc_Code = code, wc_Reason = reason\<rparr>) of
        Inl e \<Rightarrow> (WErr None, out)
      | Inr env \<Rightarrow> sessionWrite js wr out env)"

definition SendCancel ::
  "json \<Rightarrow> (nat \<Rightarrow> wres) \<Rightarrow> agentSession \<Rightarrow> wsStream \<Rightarrow> sent list \<Rightarrow> string \<Rightarrow> wres \<times> sent list" where
  "SendCancel js wr s w out reason =
     (case NewStream js TypeWSCancel (wst_streamID w) (ss_TunnelID (as_tunnel s)) (PStreamCancel \<lparr>sc_Reason = reason\<rparr>) of
        Inl e \<Rightarrow> (WErr None, out)
      | Inr env \<Rightarrow> sessionWrite js wr out env)"

definition wsClose :: "agentSession \<Rightarrow> wsStream \<Rightarrow> agentSession \<times> wsStream" where
  "wsClose s w =
     (if wst_closed w then (s, w)
      else (releaseStream (removePending (wst_streamID w) s), w\<lparr>wst_closed := True\<rparr>))"

section \<open>Views of the logs\<close>

definition isCancel :: "sent \<Rightarrow> bool" where
  "isCancel m = (case m of SentEnvelope env \<Rightarrow> env_Type env = TypeHTTPStreamCancel | SentBody t i b \<Rightarrow> False)"

definition cancels :: "sent list \<Rightarrow> nat" where
  "cancels out = length (filter isCancel out)"

definition bodyBytes :: "sent list \<Rightarrow> bytes" where
  "bodyBytes out = concat (map (\<lambda>m. case m of SentBody t i b \<Rightarrow> b | SentEnvelope env \<Rightarrow> []) out)"

definition pubBytes :: "pub list \<Rightarrow> nat" where
  "pubBytes pub = sum_list (map (\<lambda>m. case m of PubBody c n \<Rightarrow> n | PubStart r \<Rightarrow> 0) pub)"

definition readData :: "(bytes \<times> read_end option) list \<Rightarrow> bytes" where
  "readData reads =
     concat (map fst (takeWhile (\<lambda>r. snd r = None) reads @ take 1 (dropWhile (\<lambda>r. snd r = None) reads)))"

definition startFirst :: "pub list \<Rightarrow> bool" where
  "startFirst pub = (case pub of [] \<Rightarrow> True | PubStart r # rest \<Rightarrow> True | PubBody c n # rest \<Rightarrow> False)"

text \<open>
  The response as the agent sends it: the header blocks and the chunks of the body in the messages up to
  the one that ends the response or that is refused.  A response that ends without a header block gets
  the status 200.
\<close>

fun agentResponse :: "json \<Rightarrow> int \<Rightarrow> bool \<Rightarrow> event list \<Rightarrow> (ResponseStart + bytes) list" where
  "agentResponse js chunkBytes started (Received m # evs) =
     (case env_Type (msg_Envelope m) of
        TypeHTTPResponseStart \<Rightarrow>
          (case DecodePayload (unResponseStart js) (msg_Envelope m) of
             Inl e \<Rightarrow> []
           | Inr resp \<Rightarrow> Inl (resp\<lparr>rst_Status := statusOr502 (rst_Status resp)\<rparr>) # agentResponse js chunkBytes True evs)
      | TypeHTTPResponseBody \<Rightarrow>
          (case responseBodyChunk js m chunkBytes of
             Inr chunk \<Rightarrow> if started then Inr chunk # agentResponse js chunkBytes True evs else []
           | Inl e \<Rightarrow> [])
      | TypeHTTPResponseEnd \<Rightarrow> if started then [] else [Inl \<lparr>rst_Status = 200, rst_Header = Map.empty\<rparr>]
      | TypeHTTPResponse \<Rightarrow>
          (case DecodePayload (unResponse js) (msg_Envelope m) of
             Inl e \<Rightarrow> []
           | Inr resp \<Rightarrow> Inl \<lparr>rst_Status = statusOr502 (resp_Status resp), rst_Header = resp_Header resp\<rparr> #
                         (if resp_Body resp = [] then [] else [Inr (resp_Body resp)]))
      | _ \<Rightarrow> [])"
| "agentResponse js chunkBytes started evs = []"

definition pubContent :: "pub \<Rightarrow> ResponseStart + bytes" where
  "pubContent p = (case p of PubStart resp \<Rightarrow> Inl resp | PubBody chunk n \<Rightarrow> Inr chunk)"

definition written :: "pub \<Rightarrow> bool" where
  "written p = (case p of PubStart resp \<Rightarrow> True | PubBody chunk n \<Rightarrow> n = length chunk)"

definition encodes :: "json \<Rightarrow> bool" where
  "encodes js \<longleftrightarrow>
     (\<forall>p. \<exists>raw. marshalPayload js p = Inr raw) \<and>
     (\<forall>t sid tid p env. NewStream js t sid tid p = Inr env \<longrightarrow> marshalEnvelope js env \<noteq> None)"

definition slotsOk :: "agentSession \<Rightarrow> bool" where
  "slotsOk s = (case as_streams s of None \<Rightarrow> True | Some (n, cap) \<Rightarrow> n \<le> cap)"

text \<open>How many stream cancellations a round trip sends that obtained a slot and ended with \<open>e\<close>.\<close>

definition expectedCancels :: "session_error option \<Rightarrow> nat" where
  "expectedCancels e =
     (case e of
        None \<Rightarrow> 0
      | Some (BuildMessage m) \<Rightarrow> 0
      | Some (WriteRequestStart c) \<Rightarrow> 0
      | Some (WriteRequestEnd c) \<Rightarrow> 0
      | Some (ContextDone c) \<Rightarrow> (if c = OtherCause then 2 else 1)
      | Some (ResponseWrite c) \<Rightarrow> (if isStreamContextDoneCause (ResponseWrite c) then 0 else 1)
      | Some f \<Rightarrow> 1)"

text \<open>A concrete session, coding and request for the examples below.\<close>

definition demoAgent :: agentSession where
  "demoAgent = \<lparr>as_tunnel = demoSession, as_done = False, as_streams = None, as_limiter = None, as_pending = Map.empty\<rparr>"

definition demoJSON :: json where
  "demoJSON =
     \<lparr>marshal = (\<lambda>p. Some ''{}''), unAuthRequest = (\<lambda>b. None), unAuthOK = (\<lambda>b. None), unError = (\<lambda>b. None),
      unTunnelRegister = (\<lambda>b. None), unTunnelRegistered = (\<lambda>b. None), unStreamCancel = (\<lambda>b. None),
      unRequest = (\<lambda>b. None), unRequestStart = (\<lambda>b. None), unResponse = (\<lambda>b. None),
      unResponseStart = (\<lambda>b. Some \<lparr>rst_Status = 200, rst_Header = Map.empty\<rparr>), unBodyChunk = (\<lambda>b. None),
      unWSOpen = (\<lambda>b. None), unWSAccept = (\<lambda>b. None), unWSClose = (\<lambda>b. None),
      marshalEnvelope = (\<lambda>env. Some ''{}''), unEnvelope = (\<lambda>b. None)\<rparr>"

definition demoStart :: RequestStart where
  "demoStart = \<lparr>rs_Method = ''GET'', rs_Path = ''/'', rs_Query = [], rs_Header = Map.empty, rs_ContentLength = 0\<rparr>"

definition demoMessage :: "msg_type \<Rightarrow> Message" where
  "demoMessage t =
     \<lparr>msg_Envelope = \<lparr>env_Type = t, env_StreamID = ''str_1'', env_TunnelID = ''tun_1'', env_Payload = ''{}''\<rparr>,
      msg_Body = ''hi'', msg_BinaryBody = True\<rparr>"

definition demoEvents :: "event list" where
  "demoEvents =
     [Received (demoMessage TypeHTTPResponseStart), Received (demoMessage TypeHTTPResponseBody),
      Received (demoMessage TypeHTTPResponseEnd)]"

section \<open>Lemmas\<close>

lemma restored:
  assumes "acquireStream s = Inr s1" "as_pending s streamID = None"
  shows "releaseStream (removePending streamID (addPending streamID ch s1)) = s"
  using assms
  by (auto simp: acquireStream_def releaseStream_def removePending_def addPending_def fun_upd_idem
      split: if_splits option.splits prod.splits)

lemma NewStream_encodes:
  assumes "encodes js" "t \<noteq> OtherType []"
  obtains env where "NewStream js t sid tid p = Inr env" "env_Type env = t" "marshalEnvelope js env \<noteq> None"
proof -
  from assms(1) have "\<exists>raw. marshalPayload js p = Inr raw" by (simp add: encodes_def)
  then obtain raw where "marshalPayload js p = Inr raw" ..
  then have "NewStream js t sid tid p = Inr \<lparr>env_Type = t, env_StreamID = sid, env_TunnelID = tid, env_Payload = raw\<rparr>"
    using assms by (simp add: NewStream_def)
  then show thesis using that assms by (force simp: encodes_def)
qed

lemma NewStream_Inr_type: "NewStream js t sid tid p = Inr env \<Longrightarrow> env_Type env = t"
  by (auto simp: NewStream_def split: if_splits sum.splits)

lemma cancels_simps [simp]:
  "cancels [] = 0" "cancels (a @ b) = cancels a + cancels b"
  "cancels [m] = (if isCancel m then 1 else 0)"
  by (simp_all add: cancels_def)

lemma cancels_cancelStream:
  assumes "encodes js"
  shows "cancels (cancelStream js wr s out sid reason) = Suc (cancels out)"
proof -
  obtain env where "NewStream js TypeHTTPStreamCancel sid (ss_TunnelID (as_tunnel s))
      (PStreamCancel \<lparr>sc_Reason = reason\<rparr>) = Inr env"
    "env_Type env = TypeHTTPStreamCancel" "marshalEnvelope js env \<noteq> None"
    using NewStream_encodes [OF assms] by blast
  then show ?thesis
    by (auto simp: cancelStream_def sessionWrite_def WriteEnvelope_def isCancel_def)
qed

lemma cancels_sessionWrite:
  "env_Type env \<noteq> TypeHTTPStreamCancel \<Longrightarrow> cancels (snd (sessionWrite js wr out env)) = cancels out"
  by (auto simp: sessionWrite_def isCancel_def split: sum.splits)

lemma cancels_writeBinaryBody [simp]: "cancels (snd (writeBinaryBody wr s out t sid b)) = cancels out"
  by (auto simp: writeBinaryBody_def isCancel_def split: sum.splits)

lemma readData_simps [simp]:
  "readData [] = []" "readData ((d, None) # r) = d @ readData r" "readData ((d, Some e) # r) = d"
  by (simp_all add: readData_def)

lemma writeBinaryBody_snd:
  "writeBinaryBody wr s out t sid b = (r, out') \<Longrightarrow>
     (r = WOk \<longrightarrow> out' = out @ [SentBody t sid b]) \<and> (out' = out \<or> out' = out @ [SentBody t sid b])"
  by (auto simp: writeBinaryBody_def split: sum.splits)

lemma writeBodyLoop_shape:
  "writeBodyLoop wr s sid mx n out reads = Some (k, e, out') \<Longrightarrow>
     \<exists>cs rest. out' = out @ map (SentBody TypeHTTPRequestBody sid) cs \<and> readData reads = concat cs @ rest \<and>
       (n \<le> mx \<longrightarrow> n + int (length (concat cs)) \<le> mx) \<and>
       (e = None \<longrightarrow> rest = [] \<and> k = n + int (length (readData reads)))"
proof (induction reads arbitrary: n out)
  case (Cons rd reads)
  obtain chunk readErr where rd: "rd = (chunk, readErr)" by (cases rd)
  define m where "m = n + int (length chunk)"
  obtain r o' where w: "(if chunk \<noteq> [] then writeBinaryBody wr s out TypeHTTPRequestBody sid chunk else (WOk, out)) = (r, o')"
    by fastforce
  define cs where "cs = (if o' = out then [] else [chunk])"
  have o': "o' = out @ map (SentBody TypeHTTPRequestBody sid) cs" "r = WOk \<longrightarrow> concat cs = chunk"
    "concat cs = chunk \<or> concat cs = []"
    using w writeBinaryBody_snd [of wr s out TypeHTTPRequestBody sid chunk r o']
    by (auto simp: cs_def split: if_splits)
  have unf: "writeBodyLoop wr s sid mx n out (rd # reads) =
      (if chunk \<noteq> [] \<and> m > mx then Some (m, Some ErrRequestBodyTooLarge, out)
       else case r of WErr c \<Rightarrow> Some (m, Some (WriteRequestBody c), o')
            | WOk \<Rightarrow> (case readErr of Some ReadEOF \<Rightarrow> Some (m, None, o')
                      | Some (ReadFailed c) \<Rightarrow> Some (m, Some (ReadRequestBody c), o')
                      | None \<Rightarrow> writeBodyLoop wr s sid mx m o' reads))"
    unfolding rd writeBodyLoop.simps(2) Let_def m_def [symmetric] w by simp
  have data: "\<exists>tl. readData (rd # reads) = chunk @ tl" by (cases readErr) (simp_all add: rd)
  show ?case
  proof (cases "\<not> (chunk \<noteq> [] \<and> m > mx) \<and> r = WOk \<and> readErr = None")
    case True
    with Cons.prems unf have "writeBodyLoop wr s sid mx m o' reads = Some (k, e, out')" by simp
    from Cons.IH [OF this] obtain cs' rest where
      "out' = o' @ map (SentBody TypeHTTPRequestBody sid) cs'" "readData reads = concat cs' @ rest"
      "m \<le> mx \<longrightarrow> m + int (length (concat cs')) \<le> mx"
      "e = None \<longrightarrow> rest = [] \<and> k = m + int (length (readData reads))" by blast
    moreover have "length (concat cs) = length chunk" "readData (rd # reads) = concat cs @ readData reads"
      using True o' rd by simp_all
    ultimately show ?thesis using True o'(1)
      by (intro exI [of _ "cs @ cs'"] exI [of _ rest]) (auto simp: m_def)
  next
    case False
    show ?thesis
    proof (cases "chunk \<noteq> [] \<and> m > mx")
      case True
      then show ?thesis using Cons.prems unf
        by (intro exI [of _ "[]"] exI [of _ "readData (rd # reads)"]) auto
    next
      case small: False
      then have "out' = o'" "e = None \<longrightarrow> r = WOk \<and> readErr = Some ReadEOF \<and> k = m"
        using Cons.prems unf False by (auto split: wres.splits option.splits read_end.splits)
      moreover from data o'(3) obtain rest where "readData (rd # reads) = concat cs @ rest"
        "r = WOk \<and> readErr = Some ReadEOF \<longrightarrow> rest = [] \<and> readData (rd # reads) = chunk"
        using o'(2) rd by (cases "r = WOk \<and> readErr = Some ReadEOF") (auto simp del: concat_eq_Nil_conv)
      moreover have "n + int (length (concat cs)) \<le> mx" if "n \<le> mx"
      proof -
        have "int (length (concat cs)) \<le> int (length chunk)"
          using o'(3) by (elim disjE) (simp_all del: concat_eq_Nil_conv)
        moreover have "n + int (length chunk) \<le> mx"
          using small that by (cases "chunk = []") (simp_all add: m_def)
        ultimately show ?thesis by linarith
      qed
      ultimately show ?thesis using o'(1) by (intro exI [of _ cs] exI [of _ rest]) (auto simp: m_def)
    qed
  qed
qed simp

lemma writeRequestBody_shape:
  assumes "writeRequestBody wr s sid body mx out = Some (k, e, out')"
  shows "\<exists>cs. out' = out @ map (SentBody TypeHTTPRequestBody sid) cs"
  using assms writeBodyLoop_shape
  by (fastforce simp: writeRequestBody_def split: option.splits intro: exI [of _ "[]"])

lemma cancels_map_SentBody [simp]: "cancels (map (SentBody t sid) cs) = 0"
  by (induction cs) (simp_all add: cancels_def isCancel_def)

text \<open>Errors of the request phase cannot come from the response phase.\<close>

definition requestPhase :: "session_error \<Rightarrow> bool" where
  "requestPhase e =
     (case e of BuildMessage m \<Rightarrow> True | WriteRequestStart c \<Rightarrow> True | WriteRequestEnd c \<Rightarrow> True
      | WriteRequestBody c \<Rightarrow> True | ReadRequestBody c \<Rightarrow> True | ErrRequestBodyTooLarge \<Rightarrow> True
      | WriteTunnelRequest c \<Rightarrow> True | WriteWSOpen c \<Rightarrow> True | _ \<Rightarrow> False)"

lemma handleWholeResponse_log:
  assumes "handleWholeResponse js wb env res pub = (res', e, pub')"
    and "rr_ResponseBytes res = int (pubBytes pub)" "startFirst pub"
  shows "rr_ResponseBytes res' = int (pubBytes pub') \<and> startFirst pub' \<and>
    (\<forall>x. e = Some x \<longrightarrow> \<not> requestPhase x \<and> (\<forall>c. x \<noteq> ContextDone c)) \<and>
    rr_RequestBytes res' = rr_RequestBytes res \<and> (e = None \<longrightarrow> rr_Status res' > 0)"
  using assms
  by (cases pub; cases "hd pub")
     (auto simp: handleWholeResponse_def pubWrite_def Let_def pubBytes_def startFirst_def requestPhase_def
        statusOr502_def split: sum.splits if_splits option.splits prod.splits list.splits pub.splits)

lemma cancels_bodies [simp]: "cancels (map (SentBody t sid) cs) = 0"
  by (induction cs) (simp_all add: cancels_def isCancel_def)

lemma bodyBytes_simps [simp]:
  "bodyBytes [] = []" "bodyBytes (a @ b) = bodyBytes a @ bodyBytes b" "bodyBytes [SentEnvelope env] = []"
  "bodyBytes (map (SentBody t sid) cs) = concat cs"
  by (simp_all add: bodyBytes_def comp_def)

lemma cancels_writeRequestBody:
  "writeRequestBody wr s sid body mx out = Some (k, e, out') \<Longrightarrow> cancels out' = cancels out"
  by (auto simp: writeRequestBody_def split: option.splits dest: writeBodyLoop_shape)

lemma writeRequestBody_errors:
  assumes "writeRequestBody wr s sid body mx out = Some (k, Some e, out')"
  shows "e = ErrRequestBodyTooLarge \<or> (\<exists>c. e = WriteRequestBody c) \<or> (\<exists>c. e = ReadRequestBody c)"
proof -
  have "writeBodyLoop wr s sid m n out reads = Some (k, Some e, out') \<Longrightarrow>
      e = ErrRequestBodyTooLarge \<or> (\<exists>c. e = WriteRequestBody c) \<or> (\<exists>c. e = ReadRequestBody c)" for m n reads
  proof (induction reads arbitrary: n out)
    case (Cons rd reads)
    obtain chunk readErr where "rd = (chunk, readErr)" by (cases rd)
    with Cons show ?case
      by (auto simp: Let_def split: if_splits wres.splits prod.splits option.splits read_end.splits)
  qed simp
  with assms show ?thesis by (auto simp: writeRequestBody_def split: option.splits)
qed

text \<open>The response side: what reaches the public client, and what is cancelled.\<close>

lemma pubBytes_simps [simp]:
  "pubBytes [] = 0" "pubBytes (a @ b) = pubBytes a + pubBytes b"
  "pubBytes (PubStart r # a) = pubBytes a" "pubBytes (PubBody c n # a) = n + pubBytes a"
  by (simp_all add: pubBytes_def)

lemma startFirst_append [simp]:
  "startFirst (a @ b) = (if a = [] then startFirst b else startFirst a)" 
  "startFirst (PubStart r # a)" "startFirst []"
  by (cases a; simp add: startFirst_def split: pub.splits)+

lemma handleWholeResponse_pub:
  assumes "handleWholeResponse js wb env res pub = (res', e, pub')" "startFirst pub"
  shows "startFirst pub' \<and> rr_ResponseBytes res' - rr_ResponseBytes res = int (pubBytes pub') - int (pubBytes pub)
    \<and> (e = None \<longrightarrow> pub' \<noteq> [])"
  using assms
  by (auto simp: handleWholeResponse_def pubWrite_def Let_def split: sum.splits if_splits prod.splits option.splits)

lemma readStreamResponse_pub:
  "readStreamResponse js wr wb s sid ck started res out pub evs = Some (res', e, out', pub') \<Longrightarrow>
   startFirst pub \<Longrightarrow> started = (pub \<noteq> []) \<Longrightarrow>
   startFirst pub' \<and> rr_ResponseBytes res' - rr_ResponseBytes res = int (pubBytes pub') - int (pubBytes pub)
     \<and> (e = None \<longrightarrow> pub' \<noteq> [])"
proof (induction evs arbitrary: started res pub)
  case (Cons ev evs)
  show ?case
  proof (cases ev)
    case (Received m)
    note prems = Cons.prems [unfolded readStreamResponse.simps(2) Received event.case]
    show ?thesis
    proof (cases "env_Type (msg_Envelope m)")
      case TypeHTTPResponseStart
      show ?thesis
      proof (cases "DecodePayload (unResponseStart js) (msg_Envelope m)")
        case (Inr resp)
        then show ?thesis
          using prems TypeHTTPResponseStart
            Cons.IH [of True "res\<lparr>rr_Status := statusOr502 (rst_Status resp)\<rparr>"
              "pub @ [PubStart (resp\<lparr>rst_Status := statusOr502 (rst_Status resp)\<rparr>)]"]
          by (simp add: Let_def)
      qed (use prems TypeHTTPResponseStart in auto)
    next
      case TypeHTTPResponseBody
      show ?thesis
      proof (cases "started \<and> (\<exists>chunk. responseBodyChunk js m ck = Inr chunk \<and> wb (length pub) = (length chunk, None))")
        case True
        then obtain chunk where "responseBodyChunk js m ck = Inr chunk" "wb (length pub) = (length chunk, None)" by blast
        then show ?thesis
          using True prems TypeHTTPResponseBody
            Cons.IH [of True "res\<lparr>rr_ResponseBytes := rr_ResponseBytes res + int (length chunk)\<rparr>"
              "pub @ [PubBody chunk (length chunk)]"]
          by (simp add: Let_def pubWrite_def)
      next
        case False
        then show ?thesis using prems TypeHTTPResponseBody
          by (auto simp: Let_def pubWrite_def split: sum.splits if_splits prod.splits option.splits)
      qed
    qed (use prems in \<open>auto dest: handleWholeResponse_pub split: if_splits sum.splits prod.splits\<close>)
  qed (use Cons.prems in auto)
qed simp

lemma handleWholeResponse_content:
  assumes "handleWholeResponse js wb (msg_Envelope m) res pub = (res', e, pub')" "env_Type (msg_Envelope m) = TypeHTTPResponse"
  shows "\<exists>new rest. pub' = pub @ new \<and> agentResponse js ck started (Received m # evs) = map pubContent new @ rest \<and>
    list_all written (butlast new) \<and> (e = None \<longrightarrow> rest = [] \<and> list_all written new)"
  using assms
  by (auto simp: handleWholeResponse_def pubWrite_def pubContent_def written_def Let_def
      split: sum.splits if_splits prod.splits option.splits)

text \<open>What is written to the public client is what the agent has sent, in order; only the last write can be partial.\<close>

lemma readStreamResponse_content:
  "readStreamResponse js wr wb s sid ck started res out pub evs = Some (res', e, out', pub') \<Longrightarrow>
   \<exists>new rest. pub' = pub @ new \<and> agentResponse js ck started evs = map pubContent new @ rest \<and>
     list_all written (butlast new) \<and> (e = None \<longrightarrow> rest = [] \<and> list_all written new)"
proof (induction evs arbitrary: started res pub)
  case (Cons ev evs)
  show ?case
  proof (cases ev)
    case (Received m)
    note prems = Cons.prems [unfolded readStreamResponse.simps(2) Received event.case]
    have extend: ?thesis
      if "pub' = pub @ x # new \<and> agentResponse js ck True evs = map pubContent new @ rest \<and>
            list_all written (butlast new) \<and> (e = None \<longrightarrow> rest = [] \<and> list_all written new)"
        "agentResponse js ck started (ev # evs) = pubContent x # agentResponse js ck True evs" "written x" for x new rest
      using that by (intro exI [of _ "x # new"] exI [of _ rest]) auto
    show ?thesis
    proof (cases "env_Type (msg_Envelope m)")
      case TypeHTTPResponseStart
      show ?thesis
      proof (cases "DecodePayload (unResponseStart js) (msg_Envelope m)")
        case (Inr resp)
        define x where "x = PubStart (resp\<lparr>rst_Status := statusOr502 (rst_Status resp)\<rparr>)"
        have "\<exists>new rest. pub' = (pub @ [x]) @ new \<and> agentResponse js ck True evs = map pubContent new @ rest \<and>
            list_all written (butlast new) \<and> (e = None \<longrightarrow> rest = [] \<and> list_all written new)"
          by (rule Cons.IH) (use prems TypeHTTPResponseStart Inr in \<open>simp add: Let_def x_def\<close>)
        moreover have "agentResponse js ck started (ev # evs) = pubContent x # agentResponse js ck True evs" "written x"
          using TypeHTTPResponseStart Inr Received by (simp_all add: x_def pubContent_def written_def)
        ultimately show ?thesis using extend [of x] by auto
      qed (use prems TypeHTTPResponseStart in auto)
    next
      case TypeHTTPResponseBody
      show ?thesis
      proof (cases "started \<and> (\<exists>chunk. responseBodyChunk js m ck = Inr chunk \<and> wb (length pub) = (length chunk, None))")
        case True
        then obtain chunk where c: "responseBodyChunk js m ck = Inr chunk" "wb (length pub) = (length chunk, None)" by blast
        define x where "x = PubBody chunk (length chunk)"
        have "\<exists>new rest. pub' = (pub @ [x]) @ new \<and> agentResponse js ck True evs = map pubContent new @ rest \<and>
            list_all written (butlast new) \<and> (e = None \<longrightarrow> rest = [] \<and> list_all written new)"
          by (rule Cons.IH) (use prems True TypeHTTPResponseBody c in \<open>simp add: Let_def pubWrite_def x_def\<close>)
        moreover have "agentResponse js ck started (ev # evs) = pubContent x # agentResponse js ck True evs" "written x"
          using True TypeHTTPResponseBody c Received by (simp_all add: x_def pubContent_def written_def)
        ultimately show ?thesis using extend [of x] by auto
      next
        case False
        then show ?thesis using prems TypeHTTPResponseBody Received
          by (auto simp: Let_def pubWrite_def pubContent_def split: sum.splits if_splits prod.splits option.splits)
      qed
    next
      case TypeHTTPResponse
      then show ?thesis using prems handleWholeResponse_content [of js wb m] Received by (auto split: prod.splits)
    next
      case TypeHTTPResponseEnd
      then show ?thesis using prems Received by (auto simp: pubContent_def written_def split: if_splits)
    qed (use prems Received in \<open>auto split: sum.splits\<close>)
  qed (use Cons.prems in auto)
qed simp

lemma readStreamResponse_relays:
  assumes "readStreamResponse js wr wb s sid ck False res out [] evs = Some (res', e, out', pub)"
  shows "startFirst pub \<and> rr_ResponseBytes res' = rr_ResponseBytes res + int (pubBytes pub) \<and> list_all written (butlast pub) \<and>
    (\<exists>rest. agentResponse js ck False evs = map pubContent pub @ rest \<and> (e = None \<longrightarrow> pub \<noteq> [] \<and> rest = [] \<and> list_all written pub))"
  using readStreamResponse_pub [OF assms] readStreamResponse_content [OF assms] by (auto simp: startFirst_def pubBytes_def)

lemma handleWholeResponse_errors:
  "handleWholeResponse js wb env res pub = (res', Some e, pub') \<Longrightarrow>
     (\<exists>x. e = DecodeMessage x) \<or> (\<exists>c. e = ResponseWrite c) \<or> e = ErrShortWrite"
  by (auto simp: handleWholeResponse_def pubWrite_def Let_def split: sum.splits if_splits prod.splits option.splits)

lemma readStreamResponse_cancels:
  assumes "encodes js"
  shows "readStreamResponse js wr wb s sid ck started res out pub evs = Some (res', e, out', pub') \<Longrightarrow>
    cancels out' = cancels out + (case e of Some (ContextDone c) \<Rightarrow> 1 | _ \<Rightarrow> 0) \<and>
    (case e of Some (BuildMessage x) \<Rightarrow> False | Some (WriteRequestStart x) \<Rightarrow> False
     | Some (WriteRequestEnd x) \<Rightarrow> False | Some (WriteTunnelRequest x) \<Rightarrow> False | Some (WriteRequestBody x) \<Rightarrow> False
     | Some (WriteWSOpen x) \<Rightarrow> False | Some (ReadRequestBody x) \<Rightarrow> False | _ \<Rightarrow> True)"
proof (induction evs arbitrary: started res pub)
  case (Cons ev evs)
  show ?case
  proof (cases ev)
    case (Received m)
    note prems = Cons.prems [unfolded readStreamResponse.simps(2) Received event.case]
    show ?thesis
    proof (cases "env_Type (msg_Envelope m)")
      case TypeHTTPResponseStart
      then show ?thesis using prems by (auto simp: Let_def split: sum.splits dest!: Cons.IH)
    next
      case TypeHTTPResponseBody
      show ?thesis
      proof (cases "responseBodyChunk js m ck")
        case (Inl x)
        then show ?thesis using prems TypeHTTPResponseBody
          by (auto simp: responseBodyChunk_def split: if_splits sum.splits)
      next
        case (Inr chunk)
        obtain n err where w: "wb (length pub) = (n, err)" by (cases "wb (length pub)")
        show ?thesis
          using prems TypeHTTPResponseBody Inr w
          by (cases err) (auto simp: Let_def pubWrite_def split: if_splits dest!: Cons.IH)
      qed
    next
      case TypeHTTPResponse
      obtain r x p where h: "handleWholeResponse js wb (msg_Envelope m) res pub = (r, x, p)"
        by (cases "handleWholeResponse js wb (msg_Envelope m) res pub")
      show ?thesis
      proof (cases x)
        case None
        then show ?thesis using prems TypeHTTPResponse h by auto
      next
        case (Some er)
        with h have "handleWholeResponse js wb (msg_Envelope m) res pub = (r, Some er, p)" by simp
        from handleWholeResponse_errors [OF this] show ?thesis
          using prems TypeHTTPResponse h Some by (elim disjE exE) auto
      qed
    qed (use prems in \<open>auto split: if_splits sum.splits\<close>)
  next
    case (CtxDone c)
    then show ?thesis using Cons.prems cancels_cancelStream [OF assms] by auto
  qed (use Cons.prems in auto)
qed simp

lemma streamRoundTrip_Some:
  assumes "streamRoundTrip js wr wb s ch sid req body mx ck evs = Some (res, e, out, pub, s')"
  shows "s' = s \<and> acquireStream s = Inl (the e) \<and> out = [] \<and> pub = [] \<or>
    (\<exists>s1. acquireStream s = Inr s1 \<and> s' = releaseStream (removePending sid (addPending sid ch s1)))"
  using assms
  by (auto simp: streamRoundTrip_def Let_def split: sum.splits prod.splits wres.splits option.splits)

lemma roundTrip_Some:
  assumes "roundTrip js wr s ch sid req ev = Some (r, out, s')"
  shows "s' = s \<or> (\<exists>s1. acquireStream s = Inr s1 \<and> s' = releaseStream (removePending sid (addPending sid ch s1)))"
  using assms
  by (auto simp: roundTrip_def Let_def split: sum.splits prod.splits wres.splits option.splits event.splits if_splits)

lemma openWSStream_Some:
  assumes "openWSStream js wr s ch sid opn ev = Some (r, out, s')"
  shows "s' = s \<and> isl r \<or> (\<exists>s1. acquireStream s = Inr s1 \<and>
    s' = (if isl r then releaseStream (removePending sid (addPending sid ch s1)) else addPending sid ch s1))"
  using assms
  by (auto simp: openWSStream_def Let_def split: sum.splits prod.splits wres.splits option.splits event.splits if_splits)

lemma streamRoundTrip_cancel_cases:
  assumes enc: "encodes js" and acq: "acquireStream s = Inr s1"
    and rt: "streamRoundTrip js wr wb s ch sid req body mx ck evs = Some (res, e, out, pub, s')"
  shows "cancels out = expectedCancels e"
proof -
  let ?s2 = "addPending sid ch s1" and ?tid = "ss_TunnelID (as_tunnel s)"
  obtain start where st: "NewStream js TypeHTTPRequestStart sid ?tid (PRequestStart req) = Inr start"
    "env_Type start = TypeHTTPRequestStart" "marshalEnvelope js start \<noteq> None"
    using NewStream_encodes [OF enc] by blast
  obtain end0 where en: "NewStream js TypeHTTPRequestEnd sid ?tid PNil = Inr end0"
    "env_Type end0 = TypeHTTPRequestEnd" "marshalEnvelope js end0 \<noteq> None"
    using NewStream_encodes [OF enc] by blast
  obtain r1 o1 where w1: "sessionWrite js wr [] start = (r1, o1)" by fastforce
  have c1: "cancels o1 = 0" using cancels_sessionWrite [of start js wr "[]"] w1 st by simp
  show ?thesis
  proof (cases r1)
    case (WErr c)
    then show ?thesis using rt acq st w1 c1
      by (auto simp: streamRoundTrip_def Let_def expectedCancels_def)
  next
    case WOk
    from rt acq st w1 WOk obtain n be o2 where b: "writeRequestBody wr ?s2 sid body mx o1 = Some (n, be, o2)"
      by (auto simp: streamRoundTrip_def Let_def split: option.splits)
    have c2: "cancels o2 = 0" using cancels_writeRequestBody [OF b] c1 by simp
    show ?thesis
    proof (cases be)
      case (Some x)
      then show ?thesis
        using rt acq st w1 WOk b c2 writeRequestBody_errors [OF b [unfolded Some]]
        by (auto simp: streamRoundTrip_def Let_def expectedCancels_def cancels_cancelStream [OF enc])
    next
      case None
      obtain r3 o3 where w3: "sessionWrite js wr o2 end0 = (r3, o3)" by fastforce
      have c3: "cancels o3 = 0" using cancels_sessionWrite [of end0 js wr o2] w3 en c2 by simp
      show ?thesis
      proof (cases r3)
        case (WErr c)
        then show ?thesis using rt acq st en w1 w3 \<open>r1 = WOk\<close> b None c3
          by (auto simp: streamRoundTrip_def Let_def expectedCancels_def)
      next
        case r3: WOk
        from rt acq st en w1 w3 WOk r3 b None obtain o4 where
          rd: "readStreamResponse js wr wb ?s2 sid (if ck \<le> 0 then defaultStreamChunkBytes else ck) False
             \<lparr>rr_Status = 0, rr_RequestBytes = n, rr_ResponseBytes = 0\<rparr> o3 [] evs = Some (res, e, o4, pub)"
          and o: "out = (case e of None \<Rightarrow> o4 | Some x \<Rightarrow>
                     if isStreamContextDoneCause x then o4
                     else cancelStream js wr ?s2 o4 sid (streamCancelReasonForError x))"
          by (auto simp: streamRoundTrip_def Let_def split: option.splits)
        note readStreamResponse_cancels [OF enc rd]
        then show ?thesis using o c3
          by (auto simp: expectedCancels_def cancels_cancelStream [OF enc] isStreamContextDoneCause_def
              split: option.splits session_error.splits intro: cause.exhaust)
      qed
    qed
  qed
qed

text \<open>Request bodies over a connection that accepts every write.\<close>

lemma writeBodyLoop_total:
  assumes ok: "\<And>i. wr i = WOk" and sid: "sid \<noteq> []" "length sid \<le> 65535" "length (ss_TunnelID (as_tunnel s)) \<le> 65535"
    and eof: "\<exists>d. (d, Some ReadEOF) \<in> set reads" "\<forall>d c. (d, Some (ReadFailed c)) \<notin> set reads"
    and n: "n \<le> mx"
  shows "\<exists>k e out'. writeBodyLoop wr s sid mx n out reads = Some (k, e, out') \<and>
     (if n + int (length (readData reads)) \<le> mx then e = None else e = Some ErrRequestBodyTooLarge)"
  using eof n
proof (induction reads arbitrary: n out)
  case (Cons rd reads)
  obtain chunk readErr where rd: "rd = (chunk, readErr)" by (cases rd)
  define m where "m = n + int (length chunk)"
  have w: "writeBinaryBody wr s out TypeHTTPRequestBody sid chunk = (WOk, out @ [SentBody TypeHTTPRequestBody sid chunk])"
    using sid ok by (simp add: writeBinaryBody_def WriteBinaryBody_def NewBinaryBodyFrame_def binaryBodyFrameType_def)
  show ?case
  proof (cases readErr)
    case None
    show ?thesis
    proof (cases "m \<le> mx")
      case True
      have "\<exists>d. (d, Some ReadEOF) \<in> set reads" "\<forall>d c. (d, Some (ReadFailed c)) \<notin> set reads"
        using Cons.prems(1,2) rd None by auto
      from Cons.IH [OF this True] True show ?thesis
        by (cases "chunk = []") (simp_all add: rd None Let_def w m_def add.assoc)
    next
      case False
      then have "chunk \<noteq> []" using Cons.prems(3) by (auto simp: m_def)
      then show ?thesis using False by (simp add: rd None Let_def m_def)
    qed
  next
    case (Some x)
    then have "x = ReadEOF" using Cons.prems(2) rd by (cases x) auto
    then show ?thesis using Cons.prems(3)
      by (cases "chunk = []") (simp_all add: rd Some Let_def w)
  qed
qed simp

section \<open>Properties\<close>

text \<open>
  C20: a request body is forwarded completely or refused.  Over a connection that accepts every
  write, a body that the public client ends within the limit reaches the agent byte for byte in
  frames of the stream, and the round trip goes on; a longer one is refused with
  \<open>ErrRequestBodyTooLarge\<close>, and what was forwarded before that stays within the limit.
\<close>

theorem request_body_exact:
  assumes "\<And>i. wr i = WOk" "streamID \<noteq> []" "length streamID \<le> 65535" "length (ss_TunnelID (as_tunnel s)) \<le> 65535"
    and "\<exists>d. (d, Some ReadEOF) \<in> set reads" "\<forall>d c. (d, Some (ReadFailed c)) \<notin> set reads" "0 < maxBodyBytes"
  shows "\<exists>n e cs. writeRequestBody wr s streamID (Some reads) maxBodyBytes out
             = Some (n, e, out @ map (SentBody TypeHTTPRequestBody streamID) cs) \<and>
           (if int (length (readData reads)) \<le> maxBodyBytes
            then e = None \<and> concat cs = readData reads \<and> n = int (length (readData reads))
            else e = Some ErrRequestBodyTooLarge \<and> int (length (concat cs)) \<le> maxBodyBytes
              \<and> (\<exists>rest. readData reads = concat cs @ rest))"
proof -
  obtain k e out' where w: "writeBodyLoop wr s streamID maxBodyBytes 0 out reads = Some (k, e, out')"
    and e: "if 0 + int (length (readData reads)) \<le> maxBodyBytes then e = None else e = Some ErrRequestBodyTooLarge"
    using writeBodyLoop_total [of wr streamID s reads 0 maxBodyBytes out] assms by auto
  from writeBodyLoop_shape [OF w] e assms(7) show ?thesis
    by (fastforce simp: writeRequestBody_def w split: if_splits)
qed

theorem request_body_exact_witness:
  "\<exists>n e cs. writeRequestBody (\<lambda>i. WOk) demoAgent ''str_1''
        (Some [(''ab'', None), ([], None), (''c'', Some ReadEOF)]) 10 []
      = Some (n, e, [] @ map (SentBody TypeHTTPRequestBody ''str_1'') cs) \<and> e = None \<and> concat cs = ''abc''"
  using request_body_exact [of "\<lambda>i. WOk" "''str_1''" demoAgent
      "[(''ab'', None), ([], None), (''c'', Some ReadEOF)]" 10 "[]"]
  by (auto simp: readData_def demoAgent_def demoSession_def)

text \<open>
  C21: a round trip leaves the session as it found it.  However a stream ends, the slot that
  \<open>acquireStream\<close> took is given back and the stream is no longer pending; an accepted WebSocket
  stream keeps both until \<open>Close\<close>, and a second \<open>Close\<close> changes nothing.
\<close>

theorem streams_are_released:
  assumes "as_pending s streamID = None"
  shows "(streamRoundTrip js wr wb s ch streamID req body maxBodyBytes chunkBytes evs = Some (res, e, out, pub, s') \<longrightarrow> s' = s)
    \<and> (roundTrip js wr s ch streamID whole ev = Some (r, out, s') \<longrightarrow> s' = s)
    \<and> (openWSStream js wr s ch streamID opn ev = Some (Inl x, out, s') \<longrightarrow> s' = s)
    \<and> (openWSStream js wr s ch streamID opn ev = Some (Inr a, out, s') \<longrightarrow>
         (let w = \<lparr>wst_streamID = streamID, wst_closed = False\<rparr>; (s1, w1) = wsClose s' w
          in s1 = s \<and> wsClose s1 w1 = (s1, w1)))"
  using restored [OF _ assms]
  by (auto simp: wsClose_def Let_def dest!: streamRoundTrip_Some roundTrip_Some openWSStream_Some)

theorem streams_are_released_witness:
  "\<exists>res e out pub s'. streamRoundTrip demoJSON (\<lambda>i. WOk) (\<lambda>i. (0, None)) demoAgent 7 ''str_1''
       demoStart None 0 0 [AgentDone] = Some (res, e, out, pub, s') \<and> s' = demoAgent"
proof -
  have "streamRoundTrip demoJSON (\<lambda>i. WOk) (\<lambda>i. (0, None)) demoAgent 7 ''str_1'' demoStart None 0 0 [AgentDone] \<noteq> None"
    by (simp add: streamRoundTrip_def demoAgent_def demoJSON_def demoStart_def acquireStream_def NewStream_def
        marshalPayload_def sessionWrite_def WriteEnvelope_def writeRequestBody_def Let_def)
  then obtain res e out pub s' where rt: "streamRoundTrip demoJSON (\<lambda>i. WOk) (\<lambda>i. (0, None)) demoAgent 7
      ''str_1'' demoStart None 0 0 [AgentDone] = Some (res, e, out, pub, s')" by auto
  then have "s' = demoAgent"
    using streams_are_released [of demoAgent "''str_1''"] by (simp add: demoAgent_def)
  with rt show ?thesis by blast
qed

text \<open>
  C22: the public client gets the response that the agent has sent.  What is written to it are, in order
  and without omission, the header blocks and body chunks of the agent's messages: the header block comes
  first, no chunk is altered, repeated or left out, and every write but the last is complete.  The
  count of response bytes is what the writes have accepted.  A round trip that succeeds has written the
  whole response.
\<close>

theorem response_is_ordered:
  assumes "streamRoundTrip js wr wb s ch streamID req body maxBodyBytes chunkBytes evs = Some (res, e, out, pub, s')"
  shows "startFirst pub \<and> rr_ResponseBytes res = int (pubBytes pub) \<and> list_all written (butlast pub) \<and>
    (\<exists>rest. agentResponse js (if chunkBytes \<le> 0 then defaultStreamChunkBytes else chunkBytes) False evs = map pubContent pub @ rest \<and>
       (e = None \<longrightarrow> pub \<noteq> [] \<and> rest = [] \<and> list_all written pub))"
  using assms
  by (auto simp: streamRoundTrip_def Let_def startFirst_def pubBytes_def split: sum.splits prod.splits wres.splits option.splits
      dest!: readStreamResponse_relays)

theorem response_is_ordered_witness:
  "\<exists>res out pub s'. streamRoundTrip demoJSON (\<lambda>i. WOk) (\<lambda>i. (2, None)) demoAgent 7 ''str_1''
       demoStart None 0 0 demoEvents = Some (res, None, out, pub, s') \<and> pub \<noteq> [] \<and>
     agentResponse demoJSON defaultStreamChunkBytes False demoEvents = map pubContent pub"
proof -
  have "\<exists>res out pub s'. streamRoundTrip demoJSON (\<lambda>i. WOk) (\<lambda>i. (2, None)) demoAgent 7 ''str_1'' demoStart None 0 0 demoEvents = Some (res, None, out, pub, s')"
    by (simp add: streamRoundTrip_def demoAgent_def demoJSON_def demoStart_def demoEvents_def demoMessage_def DecodePayload_def pubWrite_def responseBodyChunk_def defaultStreamChunkBytes_def acquireStream_def NewStream_def
        marshalPayload_def sessionWrite_def WriteEnvelope_def writeRequestBody_def Let_def)
  then obtain res out pub s' where "streamRoundTrip demoJSON (\<lambda>i. WOk) (\<lambda>i. (2, None)) demoAgent 7 ''str_1'' demoStart None 0 0
      demoEvents = Some (res, None, out, pub, s')" by blast
  with response_is_ordered [OF this] show ?thesis by auto
qed

text \<open>
  C23: the agent is told to stop exactly when it has to be.  A round trip that succeeds, or that
  fails before the request was on its way, cancels nothing; every other failure sends one
  cancellation.  Two exceptions are visible: a context cancelled for a cause outside the
  known ones is cancelled twice, and a response write that fails with a context error not at all.
\<close>

theorem cancellations_are_exact:
  assumes "encodes js" "acquireStream s = Inr s1"
    and "streamRoundTrip js wr wb s ch streamID req body maxBodyBytes chunkBytes evs = Some (res, e, out, pub, s')"
  shows "cancels out = expectedCancels e"
  using assms by (rule streamRoundTrip_cancel_cases)

theorem cancellations_are_exact_witness:
  "\<exists>res out pub s'. streamRoundTrip demoJSON (\<lambda>i. WOk) (\<lambda>i. (0, None)) demoAgent 7 ''str_1''
       demoStart None 0 0 [CtxDone StreamIdleTimeout]
       = Some (res, Some (ContextDone StreamIdleTimeout), out, pub, s') \<and> cancels out = 1"
proof -
  have "\<exists>res out pub s'. streamRoundTrip demoJSON (\<lambda>i. WOk) (\<lambda>i. (0, None)) demoAgent 7 ''str_1'' demoStart None 0 0
      [CtxDone StreamIdleTimeout] = Some (res, Some (ContextDone StreamIdleTimeout), out, pub, s')"
    by (simp add: streamRoundTrip_def demoAgent_def demoJSON_def demoStart_def acquireStream_def NewStream_def
        marshalPayload_def sessionWrite_def WriteEnvelope_def writeRequestBody_def Let_def isStreamContextDoneCause_def)
  moreover have "encodes demoJSON"
    by (simp add: encodes_def demoJSON_def marshalPayload_def split: payload.splits)
  moreover have "acquireStream demoAgent = Inr demoAgent"
    by (simp add: acquireStream_def demoAgent_def)
  ultimately show ?thesis
    using cancellations_are_exact [of demoJSON demoAgent demoAgent] by (fastforce simp: expectedCancels_def)
qed

end
