(* ===== verification/Delivery.thy ===== *)
theory Delivery
  imports Session "HOL-Library.Sublist"
begin

text \<open>
  The interleaving of the goroutines that share one agent connection (\<open>session.go\<close>): \<open>readLoop\<close>
  reads messages and hands each to the buffered channel of its stream (\<open>deliver\<close>), the handlers
  of the streams take them out, open and leave, and the session is closed.  One rule per atomic
  step.  The lookup of the channel and the send on it are separate steps, as in \<open>deliver\<close>, where
  the lock is released in between.  \<open>dv_in\<close> and \<open>dv_got\<close> are history: the messages read for a
  channel and those its stream has taken.
\<close>

datatype read_loop = Reading | Delivering nat Message | Stopped

record delivery =
  dv_session :: agentSession
  dv_ctxDone :: bool
  dv_loop :: read_loop
  dv_cap :: "nat \<Rightarrow> nat"
  dv_chan :: "nat \<Rightarrow> Message list"
  dv_owner :: "nat \<Rightarrow> string option"
  dv_live :: "nat set"
  dv_in :: "nat \<Rightarrow> Message list"
  dv_got :: "nat \<Rightarrow> Message list"

definition initDelivery :: "agentSession \<Rightarrow> delivery" where
  "initDelivery a =
     \<lparr>dv_session = a, dv_ctxDone = False, dv_loop = Reading, dv_cap = (\<lambda>ch. 0), dv_chan = (\<lambda>ch. []),
      dv_owner = (\<lambda>ch. None), dv_live = {}, dv_in = (\<lambda>ch. []), dv_got = (\<lambda>ch. [])\<rparr>"

text \<open>The message types that \<open>readLoop\<close> passes to \<open>deliver\<close>.\<close>

definition isStreamMessage :: "msg_type \<Rightarrow> bool" where
  "isStreamMessage t \<longleftrightarrow>
     t \<in> {TypeHTTPResponse, TypeHTTPResponseStart, TypeHTTPResponseBody, TypeHTTPResponseEnd, TypeHTTPStreamError,
          TypeWSAccept, TypeWSError, TypeWSMessageText, TypeWSMessageBinary, TypeWSClose, TypeWSCancel}"

definition wsStreamPendingBuffer :: nat where
  "wsStreamPendingBuffer = 64"

text \<open>The channel capacities of \<open>roundTrip\<close>, \<open>streamRoundTrip\<close> and \<open>openWSStream\<close>.\<close>

definition channelSizes :: "nat set" where
  "channelSizes = {1, 32, wsStreamPendingBuffer}"

definition openStream :: "agentSession \<Rightarrow> nat \<Rightarrow> string \<Rightarrow> nat \<Rightarrow> delivery \<Rightarrow> delivery" where
  "openStream a ch sid k s =
     s\<lparr>dv_session := addPending sid ch a, dv_cap := (dv_cap s)(ch := k), dv_owner := (dv_owner s)(ch \<mapsto> sid),
       dv_live := insert ch (dv_live s)\<rparr>"

definition leaveStream :: "nat \<Rightarrow> string \<Rightarrow> delivery \<Rightarrow> delivery" where
  "leaveStream ch sid s =
     s\<lparr>dv_session := releaseStream (removePending sid (dv_session s)), dv_live := dv_live s - {ch}\<rparr>"

definition lookupPending :: "nat \<Rightarrow> Message \<Rightarrow> delivery \<Rightarrow> delivery" where
  "lookupPending ch m s = s\<lparr>dv_loop := Delivering ch m, dv_in := (dv_in s)(ch := dv_in s ch @ [m])\<rparr>"

definition sendOn :: "nat \<Rightarrow> Message \<Rightarrow> delivery \<Rightarrow> delivery" where
  "sendOn ch m s = s\<lparr>dv_loop := Reading, dv_chan := (dv_chan s)(ch := dv_chan s ch @ [m])\<rparr>"

definition receiveFrom :: "nat \<Rightarrow> Message \<Rightarrow> Message list \<Rightarrow> delivery \<Rightarrow> delivery" where
  "receiveFrom ch m rest s =
     s\<lparr>dv_chan := (dv_chan s)(ch := rest), dv_got := (dv_got s)(ch := dv_got s ch @ [m])\<rparr>"

inductive delivery_step :: "delivery \<Rightarrow> delivery \<Rightarrow> bool" where
  stream_opens: "acquireStream (dv_session s) = Inr a \<Longrightarrow> dv_owner s ch = None \<Longrightarrow>
     as_pending (dv_session s) sid = None \<Longrightarrow> k \<in> channelSizes \<Longrightarrow>
     delivery_step s (openStream a ch sid k s)"
| stream_leaves: "ch \<in> dv_live s \<Longrightarrow> dv_owner s ch = Some sid \<Longrightarrow> delivery_step s (leaveStream ch sid s)"
| stream_takes: "ch \<in> dv_live s \<Longrightarrow> dv_chan s ch = m # rest \<Longrightarrow> delivery_step s (receiveFrom ch m rest s)"
| loop_reads: "dv_loop s = Reading \<Longrightarrow> isStreamMessage (env_Type (msg_Envelope m)) \<Longrightarrow>
     as_pending (dv_session s) (env_StreamID (msg_Envelope m)) = Some ch \<Longrightarrow>
     delivery_step s (lookupPending ch m s)"
| loop_ignores: "dv_loop s = Reading \<Longrightarrow>
     \<not> isStreamMessage (env_Type (msg_Envelope (m :: Message))) \<or>
     as_pending (dv_session s) (env_StreamID (msg_Envelope m)) = None \<Longrightarrow>
     delivery_step s s"
| loop_sends: "dv_loop s = Delivering ch m \<Longrightarrow> length (dv_chan s ch) < dv_cap s ch \<Longrightarrow>
     delivery_step s (sendOn ch m s)"
| loop_gives_up: "dv_loop s = Delivering ch m \<Longrightarrow> dv_ctxDone s \<or> as_done (dv_session s) \<Longrightarrow>
     delivery_step s (s\<lparr>dv_loop := Reading\<rparr>)"
| loop_stops: "dv_loop s = Reading \<Longrightarrow>
     delivery_step s (s\<lparr>dv_loop := Stopped, dv_session := closeDone (dv_session s)\<rparr>)"
| session_closes: "delivery_step s (s\<lparr>dv_session := closeDone (dv_session s)\<rparr>)"
| context_ends: "delivery_step s (s\<lparr>dv_ctxDone := True\<rparr>)"

text \<open>The message that the loop is trying to send on a channel.\<close>

definition inFlight :: "delivery \<Rightarrow> nat \<Rightarrow> Message list" where
  "inFlight s ch = (case dv_loop s of Delivering c m \<Rightarrow> if c = ch then [m] else [] | _ \<Rightarrow> [])"

definition ended :: "delivery \<Rightarrow> bool" where
  "ended s \<longleftrightarrow> dv_ctxDone s \<or> as_done (dv_session s)"

definition slots_inv :: "delivery \<Rightarrow> bool" where
  "slots_inv s \<longleftrightarrow>
     finite (dv_live s) \<and> (\<forall>ch \<in> dv_live s. dv_owner s ch \<noteq> None) \<and>
     (\<forall>sid ch. as_pending (dv_session s) sid = Some ch \<longleftrightarrow> ch \<in> dv_live s \<and> dv_owner s ch = Some sid) \<and>
     (\<forall>n cap. as_streams (dv_session s) = Some (n, cap) \<longrightarrow> n = card (dv_live s) \<and> n \<le> cap)"

definition fifo_at :: "delivery \<Rightarrow> nat \<Rightarrow> bool" where
  "fifo_at s ch \<longleftrightarrow>
     subseq (dv_got s ch @ dv_chan s ch @ inFlight s ch) (dv_in s ch) \<and>
     (\<not> ended s \<longrightarrow> dv_got s ch @ dv_chan s ch @ inFlight s ch = dv_in s ch) \<and>
     length (dv_chan s ch) \<le> dv_cap s ch \<and>
     (dv_owner s ch \<noteq> None \<longrightarrow> dv_cap s ch \<in> channelSizes) \<and>
     (\<forall>m \<in> set (dv_in s ch). dv_owner s ch = Some (env_StreamID (msg_Envelope m)))"

text \<open>The loop holds a message for a full channel whose stream has left.\<close>

definition wedged :: "nat \<Rightarrow> Message \<Rightarrow> delivery \<Rightarrow> bool" where
  "wedged ch m s \<longleftrightarrow>
     dv_loop s = Delivering ch m \<and> dv_cap s ch \<le> length (dv_chan s ch) \<and> ch \<notin> dv_live s \<and> dv_owner s ch \<noteq> None"

text \<open>A stream whose handler does not take anything is filled by the agent.\<close>

definition filled :: "delivery \<Rightarrow> nat \<Rightarrow> Message \<Rightarrow> nat \<Rightarrow> delivery" where
  "filled s ch m n = s\<lparr>dv_chan := (dv_chan s)(ch := replicate n m), dv_in := (dv_in s)(ch := replicate n m)\<rparr>"

lemmas delivery_ops =
  openStream_def leaveStream_def lookupPending_def sendOn_def receiveFrom_def addPending_def removePending_def closeDone_def

section \<open>Lemmas\<close>

lemma acquireStream_Inr:
  assumes "acquireStream a = Inr b"
  shows "as_pending b = as_pending a \<and> \<not> as_done a \<and> \<not> as_done b \<and>
    (case as_streams a of None \<Rightarrow> as_streams b = None | Some (n, cap) \<Rightarrow> n < cap \<and> as_streams b = Some (Suc n, cap))"
  using assms by (auto simp: acquireStream_def split: if_splits option.splits)

lemma releaseStream_fields [simp]:
  "as_pending (releaseStream a) = as_pending a" "as_done (releaseStream a) = as_done a"
  by (auto simp: releaseStream_def split: option.splits)

lemma slots_inv_pending:
  "slots_inv s \<Longrightarrow> (as_pending (dv_session s) sid = Some ch) = (ch \<in> dv_live s \<and> dv_owner s ch = Some sid)"
  by (simp add: slots_inv_def)

lemma slots_inv_step: "delivery_step s t \<Longrightarrow> slots_inv s \<Longrightarrow> slots_inv t"
proof (induction rule: delivery_step.induct)
  case (stream_opens s a ch sid k)
  have "ch \<notin> dv_live s" using stream_opens by (auto simp: slots_inv_def)
  moreover have "dv_owner s c \<noteq> Some sid" if "c \<in> dv_live s" for c
    using stream_opens that by (metis option.distinct(1) slots_inv_def)
  ultimately show ?case using stream_opens acquireStream_Inr [OF stream_opens(1)]
    by (auto simp: slots_inv_def delivery_ops split: option.splits)
next
  case (stream_leaves ch s sid)
  then have "as_pending (dv_session s) sid = Some ch" by (auto simp: slots_inv_def)
  then have only: "c = ch" if "c \<in> dv_live s" "dv_owner s c = Some sid" for c
    using stream_leaves that by (metis option.inject slots_inv_def)
  have pend: "(as_pending (removePending sid (dv_session s)) i = Some c) = (c \<in> dv_live s - {ch} \<and> dv_owner s c = Some i)" for i c
    using slots_inv_pending [OF stream_leaves(3), of i c] only [of c] stream_leaves(2)
    by (cases "i = sid") (auto simp: removePending_def)
  have n: "n = card (dv_live s - {ch}) \<and> n \<le> cap"
    if "as_streams (releaseStream (removePending sid (dv_session s))) = Some (n, cap)" for n cap
    using stream_leaves(1,3) that
    by (cases "as_streams (dv_session s)") (auto simp: slots_inv_def releaseStream_def removePending_def card_gt_0_iff
        split: if_splits)
  show ?case using stream_leaves(3) pend n by (simp add: slots_inv_def leaveStream_def)
qed (simp_all add: slots_inv_def delivery_ops)

lemma subseq_drop_last: "subseq (xs @ ys @ zs) ws \<Longrightarrow> subseq (xs @ ys) ws"
  by (metis append.assoc list_emb_append2 list_emb_prefix subseq_order.order_refl subseq_order.trans)

lemma subseq_snoc: "subseq (xs @ ys) ws \<Longrightarrow> subseq (xs @ ys @ [m]) (ws @ [m])"
  by (metis append.assoc list_emb_append_mono subseq_order.order_refl)

lemma fifo_at_step:
  assumes "delivery_step s t" "slots_inv s" "fifo_at s c"
  shows "fifo_at t c"
  using assms
proof (induction rule: delivery_step.induct)
  case (stream_opens s a ch sid k)
  show ?case
  proof (cases "c = ch")
    case True
    have "dv_in s ch = []" using stream_opens True by (cases "dv_in s ch") (auto simp: fifo_at_def)
    then have "dv_chan s ch = []" "dv_got s ch = []" "inFlight s ch = []"
      using stream_opens True by (auto simp: fifo_at_def)
    with \<open>dv_in s ch = []\<close> show ?thesis
      using stream_opens(4) by (simp add: fifo_at_def inFlight_def delivery_ops True)
  next
    case False
    then show ?thesis using stream_opens acquireStream_Inr [OF stream_opens(1)]
      by (simp add: fifo_at_def ended_def inFlight_def delivery_ops)
  qed
next
  case (loop_reads s m ch)
  then have "dv_owner s ch = Some (env_StreamID (msg_Envelope m))" by (simp add: slots_inv_def)
  with loop_reads show ?case by (auto simp: fifo_at_def ended_def inFlight_def delivery_ops intro: subseq_snoc)
next
  case (loop_sends s ch m)
  then show ?case by (auto simp: fifo_at_def ended_def inFlight_def delivery_ops)
next
  case (loop_gives_up s ch m)
  then show ?case by (auto simp: fifo_at_def ended_def inFlight_def dest: subseq_drop_last split: if_splits)
next
  case (stream_takes ch s m rest)
  then show ?case by (cases "c = ch") (simp_all add: fifo_at_def ended_def inFlight_def delivery_ops)
qed (simp_all add: fifo_at_def ended_def inFlight_def delivery_ops)

lemma initDelivery_inv:
  assumes "as_pending a = Map.empty" "activeStreams a = 0"
  shows "slots_inv (initDelivery a)" "fifo_at (initDelivery a) ch"
  using assms by (auto simp: slots_inv_def fifo_at_def inFlight_def initDelivery_def activeStreams_def split: option.splits)

lemma reachable_inv:
  assumes "rtranclp delivery_step (initDelivery a) s" "as_pending a = Map.empty" "activeStreams a = 0"
  shows "slots_inv s \<and> (\<forall>ch. fifo_at s ch)"
  using assms(1)
  by (induction rule: rtranclp_induct)
    (auto intro: slots_inv_step fifo_at_step initDelivery_inv [OF assms(2,3)])

text \<open>What has been put into a channel stays there until its stream takes it.\<close>

lemma channel_grows: "rtranclp delivery_step s t \<Longrightarrow> prefix (dv_got s ch @ dv_chan s ch) (dv_got t ch @ dv_chan t ch)"
proof (induction rule: rtranclp_induct)
  case (step t u)
  from step(2) have "prefix (dv_got t ch @ dv_chan t ch) (dv_got u ch @ dv_chan u ch)"
    by (induction rule: delivery_step.induct) (auto simp: delivery_ops)
  with step(3) show ?case by (rule prefix_order.trans)
qed simp

lemma wedged_step:
  assumes "delivery_step s t" "wedged ch m s" "slots_inv s" "\<not> ended s"
  shows "wedged ch m t"
  using assms
  by (induction rule: delivery_step.induct) (auto simp: wedged_def ended_def delivery_ops)

lemma not_ended_before: "delivery_step s t \<Longrightarrow> \<not> ended t \<Longrightarrow> \<not> ended s"
  by (induction rule: delivery_step.induct) (auto simp: ended_def delivery_ops dest: acquireStream_Inr)

lemma wedged_run:
  assumes "rtranclp delivery_step s t" "wedged ch m s" "slots_inv s" "\<not> ended t"
  shows "wedged ch m t"
proof -
  have "\<not> ended t \<longrightarrow> wedged ch m t \<and> slots_inv t"
    using assms(1)
  proof (induction rule: rtranclp_induct)
    case (step y z)
    then show ?case using not_ended_before wedged_step slots_inv_step by blast
  qed (use assms in simp)
  with assms show ?thesis by blast
qed

lemma fill_channel:
  assumes "dv_loop s = Reading" "isStreamMessage (env_Type (msg_Envelope m))"
    "as_pending (dv_session s) (env_StreamID (msg_Envelope m)) = Some ch" "dv_chan s ch = []" "dv_in s ch = []"
  shows "n \<le> dv_cap s ch \<Longrightarrow> rtranclp delivery_step s (filled s ch m n)"
proof (induction n)
  case 0
  have "filled s ch m 0 = s" using assms by (simp add: filled_def fun_upd_idem)
  then show ?case by simp
next
  case (Suc n)
  let ?f = "filled s ch m n"
  have "delivery_step ?f (lookupPending ch m ?f)" using assms by (intro loop_reads) (simp_all add: filled_def)
  moreover have "delivery_step (lookupPending ch m ?f) (sendOn ch m (lookupPending ch m ?f))"
    using Suc.prems by (intro loop_sends) (simp_all add: filled_def lookupPending_def)
  moreover have "sendOn ch m (lookupPending ch m ?f) = filled s ch m (Suc n)"
    using assms by (simp add: filled_def lookupPending_def sendOn_def replicate_append_same)
  ultimately show ?case using Suc by (metis Suc_leD rtranclp.rtrancl_into_rtrancl)
qed

text \<open>A run in which a stream opens and the first message for it is read.\<close>

lemma demo_run:
  "rtranclp delivery_step (initDelivery (newAgentSession id demoSession 8 0 0 0))
     (lookupPending 0 (demoMessage TypeHTTPResponseStart)
       (openStream ((newAgentSession id demoSession 8 0 0 0)\<lparr>as_streams := Some (1, 8)\<rparr>) 0 ''str_1'' 32
         (initDelivery (newAgentSession id demoSession 8 0 0 0))))"
proof -
  define a where "a = newAgentSession id demoSession 8 0 0 0"
  define s1 where "s1 = openStream (a\<lparr>as_streams := Some (1, 8)\<rparr>) 0 ''str_1'' 32 (initDelivery a)"
  have "delivery_step (initDelivery a) s1" unfolding s1_def
    by (rule stream_opens) (simp_all add: a_def newAgentSession_def acquireStream_def initDelivery_def channelSizes_def)
  moreover have "delivery_step s1 (lookupPending 0 (demoMessage TypeHTTPResponseStart) s1)"
    by (rule loop_reads) (simp_all add: s1_def a_def newAgentSession_def demoMessage_def initDelivery_def
        delivery_ops isStreamMessage_def)
  ultimately show ?thesis unfolding a_def s1_def by simp
qed

section \<open>Properties\<close>

text \<open>
  C24: streams that share a connection do not disturb each other.  In every interleaving of the
  goroutines, what a stream has taken, what waits in its channel and the message in flight are, in this
  order, messages that the agent sent for this stream, a subsequence of them in the order it sent them.
  While the session is open none is missing; when it ends, messages that were not yet in the channel can
  get lost.  Whatever is in the channel stays there, in its place, until the stream takes it, also when
  the session ends, and the channel never holds more than its capacity.
\<close>

theorem streams_do_not_interfere:
  assumes "rtranclp delivery_step (initDelivery (newAgentSession rnd tunnel maxStreams rps burst now)) s"
  shows "subseq (dv_got s ch @ dv_chan s ch @ inFlight s ch) (dv_in s ch)
    \<and> (\<not> ended s \<longrightarrow> dv_got s ch @ dv_chan s ch @ inFlight s ch = dv_in s ch)
    \<and> (\<forall>m \<in> set (dv_in s ch). dv_owner s ch = Some (env_StreamID (msg_Envelope m)))
    \<and> (\<forall>t. rtranclp delivery_step s t \<longrightarrow> prefix (dv_got s ch @ dv_chan s ch) (dv_got t ch @ dv_chan t ch))
    \<and> length (dv_chan s ch) \<le> dv_cap s ch"
  using reachable_inv [OF assms] channel_grows [of s _ ch] by (simp add: fifo_at_def newAgentSession_def activeStreams_def)

theorem streams_do_not_interfere_witness:
  "let a = newAgentSession id demoSession 8 0 0 0; m = demoMessage TypeHTTPResponseStart;
       s = lookupPending 0 m (openStream (a\<lparr>as_streams := Some (1, 8)\<rparr>) 0 ''str_1'' 32 (initDelivery a))
   in dv_in s 0 = [m] \<and> dv_got s 0 @ dv_chan s 0 @ inFlight s 0 = dv_in s 0"
  using streams_do_not_interfere [OF demo_run, of 0]
  by (simp add: demoMessage_def Let_def ended_def newAgentSession_def initDelivery_def delivery_ops)

text \<open>
  The stream slots count the streams.  In every interleaving the number of slots in use is
  the number of streams whose handler runs, it never exceeds the configured limit, and a stream
  is pending exactly while its handler runs.
\<close>

theorem slots_count_streams:
  assumes "rtranclp delivery_step (initDelivery (newAgentSession rnd tunnel maxStreams rps burst now)) s"
    and "as_streams (dv_session s) = Some (n, cap)"
  shows "activeStreams (dv_session s) = card (dv_live s) \<and> card (dv_live s) \<le> streamCapacity (dv_session s)
    \<and> (as_pending (dv_session s) sid = Some ch \<longleftrightarrow> ch \<in> dv_live s \<and> dv_owner s ch = Some sid)"
proof -
  have "slots_inv s" using reachable_inv [OF assms(1)] by (simp add: newAgentSession_def activeStreams_def)
  from this assms(2) slots_inv_pending [OF this, of sid ch] show ?thesis
    by (simp add: slots_inv_def activeStreams_def streamCapacity_def)
qed

theorem slots_count_streams_witness:
  "let s = initDelivery (newAgentSession id demoSession 8 0 0 0)
   in as_streams (dv_session s) = Some (0, 8) \<and> activeStreams (dv_session s) = card (dv_live s)"
proof -
  have "as_streams (dv_session (initDelivery (newAgentSession id demoSession 8 0 0 0))) = Some (0, 8)"
    by (simp add: initDelivery_def newAgentSession_def)
  from slots_count_streams [OF rtranclp.rtrancl_refl this] this show ?thesis by (simp add: Let_def)
qed

text \<open>
  A running stream never blocks the connection for good.  Whenever \<open>readLoop\<close> is handing a
  message to a stream whose handler still runs, at most one message taken by that handler lets
  the loop return to reading.
\<close>

theorem running_stream_unblocks_loop:
  assumes "rtranclp delivery_step (initDelivery (newAgentSession rnd tunnel maxStreams rps burst now)) s"
    and "dv_loop s = Delivering ch m" "ch \<in> dv_live s" "\<not> ended s"
  shows "delivery_step s (sendOn ch m s) \<or>
    (\<exists>x rest. delivery_step s (receiveFrom ch x rest s) \<and>
       delivery_step (receiveFrom ch x rest s) (sendOn ch m (receiveFrom ch x rest s)))"
proof -
  have inv: "slots_inv s" "fifo_at s ch"
    using reachable_inv [OF assms(1)] by (simp_all add: newAgentSession_def activeStreams_def)
  then have "dv_cap s ch \<in> channelSizes" using assms(3) by (auto simp: slots_inv_def fifo_at_def)
  then have cap: "0 < dv_cap s ch" by (auto simp: channelSizes_def wsStreamPendingBuffer_def)
  show ?thesis
  proof (cases "length (dv_chan s ch) < dv_cap s ch")
    case True
    then show ?thesis using assms(2) by (blast intro: loop_sends)
  next
    case False
    with cap obtain x rest where c: "dv_chan s ch = x # rest" by (cases "dv_chan s ch") auto
    have "length rest < dv_cap s ch" using inv(2) c by (simp add: fifo_at_def)
    then have "delivery_step (receiveFrom ch x rest s) (sendOn ch m (receiveFrom ch x rest s))"
      using assms(2) by (intro loop_sends) (simp_all add: receiveFrom_def)
    with stream_takes [of ch s x rest] assms(3) c show ?thesis by blast
  qed
qed

theorem running_stream_unblocks_loop_witness:
  "let a = newAgentSession id demoSession 8 0 0 0; m = demoMessage TypeHTTPResponseStart;
       s = lookupPending 0 m (openStream (a\<lparr>as_streams := Some (1, 8)\<rparr>) 0 ''str_1'' 32 (initDelivery a))
   in delivery_step s (sendOn 0 m s) \<or>
     (\<exists>x rest. delivery_step s (receiveFrom 0 x rest s) \<and>
        delivery_step (receiveFrom 0 x rest s) (sendOn 0 m (receiveFrom 0 x rest s)))"
  unfolding Let_def
  by (rule running_stream_unblocks_loop [OF demo_run])
    (simp_all add: newAgentSession_def initDelivery_def delivery_ops ended_def)

text \<open>
  C25: a stream that leaves at the wrong moment blocks the whole connection.  There are reachable
  states in which \<open>readLoop\<close> holds a message for the full channel of a stream whose handler has
  returned; from there no step of any other stream lets it read again, and it stays in \<open>deliver\<close>
  until the session is closed or its context ends.
\<close>

theorem abandoned_stream_blocks_connection:
  "\<exists>s ch m. rtranclp delivery_step (initDelivery (newAgentSession rnd tunnel maxStreams rps burst now)) s
     \<and> dv_cap s ch = 32 \<and> \<not> ended s \<and> activeStreams (dv_session s) = 0
     \<and> (\<forall>t. rtranclp delivery_step s t \<and> \<not> ended t \<longrightarrow> dv_loop t = Delivering ch m)"
proof -
  let ?a = "newAgentSession rnd tunnel maxStreams rps burst now" and ?m = "demoMessage TypeHTTPResponseBody"
  obtain b where b: "acquireStream ?a = Inr b"
    by (cases "0 < maxStreams") (auto simp: newAgentSession_def acquireStream_def)
  define s1 where "s1 = openStream b 0 ''str_1'' 32 (initDelivery ?a)"
  define s2 where "s2 = filled s1 0 ?m 32"
  define s3 where "s3 = lookupPending 0 ?m s2"
  define s4 where "s4 = leaveStream 0 ''str_1'' s3"
  note defs = s1_def s2_def s3_def s4_def filled_def delivery_ops initDelivery_def demoMessage_def
  have 1: "delivery_step (initDelivery ?a) s1" unfolding s1_def
    by (rule stream_opens) (use b in \<open>simp_all add: initDelivery_def channelSizes_def newAgentSession_def\<close>)
  have 2: "rtranclp delivery_step s1 s2" unfolding s2_def
    by (rule fill_channel) (simp_all add: defs isStreamMessage_def)
  have 3: "delivery_step s2 s3" unfolding s3_def
    by (rule loop_reads) (simp_all add: defs isStreamMessage_def)
  have 4: "delivery_step s3 s4" unfolding s4_def by (rule stream_leaves) (simp_all add: defs)
  have r: "rtranclp delivery_step (initDelivery ?a) s4"
    using 1 2 3 4 by (meson converse_rtranclp_into_rtranclp rtranclp.rtrancl_into_rtrancl)
  have w: "wedged 0 ?m s4" by (simp add: wedged_def defs)
  have inv: "slots_inv s4" using reachable_inv [OF r] by (simp add: newAgentSession_def activeStreams_def)
  have "\<not> ended s4" "dv_cap s4 0 = 32" "dv_live s4 = {}"
    using acquireStream_Inr [OF b] by (simp_all add: ended_def defs newAgentSession_def)
  moreover from this inv have "activeStreams (dv_session s4) = 0"
    by (auto simp: slots_inv_def activeStreams_def split: option.splits)
  ultimately show ?thesis using r wedged_run [OF _ w inv] by (metis wedged_def)
qed

theorem abandoned_stream_blocks_connection_witness:
  "\<exists>s ch m. rtranclp delivery_step (initDelivery (newAgentSession id demoSession 64 0 0 0)) s
     \<and> dv_cap s ch = 32 \<and> \<not> ended s \<and> activeStreams (dv_session s) = 0
     \<and> (\<forall>t. rtranclp delivery_step s t \<and> \<not> ended t \<longrightarrow> dv_loop t = Delivering ch m)"
  by (rule abandoned_stream_blocks_connection)

end
