(* ===== verification/RingLog.thy ===== *)
theory RingLog
  imports Prelude
begin

text \<open>
  The interface that the request log of the gateway and the audit log of the control plane
  share: a fixed array of entries, the slot written next, and a flag that the array has been
  filled once.  The abstract contents are the kept entries, oldest first.  The laws say what
  \<open>add\<close> does to the fields; the lemmas say what follows for the contents, for walking the array
  from the newest entry backwards, and for paging through it.
\<close>

text \<open>The array index of the \<open>i\<close>-th newest entry, as both loops compute it.\<close>

definition ringIndex :: "nat \<Rightarrow> nat \<Rightarrow> nat \<Rightarrow> int" where
  "ringIndex next len i = (let ix = int next - 1 - int i in if ix < 0 then ix + int len else ix)"

locale ring_log =
  fixes entries :: "'b \<Rightarrow> 'e list"
    and slot :: "'b \<Rightarrow> nat"
    and full :: "'b \<Rightarrow> bool"
    and stamp :: "'b \<Rightarrow> 'e \<Rightarrow> 'e"
    and add :: "'b \<Rightarrow> 'e \<Rightarrow> 'b"
  assumes add_empty: "entries b = [] \<Longrightarrow> add b e = b"
    and add_entries: "entries b \<noteq> [] \<Longrightarrow> entries (add b e) = (entries b)[slot b := stamp b e]"
    and add_slot: "entries b \<noteq> [] \<Longrightarrow> slot (add b e) = Suc (slot b) mod length (entries b)"
    and add_full: "entries b \<noteq> [] \<Longrightarrow> full (add b e) = (full b \<or> Suc (slot b) mod length (entries b) = 0)"
begin

definition ring_ok :: "'b \<Rightarrow> bool" where
  "ring_ok b \<longleftrightarrow> (if entries b = [] then slot b = 0 \<and> \<not> full b else slot b < length (entries b))"

definition contents :: "'b \<Rightarrow> 'e list" where
  "contents b = (if full b then drop (slot b) (entries b) @ take (slot b) (entries b) else take (slot b) (entries b))"

definition count :: "'b \<Rightarrow> nat" where
  "count b = (if full b then length (entries b) else slot b)"

lemma length_contents: "ring_ok b \<Longrightarrow> length (contents b) = count b"
  by (auto simp: ring_ok_def contents_def count_def split: if_splits)

lemma count_le: "ring_ok b \<Longrightarrow> count b \<le> length (entries b)"
  by (auto simp: ring_ok_def count_def split: if_splits)

lemma add_ok: "ring_ok b \<Longrightarrow> ring_ok (add b e)"
  by (cases "entries b = []") (auto simp: ring_ok_def add_empty add_entries add_slot)

lemma length_entries_add: "length (entries (add b e)) = length (entries b)"
  by (cases "entries b = []") (simp_all add: add_empty add_entries)

lemma contents_add:
  assumes "ring_ok b" "entries b \<noteq> []"
  shows "contents (add b e) =
    (let xs = contents b @ [stamp b e] in drop (length xs - length (entries b)) xs)"
proof -
  let ?es = "entries b" and ?n = "slot b" and ?v = "stamp b e"
  have n: "?n < length ?es" using assms by (simp add: ring_ok_def)
  have upd: "take (Suc ?n) (?es[?n := ?v]) = take ?n ?es @ [?v]" "drop (Suc ?n) (?es[?n := ?v]) = drop (Suc ?n) ?es"
    using n by (simp_all add: take_Suc_conv_app_nth)
  have dr: "drop ?n ?es = ?es ! ?n # drop (Suc ?n) ?es" by (rule Cons_nth_drop_Suc [OF n, symmetric])
  have len: "length (contents b) = (if full b then length ?es else ?n)"
    using length_contents [OF assms(1)] by (simp add: count_def)
  show ?thesis
  proof (cases "Suc ?n = length ?es")
    case True
    then have "?es[?n := ?v] = take ?n ?es @ [?v]" using upd(1) by simp
    with True show ?thesis using assms len dr
      by (simp add: contents_def add_entries add_slot add_full Let_def)
  next
    case False
    with n have m: "Suc ?n mod length ?es = Suc ?n" by simp
    then show ?thesis using False n assms len upd dr
      by (simp add: contents_def add_entries add_slot add_full Let_def)
  qed
qed

text \<open>Walking backwards from the slot visits the contents from the newest to the oldest.\<close>

lemma newest_first:
  assumes "ring_ok b"
  shows "map (\<lambda>i. entries b ! nat (ringIndex (slot b) (length (entries b)) i)) [0..<count b] = rev (contents b)"
proof (rule nth_equalityI)
  show "length (map (\<lambda>i. entries b ! nat (ringIndex (slot b) (length (entries b)) i)) [0..<count b]) = length (rev (contents b))"
    using length_contents [OF assms] by simp
  fix i assume "i < length (map (\<lambda>i. entries b ! nat (ringIndex (slot b) (length (entries b)) i)) [0..<count b])"
  then have i: "i < count b" by simp
  have e: "entries b \<noteq> []" using i assms by (auto simp: count_def ring_ok_def)
  with assms have n: "slot b < length (entries b)" by (simp add: ring_ok_def)
  have "rev (contents b) ! i = contents b ! (count b - Suc i)"
    using i length_contents [OF assms] by (simp add: rev_nth)
  also have "\<dots> = entries b ! nat (ringIndex (slot b) (length (entries b)) i)"
  proof (cases "i < slot b")
    case True
    then have "nat (ringIndex (slot b) (length (entries b)) i) = slot b - Suc i" by (simp add: ringIndex_def nat_diff_distrib' of_nat_diff)
    then show ?thesis using True n i by (auto simp: contents_def count_def nth_append)
  next
    case False
    with i have f: "full b" by (auto simp: count_def split: if_splits)
    have "nat (ringIndex (slot b) (length (entries b)) i) = slot b + length (entries b) - Suc i"
      using False n i f by (simp add: ringIndex_def count_def)
    then show ?thesis using False n i f by (auto simp: contents_def count_def nth_append)
  qed
  finally show "map (\<lambda>i. entries b ! nat (ringIndex (slot b) (length (entries b)) i)) [0..<count b] ! i = rev (contents b) ! i"
    using i by simp
qed

end

text \<open>Pruning: the kept entries move to the front of the array, the rest becomes blank.\<close>

locale ring_log_prune = ring_log entries slot full stamp add
  for entries :: "'b \<Rightarrow> 'e list" and slot :: "'b \<Rightarrow> nat" and full :: "'b \<Rightarrow> bool"
    and stamp :: "'b \<Rightarrow> 'e \<Rightarrow> 'e" and add :: "'b \<Rightarrow> 'e \<Rightarrow> 'b" +
  fixes prune :: "'c \<Rightarrow> 'b \<Rightarrow> 'b"
    and keep :: "'c \<Rightarrow> 'e \<Rightarrow> bool"
    and blank :: 'e
    and active :: "'c \<Rightarrow> bool"
  assumes prune_fields: "entries b \<noteq> [] \<Longrightarrow> active c \<Longrightarrow>
      (let kept = filter (keep c)
             (map (\<lambda>i. entries b ! (if full b then (slot b + i) mod length (entries b) else i)) [0..<count b])
       in entries (prune c b) = kept @ replicate (length (entries b) - length kept) blank \<and>
          slot (prune c b) = (if length kept = length (entries b) then 0 else length kept) \<and>
          full (prune c b) = (length kept = length (entries b)))"
    and prune_empty: "entries b = [] \<or> \<not> active c \<Longrightarrow> prune c b = b"
begin

lemma oldest_first:
  assumes "ring_ok b"
  shows "map (\<lambda>i. entries b ! (if full b then (slot b + i) mod length (entries b) else i)) [0..<count b] = contents b"
proof (rule nth_equalityI)
  fix i assume "i < length (map (\<lambda>i. entries b ! (if full b then (slot b + i) mod length (entries b) else i)) [0..<count b])"
  then have i: "i < count b" by simp
  have e: "entries b \<noteq> []" using i assms by (auto simp: count_def ring_ok_def)
  with assms have n: "slot b < length (entries b)" by (simp add: ring_ok_def)
  have wrap: "(slot b + i) mod length (entries b) = (if slot b + i < length (entries b) then slot b + i else slot b + i - length (entries b))"
    if "i < length (entries b)"
    using that n by (simp add: mod_if)
  show "map (\<lambda>i. entries b ! (if full b then (slot b + i) mod length (entries b) else i)) [0..<count b] ! i = contents b ! i"
    using i n wrap by (auto simp: contents_def count_def nth_append add.commute)
qed (simp add: length_contents [OF assms])

lemma prune_contents:
  assumes "ring_ok b"
  shows "contents (prune c b) = (if active c then filter (keep c) (contents b) else contents b)" "ring_ok (prune c b)"
proof -
  have len: "length (filter (keep c) (contents b)) \<le> length (entries b)"
    using length_contents [OF assms] count_le [OF assms] length_filter_le le_trans by metis
  show "contents (prune c b) = (if active c then filter (keep c) (contents b) else contents b)"
  proof (cases "entries b = [] \<or> \<not> active c")
    case True
    then show ?thesis using assms by (auto simp: prune_empty contents_def ring_ok_def)
  next
    case False
    then have "entries b \<noteq> []" "active c" by simp_all
    from prune_fields [OF this] \<open>active c\<close> show ?thesis
      unfolding oldest_first [OF assms] Let_def using len
      by (cases "length (filter (keep c) (contents b)) = length (entries b)") (auto simp: contents_def [of "prune c b"])
  qed
  show "ring_ok (prune c b)"
  proof (cases "entries b = [] \<or> \<not> active c")
    case True
    then show ?thesis using assms by (simp add: prune_empty)
  next
    case False
    then have "entries b \<noteq> []" "active c" by simp_all
    from prune_fields [OF this] this show ?thesis
      unfolding oldest_first [OF assms] Let_def using len
      by (auto simp: ring_ok_def)
  qed
qed

end

text \<open>Entries numbered on arrival, and paging by the number of the last entry of a page.\<close>

locale ring_log_ids = ring_log entries slot full stamp add
  for entries :: "'b \<Rightarrow> 'e list" and slot :: "'b \<Rightarrow> nat" and full :: "'b \<Rightarrow> bool"
    and stamp :: "'b \<Rightarrow> 'e \<Rightarrow> 'e" and add :: "'b \<Rightarrow> 'e \<Rightarrow> 'b" +
  fixes ident :: "'e \<Rightarrow> int"
    and nextid :: "'b \<Rightarrow> int"
  assumes stamp_fresh: "ident e = 0 \<Longrightarrow> ident (stamp b e) = nextid b + 1"
    and add_nextid: "ident e = 0 \<Longrightarrow> entries b \<noteq> [] \<Longrightarrow> nextid (add b e) = nextid b + 1"
begin

definition ids_ok :: "'b \<Rightarrow> bool" where
  "ids_ok b \<longleftrightarrow> ring_ok b \<and> 0 \<le> nextid b \<and> sorted_wrt (<) (map ident (contents b)) \<and>
     (\<forall>e \<in> set (contents b). 0 < ident e \<and> ident e \<le> nextid b)"

lemma ids_ok_add:
  assumes "ids_ok b" "ident e = 0"
  shows "ids_ok (add b e)"
proof (cases "entries b = []")
  case True
  then show ?thesis using assms by (simp add: add_empty)
next
  case False
  define xs where "xs = contents b @ [stamp b e]"
  have c: "contents (add b e) = drop (length xs - length (entries b)) xs"
    using contents_add [of b e] assms False by (simp add: ids_ok_def Let_def xs_def)
  have s: "sorted_wrt (<) (map ident xs)"
    using assms stamp_fresh [OF assms(2), of b] by (auto simp: xs_def ids_ok_def sorted_wrt_append)
  have r: "\<forall>x \<in> set xs. 0 < ident x \<and> ident x \<le> nextid b + 1"
    using assms stamp_fresh [OF assms(2), of b] by (auto simp: xs_def ids_ok_def)
  show ?thesis
    using assms False add_ok [of b e] add_nextid [OF assms(2) False] s r
    by (auto simp: ids_ok_def c drop_map [symmetric] sorted_wrt_drop dest: in_set_dropD)
qed

lemma newest_ids:
  assumes "ids_ok b"
  shows "sorted_wrt (\<lambda>x y. ident y < ident x) (rev (contents b))"
  using assms by (simp add: ids_ok_def sorted_wrt_rev sorted_wrt_map)

lemma page_rest:
  assumes "sorted_wrt (\<lambda>x y. ident y < ident x) xs" "0 < n" "n \<le> length xs"
  shows "take n xs @ filter (\<lambda>e. ident e < ident (xs ! (n - 1))) xs = xs"
proof -
  have "filter (\<lambda>e. ident e < ident (xs ! (n - 1))) xs
      = filter (\<lambda>e. ident e < ident (xs ! (n - 1))) (take n xs) @ filter (\<lambda>e. ident e < ident (xs ! (n - 1))) (drop n xs)"
    by (metis append_take_drop_id filter_append)
  moreover have "filter (\<lambda>e. ident e < ident (xs ! (n - 1))) (take n xs) = []"
  proof -
    have "\<not> ident (xs ! i) < ident (xs ! (n - 1))" if "i < n" for i
    proof (cases "i = n - 1")
      case False
      with that have "i < n - 1" by simp
      then have "ident (xs ! (n - 1)) < ident (xs ! i)"
        using assms sorted_wrt_nth_less [OF assms(1), of i "n - 1"] by simp
      then show ?thesis by simp
    qed simp
    then show ?thesis using assms(3) by (auto simp: filter_empty_conv in_set_conv_nth)
  qed
  moreover have "filter (\<lambda>e. ident e < ident (xs ! (n - 1))) (drop n xs) = drop n xs"
    using assms sorted_wrt_nth_less [OF assms(1), of "n - 1"]
    by (auto simp: filter_id_conv in_set_conv_nth)
  ultimately show ?thesis by simp
qed

end

end
