(* ===== verification/RequestLog.thy ===== *)
theory RequestLog
  imports RingLog Encodings
begin

text \<open>
  \<open>request_log.go\<close> of the gateway: the ring buffer of public requests, its filters, and the pages
  served by the management API.  A nil buffer behaves as one without slots and is not told apart
  from it.  \<open>uc\<close> is the Unicode case mapping, \<open>query\<close> is \<open>r.URL.Query().Get\<close>, \<open>parseTime\<close> and
  \<open>formatTime\<close> are \<open>time.Parse\<close> and \<open>Time.Format\<close> with layout RFC 3339, and the JSON coding of a
  cursor is the pair \<open>mar\<close> and \<open>unm\<close>.
\<close>

section \<open>Model\<close>

record requestLogEntry =
  le_ID :: int
  le_Time :: gotime
  le_Method :: string
  le_Host :: string
  le_Path :: string
  le_QueryPresent :: bool
  le_RemoteIP :: string
  le_RequestID :: string
  le_Subdomain :: string
  le_CustomDomain :: string
  le_TunnelID :: string
  le_StreamID :: string
  le_Status :: int
  le_Outcome :: string
  le_RequestBytes :: int
  le_ResponseBytes :: int
  le_DurationMS :: int
  le_Error :: string

record requestLogFilter =
  lf_Subdomain :: string
  lf_Status :: int
  lf_Outcome :: string
  lf_RequestID :: string
  lf_Host :: string
  lf_Method :: string
  lf_Path :: string
  lf_TunnelID :: string
  lf_Since :: gotime
  lf_Until :: gotime

record requestLogCursor =
  lc_Time :: gotime
  lc_ID :: int

record requestLogListOptions =
  lo_Limit :: int
  lo_Filter :: requestLogFilter
  lo_Cursor :: requestLogCursor

record requestLogListPage =
  lp_RequestLogs :: "requestLogEntry list"
  lp_NextCursor :: string

record requestLogFiltersResponse =
  lr_Limit :: int
  lr_Subdomain :: string
  lr_Method :: string
  lr_Host :: string
  lr_Path :: string
  lr_Status :: int
  lr_Outcome :: string
  lr_RequestID :: string
  lr_TunnelID :: string
  lr_Since :: string
  lr_Until :: string
  lr_Cursor :: string

record requestLogBuffer =
  lb_entries :: "requestLogEntry list"
  lb_next :: nat
  lb_full :: bool
  lb_nextID :: int

datatype log_error = BadStatus | BadSince | BadUntil | SinceAfterUntil | BadCursor

text \<open>The zero values.\<close>

definition zeroLogEntry :: requestLogEntry where
  "zeroLogEntry =
     \<lparr>le_ID = 0, le_Time = 0, le_Method = [], le_Host = [], le_Path = [], le_QueryPresent = False, le_RemoteIP = [],
      le_RequestID = [], le_Subdomain = [], le_CustomDomain = [], le_TunnelID = [], le_StreamID = [], le_Status = 0,
      le_Outcome = [], le_RequestBytes = 0, le_ResponseBytes = 0, le_DurationMS = 0, le_Error = []\<rparr>"

definition zeroLogFilter :: requestLogFilter where
  "zeroLogFilter =
     \<lparr>lf_Subdomain = [], lf_Status = 0, lf_Outcome = [], lf_RequestID = [], lf_Host = [], lf_Method = [], lf_Path = [],
      lf_TunnelID = [], lf_Since = 0, lf_Until = 0\<rparr>"

definition zeroLogCursor :: requestLogCursor where
  "zeroLogCursor = \<lparr>lc_Time = 0, lc_ID = 0\<rparr>"

definition emptyLogPage :: requestLogListPage where
  "emptyLogPage = \<lparr>lp_RequestLogs = [], lp_NextCursor = []\<rparr>"

definition maxRequestLogLimit :: int where
  "maxRequestLogLimit = 1000"

definition defaultRequestLogLimit :: int where
  "defaultRequestLogLimit = 500"

definition newRequestLogBuffer :: "int \<Rightarrow> requestLogBuffer" where
  "newRequestLogBuffer limit =
     \<lparr>lb_entries = (if limit \<le> 0 then [] else replicate (nat limit) zeroLogEntry), lb_next = 0, lb_full = False,
      lb_nextID = 0\<rparr>"

definition stampLogEntry :: "requestLogBuffer \<Rightarrow> requestLogEntry \<Rightarrow> requestLogEntry" where
  "stampLogEntry b entry = (if le_ID entry = 0 then entry\<lparr>le_ID := lb_nextID b + 1\<rparr> else entry)"

definition addLogEntry :: "requestLogBuffer \<Rightarrow> requestLogEntry \<Rightarrow> requestLogBuffer" where
  "addLogEntry b entry =
     (if lb_entries b = [] then b
      else let nextID = (if le_ID entry = 0 then lb_nextID b + 1
                         else if le_ID entry > lb_nextID b then le_ID entry else lb_nextID b);
               next = (lb_next b + 1) mod length (lb_entries b)
           in \<lparr>lb_entries = (lb_entries b)[lb_next b := stampLogEntry b entry], lb_next = next,
               lb_full = (if next = 0 then True else lb_full b), lb_nextID = nextID\<rparr>)"

definition logCount :: "requestLogBuffer \<Rightarrow> nat" where
  "logCount b =
     (if lb_entries b = [] then 0 else if lb_full b then length (lb_entries b) else lb_next b)"

definition logCapacity :: "requestLogBuffer \<Rightarrow> nat" where
  "logCapacity b = length (lb_entries b)"

definition normalizedRequestLogLimit :: "int \<Rightarrow> int" where
  "normalizedRequestLogLimit limit =
     (if limit < 0 then defaultRequestLogLimit
      else if limit > maxRequestLogLimit then maxRequestLogLimit else limit)"

definition logFilterMatches :: "(string \<Rightarrow> string) \<Rightarrow> requestLogFilter \<Rightarrow> requestLogEntry \<Rightarrow> bool" where
  "logFilterMatches uc f entry =
     (if lf_Subdomain f \<noteq> [] \<and> ToLower uc (le_Subdomain entry) \<noteq> lf_Subdomain f then False
      else if lf_Status f \<noteq> 0 \<and> le_Status entry \<noteq> lf_Status f then False
      else if lf_Outcome f \<noteq> [] \<and> \<not> Contains (ToLower uc (le_Outcome entry)) (lf_Outcome f) then False
      else if lf_RequestID f \<noteq> [] \<and> \<not> Contains (ToLower uc (le_RequestID entry)) (lf_RequestID f) then False
      else if lf_Host f \<noteq> [] \<and> \<not> Contains (ToLower uc (le_Host entry)) (lf_Host f) then False
      else if lf_Method f \<noteq> [] \<and> ToUpper uc (le_Method entry) \<noteq> lf_Method f then False
      else if lf_Path f \<noteq> [] \<and> \<not> Contains (ToLower uc (le_Path entry)) (lf_Path f) then False
      else if lf_TunnelID f \<noteq> [] \<and> \<not> Contains (ToLower uc (le_TunnelID entry)) (lf_TunnelID f) then False
      else if \<not> IsZero (lf_Since f) \<and> le_Time entry < lf_Since f then False
      else if \<not> IsZero (lf_Until f) \<and> le_Time entry > lf_Until f then False
      else True)"

definition encodeRequestLogCursor :: "(requestLogCursor \<Rightarrow> bytes option) \<Rightarrow> requestLogEntry \<Rightarrow> string" where
  "encodeRequestLogCursor mar entry =
     (if le_ID entry \<le> 0 \<or> IsZero (le_Time entry) then []
      else case mar \<lparr>lc_Time = le_Time entry, lc_ID = le_ID entry\<rparr> of
             None \<Rightarrow> [] | Some data \<Rightarrow> RawURLEncoding data)"

definition decodeRequestLogCursor :: "(bytes \<Rightarrow> requestLogCursor option) \<Rightarrow> string \<Rightarrow> log_error + requestLogCursor" where
  "decodeRequestLogCursor unm raw =
     (case RawURLDecode raw of
        None \<Rightarrow> Inl BadCursor
      | Some data \<Rightarrow>
          (case unm data of
             None \<Rightarrow> Inl BadCursor
           | Some cursor \<Rightarrow>
               if lc_ID cursor \<le> 0 \<or> IsZero (lc_Time cursor) then Inl BadCursor else Inr cursor))"

definition requestLogPage ::
  "(requestLogCursor \<Rightarrow> bytes option) \<Rightarrow> requestLogEntry list \<Rightarrow> int \<Rightarrow> requestLogListPage" where
  "requestLogPage mar es limit0 =
     (let limit = normalizedRequestLogLimit limit0 in
      if limit \<le> 0 \<or> es = [] then emptyLogPage
      else if int (length es) \<le> limit then \<lparr>lp_RequestLogs = es, lp_NextCursor = []\<rparr>
      else let page = take (nat limit) es
           in \<lparr>lp_RequestLogs = page, lp_NextCursor = encodeRequestLogCursor mar (last page)\<rparr>)"

text \<open>The loop of \<open>listPage\<close>, with the indices still to visit.\<close>

fun listPageFrom ::
  "(string \<Rightarrow> string) \<Rightarrow> requestLogBuffer \<Rightarrow> requestLogListOptions \<Rightarrow> int \<Rightarrow> requestLogEntry list \<Rightarrow> nat list
     \<Rightarrow> requestLogEntry list" where
  "listPageFrom uc b opts limit out [] = out"
| "listPageFrom uc b opts limit out (i # is) =
     (let index = ringIndex (lb_next b) (length (lb_entries b)) i in
      if \<not> lb_full b \<and> index \<ge> int (lb_next b) then out
      else let entry = lb_entries b ! nat index in
           if lc_ID (lo_Cursor opts) > 0 \<and> le_ID entry \<ge> lc_ID (lo_Cursor opts)
           then listPageFrom uc b opts limit out is
           else if logFilterMatches uc (lo_Filter opts) entry then
             (let out' = out @ [entry] in
              if int (length out') > limit then out' else listPageFrom uc b opts limit out' is)
           else listPageFrom uc b opts limit out is)"

definition listPage ::
  "(string \<Rightarrow> string) \<Rightarrow> (requestLogCursor \<Rightarrow> bytes option) \<Rightarrow> requestLogBuffer \<Rightarrow> requestLogListOptions
     \<Rightarrow> requestLogListPage" where
  "listPage uc mar b opts =
     (if lb_entries b = [] then emptyLogPage
      else let count = (if lb_full b then length (lb_entries b) else lb_next b);
               limit = normalizedRequestLogLimit (lo_Limit opts)
           in if limit \<le> 0 then emptyLogPage
              else requestLogPage mar (listPageFrom uc b opts limit [] [0..<count]) limit)"

definition logList ::
  "(string \<Rightarrow> string) \<Rightarrow> (requestLogCursor \<Rightarrow> bytes option) \<Rightarrow> requestLogBuffer \<Rightarrow> int \<Rightarrow> requestLogEntry list" where
  "logList uc mar b limit =
     lp_RequestLogs (listPage uc mar b \<lparr>lo_Limit = limit, lo_Filter = zeroLogFilter, lo_Cursor = zeroLogCursor\<rparr>)"

definition listFiltered ::
  "(string \<Rightarrow> string) \<Rightarrow> (requestLogCursor \<Rightarrow> bytes option) \<Rightarrow> requestLogBuffer \<Rightarrow> int \<Rightarrow> requestLogFilter
     \<Rightarrow> requestLogEntry list" where
  "listFiltered uc mar b limit f =
     lp_RequestLogs (listPage uc mar b \<lparr>lo_Limit = limit, lo_Filter = f, lo_Cursor = zeroLogCursor\<rparr>)"

definition keepLogEntry :: "gotime \<Rightarrow> requestLogEntry \<Rightarrow> bool" where
  "keepLogEntry cutoff entry \<longleftrightarrow> \<not> (\<not> IsZero (le_Time entry) \<and> le_Time entry < cutoff)"

definition logPruneBefore :: "requestLogBuffer \<Rightarrow> gotime \<Rightarrow> int \<times> requestLogBuffer" where
  "logPruneBefore b cutoff =
     (if lb_entries b = [] \<or> IsZero cutoff then (0, b)
      else let len = length (lb_entries b);
               count = (if lb_full b then len else lb_next b);
               walked = map (\<lambda>i. lb_entries b ! (if lb_full b then (lb_next b + i) mod len else i)) [0..<count];
               retained = filter (keepLogEntry cutoff) walked;
               full = (length retained = len)
           in (int count - int (length retained),
               b\<lparr>lb_entries := retained @ replicate (len - length retained) zeroLogEntry,
                 lb_next := (if full then 0 else length retained), lb_full := full\<rparr>))"

section \<open>Requests to the management API\<close>

definition requestLogLimit :: "(string \<Rightarrow> string) \<Rightarrow> int \<Rightarrow> int" where
  "requestLogLimit query fallback =
     (let raw = query ''limit'' in
      if raw = [] then normalizedRequestLogLimit fallback
      else case Atoi raw of
             None \<Rightarrow> normalizedRequestLogLimit fallback
           | Some limit \<Rightarrow> if limit \<le> 0 then normalizedRequestLogLimit fallback else normalizedRequestLogLimit limit)"

definition requestLogTimeFilter :: "(string \<Rightarrow> gotime option) \<Rightarrow> string \<Rightarrow> log_error \<Rightarrow> log_error + gotime" where
  "requestLogTimeFilter parseTime raw0 err =
     (let raw = TrimSpace raw0 in
      if raw = [] then Inr 0 else case parseTime raw of None \<Rightarrow> Inl err | Some v \<Rightarrow> Inr v)"

definition requestLogFilterFromRequest ::
  "(string \<Rightarrow> string) \<Rightarrow> (string \<Rightarrow> gotime option) \<Rightarrow> (string \<Rightarrow> string) \<Rightarrow> log_error + requestLogFilter" where
  "requestLogFilterFromRequest uc parseTime query =
     (let low = (\<lambda>k. ToLower uc (TrimSpace (query k)));
          rawStatus = TrimSpace (query ''status'')
      in case (if rawStatus = [] then Inr 0
               else case Atoi rawStatus of
                      None \<Rightarrow> Inl BadStatus
                    | Some status \<Rightarrow> if status < 100 \<or> status > 599 then Inl BadStatus else Inr status) of
           Inl e \<Rightarrow> Inl e
         | Inr status \<Rightarrow>
             (case requestLogTimeFilter parseTime (query ''since'') BadSince of
                Inl e \<Rightarrow> Inl e
              | Inr since \<Rightarrow>
                  (case requestLogTimeFilter parseTime (query ''until'') BadUntil of
                     Inl e \<Rightarrow> Inl e
                   | Inr until \<Rightarrow>
                       if \<not> IsZero since \<and> \<not> IsZero until \<and> since > until then Inl SinceAfterUntil
                       else Inr \<lparr>lf_Subdomain = low ''subdomain'', lf_Status = status, lf_Outcome = low ''outcome'',
                                 lf_RequestID = low ''request_id'', lf_Host = low ''host'',
                                 lf_Method = ToUpper uc (TrimSpace (query ''method'')), lf_Path = low ''path'',
                                 lf_TunnelID = low ''tunnel_id'', lf_Since = since, lf_Until = until\<rparr>)))"

definition requestLogListOptionsFromRequest ::
  "(string \<Rightarrow> string) \<Rightarrow> (string \<Rightarrow> gotime option) \<Rightarrow> (bytes \<Rightarrow> requestLogCursor option) \<Rightarrow> (string \<Rightarrow> string) \<Rightarrow> int
     \<Rightarrow> log_error + requestLogListOptions" where
  "requestLogListOptionsFromRequest uc parseTime unm query fallback =
     (case requestLogFilterFromRequest uc parseTime query of
        Inl e \<Rightarrow> Inl e
      | Inr f \<Rightarrow>
          let raw = TrimSpace (query ''cursor'');
              opts = \<lparr>lo_Limit = requestLogLimit query fallback, lo_Filter = f, lo_Cursor = zeroLogCursor\<rparr>
          in if raw = [] then Inr opts
             else case decodeRequestLogCursor unm raw of
                    Inl e \<Rightarrow> Inl e | Inr cursor \<Rightarrow> Inr (opts\<lparr>lo_Cursor := cursor\<rparr>))"

definition requestLogFiltersForResponse ::
  "(gotime \<Rightarrow> string) \<Rightarrow> requestLogListOptions \<Rightarrow> string \<Rightarrow> requestLogFiltersResponse" where
  "requestLogFiltersForResponse formatTime opts cursor =
     (let f = lo_Filter opts in
      \<lparr>lr_Limit = normalizedRequestLogLimit (lo_Limit opts), lr_Subdomain = lf_Subdomain f, lr_Method = lf_Method f,
       lr_Host = lf_Host f, lr_Path = lf_Path f, lr_Status = lf_Status f, lr_Outcome = lf_Outcome f,
       lr_RequestID = lf_RequestID f, lr_TunnelID = lf_TunnelID f,
       lr_Since = (if IsZero (lf_Since f) then [] else formatTime (lf_Since f)),
       lr_Until = (if IsZero (lf_Until f) then [] else formatTime (lf_Until f)), lr_Cursor = cursor\<rparr>)"

text \<open>A client that follows the cursors: at most \<open>n\<close> pages, \<^term>\<open>None\<close> when more are left.\<close>

fun followPages ::
  "(string \<Rightarrow> string) \<Rightarrow> (requestLogCursor \<Rightarrow> bytes option) \<Rightarrow> (bytes \<Rightarrow> requestLogCursor option)
     \<Rightarrow> requestLogBuffer \<Rightarrow> nat \<Rightarrow> requestLogListOptions \<Rightarrow> requestLogEntry list option" where
  "followPages uc mar unm b 0 opts = None"
| "followPages uc mar unm b (Suc n) opts =
     (let page = listPage uc mar b opts in
      if lp_NextCursor page = [] then Some (lp_RequestLogs page)
      else case decodeRequestLogCursor unm (lp_NextCursor page) of
             Inl e \<Rightarrow> None
           | Inr c \<Rightarrow> map_option (\<lambda>rest. lp_RequestLogs page @ rest) (followPages uc mar unm b n (opts\<lparr>lo_Cursor := c\<rparr>)))"

text \<open>The kept entries, oldest first.\<close>

definition logContents :: "requestLogBuffer \<Rightarrow> requestLogEntry list" where
  "logContents b =
     (if lb_full b then drop (lb_next b) (lb_entries b) @ take (lb_next b) (lb_entries b)
      else take (lb_next b) (lb_entries b))"

text \<open>The entries a listing is about.\<close>

definition selectsLogEntry :: "(string \<Rightarrow> string) \<Rightarrow> requestLogListOptions \<Rightarrow> requestLogEntry \<Rightarrow> bool" where
  "selectsLogEntry uc opts e \<longleftrightarrow>
     \<not> (lc_ID (lo_Cursor opts) > 0 \<and> le_ID e \<ge> lc_ID (lo_Cursor opts)) \<and> logFilterMatches uc (lo_Filter opts) e"

text \<open>
  The documented round trip of \<open>encoding/json\<close> on cursors, for the instants it can represent: the
  years up to 9999, that is 3652058 days after the zero \<open>Time\<close>.
\<close>

definition jsonTimeLimit :: gotime where
  "jsonTimeLimit = 3652058 * 86400 * Second"

definition cursorCoding :: "(requestLogCursor \<Rightarrow> bytes option) \<Rightarrow> (bytes \<Rightarrow> requestLogCursor option) \<Rightarrow> bool" where
  "cursorCoding mar unm \<longleftrightarrow>
     (\<forall>c. 0 < lc_ID c \<and> 0 < lc_Time c \<and> lc_Time c < jsonTimeLimit \<longrightarrow>
        (\<exists>data. mar c = Some data \<and> data \<noteq> [] \<and> unm data = Some c))"

text \<open>A log that was filled by \<open>n\<close> requests.\<close>

definition demoLogEntry :: "int \<Rightarrow> requestLogEntry" where
  "demoLogEntry t = zeroLogEntry\<lparr>le_Time := t, le_Method := ''GET''\<rparr>"

definition demoLog :: requestLogBuffer where
  "demoLog = foldl addLogEntry (newRequestLogBuffer 3) [demoLogEntry 10, demoLogEntry 20, demoLogEntry 30, demoLogEntry 40]"

definition demoMar :: "requestLogCursor \<Rightarrow> bytes option" where
  "demoMar c = Some (showNat (nat (lc_Time c)) @ '','' @ showNat (nat (lc_ID c)))"

definition demoUnm :: "bytes \<Rightarrow> requestLogCursor option" where
  "demoUnm data =
     Some \<lparr>lc_Time = digitsVal (takeWhile isDigit data), lc_ID = digitsVal (tl (dropWhile isDigit data))\<rparr>"

section \<open>Lemmas\<close>

interpretation lg: ring_log_ids lb_entries lb_next lb_full stampLogEntry addLogEntry le_ID lb_nextID
  by unfold_locales (auto simp: addLogEntry_def stampLogEntry_def Let_def)

interpretation lg_prune: ring_log_prune lb_entries lb_next lb_full stampLogEntry addLogEntry
  "\<lambda>c b. snd (logPruneBefore b c)" keepLogEntry zeroLogEntry "\<lambda>c. \<not> IsZero c"
  by unfold_locales (auto simp: logPruneBefore_def lg.count_def Let_def cong: if_cong)

lemma logContents_eq: "logContents b = lg.contents b"
  by (simp add: logContents_def lg.contents_def)

lemma listPageFrom_spec:
  assumes "int (length out) \<le> limit"
    and "\<forall>i \<in> set is. lb_full b \<or> ringIndex (lb_next b) (length (lb_entries b)) i < int (lb_next b)"
  shows "listPageFrom uc b opts limit out is =
    out @ take (nat limit + 1 - length out)
      (filter (selectsLogEntry uc opts) (map (\<lambda>i. lb_entries b ! nat (ringIndex (lb_next b) (length (lb_entries b)) i)) is))"
  using assms
proof (induction "is" arbitrary: out)
  case (Cons i "is")
  let ?e = "lb_entries b ! nat (ringIndex (lb_next b) (length (lb_entries b)) i)"
  have ok: "\<not> (\<not> lb_full b \<and> ringIndex (lb_next b) (length (lb_entries b)) i \<ge> int (lb_next b))"
    using Cons.prems by auto
  show ?case
  proof (cases "selectsLogEntry uc opts ?e")
    case False
    then show ?thesis using Cons ok by (auto simp: Let_def selectsLogEntry_def)
  next
    case True
    show ?thesis
    proof (cases "int (length (out @ [?e])) > limit")
      case big: True
      then have "nat limit + 1 - length out = Suc 0" using Cons.prems(1) by simp
      then show ?thesis using True big ok by (auto simp: Let_def selectsLogEntry_def)
    next
      case small: False
      then have "nat limit + 1 - length out = Suc (nat limit + 1 - length (out @ [?e]))" by simp
      then show ?thesis using True small ok Cons by (auto simp: Let_def selectsLogEntry_def)
    qed
  qed
qed simp

lemma walk_in_range:
  assumes "lg.ring_ok b" "i < lg.count b"
  shows "lb_full b \<or> ringIndex (lb_next b) (length (lb_entries b)) i < int (lb_next b)"
  using assms by (auto simp: lg.count_def ringIndex_def Let_def split: if_splits)

lemma listPage_spec:
  fixes uc :: "string \<Rightarrow> string"
  assumes "lg.ring_ok b" "0 < normalizedRequestLogLimit (lo_Limit opts)"
  defines "lim \<equiv> nat (normalizedRequestLogLimit (lo_Limit opts))"
    and "xs \<equiv> filter (selectsLogEntry uc opts) (rev (lg.contents b))"
  shows "lp_RequestLogs (listPage uc mar b opts) = take lim xs \<and>
    lp_NextCursor (listPage uc mar b opts) = (if lim < length xs then encodeRequestLogCursor mar (xs ! (lim - 1)) else [])"
proof -
  let ?l = "normalizedRequestLogLimit (lo_Limit opts)"
  have nn: "normalizedRequestLogLimit ?l = ?l"
    by (simp add: normalizedRequestLogLimit_def maxRequestLogLimit_def defaultRequestLogLimit_def)
  show ?thesis
  proof (cases "lb_entries b = []")
    case True
    then have "xs = []" using assms(1) by (simp add: xs_def lg.contents_def lg.ring_ok_def)
    then show ?thesis using True by (simp add: listPage_def emptyLogPage_def)
  next
    case False
    have fr: "listPageFrom uc b opts ?l [] [0..<lg.count b] = take (Suc lim) xs"
      using listPageFrom_spec [of "[]" ?l "[0..<lg.count b]" b uc opts] walk_in_range [OF assms(1)] assms(2)
      by (simp add: lg.newest_first [OF assms(1)] xs_def lim_def)
    have p: "listPage uc mar b opts = requestLogPage mar (take (Suc lim) xs) ?l"
      using False assms(2) fr by (simp add: listPage_def Let_def lg.count_def)
    have lim: "0 < lim" "int lim = ?l" using assms(2) by (simp_all add: lim_def)
    show ?thesis
    proof (cases "lim < length xs")
      case True
      then have "last (take lim xs) = xs ! (lim - 1)" using lim by (subst last_conv_nth) auto
      then show ?thesis using True p lim assms(2) nn
        by (auto simp: requestLogPage_def Let_def lim_def min_def emptyLogPage_def)
    next
      case False
      then show ?thesis using p lim assms(2) nn by (auto simp: requestLogPage_def Let_def emptyLogPage_def)
    qed
  qed
qed

lemma RawURLEncoding_Nil_iff: "RawURLEncoding b = [] \<longleftrightarrow> b = []"
  by (cases b rule: sextets.cases) (simp_all add: RawURLEncoding_def Let_def)

lemma cursor_roundtrip:
  assumes "cursorCoding mar unm" "0 < le_ID e" "0 < le_Time e" "le_Time e < jsonTimeLimit"
  shows "encodeRequestLogCursor mar e \<noteq> []"
    "decodeRequestLogCursor unm (encodeRequestLogCursor mar e) = Inr \<lparr>lc_Time = le_Time e, lc_ID = le_ID e\<rparr>"
proof -
  obtain data where "mar \<lparr>lc_Time = le_Time e, lc_ID = le_ID e\<rparr> = Some data" "data \<noteq> []"
    "unm data = Some \<lparr>lc_Time = le_Time e, lc_ID = le_ID e\<rparr>"
    using assms unfolding cursorCoding_def by (metis requestLogCursor.select_convs)
  then show "encodeRequestLogCursor mar e \<noteq> []"
    "decodeRequestLogCursor unm (encodeRequestLogCursor mar e) = Inr \<lparr>lc_Time = le_Time e, lc_ID = le_ID e\<rparr>"
    using assms(2,3)
    by (simp_all add: IsZero_def encodeRequestLogCursor_def decodeRequestLogCursor_def RawURLEncoding_Nil_iff RawURLDecode_Encoding)
qed

lemma select_after_cursor:
  assumes "selectsLogEntry uc opts x" "0 < le_ID x"
  shows "filter (selectsLogEntry uc (opts\<lparr>lo_Cursor := \<lparr>lc_Time = t, lc_ID = le_ID x\<rparr>\<rparr>)) es =
    filter (\<lambda>e. le_ID e < le_ID x) (filter (selectsLogEntry uc opts) es)"
  using assms by (auto simp: selectsLogEntry_def intro!: filter_cong)

lemma followPages_complete:
  assumes ids: "lg.ids_ok b" and coding: "cursorCoding mar unm" and lim0: "0 < normalizedRequestLogLimit (lo_Limit opts)"
    and times: "\<forall>e \<in> set (lg.contents b). 0 < le_Time e \<and> le_Time e < jsonTimeLimit"
  shows "length (filter (selectsLogEntry uc opts) (rev (lg.contents b))) < n \<Longrightarrow>
    followPages uc mar unm b n opts = Some (filter (selectsLogEntry uc opts) (rev (lg.contents b)))"
  using lim0
proof (induction n arbitrary: opts)
  case (Suc n)
  define lim where "lim = nat (normalizedRequestLogLimit (lo_Limit opts))"
  define xs where "xs = filter (selectsLogEntry uc opts) (rev (lg.contents b))"
  have ok: "lg.ring_ok b" using ids by (simp add: lg.ids_ok_def)
  note page = listPage_spec [OF ok Suc.prems(2), of uc mar, folded lim_def xs_def]
  have lim: "0 < lim" using Suc.prems(2) by (simp add: lim_def)
  show ?case
  proof (cases "lim < length xs")
    case False
    then show ?thesis using page by (simp add: Let_def xs_def)
  next
    case True
    define x where "x = xs ! (lim - 1)"
    have x: "x \<in> set xs" using True lim by (simp add: x_def)
    then have "x \<in> set (lg.contents b)" and sel: "selectsLogEntry uc opts x" by (simp_all add: xs_def)
    then have "0 < le_ID x" "0 < le_Time x" "le_Time x < jsonTimeLimit" using ids times by (auto simp: lg.ids_ok_def)
    note cur = cursor_roundtrip [OF coding this]
    have sorted: "sorted_wrt (\<lambda>x y. le_ID y < le_ID x) xs"
      using lg.newest_ids [OF ids] by (simp add: xs_def sorted_wrt_filter)
    define rest where "rest = filter (\<lambda>e. le_ID e < le_ID x) xs"
    have split: "take lim xs @ rest = xs"
      using lg.page_rest [OF sorted lim] True by (simp add: rest_def x_def)
    let ?opts = "opts\<lparr>lo_Cursor := \<lparr>lc_Time = le_Time x, lc_ID = le_ID x\<rparr>\<rparr>"
    have r: "filter (selectsLogEntry uc ?opts) (rev (lg.contents b)) = rest"
      using select_after_cursor [OF sel \<open>0 < le_ID x\<close>] by (simp add: rest_def xs_def)
    have "length (take lim xs) + length rest = length xs" using split by (metis length_append)
    then have "length rest < n" using Suc.prems(1) lim True by (simp add: xs_def)
    then have "followPages uc mar unm b n ?opts = Some rest"
      using Suc.IH [of ?opts] Suc.prems(2) r by simp
    moreover have "lp_NextCursor (listPage uc mar b opts) = encodeRequestLogCursor mar x"
      "lp_RequestLogs (listPage uc mar b opts) = take lim xs"
      using page True by (simp_all add: x_def)
    ultimately show ?thesis using cur split by (simp add: Let_def xs_def [symmetric])
  qed
qed simp

lemma demo_coding: "cursorCoding demoMar demoUnm"
proof -
  have "takeWhile isDigit (showNat m @ '','' @ t) = showNat m" "dropWhile isDigit (showNat m @ '','' @ t) = '','' @ t" for m t
    using showNat_digits [of m] by (simp_all add: list_all_iff takeWhile_append2 dropWhile_append2 isDigit_def)
  then show ?thesis
    by (auto simp: cursorCoding_def demoMar_def demoUnm_def digitsVal_showNat)
qed

lemma newLog_ok: "lg.ids_ok (newRequestLogBuffer limit)"
  by (simp add: lg.ids_ok_def lg.ring_ok_def lg.contents_def newRequestLogBuffer_def)

lemma filled_log:
  assumes "lg.ids_ok b" "\<forall>e \<in> set es. le_ID e = 0"
  shows "lg.ids_ok (foldl addLogEntry b es)"
  using assms by (induction es arbitrary: b) (auto intro: lg.ids_ok_add)

lemma drop_snoc_drop:
  "(let ys = drop (Suc (length c) - n) (c @ [e]) @ es in drop (length ys - n) ys) =
   drop (length c + Suc (length es) - n) (c @ e # es)"
proof -
  have "drop (Suc (length c) - n) (c @ [e]) @ es = drop (Suc (length c) - n) (c @ e # es)"
    by (cases n) simp_all
  moreover have "length (c @ e # es) - (Suc (length c) - n) - n + (Suc (length c) - n) = length c + Suc (length es) - n"
    by simp
  ultimately show ?thesis by (simp only: Let_def drop_drop length_drop)
qed

text \<open>A new log after \<open>es\<close> holds the newest of them, numbered from 1.\<close>

lemma filled_contents:
  assumes "lg.ids_ok b" "lb_entries b \<noteq> []" "length (lb_entries b) = n" "\<forall>e \<in> set es. le_ID e = 0"
  shows "map (\<lambda>e. e\<lparr>le_ID := 0\<rparr>) (lg.contents (foldl addLogEntry b es)) =
    (let xs = map (\<lambda>e. e\<lparr>le_ID := 0\<rparr>) (lg.contents b) @ es in drop (length xs - n) xs)"
  using assms
proof (induction es arbitrary: b)
  case Nil
  then have "length (lg.contents b) \<le> n"
    using lg.length_contents [of b] lg.count_le [of b] by (simp add: lg.ids_ok_def)
  then show ?case by simp
next
  case (Cons e es)
  have ok: "lg.ring_ok b" using Cons.prems(1) by (simp add: lg.ids_ok_def)
  have len: "length (lg.contents b) \<le> n"
    using lg.length_contents [OF ok] lg.count_le [OF ok] Cons.prems(3) by simp
  have e: "(stampLogEntry b e)\<lparr>le_ID := 0\<rparr> = e" using Cons.prems(4) by (simp add: stampLogEntry_def)
  define c where "c = map (\<lambda>e. e\<lparr>le_ID := 0\<rparr>) (lg.contents b)"
  have c1: "map (\<lambda>e. e\<lparr>le_ID := 0\<rparr>) (lg.contents (addLogEntry b e)) = drop (Suc (length c) - n) (c @ [e])"
    using lg.contents_add [OF ok Cons.prems(2), of e] Cons.prems(3) e
    by (simp add: Let_def drop_map [symmetric] c_def)
  have "lb_entries (addLogEntry b e) \<noteq> []" "length (lb_entries (addLogEntry b e)) = n"
    using lg.length_entries_add [of b e] Cons.prems(2,3) by auto
  with Cons.IH [of "addLogEntry b e"] Cons.prems(1,4) lg.ids_ok_add [of b e]
  have "map (\<lambda>e. e\<lparr>le_ID := 0\<rparr>) (lg.contents (foldl addLogEntry (addLogEntry b e) es)) =
      (let xs = drop (Suc (length c) - n) (c @ [e]) @ es in drop (length xs - n) xs)"
    by (simp add: c1)
  then show ?case unfolding drop_snoc_drop by (simp add: Let_def c_def)
qed

section \<open>Properties\<close>

text \<open>
  The request log keeps the newest entries.  After any sequence of requests a log with
  \<open>limit\<close> slots holds exactly the last \<open>limit\<close> of them, oldest first, apart from the numbers it
  gives them.
\<close>

theorem log_keeps_newest:
  assumes "0 < limit" "\<forall>e \<in> set es. le_ID e = 0"
  shows "map (\<lambda>e. e\<lparr>le_ID := 0\<rparr>) (logContents (foldl addLogEntry (newRequestLogBuffer limit) es))
    = drop (length es - nat limit) es"
  using filled_contents [OF newLog_ok [of limit], of "nat limit" es] assms
  by (simp add: newRequestLogBuffer_def lg.contents_def logContents_eq [of "foldl _ _ _"])

theorem log_keeps_newest_witness:
  "map (\<lambda>e. e\<lparr>le_ID := 0\<rparr>) (logContents demoLog)
    = [demoLogEntry 20, demoLogEntry 30, demoLogEntry 40]"
  using log_keeps_newest [of 3 "[demoLogEntry 10, demoLogEntry 20, demoLogEntry 30, demoLogEntry 40]"]
  by (simp add: demoLog_def demoLogEntry_def zeroLogEntry_def)

text \<open>
  C26: paging through the log misses nothing and repeats nothing.  A client that starts without a
  cursor and follows \<open>next_cursor\<close> gets, after finitely many pages, every entry that matches the
  filter exactly once, newest first.
\<close>

theorem log_pages_complete:
  assumes "\<forall>e \<in> set es. le_ID e = 0 \<and> 0 < le_Time e \<and> le_Time e < jsonTimeLimit"
    and "cursorCoding mar unm" "0 < normalizedRequestLogLimit (lo_Limit opts)"
    and "b = foldl addLogEntry (newRequestLogBuffer limit) es"
  shows "\<exists>n. followPages uc mar unm b n opts =
    Some (filter (selectsLogEntry uc opts) (rev (logContents b)))"
proof -
  have ids: "lg.ids_ok b" using filled_log [OF newLog_ok] assms by simp
  have "\<forall>e \<in> set (lg.contents b). 0 < le_Time e \<and> le_Time e < jsonTimeLimit"
  proof (cases "0 < limit")
    case True
    then have "map (\<lambda>e. e\<lparr>le_ID := 0\<rparr>) (lg.contents b) = drop (length es - nat limit) es"
      using filled_contents [OF newLog_ok [of limit], of "nat limit" es] assms
      by (simp add: newRequestLogBuffer_def lg.contents_def)
    then have "(\<lambda>e. e\<lparr>le_ID := 0\<rparr>) ` set (lg.contents b) \<subseteq> set es"
      by (metis list.set_map set_drop_subset)
    then have "e\<lparr>le_ID := 0\<rparr> \<in> set es" if "e \<in> set (lg.contents b)" for e using that by blast
    then show ?thesis using assms(1) by fastforce
  next
    case False
    then have "lb_entries b = []"
      using assms(4) by (induction es arbitrary: b rule: rev_induct) (simp_all add: newRequestLogBuffer_def addLogEntry_def)
    then show ?thesis using ids by (simp add: lg.contents_def)
  qed
  then show ?thesis unfolding logContents_eq using followPages_complete [OF ids assms(2,3)] by blast
qed

theorem log_pages_complete_witness:
  "\<exists>n. followPages id demoMar demoUnm demoLog n
        \<lparr>lo_Limit = 2, lo_Filter = zeroLogFilter, lo_Cursor = zeroLogCursor\<rparr> =
      Some (filter (selectsLogEntry id \<lparr>lo_Limit = 2, lo_Filter = zeroLogFilter, lo_Cursor = zeroLogCursor\<rparr>)
        (rev (logContents demoLog)))"
  by (rule log_pages_complete [OF _ demo_coding _ demoLog_def])
    (simp_all add: demoLogEntry_def zeroLogEntry_def jsonTimeLimit_def Second_def normalizedRequestLogLimit_def maxRequestLogLimit_def)

end
