(* ===== verification/AuditLog.thy ===== *)
theory AuditLog
  imports RingLog Encodings
begin

text \<open>
  \<open>audit_events.go\<close> of the control plane: the in-memory audit log, its filters and pages.  The
  parameters are those of the request log of the gateway; \<open>fieldsText\<close> of an event depends on the
  order in which Go visits the map of fields, which is the argument \<open>order\<close>.
\<close>

record AuditEvent =
  ae_ID :: int
  ae_Time :: gotime
  ae_Level :: string
  ae_Message :: string
  ae_Event :: string
  ae_Method :: string
  ae_Path :: string
  ae_RemoteIP :: string
  ae_RequestID :: string
  ae_Fields :: "string \<rightharpoonup> string"

record auditEventCursor =
  ac_Time :: gotime
  ac_ID :: int

record AuditEventListOptions =
  ao_Limit :: int
  ao_Event :: string
  ao_Level :: string
  ao_RequestID :: string
  ao_RemoteIP :: string
  ao_Field :: string
  ao_Since :: gotime
  ao_Until :: gotime
  ao_Cursor :: auditEventCursor

record AuditEventListPage =
  ap_Events :: "AuditEvent list"
  ap_NextCursor :: string

record auditEventFiltersResponse =
  af_Limit :: int
  af_Event :: string
  af_Level :: string
  af_RequestID :: string
  af_RemoteIP :: string
  af_Field :: string
  af_Since :: string
  af_Until :: string
  af_Cursor :: string

record MemoryAuditEventStore =
  av_entries :: "AuditEvent list"
  av_next :: nat
  av_full :: bool
  av_nextID :: int

datatype audit_error = AuditBadSince | AuditBadUntil | AuditSinceAfterUntil | AuditBadCursor

definition zeroAuditEvent :: AuditEvent where
  "zeroAuditEvent =
     \<lparr>ae_ID = 0, ae_Time = 0, ae_Level = [], ae_Message = [], ae_Event = [], ae_Method = [], ae_Path = [],
      ae_RemoteIP = [], ae_RequestID = [], ae_Fields = Map.empty\<rparr>"

definition zeroAuditCursor :: auditEventCursor where
  "zeroAuditCursor = \<lparr>ac_Time = 0, ac_ID = 0\<rparr>"

definition maxAuditEventLimit :: int where
  "maxAuditEventLimit = 1000"

definition defaultAuditEventLimit :: int where
  "defaultAuditEventLimit = 500"

definition NewMemoryAuditEventStore :: "int \<Rightarrow> MemoryAuditEventStore" where
  "NewMemoryAuditEventStore limit =
     \<lparr>av_entries = (if limit \<le> 0 then [] else replicate (nat limit) zeroAuditEvent), av_next = 0, av_full = False,
      av_nextID = 0\<rparr>"

definition stampAuditEvent :: "MemoryAuditEventStore \<Rightarrow> AuditEvent \<Rightarrow> AuditEvent" where
  "stampAuditEvent s entry = (if ae_ID entry = 0 then entry\<lparr>ae_ID := av_nextID s + 1\<rparr> else entry)"

definition auditAdd :: "MemoryAuditEventStore \<Rightarrow> AuditEvent \<Rightarrow> MemoryAuditEventStore" where
  "auditAdd s entry =
     (if av_entries s = [] then s
      else let nextID = (if ae_ID entry = 0 then av_nextID s + 1
                         else if ae_ID entry > av_nextID s then ae_ID entry else av_nextID s);
               next = (av_next s + 1) mod length (av_entries s)
           in \<lparr>av_entries = (av_entries s)[av_next s := stampAuditEvent s entry], av_next = next,
               av_full = (if next = 0 then True else av_full s), av_nextID = nextID\<rparr>)"

definition normalizedAuditEventLimit :: "int \<Rightarrow> int" where
  "normalizedAuditEventLimit limit =
     (if limit \<le> 0 then defaultAuditEventLimit
      else if limit > maxAuditEventLimit then maxAuditEventLimit else limit)"

definition auditEventFieldsText :: "string list \<Rightarrow> (string \<rightharpoonup> string) \<Rightarrow> string" where
  "auditEventFieldsText order fs = Join (map (\<lambda>k. k @ ''='' @ the (fs k)) order) '' ''"

definition auditEventMatches ::
  "(string \<Rightarrow> string) \<Rightarrow> (AuditEvent \<Rightarrow> string list) \<Rightarrow> AuditEvent \<Rightarrow> AuditEventListOptions \<Rightarrow> bool" where
  "auditEventMatches uc order event opts =
     (let has = (\<lambda>text part. Contains (ToLower uc text) (ToLower uc part)) in
      if ac_ID (ao_Cursor opts) > 0 \<and> ae_ID event \<ge> ac_ID (ao_Cursor opts) then False
      else if \<not> IsZero (ao_Since opts) \<and> ae_Time event < ao_Since opts then False
      else if \<not> IsZero (ao_Until opts) \<and> ae_Time event > ao_Until opts then False
      else if ao_Event opts \<noteq> [] \<and> \<not> has (ae_Event event) (ao_Event opts) then False
      else if ao_Level opts \<noteq> [] \<and> ToUpper uc (ae_Level event) \<noteq> ao_Level opts then False
      else if ao_RequestID opts \<noteq> [] \<and> \<not> has (ae_RequestID event) (ao_RequestID opts) then False
      else if ao_RemoteIP opts \<noteq> [] \<and> \<not> has (ae_RemoteIP event) (ao_RemoteIP opts) then False
      else if ao_Field opts \<noteq> [] \<and> \<not> has (auditEventFieldsText (order event) (ae_Fields event)) (ao_Field opts) then False
      else True)"

definition encodeAuditEventCursor :: "(auditEventCursor \<Rightarrow> bytes option) \<Rightarrow> AuditEvent \<Rightarrow> string" where
  "encodeAuditEventCursor mar event =
     (if ae_ID event \<le> 0 \<or> IsZero (ae_Time event) then []
      else case mar \<lparr>ac_Time = ae_Time event, ac_ID = ae_ID event\<rparr> of
             None \<Rightarrow> [] | Some data \<Rightarrow> RawURLEncoding data)"

definition decodeAuditEventCursor :: "(bytes \<Rightarrow> auditEventCursor option) \<Rightarrow> string \<Rightarrow> audit_error + auditEventCursor" where
  "decodeAuditEventCursor unm raw =
     (case RawURLDecode raw of
        None \<Rightarrow> Inl AuditBadCursor
      | Some data \<Rightarrow>
          (case unm data of
             None \<Rightarrow> Inl AuditBadCursor
           | Some cursor \<Rightarrow>
               if ac_ID cursor \<le> 0 \<or> IsZero (ac_Time cursor) then Inl AuditBadCursor else Inr cursor))"

definition auditEventPage ::
  "(auditEventCursor \<Rightarrow> bytes option) \<Rightarrow> AuditEvent list \<Rightarrow> int \<Rightarrow> AuditEventListPage" where
  "auditEventPage mar events limit0 =
     (let limit = normalizedAuditEventLimit limit0 in
      if int (length events) \<le> limit then \<lparr>ap_Events = events, ap_NextCursor = []\<rparr>
      else let page = take (nat limit) events
           in \<lparr>ap_Events = page, ap_NextCursor = encodeAuditEventCursor mar (last page)\<rparr>)"

text \<open>The loop of \<open>List\<close>, with the indices still to visit.\<close>

fun auditListFrom ::
  "(string \<Rightarrow> string) \<Rightarrow> (AuditEvent \<Rightarrow> string list) \<Rightarrow> MemoryAuditEventStore \<Rightarrow> AuditEventListOptions \<Rightarrow> int
     \<Rightarrow> AuditEvent list \<Rightarrow> nat list \<Rightarrow> AuditEvent list" where
  "auditListFrom uc order s opts limit out [] = out"
| "auditListFrom uc order s opts limit out (i # is) =
     (let index = ringIndex (av_next s) (length (av_entries s)) i in
      if \<not> av_full s \<and> index \<ge> int (av_next s) then out
      else let entry = av_entries s ! nat index in
           if \<not> auditEventMatches uc order entry opts then auditListFrom uc order s opts limit out is
           else let out' = out @ [entry] in
                if int (length out') > limit then out' else auditListFrom uc order s opts limit out' is)"

definition auditList ::
  "(string \<Rightarrow> string) \<Rightarrow> (AuditEvent \<Rightarrow> string list) \<Rightarrow> (auditEventCursor \<Rightarrow> bytes option)
     \<Rightarrow> MemoryAuditEventStore \<Rightarrow> AuditEventListOptions \<Rightarrow> AuditEventListPage" where
  "auditList uc order mar s opts =
     (if av_entries s = [] then \<lparr>ap_Events = [], ap_NextCursor = []\<rparr>
      else let limit = normalizedAuditEventLimit (ao_Limit opts);
               count = (if av_full s then length (av_entries s) else av_next s)
           in auditEventPage mar (auditListFrom uc order s opts limit [] [0..<count]) limit)"

definition keepAuditEvent :: "gotime \<Rightarrow> AuditEvent \<Rightarrow> bool" where
  "keepAuditEvent cutoff entry \<longleftrightarrow> \<not> (\<not> IsZero (ae_Time entry) \<and> ae_Time entry < cutoff)"

definition auditPruneBefore :: "MemoryAuditEventStore \<Rightarrow> gotime \<Rightarrow> int \<times> MemoryAuditEventStore" where
  "auditPruneBefore s cutoff =
     (if av_entries s = [] \<or> IsZero cutoff then (0, s)
      else let len = length (av_entries s);
               count = (if av_full s then len else av_next s);
               walked = map (\<lambda>i. av_entries s ! (if av_full s then (av_next s + i) mod len else i)) [0..<count];
               retained = filter (keepAuditEvent cutoff) walked;
               full = (length retained = len)
           in (int count - int (length retained),
               s\<lparr>av_entries := retained @ replicate (len - length retained) zeroAuditEvent,
                 av_next := (if full then 0 else length retained), av_full := full\<rparr>))"

definition auditEventLimit :: "(string \<Rightarrow> string) \<Rightarrow> int \<Rightarrow> int" where
  "auditEventLimit query fallback =
     (let raw = query ''limit'' in
      if raw = [] then normalizedAuditEventLimit fallback
      else case Atoi raw of
             None \<Rightarrow> normalizedAuditEventLimit fallback
           | Some limit \<Rightarrow> if limit \<le> 0 then normalizedAuditEventLimit fallback else normalizedAuditEventLimit limit)"

definition auditEventListOptionsFromRequest ::
  "(string \<Rightarrow> string) \<Rightarrow> (string \<Rightarrow> gotime option) \<Rightarrow> (bytes \<Rightarrow> auditEventCursor option) \<Rightarrow> (string \<Rightarrow> string) \<Rightarrow> int
     \<Rightarrow> audit_error + AuditEventListOptions" where
  "auditEventListOptionsFromRequest uc parseTime unm query fallback =
     (let time = (\<lambda>raw err. if raw = [] then Inr 0 else case parseTime raw of None \<Rightarrow> Inl err | Some v \<Rightarrow> Inr v)
      in case time (TrimSpace (query ''since'')) AuditBadSince of
           Inl e \<Rightarrow> Inl e
         | Inr since \<Rightarrow>
             (case time (TrimSpace (query ''until'')) AuditBadUntil of
                Inl e \<Rightarrow> Inl e
              | Inr until \<Rightarrow>
                  if \<not> IsZero since \<and> \<not> IsZero until \<and> since > until then Inl AuditSinceAfterUntil
                  else let raw = TrimSpace (query ''cursor'');
                           opts = \<lparr>ao_Limit = auditEventLimit query fallback, ao_Event = TrimSpace (query ''event''),
                                   ao_Level = ToUpper uc (TrimSpace (query ''level'')),
                                   ao_RequestID = TrimSpace (query ''request_id''),
                                   ao_RemoteIP = TrimSpace (query ''remote_ip''), ao_Field = TrimSpace (query ''field''),
                                   ao_Since = since, ao_Until = until, ao_Cursor = zeroAuditCursor\<rparr>
                       in if raw = [] then Inr opts
                          else case decodeAuditEventCursor unm raw of
                                 Inl e \<Rightarrow> Inl e | Inr cursor \<Rightarrow> Inr (opts\<lparr>ao_Cursor := cursor\<rparr>)))"

definition auditEventFiltersForResponse ::
  "(gotime \<Rightarrow> string) \<Rightarrow> AuditEventListOptions \<Rightarrow> string \<Rightarrow> auditEventFiltersResponse" where
  "auditEventFiltersForResponse formatTime opts cursor =
     \<lparr>af_Limit = normalizedAuditEventLimit (ao_Limit opts), af_Event = ao_Event opts, af_Level = ao_Level opts,
      af_RequestID = ao_RequestID opts, af_RemoteIP = ao_RemoteIP opts, af_Field = ao_Field opts,
      af_Since = (if IsZero (ao_Since opts) then [] else formatTime (ao_Since opts)),
      af_Until = (if IsZero (ao_Until opts) then [] else formatTime (ao_Until opts)), af_Cursor = cursor\<rparr>"

text \<open>The kept events, oldest first.\<close>

definition auditContents :: "MemoryAuditEventStore \<Rightarrow> AuditEvent list" where
  "auditContents s =
     (if av_full s then drop (av_next s) (av_entries s) @ take (av_next s) (av_entries s)
      else take (av_next s) (av_entries s))"

section \<open>Lemmas\<close>

interpretation au: ring_log_ids av_entries av_next av_full stampAuditEvent auditAdd ae_ID av_nextID
  by unfold_locales (auto simp: auditAdd_def stampAuditEvent_def Let_def)

interpretation au_prune: ring_log_prune av_entries av_next av_full stampAuditEvent auditAdd
  "\<lambda>c s. snd (auditPruneBefore s c)" keepAuditEvent zeroAuditEvent "\<lambda>c. \<not> IsZero c"
  by unfold_locales (auto simp: auditPruneBefore_def au.count_def Let_def cong: if_cong)

lemma auditContents_eq: "auditContents s = au.contents s"
  by (simp add: auditContents_def au.contents_def)

lemma auditListFrom_spec:
  assumes "int (length out) \<le> limit"
    and "\<forall>i \<in> set is. av_full s \<or> ringIndex (av_next s) (length (av_entries s)) i < int (av_next s)"
  shows "auditListFrom uc order s opts limit out is =
    out @ take (nat limit + 1 - length out)
      (filter (\<lambda>e. auditEventMatches uc order e opts)
        (map (\<lambda>i. av_entries s ! nat (ringIndex (av_next s) (length (av_entries s)) i)) is))"
  using assms
proof (induction "is" arbitrary: out)
  case (Cons i "is")
  let ?e = "av_entries s ! nat (ringIndex (av_next s) (length (av_entries s)) i)"
  have ok: "\<not> (\<not> av_full s \<and> ringIndex (av_next s) (length (av_entries s)) i \<ge> int (av_next s))"
    using Cons.prems by auto
  show ?case
  proof (cases "auditEventMatches uc order ?e opts \<and> int (length (out @ [?e])) > limit")
    case True
    then have "limit < 1 + int (length out)" by simp
    then have "nat limit + 1 - length out = Suc 0" using Cons.prems(1) by simp
    then show ?thesis using True ok by (auto simp: Let_def)
  next
    case False
    then have "auditEventMatches uc order ?e opts \<Longrightarrow>
        nat limit + 1 - length out = Suc (nat limit + 1 - length (out @ [?e]))" by simp
    then show ?thesis using False ok Cons by (auto simp: Let_def)
  qed
qed simp

lemma auditPruneBefore_contents:
  assumes "au.ring_ok s" "\<not> IsZero cutoff"
  shows "auditContents (snd (auditPruneBefore s cutoff)) = filter (keepAuditEvent cutoff) (auditContents s)"
    and "fst (auditPruneBefore s cutoff) = int (length (auditContents s)) - int (length (auditContents (snd (auditPruneBefore s cutoff))))"
proof -
  show c: "auditContents (snd (auditPruneBefore s cutoff)) = filter (keepAuditEvent cutoff) (auditContents s)"
    using au_prune.prune_contents(1) [OF assms(1), of cutoff] assms(2) by (simp add: auditContents_eq)
  show "fst (auditPruneBefore s cutoff) = int (length (auditContents s)) - int (length (auditContents (snd (auditPruneBefore s cutoff))))"
  proof (cases "av_entries s = []")
    case True
    then show ?thesis by (simp add: auditPruneBefore_def)
  next
    case False
    have "fst (auditPruneBefore s cutoff) = int (au.count s) - int (length (filter (keepAuditEvent cutoff) (au.contents s)))"
      unfolding auditPruneBefore_def Let_def au.count_def
      using False assms(2) au_prune.oldest_first [OF assms(1), unfolded au.count_def]
      by (simp only: if_False simp_thms fst_conv)
    then show ?thesis using c au.length_contents [OF assms(1)] by (simp add: auditContents_eq)
  qed
qed

end
