(* ===== verification/ClientIP.thy ===== *)
theory ClientIP
  imports Headers NetIP
begin

text \<open>
  Packages \<open>clientip\<close> and \<open>requestid\<close>, shared by the gateway and the control plane: the address of
  the client behind trusted proxies, and the identifier of a request.  Of an \<open>http.Request\<close> they
  read the peer address and the header.
\<close>

section \<open>Client addresses\<close>

record Resolver =
  rs_trusted :: "Prefix list"

datatype trusted_error = BadTrustedProxy string

definition NewResolver :: "Prefix list \<Rightarrow> Resolver" where
  "NewResolver trusted = \<lparr>rs_trusted = map Masked trusted\<rparr>"

fun parseTrustedFrom :: "Prefix list \<Rightarrow> string list \<Rightarrow> trusted_error + Prefix list" where
  "parseTrustedFrom out [] = Inr out"
| "parseTrustedFrom out (field # fs) =
     (case ParsePrefixGo field of
        Some prefix \<Rightarrow> parseTrustedFrom (out @ [Masked prefix]) fs
      | None \<Rightarrow>
          (case ParseAddrGo field of
             None \<Rightarrow> Inl (BadTrustedProxy field)
           | Some addr \<Rightarrow> parseTrustedFrom (out @ [Masked (PrefixFromAddr (Unmap addr))]) fs))"

definition ParseTrustedProxies :: "string \<Rightarrow> trusted_error + Prefix list" where
  "ParseTrustedProxies raw =
     parseTrustedFrom [] (FieldsFunc raw (\<lambda>r. r = CHR '','' \<or> r = CHR '' '' \<or> r = CHR 0x09 \<or> r = CHR 0x0A))"

definition isTrusted :: "Resolver \<Rightarrow> Addr \<Rightarrow> bool" where
  "isTrusted r addr = list_ex (\<lambda>prefix. PrefixContainsGo prefix addr) (rs_trusted r)"

fun parseChain :: "string list \<Rightarrow> Addr list option" where
  "parseChain [] = Some []"
| "parseChain (part # parts) =
     (case ParseAddrGo (TrimSpace part) of
        None \<Rightarrow> None
      | Some addr \<Rightarrow> map_option (\<lambda>chain. Unmap addr # chain) (parseChain parts))"

definition forwardedChain :: "http_header \<Rightarrow> Addr list option" where
  "forwardedChain header =
     (let values = hdrValues header ''X-Forwarded-For'' in
      if values = [] then
        (let v = TrimSpace (hdrGet header ''X-Real-IP'') in
         if v \<noteq> [] then map_option (\<lambda>addr. [Unmap addr]) (ParseAddrGo v) else Some [])
      else parseChain (concat (map (\<lambda>v. Split v (CHR '','')) values)))"

definition parseRemoteAddr :: "string \<Rightarrow> Addr option" where
  "parseRemoteAddr v =
     (case ParseAddrPort v of
        Some (addr, port) \<Rightarrow> Some (Unmap addr)
      | None \<Rightarrow>
          let host = (case SplitHostPort v of Some (h, p) \<Rightarrow> h | None \<Rightarrow> v)
          in map_option Unmap (ParseAddrGo (TrimCut host ''[]'')))"

definition Resolve :: "Resolver \<Rightarrow> string \<Rightarrow> http_header \<Rightarrow> Addr option" where
  "Resolve r remoteAddr header =
     (case parseRemoteAddr remoteAddr of
        None \<Rightarrow> None
      | Some peer \<Rightarrow>
          if \<not> isTrusted r peer then Some peer
          else case forwardedChain header of
                 None \<Rightarrow> Some peer
               | Some [] \<Rightarrow> Some peer
               | Some (a # as) \<Rightarrow>
                   (case find (\<lambda>x. \<not> isTrusted r x) (rev (a # as)) of
                      Some x \<Rightarrow> Some x
                    | None \<Rightarrow> Some a))"

definition ResolveString :: "Resolver \<Rightarrow> string \<Rightarrow> http_header \<Rightarrow> string" where
  "ResolveString r remoteAddr header =
     (case Resolve r remoteAddr header of None \<Rightarrow> [] | Some addr \<Rightarrow> AddrStringGo addr)"

section \<open>Request identifiers\<close>

definition requestIDHeader :: string where
  "requestIDHeader = ''X-Request-ID''"

text \<open>
  \<open>clean\<close> looks at the runes of a string; a byte above 126 is, or is part of, a rune above 126.
\<close>

definition cleanID :: "string \<Rightarrow> string" where
  "cleanID v0 =
     (let v = TrimSpace v0 in
      if v = [] \<or> length v > 128 then []
      else if list_ex (\<lambda>c. of_char c < (33 :: nat) \<or> of_char c > (126 :: nat)) v then []
      else v)"

definition inboundID :: "http_header \<Rightarrow> string" where
  "inboundID header =
     (let ids = filter (\<lambda>i. i \<noteq> []) (map (\<lambda>h. cleanID (hdrGet header h)) [requestIDHeader, ''X-Correlation-ID''])
      in if ids = [] then [] else hd ids)"

definition NewRequestID :: "(nat \<Rightarrow> bytes option) \<Rightarrow> string" where
  "NewRequestID rand = (case rand 16 of None \<Rightarrow> [] | Some data \<Rightarrow> ''req_'' @ RawURLEncoding data)"

text \<open>\<open>Middleware\<close> as the identifier it puts into the context and into the response header.\<close>

definition requestIDMiddleware :: "(nat \<Rightarrow> bytes option) \<Rightarrow> http_header \<Rightarrow> http_header \<Rightarrow> string \<times> http_header" where
  "requestIDMiddleware rand header respHeader =
     (let inb = inboundID header; i = (if inb = [] then NewRequestID rand else inb)
      in (i, hdrSet requestIDHeader i respHeader))"

definition requestIDFromRequest :: "string \<Rightarrow> http_header \<Rightarrow> string" where
  "requestIDFromRequest ctxID header = (if ctxID \<noteq> [] then ctxID else inboundID header)"

text \<open>The entries of all \<open>X-Forwarded-For\<close> fields, in order.\<close>

definition forwardedParts :: "http_header \<Rightarrow> string list" where
  "forwardedParts header = concat (map (\<lambda>v. Split v (CHR '','')) (hdrValues header ''X-Forwarded-For''))"

text \<open>A proxy at 10.0.0.4 in a trusted network.\<close>

definition demoResolver :: Resolver where
  "demoResolver = NewResolver [\<lparr>pf_ip = V4 167772160, pf_bits = 8\<rparr>]"

definition demoForwarded :: "string \<Rightarrow> http_header" where
  "demoForwarded v = [''X-Forwarded-For'' \<mapsto> [v]]"

section \<open>Lemmas\<close>

lemma parseChain_append:
  "parseChain (xs @ ys) = (case parseChain xs of None \<Rightarrow> None | Some a \<Rightarrow> map_option (\<lambda>b. a @ b) (parseChain ys))"
  by (cases "parseChain ys"; induction xs) (auto split: option.splits)

lemma find_rev_untrusted:
  "\<forall>x \<in> set ts. \<not> P x \<Longrightarrow> P a \<Longrightarrow> find P (rev (xs @ a # ts)) = Some a"
  by (induction ts rule: rev_induct) auto

lemma cleanID_safe:
  assumes "cleanID v = i" "i \<noteq> []"
  shows "length i \<le> 128 \<and> list_all (\<lambda>c. 33 \<le> (of_char c :: nat) \<and> of_char c \<le> (126 :: nat)) i"
  using assms by (auto simp: cleanID_def Let_def list_ex_iff list_all_iff split: if_splits)

lemma inboundID_safe:
  "list_all (\<lambda>c. 33 \<le> (of_char c :: nat) \<and> of_char c \<le> (126 :: nat)) (inboundID header) \<and> length (inboundID header) \<le> 128"
proof (cases "inboundID header = []")
  case False
  then obtain h where "inboundID header = cleanID (hdrGet header h)"
    by (auto simp: inboundID_def Let_def split: if_splits)
  then show ?thesis using cleanID_safe False by metis
qed simp

lemmas demo_defs = demoResolver_def NewResolver_def Masked_def isTrusted_def PrefixContainsGo_def Unmap_def

lemma demo_peer: "parseRemoteAddr ''10.0.0.4:443'' = Some (V4 167772164)"
  by (simp add: parseRemoteAddr_def ParseAddrPort_def lastIndex_def parsePort16_def ParseAddrGo_def parseIPv4_def
      parseOctet_def HasPrefix_def isDigit_def digitsVal_def Unmap_def)

lemma demo_parse:
  "ParseAddrGo ''198.51.100.9'' = Some (V4 3325256713)" "ParseAddrGo ''203.0.113.7'' = Some (V4 3405803783)"
  "ParseAddrGo ''unknown'' = None"
  by (simp_all add: ParseAddrGo_def parseIPv4_def parseOctet_def isDigit_def digitsVal_def)

lemma demo_remote_trim:
  "TrimSpace ''198.51.100.9'' = ''198.51.100.9''" "TrimSpace ''203.0.113.7'' = ''203.0.113.7''" "TrimSpace ''unknown'' = ''unknown''"
  by (simp_all add: TrimSpace_visible visible_def)

lemma demo_trust: "isTrusted demoResolver (V4 167772164)" "\<not> isTrusted demoResolver (V4 3405803783)"
  by (simp_all add: demo_defs)

section \<open>Properties\<close>

text \<open>
  C27: a client cannot pass itself off as another one.  A client that connects directly is
  attributed to the address of its TCP connection, whatever header it sends.  Behind trusted proxies
  that append to \<open>X-Forwarded-For\<close>, let \<open>appended\<close> be what they have appended: the address of the client,
  followed by proxies.  Whatever the client has put in front of that, be it addresses or garbage, it is
  attributed to its own address or to the proxy that delivered the request, and the latter exactly when
  what it sent does not parse.
\<close>

theorem forwarded_address_is_not_spoofable:
  assumes "parseRemoteAddr remote = Some peer"
  shows "(\<not> isTrusted r peer \<longrightarrow> Resolve r remote header = Some peer) \<and>
    (isTrusted r peer \<and> forwardedParts header = sent @ appended \<and> parseChain appended = Some (client # proxies) \<and>
       \<not> isTrusted r client \<and> (\<forall>p \<in> set proxies. isTrusted r p) \<longrightarrow>
     Resolve r remote header = Some (if parseChain sent = None then peer else client))"
proof -
  have "Resolve r remote header = Some (if parseChain sent = None then peer else client)"
    if "isTrusted r peer" "forwardedParts header = sent @ appended" "parseChain appended = Some (client # proxies)"
      "\<not> isTrusted r client" "\<forall>p \<in> set proxies. isTrusted r p"
  proof -
    have "hdrValues header ''X-Forwarded-For'' \<noteq> []" using that(2,3) by (cases appended) (auto simp: forwardedParts_def)
    then have chain: "forwardedChain header = map_option (\<lambda>spoofed. spoofed @ client # proxies) (parseChain sent)"
      using that(2,3) by (simp add: forwardedChain_def forwardedParts_def parseChain_append split: option.split)
    show ?thesis
    proof (cases "parseChain sent")
      case (Some spoofed)
      obtain a as where c: "spoofed @ client # proxies = a # as" by (cases "spoofed @ client # proxies") auto
      have "find (\<lambda>x. \<not> isTrusted r x) (rev (a # as)) = Some client"
        unfolding c [symmetric] using that(4,5) by (intro find_rev_untrusted) auto
      then show ?thesis using assms that(1) c chain Some by (simp add: Resolve_def)
    qed (use assms that(1) chain in \<open>simp add: Resolve_def\<close>)
  qed
  then show ?thesis using assms by (auto simp: Resolve_def)
qed

theorem forwarded_address_is_not_spoofable_witness:
  "Resolve demoResolver ''10.0.0.4:443'' (demoForwarded ''198.51.100.9,203.0.113.7'') = Some (V4 3405803783) \<and>
   Resolve demoResolver ''10.0.0.4:443'' (demoForwarded ''unknown,203.0.113.7'') = Some (V4 167772164)"
proof -
  have parts: "forwardedParts (demoForwarded ''198.51.100.9,203.0.113.7'') = [''198.51.100.9''] @ [''203.0.113.7'']"
    "forwardedParts (demoForwarded ''unknown,203.0.113.7'') = [''unknown''] @ [''203.0.113.7'']"
    by (simp_all add: forwardedParts_def demoForwarded_def hdrValues_def canonical_names)
  have chains: "parseChain [''203.0.113.7''] = Some (V4 3405803783 # [])" "parseChain [''198.51.100.9''] = Some [V4 3325256713]"
    "parseChain [''unknown''] = None"
    by (simp_all add: demo_parse demo_remote_trim Unmap_def)
  note at = forwarded_address_is_not_spoofable [OF demo_peer, where r = demoResolver and appended = "[''203.0.113.7'']"
      and client = "V4 3405803783" and proxies = "[]", THEN conjunct2, rule_format]
  have "Resolve demoResolver ''10.0.0.4:443'' (demoForwarded ''198.51.100.9,203.0.113.7'') = Some (V4 3405803783)"
    using at [of "demoForwarded ''198.51.100.9,203.0.113.7''" "[''198.51.100.9'']"] parts(1) chains demo_trust by simp
  moreover have "Resolve demoResolver ''10.0.0.4:443'' (demoForwarded ''unknown,203.0.113.7'') = Some (V4 167772164)"
    using at [of "demoForwarded ''unknown,203.0.113.7''" "[''unknown'']"] parts(2) chains demo_trust by simp
  ultimately show ?thesis by blast
qed

text \<open>
  A malformed entry hides the client behind the proxy.  When a client sends a forwarded header
  that starts with something that is not an address, the address that the trusted proxy appends is
  not used: the request is attributed to the proxy itself.
\<close>

theorem malformed_chain_yields_proxy:
  assumes "parseRemoteAddr remote = Some peer" "isTrusted r peer"
    and "hdrValues header ''X-Forwarded-For'' = [junk @ '','' @ appended]" "CHR '','' \<notin> set junk"
    and "ParseAddrGo (TrimSpace junk) = None"
  shows "Resolve r remote header = Some peer"
  using assms by (simp add: Resolve_def forwardedChain_def Split_append_sep)

theorem malformed_chain_yields_proxy_witness:
  "Resolve demoResolver ''10.0.0.4:443'' (demoForwarded ''unknown,203.0.113.7'') = Some (V4 167772164)"
  using malformed_chain_yields_proxy [OF demo_peer demo_trust(1),
      of "demoForwarded ''unknown,203.0.113.7''" "''unknown''" "''203.0.113.7''"]
  by (simp add: demoForwarded_def hdrValues_def canonical_names demo_parse demo_remote_trim)

end
