(* ===== verification/GatewayConfig.thy ===== *)
theory GatewayConfig
  imports Session RequestLog ClientIP
begin

text \<open>
  \<open>config.go\<close> and \<open>config_validation.go\<close> of the gateway: the settings read from the environment,
  their defaults, and the check that \<open>porthook-gateway --check-config\<close> runs.  \<open>getenv\<close> is the
  environment (an unset variable reads as the empty string), \<open>time.ParseDuration\<close> is modelled,
  and \<open>net/url\<close> is a value of the record \<open>urls\<close>.  \<open>quo\<close> is the \<open>%q\<close> verb of \<open>fmt\<close>.
\<close>

section \<open>Library functions\<close>

definition Minute :: duration where
  "Minute = 60 * Second"

definition Hour :: duration where
  "Hour = 60 * Minute"

text \<open>\<open>strings.EqualFold\<close>; \<open>ef\<close> is its result for strings with bytes above 127.\<close>

definition EqualFold :: "(string \<Rightarrow> string \<Rightarrow> bool) \<Rightarrow> string \<Rightarrow> string \<Rightarrow> bool" where
  "EqualFold ef s t =
     (if list_all isASCII s \<and> list_all isASCII t then map asciiLower s = map asciiLower t else ef s t)"

definition ContainsAny :: "string \<Rightarrow> string \<Rightarrow> bool" where
  "ContainsAny s chars = list_ex (\<lambda>c. c \<in> set chars) s"

record URL =
  url_Scheme :: string
  url_Host :: string
  url_Path :: string
  url_RawQuery :: string
  url_Fragment :: string
  url_User :: string

record urls =
  urlParse :: "string \<Rightarrow> string + URL"
  urlString :: "URL \<Rightarrow> string"
  PathUnescape :: "string \<Rightarrow> string option"

definition durationUnit :: "string \<Rightarrow> nat option" where
  "durationUnit u =
     map_of [(''ns'', 1), (''us'', 1000), ([CHR 0xC2, CHR 0xB5, CHR ''s''], 1000), ([CHR 0xCE, CHR 0xBC, CHR ''s''], 1000),
             (''ms'', 1000000), (''s'', 1000000000), (''m'', 60000000000), (''h'', 3600000000000)] u"

definition two63 :: nat where
  "two63 = 2 ^ 63"

primrec leadingFraction :: "nat \<Rightarrow> nat \<Rightarrow> bool \<Rightarrow> string \<Rightarrow> nat \<times> nat" where
  "leadingFraction x scale over [] = (x, scale)"
| "leadingFraction x scale over (c # ds) =
     (if over \<or> x > (two63 - 1) div 10 \<or> x * 10 + (of_char c - 48) > two63
      then leadingFraction x scale True ds
      else leadingFraction (x * 10 + (of_char c - 48)) (scale * 10) False ds)"

text \<open>One round of the loop: a number, its fraction and a unit, and the rest of the string.\<close>

definition durationItem :: "(rat \<Rightarrow> rat) \<Rightarrow> string \<Rightarrow> (nat \<times> string) option" where
  "durationItem rnd s =
     (let pre = takeWhile isDigit s;
          s1 = dropWhile isDigit s;
          dot = HasPrefix s1 ''.'';
          post = (if dot then takeWhile isDigit (tl s1) else []);
          s2 = (if dot then dropWhile isDigit (tl s1) else s1);
          u = takeWhile (\<lambda>x. x \<noteq> CHR ''.'' \<and> \<not> isDigit x) s2;
          s3 = dropWhile (\<lambda>x. x \<noteq> CHR ''.'' \<and> \<not> isDigit x) s2;
          v = nat (digitsVal pre)
      in if v > two63 \<or> pre = [] \<and> post = [] \<or> u = [] then None
         else case durationUnit u of
                None \<Rightarrow> None
              | Some unit0 \<Rightarrow>
                  if v > two63 div unit0 then None
                  else let (f, scale) = leadingFraction 0 1 False post;
                           v1 = v * unit0 + (if f > 0 then nat \<lfloor>rnd (rnd (of_nat f) * rnd (of_nat unit0 / of_nat scale))\<rfloor> else 0)
                       in if v1 > two63 then None else Some (v1, s3))"

text \<open>
  A round consumes a unit of at least one byte, so as many rounds as the string has bytes are
  enough.  The sum is a \<open>uint64\<close>.
\<close>

primrec durationFrom :: "(rat \<Rightarrow> rat) \<Rightarrow> nat \<Rightarrow> nat \<Rightarrow> string \<Rightarrow> nat option" where
  "durationFrom rnd 0 d s = (if s = [] then Some d else None)"
| "durationFrom rnd (Suc fuel) d s =
     (if s = [] then Some d
      else case durationItem rnd s of
             None \<Rightarrow> None
           | Some (v, r) \<Rightarrow>
               let d1 = (d + v) mod (2 * two63) in if d1 > two63 then None else durationFrom rnd fuel d1 r)"

definition ParseDuration :: "(rat \<Rightarrow> rat) \<Rightarrow> string \<Rightarrow> duration option" where
  "ParseDuration rnd s0 =
     (let neg = HasPrefix s0 ''-'';
          s = (if HasPrefix s0 ''-'' \<or> HasPrefix s0 ''+'' then tl s0 else s0)
      in if s = ''0'' then Some 0
         else if s = [] then None
         else case durationFrom rnd (length s) 0 s of
                None \<Rightarrow> None
              | Some d \<Rightarrow> if neg then Some (- int d) else if d > two63 - 1 then None else Some (int d))"

section \<open>Configuration\<close>

definition defaultPublicAddr :: string where
  "defaultPublicAddr = '':8080''"

definition defaultAgentAddr :: string where
  "defaultAgentAddr = '':8081''"

definition defaultManagementAddr :: string where
  "defaultManagementAddr = '':8082''"

definition defaultRootDomain :: string where
  "defaultRootDomain = ''localhost''"

definition defaultPublicURL :: string where
  "defaultPublicURL = ''http://localhost:8080''"

definition defaultStaticToken :: string where
  "defaultStaticToken = ''dev-token''"

definition defaultControlPlaneTimeout :: duration where
  "defaultControlPlaneTimeout = 5 * Second"

definition defaultCustomDomainCacheTTL :: duration where
  "defaultCustomDomainCacheTTL = 30 * Second"

definition defaultCustomDomainMissTTL :: duration where
  "defaultCustomDomainMissTTL = 5 * Second"

definition defaultWSMessageMaxBytes :: int where
  "defaultWSMessageMaxBytes = 2 ^ 20"

definition defaultMaxConcurrentStreams :: int where
  "defaultMaxConcurrentStreams = 64"

definition defaultRateLimitRPS :: int where
  "defaultRateLimitRPS = 60"

definition defaultRateLimitBurst :: int where
  "defaultRateLimitBurst = 120"

definition defaultReadHeaderTimeout :: duration where
  "defaultReadHeaderTimeout = 5 * Second"

definition defaultReadTimeout :: duration where
  "defaultReadTimeout = 30 * Second"

definition defaultWriteTimeout :: duration where
  "defaultWriteTimeout = 35 * Second"

definition defaultIdleTimeout :: duration where
  "defaultIdleTimeout = 120 * Second"

definition defaultHandshakeTimeout :: duration where
  "defaultHandshakeTimeout = 10 * Second"

definition defaultStreamRequestTimeout :: duration where
  "defaultStreamRequestTimeout = 30 * Second"

definition defaultStreamIdleTimeout :: duration where
  "defaultStreamIdleTimeout = 60 * Second"

definition defaultStreamMaxLifetime :: duration where
  "defaultStreamMaxLifetime = Hour"

definition defaultWebSocketWriteTimeout :: duration where
  "defaultWebSocketWriteTimeout = 10 * Second"

definition defaultWebSocketPingInterval :: duration where
  "defaultWebSocketPingInterval = 15 * Second"

definition defaultWebSocketPongTimeout :: duration where
  "defaultWebSocketPongTimeout = 5 * Second"

definition defaultShutdownTimeout :: duration where
  "defaultShutdownTimeout = 5 * Second"

definition defaultRequestLogWriteTimeout :: duration where
  "defaultRequestLogWriteTimeout = 1 * Second"

definition defaultRequestLogRetention :: duration where
  "defaultRequestLogRetention = 30 * 24 * Hour"

definition defaultRequestLogPruneInterval :: duration where
  "defaultRequestLogPruneInterval = Hour"

definition defaultDBMaxOpenConns :: int where
  "defaultDBMaxOpenConns = 20"

definition defaultDBMaxIdleConns :: int where
  "defaultDBMaxIdleConns = 5"

definition defaultDBConnMaxLifetime :: duration where
  "defaultDBConnMaxLifetime = 30 * Minute"

definition defaultDBConnMaxIdleTime :: duration where
  "defaultDBConnMaxIdleTime = 5 * Minute"

record Config =
  cfg_PublicAddr :: string
  cfg_AgentAddr :: string
  cfg_ManagementAddr :: string
  cfg_ManagementToken :: string
  cfg_TrustedProxies :: string
  cfg_RootDomain :: string
  cfg_PublicURL :: string
  cfg_StaticToken :: string
  cfg_ControlPlaneURL :: string
  cfg_ControlPlaneToken :: string
  cfg_ControlPlaneTimeout :: duration
  cfg_CustomDomainCacheTTL :: duration
  cfg_CustomDomainMissTTL :: duration
  cfg_MaxBodyBytes :: int
  cfg_WSMessageMaxBytes :: int
  cfg_MaxConcurrentStreams :: int
  cfg_RateLimitRequestsPerSecond :: int
  cfg_RateLimitBurst :: int
  cfg_AuthAttemptLimit :: int
  cfg_AuthAttemptWindow :: duration
  cfg_StreamChunkBytes :: int
  cfg_ReadHeaderTimeout :: duration
  cfg_ReadTimeout :: duration
  cfg_WriteTimeout :: duration
  cfg_IdleTimeout :: duration
  cfg_HandshakeTimeout :: duration
  cfg_StreamRequestTimeout :: duration
  cfg_StreamIdleTimeout :: duration
  cfg_StreamMaxLifetime :: duration
  cfg_WebSocketWriteTimeout :: duration
  cfg_WebSocketPingInterval :: duration
  cfg_WebSocketPongTimeout :: duration
  cfg_ShutdownTimeout :: duration
  cfg_RequestLogLimit :: int
  cfg_RequestLogDatabaseURL :: string
  cfg_RequestLogWriteTimeout :: duration
  cfg_RequestLogRetention :: duration
  cfg_RequestLogPruneInterval :: duration
  cfg_DBMaxOpenConns :: int
  cfg_DBMaxIdleConns :: int
  cfg_DBConnMaxLifetime :: duration
  cfg_DBConnMaxIdleTime :: duration

definition envString :: "(string \<Rightarrow> string) \<Rightarrow> string \<Rightarrow> string \<Rightarrow> string" where
  "envString getenv name fallback = (if getenv name = [] then fallback else getenv name)"

definition envInt64 :: "(string \<Rightarrow> string) \<Rightarrow> string \<Rightarrow> int \<Rightarrow> int" where
  "envInt64 getenv name fallback =
     (if getenv name = [] then fallback
      else case Atoi (getenv name) of
             None \<Rightarrow> fallback
           | Some parsed \<Rightarrow> if parsed \<le> 0 then fallback else parsed)"

definition envInt :: "(string \<Rightarrow> string) \<Rightarrow> string \<Rightarrow> int \<Rightarrow> int" where
  "envInt getenv name fallback =
     (if getenv name = [] then fallback
      else case Atoi (getenv name) of
             None \<Rightarrow> fallback
           | Some parsed \<Rightarrow> if parsed \<le> 0 then fallback else parsed)"

definition envDuration :: "(rat \<Rightarrow> rat) \<Rightarrow> (string \<Rightarrow> string) \<Rightarrow> string \<Rightarrow> duration \<Rightarrow> duration" where
  "envDuration rnd getenv name fallback =
     (if getenv name = [] then fallback
      else case ParseDuration rnd (getenv name) of
             None \<Rightarrow> fallback
           | Some parsed \<Rightarrow> if parsed < 0 then fallback else parsed)"

text \<open>The three forms of the default rules of \<open>normalizeConfig\<close>.\<close>

definition ifEmpty :: "string \<Rightarrow> string \<Rightarrow> string" where
  "ifEmpty v d = (if v = [] then d else v)"

definition ifNotPositive :: "int \<Rightarrow> int \<Rightarrow> int" where
  "ifNotPositive v d = (if v \<le> 0 then d else v)"

definition ifNegative :: "int \<Rightarrow> int \<Rightarrow> int" where
  "ifNegative v d = (if v < 0 then d else v)"

definition normalizeConfig :: "Config \<Rightarrow> Config" where
  "normalizeConfig cfg =
     cfg\<lparr>cfg_PublicAddr := ifEmpty (cfg_PublicAddr cfg) defaultPublicAddr,
         cfg_AgentAddr := ifEmpty (cfg_AgentAddr cfg) defaultAgentAddr,
         cfg_ManagementAddr := ifEmpty (cfg_ManagementAddr cfg) defaultManagementAddr,
         cfg_RootDomain := ifEmpty (cfg_RootDomain cfg) defaultRootDomain,
         cfg_PublicURL := ifEmpty (cfg_PublicURL cfg) defaultPublicURL,
         cfg_StaticToken := ifEmpty (cfg_StaticToken cfg) defaultStaticToken,
         cfg_ControlPlaneTimeout := ifNotPositive (cfg_ControlPlaneTimeout cfg) defaultControlPlaneTimeout,
         cfg_CustomDomainCacheTTL := ifNegative (cfg_CustomDomainCacheTTL cfg) defaultCustomDomainCacheTTL,
         cfg_CustomDomainMissTTL := ifNegative (cfg_CustomDomainMissTTL cfg) defaultCustomDomainMissTTL,
         cfg_MaxBodyBytes := ifNotPositive (cfg_MaxBodyBytes cfg) defaultMaxBodyBytes,
         cfg_WSMessageMaxBytes := ifNotPositive (cfg_WSMessageMaxBytes cfg) defaultWSMessageMaxBytes,
         cfg_MaxConcurrentStreams := ifNotPositive (cfg_MaxConcurrentStreams cfg) defaultMaxConcurrentStreams,
         cfg_RateLimitRequestsPerSecond := ifNotPositive (cfg_RateLimitRequestsPerSecond cfg) defaultRateLimitRPS,
         cfg_RateLimitBurst := ifNotPositive (cfg_RateLimitBurst cfg) defaultRateLimitBurst,
         cfg_AuthAttemptLimit := ifNotPositive (cfg_AuthAttemptLimit cfg) defaultAuthAttemptLimit,
         cfg_AuthAttemptWindow := ifNotPositive (cfg_AuthAttemptWindow cfg) defaultAuthAttemptWindow,
         cfg_StreamChunkBytes := ifNotPositive (cfg_StreamChunkBytes cfg) defaultStreamChunkBytes,
         cfg_ReadHeaderTimeout := ifNotPositive (cfg_ReadHeaderTimeout cfg) defaultReadHeaderTimeout,
         cfg_ReadTimeout := ifNotPositive (cfg_ReadTimeout cfg) defaultReadTimeout,
         cfg_WriteTimeout := ifNotPositive (cfg_WriteTimeout cfg) defaultWriteTimeout,
         cfg_IdleTimeout := ifNotPositive (cfg_IdleTimeout cfg) defaultIdleTimeout,
         cfg_HandshakeTimeout := ifNotPositive (cfg_HandshakeTimeout cfg) defaultHandshakeTimeout,
         cfg_StreamRequestTimeout := ifNotPositive (cfg_StreamRequestTimeout cfg) defaultStreamRequestTimeout,
         cfg_StreamIdleTimeout := ifNegative (cfg_StreamIdleTimeout cfg) defaultStreamIdleTimeout,
         cfg_StreamMaxLifetime := ifNotPositive (cfg_StreamMaxLifetime cfg) defaultStreamMaxLifetime,
         cfg_WebSocketWriteTimeout := ifNotPositive (cfg_WebSocketWriteTimeout cfg) defaultWebSocketWriteTimeout,
         cfg_WebSocketPingInterval := ifNotPositive (cfg_WebSocketPingInterval cfg) defaultWebSocketPingInterval,
         cfg_WebSocketPongTimeout := ifNotPositive (cfg_WebSocketPongTimeout cfg) defaultWebSocketPongTimeout,
         cfg_ShutdownTimeout := ifNotPositive (cfg_ShutdownTimeout cfg) defaultShutdownTimeout,
         cfg_RequestLogLimit := ifNegative (cfg_RequestLogLimit cfg) defaultRequestLogLimit,
         cfg_RequestLogWriteTimeout := ifNotPositive (cfg_RequestLogWriteTimeout cfg) defaultRequestLogWriteTimeout,
         cfg_RequestLogRetention := ifNegative (cfg_RequestLogRetention cfg) defaultRequestLogRetention,
         cfg_RequestLogPruneInterval := ifNegative (cfg_RequestLogPruneInterval cfg) defaultRequestLogPruneInterval,
         cfg_DBMaxOpenConns := ifNotPositive (cfg_DBMaxOpenConns cfg) defaultDBMaxOpenConns,
         cfg_DBMaxIdleConns := ifNegative (cfg_DBMaxIdleConns cfg) defaultDBMaxIdleConns,
         cfg_DBConnMaxLifetime := ifNegative (cfg_DBConnMaxLifetime cfg) defaultDBConnMaxLifetime,
         cfg_DBConnMaxIdleTime := ifNegative (cfg_DBConnMaxIdleTime cfg) defaultDBConnMaxIdleTime\<rparr>"

definition ConfigFromEnv :: "(rat \<Rightarrow> rat) \<Rightarrow> (string \<Rightarrow> string) \<Rightarrow> Config" where
  "ConfigFromEnv rnd getenv =
     normalizeConfig
       \<lparr>cfg_PublicAddr = envString getenv ''PORTHOOK_ADDR'' defaultPublicAddr,
        cfg_AgentAddr = envString getenv ''PORTHOOK_AGENT_ADDR'' defaultAgentAddr,
        cfg_ManagementAddr = envString getenv ''PORTHOOK_MANAGEMENT_ADDR'' defaultManagementAddr,
        cfg_ManagementToken = envString getenv ''PORTHOOK_MANAGEMENT_TOKEN'' [],
        cfg_TrustedProxies = envString getenv ''PORTHOOK_TRUSTED_PROXIES'' [],
        cfg_RootDomain = envString getenv ''PORTHOOK_ROOT_DOMAIN'' defaultRootDomain,
        cfg_PublicURL = envString getenv ''PORTHOOK_PUBLIC_URL'' defaultPublicURL,
        cfg_StaticToken = envString getenv ''PORTHOOK_STATIC_TOKEN'' defaultStaticToken,
        cfg_ControlPlaneURL = envString getenv ''PORTHOOK_CONTROL_PLANE_URL'' [],
        cfg_ControlPlaneToken = envString getenv ''PORTHOOK_CONTROL_PLANE_TOKEN'' [],
        cfg_ControlPlaneTimeout = envDuration rnd getenv ''PORTHOOK_CONTROL_PLANE_TIMEOUT'' defaultControlPlaneTimeout,
        cfg_CustomDomainCacheTTL = envDuration rnd getenv ''PORTHOOK_CUSTOM_DOMAIN_CACHE_TTL'' defaultCustomDomainCacheTTL,
        cfg_CustomDomainMissTTL = envDuration rnd getenv ''PORTHOOK_CUSTOM_DOMAIN_MISS_TTL'' defaultCustomDomainMissTTL,
        cfg_MaxBodyBytes = envInt64 getenv ''PORTHOOK_MAX_BODY_BYTES'' defaultMaxBodyBytes,
        cfg_WSMessageMaxBytes = envInt64 getenv ''PORTHOOK_WS_MESSAGE_MAX_BYTES'' defaultWSMessageMaxBytes,
        cfg_MaxConcurrentStreams = envInt getenv ''PORTHOOK_MAX_CONCURRENT_STREAMS'' defaultMaxConcurrentStreams,
        cfg_RateLimitRequestsPerSecond = envInt getenv ''PORTHOOK_RATE_LIMIT_RPS'' defaultRateLimitRPS,
        cfg_RateLimitBurst = envInt getenv ''PORTHOOK_RATE_LIMIT_BURST'' defaultRateLimitBurst,
        cfg_AuthAttemptLimit = envInt getenv ''PORTHOOK_AUTH_ATTEMPT_LIMIT'' defaultAuthAttemptLimit,
        cfg_AuthAttemptWindow = envDuration rnd getenv ''PORTHOOK_AUTH_ATTEMPT_WINDOW'' defaultAuthAttemptWindow,
        cfg_StreamChunkBytes = envInt getenv ''PORTHOOK_STREAM_CHUNK_BYTES'' defaultStreamChunkBytes,
        cfg_ReadHeaderTimeout = envDuration rnd getenv ''PORTHOOK_READ_HEADER_TIMEOUT'' defaultReadHeaderTimeout,
        cfg_ReadTimeout = envDuration rnd getenv ''PORTHOOK_READ_TIMEOUT'' defaultReadTimeout,
        cfg_WriteTimeout = envDuration rnd getenv ''PORTHOOK_WRITE_TIMEOUT'' defaultWriteTimeout,
        cfg_IdleTimeout = envDuration rnd getenv ''PORTHOOK_IDLE_TIMEOUT'' defaultIdleTimeout,
        cfg_HandshakeTimeout = envDuration rnd getenv ''PORTHOOK_HANDSHAKE_TIMEOUT'' defaultHandshakeTimeout,
        cfg_StreamRequestTimeout = envDuration rnd getenv ''PORTHOOK_STREAM_REQUEST_TIMEOUT'' defaultStreamRequestTimeout,
        cfg_StreamIdleTimeout = envDuration rnd getenv ''PORTHOOK_STREAM_IDLE_TIMEOUT'' defaultStreamIdleTimeout,
        cfg_StreamMaxLifetime = envDuration rnd getenv ''PORTHOOK_STREAM_MAX_LIFETIME'' defaultStreamMaxLifetime,
        cfg_WebSocketWriteTimeout = envDuration rnd getenv ''PORTHOOK_WS_WRITE_TIMEOUT'' defaultWebSocketWriteTimeout,
        cfg_WebSocketPingInterval = envDuration rnd getenv ''PORTHOOK_WS_PING_INTERVAL'' defaultWebSocketPingInterval,
        cfg_WebSocketPongTimeout = envDuration rnd getenv ''PORTHOOK_WS_PONG_TIMEOUT'' defaultWebSocketPongTimeout,
        cfg_ShutdownTimeout = envDuration rnd getenv ''PORTHOOK_SHUTDOWN_TIMEOUT'' defaultShutdownTimeout,
        cfg_RequestLogLimit = envInt getenv ''PORTHOOK_REQUEST_LOG_LIMIT'' defaultRequestLogLimit,
        cfg_RequestLogDatabaseURL = envString getenv ''PORTHOOK_REQUEST_LOG_DATABASE_URL'' [],
        cfg_RequestLogWriteTimeout = envDuration rnd getenv ''PORTHOOK_REQUEST_LOG_WRITE_TIMEOUT'' defaultRequestLogWriteTimeout,
        cfg_RequestLogRetention = envDuration rnd getenv ''PORTHOOK_REQUEST_LOG_RETENTION'' defaultRequestLogRetention,
        cfg_RequestLogPruneInterval = envDuration rnd getenv ''PORTHOOK_REQUEST_LOG_PRUNE_INTERVAL'' defaultRequestLogPruneInterval,
        cfg_DBMaxOpenConns = envInt getenv ''PORTHOOK_DB_MAX_OPEN_CONNS'' defaultDBMaxOpenConns,
        cfg_DBMaxIdleConns = envInt getenv ''PORTHOOK_DB_MAX_IDLE_CONNS'' defaultDBMaxIdleConns,
        cfg_DBConnMaxLifetime = envDuration rnd getenv ''PORTHOOK_DB_CONN_MAX_LIFETIME'' defaultDBConnMaxLifetime,
        cfg_DBConnMaxIdleTime = envDuration rnd getenv ''PORTHOOK_DB_CONN_MAX_IDLE_TIME'' defaultDBConnMaxIdleTime\<rparr>"

section \<open>Validation\<close>

record ConfigValidationProblem =
  pb_Field :: string
  pb_Message :: string

record ConfigValidationReport =
  rp_Errors :: "ConfigValidationProblem list"
  rp_Warnings :: "ConfigValidationProblem list"

definition HasErrors :: "ConfigValidationReport \<Rightarrow> bool" where
  "HasErrors r \<longleftrightarrow> length (rp_Errors r) > 0"

definition validateListenAddr :: "string \<Rightarrow> string option" where
  "validateListenAddr value =
     (if TrimSpace value = [] then Some ''must not be empty''
      else case SplitHostPort value of
             None \<Rightarrow> Some ''must be a listen address such as :8080 or 127.0.0.1:8080''
           | Some (host, port) \<Rightarrow>
               (case Atoi port of
                  None \<Rightarrow> Some ''must include a TCP port between 1 and 65535''
                | Some parsed \<Rightarrow>
                    if parsed \<le> 0 \<or> parsed > 65535 then Some ''must include a TCP port between 1 and 65535''
                    else None))"

definition validateRootDomain :: "string \<Rightarrow> string option" where
  "validateRootDomain value0 =
     (let value = TrimSpace value0 in
      if value = [] then Some ''must not be empty''
      else if Contains value ''://'' \<or> ContainsAny value ''/:'' then Some ''must be a hostname, not a URL''
      else if HasPrefix value ''*.'' then Some ''must omit the wildcard prefix''
      else None)"

definition validateHTTPURL :: "urls \<Rightarrow> string \<Rightarrow> string \<Rightarrow> bool \<Rightarrow> string option" where
  "validateHTTPURL u field value requireHTTPS =
     (case urlParse u (TrimSpace value) of
        Inl e \<Rightarrow> Some (''must be a valid URL: '' @ e)
      | Inr parsed \<Rightarrow>
          if url_Scheme parsed = [] \<or> url_Host parsed = [] then Some ''must include scheme and host''
          else if url_Scheme parsed \<noteq> ''http'' \<and> url_Scheme parsed \<noteq> ''https'' then Some ''must use http or https''
          else if requireHTTPS \<and> url_Scheme parsed \<noteq> ''https'' then Some (field @ '' must use https in production mode'')
          else None)"

definition hostnameWithoutPort :: "urls \<Rightarrow> string \<Rightarrow> string option" where
  "hostnameWithoutPort u rawURL =
     (case urlParse u (TrimSpace rawURL) of
        Inl e \<Rightarrow> None
      | Inr parsed \<Rightarrow>
          if url_Host parsed = [] then None
          else case SplitHostPort (url_Host parsed) of
                 Some (host, port) \<Rightarrow> Some host
               | None \<Rightarrow> Some (url_Host parsed))"

definition looksLikePlaceholderSecret :: "(string \<Rightarrow> string) \<Rightarrow> string \<Rightarrow> bool" where
  "looksLikePlaceholderSecret uc value0 =
     (let value = ToLower uc (TrimSpace value0) in
      value = [] \<or> Contains value ''change-me'' \<or> Contains value ''changeme'' \<or> Contains value ''dev-token'')"

definition problemIf :: "bool \<Rightarrow> string \<Rightarrow> string \<Rightarrow> ConfigValidationProblem list" where
  "problemIf b field message = (if b then [\<lparr>pb_Field = field, pb_Message = message\<rparr>] else [])"

definition problemOf :: "string option \<Rightarrow> string \<Rightarrow> ConfigValidationProblem list" where
  "problemOf e field = (case e of None \<Rightarrow> [] | Some message \<Rightarrow> [\<lparr>pb_Field = field, pb_Message = message\<rparr>])"

text \<open>\<open>perr\<close> is the text of the error of \<open>netip.ParsePrefix\<close>.\<close>

definition addressErrors :: "(string \<Rightarrow> string) \<Rightarrow> (string \<Rightarrow> string) \<Rightarrow> Config \<Rightarrow> bool \<Rightarrow> ConfigValidationProblem list" where
  "addressErrors quo perr cfg production =
     problemOf (validateListenAddr (cfg_PublicAddr cfg)) ''PORTHOOK_ADDR'' @
     problemOf (validateListenAddr (cfg_AgentAddr cfg)) ''PORTHOOK_AGENT_ADDR'' @
     problemOf (validateListenAddr (cfg_ManagementAddr cfg)) ''PORTHOOK_MANAGEMENT_ADDR'' @
     (case ParseTrustedProxies (cfg_TrustedProxies cfg) of
        Inl e \<Rightarrow> [\<lparr>pb_Field = ''PORTHOOK_TRUSTED_PROXIES'',
                    pb_Message = (case e of BadTrustedProxy f \<Rightarrow> ''parse trusted proxy '' @ quo f @ '': '' @ perr f)\<rparr>]
      | Inr ps \<Rightarrow> problemIf (production \<and> TrimSpace (cfg_TrustedProxies cfg) = [])
                    ''PORTHOOK_TRUSTED_PROXIES'' ''is required in production mode'')"

definition publicErrors ::
  "(string \<Rightarrow> string) \<Rightarrow> (string \<Rightarrow> string \<Rightarrow> bool) \<Rightarrow> urls \<Rightarrow> Config \<Rightarrow> bool \<Rightarrow> ConfigValidationProblem list" where
  "publicErrors uc ef u cfg production =
     (if TrimSpace (cfg_ManagementToken cfg) = []
      then problemIf production ''PORTHOOK_MANAGEMENT_TOKEN'' ''is required in production mode''
      else problemIf (production \<and> looksLikePlaceholderSecret uc (cfg_ManagementToken cfg))
             ''PORTHOOK_MANAGEMENT_TOKEN'' ''must be replaced with a generated secret in production mode'') @
     (case validateRootDomain (cfg_RootDomain cfg) of
        Some message \<Rightarrow> [\<lparr>pb_Field = ''PORTHOOK_ROOT_DOMAIN'', pb_Message = message\<rparr>]
      | None \<Rightarrow> problemIf (production \<and> EqualFold ef (cfg_RootDomain cfg) ''localhost'')
                  ''PORTHOOK_ROOT_DOMAIN'' ''must not be localhost in production mode'') @
     problemOf (validateHTTPURL u ''PORTHOOK_PUBLIC_URL'' (cfg_PublicURL cfg) production) ''PORTHOOK_PUBLIC_URL''"

definition publicWarnings ::
  "(string \<Rightarrow> string) \<Rightarrow> (string \<Rightarrow> string \<Rightarrow> bool) \<Rightarrow> urls \<Rightarrow> Config \<Rightarrow> bool \<Rightarrow> ConfigValidationProblem list" where
  "publicWarnings quo ef u cfg production =
     (if validateRootDomain (cfg_RootDomain cfg) = None \<and>
         validateHTTPURL u ''PORTHOOK_PUBLIC_URL'' (cfg_PublicURL cfg) production = None
      then case hostnameWithoutPort u (cfg_PublicURL cfg) of
             None \<Rightarrow> []
           | Some publicHost \<Rightarrow>
               problemIf (\<not> EqualFold ef publicHost (cfg_RootDomain cfg)) ''PORTHOOK_PUBLIC_URL''
                 (''host '' @ quo publicHost @ '' does not match PORTHOOK_ROOT_DOMAIN '' @ quo (cfg_RootDomain cfg) @
                  ''; the gateway announces tunnel URLs on PORTHOOK_ROOT_DOMAIN and only reuses PORTHOOK_PUBLIC_URL'' @ [CHR 0x27] @
                  ''s scheme and port, so this host is likely a misconfiguration'')
      else [])"

definition controlPlaneErrors ::
  "(string \<Rightarrow> string) \<Rightarrow> urls \<Rightarrow> Config \<Rightarrow> bool \<Rightarrow> ConfigValidationProblem list" where
  "controlPlaneErrors uc u cfg production =
     (if TrimSpace (cfg_ControlPlaneURL cfg) \<noteq> []
      then problemOf (validateHTTPURL u ''PORTHOOK_CONTROL_PLANE_URL'' (cfg_ControlPlaneURL cfg) False) ''PORTHOOK_CONTROL_PLANE_URL'' @
           (if TrimSpace (cfg_ControlPlaneToken cfg) = []
            then [\<lparr>pb_Field = ''PORTHOOK_CONTROL_PLANE_TOKEN'',
                   pb_Message = ''is required when PORTHOOK_CONTROL_PLANE_URL is configured''\<rparr>]
            else problemIf (production \<and> looksLikePlaceholderSecret uc (cfg_ControlPlaneToken cfg))
                   ''PORTHOOK_CONTROL_PLANE_TOKEN'' ''must be replaced with a generated secret in production mode'')
      else problemIf production ''PORTHOOK_CONTROL_PLANE_URL'' ''is required in production mode'' @
           (if TrimSpace (cfg_StaticToken cfg) = []
            then [\<lparr>pb_Field = ''PORTHOOK_STATIC_TOKEN'', pb_Message = ''is required when no control plane is configured''\<rparr>]
            else problemIf (cfg_StaticToken cfg = defaultStaticToken \<and> production)
                   ''PORTHOOK_STATIC_TOKEN'' ''must not use the default development token in production mode''))"

definition controlPlaneWarnings :: "Config \<Rightarrow> bool \<Rightarrow> ConfigValidationProblem list" where
  "controlPlaneWarnings cfg production =
     problemIf (TrimSpace (cfg_ControlPlaneURL cfg) = [] \<and> TrimSpace (cfg_StaticToken cfg) \<noteq> [] \<and>
                cfg_StaticToken cfg = defaultStaticToken \<and> \<not> production)
       ''PORTHOOK_STATIC_TOKEN'' ''uses the default development token''"

definition rangeErrors :: "Config \<Rightarrow> ConfigValidationProblem list" where
  "rangeErrors cfg =
     problemIf (cfg_ControlPlaneTimeout cfg \<le> 0) ''PORTHOOK_CONTROL_PLANE_TIMEOUT'' ''must be positive'' @
     problemIf (cfg_MaxBodyBytes cfg \<le> 0) ''PORTHOOK_MAX_BODY_BYTES'' ''must be positive'' @
     problemIf (cfg_WSMessageMaxBytes cfg \<le> 0) ''PORTHOOK_WS_MESSAGE_MAX_BYTES'' ''must be positive'' @
     problemIf (cfg_MaxConcurrentStreams cfg \<le> 0) ''PORTHOOK_MAX_CONCURRENT_STREAMS'' ''must be positive'' @
     problemIf (cfg_RateLimitRequestsPerSecond cfg \<le> 0) ''PORTHOOK_RATE_LIMIT_RPS'' ''must be positive'' @
     problemIf (cfg_RateLimitBurst cfg \<le> 0) ''PORTHOOK_RATE_LIMIT_BURST'' ''must be positive'' @
     problemIf (cfg_AuthAttemptLimit cfg \<le> 0) ''PORTHOOK_AUTH_ATTEMPT_LIMIT'' ''must be positive'' @
     problemIf (cfg_AuthAttemptWindow cfg \<le> 0) ''PORTHOOK_AUTH_ATTEMPT_WINDOW'' ''must be positive'' @
     problemIf (cfg_StreamChunkBytes cfg \<le> 0) ''PORTHOOK_STREAM_CHUNK_BYTES'' ''must be positive'' @
     problemIf (cfg_ReadHeaderTimeout cfg \<le> 0) ''PORTHOOK_READ_HEADER_TIMEOUT'' ''must be positive'' @
     problemIf (cfg_ReadTimeout cfg \<le> 0) ''PORTHOOK_READ_TIMEOUT'' ''must be positive'' @
     problemIf (cfg_WriteTimeout cfg \<le> 0) ''PORTHOOK_WRITE_TIMEOUT'' ''must be positive'' @
     problemIf (cfg_IdleTimeout cfg \<le> 0) ''PORTHOOK_IDLE_TIMEOUT'' ''must be positive'' @
     problemIf (cfg_HandshakeTimeout cfg \<le> 0) ''PORTHOOK_HANDSHAKE_TIMEOUT'' ''must be positive'' @
     problemIf (cfg_StreamRequestTimeout cfg \<le> 0) ''PORTHOOK_STREAM_REQUEST_TIMEOUT'' ''must be positive'' @
     problemIf (cfg_StreamIdleTimeout cfg < 0) ''PORTHOOK_STREAM_IDLE_TIMEOUT'' ''must not be negative'' @
     problemIf (cfg_StreamMaxLifetime cfg \<le> 0) ''PORTHOOK_STREAM_MAX_LIFETIME'' ''must be positive'' @
     problemIf (cfg_WebSocketWriteTimeout cfg \<le> 0) ''PORTHOOK_WS_WRITE_TIMEOUT'' ''must be positive'' @
     problemIf (cfg_WebSocketPingInterval cfg \<le> 0) ''PORTHOOK_WS_PING_INTERVAL'' ''must be positive'' @
     problemIf (cfg_WebSocketPongTimeout cfg \<le> 0) ''PORTHOOK_WS_PONG_TIMEOUT'' ''must be positive'' @
     problemIf (cfg_ShutdownTimeout cfg \<le> 0) ''PORTHOOK_SHUTDOWN_TIMEOUT'' ''must be positive'' @
     problemIf (cfg_RequestLogLimit cfg < 0) ''PORTHOOK_REQUEST_LOG_LIMIT'' ''must not be negative'' @
     problemIf (cfg_RequestLogWriteTimeout cfg \<le> 0) ''PORTHOOK_REQUEST_LOG_WRITE_TIMEOUT'' ''must be positive'' @
     problemIf (cfg_RequestLogRetention cfg < 0) ''PORTHOOK_REQUEST_LOG_RETENTION'' ''must not be negative'' @
     problemIf (cfg_RequestLogPruneInterval cfg < 0) ''PORTHOOK_REQUEST_LOG_PRUNE_INTERVAL'' ''must not be negative'' @
     problemIf (cfg_DBMaxOpenConns cfg \<le> 0) ''PORTHOOK_DB_MAX_OPEN_CONNS'' ''must be positive'' @
     problemIf (cfg_DBMaxIdleConns cfg < 0) ''PORTHOOK_DB_MAX_IDLE_CONNS'' ''must not be negative'' @
     problemIf (cfg_DBConnMaxLifetime cfg < 0) ''PORTHOOK_DB_CONN_MAX_LIFETIME'' ''must not be negative'' @
     problemIf (cfg_DBConnMaxIdleTime cfg < 0) ''PORTHOOK_DB_CONN_MAX_IDLE_TIME'' ''must not be negative''"

definition rangeWarnings :: "Config \<Rightarrow> bool \<Rightarrow> ConfigValidationProblem list" where
  "rangeWarnings cfg production =
     problemIf (production \<and> TrimSpace (cfg_RequestLogDatabaseURL cfg) = []) ''PORTHOOK_REQUEST_LOG_DATABASE_URL''
       ''is not configured; gateway request logs will be in-memory only'' @
     problemIf (cfg_DBMaxOpenConns cfg > 0 \<and> cfg_DBMaxIdleConns cfg > cfg_DBMaxOpenConns cfg) ''PORTHOOK_DB_MAX_IDLE_CONNS''
       ''exceeds PORTHOOK_DB_MAX_OPEN_CONNS; database/sql will reduce it to match, so the configured value has no effect''"

definition ValidateConfig ::
  "(string \<Rightarrow> string) \<Rightarrow> (string \<Rightarrow> string \<Rightarrow> bool) \<Rightarrow> (string \<Rightarrow> string) \<Rightarrow> (string \<Rightarrow> string) \<Rightarrow> urls
     \<Rightarrow> Config \<Rightarrow> bool \<Rightarrow> ConfigValidationReport" where
  "ValidateConfig uc ef quo perr u cfg0 production =
     (let cfg = normalizeConfig cfg0 in
      \<lparr>rp_Errors = addressErrors quo perr cfg production @ publicErrors uc ef u cfg production @
                   controlPlaneErrors uc u cfg production @ rangeErrors cfg,
       rp_Warnings = publicWarnings quo ef u cfg production @ controlPlaneWarnings cfg production @
                     rangeWarnings cfg production\<rparr>)"

text \<open>The ranges that the rest of the gateway relies on.\<close>

definition normalSettings :: "Config \<Rightarrow> bool" where
  "normalSettings cfg \<longleftrightarrow>
     list_all (\<lambda>s. s \<noteq> []) [cfg_PublicAddr cfg, cfg_AgentAddr cfg, cfg_ManagementAddr cfg, cfg_RootDomain cfg,
       cfg_PublicURL cfg, cfg_StaticToken cfg] \<and>
     list_all (\<lambda>v. 0 < v) [cfg_ControlPlaneTimeout cfg, cfg_MaxBodyBytes cfg, cfg_WSMessageMaxBytes cfg,
       cfg_MaxConcurrentStreams cfg, cfg_RateLimitRequestsPerSecond cfg, cfg_RateLimitBurst cfg, cfg_AuthAttemptLimit cfg,
       cfg_AuthAttemptWindow cfg, cfg_StreamChunkBytes cfg, cfg_ReadHeaderTimeout cfg, cfg_ReadTimeout cfg,
       cfg_WriteTimeout cfg, cfg_IdleTimeout cfg, cfg_HandshakeTimeout cfg, cfg_StreamRequestTimeout cfg,
       cfg_StreamMaxLifetime cfg, cfg_WebSocketWriteTimeout cfg, cfg_WebSocketPingInterval cfg,
       cfg_WebSocketPongTimeout cfg, cfg_ShutdownTimeout cfg, cfg_RequestLogWriteTimeout cfg, cfg_DBMaxOpenConns cfg] \<and>
     list_all (\<lambda>v. 0 \<le> v) [cfg_CustomDomainCacheTTL cfg, cfg_CustomDomainMissTTL cfg, cfg_StreamIdleTimeout cfg,
       cfg_RequestLogLimit cfg, cfg_RequestLogRetention cfg, cfg_RequestLogPruneInterval cfg, cfg_DBMaxIdleConns cfg,
       cfg_DBConnMaxLifetime cfg, cfg_DBConnMaxIdleTime cfg]"

section \<open>Lemmas\<close>

lemmas config_defaults =
  defaultPublicAddr_def defaultAgentAddr_def defaultManagementAddr_def defaultRootDomain_def defaultPublicURL_def
  defaultStaticToken_def defaultControlPlaneTimeout_def defaultCustomDomainCacheTTL_def defaultCustomDomainMissTTL_def
  defaultMaxBodyBytes_def defaultWSMessageMaxBytes_def defaultMaxConcurrentStreams_def defaultRateLimitRPS_def
  defaultRateLimitBurst_def defaultAuthAttemptLimit_def defaultAuthAttemptWindow_def defaultStreamChunkBytes_def
  defaultReadHeaderTimeout_def defaultReadTimeout_def defaultWriteTimeout_def defaultIdleTimeout_def
  defaultHandshakeTimeout_def defaultStreamRequestTimeout_def defaultStreamIdleTimeout_def defaultStreamMaxLifetime_def
  defaultWebSocketWriteTimeout_def defaultWebSocketPingInterval_def defaultWebSocketPongTimeout_def
  defaultShutdownTimeout_def defaultRequestLogLimit_def defaultRequestLogWriteTimeout_def defaultRequestLogRetention_def
  defaultRequestLogPruneInterval_def defaultDBMaxOpenConns_def defaultDBMaxIdleConns_def defaultDBConnMaxLifetime_def
  defaultDBConnMaxIdleTime_def Second_def Minute_def Hour_def

lemma default_rules [simp]:
  "d \<noteq> [] \<Longrightarrow> ifEmpty v d \<noteq> []"
  "0 < k \<Longrightarrow> 0 < ifNotPositive i k" "0 < k \<Longrightarrow> \<not> ifNotPositive i k \<le> 0"
  "0 \<le> k \<Longrightarrow> 0 \<le> ifNegative i k" "0 \<le> k \<Longrightarrow> \<not> ifNegative i k < 0"
  by (simp_all add: ifEmpty_def ifNotPositive_def ifNegative_def)

lemma default_rules_id:
  "v \<noteq> [] \<Longrightarrow> ifEmpty v d = v" "0 < i \<Longrightarrow> ifNotPositive i k = i" "0 \<le> i \<Longrightarrow> ifNegative i k = i"
  by (simp_all add: ifEmpty_def ifNotPositive_def ifNegative_def)

lemma normalSettings_normalizeConfig: "normalSettings (normalizeConfig cfg)"
  by (simp add: normalSettings_def normalizeConfig_def config_defaults)

lemma normalizeConfig_id: "normalSettings cfg \<Longrightarrow> normalizeConfig cfg = cfg"
  by (simp add: normalSettings_def normalizeConfig_def default_rules_id)

lemma rangeErrors_Nil: "normalSettings cfg \<Longrightarrow> rangeErrors cfg = []"
  by (simp add: normalSettings_def rangeErrors_def problemIf_def)

lemma envInt_positive: "0 < fallback \<Longrightarrow> 0 < envInt getenv name fallback"
  by (auto simp: envInt_def split: option.splits)

lemma problemIf_Nil [simp]: "problemIf b f m = [] \<longleftrightarrow> \<not> b"
  by (simp add: problemIf_def)

lemma problemOf_Nil [simp]: "problemOf e f = [] \<longleftrightarrow> e = None"
  by (simp add: problemOf_def split: option.splits)

section \<open>Properties\<close>

text \<open>
  C25: the gateway always runs with usable settings.  Whatever the environment holds, every size,
  limit and timeout read from it is in its range and every required text is present; normalising
  again changes nothing; and the range checks of the validation can therefore never reject a
  configuration.
\<close>

theorem settings_are_in_range:
  "normalSettings (ConfigFromEnv rnd getenv) \<and>
   normalizeConfig (normalizeConfig cfg) = normalizeConfig cfg \<and> rangeErrors (normalizeConfig cfg) = []"
  by (simp add: ConfigFromEnv_def normalSettings_normalizeConfig normalizeConfig_id rangeErrors_Nil)

text \<open>
  The request log cannot be switched off.  The documentation says that a limit of \<open>0\<close> disables
  the in-memory request log, but the value is read with \<open>envInt\<close>, which replaces every number that
  is not positive by the default: in every environment the log has room for at least one entry.
\<close>

theorem request_log_cannot_be_disabled:
  "0 < cfg_RequestLogLimit (ConfigFromEnv rnd getenv) \<and>
   0 < logCapacity (newRequestLogBuffer (cfg_RequestLogLimit (ConfigFromEnv rnd getenv)))"
proof -
  have "cfg_RequestLogLimit (ConfigFromEnv rnd getenv) =
        ifNegative (envInt getenv ''PORTHOOK_REQUEST_LOG_LIMIT'' defaultRequestLogLimit) defaultRequestLogLimit"
    by (simp add: ConfigFromEnv_def normalizeConfig_def)
  moreover have "0 < envInt getenv ''PORTHOOK_REQUEST_LOG_LIMIT'' defaultRequestLogLimit"
    by (rule envInt_positive) (simp add: defaultRequestLogLimit_def)
  ultimately have "0 < cfg_RequestLogLimit (ConfigFromEnv rnd getenv)" by (simp add: ifNegative_def)
  then show ?thesis by (simp add: logCapacity_def newRequestLogBuffer_def)
qed

end
