(* ===== verification/Backends.thy ===== *)
theory Backends
  imports GatewayConfig
begin

text \<open>
  \<open>token_validator.go\<close> and \<open>custom_domain_resolver.go\<close> of the gateway: how it asks the control
  plane (or, without one, its own static settings) about agent tokens, reserved subdomains, access
  policies and custom domains, and the cache in front of the custom domain lookups.

  The HTTP client is a function \<open>rt\<close> that takes a request and the state of the outside world and
  yields the response, or its failure, and the new state; the codings of the request and response
  bodies are the record \<open>cp_codec\<close>.
\<close>

section \<open>Answers and requests\<close>

record agentTokenValidation =
  tv_Valid :: bool
  tv_TokenID :: string

record reservedSubdomainAuthorization =
  ra_Allowed :: bool
  ra_Reason :: string

record accessPolicyEvaluationRequest =
  aq_Subdomain :: string
  aq_RemoteIP :: string
  aq_BasicUsername :: string
  aq_BasicPassword :: string
  aq_BearerToken :: string

record accessPolicyEvaluation =
  pe_Allowed :: bool
  pe_Mode :: string
  pe_Reason :: string

record customDomainResolution =
  dr_Found :: bool
  dr_Reason :: string
  dr_Hostname :: string
  dr_CustomDomainID :: string
  dr_ReservedSubdomainID :: string
  dr_Subdomain :: string
  dr_Status :: string

record validateTokenRequest =
  vq_Token :: string
  vq_Scope :: string

record authorizeReservedSubdomainRequest =
  zq_TokenID :: string
  zq_Subdomain :: string

text \<open>
  The response structs have the fields of the answers, so each codec field decodes to an answer;
  the request of an access check and the answers have one type for both sides.
\<close>

record cp_codec =
  encValidate :: "validateTokenRequest \<Rightarrow> bytes option"
  decValidated :: "bytes \<Rightarrow> agentTokenValidation option"
  encAuthorize :: "authorizeReservedSubdomainRequest \<Rightarrow> bytes option"
  decAuthorized :: "bytes \<Rightarrow> reservedSubdomainAuthorization option"
  encEvaluate :: "accessPolicyEvaluationRequest \<Rightarrow> bytes option"
  decEvaluated :: "bytes \<Rightarrow> accessPolicyEvaluation option"
  encLookup :: "string \<Rightarrow> bytes option"
  decLookedUp :: "bytes \<Rightarrow> customDomainResolution option"

datatype backend_error =
    ControlPlaneTokenRequired
  | ParseControlPlaneURL string
  | ControlPlaneURLParts
  | EncodeRequest
  | BadRequestURL string
  | RequestFailed
  | UnexpectedStatus int
  | DecodeResponse
  | TokenIDMissing

definition scopeRegisterTunnel :: string where
  "scopeRegisterTunnel = ''register_tunnel''"

definition gatewaySecretEqual :: "(bytes \<Rightarrow> bytes) \<Rightarrow> string \<Rightarrow> string \<Rightarrow> bool" where
  "gatewaySecretEqual sha256 got want =
     (if got = [] \<or> want = [] then False else sha256 got = sha256 want)"

section \<open>Client of the control plane\<close>

record controlPlaneClient =
  cc_tokenValidationEndpoint :: string
  cc_reservedSubdomainAuthzEndpoint :: string
  cc_accessPolicyEvaluationEndpoint :: string
  cc_customDomainLookupEndpoint :: string
  cc_bearerToken :: string
  cc_timeout :: duration

record http_request =
  hq_Method :: string
  hq_URL :: URL
  hq_Header :: http_header
  hq_Body :: bytes

type_synonym 'w round_tripper = "http_request \<Rightarrow> 'w \<Rightarrow> (int \<times> bytes) option \<times> 'w"

definition joinURLPath :: "string \<Rightarrow> string \<Rightarrow> string" where
  "joinURLPath basePath requestPath =
     (if basePath = [] \<or> basePath = ''/'' then requestPath
      else if HasSuffix basePath ''/'' \<and> HasPrefix requestPath ''/'' then basePath @ TrimPrefix requestPath ''/''
      else if \<not> HasSuffix basePath ''/'' \<and> \<not> HasPrefix requestPath ''/'' then basePath @ ''/'' @ requestPath
      else basePath @ requestPath)"

definition controlPlaneEndpoint :: "urls \<Rightarrow> URL \<Rightarrow> string \<Rightarrow> string" where
  "controlPlaneEndpoint u base path =
     urlString u (base\<lparr>url_Path := joinURLPath (url_Path base) path, url_RawQuery := [], url_Fragment := []\<rparr>)"

definition newControlPlaneClient :: "urls \<Rightarrow> Config \<Rightarrow> backend_error + controlPlaneClient" where
  "newControlPlaneClient u cfg =
     (let controlPlaneToken = TrimSpace (cfg_ControlPlaneToken cfg) in
      if controlPlaneToken = [] then Inl ControlPlaneTokenRequired
      else case urlParse u (cfg_ControlPlaneURL cfg) of
             Inl e \<Rightarrow> Inl (ParseControlPlaneURL e)
           | Inr parsed \<Rightarrow>
               if url_Scheme parsed = [] \<or> url_Host parsed = [] then Inl ControlPlaneURLParts
               else Inr \<lparr>cc_tokenValidationEndpoint = controlPlaneEndpoint u parsed ''/api/v1/tokens/validate'',
                         cc_reservedSubdomainAuthzEndpoint = controlPlaneEndpoint u parsed ''/api/v1/reserved-subdomains/authorize'',
                         cc_accessPolicyEvaluationEndpoint = controlPlaneEndpoint u parsed ''/api/v1/access-policies/evaluate'',
                         cc_customDomainLookupEndpoint = controlPlaneEndpoint u parsed ''/api/v1/custom-domains/lookup'',
                         cc_bearerToken = controlPlaneToken, cc_timeout = cfg_ControlPlaneTimeout cfg\<rparr>)"

text \<open>The part that the four calls of the client have in common.\<close>

definition postControlPlane ::
  "urls \<Rightarrow> 'w round_tripper \<Rightarrow> controlPlaneClient \<Rightarrow> string \<Rightarrow> bytes option \<Rightarrow> (bytes \<Rightarrow> 'a option) \<Rightarrow> 'w
     \<Rightarrow> (backend_error + 'a) \<times> 'w" where
  "postControlPlane u rt v endpoint body dec w =
     (case body of
        None \<Rightarrow> (Inl EncodeRequest, w)
      | Some b \<Rightarrow>
          (case urlParse u endpoint of
             Inl e \<Rightarrow> (Inl (BadRequestURL e), w)
           | Inr parsed \<Rightarrow>
               let req = \<lparr>hq_Method = ''POST'', hq_URL = parsed,
                          hq_Header = hdrSet ''Authorization'' (''Bearer '' @ cc_bearerToken v)
                                        (hdrSet ''Content-Type'' ''application/json'' Map.empty),
                          hq_Body = b\<rparr>
               in case rt req w of
                    (None, w') \<Rightarrow> (Inl RequestFailed, w')
                  | (Some (st, resp), w') \<Rightarrow>
                      if st \<noteq> 200 then (Inl (UnexpectedStatus st), w')
                      else case dec resp of None \<Rightarrow> (Inl DecodeResponse, w') | Some result \<Rightarrow> (Inr result, w')))"

definition clientResolveCustomDomain ::
  "urls \<Rightarrow> cp_codec \<Rightarrow> 'w round_tripper \<Rightarrow> controlPlaneClient \<Rightarrow> string \<Rightarrow> 'w \<Rightarrow> (backend_error + customDomainResolution) \<times> 'w" where
  "clientResolveCustomDomain u cd rt v hostname w =
     postControlPlane u rt v (cc_customDomainLookupEndpoint v) (encLookup cd hostname) (decLookedUp cd) w"

definition clientEvaluateAccessPolicy ::
  "urls \<Rightarrow> cp_codec \<Rightarrow> 'w round_tripper \<Rightarrow> controlPlaneClient \<Rightarrow> accessPolicyEvaluationRequest \<Rightarrow> 'w
     \<Rightarrow> (backend_error + accessPolicyEvaluation) \<times> 'w" where
  "clientEvaluateAccessPolicy u cd rt v evaluation w =
     postControlPlane u rt v (cc_accessPolicyEvaluationEndpoint v) (encEvaluate cd evaluation) (decEvaluated cd) w"

definition clientValidateAgentToken ::
  "urls \<Rightarrow> cp_codec \<Rightarrow> 'w round_tripper \<Rightarrow> controlPlaneClient \<Rightarrow> string \<Rightarrow> 'w \<Rightarrow> (backend_error + agentTokenValidation) \<times> 'w" where
  "clientValidateAgentToken u cd rt v tok w =
     postControlPlane u rt v (cc_tokenValidationEndpoint v)
       (encValidate cd \<lparr>vq_Token = tok, vq_Scope = scopeRegisterTunnel\<rparr>) (decValidated cd) w"

definition clientAuthorizeReservedSubdomain ::
  "urls \<Rightarrow> cp_codec \<Rightarrow> 'w round_tripper \<Rightarrow> controlPlaneClient \<Rightarrow> string \<Rightarrow> string \<Rightarrow> 'w
     \<Rightarrow> (backend_error + reservedSubdomainAuthorization) \<times> 'w" where
  "clientAuthorizeReservedSubdomain u cd rt v tokenID subdomain w =
     (if TrimSpace tokenID = [] then (Inl TokenIDMissing, w)
      else postControlPlane u rt v (cc_reservedSubdomainAuthzEndpoint v)
             (encAuthorize cd \<lparr>zq_TokenID = tokenID, zq_Subdomain = subdomain\<rparr>) (decAuthorized cd) w)"

section \<open>The backends the server chooses from\<close>

datatype tokenBackend = StaticTokens string | ErrorTokens backend_error | ClientTokens controlPlaneClient
datatype reservedBackend = StaticReserved | ErrorReserved backend_error | ClientReserved controlPlaneClient
datatype accessBackend = StaticAccess | ErrorAccess backend_error | ClientAccess controlPlaneClient

record customDomainCacheEntry =
  ce_result :: customDomainResolution
  ce_expires :: gotime

record cachedCustomDomainResolver =
  cr_next :: controlPlaneClient
  cr_hitTTL :: duration
  cr_missTTL :: duration
  cr_cache :: "string \<rightharpoonup> customDomainCacheEntry"

datatype domainBackend =
    StaticDomains
  | ErrorDomains backend_error
  | ClientDomains controlPlaneClient
  | CachedDomains cachedCustomDomainResolver

definition newAgentTokenValidator :: "urls \<Rightarrow> Config \<Rightarrow> backend_error + tokenBackend" where
  "newAgentTokenValidator u cfg =
     (if TrimSpace (cfg_ControlPlaneURL cfg) = [] then Inr (StaticTokens (cfg_StaticToken cfg))
      else case newControlPlaneClient u cfg of Inl e \<Rightarrow> Inl e | Inr c \<Rightarrow> Inr (ClientTokens c))"

definition newReservedSubdomainAuthorizer :: "urls \<Rightarrow> Config \<Rightarrow> backend_error + reservedBackend" where
  "newReservedSubdomainAuthorizer u cfg =
     (if TrimSpace (cfg_ControlPlaneURL cfg) = [] then Inr StaticReserved
      else case newControlPlaneClient u cfg of Inl e \<Rightarrow> Inl e | Inr c \<Rightarrow> Inr (ClientReserved c))"

definition newAccessPolicyEvaluator :: "urls \<Rightarrow> Config \<Rightarrow> backend_error + accessBackend" where
  "newAccessPolicyEvaluator u cfg =
     (if TrimSpace (cfg_ControlPlaneURL cfg) = [] then Inr StaticAccess
      else case newControlPlaneClient u cfg of Inl e \<Rightarrow> Inl e | Inr c \<Rightarrow> Inr (ClientAccess c))"

definition newCachedCustomDomainResolver :: "controlPlaneClient \<Rightarrow> duration \<Rightarrow> duration \<Rightarrow> domainBackend" where
  "newCachedCustomDomainResolver next hitTTL missTTL =
     (if hitTTL = 0 \<and> missTTL = 0 then ClientDomains next
      else CachedDomains \<lparr>cr_next = next,
                          cr_hitTTL = (if hitTTL < 0 then defaultCustomDomainCacheTTL else hitTTL),
                          cr_missTTL = (if missTTL < 0 then defaultCustomDomainMissTTL else missTTL),
                          cr_cache = Map.empty\<rparr>)"

definition newCustomDomainResolver :: "urls \<Rightarrow> Config \<Rightarrow> backend_error + domainBackend" where
  "newCustomDomainResolver u cfg =
     (if TrimSpace (cfg_ControlPlaneURL cfg) = [] then Inr StaticDomains
      else case newControlPlaneClient u cfg of
             Inl e \<Rightarrow> Inl e
           | Inr client \<Rightarrow> Inr (newCachedCustomDomainResolver client (cfg_CustomDomainCacheTTL cfg) (cfg_CustomDomainMissTTL cfg)))"

definition ValidateAgentToken ::
  "(bytes \<Rightarrow> bytes) \<Rightarrow> urls \<Rightarrow> cp_codec \<Rightarrow> 'w round_tripper \<Rightarrow> tokenBackend \<Rightarrow> string \<Rightarrow> 'w
     \<Rightarrow> (backend_error + agentTokenValidation) \<times> 'w" where
  "ValidateAgentToken sha256 u cd rt v tok w =
     (case v of
        StaticTokens secret \<Rightarrow> (Inr \<lparr>tv_Valid = gatewaySecretEqual sha256 tok secret, tv_TokenID = []\<rparr>, w)
      | ErrorTokens e \<Rightarrow> (Inl e, w)
      | ClientTokens c \<Rightarrow> clientValidateAgentToken u cd rt c tok w)"

definition AuthorizeReservedSubdomain ::
  "urls \<Rightarrow> cp_codec \<Rightarrow> 'w round_tripper \<Rightarrow> reservedBackend \<Rightarrow> string \<Rightarrow> string \<Rightarrow> 'w
     \<Rightarrow> (backend_error + reservedSubdomainAuthorization) \<times> 'w" where
  "AuthorizeReservedSubdomain u cd rt v tokenID subdomain w =
     (case v of
        StaticReserved \<Rightarrow> (Inr \<lparr>ra_Allowed = True, ra_Reason = []\<rparr>, w)
      | ErrorReserved e \<Rightarrow> (Inl e, w)
      | ClientReserved c \<Rightarrow> clientAuthorizeReservedSubdomain u cd rt c tokenID subdomain w)"

definition EvaluateAccessPolicy ::
  "urls \<Rightarrow> cp_codec \<Rightarrow> 'w round_tripper \<Rightarrow> accessBackend \<Rightarrow> accessPolicyEvaluationRequest \<Rightarrow> 'w
     \<Rightarrow> (backend_error + accessPolicyEvaluation) \<times> 'w" where
  "EvaluateAccessPolicy u cd rt v evaluation w =
     (case v of
        StaticAccess \<Rightarrow> (Inr \<lparr>pe_Allowed = True, pe_Mode = ''public'', pe_Reason = ''no_control_plane''\<rparr>, w)
      | ErrorAccess e \<Rightarrow> (Inl e, w)
      | ClientAccess c \<Rightarrow> clientEvaluateAccessPolicy u cd rt c evaluation w)"

text \<open>The zero resolution, and the answer of \<open>staticCustomDomainResolver\<close>.\<close>

definition noResolution :: "string \<Rightarrow> customDomainResolution" where
  "noResolution reason =
     \<lparr>dr_Found = False, dr_Reason = reason, dr_Hostname = [], dr_CustomDomainID = [],
      dr_ReservedSubdomainID = [], dr_Subdomain = [], dr_Status = []\<rparr>"

text \<open>\<open>nx\<close> is the resolver behind the cache.\<close>

definition cachedResolve ::
  "(string \<Rightarrow> string) \<Rightarrow> (string \<Rightarrow> 'w \<Rightarrow> (backend_error + customDomainResolution) \<times> 'w) \<Rightarrow> gotime
     \<Rightarrow> cachedCustomDomainResolver \<Rightarrow> string \<Rightarrow> 'w
     \<Rightarrow> (backend_error + customDomainResolution) \<times> cachedCustomDomainResolver \<times> 'w" where
  "cachedResolve uc nx now r hostname w =
     (let key = ToLower uc (TrimSpace hostname) in
      if key = [] then (case nx hostname w of (res, w') \<Rightarrow> (res, r, w'))
      else case (case cr_cache r key of
                   None \<Rightarrow> None
                 | Some entry \<Rightarrow> if now < ce_expires entry then Some (ce_result entry) else None) of
             Some result \<Rightarrow> (Inr result, r, w)
           | None \<Rightarrow>
               (case nx hostname w of
                  (Inl e, w') \<Rightarrow> (Inl e, r, w')
                | (Inr result, w') \<Rightarrow>
                    let ttl = (if \<not> dr_Found result then cr_missTTL r else cr_hitTTL r) in
                    if ttl \<le> 0 then (Inr result, r, w')
                    else (Inr result,
                          r\<lparr>cr_cache := (cr_cache r)(key \<mapsto> \<lparr>ce_result = result, ce_expires = now + ttl\<rparr>)\<rparr>, w')))"

definition ResolveCustomDomain ::
  "(string \<Rightarrow> string) \<Rightarrow> urls \<Rightarrow> cp_codec \<Rightarrow> 'w round_tripper \<Rightarrow> gotime \<Rightarrow> domainBackend \<Rightarrow> string \<Rightarrow> 'w
     \<Rightarrow> (backend_error + customDomainResolution) \<times> domainBackend \<times> 'w" where
  "ResolveCustomDomain uc u cd rt now v hostname w =
     (case v of
        StaticDomains \<Rightarrow> (Inr (noResolution ''no_control_plane''), v, w)
      | ErrorDomains e \<Rightarrow> (Inl e, v, w)
      | ClientDomains c \<Rightarrow> (case clientResolveCustomDomain u cd rt c hostname w of (res, w') \<Rightarrow> (res, v, w'))
      | CachedDomains r \<Rightarrow>
          (case cachedResolve uc (clientResolveCustomDomain u cd rt (cr_next r)) now r hostname w of
             (res, r', w') \<Rightarrow> (res, CachedDomains r', w')))"

text \<open>
  A sequence of lookups at given times.  The world is the list of the calls that reached the
  resolver behind the cache, with their times, and \<open>up i\<close> is its answer to the \<open>i\<close>-th of them.
\<close>

definition lookupAt ::
  "(string \<Rightarrow> string) \<Rightarrow> (nat \<Rightarrow> string \<Rightarrow> backend_error + customDomainResolution) \<Rightarrow> gotime \<times> string
     \<Rightarrow> cachedCustomDomainResolver \<times> (gotime \<times> string) list
     \<Rightarrow> (backend_error + customDomainResolution) \<times> cachedCustomDomainResolver \<times> (gotime \<times> string) list" where
  "lookupAt uc up q s =
     cachedResolve uc (\<lambda>h calls. (up (length calls) h, calls @ [(fst q, h)])) (fst q) (fst s) (snd q) (snd s)"

definition lookups ::
  "(string \<Rightarrow> string) \<Rightarrow> (nat \<Rightarrow> string \<Rightarrow> backend_error + customDomainResolution) \<Rightarrow> (gotime \<times> string) list
     \<Rightarrow> cachedCustomDomainResolver \<times> (gotime \<times> string) list
     \<Rightarrow> cachedCustomDomainResolver \<times> (gotime \<times> string) list" where
  "lookups uc up qs s = fold (\<lambda>q s. snd (lookupAt uc up q s)) qs s"

text \<open>The lifetime of an answer in the cache, and what the cache may hold.\<close>

definition answerTTL :: "cachedCustomDomainResolver \<Rightarrow> customDomainResolution \<Rightarrow> duration" where
  "answerTTL r x = (if dr_Found x then cr_hitTTL r else cr_missTTL r)"

text \<open>The key of a hostname in the cache.\<close>

definition domainKey :: "(string \<Rightarrow> string) \<Rightarrow> string \<Rightarrow> string" where
  "domainKey uc hostname = ToLower uc (TrimSpace hostname)"

text \<open>The \<open>i\<close>-th call was for the key, and the answer to it was \<open>x\<close>.\<close>

definition answeredAt ::
  "(string \<Rightarrow> string) \<Rightarrow> (nat \<Rightarrow> string \<Rightarrow> backend_error + customDomainResolution) \<Rightarrow> (gotime \<times> string) list
     \<Rightarrow> string \<Rightarrow> customDomainResolution \<Rightarrow> nat \<Rightarrow> gotime \<Rightarrow> bool" where
  "answeredAt uc up calls key x i t \<longleftrightarrow>
     i < length calls \<and> fst (calls ! i) = t \<and> domainKey uc (snd (calls ! i)) = key \<and> up i (snd (calls ! i)) = Inr x"

text \<open>
  Every entry of the cache is the answer to a call, and the calls for the same key that came later came
  when the entry had expired.
\<close>

definition cache_ok ::
  "(string \<Rightarrow> string) \<Rightarrow> (nat \<Rightarrow> string \<Rightarrow> backend_error + customDomainResolution)
     \<Rightarrow> cachedCustomDomainResolver \<times> (gotime \<times> string) list \<Rightarrow> bool" where
  "cache_ok uc up s \<longleftrightarrow>
     (\<forall>key e. cr_cache (fst s) key = Some e \<longrightarrow>
        (\<exists>i. answeredAt uc up (snd s) key (ce_result e) i (ce_expires e - answerTTL (fst s) (ce_result e)) \<and>
             (\<forall>j < length (snd s). i < j \<and> domainKey uc (snd (snd s ! j)) = key \<longrightarrow> ce_expires e \<le> fst (snd s ! j))))"

definition demoClient :: controlPlaneClient where
  "demoClient =
     \<lparr>cc_tokenValidationEndpoint = ''v'', cc_reservedSubdomainAuthzEndpoint = ''r'', cc_accessPolicyEvaluationEndpoint = ''a'',
      cc_customDomainLookupEndpoint = ''c'', cc_bearerToken = ''t'', cc_timeout = Second\<rparr>"

definition demoResolver2 :: cachedCustomDomainResolver where
  "demoResolver2 = \<lparr>cr_next = demoClient, cr_hitTTL = 30, cr_missTTL = 5, cr_cache = Map.empty\<rparr>"

section \<open>Lemmas\<close>

lemma answerTTL_cache [simp]: "answerTTL (r\<lparr>cr_cache := c\<rparr>) x = answerTTL r x"
  by (simp add: answerTTL_def)

lemma answeredAt_append: "answeredAt uc up calls key x i t \<Longrightarrow> answeredAt uc up (calls @ rest) key x i t"
  by (simp add: answeredAt_def nth_append)

lemma answeredAt_last:
  "up (length calls) h = Inr x \<Longrightarrow> answeredAt uc up (calls @ [(t, h)]) (domainKey uc h) x (length calls) t"
  by (simp add: answeredAt_def)

text \<open>The ways a lookup can go.\<close>

lemma lookupAt_cases:
  assumes "lookupAt uc up (now, h) (r, calls) = (res, r', calls')"
  obtains
    (bypass) "domainKey uc h = []" "r' = r" "calls' = calls @ [(now, h)]" "res = up (length calls) h"
  | (cached) e where "cr_cache r (domainKey uc h) = Some e" "now < ce_expires e"
      "res = Inr (ce_result e)" "r' = r" "calls' = calls"
  | (failed) e where "up (length calls) h = Inl e" "res = Inl e" "r' = r" "calls' = calls @ [(now, h)]"
      "\<And>e. cr_cache r (domainKey uc h) = Some e \<Longrightarrow> ce_expires e \<le> now"
  | (fresh) x where "up (length calls) h = Inr x" "res = Inr x" "calls' = calls @ [(now, h)]"
      "r' = (if answerTTL r x \<le> 0 then r
             else r\<lparr>cr_cache := (cr_cache r)(domainKey uc h \<mapsto> \<lparr>ce_result = x, ce_expires = now + answerTTL r x\<rparr>)\<rparr>)"
      "\<And>e. cr_cache r (domainKey uc h) = Some e \<Longrightarrow> ce_expires e \<le> now" "domainKey uc h \<noteq> []"
proof (cases "domainKey uc h = []")
  case True
  with assms show ?thesis by (intro bypass) (auto simp: lookupAt_def cachedResolve_def domainKey_def Let_def)
next
  case False
  note L = assms [unfolded lookupAt_def cachedResolve_def Let_def fst_conv snd_conv domainKey_def [symmetric]] False
  show ?thesis
  proof (cases "\<exists>e. cr_cache r (domainKey uc h) = Some e \<and> now < ce_expires e")
    case True
    with L show ?thesis by (auto intro: cached)
  next
    case miss: False
    then have expired: "ce_expires e \<le> now" if "cr_cache r (domainKey uc h) = Some e" for e
      using that by (simp add: not_less)
    from miss have none: "(case cr_cache r (domainKey uc h) of None \<Rightarrow> None
                | Some entry \<Rightarrow> if now < ce_expires entry then Some (ce_result entry) else None) = None"
      by (auto split: option.splits)
    show ?thesis
    proof (cases "up (length calls) h")
      case (Inl e)
      with L none have "res = Inl e" "r' = r" "calls' = calls @ [(now, h)]" by simp_all
      with Inl show ?thesis using expired by (rule failed)
    next
      case (Inr x)
      with L none have "res = Inr x" "calls' = calls @ [(now, h)]"
        "r' = (if answerTTL r x \<le> 0 then r
               else r\<lparr>cr_cache := (cr_cache r)(domainKey uc h \<mapsto> \<lparr>ce_result = x, ce_expires = now + answerTTL r x\<rparr>)\<rparr>)"
        by (simp_all add: answerTTL_def split: if_splits)
      with Inr show ?thesis using expired False by (rule fresh)
    qed
  qed
qed

text \<open>The invariant also holds for the longer list of calls when the entry of the new call, if any, has expired.\<close>

lemma cache_okE:
  assumes "cache_ok uc up (r, calls)" "cr_cache r key = Some e"
  obtains i where "answeredAt uc up calls key (ce_result e) i (ce_expires e - answerTTL r (ce_result e))"
    "\<And>j. j < length calls \<Longrightarrow> i < j \<Longrightarrow> domainKey uc (snd (calls ! j)) = key \<Longrightarrow> ce_expires e \<le> fst (calls ! j)"
proof -
  from assms have "\<exists>i. answeredAt uc up calls key (ce_result e) i (ce_expires e - answerTTL r (ce_result e)) \<and>
      (\<forall>j < length calls. i < j \<and> domainKey uc (snd (calls ! j)) = key \<longrightarrow> ce_expires e \<le> fst (calls ! j))"
    by (simp add: cache_ok_def)
  with that show ?thesis by blast
qed

lemma cache_ok_call:
  assumes "cache_ok uc up (r, calls)" "\<And>e. cr_cache r (domainKey uc h) = Some e \<Longrightarrow> ce_expires e \<le> now"
  shows "cache_ok uc up (r, calls @ [(now, h)])"
  unfolding cache_ok_def fst_conv snd_conv
proof (intro allI impI)
  fix key e assume e: "cr_cache r key = Some e"
  with assms(1) obtain i where i: "answeredAt uc up calls key (ce_result e) i (ce_expires e - answerTTL r (ce_result e))"
    and later: "\<And>j. j < length calls \<Longrightarrow> i < j \<Longrightarrow> domainKey uc (snd (calls ! j)) = key \<Longrightarrow> ce_expires e \<le> fst (calls ! j)"
    by (rule cache_okE) (rule that)
  have "ce_expires e \<le> fst ((calls @ [(now, h)]) ! j)"
    if "j < length (calls @ [(now, h)])" "i < j" "domainKey uc (snd ((calls @ [(now, h)]) ! j)) = key" for j
    using that later [of j] assms(2) [of e] e by (cases "j < length calls") (auto simp: nth_append)
  with answeredAt_append [OF i, of "[(now, h)]"]
  show "\<exists>i. answeredAt uc up (calls @ [(now, h)]) key (ce_result e) i (ce_expires e - answerTTL r (ce_result e)) \<and>
      (\<forall>j < length (calls @ [(now, h)]). i < j \<and> domainKey uc (snd ((calls @ [(now, h)]) ! j)) = key
         \<longrightarrow> ce_expires e \<le> fst ((calls @ [(now, h)]) ! j))" by blast
qed

lemma cache_ok_step:
  assumes "cache_ok uc up s" "cr_cache (fst s) [] = None"
  shows "cache_ok uc up (snd (lookupAt uc up q s)) \<and> cr_cache (fst (snd (lookupAt uc up q s))) [] = None"
proof -
  obtain now h where q: "q = (now, h)" by (cases q)
  obtain r calls where s: "s = (r, calls)" by (cases s)
  obtain res r' calls' where L: "lookupAt uc up (now, h) (r, calls) = (res, r', calls')"
    by (cases "lookupAt uc up (now, h) (r, calls)") auto
  note ok = assms [unfolded s fst_conv] and call = cache_ok_call [OF assms(1) [unfolded s], of h now]
  from L show ?thesis
  proof (cases rule: lookupAt_cases)
    case bypass
    with call ok(2) show ?thesis by (simp add: q s L)
  next
    case (fresh x)
    show ?thesis
    proof (cases "answerTTL r x \<le> 0")
      case True
      with call fresh ok(2) show ?thesis by (simp add: q s L)
    next
      case False
      have "answeredAt uc up (calls @ [(now, h)]) (domainKey uc h) x (length calls) now"
        using answeredAt_last [of up calls h x uc now] fresh(1) by simp
      moreover have "cache_ok uc up (r, calls @ [(now, h)])" using call fresh(5) by blast
      ultimately show ?thesis using False ok(2) fresh(4,6)
        by (auto simp: q s L fresh(3) cache_ok_def)
    qed
  qed (use ok call in \<open>auto simp: q s L\<close>)
qed

lemma cache_ok_lookups:
  assumes "cache_ok uc up s" "cr_cache (fst s) [] = None"
  shows "cache_ok uc up (lookups uc up qs s)"
  using assms by (induction qs arbitrary: s) (auto simp: lookups_def cache_ok_step)

lemma lookups_times:
  assumes "\<forall>c \<in> set (snd s). fst c \<le> now" "\<forall>q \<in> set qs. fst q \<le> now"
  shows "\<forall>c \<in> set (snd (lookups uc up qs s)). fst c \<le> now"
  using assms
proof (induction qs arbitrary: s)
  case (Cons q qs)
  obtain t h where q: "q = (t, h)" by (cases q)
  obtain r calls where s: "s = (r, calls)" by (cases s)
  obtain res r' calls' where L: "lookupAt uc up (t, h) (r, calls) = (res, r', calls')"
    by (cases "lookupAt uc up (t, h) (r, calls)") auto
  from L have "set calls' \<subseteq> insert (t, h) (set calls)" by (cases rule: lookupAt_cases) auto
  then have "\<forall>c \<in> set (snd (snd (lookupAt uc up q s))). fst c \<le> now" using Cons.prems by (auto simp: q s L)
  with Cons show ?case by (simp add: lookups_def)
qed (simp add: lookups_def)

lemma lookupAt_ttl:
  "answerTTL (fst (snd (lookupAt uc up q s))) x = answerTTL (fst s) x"
proof -
  obtain now h where q: "q = (now, h)" by (cases q)
  obtain r calls where s: "s = (r, calls)" by (cases s)
  obtain res r' calls' where L: "lookupAt uc up (now, h) (r, calls) = (res, r', calls')"
    by (cases "lookupAt uc up (now, h) (r, calls)") auto
  from L show ?thesis
    by (cases rule: lookupAt_cases) (auto simp: q s L answerTTL_def)
qed

lemma lookups_ttl: "answerTTL (fst (lookups uc up qs s)) x = answerTTL (fst s) x"
  by (induction qs arbitrary: s) (auto simp: lookups_def lookupAt_ttl)

lemma noResolution_Found [simp]: "\<not> dr_Found (noResolution reason)"
  by (simp add: noResolution_def)

lemma demo_key:
  "ToLower uc (TrimSpace ''a.b'') = ''a.b''"
  by (simp add: TrimSpace_visible visible_def ToLower_def isASCII_def asciiLower_def)

text \<open>A miss for a name that is not in the cache adds an entry, whatever is there already.\<close>

lemma miss_is_added:
  assumes "h \<noteq> []" "ToLower uc (TrimSpace h) = h" "h \<notin> dom (cr_cache r)" "0 < cr_missTTL r"
  shows "dom (cr_cache (fst (snd (lookupAt uc (\<lambda>i h. Inr (noResolution ''not_found'')) (now, h) (r, calls)))))
         = insert h (dom (cr_cache r))"
proof -
  let ?up = "\<lambda>i h. Inr (noResolution ''not_found'') :: backend_error + customDomainResolution"
  obtain res r' calls' where L: "lookupAt uc ?up (now, h) (r, calls) = (res, r', calls')"
    by (cases "lookupAt uc ?up (now, h) (r, calls)") auto
  from L show ?thesis
    by (cases rule: lookupAt_cases) (use assms in \<open>auto simp: L answerTTL_def domainKey_def\<close>)
qed

lemma missTTL_stays: "cr_missTTL (fst (snd (lookupAt uc up q s))) = cr_missTTL (fst s)"
  using lookupAt_ttl [of uc up q s "noResolution []"] by (simp add: answerTTL_def)

lemma misses_accumulate:
  assumes "distinct hs" "\<forall>h\<in>set hs. h \<noteq> [] \<and> ToLower uc (TrimSpace h) = h"
    and "set hs \<inter> dom (cr_cache (fst s)) = {}" "0 < cr_missTTL (fst s)"
  shows "dom (cr_cache (fst (lookups uc (\<lambda>i h. Inr (noResolution ''not_found'')) (map (\<lambda>h. (clk h, h)) hs) s)))
         = set hs \<union> dom (cr_cache (fst s))"
  using assms
proof (induction hs arbitrary: s)
  case (Cons h hs)
  let ?up = "\<lambda>i h. Inr (noResolution ''not_found'') :: backend_error + customDomainResolution"
  let ?s = "snd (lookupAt uc ?up (clk h, h) s)"
  have "dom (cr_cache (fst ?s)) = insert h (dom (cr_cache (fst s)))"
    using miss_is_added [of h uc "fst s" "clk h" "snd s"] Cons.prems by simp
  with Cons.IH [of ?s] Cons.prems show ?case by (simp add: missTTL_stays lookups_def)
qed (simp add: lookups_def)

section \<open>Properties\<close>

text \<open>
  C28: the cache answers with what the control plane said last.  After any sequence of lookups that do
  not overlap, at times that are not later than this one, a lookup that returns an answer returns that of
  the last call that the control plane got for the same hostname, so that no newer answer is passed
  over: either of the call that this lookup has made, or, without a call, of an earlier one that is not
  older than the time to live of its kind of answer (hits and misses have their own).
\<close>

theorem cached_answers_are_fresh:
  assumes "cr_cache r = Map.empty" "\<forall>q \<in> set qs. fst q \<le> now"
    and "lookups uc up qs (r, []) = (r1, calls)"
    and "lookupAt uc up (now, h) (r1, calls) = (Inr x, r2, calls')"
  shows "\<exists>i t. answeredAt uc up calls' (domainKey uc h) x i t \<and>
             (\<forall>j < length calls'. domainKey uc (snd (calls' ! j)) = domainKey uc h \<longrightarrow> j \<le> i) \<and>
             (t = now \<and> calls' = calls @ [(now, h)] \<or> now < t + answerTTL r x \<and> calls' = calls)"
proof -
  have ok: "cache_ok uc up (r1, calls)"
    using cache_ok_lookups [of uc up "(r, [])" qs] assms(1,3) by (simp add: cache_ok_def)
  have ttl: "answerTTL r1 y = answerTTL r y" for y
    using lookups_ttl [of uc up qs "(r, [])" y] assms(3) by simp
  have called: "\<exists>i t. answeredAt uc up (calls @ [(now, h)]) (domainKey uc h) x i t \<and>
      (\<forall>j < length (calls @ [(now, h)]). domainKey uc (snd ((calls @ [(now, h)]) ! j)) = domainKey uc h \<longrightarrow> j \<le> i) \<and> t = now"
    if "up (length calls) h = Inr x"
    using answeredAt_last [of up calls h x uc now] that
    by (intro exI [of _ "length calls"] exI [of _ now]) (simp add: less_Suc_eq_le)
  from assms(4) show ?thesis
  proof (cases rule: lookupAt_cases)
    case (cached e)
    from ok cached(1) obtain i where i: "answeredAt uc up calls (domainKey uc h) (ce_result e) i (ce_expires e - answerTTL r1 (ce_result e))"
      and later: "\<And>j. j < length calls \<Longrightarrow> i < j \<Longrightarrow> domainKey uc (snd (calls ! j)) = domainKey uc h \<Longrightarrow> ce_expires e \<le> fst (calls ! j)"
      by (rule cache_okE) (rule that)
    have "j \<le> i" if "j < length calls" "domainKey uc (snd (calls ! j)) = domainKey uc h" for j
    proof -
      have "fst (calls ! j) \<le> now" using lookups_times [of "(r, [])" now qs uc up] assms(2,3) that(1) by simp
      then show ?thesis using later [OF that(1) _ that(2)] cached(2) by (meson not_le order.trans)
    qed
    with i cached ttl show ?thesis by (intro exI [of _ i] exI [of _ "ce_expires e - answerTTL r x"]) simp
  qed (use called in auto)
qed

theorem cached_answers_are_fresh_witness:
  "let up = (\<lambda>i h. Inr (noResolution ''not_found''));
       s1 = lookups id up [(100, ''a.b'')] (demoResolver2, []);
       out = lookupAt id up (103, ''a.b'') s1 in
   fst out = Inr (noResolution ''not_found'') \<and> snd (snd out) = [(100, ''a.b'')] \<and>
   (\<exists>i t. answeredAt id up [(100, ''a.b'')] ''a.b'' (noResolution ''not_found'') i t \<and> 103 < t + 5)"
proof -
  let ?up = "\<lambda>i h. Inr (noResolution ''not_found'') :: backend_error + customDomainResolution"
  let ?x = "noResolution ''not_found''"
  let ?r = "demoResolver2\<lparr>cr_cache := [''a.b'' \<mapsto> \<lparr>ce_result = ?x, ce_expires = 105\<rparr>]\<rparr>"
  have 1: "lookups id ?up [(100, ''a.b'')] (demoResolver2, []) = (?r, [(100, ''a.b'')])"
    by (simp add: lookups_def lookupAt_def cachedResolve_def demo_key demoResolver2_def Let_def)
  have 2: "lookupAt id ?up (103, ''a.b'') (?r, [(100, ''a.b'')]) = (Inr ?x, ?r, [(100, ''a.b'')])"
    by (simp add: lookupAt_def cachedResolve_def demo_key Let_def)
  have "cr_cache demoResolver2 = Map.empty" "answerTTL demoResolver2 ?x = 5"
    by (simp_all add: demoResolver2_def answerTTL_def)
  with cached_answers_are_fresh [OF _ _ 1 2] 1 2 show ?thesis by (auto simp: domainKey_def demo_key)
qed

text \<open>
  The cache of custom domains never shrinks.  Every miss for another hostname adds an entry and
  no lookup removes one, at whatever times the lookups happen and whatever the time to live of
  hits is, zero included: after misses for the names in a list the cache holds all of them, also
  when every entry has expired.
\<close>

theorem cache_never_forgets:
  assumes "distinct hs" "\<forall>h\<in>set hs. h \<noteq> [] \<and> ToLower uc (TrimSpace h) = h"
    and "cr_cache r = Map.empty" "0 < cr_missTTL r"
  shows "dom (cr_cache (fst (lookups uc (\<lambda>i h. Inr (noResolution ''not_found'')) (map (\<lambda>h. (clk h, h)) hs) (r, []))))
         = set hs"
  using misses_accumulate [of hs uc "(r, [])" clk] assms by simp

theorem cache_never_forgets_witness:
  "dom (cr_cache (fst (lookups id (\<lambda>i h. Inr (noResolution ''not_found''))
     [(100, ''a.b''), (1000000, ''x.y'')] (demoResolver2\<lparr>cr_hitTTL := 0\<rparr>, [])))) = {''a.b'', ''x.y''}"
proof -
  have "ToLower id (TrimSpace ''x.y'') = ''x.y''"
    by (simp add: TrimSpace_visible visible_def ToLower_def isASCII_def asciiLower_def)
  then show ?thesis
    using cache_never_forgets [of "[''a.b'', ''x.y'']" id "demoResolver2\<lparr>cr_hitTTL := 0\<rparr>"
        "\<lambda>h. if h = ''a.b'' then 100 else 1000000"]
    by (simp add: demo_key demoResolver2_def)
qed

end
