(* ===== verification/Metrics.thy ===== *)
theory Metrics
  imports RateLimit Encodings "HOL-Library.Word"
begin

text \<open>
  Package \<open>server/internal/metrics\<close>: the latency histogram and the text format of samples.  The
  counters are atomic 64-bit unsigned integers, here \<open>64 word\<close>; \<open>rnd\<close> rounds to \<open>float64\<close> and
  \<open>ff\<close> is \<open>strconv.FormatFloat(_, 'f', -1, 64)\<close>.  The numbers that the runtime and the
  database pool report are arguments.
\<close>

type_synonym uint64 = "64 word"

section \<open>Samples\<close>

definition newline :: string where
  "newline = [CHR 0x0A]"

definition writeSample :: "string \<Rightarrow> string \<Rightarrow> string \<Rightarrow> uint64 \<Rightarrow> string" where
  "writeSample name help metricType val =
     ''# HELP '' @ name @ '' '' @ help @ newline @
     ''# TYPE '' @ name @ '' '' @ metricType @ newline @
     name @ '' '' @ showNat (unat val) @ newline"

definition WriteGauge :: "string \<Rightarrow> string \<Rightarrow> uint64 \<Rightarrow> string" where
  "WriteGauge name help val = writeSample name help ''gauge'' val"

definition WriteCounter :: "string \<Rightarrow> string \<Rightarrow> uint64 \<Rightarrow> string" where
  "WriteCounter name help val = writeSample name help ''counter'' val"

text \<open>
  \<open>WriteRuntimeStats\<close> and \<open>WriteDBPoolStats\<close> over what the Go runtime, \<open>/proc/self/fd\<close> and
  \<open>database/sql\<close> report.
\<close>

record processStats =
  rt_NumGoroutine :: nat
  rt_HeapAlloc :: uint64
  rt_HeapSys :: uint64
  rt_openFDs :: "nat option"

record DBStats =
  db_OpenConnections :: int
  db_InUse :: int
  db_Idle :: int
  db_WaitCount :: int

definition WriteRuntimeStats :: "string \<Rightarrow> processStats \<Rightarrow> string" where
  "WriteRuntimeStats prefix stats =
     WriteGauge (prefix @ ''_goroutines'') ''Current number of goroutines.'' (word_of_nat (rt_NumGoroutine stats)) @
     WriteGauge (prefix @ ''_heap_alloc_bytes'') ''Bytes of allocated, reachable heap objects.'' (rt_HeapAlloc stats) @
     WriteGauge (prefix @ ''_heap_sys_bytes'') ''Bytes of heap memory obtained from the OS.'' (rt_HeapSys stats) @
     (case rt_openFDs stats of
        None \<Rightarrow> []
      | Some fds \<Rightarrow> WriteGauge (prefix @ ''_open_fds'') ''Current number of open file descriptors.'' (word_of_nat fds))"

definition WriteDBPoolStats :: "string \<Rightarrow> DBStats \<Rightarrow> string" where
  "WriteDBPoolStats prefix stats =
     WriteGauge (prefix @ ''_db_open_connections'') ''Current number of established database connections.'' (word_of_int (db_OpenConnections stats)) @
     WriteGauge (prefix @ ''_db_in_use_connections'') ''Current number of database connections in use.'' (word_of_int (db_InUse stats)) @
     WriteGauge (prefix @ ''_db_idle_connections'') ''Current number of idle database connections.'' (word_of_int (db_Idle stats)) @
     WriteCounter (prefix @ ''_db_wait_count_total'') ''Total database connections waited for because the pool was at its limit.''
       (word_of_int (db_WaitCount stats))"

section \<open>Histogram\<close>

record Histogram =
  hg_bounds :: "rat list"
  hg_buckets :: "uint64 list"
  hg_count :: uint64
  hg_sumNanos :: uint64

definition DefaultLatencyBuckets :: "(rat \<Rightarrow> rat) \<Rightarrow> rat list" where
  "DefaultLatencyBuckets rnd =
     map rnd [5 / 1000, 1 / 100, 25 / 1000, 5 / 100, 1 / 10, 25 / 100, 5 / 10, 1, 25 / 10, 5, 10, 30]"

definition NewHistogram :: "rat list \<Rightarrow> Histogram" where
  "NewHistogram bounds =
     \<lparr>hg_bounds = bounds, hg_buckets = replicate (length bounds) 0, hg_count = 0, hg_sumNanos = 0\<rparr>"

definition Observe :: "(rat \<Rightarrow> rat) \<Rightarrow> Histogram \<Rightarrow> duration \<Rightarrow> Histogram" where
  "Observe rnd h d =
     (let seconds = Seconds rnd d in
      h\<lparr>hg_buckets := map2 (\<lambda>bound b. if seconds \<le> bound then b + 1 else b) (hg_bounds h) (hg_buckets h),
        hg_count := hg_count h + 1,
        hg_sumNanos := (if d > 0 then hg_sumNanos h + word_of_int d else hg_sumNanos h)\<rparr>)"

text \<open>The bucket labels are numbers, whose \<open>%q\<close> form is the number between quotes.\<close>

definition HistogramWriteTo :: "(rat \<Rightarrow> rat) \<Rightarrow> (rat \<Rightarrow> string) \<Rightarrow> Histogram \<Rightarrow> string \<Rightarrow> string \<Rightarrow> string" where
  "HistogramWriteTo rnd ff h name help =
     ''# HELP '' @ name @ '' '' @ help @ newline @
     ''# TYPE '' @ name @ '' histogram'' @ newline @
     concat (map2 (\<lambda>bound b. name @ ''_bucket{le='' @ [CHR 0x22] @ ff bound @ [CHR 0x22] @ ''} '' @ showNat (unat b) @ newline)
               (hg_bounds h) (hg_buckets h)) @
     name @ ''_bucket{le='' @ [CHR 0x22] @ ''+Inf'' @ [CHR 0x22] @ ''} '' @ showNat (unat (hg_count h)) @ newline @
     name @ ''_sum '' @ ff (rnd (rnd (of_nat (unat (hg_sumNanos h))) / 1000000000)) @ newline @
     name @ ''_count '' @ showNat (unat (hg_count h)) @ newline"

definition observeAll :: "(rat \<Rightarrow> rat) \<Rightarrow> rat list \<Rightarrow> duration list \<Rightarrow> Histogram" where
  "observeAll rnd bounds ds = foldl (Observe rnd) (NewHistogram bounds) ds"

section \<open>Lemmas\<close>

lemma observeAll_snoc: "observeAll rnd bounds (ds @ [d]) = Observe rnd (observeAll rnd bounds ds) d"
  by (simp add: observeAll_def)

lemma observeAll_shape [simp]:
  "hg_bounds (observeAll rnd bounds ds) = bounds"
  "length (hg_buckets (observeAll rnd bounds ds)) = length bounds"
  by (induction ds rule: rev_induct)
     (simp_all add: observeAll_snoc Observe_def Let_def, simp_all add: observeAll_def NewHistogram_def)

lemma observeAll_count: "hg_count (observeAll rnd bounds ds) = of_nat (length ds)"
  by (induction ds rule: rev_induct)
     (simp_all add: observeAll_snoc Observe_def Let_def, simp add: observeAll_def NewHistogram_def)

lemma observeAll_sum: "hg_sumNanos (observeAll rnd bounds ds) = word_of_int (\<Sum>d\<leftarrow>ds. max 0 d)"
  by (induction ds rule: rev_induct)
     (auto simp: observeAll_snoc Observe_def Let_def max_def, simp add: observeAll_def NewHistogram_def)

lemma observeAll_bucket:
  assumes "i < length bounds"
  shows "hg_buckets (observeAll rnd bounds ds) ! i = of_nat (length (filter (\<lambda>d. Seconds rnd d \<le> bounds ! i) ds))"
proof (induction ds rule: rev_induct)
  case Nil
  then show ?case using assms by (simp add: observeAll_def NewHistogram_def)
next
  case (snoc d ds)
  have "hg_buckets (observeAll rnd bounds (ds @ [d])) ! i =
        (if Seconds rnd d \<le> bounds ! i then hg_buckets (observeAll rnd bounds ds) ! i + 1
         else hg_buckets (observeAll rnd bounds ds) ! i)"
    using assms by (simp add: observeAll_snoc Observe_def Let_def)
  with snoc show ?case by (simp add: ac_simps)
qed

section \<open>Properties\<close>

text \<open>
  The latency histogram counts exactly.  As long as fewer than two to the sixty-fourth requests
  were observed, every bucket holds the number of requests whose duration is at most its bound and
  the count is the number of all requests, so buckets with larger bounds hold at least as many and
  none exceeds the count; the sum is the total of the durations as a 64-bit number.
\<close>

theorem histogram_is_exact:
  assumes "length ds < 2 ^ 64" "i < length bounds"
  shows "unat (hg_buckets (observeAll rnd bounds ds) ! i) = length (filter (\<lambda>d. Seconds rnd d \<le> bounds ! i) ds) \<and>
    unat (hg_count (observeAll rnd bounds ds)) = length ds \<and>
    uint (hg_sumNanos (observeAll rnd bounds ds)) = (\<Sum>d\<leftarrow>ds. max 0 d) mod 2 ^ 64 \<and>
    (\<forall>j. i \<le> j \<and> j < length bounds \<and> bounds ! i \<le> bounds ! j \<longrightarrow>
       hg_buckets (observeAll rnd bounds ds) ! i \<le> hg_buckets (observeAll rnd bounds ds) ! j)"
proof -
  let ?n = "\<lambda>b. length (filter (\<lambda>d. Seconds rnd d \<le> b) ds)"
  have small: "?n b < 2 ^ 64" for b using assms(1) length_filter_le [of "\<lambda>d. Seconds rnd d \<le> b" ds] by linarith
  have u: "unat (of_nat k :: uint64) = k" if "k < 2 ^ 64" for k
    using that by (simp add: unat_of_nat take_bit_nat_eq_self)
  have mono: "?n b \<le> ?n c" if "b \<le> c" for b c
    using that by (induction ds) auto
  have "(of_nat (?n (bounds ! i)) :: uint64) \<le> of_nat (?n (bounds ! j))" if "bounds ! i \<le> bounds ! j" for j
    using mono [OF that] u [OF small] by (simp add: word_le_nat_alt)
  then show ?thesis
    using assms u [OF small [of "bounds ! i"]] u [OF assms(1)]
    by (auto simp: observeAll_bucket observeAll_count observeAll_sum uint_word_of_int)
qed

theorem histogram_is_exact_witness:
  "let h = observeAll (\<lambda>x. x) [1, 2] [Second, 3 * Second, 0] in
   unat (hg_buckets h ! 0) = 2 \<and> unat (hg_count h) = 3 \<and> uint (hg_sumNanos h) = 4 * Second \<and>
   hg_buckets h ! 0 \<le> hg_buckets h ! 1"
  using histogram_is_exact [of "[Second, 3 * Second, 0]" 0 "[1, 2]" "\<lambda>x. x"]
  by (auto simp: Second_def Seconds_def goQuot_def goRem_def)

end
