(* ===== verification/Gateway.thy ===== *)
theory Gateway
  imports Backends Metrics Names
begin

text \<open>
  The state of the gateway server (\<open>server.go\<close>): its construction, the routing of a host name to a
  tunnel, and the table of connected agents.  What the code calls outside is collected in the
  record \<open>genv\<close>, whose type variable is the state of the control plane; \<open>now\<close> is \<open>time.Now\<close>.
\<close>

section \<open>State\<close>

record 'w genv =
  ge_sha :: "bytes \<Rightarrow> bytes"
  ge_uc :: "string \<Rightarrow> string"
  ge_ef :: "string \<Rightarrow> string \<Rightarrow> bool"
  ge_quo :: "string \<Rightarrow> string"
  ge_url :: urls
  ge_cd :: cp_codec
  ge_rt :: "'w round_tripper"
  ge_js :: json
  ge_fl :: "rat \<Rightarrow> rat"

record gatewayMetrics =
  gm_publicRequestsTotal :: uint64
  gm_publicRequestErrorsTotal :: uint64
  gm_publicRequestRateLimitedTotal :: uint64
  gm_publicRequestAuthAttemptsLimitedTotal :: uint64
  gm_publicRequestTimeoutsTotal :: uint64
  gm_publicRequestStreamIdleTimeoutsTotal :: uint64
  gm_publicRequestStreamMaxLifetimeTotal :: uint64
  gm_publicRequestBodyTooLargeTotal :: uint64
  gm_publicRequestClientCanceledTotal :: uint64
  gm_publicRequestNoActiveSessionTotal :: uint64
  gm_publicRequestAccessDeniedTotal :: uint64
  gm_publicRequestAccessPolicyErrorsTotal :: uint64
  gm_customDomainLookupsTotal :: uint64
  gm_customDomainLookupHitsTotal :: uint64
  gm_customDomainLookupMissesTotal :: uint64
  gm_customDomainLookupErrorsTotal :: uint64
  gm_tokenValidationsTotal :: uint64
  gm_tokenValidationErrorsTotal :: uint64
  gm_authFailuresTotal :: uint64
  gm_tunnelRegistrationsTotal :: uint64
  gm_tunnelRegistrationFailuresTotal :: uint64
  gm_publicRequestDuration :: Histogram

definition newGatewayMetrics :: "(rat \<Rightarrow> rat) \<Rightarrow> gatewayMetrics" where
  "newGatewayMetrics rnd =
     \<lparr>gm_publicRequestsTotal = 0, gm_publicRequestErrorsTotal = 0, gm_publicRequestRateLimitedTotal = 0,
      gm_publicRequestAuthAttemptsLimitedTotal = 0, gm_publicRequestTimeoutsTotal = 0,
      gm_publicRequestStreamIdleTimeoutsTotal = 0, gm_publicRequestStreamMaxLifetimeTotal = 0,
      gm_publicRequestBodyTooLargeTotal = 0, gm_publicRequestClientCanceledTotal = 0,
      gm_publicRequestNoActiveSessionTotal = 0, gm_publicRequestAccessDeniedTotal = 0,
      gm_publicRequestAccessPolicyErrorsTotal = 0, gm_customDomainLookupsTotal = 0, gm_customDomainLookupHitsTotal = 0,
      gm_customDomainLookupMissesTotal = 0, gm_customDomainLookupErrorsTotal = 0, gm_tokenValidationsTotal = 0,
      gm_tokenValidationErrorsTotal = 0, gm_authFailuresTotal = 0, gm_tunnelRegistrationsTotal = 0,
      gm_tunnelRegistrationFailuresTotal = 0, gm_publicRequestDuration = NewHistogram (DefaultLatencyBuckets rnd)\<rparr>"

text \<open>
  \<open>sv_store\<close> stands for the optional \<open>requestLogStore\<close>, a database: the entries handed to it.
\<close>

record Server =
  sv_cfg :: Config
  sv_registry :: Registry
  sv_tokens :: tokenBackend
  sv_reserved :: reservedBackend
  sv_access :: accessBackend
  sv_domains :: domainBackend
  sv_metrics :: gatewayMetrics
  sv_startedAt :: gotime
  sv_requestLogs :: requestLogBuffer
  sv_store :: "requestLogEntry list option"
  sv_clientIPs :: Resolver
  sv_authAttempts :: authAttemptThrottle
  sv_sessions :: "string \<rightharpoonup> agentSession"

definition newServerWithRequestLogWriter ::
  "'w genv \<Rightarrow> gotime \<Rightarrow> Config \<Rightarrow> requestLogEntry list option \<Rightarrow> Server" where
  "newServerWithRequestLogWriter E now cfg0 store =
     (let cfg = normalizeConfig cfg0; u = ge_url E in
      \<lparr>sv_cfg = cfg, sv_registry = NewRegistry,
       sv_tokens = (case newAgentTokenValidator u cfg of Inl e \<Rightarrow> ErrorTokens e | Inr v \<Rightarrow> v),
       sv_reserved = (case newReservedSubdomainAuthorizer u cfg of Inl e \<Rightarrow> ErrorReserved e | Inr v \<Rightarrow> v),
       sv_access = (case newAccessPolicyEvaluator u cfg of Inl e \<Rightarrow> ErrorAccess e | Inr v \<Rightarrow> v),
       sv_domains = (case newCustomDomainResolver u cfg of Inl e \<Rightarrow> ErrorDomains e | Inr v \<Rightarrow> v),
       sv_metrics = newGatewayMetrics (ge_fl E), sv_startedAt = now,
       sv_requestLogs = newRequestLogBuffer (cfg_RequestLogLimit cfg), sv_store = store,
       sv_clientIPs = NewResolver (case ParseTrustedProxies (cfg_TrustedProxies cfg) of Inl e \<Rightarrow> [] | Inr ps \<Rightarrow> ps),
       sv_authAttempts = newAuthAttemptThrottle (cfg_AuthAttemptLimit cfg) (cfg_AuthAttemptWindow cfg),
       sv_sessions = Map.empty\<rparr>)"

text \<open>\<open>metric.Add(1)\<close> for one counter.\<close>

definition addOne :: "((uint64 \<Rightarrow> uint64) \<Rightarrow> gatewayMetrics \<Rightarrow> gatewayMetrics) \<Rightarrow> Server \<Rightarrow> Server" where
  "addOne upd s = s\<lparr>sv_metrics := upd (\<lambda>n. n + 1) (sv_metrics s)\<rparr>"

section \<open>Routing\<close>

record hostRoute =
  ro_Subdomain :: string
  ro_CustomDomain :: string
  ro_MissReason :: string

datatype route_error =
    LookupError backend_error
  | NoSubdomain string
  | InvalidSubdomain string string name_error

definition sameHostname :: "(string \<Rightarrow> string) \<Rightarrow> string \<Rightarrow> string \<Rightarrow> bool" where
  "sameHostname uc left0 right0 =
     (let left = TrimSuffix (ToLower uc (TrimSpace left0)) ''.'';
          right = TrimSuffix (ToLower uc (TrimSpace right0)) ''.''
      in left \<noteq> [] \<and> left = right)"

definition customDomainStatusMissReason :: "string \<Rightarrow> string" where
  "customDomainStatusMissReason st =
     (if TrimSpace st = ''pending_verification'' then ''not_verified''
      else if TrimSpace st = ''verification_failed'' then ''verification_failed'' else ''not_found'')"

definition customDomainMissReason :: "string \<Rightarrow> string" where
  "customDomainMissReason reason = (if TrimSpace reason = [] then ''not_found'' else TrimSpace reason)"

definition customDomainMissOutcome :: "string \<Rightarrow> string" where
  "customDomainMissOutcome reason0 =
     (let reason = TrimSpace reason0 in
      if reason = ''not_verified'' then ''custom_domain_not_verified''
      else if reason = ''verification_failed'' then ''custom_domain_verification_failed''
      else if reason = ''no_control_plane'' then ''custom_domain_no_control_plane''
      else if reason = ''not_found'' \<or> reason = [] then ''custom_domain_not_found''
      else ''custom_domain_lookup_miss'')"

definition customDomainMissMessage :: "string \<Rightarrow> string" where
  "customDomainMissMessage reason0 =
     (let reason = TrimSpace reason0 in
      if reason = ''not_verified'' then ''custom domain is pending verification''
      else if reason = ''verification_failed'' then ''custom domain verification failed''
      else if reason = ''no_control_plane'' then ''custom domains require a control plane''
      else ''custom domain was not found'')"

definition subdomainFromHost :: "(string \<Rightarrow> string) \<Rightarrow> string \<Rightarrow> string \<Rightarrow> string option" where
  "subdomainFromHost uc rootDomain hostport =
     (let host0 = ToLower uc (TrimSpace hostport) in
      if host0 = [] then None
      else let host = (case SplitHostPort host0 of Some (splitHost, port) \<Rightarrow> splitHost | None \<Rightarrow> host0);
               suffix = ''.'' @ ToLower uc (TrimSpace rootDomain)
           in if \<not> HasSuffix host suffix then None
              else let subdomain = TrimSuffix host suffix in
                   if subdomain = [] \<or> Contains subdomain ''.'' then None
                   else if ValidateSubdomain subdomain \<noteq> None then None
                   else Some subdomain)"

definition lookupLabel :: "string \<Rightarrow> bool" where
  "lookupLabel l \<longleftrightarrow>
     l \<noteq> [] \<and> length l \<le> MaxSubdomainLength \<and> hd l \<noteq> CHR ''-'' \<and> last l \<noteq> CHR ''-'' \<and> list_all labelChar l"

definition customDomainLookupHostname :: "(string \<Rightarrow> string) \<Rightarrow> string \<Rightarrow> string option" where
  "customDomainLookupHostname uc hostport =
     (let host0 = ToLower uc (TrimSpace hostport) in
      if host0 = [] then None
      else case (case SplitHostPort host0 of
                   Some (splitHost, port) \<Rightarrow> Some splitHost
                 | None \<Rightarrow> if Contains host0 '':'' then None else Some host0) of
             None \<Rightarrow> None
           | Some host1 \<Rightarrow>
               let host = TrimSuffix host1 ''.'' in
               if \<not> Contains host ''.'' then None
               else if ContainsAny host ''*/_'' then None
               else if list_all lookupLabel (Split host CHR ''.'') then Some host
               else None)"

definition routeForHost ::
  "'w genv \<Rightarrow> gotime \<Rightarrow> Server \<Rightarrow> string \<Rightarrow> 'w \<Rightarrow> (route_error + hostRoute \<times> bool) \<times> Server \<times> 'w" where
  "routeForHost E now s hostport w =
     (let uc = ge_uc E; noRoute = \<lparr>ro_Subdomain = [], ro_CustomDomain = [], ro_MissReason = []\<rparr> in
      case subdomainFromHost uc (cfg_RootDomain (sv_cfg s)) hostport of
        Some subdomain \<Rightarrow> (Inr (noRoute\<lparr>ro_Subdomain := subdomain\<rparr>, True), s, w)
      | None \<Rightarrow>
          (case customDomainLookupHostname uc hostport of
             None \<Rightarrow> (Inr (noRoute, False), s, w)
           | Some hostname \<Rightarrow>
               if sameHostname uc hostname (cfg_RootDomain (sv_cfg s)) then (Inr (noRoute, False), s, w)
               else case ResolveCustomDomain uc (ge_url E) (ge_cd E) (ge_rt E) now (sv_domains s) hostname w of
                      (res, domains, w') \<Rightarrow>
                        let s1 = (addOne gm_customDomainLookupsTotal_update s)\<lparr>sv_domains := domains\<rparr> in
                        case res of
                          Inl e \<Rightarrow> (Inl (LookupError e), addOne gm_customDomainLookupErrorsTotal_update s1, w')
                        | Inr result \<Rightarrow>
                            let resultHostname = (if TrimSpace (dr_Hostname result) = [] then hostname else TrimSpace (dr_Hostname result));
                                subdomain = ToLower uc (TrimSpace (dr_Subdomain result))
                            in if \<not> dr_Found result
                               then (Inr (noRoute\<lparr>ro_CustomDomain := resultHostname,
                                                  ro_MissReason := customDomainMissReason (dr_Reason result)\<rparr>, False),
                                     addOne gm_customDomainLookupMissesTotal_update s1, w')
                               else if dr_Status result \<noteq> [] \<and> dr_Status result \<noteq> ''active''
                               then (Inr (noRoute\<lparr>ro_CustomDomain := resultHostname,
                                                  ro_MissReason := customDomainStatusMissReason (dr_Status result)\<rparr>, False),
                                     addOne gm_customDomainLookupMissesTotal_update s1, w')
                               else if subdomain = []
                               then (Inl (NoSubdomain hostname), addOne gm_customDomainLookupErrorsTotal_update s1, w')
                               else case ValidateSubdomain subdomain of
                                      Some e \<Rightarrow> (Inl (InvalidSubdomain hostname (dr_Subdomain result) e),
                                                 addOne gm_customDomainLookupErrorsTotal_update s1, w')
                                    | None \<Rightarrow> (Inr (noRoute\<lparr>ro_Subdomain := subdomain, ro_CustomDomain := resultHostname\<rparr>, True),
                                              addOne gm_customDomainLookupHitsTotal_update s1, w')))"

section \<open>Sessions\<close>

definition sessionByTunnelID :: "Server \<Rightarrow> string \<Rightarrow> agentSession option" where
  "sessionByTunnelID s tunnelID = sv_sessions s tunnelID"

definition sessionBySubdomain :: "Server \<Rightarrow> string \<Rightarrow> agentSession option" where
  "sessionBySubdomain s subdomain =
     (case LookupBySubdomain (sv_registry s) subdomain of
        None \<Rightarrow> None
      | Some tunnel \<Rightarrow> sv_sessions s (ss_TunnelID tunnel))"

definition streamStats :: "Server \<Rightarrow> string list \<Rightarrow> nat \<times> nat" where
  "streamStats s order =
     (sum_list (map activeStreams (rangeValues order (sv_sessions s))),
      sum_list (map streamCapacity (rangeValues order (sv_sessions s))))"

definition addSession :: "Server \<Rightarrow> agentSession \<Rightarrow> Server" where
  "addSession s session = s\<lparr>sv_sessions := (sv_sessions s)(ss_TunnelID (as_tunnel session) \<mapsto> session)\<rparr>"

definition removeSession :: "Server \<Rightarrow> string \<Rightarrow> Server" where
  "removeSession s tunnelID =
     s\<lparr>sv_sessions := (sv_sessions s)(tunnelID := None), sv_registry := Unregister (sv_registry s) tunnelID\<rparr>"

text \<open>The texts of host names and of optional ports.\<close>

definition hostText :: "string \<Rightarrow> bool" where
  "hostText h \<longleftrightarrow> list_all (\<lambda>c. labelChar c \<or> c = CHR ''.'') h"

definition portText :: "string \<Rightarrow> bool" where
  "portText p \<longleftrightarrow> p = [] \<or> (\<exists>ds. p = CHR '':'' # ds \<and> list_all isDigit ds)"

text \<open>A gateway with default settings and no control plane, for the examples below.\<close>

definition demoEnv :: "unit genv" where
  "demoEnv =
     \<lparr>ge_sha = id, ge_uc = id, ge_ef = (\<lambda>s t. s = t), ge_quo = id,
      ge_url = \<lparr>urlParse = (\<lambda>s. Inl s), urlString = url_Host, PathUnescape = Some\<rparr>,
      ge_cd = \<lparr>encValidate = (\<lambda>r. None), decValidated = (\<lambda>b. None), encAuthorize = (\<lambda>r. None), decAuthorized = (\<lambda>b. None),
               encEvaluate = (\<lambda>r. None), decEvaluated = (\<lambda>b. None), encLookup = (\<lambda>h. None), decLookedUp = (\<lambda>b. None)\<rparr>,
      ge_rt = (\<lambda>r w. (None, w)), ge_js = demoJSON, ge_fl = id\<rparr>"

definition demoConfig :: Config where
  "demoConfig = ConfigFromEnv id (\<lambda>name. [])"

definition demoServer :: Server where
  "demoServer = newServerWithRequestLogWriter demoEnv 0 demoConfig None"

section \<open>Lemmas\<close>

lemma lastIndex_append:
  assumes "c \<notin> set p"
  shows "lastIndex c (h @ c # p) = Some (length h)"
proof -
  have "takeWhile (\<lambda>x. x \<noteq> c) (rev (h @ c # p)) = rev p"
    using assms takeWhile_append2 [of "rev p" "\<lambda>x. x \<noteq> c" "c # rev h"] by auto
  then show ?thesis by (simp add: lastIndex_def)
qed

lemma SplitHostPort_none: "CHR '':'' \<notin> set h \<Longrightarrow> SplitHostPort h = None"
  by (simp add: SplitHostPort_def lastIndex_def)

lemma SplitHostPort_port:
  assumes "CHR '':'' \<notin> set h" "CHR ''['' \<notin> set h" "CHR '']'' \<notin> set h"
    and "CHR '':'' \<notin> set p" "CHR ''['' \<notin> set p" "CHR '']'' \<notin> set p"
  shows "SplitHostPort (h @ CHR '':'' # p) = Some (h, p)"
proof -
  have "\<not> HasPrefix (h @ CHR '':'' # p) ''[''"
    using assms by (cases h) (auto simp: HasPrefix_def)
  then show ?thesis
    using assms by (simp add: SplitHostPort_def lastIndex_append)
qed

lemma hostText_no_colon:
  assumes "hostText h"
  shows "CHR '':'' \<notin> set h" "CHR ''['' \<notin> set h" "CHR '']'' \<notin> set h" "list_all isASCII h" "list_all visible h" "map asciiLower h = h"
proof -
  have 1: "labelChar c \<or> c = CHR ''.'' \<Longrightarrow> c \<noteq> CHR '':'' \<and> c \<noteq> CHR ''['' \<and> c \<noteq> CHR '']'' \<and> isASCII c \<and> visible c \<and> asciiLower c = c" for c
    by (auto simp: labelChar_def isASCII_def visible_def asciiLower_def Let_def)
  show "CHR '':'' \<notin> set h" "CHR ''['' \<notin> set h" "CHR '']'' \<notin> set h" "list_all isASCII h" "list_all visible h"
    using assms 1 by (auto simp: hostText_def list_all_iff)
  show "map asciiLower h = h" using assms 1 by (simp add: hostText_def list_all_iff map_idI)
qed

lemma lookupLabel_iff: "lookupLabel l \<longleftrightarrow> ValidateSubdomain l = None"
  by (auto simp: lookupLabel_def ValidateSubdomain_iff MaxSubdomainLength_def)

lemma asciiLower_keeps:
  assumes "list_all isASCII (map asciiLower h)"
  shows "list_all isASCII h"
  using assms by (auto simp: list_all_iff isASCII_def asciiLower_def Let_def split: if_splits)

lemma asciiLower_visible:
  assumes "list_all visible (map asciiLower h)"
  shows "list_all visible h"
  using assms by (auto simp: list_all_iff visible_def asciiLower_def Let_def split: if_splits)

lemma digit_plain: "isDigit c \<Longrightarrow> isASCII c \<and> visible c \<and> c \<noteq> CHR '':'' \<and> c \<noteq> CHR ''['' \<and> c \<noteq> CHR '']''"
  by (auto simp: isDigit_def isASCII_def visible_def)

lemma subdomainFromHost_complete:
  assumes "ValidateSubdomain sd = None" "hostText rootDomain" "portText port"
    and "map asciiLower host = sd @ ''.'' @ rootDomain @ port"
  shows "subdomainFromHost uc rootDomain host = Some sd"
proof -
  have sd: "list_all labelChar sd" "sd \<noteq> []" using assms(1) by (auto simp: ValidateSubdomain_iff)
  then have h: "hostText (sd @ ''.'' @ rootDomain)" using assms(2) by (auto simp: hostText_def list_all_iff)
  note H = hostText_no_colon [OF h]
  have p: "list_all isASCII port" "list_all visible port"
    using assms(3) digit_plain by (auto simp: portText_def list_all_iff isASCII_def visible_def)
  have "list_all isASCII (map asciiLower host)" "list_all visible (map asciiLower host)"
    using H(4, 5) p unfolding assms(4) by simp_all
  then have "TrimSpace host = host" "list_all isASCII host"
    by (auto intro: asciiLower_keeps TrimSpace_visible asciiLower_visible)
  then have lower: "ToLower uc (TrimSpace host) = sd @ ''.'' @ rootDomain @ port"
    using assms(4) by (simp add: ToLower_def)
  have split: "(case SplitHostPort (sd @ ''.'' @ rootDomain @ port) of
       Some (splitHost, port) \<Rightarrow> splitHost | None \<Rightarrow> sd @ ''.'' @ rootDomain @ port) = sd @ ''.'' @ rootDomain"
  proof (cases "port = []")
    case True
    then show ?thesis using SplitHostPort_none [of "sd @ ''.'' @ rootDomain"] H(1) by simp
  next
    case False
    then obtain ds where ds: "port = CHR '':'' # ds" "list_all isDigit ds" using assms(3) by (auto simp: portText_def)
    then have "CHR '':'' \<notin> set ds" "CHR ''['' \<notin> set ds" "CHR '']'' \<notin> set ds"
      using digit_plain by (auto simp: list_all_iff)
    then show ?thesis using SplitHostPort_port [of "sd @ ''.'' @ rootDomain" ds] H ds by simp
  qed
  have rootD: "ToLower uc (TrimSpace rootDomain) = rootDomain"
    using hostText_no_colon [OF assms(2)] by (simp add: TrimSpace_visible ToLower_def)
  have "CHR ''.'' \<notin> set sd" using sd labelChar_not_dot by (auto simp: list_all_iff)
  then have "\<not> Contains sd ''.''" by (simp add: Contains_single)
  then show ?thesis
    unfolding subdomainFromHost_def Let_def lower rootD split
    using sd(2) assms(1) TrimSuffix_append [of sd "''.'' @ rootDomain"] HasSuffix_append [of sd "''.'' @ rootDomain"]
    by simp
qed

lemma subdomainFromHost_valid: "subdomainFromHost uc rootDomain host = Some sd \<Longrightarrow> ValidateSubdomain sd = None"
  by (auto simp: subdomainFromHost_def Let_def split: if_splits option.splits)

lemma routeForHost_True:
  assumes "routeForHost E now s host w = (Inr (ro, True), s', w')"
  shows "ValidateSubdomain (ro_Subdomain ro) = None \<and>
    (subdomainFromHost (ge_uc E) (cfg_RootDomain (sv_cfg s)) host = Some (ro_Subdomain ro) \<or>
     subdomainFromHost (ge_uc E) (cfg_RootDomain (sv_cfg s)) host = None \<and>
     (\<exists>name domains result. customDomainLookupHostname (ge_uc E) host = Some name \<and>
        ResolveCustomDomain (ge_uc E) (ge_url E) (ge_cd E) (ge_rt E) now (sv_domains s) name w = (Inr result, domains, w') \<and>
        dr_Found result \<and> dr_Status result \<in> {[], ''active''} \<and>
        ro_Subdomain ro = ToLower (ge_uc E) (TrimSpace (dr_Subdomain result))))"
  using assms subdomainFromHost_valid
  by (auto simp: routeForHost_def Let_def split: option.splits if_splits prod.splits sum.splits)

lemma demoServer_root: "cfg_RootDomain (sv_cfg demoServer) = ''localhost''"
  by (simp add: demoServer_def demoConfig_def newServerWithRequestLogWriter_def Let_def ConfigFromEnv_def
      normalizeConfig_def envString_def ifEmpty_def defaultRootDomain_def)

section \<open>Properties\<close>

text \<open>
  Host names are routed exactly.  A host name made of a valid label, the root domain and an
  optional port, in any mixture of cases, leads to the tunnel of that label and asks nobody.  In
  the other direction a request is routed only to a valid subdomain, and only because its host name
  spells that subdomain or because the control plane found an active custom domain for it.
\<close>

theorem hosts_are_routed_exactly:
  assumes "hostText (cfg_RootDomain (sv_cfg s))"
  shows "(\<forall>sd port host. ValidateSubdomain sd = None \<and> portText port \<and>
            map asciiLower host = sd @ ''.'' @ cfg_RootDomain (sv_cfg s) @ port \<longrightarrow>
            routeForHost E now s host w = (Inr (\<lparr>ro_Subdomain = sd, ro_CustomDomain = [], ro_MissReason = []\<rparr>, True), s, w)) \<and>
    (\<forall>host ro s' w'. routeForHost E now s host w = (Inr (ro, True), s', w') \<longrightarrow>
       ValidateSubdomain (ro_Subdomain ro) = None \<and>
       (subdomainFromHost (ge_uc E) (cfg_RootDomain (sv_cfg s)) host = Some (ro_Subdomain ro) \<or>
        (\<exists>name domains result. customDomainLookupHostname (ge_uc E) host = Some name \<and>
           ResolveCustomDomain (ge_uc E) (ge_url E) (ge_cd E) (ge_rt E) now (sv_domains s) name w = (Inr result, domains, w') \<and>
           dr_Found result \<and> dr_Status result \<in> {[], ''active''} \<and>
           ro_Subdomain ro = ToLower (ge_uc E) (TrimSpace (dr_Subdomain result)))))"
proof (intro conjI allI impI)
  fix sd port host
  assume "ValidateSubdomain sd = None \<and> portText port \<and>
    map asciiLower host = sd @ ''.'' @ cfg_RootDomain (sv_cfg s) @ port"
  then have "subdomainFromHost (ge_uc E) (cfg_RootDomain (sv_cfg s)) host = Some sd"
    by (intro subdomainFromHost_complete [where port = port]) (use assms in auto)
  then show "routeForHost E now s host w = (Inr (\<lparr>ro_Subdomain = sd, ro_CustomDomain = [], ro_MissReason = []\<rparr>, True), s, w)"
    by (simp add: routeForHost_def)
qed (drule routeForHost_True, blast)+

theorem hosts_are_routed_exactly_witness:
  "routeForHost demoEnv 0 demoServer ''App.LocalHost:8080'' () =
     (Inr (\<lparr>ro_Subdomain = ''app'', ro_CustomDomain = [], ro_MissReason = []\<rparr>, True), demoServer, ())"
proof -
  have "hostText (cfg_RootDomain (sv_cfg demoServer))"
    by (simp add: demoServer_root hostText_def labelChar_def)
  moreover have "ValidateSubdomain ''app'' = None" "portText '':8080''"
    by (simp_all add: ValidateSubdomain_iff labelChar_def portText_def isDigit_def)
  moreover have "map asciiLower ''App.LocalHost:8080'' = ''app'' @ ''.'' @ cfg_RootDomain (sv_cfg demoServer) @ '':8080''"
    unfolding demoServer_root by code_simp
  ultimately show ?thesis
    using hosts_are_routed_exactly [of demoServer demoEnv 0 "()"] by blast
qed

end
