(* ===== verification/Registration.thy ===== *)
theory Registration
  imports Gateway
begin

text \<open>
  The handshake of an agent with the gateway (\<open>handleAgentWebSocket\<close> and what it calls in
  \<open>server.go\<close>): authentication, the choice of a subdomain and the registration of the tunnel.

  \<open>rd\<close> is what \<open>wsjson.Read\<close> returned and \<open>ok\<close> whether the write of the final reply of the phase
  succeeded; the other replies are sent and their result ignored, as in the code.  The replies are
  returned in order.  \<open>sdraw i\<close> and \<open>tdraw i\<close> are the random numbers of the \<open>i\<close>-th attempt.
\<close>

section \<open>Authentication\<close>

record agentIdentity =
  ai_Valid :: bool
  ai_TokenID :: string
  ai_AgentVersion :: string
  ai_ProtocolVersion :: string
  ai_Capabilities :: "string list"

datatype last_error = LastName name_error | LastRegistry registry_error

datatype handshake_error =
    ReadAuthRequest
  | ExpectedAuthRequest msg_type
  | BadMessage msg_error
  | ValidateTokenError backend_error
  | InvalidToken
  | UnsupportedVersion string
  | CapabilitiesMissing "string list"
  | WriteAuthOK
  | ReadRegistration
  | ExpectedRegister msg_type
  | UnsupportedTunnelProtocol string
  | InvalidRequestedSubdomain string
  | AuthorizationFailed backend_error
  | SubdomainDenied string
  | IDGeneration name_error
  | RegistrationRefused registry_error
  | RandomExhausted string "last_error option"
  | WriteRegistered

definition zeroEnvelope :: Envelope where
  "zeroEnvelope = \<lparr>env_Type = OtherType [], env_StreamID = [], env_TunnelID = [], env_Payload = []\<rparr>"

text \<open>\<open>authErr, _ := messages.New(...)\<close>: an encoding error leaves the zero envelope.\<close>

definition authError :: "json \<Rightarrow> string \<Rightarrow> string \<Rightarrow> Envelope" where
  "authError js code message =
     (case NewEnvelope js TypeAuthError (PError \<lparr>ep_Code = code, ep_Message = message\<rparr>) of
        Inl e \<Rightarrow> zeroEnvelope
      | Inr env \<Rightarrow> env)"

definition authenticateAgent ::
  "'w genv \<Rightarrow> Server \<Rightarrow> Envelope option \<Rightarrow> bool \<Rightarrow> 'w
     \<Rightarrow> (handshake_error + agentIdentity) \<times> Envelope list \<times> Server \<times> 'w" where
  "authenticateAgent E s rd ok w =
     (case rd of
        None \<Rightarrow> (Inl ReadAuthRequest, [], s, w)
      | Some env \<Rightarrow>
          if env_Type env \<noteq> TypeAuthRequest then (Inl (ExpectedAuthRequest (env_Type env)), [], s, w)
          else case DecodePayload (unAuthRequest (ge_js E)) env of
                 Inl e \<Rightarrow> (Inl (BadMessage e), [], s, w)
               | Inr payload \<Rightarrow>
                   let s1 = addOne gm_tokenValidationsTotal_update s; js = ge_js E in
                   case ValidateAgentToken (ge_sha E) (ge_url E) (ge_cd E) (ge_rt E) (sv_tokens s) (ar_Token payload) w of
                     (Inl e, w') \<Rightarrow>
                       (Inl (ValidateTokenError e), [authError js ''auth_unavailable'' ''token validation failed''],
                        addOne gm_tokenValidationErrorsTotal_update s1, w')
                   | (Inr validation, w') \<Rightarrow>
                       if \<not> tv_Valid validation
                       then (Inl InvalidToken, [authError js ''invalid_token'' ''invalid token''], s1, w')
                       else if \<not> IsProtocolVersionSupported (ar_ProtocolVersion payload)
                       then (Inl (UnsupportedVersion (ar_ProtocolVersion payload)),
                             [authError js ''unsupported_protocol''
                                (''protocol version '' @ ge_quo E (ar_ProtocolVersion payload) @
                                 '' is not supported, minimum supported version is '' @ ge_quo E MinSupportedProtocolVersion)], s1, w')
                       else let missing = MissingRequiredCapabilities (ar_Capabilities payload) RequiredProtocolCapabilities in
                            if missing \<noteq> []
                            then (Inl (CapabilitiesMissing missing),
                                  [authError js ''unsupported_protocol''
                                     (''agent protocol is missing capabilities: '' @ Join missing '', '')], s1, w')
                            else case NewEnvelope js TypeAuthOK
                                        (PAuthOK \<lparr>ok_ProtocolVersion = ProtocolVersion,
                                                  ok_Capabilities = DefaultProtocolCapabilities\<rparr>) of
                                   Inl e \<Rightarrow> (Inl (BadMessage e), [], s1, w')
                                 | Inr authOK \<Rightarrow>
                                     if \<not> ok then (Inl WriteAuthOK, [authOK], s1, w')
                                     else (Inr \<lparr>ai_Valid = tv_Valid validation, ai_TokenID = tv_TokenID validation,
                                                ai_AgentVersion = ar_AgentVersion payload,
                                                ai_ProtocolVersion = ar_ProtocolVersion payload,
                                                ai_Capabilities = ar_Capabilities payload\<rparr>, [authOK], s1, w'))"

section \<open>The tunnel session\<close>

definition newTunnelID :: "(nat \<Rightarrow> nat option) \<Rightarrow> name_error + string" where
  "newTunnelID draw = (case RandomSubdomain draw 20 of Inl e \<Rightarrow> Inl e | Inr suffix \<Rightarrow> Inr (''tun_'' @ suffix))"

definition newStreamID :: "(nat \<Rightarrow> nat option) \<Rightarrow> name_error + string" where
  "newStreamID draw = (case RandomSubdomain draw 20 of Inl e \<Rightarrow> Inl e | Inr suffix \<Rightarrow> Inr (''str_'' @ suffix))"

definition JoinHostPort :: "string \<Rightarrow> string \<Rightarrow> string" where
  "JoinHostPort host port =
     (if CHR '':'' \<in> set host then ''['' @ host @ '']:'' @ port else host @ '':'' @ port)"

definition publicURLForSubdomain :: "urls \<Rightarrow> Config \<Rightarrow> string \<Rightarrow> string" where
  "publicURLForSubdomain u cfg subdomain =
     (let fallback = ''http://'' @ subdomain @ ''.'' @ cfg_RootDomain cfg in
      case urlParse u (cfg_PublicURL cfg) of
        Inl e \<Rightarrow> fallback
      | Inr parsed \<Rightarrow>
          if url_Scheme parsed = [] then fallback
          else let name = subdomain @ ''.'' @ cfg_RootDomain cfg;
                   host = (case SplitHostPort (url_Host parsed) of
                             Some (h, port) \<Rightarrow> if port \<noteq> [] then JoinHostPort name port else name
                           | None \<Rightarrow> name)
               in urlString u (parsed\<lparr>url_Host := host, url_Path := [], url_RawQuery := [], url_Fragment := []\<rparr>))"

definition newTunnelSession ::
  "'w genv \<Rightarrow> gotime \<Rightarrow> (nat \<Rightarrow> nat option) \<Rightarrow> Server \<Rightarrow> TunnelRegister \<Rightarrow> agentIdentity \<Rightarrow> string \<Rightarrow> name_error + Session" where
  "newTunnelSession E now draw s payload identity subdomain =
     (case newTunnelID draw of
        Inl e \<Rightarrow> Inl e
      | Inr tunnelID \<Rightarrow>
          Inr \<lparr>ss_TunnelID = tunnelID, ss_Subdomain = subdomain,
               ss_PublicURL = publicURLForSubdomain (ge_url E) (sv_cfg s) subdomain,
               ss_LocalTarget = tr_LocalTarget payload, ss_Protocol = tr_Protocol payload,
               ss_AgentVersion = ai_AgentVersion identity, ss_ProtocolVersion = ai_ProtocolVersion identity,
               ss_Capabilities = ai_Capabilities identity, ss_CreatedAt = now\<rparr>)"

definition writeTunnelError :: "json \<Rightarrow> string \<Rightarrow> string \<Rightarrow> Envelope list" where
  "writeTunnelError js code message =
     (case NewEnvelope js TypeTunnelError (PError \<lparr>ep_Code = code, ep_Message = message\<rparr>) of
        Inl e \<Rightarrow> []
      | Inr env \<Rightarrow> [env])"

definition reservedSubdomainDeniedError :: "(string \<Rightarrow> string) \<Rightarrow> string \<Rightarrow> string \<Rightarrow> string \<times> string" where
  "reservedSubdomainDeniedError quo subdomain reason =
     (if reason = ''not_reserved'' then
        (''subdomain_not_reserved'',
         ''subdomain '' @ quo subdomain @ '' is not reserved for this token; reserve it first or omit --subdomain for a random subdomain'')
      else if reason = ''reserved_for_another_token'' then
        (''subdomain_reserved'',
         ''subdomain '' @ quo subdomain @ '' is reserved for another token; choose another name or omit --subdomain for a random subdomain'')
      else if reason = ''missing_token_id'' then
        (''subdomain_authorization_unavailable'',
         ''control plane did not identify the agent token; omit --subdomain or upgrade the control plane'')
      else (''subdomain_not_allowed'',
            ''subdomain '' @ quo subdomain @ '' is not allowed: '' @ (if TrimSpace reason = [] then ''not allowed'' else reason)))"

text \<open>
  \<open>nameText\<close> and \<open>regText\<close> are the texts of the errors of \<open>names.ValidateSubdomain\<close> and of the
  registry, which the replies quote.
\<close>

definition registerRequestedSubdomain ::
  "'w genv \<Rightarrow> (name_error \<Rightarrow> string) \<Rightarrow> (registry_error \<Rightarrow> string) \<Rightarrow> gotime \<Rightarrow> (nat \<Rightarrow> nat option)
     \<Rightarrow> Server \<Rightarrow> agentIdentity \<Rightarrow> TunnelRegister \<Rightarrow> 'w
     \<Rightarrow> (handshake_error + Session) \<times> Envelope list \<times> Server \<times> 'w" where
  "registerRequestedSubdomain E nameText regText now tdraw s identity payload w =
     (let subdomain = tr_RequestedSubdomain payload; js = ge_js E in
      case ValidateSubdomain subdomain of
        Some e \<Rightarrow>
          let message = ''invalid requested subdomain '' @ ge_quo E subdomain @ '': '' @ nameText e
          in (Inl (InvalidRequestedSubdomain message), writeTunnelError js ''invalid_subdomain'' message, s, w)
      | None \<Rightarrow>
          (case AuthorizeReservedSubdomain (ge_url E) (ge_cd E) (ge_rt E) (sv_reserved s) (ai_TokenID identity) subdomain w of
             (Inl e, w') \<Rightarrow>
               (Inl (AuthorizationFailed e),
                writeTunnelError js ''subdomain_authorization_unavailable'' ''reserved subdomain authorization failed'', s, w')
           | (Inr authorization, w') \<Rightarrow>
               if \<not> ra_Allowed authorization
               then (case reservedSubdomainDeniedError (ge_quo E) subdomain (ra_Reason authorization) of
                       (code, message) \<Rightarrow> (Inl (SubdomainDenied message), writeTunnelError js code message, s, w'))
               else case newTunnelSession E now tdraw s payload identity subdomain of
                      Inl e \<Rightarrow> (Inl (IDGeneration e),
                                writeTunnelError js ''registration_failed'' ''failed to create tunnel session'', s, w')
                    | Inr tunnel \<Rightarrow>
                        (case Register (sv_registry s) (Some tunnel) of
                           Inl e \<Rightarrow>
                             (Inl (RegistrationRefused e),
                              (if e = ErrSubdomainAlreadyRegistered
                               then writeTunnelError js ''subdomain_unavailable''
                                      (''subdomain '' @ ge_quo E subdomain @ '' is already in use; choose another name or omit --subdomain for a random subdomain'')
                               else writeTunnelError js ''registration_failed'' (regText e)), s, w')
                         | Inr r \<Rightarrow> (Inr tunnel, [], s\<lparr>sv_registry := r\<rparr>, w'))))"

definition randomSubdomainLength :: int where
  "randomSubdomainLength = 8"

definition randomSubdomainAttempts :: nat where
  "randomSubdomainAttempts = 8"

text \<open>The loop over the attempts: \<open>left\<close> of them are left and \<open>i\<close> were made.\<close>

primrec randomAttempts ::
  "nat \<Rightarrow> 'w genv \<Rightarrow> (registry_error \<Rightarrow> string) \<Rightarrow> gotime \<Rightarrow> (nat \<Rightarrow> nat \<Rightarrow> nat option) \<Rightarrow> (nat \<Rightarrow> nat \<Rightarrow> nat option)
     \<Rightarrow> Server \<Rightarrow> agentIdentity \<Rightarrow> TunnelRegister \<Rightarrow> nat \<Rightarrow> last_error option
     \<Rightarrow> (handshake_error + Session) \<times> Envelope list \<times> Server" where
  "randomAttempts 0 E regText now sdraw tdraw s identity payload i lastErr =
     (let message = ''could not assign a random subdomain; retry or request a subdomain with --subdomain''
      in (Inl (RandomExhausted message lastErr), writeTunnelError (ge_js E) ''random_subdomain_exhausted'' message, s))"
| "randomAttempts (Suc left) E regText now sdraw tdraw s identity payload i lastErr =
     (case RandomSubdomain (sdraw i) randomSubdomainLength of
        Inl e \<Rightarrow> (Inl (IDGeneration e),
                  writeTunnelError (ge_js E) ''registration_failed'' ''failed to generate random subdomain'', s)
      | Inr subdomain \<Rightarrow>
          (case ValidateSubdomain subdomain of
             Some e \<Rightarrow> randomAttempts left E regText now sdraw tdraw s identity payload (Suc i) (Some (LastName e))
           | None \<Rightarrow>
               (case newTunnelSession E now (tdraw i) s payload identity subdomain of
                  Inl e \<Rightarrow> (Inl (IDGeneration e),
                            writeTunnelError (ge_js E) ''registration_failed'' ''failed to create tunnel session'', s)
                | Inr tunnel \<Rightarrow>
                    (case Register (sv_registry s) (Some tunnel) of
                       Inl e \<Rightarrow>
                         if e = ErrSubdomainAlreadyRegistered
                         then randomAttempts left E regText now sdraw tdraw s identity payload (Suc i) (Some (LastRegistry e))
                         else (Inl (RegistrationRefused e), writeTunnelError (ge_js E) ''registration_failed'' (regText e), s)
                     | Inr r \<Rightarrow> (Inr tunnel, [], s\<lparr>sv_registry := r\<rparr>)))))"

definition registerRandomSubdomain ::
  "'w genv \<Rightarrow> (registry_error \<Rightarrow> string) \<Rightarrow> gotime \<Rightarrow> (nat \<Rightarrow> nat \<Rightarrow> nat option) \<Rightarrow> (nat \<Rightarrow> nat \<Rightarrow> nat option)
     \<Rightarrow> Server \<Rightarrow> agentIdentity \<Rightarrow> TunnelRegister \<Rightarrow> (handshake_error + Session) \<times> Envelope list \<times> Server" where
  "registerRandomSubdomain E regText now sdraw tdraw s identity payload =
     randomAttempts randomSubdomainAttempts E regText now sdraw tdraw s identity payload 0 None"

definition registerTunnelSession ::
  "'w genv \<Rightarrow> (name_error \<Rightarrow> string) \<Rightarrow> (registry_error \<Rightarrow> string) \<Rightarrow> gotime \<Rightarrow> (nat \<Rightarrow> nat \<Rightarrow> nat option) \<Rightarrow> (nat \<Rightarrow> nat \<Rightarrow> nat option)
     \<Rightarrow> Server \<Rightarrow> agentIdentity \<Rightarrow> TunnelRegister \<Rightarrow> 'w
     \<Rightarrow> (handshake_error + Session) \<times> Envelope list \<times> Server \<times> 'w" where
  "registerTunnelSession E nameText regText now sdraw tdraw s identity payload w =
     (if tr_RequestedSubdomain payload \<noteq> []
      then registerRequestedSubdomain E nameText regText now (tdraw 0) s identity payload w
      else case registerRandomSubdomain E regText now sdraw tdraw s identity payload of
             (res, out, s') \<Rightarrow> (res, out, s', w))"

definition registerTunnel ::
  "'w genv \<Rightarrow> (name_error \<Rightarrow> string) \<Rightarrow> (registry_error \<Rightarrow> string) \<Rightarrow> gotime \<Rightarrow> (nat \<Rightarrow> nat \<Rightarrow> nat option) \<Rightarrow> (nat \<Rightarrow> nat \<Rightarrow> nat option)
     \<Rightarrow> Server \<Rightarrow> Envelope option \<Rightarrow> bool \<Rightarrow> agentIdentity \<Rightarrow> 'w
     \<Rightarrow> (handshake_error + agentSession) \<times> Envelope list \<times> Server \<times> 'w" where
  "registerTunnel E nameText regText now sdraw tdraw s rd ok identity w =
     (case rd of
        None \<Rightarrow> (Inl ReadRegistration, [], s, w)
      | Some env \<Rightarrow>
          if env_Type env \<noteq> TypeTunnelRegister then (Inl (ExpectedRegister (env_Type env)), [], s, w)
          else case DecodePayload (unTunnelRegister (ge_js E)) env of
                 Inl e \<Rightarrow> (Inl (BadMessage e), [], s, w)
               | Inr payload \<Rightarrow>
                   if tr_Protocol payload \<noteq> ''http''
                   then (Inl (UnsupportedTunnelProtocol (tr_Protocol payload)),
                         writeTunnelError (ge_js E) ''unsupported_protocol''
                           (''unsupported tunnel protocol '' @ ge_quo E (tr_Protocol payload)), s, w)
                   else case registerTunnelSession E nameText regText now sdraw tdraw s identity payload w of
                          (Inl e, out, s1, w') \<Rightarrow> (Inl e, out, s1, w')
                        | (Inr tunnel, out, s1, w') \<Rightarrow>
                            let undo = s1\<lparr>sv_registry := Unregister (sv_registry s1) (ss_TunnelID tunnel)\<rparr> in
                            case NewEnvelope (ge_js E) TypeTunnelRegistered
                                   (PTunnelRegistered \<lparr>td_TunnelID = ss_TunnelID tunnel, td_PublicURL = ss_PublicURL tunnel,
                                                       td_Subdomain = ss_Subdomain tunnel\<rparr>) of
                              Inl e \<Rightarrow> (Inl (BadMessage e), out, undo, w')
                            | Inr registered \<Rightarrow>
                                if \<not> ok then (Inl WriteRegistered, out @ [registered], undo, w')
                                else (Inr (newAgentSession (ge_fl E) tunnel (cfg_MaxConcurrentStreams (sv_cfg s))
                                             (cfg_RateLimitRequestsPerSecond (sv_cfg s)) (cfg_RateLimitBurst (sv_cfg s)) now),
                                      out @ [registered], s1, w'))"

section \<open>Connection and disconnection\<close>

text \<open>
  \<open>handleAgentWebSocket\<close> up to the read loop; \<open>removeSession\<close> runs when the read loop ends.  A
  successful handshake returns the session that was added.
\<close>

definition handleAgentWebSocket ::
  "'w genv \<Rightarrow> (name_error \<Rightarrow> string) \<Rightarrow> (registry_error \<Rightarrow> string) \<Rightarrow> gotime \<Rightarrow> (nat \<Rightarrow> nat \<Rightarrow> nat option) \<Rightarrow> (nat \<Rightarrow> nat \<Rightarrow> nat option)
     \<Rightarrow> Server \<Rightarrow> Envelope option \<Rightarrow> bool \<Rightarrow> Envelope option \<Rightarrow> bool \<Rightarrow> 'w
     \<Rightarrow> (handshake_error + agentSession) \<times> Envelope list \<times> Server \<times> 'w" where
  "handleAgentWebSocket E nameText regText now sdraw tdraw s rd1 ok1 rd2 ok2 w =
     (case authenticateAgent E s rd1 ok1 w of
        (Inl e, out, s1, w1) \<Rightarrow> (Inl e, out, addOne gm_authFailuresTotal_update s1, w1)
      | (Inr identity, out, s1, w1) \<Rightarrow>
          (case registerTunnel E nameText regText now sdraw tdraw s1 rd2 ok2 identity w1 of
             (Inl e, out2, s2, w2) \<Rightarrow> (Inl e, out @ out2, addOne gm_tunnelRegistrationFailuresTotal_update s2, w2)
           | (Inr session, out2, s2, w2) \<Rightarrow>
               (Inr session, out @ out2, addOne gm_tunnelRegistrationsTotal_update (addSession s2 session), w2)))"

definition onlyCounters :: "Server \<Rightarrow> Server \<Rightarrow> bool" where
  "onlyCounters s s' \<longleftrightarrow> s' = s\<lparr>sv_metrics := sv_metrics s'\<rparr>"

text \<open>What both ways of choosing a subdomain have in common.\<close>

definition registersInto :: "Server \<Rightarrow> (handshake_error + Session) \<Rightarrow> Server \<Rightarrow> bool" where
  "registersInto s res s' \<longleftrightarrow>
     (case res of
        Inl e \<Rightarrow> s' = s
      | Inr t \<Rightarrow> \<exists>r. Register (sv_registry s) (Some t) = Inr r \<and> s' = s\<lparr>sv_registry := r\<rparr> \<and> ValidateSubdomain (ss_Subdomain t) = None)"

text \<open>A handshake for the examples below.\<close>

definition demoAuth :: AuthRequest where
  "demoAuth = \<lparr>ar_Token = ''dev-token'', ar_AgentVersion = ''1'', ar_ProtocolVersion = ''0.3'',
     ar_Capabilities = DefaultProtocolCapabilities\<rparr>"

definition demoRegister :: TunnelRegister where
  "demoRegister = \<lparr>tr_Protocol = ''http'', tr_LocalTarget = ''http://127.0.0.1:3000'', tr_RequestedSubdomain = ''demo''\<rparr>"

definition handshakeEnv :: "unit genv" where
  "handshakeEnv = demoEnv\<lparr>ge_js := demoJSON\<lparr>unAuthRequest := (\<lambda>b. Some demoAuth), unTunnelRegister := (\<lambda>b. Some demoRegister)\<rparr>\<rparr>"

definition demoEnvelope :: "msg_type \<Rightarrow> Envelope" where
  "demoEnvelope t = \<lparr>env_Type = t, env_StreamID = [], env_TunnelID = [], env_Payload = ''{}''\<rparr>"

definition demoTunnel :: Session where
  "demoTunnel =
     \<lparr>ss_TunnelID = ''tun_aaaaaaaaaaaaaaaaaaaa'', ss_Subdomain = ''demo'', ss_PublicURL = ''http://demo.localhost'',
      ss_LocalTarget = ''http://127.0.0.1:3000'', ss_Protocol = ''http'', ss_AgentVersion = ''1'', ss_ProtocolVersion = ''0.3'',
      ss_Capabilities = DefaultProtocolCapabilities, ss_CreatedAt = 0\<rparr>"

definition handshakeRun :: "(handshake_error + agentSession) \<times> Envelope list \<times> Server \<times> unit" where
  "handshakeRun =
     handleAgentWebSocket handshakeEnv (\<lambda>e. []) (\<lambda>e. []) 0 (\<lambda>i j. Some 0) (\<lambda>i j. Some 0) demoServer
       (Some (demoEnvelope TypeAuthRequest)) True (Some (demoEnvelope TypeTunnelRegister)) True ()"

text \<open>The session and the server after it.\<close>

definition demoConnected :: agentSession where
  "demoConnected =
     newAgentSession id demoTunnel (cfg_MaxConcurrentStreams (sv_cfg demoServer)) (cfg_RateLimitRequestsPerSecond (sv_cfg demoServer))
       (cfg_RateLimitBurst (sv_cfg demoServer)) 0"

definition demoRunning :: Server where
  "demoRunning =
     addOne gm_tunnelRegistrationsTotal_update
       (addSession ((addOne gm_tokenValidationsTotal_update demoServer)\<lparr>sv_registry :=
          \<lparr>byTunnelID = [''tun_aaaaaaaaaaaaaaaaaaaa'' \<mapsto> demoTunnel], bySubdomain = [''demo'' \<mapsto> demoTunnel]\<rparr>\<rparr>) demoConnected)"

section \<open>Lemmas\<close>

lemma addOne_simps [simp]:
  "sv_cfg (addOne u s) = sv_cfg s" "sv_registry (addOne u s) = sv_registry s" "sv_tokens (addOne u s) = sv_tokens s"
  "sv_reserved (addOne u s) = sv_reserved s" "sv_access (addOne u s) = sv_access s" "sv_domains (addOne u s) = sv_domains s"
  "sv_startedAt (addOne u s) = sv_startedAt s" "sv_requestLogs (addOne u s) = sv_requestLogs s"
  "sv_store (addOne u s) = sv_store s" "sv_clientIPs (addOne u s) = sv_clientIPs s"
  "sv_authAttempts (addOne u s) = sv_authAttempts s" "sv_sessions (addOne u s) = sv_sessions s"
  by (simp_all add: addOne_def)

lemma onlyCounters_refl [simp]: "onlyCounters s s"
  by (simp add: onlyCounters_def)

lemma onlyCounters_addOne [simp]: "onlyCounters s (addOne u s') \<longleftrightarrow> onlyCounters s s'"
  by (cases s; cases s') (auto simp: onlyCounters_def addOne_def)

lemma onlyCounters_trans: "onlyCounters s t \<Longrightarrow> onlyCounters t u \<Longrightarrow> onlyCounters s u"
  by (cases s; cases t; cases u) (auto simp: onlyCounters_def)

lemma onlyCountersD:
  assumes "onlyCounters s s'"
  shows "sv_cfg s' = sv_cfg s" "sv_registry s' = sv_registry s" "sv_tokens s' = sv_tokens s" "sv_reserved s' = sv_reserved s"
    "sv_sessions s' = sv_sessions s"
  by (subst assms [unfolded onlyCounters_def], simp)+

lemma authenticateAgent_state:
  "authenticateAgent E s rd ok w = (res, out, s', w') \<Longrightarrow> onlyCounters s s'"
  by (auto simp: authenticateAgent_def Let_def split: option.splits if_splits sum.splits prod.splits)

lemma authenticateAgent_Inr:
  assumes "authenticateAgent E s rd ok w = (Inr identity, out, s', w')"
  shows "\<exists>env auth validation. rd = Some env \<and> DecodePayload (unAuthRequest (ge_js E)) env = Inr auth \<and>
    ValidateAgentToken (ge_sha E) (ge_url E) (ge_cd E) (ge_rt E) (sv_tokens s) (ar_Token auth) w = (Inr validation, w') \<and>
    tv_Valid validation \<and> IsProtocolVersionSupported (ar_ProtocolVersion auth) \<and>
    set RequiredProtocolCapabilities \<subseteq> set (ar_Capabilities auth) \<and> ai_TokenID identity = tv_TokenID validation"
  using assms
  by (auto simp: authenticateAgent_def Let_def MissingRequiredCapabilities_Nil_iff
      split: option.splits if_splits sum.splits prod.splits)

lemma Unregister_Register:
  assumes "Register r (Some t) = Inr r'"
  shows "Unregister r' (ss_TunnelID t) = r"
  using assms by (cases r) (auto simp: Register_Inr_iff Unregister_def fun_upd_idem)

lemma newTunnelSession_Inr:
  "newTunnelSession E now draw s payload identity sd = Inr t \<Longrightarrow> ss_Subdomain t = sd"
  by (auto simp: newTunnelSession_def split: sum.splits)

lemma registersInto_simps [simp]:
  "registersInto s (Inl e) s' \<longleftrightarrow> s' = s"
  "registersInto s (Inr t) s' \<longleftrightarrow>
     (\<exists>r. Register (sv_registry s) (Some t) = Inr r \<and> s' = s\<lparr>sv_registry := r\<rparr> \<and> ValidateSubdomain (ss_Subdomain t) = None)"
  by (simp_all add: registersInto_def)

lemma registerRequestedSubdomain_into:
  "registerRequestedSubdomain E nt rt now tdraw s identity payload w = (res, out, s', w') \<Longrightarrow> registersInto s res s'"
  by (auto simp: registerRequestedSubdomain_def Let_def newTunnelSession_Inr split: option.splits if_splits sum.splits prod.splits)

lemma registerRequestedSubdomain_Inr:
  "registerRequestedSubdomain E nt rt now tdraw s identity payload w = (Inr t, out, s', w') \<Longrightarrow>
     ss_Subdomain t = tr_RequestedSubdomain payload \<and>
     (\<exists>a. AuthorizeReservedSubdomain (ge_url E) (ge_cd E) (ge_rt E) (sv_reserved s) (ai_TokenID identity) (tr_RequestedSubdomain payload) w
            = (Inr a, w') \<and> ra_Allowed a)"
  by (auto simp: registerRequestedSubdomain_def Let_def newTunnelSession_Inr split: option.splits if_splits sum.splits prod.splits)

lemma randomAttempts_into:
  "randomAttempts n E rt now sdraw tdraw s identity payload i lastErr = (res, out, s') \<Longrightarrow> registersInto s res s'"
  by (induction n arbitrary: i lastErr)
     (auto simp: Let_def newTunnelSession_Inr split: option.splits if_splits sum.splits)

lemma registerTunnelSession_into:
  "registerTunnelSession E nt rt now sdraw tdraw s identity payload w = (res, out, s', w') \<Longrightarrow> registersInto s res s'"
  by (auto simp: registerTunnelSession_def registerRandomSubdomain_def split: if_splits prod.splits
      dest: registerRequestedSubdomain_into randomAttempts_into)

lemma registerTunnelSession_requested:
  assumes "registerTunnelSession E nt rt now sdraw tdraw s identity payload w = (Inr t, out, s', w')" "tr_RequestedSubdomain payload \<noteq> []"
  shows "ss_Subdomain t = tr_RequestedSubdomain payload \<and>
     (\<exists>a. AuthorizeReservedSubdomain (ge_url E) (ge_cd E) (ge_rt E) (sv_reserved s) (ai_TokenID identity) (tr_RequestedSubdomain payload) w
            = (Inr a, w') \<and> ra_Allowed a)"
  using assms by (intro registerRequestedSubdomain_Inr) (simp add: registerTunnelSession_def)

lemma registerTunnel_Inl:
  assumes "registerTunnel E nt rt now sdraw tdraw s rd ok identity w = (Inl e, out, s', w')"
  shows "s' = s"
proof -
  have restore: "x\<lparr>sv_registry := Unregister (sv_registry x) (ss_TunnelID t)\<rparr> = s" if "registersInto s (Inr t) x" for t x
    using that Unregister_Register [of "sv_registry s" t] by (cases s) auto
  show ?thesis
    using assms
    by (auto simp: registerTunnel_def Let_def split: option.splits if_splits sum.splits prod.splits
        dest!: registerTunnelSession_into dest: restore)
qed

lemma registerTunnel_Inr:
  assumes "registerTunnel E nt rt now sdraw tdraw s rd ok identity w = (Inr ses, out, s', w')"
  shows "\<exists>env reg r. rd = Some env \<and> DecodePayload (unTunnelRegister (ge_js E)) env = Inr reg \<and> tr_Protocol reg = ''http'' \<and>
    Register (sv_registry s) (Some (as_tunnel ses)) = Inr r \<and> s' = s\<lparr>sv_registry := r\<rparr> \<and>
    ValidateSubdomain (ss_Subdomain (as_tunnel ses)) = None \<and>
    ses = newAgentSession (ge_fl E) (as_tunnel ses) (cfg_MaxConcurrentStreams (sv_cfg s))
            (cfg_RateLimitRequestsPerSecond (sv_cfg s)) (cfg_RateLimitBurst (sv_cfg s)) now \<and>
    (tr_RequestedSubdomain reg \<noteq> [] \<longrightarrow> ss_Subdomain (as_tunnel ses) = tr_RequestedSubdomain reg \<and>
      (\<exists>a. AuthorizeReservedSubdomain (ge_url E) (ge_cd E) (ge_rt E) (sv_reserved s) (ai_TokenID identity) (tr_RequestedSubdomain reg) w
            = (Inr a, w') \<and> ra_Allowed a))"
proof -
  from assms obtain env reg t out1 s1 where E:
    "rd = Some env" "DecodePayload (unTunnelRegister (ge_js E)) env = Inr reg" "tr_Protocol reg = ''http''"
    "registerTunnelSession E nt rt now sdraw tdraw s identity reg w = (Inr t, out1, s1, w')" "s' = s1"
    "ses = newAgentSession (ge_fl E) t (cfg_MaxConcurrentStreams (sv_cfg s)) (cfg_RateLimitRequestsPerSecond (sv_cfg s))
             (cfg_RateLimitBurst (sv_cfg s)) now"
    by (auto simp: registerTunnel_def Let_def split: option.splits if_splits sum.splits prod.splits)
  have t: "as_tunnel ses = t" by (simp add: E(6) newAgentSession_def)
  show ?thesis
    using registerTunnelSession_into [OF E(4)] registerTunnelSession_requested [OF E(4)] E t by auto
qed

lemma demoServer_fields:
  "sv_tokens demoServer = StaticTokens ''dev-token''" "sv_reserved demoServer = StaticReserved"
  "sv_access demoServer = StaticAccess" "sv_domains demoServer = StaticDomains"
  "sv_registry demoServer = NewRegistry" "sv_sessions demoServer = Map.empty"
proof -
  have "TrimSpace (cfg_ControlPlaneURL (normalizeConfig demoConfig)) = []"
    "cfg_StaticToken (normalizeConfig demoConfig) = ''dev-token''"
    by (simp_all add: demoConfig_def ConfigFromEnv_def normalizeConfig_def envString_def ifEmpty_def TrimSpace_Nil
        defaultStaticToken_def)
  then show "sv_tokens demoServer = StaticTokens ''dev-token''" "sv_reserved demoServer = StaticReserved"
    "sv_access demoServer = StaticAccess" "sv_domains demoServer = StaticDomains"
    "sv_registry demoServer = NewRegistry" "sv_sessions demoServer = Map.empty"
    by (simp_all add: demoServer_def newServerWithRequestLogWriter_def Let_def newAgentTokenValidator_def
        newReservedSubdomainAuthorizer_def newAccessPolicyEvaluator_def newCustomDomainResolver_def)
qed

lemma demo_ID: "RandomSubdomain (\<lambda>j. Some 0) 20 = Inr ''aaaaaaaaaaaaaaaaaaaa''"
  by code_simp

lemma demo_authenticate:
  "authenticateAgent handshakeEnv demoServer (Some (demoEnvelope TypeAuthRequest)) True () =
     (Inr \<lparr>ai_Valid = True, ai_TokenID = [], ai_AgentVersion = ''1'', ai_ProtocolVersion = ''0.3'',
           ai_Capabilities = DefaultProtocolCapabilities\<rparr>, [demoEnvelope TypeAuthOK],
      addOne gm_tokenValidationsTotal_update demoServer, ())"
proof -
  have "MissingRequiredCapabilities DefaultProtocolCapabilities RequiredProtocolCapabilities = []"
    by (auto simp: MissingRequiredCapabilities_Nil_iff DefaultProtocolCapabilities_def)
  moreover have "IsProtocolVersionSupported ''0.3''" by code_simp
  ultimately show ?thesis
    by (simp add: authenticateAgent_def Let_def handshakeEnv_def demoEnv_def demoEnvelope_def demoAuth_def DecodePayload_def
        demoServer_fields ValidateAgentToken_def gatewaySecretEqual_def NewEnvelope_def NewStream_def marshalPayload_def demoJSON_def)
qed

lemma demo_publicURL: "publicURLForSubdomain (ge_url handshakeEnv) (sv_cfg demoServer) ''demo'' = ''http://demo.localhost''"
  by (simp add: publicURLForSubdomain_def Let_def handshakeEnv_def demoEnv_def demoServer_root)

lemma demo_valid: "ValidateSubdomain ''demo'' = None"
  by (simp add: ValidateSubdomain_iff labelChar_def)

lemma demoConnected_tunnel: "as_tunnel demoConnected = demoTunnel"
  by (simp add: demoConnected_def newAgentSession_def)

lemma handshakeRun_ok: "\<exists>out. handshakeRun = (Inr demoConnected, out, demoRunning, ())"
proof -
  let ?s = "addOne gm_tokenValidationsTotal_update demoServer"
  let ?i = "\<lparr>ai_Valid = True, ai_TokenID = [], ai_AgentVersion = ''1'', ai_ProtocolVersion = ''0.3'',
    ai_Capabilities = DefaultProtocolCapabilities\<rparr>"
  have new: "newTunnelSession handshakeEnv 0 (\<lambda>j. Some 0) ?s demoRegister ?i ''demo'' = Inr demoTunnel"
    by (simp add: newTunnelSession_def newTunnelID_def demo_ID demo_publicURL demoTunnel_def demoRegister_def)
  have reg: "Register NewRegistry (Some demoTunnel) =
      Inr \<lparr>byTunnelID = [''tun_aaaaaaaaaaaaaaaaaaaa'' \<mapsto> demoTunnel], bySubdomain = [''demo'' \<mapsto> demoTunnel]\<rparr>"
    by (simp add: Register_Inr_iff NewRegistry_def demoTunnel_def)
  have "registerTunnelSession handshakeEnv (\<lambda>e. []) (\<lambda>e. []) 0 (\<lambda>i j. Some 0) (\<lambda>i j. Some 0) ?s ?i demoRegister () =
      (Inr demoTunnel, [], ?s\<lparr>sv_registry := \<lparr>byTunnelID = [''tun_aaaaaaaaaaaaaaaaaaaa'' \<mapsto> demoTunnel], bySubdomain = [''demo'' \<mapsto> demoTunnel]\<rparr>\<rparr>, ())"
    using new reg
    by (simp add: registerTunnelSession_def registerRequestedSubdomain_def Let_def demoRegister_def demo_valid
        AuthorizeReservedSubdomain_def demoServer_fields)
  then show ?thesis
    unfolding handshakeRun_def handleAgentWebSocket_def demo_authenticate
    by (simp add: registerTunnel_def Let_def demoEnvelope_def DecodePayload_def handshakeEnv_def demoEnv_def demoRegister_def
        NewEnvelope_def NewStream_def marshalPayload_def demoJSON_def demoConnected_def demoRunning_def)
qed

section \<open>Properties\<close>

text \<open>
  C29: an agent gets a tunnel only after it was admitted.  When the handshake succeeds, the token was
  validated, the protocol version is supported and no required capability is missing; the tunnel
  has a valid subdomain that no other tunnel had; and if the agent asked for that subdomain, the
  reservation service allowed exactly this name for exactly this token.
\<close>

theorem tunnels_are_authorized:
  assumes "handleAgentWebSocket E nameText regText now sdraw tdraw s rd1 ok1 rd2 ok2 w = (Inr ses, out, s', w')"
  shows "\<exists>env1 auth validation w1 env2 reg.
    rd1 = Some env1 \<and> DecodePayload (unAuthRequest (ge_js E)) env1 = Inr auth \<and>
    ValidateAgentToken (ge_sha E) (ge_url E) (ge_cd E) (ge_rt E) (sv_tokens s) (ar_Token auth) w = (Inr validation, w1) \<and>
    tv_Valid validation \<and> IsProtocolVersionSupported (ar_ProtocolVersion auth) \<and>
    set RequiredProtocolCapabilities \<subseteq> set (ar_Capabilities auth) \<and>
    rd2 = Some env2 \<and> DecodePayload (unTunnelRegister (ge_js E)) env2 = Inr reg \<and> tr_Protocol reg = ''http'' \<and>
    ValidateSubdomain (ss_Subdomain (as_tunnel ses)) = None \<and>
    LookupBySubdomain (sv_registry s) (ss_Subdomain (as_tunnel ses)) = None \<and>
    (tr_RequestedSubdomain reg \<noteq> [] \<longrightarrow> ss_Subdomain (as_tunnel ses) = tr_RequestedSubdomain reg \<and>
       (\<exists>a. AuthorizeReservedSubdomain (ge_url E) (ge_cd E) (ge_rt E) (sv_reserved s) (tv_TokenID validation)
               (tr_RequestedSubdomain reg) w1 = (Inr a, w') \<and> ra_Allowed a))"
proof -
  from assms obtain identity out1 s1 w1 out2 s2 where H:
    "authenticateAgent E s rd1 ok1 w = (Inr identity, out1, s1, w1)"
    "registerTunnel E nameText regText now sdraw tdraw s1 rd2 ok2 identity w1 = (Inr ses, out2, s2, w')"
    by (auto simp: handleAgentWebSocket_def split: prod.splits sum.splits)
  note same = onlyCountersD [OF authenticateAgent_state [OF H(1)]]
  from authenticateAgent_Inr [OF H(1)] registerTunnel_Inr [OF H(2)] show ?thesis
    by (elim exE conjE) (simp add: same Register_Inr_iff LookupBySubdomain_def)
qed

theorem tunnels_are_authorized_witness:
  "\<exists>ses out s'. handshakeRun = (Inr ses, out, s', ()) \<and> ss_Subdomain (as_tunnel ses) = ''demo'' \<and>
     LookupBySubdomain (sv_registry demoServer) ''demo'' = None \<and>
     (\<exists>a. AuthorizeReservedSubdomain (ge_url handshakeEnv) (ge_cd handshakeEnv) (ge_rt handshakeEnv) StaticReserved []
            ''demo'' () = (Inr a, ()) \<and> ra_Allowed a)"
proof -
  obtain ses out s' where run: "handshakeRun = (Inr ses, out, s', ())" and t: "as_tunnel ses = demoTunnel"
    using handshakeRun_ok demoConnected_tunnel by auto
  from tunnels_are_authorized [OF run [unfolded handshakeRun_def]] t show ?thesis
    by (auto simp: run handshakeEnv_def demoEnv_def DecodePayload_def demoEnvelope_def demoRegister_def demoAuth_def
        demoServer_fields ValidateAgentToken_def demoTunnel_def)
qed

text \<open>
  C30: a failed handshake leaves no trace.  Whatever goes wrong, at whatever point, the registry, the
  sessions and everything else in the server except its counters are as before.
\<close>

theorem failed_handshake_leaves_no_trace:
  assumes "handleAgentWebSocket E nameText regText now sdraw tdraw s rd1 ok1 rd2 ok2 w = (Inl e, out, s', w')"
  shows "s' = s\<lparr>sv_metrics := sv_metrics s'\<rparr>"
proof -
  have "onlyCounters s s'"
    using assms
    by (auto simp: handleAgentWebSocket_def split: prod.splits sum.splits dest!: registerTunnel_Inl dest: authenticateAgent_state)
  then show ?thesis by (simp add: onlyCounters_def)
qed

theorem failed_handshake_leaves_no_trace_witness:
  "\<exists>s'. handleAgentWebSocket demoEnv (\<lambda>e. []) (\<lambda>e. []) 0 (\<lambda>i j. Some 0) (\<lambda>i j. Some 0) demoServer None True None True () =
      (Inl ReadAuthRequest, [], s', ()) \<and> s' = demoServer\<lparr>sv_metrics := sv_metrics s'\<rparr>"
proof -
  have run: "handleAgentWebSocket demoEnv (\<lambda>e. []) (\<lambda>e. []) 0 (\<lambda>i j. Some 0) (\<lambda>i j. Some 0) demoServer None True None True () =
      (Inl ReadAuthRequest, [], addOne gm_authFailuresTotal_update demoServer, ())"
    by (simp add: handleAgentWebSocket_def authenticateAgent_def)
  from failed_handshake_leaves_no_trace [OF this] run show ?thesis by blast
qed

end
