(* ===== verification/PublicBase.thy ===== *)
theory PublicBase
  imports Registration
begin

text \<open>
  The parts of \<open>server.go\<close> and \<open>websocket.go\<close> that inspect and rewrite a public request: credentials,
  the evaluation of the access policy, the pages for refused requests, and the recognition and
  rewriting of WebSocket upgrades.
\<close>

section \<open>Requests\<close>

text \<open>
  \<open>r_TLS\<close> says whether the request came over TLS, \<open>r_ctxID\<close> is the request id that the middleware
  put into the context, and \<open>r_Body\<close> is the list of results of reading the body.
\<close>

record httpRequest =
  r_Method :: string
  r_Host :: string
  r_Path :: string
  r_RawQuery :: string
  r_Header :: http_header
  r_ContentLength :: int
  r_RemoteAddr :: string
  r_TLS :: bool
  r_ctxID :: string
  r_Body :: "(bytes \<times> read_end option) list option"

definition clientIP :: "Server \<Rightarrow> httpRequest \<Rightarrow> string" where
  "clientIP s r = ResolveString (sv_clientIPs s) (r_RemoteAddr r) (r_Header r)"

definition requestID :: "httpRequest \<Rightarrow> string" where
  "requestID r = requestIDFromRequest (r_ctxID r) (r_Header r)"

definition requestProto :: "httpRequest \<Rightarrow> string" where
  "requestProto r =
     (if r_TLS r then ''https''
      else let proto = TrimSpace (hdrGet (r_Header r) ''X-Forwarded-Proto'') in
           if proto \<noteq> [] then proto else ''http'')"

section \<open>Credentials\<close>

definition bearerToken :: "httpRequest \<Rightarrow> string" where
  "bearerToken r =
     (case CutPrefix (hdrGet (r_Header r) ''Authorization'') ''Bearer '' of
        (tok, ok) \<Rightarrow> if \<not> ok then [] else TrimSpace tok)"

text \<open>\<open>base64.StdEncoding.DecodeString\<close>: line breaks are skipped and the padding is required.\<close>

definition StdDecode :: "string \<Rightarrow> bytes option" where
  "StdDecode s =
     (let cs = filter (\<lambda>c. c \<noteq> CHR 0x0D \<and> c \<noteq> CHR 0x0A) s;
          data = takeWhile (\<lambda>c. c \<noteq> CHR ''='') cs;
          pad = dropWhile (\<lambda>c. c \<noteq> CHR ''='') cs
      in if length data mod 4 = 0 \<and> pad = [] \<or> length data mod 4 = 2 \<and> pad = ''=='' \<or> length data mod 4 = 3 \<and> pad = ''=''
         then RawStdDecode data else None)"

text \<open>\<open>Request.BasicAuth\<close>; without credentials both strings are empty.\<close>

definition BasicAuth :: "httpRequest \<Rightarrow> string \<times> string" where
  "BasicAuth r =
     (let auth = hdrGet (r_Header r) ''Authorization'' in
      if map asciiLower (take 6 auth) \<noteq> ''basic '' then ([], [])
      else case StdDecode (drop 6 auth) of
             None \<Rightarrow> ([], [])
           | Some c \<Rightarrow> if CHR '':'' \<in> set c
                       then (takeWhile (\<lambda>x. x \<noteq> CHR '':'') c, tl (dropWhile (\<lambda>x. x \<noteq> CHR '':'') c)) else ([], []))"

definition evaluatePublicAccess ::
  "'w genv \<Rightarrow> Server \<Rightarrow> httpRequest \<Rightarrow> string \<Rightarrow> 'w \<Rightarrow> (backend_error + accessPolicyEvaluation) \<times> 'w" where
  "evaluatePublicAccess E s r subdomain w =
     (let (username, password) = BasicAuth r in
      EvaluateAccessPolicy (ge_url E) (ge_cd E) (ge_rt E) (sv_access s)
        \<lparr>aq_Subdomain = subdomain, aq_RemoteIP = clientIP s r, aq_BasicUsername = username,
         aq_BasicPassword = password, aq_BearerToken = bearerToken r\<rparr> w)"

definition accessDeniedStatus :: "accessPolicyEvaluation \<Rightarrow> int" where
  "accessDeniedStatus result =
     (if pe_Mode result = ''basic_auth'' \<or> pe_Mode result = ''bearer_token'' then 401 else 403)"

definition accessConsumesAuthorization :: "accessPolicyEvaluation \<Rightarrow> bool" where
  "accessConsumesAuthorization result \<longleftrightarrow>
     pe_Allowed result \<and> (pe_Mode result = ''basic_auth'' \<or> pe_Mode result = ''bearer_token'')"

section \<open>Error pages\<close>

text \<open>
  An \<open>http.ResponseWriter\<close> of \<open>net/http\<close>: the header that a handler may still change, the
  informational responses that were sent, the status with the header as it was sent, and the body.
  A second \<open>WriteHeader\<close> is ignored, and a write before the first one sends status 200.  A status
  with fewer or more than three digits makes \<open>WriteHeader\<close> panic.
\<close>

record responseWriter =
  rw_Header :: http_header
  rw_Info :: "(int \<times> http_header) list"
  rw_Sent :: "(int \<times> http_header) option"
  rw_Body :: bytes

definition writeHeaderPanics :: "int \<Rightarrow> responseWriter \<Rightarrow> bool" where
  "writeHeaderPanics st w \<longleftrightarrow> rw_Sent w = None \<and> (st < 100 \<or> st > 999)"

definition WriteHeader :: "int \<Rightarrow> responseWriter \<Rightarrow> responseWriter" where
  "WriteHeader st w =
     (if rw_Sent w \<noteq> None then w
      else if 100 \<le> st \<and> st \<le> 199 \<and> st \<noteq> 101 then w\<lparr>rw_Info := rw_Info w @ [(st, rw_Header w)]\<rparr>
      else w\<lparr>rw_Sent := Some (st, rw_Header w)\<rparr>)"

definition writeBytes :: "bytes \<Rightarrow> responseWriter \<Rightarrow> responseWriter" where
  "writeBytes b w = (let w1 = WriteHeader 200 w in w1\<lparr>rw_Body := rw_Body w1 @ b\<rparr>)"

text \<open>\<open>http.Error\<close>\<close>

definition httpError :: "string \<Rightarrow> int \<Rightarrow> responseWriter \<Rightarrow> responseWriter" where
  "httpError message st w =
     (let h = hdrSet ''X-Content-Type-Options'' ''nosniff''
                (hdrSet ''Content-Type'' ''text/plain; charset=utf-8'' (hdrDel ''Content-Length'' (rw_Header w)))
      in writeBytes (message @ newline) (WriteHeader st (w\<lparr>rw_Header := h\<rparr>)))"

definition setHeader :: "string \<Rightarrow> string \<Rightarrow> responseWriter \<Rightarrow> responseWriter" where
  "setHeader name v w = w\<lparr>rw_Header := hdrSet name v (rw_Header w)\<rparr>"

definition writePublicError :: "httpRequest \<Rightarrow> string \<Rightarrow> int \<Rightarrow> responseWriter \<Rightarrow> responseWriter" where
  "writePublicError r message st w =
     httpError (if requestID r \<noteq> [] then message @ newline @ ''request_id: '' @ requestID r else message) st w"

definition writeAccessDenied :: "httpRequest \<Rightarrow> accessPolicyEvaluation \<Rightarrow> responseWriter \<Rightarrow> responseWriter" where
  "writeAccessDenied r result w =
     (if pe_Mode result = ''basic_auth'' then
        writePublicError r ''authentication required'' 401
          (setHeader ''WWW-Authenticate'' (''Basic realm='' @ [CHR 0x22] @ ''Porthook tunnel'' @ [CHR 0x22]) w)
      else if pe_Mode result = ''bearer_token'' then
        writePublicError r ''bearer token required'' 401
          (setHeader ''WWW-Authenticate'' (''Bearer realm='' @ [CHR 0x22] @ ''Porthook tunnel'' @ [CHR 0x22]) w)
      else writePublicError r ''access denied'' 403 w)"

section \<open>WebSocket upgrades\<close>

definition webSocketHandshakeHeaders :: "string list" where
  "webSocketHandshakeHeaders =
     [''Sec-WebSocket-Key'', ''Sec-WebSocket-Version'', ''Sec-WebSocket-Extensions'', ''Sec-WebSocket-Accept'',
      ''Sec-WebSocket-Protocol'']"

definition headerContainsToken :: "(string \<Rightarrow> string \<Rightarrow> bool) \<Rightarrow> string \<Rightarrow> string \<Rightarrow> bool" where
  "headerContainsToken ef val tok = list_ex (\<lambda>part. EqualFold ef (TrimSpace part) tok) (Split val CHR '','')"

definition isWebSocketUpgradeRequest :: "(string \<Rightarrow> string \<Rightarrow> bool) \<Rightarrow> httpRequest \<Rightarrow> bool" where
  "isWebSocketUpgradeRequest ef r \<longleftrightarrow>
     headerContainsToken ef (hdrGet (r_Header r) ''Upgrade'') ''websocket'' \<and>
     headerContainsToken ef (hdrGet (r_Header r) ''Connection'') ''upgrade''"

definition requestedWebSocketSubprotocols :: "httpRequest \<Rightarrow> string list" where
  "requestedWebSocketSubprotocols r =
     (let raw = hdrGet (r_Header r) ''Sec-WebSocket-Protocol'' in
      if TrimSpace raw = [] then [] else filter (\<lambda>p. p \<noteq> []) (map TrimSpace (Split raw CHR '','')))"

definition buildWSOpen :: "httpRequest \<Rightarrow> bool \<Rightarrow> WSOpen" where
  "buildWSOpen r stripAuthorization =
     (let header = fold hdrDel webSocketHandshakeHeaders (StripHopByHopHeaders (r_Header r));
          header' = (if stripAuthorization then hdrDel ''Authorization'' header else header)
      in \<lparr>wo_Path = r_Path r, wo_Query = r_RawQuery r, wo_Header = header',
          wo_Subprotocols = requestedWebSocketSubprotocols r\<rparr>)"

text \<open>The request that is sent to the agent for a request that is not an upgrade.\<close>

definition tunnelRequest :: "Server \<Rightarrow> httpRequest \<Rightarrow> accessPolicyEvaluation \<Rightarrow> string \<Rightarrow> RequestStart" where
  "tunnelRequest s r accessResult tunnelID =
     (let header = StripHopByHopHeaders (r_Header r);
          header1 = (if accessConsumesAuthorization accessResult then hdrDel ''Authorization'' header else header)
      in \<lparr>rs_Method = r_Method r, rs_Path = r_Path r, rs_Query = r_RawQuery r,
          rs_Header = AddForwardedHeaders header1 tunnelID (r_Host r) (requestProto r) (clientIP s r),
          rs_ContentLength = (if r_ContentLength r < 0 then 0 else r_ContentLength r)\<rparr>)"

definition serverDeadlinePolicy :: "Server \<Rightarrow> streamDeadlinePolicy" where
  "serverDeadlinePolicy s =
     \<lparr>sp_RequestTimeout = cfg_StreamRequestTimeout (sv_cfg s), sp_IdleTimeout = cfg_StreamIdleTimeout (sv_cfg s),
      sp_MaxLifetime = cfg_StreamMaxLifetime (sv_cfg s)\<rparr>"

end
