(* ===== verification/WSRelay.thy ===== *)
theory WSRelay
  imports PublicBase
begin

text \<open>
  \<open>relayPublicWebSocket\<close> and the two pumps of \<open>websocket.go\<close>: the goroutines that copy messages
  between the WebSocket of the public client and the stream of the agent.

  The two pumps run interleaved: a run is a list of events, each of which is received by one pump.
  The context of the relay is done when the context of the stream is (\<open>StreamDone\<close>) or, with the
  cause \<open>Canceled\<close>, when \<open>cancelRelay\<close> is called after the first pump has returned (\<open>CancelRelay\<close>); between
  the two the other pump goes on.  \<open>wr\<close> is the result of the writes to the
  agent; the result of a write to the public client comes with the message that is written.  The
  calls of \<open>deadline.Touch\<close> are counted in \<open>ry_touches\<close>; what they do is the business of
  \<open>StreamDeadline\<close>.  The read limit of the public connection makes a read fail (\<open>UpFail\<close>).
\<close>

section \<open>Events and state\<close>

datatype relay_error =
    RelayContext cause
  | PublicReadFailed "cause option"
  | AgentWriteFailed "cause option"
  | PublicWriteFailed "cause option"
  | RelayDecode msg_error
  | AgentCanceled string
  | UnexpectedRelayMessage msg_type

text \<open>
  \<open>UpRead\<close> and \<open>UpFail\<close> are results of \<open>publicConn.Read\<close>, the latter with \<open>websocket.CloseStatus\<close> of
  the error (\<^term>\<open>None\<close> for -1) and its context cause; \<open>DownCtx\<close> is the branch \<open>ctx.Done()\<close> of the
  other pump, and \<open>DownMsg\<close> carries the result of the write to the public client, if there is one.
\<close>

datatype relay_event =
    UpRead ws_kind bytes
  | UpFail "int option" "cause option"
  | DownMsg Message wres
  | DownCtx
  | StreamDone cause
  | CancelRelay

datatype pub_frame = PubFrame ws_kind bytes | PubClose int string

datatype pump = Running | Returned "relay_error option"

record relay =
  ry_up :: pump
  ry_down :: pump
  ry_first :: "relay_error option option"
  ry_ctx :: "cause option"
  ry_touches :: nat
  ry_requestBytes :: int
  ry_responseBytes :: int
  ry_sent :: "sent list"
  ry_pub :: "pub_frame list"

definition initRelay :: "sent list \<Rightarrow> relay" where
  "initRelay out =
     \<lparr>ry_up = Running, ry_down = Running, ry_first = None, ry_ctx = None, ry_touches = 0, ry_requestBytes = 0, ry_responseBytes = 0,
      ry_sent = out, ry_pub = []\<rparr>"

text \<open>A pump returns: the first result is kept.\<close>

definition noteResult :: "relay_error option \<Rightarrow> relay \<Rightarrow> relay" where
  "noteResult e st = st\<lparr>ry_first := (case ry_first st of None \<Rightarrow> Some e | Some f \<Rightarrow> Some f)\<rparr>"

text \<open>The context of the relay ends; it keeps an earlier cause.  \<open>cancelRelay\<close> waits for the first result.\<close>

definition endRelay :: "cause \<Rightarrow> relay \<Rightarrow> relay" where
  "endRelay c st = st\<lparr>ry_ctx := (case ry_ctx st of None \<Rightarrow> Some c | Some c0 \<Rightarrow> Some c0)\<rparr>"

definition cancelRelay :: "relay \<Rightarrow> relay" where
  "cancelRelay st = (if ry_first st = None then st else endRelay Canceled st)"

definition upReturns :: "relay_error option \<Rightarrow> relay \<Rightarrow> relay" where
  "upReturns e st = noteResult e (st\<lparr>ry_up := Returned e\<rparr>)"

definition downReturns :: "relay_error option \<Rightarrow> relay \<Rightarrow> relay" where
  "downReturns e st = noteResult e (st\<lparr>ry_down := Returned e\<rparr>)"

section \<open>The pumps\<close>

definition closeOrCancelForReadError ::
  "json \<Rightarrow> (nat \<Rightarrow> wres) \<Rightarrow> agentSession \<Rightarrow> wsStream \<Rightarrow> int option \<Rightarrow> cause option \<Rightarrow> sent list
     \<Rightarrow> relay_error option \<times> sent list" where
  "closeOrCancelForReadError js wr s w closeStatus c out =
     (case closeStatus of
        Some code \<Rightarrow> (None, snd (SendClose js wr s w out code []))
      | None \<Rightarrow> (Some (PublicReadFailed c), snd (SendCancel js wr s w out ''public websocket connection failed'')))"

definition pumpPublicToAgent ::
  "json \<Rightarrow> (nat \<Rightarrow> wres) \<Rightarrow> agentSession \<Rightarrow> wsStream \<Rightarrow> relay_event \<Rightarrow> relay \<Rightarrow> relay" where
  "pumpPublicToAgent js wr s w ev st =
     (if ry_up st \<noteq> Running then st
      else case ev of
             UpFail closeStatus c \<Rightarrow>
               (case ry_ctx st of
                  Some done \<Rightarrow> upReturns (Some (RelayContext done)) st
                | None \<Rightarrow>
                    (case closeOrCancelForReadError js wr s w closeStatus c (ry_sent st) of
                       (e, out) \<Rightarrow> upReturns e (st\<lparr>ry_sent := out\<rparr>)))
           | UpRead kind data \<Rightarrow>
               let frameType = (if kind = MessageText then TypeWSMessageText else TypeWSMessageBinary);
                   st1 = st\<lparr>ry_touches := Suc (ry_touches st), ry_requestBytes := ry_requestBytes st + int (length data)\<rparr>
               in (case SendMessage wr s w (ry_sent st) frameType data of
                     (WErr c, out) \<Rightarrow> upReturns (Some (AgentWriteFailed c)) (st1\<lparr>ry_sent := out\<rparr>)
                   | (WOk, out) \<Rightarrow> st1\<lparr>ry_sent := out\<rparr>)
           | _ \<Rightarrow> st)"

definition pumpAgentToPublic ::
  "json \<Rightarrow> relay_event \<Rightarrow> relay \<Rightarrow> relay" where
  "pumpAgentToPublic js ev st =
     (if ry_down st \<noteq> Running then st
      else case ev of
             DownCtx \<Rightarrow>
               (case ry_ctx st of Some done \<Rightarrow> downReturns (Some (RelayContext done)) st | None \<Rightarrow> st)
           | DownMsg m res \<Rightarrow>
               let env = msg_Envelope m in
               if env_Type env = TypeWSMessageText \<or> env_Type env = TypeWSMessageBinary then
                 let kind = (if env_Type env = TypeWSMessageText then MessageText else MessageBinary);
                     st1 = st\<lparr>ry_touches := Suc (ry_touches st), ry_responseBytes := ry_responseBytes st + int (length (msg_Body m)),
                              ry_pub := ry_pub st @ [PubFrame kind (msg_Body m)]\<rparr>
                 in (case res of WErr c \<Rightarrow> downReturns (Some (PublicWriteFailed c)) st1 | WOk \<Rightarrow> st1)
               else if env_Type env = TypeWSClose then
                 (case DecodePayload (unWSClose js) env of
                    Inl e \<Rightarrow> downReturns (Some (RelayDecode e)) st
                  | Inr p \<Rightarrow> downReturns None (st\<lparr>ry_pub := ry_pub st @ [PubClose (wc_Code p) (wc_Reason p)]\<rparr>))
               else if env_Type env = TypeWSCancel then
                 downReturns (Some (AgentCanceled (case DecodePayload (unStreamCancel js) env of
                                                     Inl e \<Rightarrow> [] | Inr p \<Rightarrow> sc_Reason p))) st
               else downReturns (Some (UnexpectedRelayMessage (env_Type env))) st
           | _ \<Rightarrow> st)"

section \<open>The relay\<close>

fun relayRun ::
  "json \<Rightarrow> (nat \<Rightarrow> wres) \<Rightarrow> agentSession \<Rightarrow> wsStream \<Rightarrow> relay_event list \<Rightarrow> relay \<Rightarrow> relay" where
  "relayRun js wr s w [] st = st"
| "relayRun js wr s w (ev # evs) st =
     (case ev of
        StreamDone c \<Rightarrow> relayRun js wr s w evs (endRelay c st)
      | CancelRelay \<Rightarrow> relayRun js wr s w evs (cancelRelay st)
      | _ \<Rightarrow> relayRun js wr s w evs (pumpAgentToPublic js ev (pumpPublicToAgent js wr s w ev st)))"

definition relayOutcome :: "relay_error option \<Rightarrow> relay_error option \<Rightarrow> relay_error option" where
  "relayOutcome first second = (if first = None \<or> second = None then None else first)"

fun relayCause :: "relay_error \<Rightarrow> cause option" where
  "relayCause (RelayContext c) = Some c"
| "relayCause (PublicReadFailed c) = c"
| "relayCause (AgentWriteFailed c) = c"
| "relayCause (PublicWriteFailed c) = c"
| "relayCause _ = None"

definition relayContextDone :: "relay_error \<Rightarrow> bool" where
  "relayContextDone e \<longleftrightarrow>
     relayCause e \<in> {Some Canceled, Some DeadlineExceeded, Some StreamRequestTimeout,
                     Some StreamIdleTimeout, Some StreamMaxLifetimeExceeded}"

text \<open>\<^term>\<open>None\<close> while a pump is still running.\<close>

definition relayPublicWebSocket ::
  "json \<Rightarrow> (nat \<Rightarrow> wres) \<Rightarrow> agentSession \<Rightarrow> wsStream \<Rightarrow> sent list \<Rightarrow> relay_event list
     \<Rightarrow> (int \<times> int \<times> relay_error option \<times> sent list \<times> pub_frame list) option" where
  "relayPublicWebSocket js wr s w out evs =
     (let st = relayRun js wr s w evs (initRelay out) in
      case (ry_up st, ry_down st, ry_first st) of
        (Returned a, Returned b, Some first) \<Rightarrow>
          let second = (if first = a then b else a);
              outcome = relayOutcome first second;
              sent' = (case outcome of
                         None \<Rightarrow> ry_sent st
                       | Some e \<Rightarrow> if relayContextDone e
                                   then snd (SendCancel js wr s w (ry_sent st) (streamCancelReason (relayCause e)))
                                   else ry_sent st)
          in Some (ry_requestBytes st, ry_responseBytes st, outcome, sent', ry_pub st)
      | _ \<Rightarrow> None)"

text \<open>Views of a run: the messages read on either side and the frames that were passed on.\<close>

definition upReads :: "relay_event list \<Rightarrow> (ws_kind \<times> bytes) list" where
  "upReads evs = List.map_filter (\<lambda>ev. case ev of UpRead k d \<Rightarrow> Some (k, d) | _ \<Rightarrow> None) evs"

definition isFrame :: "Message \<Rightarrow> bool" where
  "isFrame m \<longleftrightarrow> env_Type (msg_Envelope m) = TypeWSMessageText \<or> env_Type (msg_Envelope m) = TypeWSMessageBinary"

definition downReads :: "relay_event list \<Rightarrow> Message list" where
  "downReads evs = List.map_filter (\<lambda>ev. case ev of DownMsg m res \<Rightarrow> if isFrame m then Some m else None | _ \<Rightarrow> None) evs"

definition toAgent :: "string \<Rightarrow> ws_kind \<times> bytes \<Rightarrow> sent" where
  "toAgent sid kd = SentBody (if fst kd = MessageText then TypeWSMessageText else TypeWSMessageBinary) sid (snd kd)"

definition toPublic :: "Message \<Rightarrow> pub_frame" where
  "toPublic m = PubFrame (if env_Type (msg_Envelope m) = TypeWSMessageText then MessageText else MessageBinary) (msg_Body m)"

definition frames :: "sent list \<Rightarrow> sent list" where
  "frames out = filter (\<lambda>m. case m of SentBody t i b \<Rightarrow> True | SentEnvelope env \<Rightarrow> False) out"

definition pubFrames :: "pub_frame list \<Rightarrow> pub_frame list" where
  "pubFrames ps = filter (\<lambda>p. case p of PubFrame k d \<Rightarrow> True | PubClose c r \<Rightarrow> False) ps"

definition relayStep ::
  "json \<Rightarrow> (nat \<Rightarrow> wres) \<Rightarrow> agentSession \<Rightarrow> wsStream \<Rightarrow> relay_event \<Rightarrow> relay \<Rightarrow> relay" where
  "relayStep js wr s w ev st =
     (case ev of
        StreamDone c \<Rightarrow> endRelay c st
      | CancelRelay \<Rightarrow> cancelRelay st
      | _ \<Rightarrow> pumpAgentToPublic js ev (pumpPublicToAgent js wr s w ev st))"

text \<open>The stream and tunnel ids fit into a frame, as those that the gateway generates do.\<close>

definition framable :: "agentSession \<Rightarrow> wsStream \<Rightarrow> bool" where
  "framable s w \<longleftrightarrow> wst_streamID w \<noteq> [] \<and> length (wst_streamID w) \<le> 65535 \<and> length (ss_TunnelID (as_tunnel s)) \<le> 65535"

definition passedUp :: "string \<Rightarrow> relay_event list \<Rightarrow> relay \<Rightarrow> bool" where
  "passedUp sid evs st \<longleftrightarrow>
     (\<exists>n. frames (ry_sent st) = map (toAgent sid) (take n (upReads evs)) \<and>
          ry_requestBytes st = (\<Sum>kd\<leftarrow>take n (upReads evs). int (length (snd kd))) \<and>
          n \<le> length (upReads evs) \<and> (ry_up st = Running \<longrightarrow> n = length (upReads evs)))"

definition passedDown :: "relay_event list \<Rightarrow> relay \<Rightarrow> bool" where
  "passedDown evs st \<longleftrightarrow>
     (\<exists>n. pubFrames (ry_pub st) = map toPublic (take n (downReads evs)) \<and>
          ry_responseBytes st = (\<Sum>m\<leftarrow>take n (downReads evs). int (length (msg_Body m))) \<and>
          n \<le> length (downReads evs) \<and> (ry_down st = Running \<longrightarrow> n = length (downReads evs)))"

text \<open>The agent was told that the stream is over; how the gateway knows that the agent ended it.\<close>

definition told :: "sent list \<Rightarrow> bool" where
  "told out \<longleftrightarrow> (\<exists>env. SentEnvelope env \<in> set out \<and> env_Type env \<in> {TypeWSClose, TypeWSCancel})"

definition relayInv :: "relay \<Rightarrow> bool" where
  "relayInv st \<longleftrightarrow>
     (ry_up st = Returned None \<or> (\<exists>c. ry_up st = Returned (Some (PublicReadFailed c))) \<longrightarrow> told (ry_sent st)) \<and>
     (ry_down st = Returned None \<longrightarrow> (\<exists>c r. PubClose c r \<in> set (ry_pub st))) \<and>
     (\<forall>c. ry_down st \<noteq> Returned (Some (PublicReadFailed c))) \<and>
     (\<forall>f. ry_first st = Some f \<longrightarrow> ry_up st = Returned f \<or> ry_down st = Returned f)"

section \<open>Lemmas\<close>

lemma relayRun_fold: "relayRun js wr s w evs st = fold (relayStep js wr s w) evs st"
  by (induction evs arbitrary: st) (auto simp: relayStep_def split: relay_event.splits)

lemma returns_simps [simp]:
  "ry_up (upReturns e st) = Returned e" "ry_down (upReturns e st) = ry_down st"
  "ry_up (downReturns e st) = ry_up st" "ry_down (downReturns e st) = Returned e"
  "ry_sent (upReturns e st) = ry_sent st" "ry_sent (downReturns e st) = ry_sent st"
  "ry_pub (upReturns e st) = ry_pub st" "ry_pub (downReturns e st) = ry_pub st"
  "ry_requestBytes (upReturns e st) = ry_requestBytes st" "ry_requestBytes (downReturns e st) = ry_requestBytes st"
  "ry_responseBytes (upReturns e st) = ry_responseBytes st" "ry_responseBytes (downReturns e st) = ry_responseBytes st"
  by (simp_all add: upReturns_def downReturns_def noteResult_def)

lemma endRelay_simps [simp]:
  "ry_up (endRelay c st) = ry_up st" "ry_down (endRelay c st) = ry_down st" "ry_sent (endRelay c st) = ry_sent st"
  "ry_pub (endRelay c st) = ry_pub st" "ry_requestBytes (endRelay c st) = ry_requestBytes st"
  "ry_responseBytes (endRelay c st) = ry_responseBytes st" "ry_first (endRelay c st) = ry_first st"
  by (simp_all add: endRelay_def)

lemma cancelRelay_simps [simp]:
  "ry_up (cancelRelay st) = ry_up st" "ry_down (cancelRelay st) = ry_down st" "ry_sent (cancelRelay st) = ry_sent st"
  "ry_pub (cancelRelay st) = ry_pub st" "ry_requestBytes (cancelRelay st) = ry_requestBytes st"
  "ry_responseBytes (cancelRelay st) = ry_responseBytes st" "ry_first (cancelRelay st) = ry_first st"
  by (simp_all add: cancelRelay_def)

lemma frames_simps [simp]:
  "frames (xs @ ys) = frames xs @ frames ys" "frames [SentBody t i b] = [SentBody t i b]" "frames [SentEnvelope env] = []"
  by (simp_all add: frames_def)

lemma frames_envelopes [simp]:
  "frames (snd (sessionWrite js wr out env)) = frames out"
  "frames (snd (SendClose js wr s w out code reason)) = frames out"
  "frames (snd (SendCancel js wr s w out reason2)) = frames out"
  by (auto simp: sessionWrite_def SendClose_def SendCancel_def split: sum.splits)

lemma SendMessage_frame:
  assumes "framable s w"
  shows "\<exists>r. SendMessage wr s w out (if k = MessageText then TypeWSMessageText else TypeWSMessageBinary) d
             = (r, out @ [toAgent (wst_streamID w) (k, d)])"
  using assms
  by (simp add: SendMessage_def writeBinaryBody_def WriteBinaryBody_def NewBinaryBodyFrame_def binaryBodyFrameType_def
      framable_def toAgent_def)

lemma upReads_snoc:
  "upReads (evs @ [ev]) = upReads evs @ (case ev of UpRead k d \<Rightarrow> [(k, d)] | _ \<Rightarrow> [])"
  by (simp add: upReads_def List.map_filter_def split: relay_event.splits)

lemma downReads_snoc:
  "downReads (evs @ [ev]) = downReads evs @ (case ev of DownMsg m res \<Rightarrow> if isFrame m then [m] else [] | _ \<Rightarrow> [])"
  by (simp add: downReads_def List.map_filter_def split: relay_event.splits)

lemma take_same: "n \<le> length xs \<Longrightarrow> take n (xs @ ys) = take n xs"
  by simp

lemma pumpAgentToPublic_up [simp]:
  "ry_sent (pumpAgentToPublic js ev st) = ry_sent st" "ry_up (pumpAgentToPublic js ev st) = ry_up st"
  "ry_requestBytes (pumpAgentToPublic js ev st) = ry_requestBytes st"
  by (simp_all add: pumpAgentToPublic_def Let_def split: relay_event.splits option.splits wres.splits sum.splits)

lemma pumpPublicToAgent_down [simp]:
  "ry_pub (pumpPublicToAgent js wr s w ev st) = ry_pub st" "ry_down (pumpPublicToAgent js wr s w ev st) = ry_down st"
  "ry_responseBytes (pumpPublicToAgent js wr s w ev st) = ry_responseBytes st"
  by (auto simp: pumpPublicToAgent_def Let_def split: relay_event.splits option.splits wres.splits prod.splits)

lemma passedUp_same:
  assumes "passedUp sid evs st" "ry_sent st' = ry_sent st" "ry_requestBytes st' = ry_requestBytes st"
    and "ry_up st' = Running \<Longrightarrow> ry_up st = Running \<and> upReads (evs @ [ev]) = upReads evs"
  shows "passedUp sid (evs @ [ev]) st'"
proof -
  from assms(1) obtain n where n: "frames (ry_sent st) = map (toAgent sid) (take n (upReads evs))"
      "ry_requestBytes st = (\<Sum>kd\<leftarrow>take n (upReads evs). int (length (snd kd)))"
      "n \<le> length (upReads evs)" "ry_up st = Running \<longrightarrow> n = length (upReads evs)"
    by (auto simp: passedUp_def)
  have t: "take n (upReads (evs @ [ev])) = take n (upReads evs)" "n \<le> length (upReads (evs @ [ev]))"
    using n(3) by (simp_all add: upReads_snoc)
  show ?thesis unfolding passedUp_def
    by (rule exI [of _ n]) (use n t assms(2-4) in auto)
qed

lemma passedUp_step:
  assumes "framable s w" "passedUp (wst_streamID w) evs st"
  shows "passedUp (wst_streamID w) (evs @ [ev]) (relayStep js wr s w ev st)"
proof (cases "\<exists>k d. ev = UpRead k d \<and> ry_up st = Running")
  case True
  then obtain k d where ev: "ev = UpRead k d" "ry_up st = Running" by auto
  from SendMessage_frame [OF assms(1)] obtain r where
    r: "SendMessage wr s w (ry_sent st) (if k = MessageText then TypeWSMessageText else TypeWSMessageBinary) d
        = (r, ry_sent st @ [toAgent (wst_streamID w) (k, d)])" by blast
  from assms(2) ev have n: "frames (ry_sent st) = map (toAgent (wst_streamID w)) (upReads evs)"
      "ry_requestBytes st = (\<Sum>kd\<leftarrow>upReads evs. int (length (snd kd)))"
    by (auto simp: passedUp_def)
  have "frames (ry_sent (relayStep js wr s w ev st)) = map (toAgent (wst_streamID w)) (upReads (evs @ [ev]))"
    "ry_requestBytes (relayStep js wr s w ev st) = (\<Sum>kd\<leftarrow>upReads (evs @ [ev]). int (length (snd kd)))"
    by (cases r; simp add: relayStep_def ev pumpPublicToAgent_def Let_def r n upReads_snoc toAgent_def)+
  then show ?thesis unfolding passedUp_def by (intro exI [of _ "length (upReads (evs @ [ev]))"]) simp
next
  case False
  show ?thesis
  proof (cases "ry_up st = Running")
    case True
    with False have up: "upReads (evs @ [ev]) = upReads evs" by (auto simp: upReads_snoc split: relay_event.splits)
    have "frames (ry_sent (relayStep js wr s w ev st)) = frames (ry_sent st)"
      "ry_requestBytes (relayStep js wr s w ev st) = ry_requestBytes st"
      using False True
      by (auto simp: relayStep_def pumpPublicToAgent_def closeOrCancelForReadError_def split: relay_event.splits option.splits prod.splits)
    with assms(2) up True show ?thesis
      unfolding passedUp_def by (intro exI [of _ "length (upReads evs)"]) auto
  next
    case False
    then show ?thesis
      by (intro passedUp_same [OF assms(2)]) (auto simp: relayStep_def pumpPublicToAgent_def split: relay_event.splits)
  qed
qed

lemma pubFrames_simps [simp]:
  "pubFrames (xs @ ys) = pubFrames xs @ pubFrames ys" "pubFrames [PubFrame k d] = [PubFrame k d]" "pubFrames [PubClose c r] = []"
  by (simp_all add: pubFrames_def)

lemma passedDown_step:
  assumes "passedDown evs st"
  shows "passedDown (evs @ [ev]) (relayStep js wr s w ev st)"
proof -
  from assms obtain n where n: "pubFrames (ry_pub st) = map toPublic (take n (downReads evs))"
      "ry_responseBytes st = (\<Sum>m\<leftarrow>take n (downReads evs). int (length (msg_Body m)))"
      "n \<le> length (downReads evs)" "ry_down st = Running \<longrightarrow> n = length (downReads evs)"
    by (auto simp: passedDown_def)
  let ?st = "relayStep js wr s w ev st"
  have keep: ?thesis if "pubFrames (ry_pub ?st) = pubFrames (ry_pub st)" "ry_responseBytes ?st = ry_responseBytes st"
      "ry_down ?st = Running \<Longrightarrow> ry_down st = Running \<and> downReads (evs @ [ev]) = downReads evs"
    unfolding passedDown_def by (rule exI [of _ n]) (use n that in \<open>auto simp: downReads_snoc\<close>)
  show ?thesis
  proof (cases "\<exists>m res. ev = DownMsg m res \<and> isFrame m \<and> ry_down st = Running")
    case True
    then obtain m res where ev: "ev = DownMsg m res" "isFrame m" "ry_down st = Running" by auto
    have "pubFrames (ry_pub ?st) = map toPublic (downReads (evs @ [ev]))"
      "ry_responseBytes ?st = (\<Sum>m\<leftarrow>downReads (evs @ [ev]). int (length (msg_Body m)))"
      using ev n by (cases res; auto simp: relayStep_def pumpAgentToPublic_def Let_def downReads_snoc toPublic_def isFrame_def)+
    then show ?thesis unfolding passedDown_def by (intro exI [of _ "length (downReads (evs @ [ev]))"]) simp
  next
    case False
    show ?thesis
    proof (rule keep)
      show "pubFrames (ry_pub ?st) = pubFrames (ry_pub st)" "ry_responseBytes ?st = ry_responseBytes st"
        using False by (auto simp: relayStep_def pumpAgentToPublic_def Let_def isFrame_def
            split: relay_event.splits option.splits wres.splits sum.splits)
      show "ry_down st = Running \<and> downReads (evs @ [ev]) = downReads evs" if "ry_down ?st = Running"
        using False that by (auto simp: relayStep_def pumpAgentToPublic_def Let_def isFrame_def downReads_snoc
            split: relay_event.splits option.splits wres.splits sum.splits if_splits)
    qed
  qed
qed

lemma passed_run:
  assumes "framable s w" "frames out = []"
  shows "passedUp (wst_streamID w) evs (relayRun js wr s w evs (initRelay out)) \<and>
    passedDown evs (relayRun js wr s w evs (initRelay out))"
proof (induction evs rule: rev_induct)
  case Nil
  then show ?case using assms(2) by (simp add: initRelay_def passedUp_def passedDown_def upReads_def downReads_def pubFrames_def)
next
  case (snoc ev evs)
  then show ?case using assms(1) by (simp add: relayRun_fold passedUp_step passedDown_step)
qed

lemma told_append [simp]: "told (out @ out') \<longleftrightarrow> told out \<or> told out'"
  by (auto simp: told_def)

lemma told_notice:
  assumes "encodes js"
  shows "told (snd (SendClose js wr s w out code reason))" "told (snd (SendCancel js wr s w out reason2))"
proof -
  have e: "\<exists>env. NewStream js t sid tid p = Inr env \<and> env_Type env = t \<and> marshalEnvelope js env \<noteq> None"
    if "t \<noteq> OtherType []" for t sid tid p
  proof -
    obtain raw where "marshalPayload js p = Inr raw" using assms unfolding encodes_def by blast
    then have n: "NewStream js t sid tid p = Inr \<lparr>env_Type = t, env_StreamID = sid, env_TunnelID = tid, env_Payload = raw\<rparr>"
      using that by (simp add: NewStream_def)
    with assms show ?thesis unfolding encodes_def by (intro exI conjI) (auto intro: n)
  qed
  show "told (snd (SendClose js wr s w out code reason))"
    using e [of TypeWSClose "wst_streamID w" "ss_TunnelID (as_tunnel s)" "PWSClose \<lparr>wc_Code = code, wc_Reason = reason\<rparr>"]
    by (auto simp: SendClose_def sessionWrite_def WriteEnvelope_def told_def)
  show "told (snd (SendCancel js wr s w out reason2))"
    using e [of TypeWSCancel "wst_streamID w" "ss_TunnelID (as_tunnel s)" "PStreamCancel \<lparr>sc_Reason = reason2\<rparr>"]
    by (auto simp: SendCancel_def sessionWrite_def WriteEnvelope_def told_def)
qed

lemma told_grows: "told out \<Longrightarrow> told (snd (SendMessage wr s w out t d))"
  by (auto simp: SendMessage_def writeBinaryBody_def told_def split: sum.splits)

lemma relayInv_downReturns:
  assumes "relayInv st" "ry_down st = Running" "e = None \<Longrightarrow> \<exists>c r. PubClose c r \<in> set (ry_pub st)" "\<And>c. e \<noteq> Some (PublicReadFailed c)"
  shows "relayInv (downReturns e st)"
  using assms by (cases "ry_first st") (auto simp: relayInv_def downReturns_def noteResult_def)

lemma relayInv_pub:
  "relayInv st \<Longrightarrow> relayInv (st\<lparr>ry_touches := k, ry_responseBytes := n, ry_pub := ry_pub st @ ps\<rparr>)"
  "relayInv st \<Longrightarrow> relayInv (st\<lparr>ry_pub := ry_pub st @ ps\<rparr>)"
  by (auto simp: relayInv_def)

lemma relayInv_down:
  assumes "relayInv st"
  shows "relayInv (pumpAgentToPublic js ev st)"
proof (cases "ry_down st = Running")
  case True
  note R = relayInv_downReturns relayInv_pub assms
  show ?thesis
  proof (cases ev)
    case (DownMsg m res)
    show ?thesis
      by (simp add: pumpAgentToPublic_def DownMsg True Let_def split: wres.splits sum.splits)
         (intro conjI impI allI; (rule R)+; force simp: True)
  next
    case DownCtx
    show ?thesis
      by (simp add: pumpAgentToPublic_def DownCtx True split: option.splits) (intro conjI impI allI; (rule R)+; force simp: True)
  qed (use assms in \<open>simp_all add: pumpAgentToPublic_def\<close>)
qed (use assms in \<open>simp add: pumpAgentToPublic_def\<close>)

lemma relayInv_up:
  assumes "encodes js" "relayInv st"
  shows "relayInv (pumpPublicToAgent js wr s w ev st)"
proof (cases "ry_up st = Running")
  case False
  then show ?thesis using assms by (simp add: pumpPublicToAgent_def)
next
  case True
  note P = pumpPublicToAgent_def closeOrCancelForReadError_def relayInv_def upReturns_def noteResult_def Let_def
  show ?thesis
  proof (cases ev)
    case (UpRead k d)
    then show ?thesis using assms True by (auto simp: P split: prod.splits wres.splits option.splits)
  next
    case (UpFail cs c)
    then show ?thesis using assms True told_notice [OF assms(1)] by (auto simp: P split: option.splits)
  qed (use assms in \<open>simp_all add: pumpPublicToAgent_def\<close>)
qed

lemma relayInv_run:
  assumes "encodes js"
  shows "relayInv (relayRun js wr s w evs (initRelay out))"
proof (induction evs rule: rev_induct)
  case Nil
  then show ?case by (simp add: initRelay_def relayInv_def)
next
  case (snoc ev evs)
  have "relayInv (relayStep js wr s w ev st)" if "relayInv st" for st
    using relayInv_down [OF relayInv_up [OF assms that]] that
    by (cases ev) (auto simp: relayStep_def relayInv_def)
  with snoc show ?case by (simp add: relayRun_fold)
qed

section \<open>Properties\<close>

text \<open>
  A tunnelled WebSocket carries every message once, in order and with its kind.  In every
  interleaving of the two directions the frames sent to the agent are the first messages read from
  the public client, and the frames written to the public client are the first messages received
  from the agent; while a direction is running none is missing.  The two byte counts are the sizes
  of exactly these messages.
\<close>

theorem websocket_messages_in_order:
  assumes "framable s w" "frames out = []" "relayRun js wr s w evs (initRelay out) = st"
  shows "(\<exists>n. frames (ry_sent st) = map (toAgent (wst_streamID w)) (take n (upReads evs)) \<and>
            ry_requestBytes st = (\<Sum>kd\<leftarrow>take n (upReads evs). int (length (snd kd))) \<and>
            (ry_up st = Running \<longrightarrow> n = length (upReads evs))) \<and>
         (\<exists>n. pubFrames (ry_pub st) = map toPublic (take n (downReads evs)) \<and>
            ry_responseBytes st = (\<Sum>m\<leftarrow>take n (downReads evs). int (length (msg_Body m))) \<and>
            (ry_down st = Running \<longrightarrow> n = length (downReads evs)))"
  using passed_run [OF assms(1, 2), of evs js wr] assms(3) unfolding passedUp_def passedDown_def by blast

theorem websocket_messages_in_order_witness:
  "let w = \<lparr>wst_streamID = ''str_1'', wst_closed = False\<rparr>;
       st = relayRun demoJSON (\<lambda>i. WOk) demoAgent w [UpRead MessageText ''hi'', DownMsg (demoMessage TypeWSMessageText) WOk]
              (initRelay []) in
   frames (ry_sent st) = [SentBody TypeWSMessageText ''str_1'' ''hi''] \<and> pubFrames (ry_pub st) = [PubFrame MessageText ''hi'']"
proof -
  let ?w = "\<lparr>wst_streamID = ''str_1'', wst_closed = False\<rparr>"
  let ?evs = "[UpRead MessageText ''hi'', DownMsg (demoMessage TypeWSMessageText) WOk]"
  let ?st = "relayRun demoJSON (\<lambda>i. WOk) demoAgent ?w ?evs (initRelay [])"
  have f: "framable demoAgent ?w" "frames [] = []"
    by (simp_all add: framable_def frames_def demoAgent_def demoSession_def)
  have run: "ry_up ?st = Running" "ry_down ?st = Running"
    by (simp_all add: initRelay_def pumpPublicToAgent_def pumpAgentToPublic_def Let_def demoMessage_def SendMessage_def
        writeBinaryBody_def split: sum.splits)
       (simp_all add: WriteBinaryBody_def NewBinaryBodyFrame_def binaryBodyFrameType_def demoAgent_def demoSession_def)
  have "upReads ?evs = [(MessageText, ''hi'')]" "downReads ?evs = [demoMessage TypeWSMessageText]"
    by (simp_all add: upReads_def downReads_def List.map_filter_def isFrame_def demoMessage_def)
  with websocket_messages_in_order [OF f refl, of demoJSON "\<lambda>i. WOk" ?evs] run show ?thesis
    by (auto simp: toAgent_def toPublic_def demoMessage_def)
qed

text \<open>
  The agent is not always told that a WebSocket is over.  When the relay ends and the agent got
  neither \<open>ws.close\<close> nor \<open>ws.cancel\<close>, then the agent itself closed or cancelled the stream, or the
  relay failed in one of four ways: a write to the agent or to the public client failed, or a
  message of the agent was malformed or unexpected.  These ways do occur: after a failed write to
  the public client nothing is sent.
\<close>

theorem websocket_failures_can_be_silent:
  assumes "encodes js"
  shows "(\<forall>rb pb outcome sent' ps. relayPublicWebSocket js wr s w out evs = Some (rb, pb, outcome, sent', ps) \<and> \<not> told sent' \<longrightarrow>
      (outcome = None \<and> (\<exists>c r. PubClose c r \<in> set ps)) \<or>
      (\<exists>e. outcome = Some e \<and> \<not> relayContextDone e \<and> (\<forall>c. e \<noteq> PublicReadFailed c))) \<and>
    (\<forall>m c cs c2. isFrame m \<and> \<not> relayContextDone (PublicWriteFailed c) \<longrightarrow>
      relayPublicWebSocket js wr s w out [DownMsg m (WErr c), CancelRelay, UpFail cs c2] =
        Some (0, int (length (msg_Body m)), Some (PublicWriteFailed c), out, [toPublic m]))"
proof (intro conjI allI impI)
  fix rb pb outcome sent' ps
  assume A: "relayPublicWebSocket js wr s w out evs = Some (rb, pb, outcome, sent', ps) \<and> \<not> told sent'"
  let ?st = "relayRun js wr s w evs (initRelay out)"
  have inv: "relayInv ?st" by (rule relayInv_run [OF assms])
  from A obtain a b f where F: "ry_up ?st = Returned a" "ry_down ?st = Returned b" "ry_first ?st = Some f"
    "outcome = relayOutcome f (if f = a then b else a)" "ps = ry_pub ?st"
    "sent' = (case outcome of None \<Rightarrow> ry_sent ?st
        | Some e \<Rightarrow> if relayContextDone e
                     then snd (SendCancel js wr s w (ry_sent ?st) (streamCancelReason (relayCause e))) else ry_sent ?st)"
    by (auto simp: relayPublicWebSocket_def Let_def split: pump.splits option.splits)
  from inv F(1-3) have fab: "f = a \<or> f = b" by (auto simp: relayInv_def)
  show "(outcome = None \<and> (\<exists>c r. PubClose c r \<in> set ps)) \<or>
      (\<exists>e. outcome = Some e \<and> \<not> relayContextDone e \<and> (\<forall>c. e \<noteq> PublicReadFailed c))"
  proof (cases outcome)
    case None
    with A F have "\<not> told (ry_sent ?st)" by simp
    with inv F(1) have "a \<noteq> None" by (auto simp: relayInv_def)
    with None F(4) fab have "b = None" by (auto simp: relayOutcome_def split: if_splits)
    with inv F(2, 5) None show ?thesis by (auto simp: relayInv_def)
  next
    case (Some e)
    with A F(6) have e: "\<not> relayContextDone e" "\<not> told (ry_sent ?st)" using told_notice(2) [OF assms] by (auto split: if_splits)
    from Some F(4) have "f = Some e" "a \<noteq> None" by (auto simp: relayOutcome_def split: if_splits)
    moreover have "a \<noteq> Some (PublicReadFailed c)" for c using inv F(1) e(2) by (auto simp: relayInv_def)
    moreover have "b \<noteq> Some (PublicReadFailed c)" for c using inv F(2) by (auto simp: relayInv_def)
    ultimately show ?thesis using Some e(1) fab by auto
  qed
next
  fix m c cs c2
  assume "isFrame m \<and> \<not> relayContextDone (PublicWriteFailed c)"
  then show "relayPublicWebSocket js wr s w out [DownMsg m (WErr c), CancelRelay, UpFail cs c2] =
        Some (0, int (length (msg_Body m)), Some (PublicWriteFailed c), out, [toPublic m])"
    by (auto simp: relayPublicWebSocket_def Let_def initRelay_def pumpPublicToAgent_def pumpAgentToPublic_def isFrame_def
        downReturns_def upReturns_def noteResult_def cancelRelay_def endRelay_def relayOutcome_def toPublic_def)
qed


theorem websocket_failures_can_be_silent_witness:
  "encodes demoJSON \<and>
   relayPublicWebSocket demoJSON (\<lambda>i. WOk) demoAgent \<lparr>wst_streamID = ''str_1'', wst_closed = False\<rparr> []
     [DownMsg (demoMessage TypeWSMessageText) (WErr None), CancelRelay, UpFail None None] =
   Some (0, 2, Some (PublicWriteFailed None), [], [PubFrame MessageText ''hi''])"
proof -
  have e: "encodes demoJSON" by (simp add: encodes_def demoJSON_def marshalPayload_def)
  have m: "isFrame (demoMessage TypeWSMessageText) \<and> \<not> relayContextDone (PublicWriteFailed None)"
    by (simp add: isFrame_def demoMessage_def relayContextDone_def)
  show ?thesis
    using websocket_failures_can_be_silent [OF e, THEN conjunct2, rule_format, OF m] e
    by (simp add: toPublic_def demoMessage_def)
qed

end
