(* ===== verification/PublicRequest.thy ===== *)
theory PublicRequest
  imports WSRelay
begin

text \<open>
  \<open>handlePublicRequest\<close> of \<open>server.go\<close> with all it calls: admission of a public request, its way
  through the tunnel of the agent as an HTTP exchange or as a WebSocket, and the log entry and the
  metrics that are written when it is over (\<open>request_log.go\<close>, \<open>metrics.go\<close>).

  One request is served at a time: what its environment does is in the record \<open>public_io\<close>, and the
  result is \<^term>\<open>None\<close> while the code waits.  The stream deadline acts through the events: a timer
  that fires is a \<open>CtxDone\<close>.  Spans and the lines of \<open>slog\<close> are not modelled.
\<close>

section \<open>Environment and result\<close>

datatype public_error =
    RouteFailed route_error
  | AccessFailed backend_error
  | StreamIDFailed name_error
  | StreamFailed session_error
  | AcceptFailed
  | RelayFailed relay_error

text \<open>
  The times at which the handler reads the clock, the random draws of the stream id, the channel of
  the stream, the results of writes to the agent and to the public client, the events of the
  \<open>select\<close> loops, \<open>websocket.Accept\<close> with the offered subprotocols, the iteration orders over maps,
  whether the database stored the log entry, and the texts of errors.
\<close>

record public_io =
  io_started :: gotime
  io_resolved :: gotime
  io_limited :: gotime
  io_logged :: gotime
  io_observed :: gotime
  io_draw :: "nat \<Rightarrow> nat option"
  io_channel :: nat
  io_agent :: "nat \<Rightarrow> wres"
  io_client :: "nat \<Rightarrow> nat \<times> cause option option"
  io_events :: "event list"
  io_opened :: "event option"
  io_accept :: "string list \<Rightarrow> responseWriter \<Rightarrow> bool \<times> responseWriter"
  io_relay :: "relay_event list"
  io_headers :: "http_header \<Rightarrow> string list"
  io_attempts :: "string list"
  io_stored :: bool
  io_text :: "public_error \<Rightarrow> string"

record publicRequestLog =
  pr_Started :: gotime
  pr_Status :: int
  pr_Outcome :: string
  pr_Subdomain :: string
  pr_CustomDomain :: string
  pr_TunnelID :: string
  pr_StreamID :: string
  pr_RequestBytes :: int
  pr_ResponseBytes :: int
  pr_Error :: "public_error option"

text \<open>The result of the part of the handler that talks to the agent.\<close>

record reply =
  py_Status :: int
  py_Outcome :: string
  py_RequestBytes :: int
  py_ResponseBytes :: int
  py_Error :: "public_error option"
  py_Writer :: responseWriter
  py_Sent :: "sent list"
  py_Frames :: "pub_frame list"
  py_Session :: agentSession

section \<open>Admission\<close>

text \<open>
  Up to the decision of the access policy: the route, the session, the rate limit of the tunnel and
  the throttle of failed attempts.  On the left the log and the page of a refused request.
\<close>

definition refuse ::
  "httpRequest \<Rightarrow> publicRequestLog \<Rightarrow> int \<Rightarrow> string \<Rightarrow> public_error option \<Rightarrow> string \<Rightarrow> responseWriter
     \<Rightarrow> publicRequestLog \<times> responseWriter" where
  "refuse r l st outcome e message w =
     (l\<lparr>pr_Status := st, pr_Outcome := outcome, pr_Error := e\<rparr>, writePublicError r message st w)"

definition putSession :: "Server \<Rightarrow> agentSession \<Rightarrow> Server" where
  "putSession s session = s\<lparr>sv_sessions := (sv_sessions s)(ss_TunnelID (as_tunnel session) \<mapsto> session)\<rparr>"

definition admitSession ::
  "'w genv \<Rightarrow> public_io \<Rightarrow> Server \<Rightarrow> httpRequest \<Rightarrow> responseWriter \<Rightarrow> publicRequestLog \<Rightarrow> agentSession \<Rightarrow> 'w
     \<Rightarrow> ((publicRequestLog \<times> responseWriter) + (publicRequestLog \<times> agentSession \<times> accessPolicyEvaluation)) \<times> Server \<times> 'w" where
  "admitSession E io s r rw l session0 w =
     (case allowRequest (ge_fl E) session0 (io_limited io) of
        (ok, session) \<Rightarrow>
          let s1 = putSession s session in
          if \<not> ok then
            (Inl (refuse r l 429 ''rate_limited'' None ''tunnel rate limit exceeded'' (setHeader ''Retry-After'' ''1'' rw)), s1, w)
          else let authAttemptKey = pr_Subdomain l @ ''|'' @ clientIP s r in
               if blocked (ge_fl E) (Some (sv_authAttempts s)) authAttemptKey (io_started io) then
                 (Inl (refuse r l 429 ''auth_attempts_limited'' None ''too many authentication attempts''
                         (setHeader ''Retry-After'' ''1'' rw)), s1, w)
               else case evaluatePublicAccess E s r (pr_Subdomain l) w of
                      (Inl e, w1) \<Rightarrow>
                        (Inl (refuse r l 503 ''access_policy_unavailable'' (Some (AccessFailed e)) ''access policy unavailable'' rw), s1, w1)
                    | (Inr accessResult, w1) \<Rightarrow>
                        if \<not> pe_Allowed accessResult then
                          (Inl (l\<lparr>pr_Status := accessDeniedStatus accessResult, pr_Outcome := ''access_denied''\<rparr>,
                                writeAccessDenied r accessResult rw),
                           (if pe_Mode accessResult = ''basic_auth'' \<or> pe_Mode accessResult = ''bearer_token''
                            then s1\<lparr>sv_authAttempts :=
                                     the (recordFailure (ge_fl E) (io_attempts io) (Some (sv_authAttempts s)) authAttemptKey (io_started io))\<rparr>
                            else s1), w1)
                        else (Inr (l, session, accessResult), s1, w1))"

definition admitPublic ::
  "'w genv \<Rightarrow> public_io \<Rightarrow> Server \<Rightarrow> httpRequest \<Rightarrow> responseWriter \<Rightarrow> 'w
     \<Rightarrow> ((publicRequestLog \<times> responseWriter) + (publicRequestLog \<times> agentSession \<times> accessPolicyEvaluation)) \<times> Server \<times> 'w" where
  "admitPublic E io s r rw w =
     (let l0 = \<lparr>pr_Started = io_started io, pr_Status = 0, pr_Outcome = ''unknown'', pr_Subdomain = [], pr_CustomDomain = [],
                pr_TunnelID = [], pr_StreamID = [], pr_RequestBytes = 0, pr_ResponseBytes = 0, pr_Error = None\<rparr>;
          noTunnel = ''no active tunnel for host '' @ ge_quo E (r_Host r)
      in case routeForHost E (io_resolved io) s (r_Host r) w of
           (Inl e, s1, w1) \<Rightarrow>
             (Inl (refuse r l0 503 ''custom_domain_lookup_failed'' (Some (RouteFailed e)) ''custom domain lookup failed'' rw), s1, w1)
         | (Inr (route, ok), s1, w1) \<Rightarrow>
             if \<not> ok then
               (let l1 = l0\<lparr>pr_CustomDomain := ro_CustomDomain route\<rparr> in
                if ro_MissReason route \<noteq> []
                then (Inl (refuse r l1 404 (customDomainMissOutcome (ro_MissReason route)) None
                             (customDomainMissMessage (ro_MissReason route)) rw), s1, w1)
                else (Inl (refuse r l1 404 ''no_tunnel_for_host'' None noTunnel rw), s1, w1))
             else let l1 = l0\<lparr>pr_Subdomain := ro_Subdomain route, pr_CustomDomain := ro_CustomDomain route\<rparr> in
                  case sessionBySubdomain s1 (ro_Subdomain route) of
                    None \<Rightarrow> (Inl (refuse r l1 404 ''no_active_session'' None noTunnel rw), s1, w1)
                  | Some session \<Rightarrow>
                      admitSession E io s1 r rw (l1\<lparr>pr_TunnelID := ss_TunnelID (as_tunnel session)\<rparr>) session w1)"

section \<open>HTTP through the tunnel\<close>

text \<open>\<open>writeResponseStart\<close> and \<open>writeResponseBody\<close>; the flag says that \<open>WriteHeader\<close> panicked.\<close>

definition addHeaders :: "string list \<Rightarrow> http_header \<Rightarrow> http_header \<Rightarrow> http_header" where
  "addHeaders order h wh =
     fold (\<lambda>name wh. fold (hdrAdd name) (case h name of None \<Rightarrow> [] | Some vs \<Rightarrow> vs) wh) order wh"

fun writeResponse :: "(http_header \<Rightarrow> string list) \<Rightarrow> pub list \<Rightarrow> responseWriter \<Rightarrow> int \<Rightarrow> responseWriter \<times> int \<times> bool" where
  "writeResponse order [] w st = (w, st, False)"
| "writeResponse order (PubStart resp # ps) w st =
     (let h = StripHopByHopHeaders (rst_Header resp);
          w1 = w\<lparr>rw_Header := addHeaders (order h) h (rw_Header w)\<rparr>;
          st1 = statusOr502 (rst_Status resp)
      in if writeHeaderPanics st1 w1 then (w1, st1, True) else writeResponse order ps (WriteHeader st1 w1) st1)"
| "writeResponse order (PubBody chunk n # ps) w st = writeResponse order ps (writeBytes (take n chunk) w) st"

definition isStart :: "pub \<Rightarrow> bool" where
  "isStart p = (case p of PubStart r \<Rightarrow> True | PubBody c n \<Rightarrow> False)"

text \<open>
  The status, the outcome and the page for an error of the round trip; \<open>started\<close> says whether the
  response has started and \<open>st\<close> is the status so far.
\<close>

definition roundTripFailure :: "session_error \<Rightarrow> bool \<Rightarrow> int \<Rightarrow> int \<times> string \<times> (string \<times> int) option" where
  "roundTripFailure e started st =
     (let unlessStarted = (\<lambda>st1 outcome message. (if started then st else st1, outcome, if started then None else Some (message, st1))) in
      if e = ErrStreamLimitExceeded then (503, ''stream_limit_exceeded'', Some (''tunnel overloaded'', 503))
      else if e = ErrRequestBodyTooLarge then (413, ''request_body_too_large'', Some (''request body too large'', 413))
      else if errorCause e = Some StreamRequestTimeout \<or> errorCause e = Some DeadlineExceeded
      then unlessStarted 504 ''tunnel_timeout'' ''tunnel request timed out''
      else if errorCause e = Some StreamIdleTimeout
      then unlessStarted 504 ''stream_idle_timeout'' ''tunnel stream idle timeout''
      else if errorCause e = Some StreamMaxLifetimeExceeded
      then unlessStarted 504 ''stream_max_lifetime_exceeded'' ''tunnel stream exceeded its maximum lifetime''
      else if errorCause e = Some Canceled then (if started then st else 499, ''client_canceled'', None)
      else unlessStarted 502 ''tunnel_error'' ''tunnel request failed'')"

text \<open>
  A panic of \<open>WriteHeader\<close> leaves the round trip at once.  Nothing but a cancellation is sent to the
  agent after the response has started, so the messages sent until then are those that are not
  cancellations.
\<close>

definition forwardRequest ::
  "'w genv \<Rightarrow> public_io \<Rightarrow> Server \<Rightarrow> httpRequest \<Rightarrow> responseWriter \<Rightarrow> agentSession \<Rightarrow> accessPolicyEvaluation \<Rightarrow> string
     \<Rightarrow> reply option" where
  "forwardRequest E io s r rw session accessResult streamID =
     (case streamRoundTrip (ge_js E) (io_agent io) (io_client io) session (io_channel io) streamID
             (tunnelRequest s r accessResult (ss_TunnelID (as_tunnel session))) (r_Body r)
             (cfg_MaxBodyBytes (sv_cfg s)) (cfg_StreamChunkBytes (sv_cfg s)) (io_events io) of
        None \<Rightarrow> None
      | Some (result, err, out, ps, session') \<Rightarrow>
          (case writeResponse (io_headers io) ps rw 0 of
             (rw1, st, panicked) \<Rightarrow>
               if panicked
               then Some \<lparr>py_Status = st, py_Outcome = ''unknown'', py_RequestBytes = 0, py_ResponseBytes = 0, py_Error = None,
                          py_Writer = rw1, py_Sent = filter (\<lambda>m. \<not> isCancel m) out, py_Frames = [], py_Session = session'\<rparr>
               else case err of
                      None \<Rightarrow>
                        Some \<lparr>py_Status = rr_Status result, py_Outcome = ''completed'', py_RequestBytes = rr_RequestBytes result,
                              py_ResponseBytes = rr_ResponseBytes result, py_Error = None, py_Writer = rw1, py_Sent = out,
                              py_Frames = [], py_Session = session'\<rparr>
                    | Some e \<Rightarrow>
                        (case roundTripFailure e (list_ex isStart ps) st of
                           (st1, outcome, page) \<Rightarrow>
                             Some \<lparr>py_Status = st1, py_Outcome = outcome, py_RequestBytes = rr_RequestBytes result,
                                   py_ResponseBytes = rr_ResponseBytes result, py_Error = Some (StreamFailed e),
                                   py_Writer = (case page of None \<Rightarrow> rw1
                                                | Some (message, st2) \<Rightarrow> writePublicError r message st2 rw1),
                                   py_Sent = out, py_Frames = [], py_Session = session'\<rparr>)))"

section \<open>WebSockets through the tunnel\<close>

definition handlePublicWebSocket ::
  "'w genv \<Rightarrow> public_io \<Rightarrow> Server \<Rightarrow> httpRequest \<Rightarrow> responseWriter \<Rightarrow> agentSession \<Rightarrow> accessPolicyEvaluation \<Rightarrow> string
     \<Rightarrow> reply option" where
  "handlePublicWebSocket E io s r rw session accessResult streamID =
     (let js = ge_js E;
          done = (\<lambda>st outcome rb pb e w out fs sess.
                    Some \<lparr>py_Status = st, py_Outcome = outcome, py_RequestBytes = rb, py_ResponseBytes = pb, py_Error = e,
                          py_Writer = w, py_Sent = out, py_Frames = fs, py_Session = sess\<rparr>)
      in if \<not> HasCapability (Some (as_tunnel session)) CapabilityWebSocketTunnel
         then done 501 ''websocket_unsupported'' 0 0 None
                (writePublicError r ''the connected agent does not support WebSocket tunneling'' 501 rw) [] [] session
         else case openWSStream js (io_agent io) session (io_channel io) streamID
                     (buildWSOpen r (accessConsumesAuthorization accessResult)) (io_opened io) of
                None \<Rightarrow> None
              | Some (Inl e, out, session') \<Rightarrow>
                  if e = ErrStreamLimitExceeded
                  then done 503 ''stream_limit_exceeded'' 0 0 (Some (StreamFailed e)) (writePublicError r ''tunnel overloaded'' 503 rw) out [] session'
                  else if errorCause e = Some StreamRequestTimeout \<or> errorCause e = Some DeadlineExceeded
                  then done 504 ''tunnel_timeout'' 0 0 (Some (StreamFailed e)) (writePublicError r ''tunnel request timed out'' 504 rw) out [] session'
                  else if errorCause e = Some Canceled
                  then done 499 ''client_canceled'' 0 0 (Some (StreamFailed e)) rw out [] session'
                  else done 502 ''tunnel_error'' 0 0 (Some (StreamFailed e)) (writePublicError r ''websocket tunnel failed'' 502 rw) out [] session'
              | Some (Inr accept, out, session1) \<Rightarrow>
                  let stream = \<lparr>wst_streamID = streamID, wst_closed = False\<rparr>;
                      session' = fst (wsClose session1 stream)
                  in case io_accept io (if wa_Subprotocol accept \<noteq> [] then [wa_Subprotocol accept] else []) rw of
                       (False, rw1) \<Rightarrow>
                         done 0 ''websocket_handshake_failed'' 0 0 (Some AcceptFailed) rw1
                           (snd (SendCancel js (io_agent io) session1 stream out ''public websocket handshake failed'')) [] session'
                     | (True, rw1) \<Rightarrow>
                         (case relayPublicWebSocket js (io_agent io) session1 stream out (io_relay io) of
                            None \<Rightarrow> None
                          | Some (rb, pb, None, out1, fs) \<Rightarrow> done 101 ''completed'' rb pb None rw1 out1 fs session'
                          | Some (rb, pb, Some e, out1, fs) \<Rightarrow>
                              done 101 (if relayCause e = Some StreamIdleTimeout then ''stream_idle_timeout''
                                        else if relayCause e = Some StreamMaxLifetimeExceeded then ''stream_max_lifetime_exceeded''
                                        else if relayCause e = Some Canceled then ''client_canceled''
                                        else ''websocket_error'') rb pb (Some (RelayFailed e)) rw1 out1 fs session'))"

section \<open>The handler\<close>

text \<open>The body of the handler, before the deferred function runs.\<close>

record served =
  sx_Log :: publicRequestLog
  sx_Writer :: responseWriter
  sx_Sent :: "sent list"
  sx_Frames :: "pub_frame list"
  sx_Server :: Server

definition servePublic ::
  "'w genv \<Rightarrow> public_io \<Rightarrow> Server \<Rightarrow> httpRequest \<Rightarrow> responseWriter \<Rightarrow> 'w \<Rightarrow> (served \<times> 'w) option" where
  "servePublic E io s r rw w =
     (case admitPublic E io s r rw w of
        (Inl (l, rw1), s1, w1) \<Rightarrow>
          Some (\<lparr>sx_Log = l, sx_Writer = rw1, sx_Sent = [], sx_Frames = [], sx_Server = s1\<rparr>, w1)
      | (Inr (l, session, accessResult), s1, w1) \<Rightarrow>
          (case newStreamID (io_draw io) of
             Inl e \<Rightarrow>
               (case refuse r l 500 ''stream_id_failed'' (Some (StreamIDFailed e)) ''failed to create stream'' rw of
                  (l1, rw1) \<Rightarrow> Some (\<lparr>sx_Log = l1, sx_Writer = rw1, sx_Sent = [], sx_Frames = [], sx_Server = s1\<rparr>, w1))
           | Inr streamID \<Rightarrow>
               (case (if isWebSocketUpgradeRequest (ge_ef E) r
                      then handlePublicWebSocket E io s1 r rw session accessResult streamID
                      else forwardRequest E io s1 r rw session accessResult streamID) of
                  None \<Rightarrow> None
                | Some y \<Rightarrow>
                    Some (\<lparr>sx_Log = l\<lparr>pr_StreamID := streamID, pr_Status := py_Status y, pr_Outcome := py_Outcome y,
                                      pr_RequestBytes := py_RequestBytes y, pr_ResponseBytes := py_ResponseBytes y,
                                      pr_Error := py_Error y\<rparr>,
                           sx_Writer = py_Writer y, sx_Sent = py_Sent y, sx_Frames = py_Frames y,
                           sx_Server = putSession s1 (py_Session y)\<rparr>, w1))))"

definition requestLogEntryFromPublicRequest ::
  "public_io \<Rightarrow> httpRequest \<Rightarrow> publicRequestLog \<Rightarrow> string \<Rightarrow> requestLogEntry" where
  "requestLogEntryFromPublicRequest io r l ip =
     \<lparr>le_ID = 0, le_Time = pr_Started l, le_Method = r_Method r, le_Host = r_Host r, le_Path = r_Path r,
      le_QueryPresent = (r_RawQuery r \<noteq> []), le_RemoteIP = ip, le_RequestID = requestID r,
      le_Subdomain = pr_Subdomain l, le_CustomDomain = pr_CustomDomain l, le_TunnelID = pr_TunnelID l,
      le_StreamID = pr_StreamID l, le_Status = pr_Status l, le_Outcome = pr_Outcome l,
      le_RequestBytes = pr_RequestBytes l, le_ResponseBytes = pr_ResponseBytes l,
      le_DurationMS = Milliseconds (io_logged io - pr_Started l),
      le_Error = (case pr_Error l of None \<Rightarrow> [] | Some e \<Rightarrow> io_text io e)\<rparr>"

definition recordRequestLog :: "bool \<Rightarrow> requestLogEntry \<Rightarrow> Server \<Rightarrow> Server" where
  "recordRequestLog stored entry s =
     s\<lparr>sv_requestLogs := addLogEntry (sv_requestLogs s) entry,
       sv_store := (case sv_store s of
                      None \<Rightarrow> None
                    | Some es \<Rightarrow> if stored then Some (es @ [entry]) else Some es)\<rparr>"

text \<open>The counter for an outcome.\<close>

definition outcomeCounter :: "string \<Rightarrow> ((uint64 \<Rightarrow> uint64) \<Rightarrow> gatewayMetrics \<Rightarrow> gatewayMetrics) option" where
  "outcomeCounter outcome =
     (if outcome = ''rate_limited'' then Some gm_publicRequestRateLimitedTotal_update
      else if outcome = ''auth_attempts_limited'' then Some gm_publicRequestAuthAttemptsLimitedTotal_update
      else if outcome = ''tunnel_timeout'' then Some gm_publicRequestTimeoutsTotal_update
      else if outcome = ''stream_idle_timeout'' then Some gm_publicRequestStreamIdleTimeoutsTotal_update
      else if outcome = ''stream_max_lifetime_exceeded'' then Some gm_publicRequestStreamMaxLifetimeTotal_update
      else if outcome = ''request_body_too_large'' then Some gm_publicRequestBodyTooLargeTotal_update
      else if outcome = ''client_canceled'' then Some gm_publicRequestClientCanceledTotal_update
      else if outcome \<in> {''no_active_session'', ''no_tunnel_for_host'', ''custom_domain_not_found'', ''custom_domain_not_verified'',
                         ''custom_domain_verification_failed'', ''custom_domain_no_control_plane'', ''custom_domain_lookup_miss''}
      then Some gm_publicRequestNoActiveSessionTotal_update
      else if outcome = ''access_denied'' then Some gm_publicRequestAccessDeniedTotal_update
      else if outcome = ''access_policy_unavailable'' then Some gm_publicRequestAccessPolicyErrorsTotal_update
      else None)"

definition recordPublicRequestMetrics :: "(rat \<Rightarrow> rat) \<Rightarrow> int \<Rightarrow> string \<Rightarrow> duration \<Rightarrow> Server \<Rightarrow> Server" where
  "recordPublicRequestMetrics rnd st outcome d s =
     (let s1 = addOne gm_publicRequestsTotal_update s;
          s2 = s1\<lparr>sv_metrics := gm_publicRequestDuration_update (\<lambda>h. Observe rnd h d) (sv_metrics s1)\<rparr>;
          s3 = (if st \<ge> 500 then addOne gm_publicRequestErrorsTotal_update s2 else s2)
      in case outcomeCounter outcome of None \<Rightarrow> s3 | Some counter \<Rightarrow> addOne counter s3)"

definition finishPublic :: "'w genv \<Rightarrow> public_io \<Rightarrow> httpRequest \<Rightarrow> served \<Rightarrow> served" where
  "finishPublic E io r v =
     (let l = (if pr_Status (sx_Log v) = 0 then (sx_Log v)\<lparr>pr_Status := 500\<rparr> else sx_Log v);
          entry = requestLogEntryFromPublicRequest io r l (clientIP (sx_Server v) r);
          s1 = recordRequestLog (io_stored io) entry (sx_Server v);
          s2 = recordPublicRequestMetrics (ge_fl E) (pr_Status l) (pr_Outcome l) (io_observed io - pr_Started l) s1
      in v\<lparr>sx_Log := l, sx_Server := s2\<rparr>)"

definition handlePublicRequest ::
  "'w genv \<Rightarrow> public_io \<Rightarrow> Server \<Rightarrow> httpRequest \<Rightarrow> responseWriter \<Rightarrow> 'w \<Rightarrow> (served \<times> 'w) option" where
  "handlePublicRequest E io s r rw w =
     (case servePublic E io s r rw w of
        None \<Rightarrow> None
      | Some (v, w1) \<Rightarrow> Some (finishPublic E io r v, w1))"

definition sentFirst :: "sent list \<Rightarrow> Envelope \<Rightarrow> bool" where
  "sentFirst out env \<longleftrightarrow> (\<exists>rest. out = SentEnvelope env # rest)"

text \<open>What a request has to pass before it is forwarded.\<close>

definition admitted ::
  "'w genv \<Rightarrow> public_io \<Rightarrow> Server \<Rightarrow> httpRequest \<Rightarrow> 'w \<Rightarrow> hostRoute \<Rightarrow> agentSession \<Rightarrow> accessPolicyEvaluation \<Rightarrow> 'w \<Rightarrow> bool" where
  "admitted E io s r w route session a w' \<longleftrightarrow>
     (\<exists>s1 w1. routeForHost E (io_resolved io) s (r_Host r) w = (Inr (route, True), s1, w1) \<and>
        sessionBySubdomain s (ro_Subdomain route) = Some session \<and>
        fst (allowRequest (ge_fl E) session (io_limited io)) \<and>
        \<not> blocked (ge_fl E) (Some (sv_authAttempts s)) (ro_Subdomain route @ ''|'' @ clientIP s r) (io_started io) \<and>
        evaluatePublicAccess E s r (ro_Subdomain route) w1 = (Inr a, w') \<and> pe_Allowed a)"


text \<open>Neither admission nor the way through the tunnel touches the log or the counters of requests.\<close>

definition quiet :: "Server \<Rightarrow> Server \<Rightarrow> bool" where
  "quiet s s' \<longleftrightarrow> sv_requestLogs s' = sv_requestLogs s \<and> sv_store s' = sv_store s \<and> sv_cfg s' = sv_cfg s \<and>
     sv_registry s' = sv_registry s \<and> sv_clientIPs s' = sv_clientIPs s \<and> sv_access s' = sv_access s \<and>
     gm_publicRequestsTotal (sv_metrics s') = gm_publicRequestsTotal (sv_metrics s) \<and>
     gm_publicRequestErrorsTotal (sv_metrics s') = gm_publicRequestErrorsTotal (sv_metrics s) \<and>
     gm_publicRequestDuration (sv_metrics s') = gm_publicRequestDuration (sv_metrics s)"


text \<open>A counter that is neither a total nor the histogram.\<close>

definition keepsTotals :: "((uint64 \<Rightarrow> uint64) \<Rightarrow> gatewayMetrics \<Rightarrow> gatewayMetrics) option \<Rightarrow> bool" where
  "keepsTotals c \<longleftrightarrow>
     (case c of
        None \<Rightarrow> True
      | Some u \<Rightarrow> \<forall>f m. gm_publicRequestsTotal (u f m) = gm_publicRequestsTotal m \<and>
          gm_publicRequestErrorsTotal (u f m) = gm_publicRequestErrorsTotal m \<and>
          gm_publicRequestDuration (u f m) = gm_publicRequestDuration m)"


definition demoGateway :: Server where
  "demoGateway = demoServer\<lparr>sv_registry := demoRegistry, sv_sessions := [''tun_1'' \<mapsto> demoAgent]\<rparr>"

definition demoRequest :: httpRequest where
  "demoRequest =
     \<lparr>r_Method = ''GET'', r_Host = ''demo.localhost'', r_Path = ''/'', r_RawQuery = [], r_Header = Map.empty,
      r_ContentLength = 0, r_RemoteAddr = ''192.0.2.1:4000'', r_TLS = False, r_ctxID = ''req_1'', r_Body = None\<rparr>"

definition demoIO :: public_io where
  "demoIO =
     \<lparr>io_started = 0, io_resolved = 0, io_limited = 0, io_logged = 0, io_observed = 0, io_draw = (\<lambda>i. Some 0), io_channel = 1,
      io_agent = (\<lambda>i. WOk), io_client = (\<lambda>i. (0, None)), io_events = [AgentDone], io_opened = None,
      io_accept = (\<lambda>ps w. (False, w)), io_relay = [], io_headers = (\<lambda>h. []), io_attempts = [], io_stored = True,
      io_text = (\<lambda>e. ''error'')\<rparr>"

definition emptyWriter :: responseWriter where
  "emptyWriter = \<lparr>rw_Header = Map.empty, rw_Info = [], rw_Sent = None, rw_Body = []\<rparr>"

section \<open>Lemmas\<close>

lemma if_both: "P x \<Longrightarrow> P y \<Longrightarrow> P (if c then x else y)"
  by simp

lemma sentFirst_append [simp]: "sentFirst out env \<Longrightarrow> sentFirst (out @ xs) env"
  by (auto simp: sentFirst_def)

lemma sentFirst_cancelStream [simp]: "sentFirst out env \<Longrightarrow> sentFirst (cancelStream js wr s out sid reason) env"
  by (auto simp: cancelStream_def sessionWrite_def split: sum.splits)

lemma sentFirst_sessionWrite:
  "sentFirst out env \<Longrightarrow> sentFirst (snd (sessionWrite js wr out e)) env"
  "sessionWrite js wr [] e = (r, out') \<Longrightarrow> out' \<noteq> [] \<Longrightarrow> sentFirst out' e"
  by (auto simp: sessionWrite_def sentFirst_def split: sum.splits)

lemma sentFirst_read:
  "readStreamResponse js wr wb s sid ck started res out pub evs = Some (res', e, out', pub') \<Longrightarrow> sentFirst out env \<Longrightarrow>
     sentFirst out' env"
proof (induction evs arbitrary: started res pub)
  case (Cons ev evs)
  show ?case
  proof (cases ev)
    case (Received m)
    note prems = Cons.prems [unfolded readStreamResponse.simps(2) Received event.case]
    show ?thesis
    proof (cases "env_Type (msg_Envelope m)")
      case TypeHTTPResponseStart
      then show ?thesis using prems by (auto simp: Let_def split: sum.splits dest!: Cons.IH)
    next
      case TypeHTTPResponseBody
      show ?thesis
      proof (cases "responseBodyChunk js m ck")
        case (Inl x)
        then show ?thesis using prems TypeHTTPResponseBody by (auto split: if_splits)
      next
        case (Inr chunk)
        obtain n err where w: "wb (length pub) = (n, err)" by (cases "wb (length pub)")
        show ?thesis
          using prems TypeHTTPResponseBody Inr w
          by (cases err) (auto simp: Let_def pubWrite_def split: if_splits dest!: Cons.IH)
      qed
    next
      case TypeHTTPResponse
      then show ?thesis using prems by (auto split: prod.splits)
    qed (use prems in \<open>auto split: if_splits sum.splits\<close>)
  qed (use Cons.prems in auto)
qed simp

lemma sentFirst_write: "sessionWrite js wr out e = (r, out') \<Longrightarrow> sentFirst out env \<Longrightarrow> sentFirst out' env"
  using sentFirst_sessionWrite(1) [of out env js wr e] by simp

lemma sentFirst_body:
  "writeRequestBody wr s sid body mx out = Some (n, e, out') \<Longrightarrow> sentFirst out env \<Longrightarrow> sentFirst out' env"
  by (auto dest: writeRequestBody_shape)

lemma streamRoundTrip_first:
  assumes "streamRoundTrip js wr wb s ch sid req body mx ck evs = Some (res, e, out, pub, s')" "out \<noteq> []"
  shows "\<exists>env. NewStream js TypeHTTPRequestStart sid (ss_TunnelID (as_tunnel s)) (PRequestStart req) = Inr env \<and> sentFirst out env"
proof -
  from assms obtain s1 start where a: "acquireStream s = Inr s1"
    and n: "NewStream js TypeHTTPRequestStart sid (ss_TunnelID (as_tunnel s)) (PRequestStart req) = Inr start"
    by (auto simp: streamRoundTrip_def Let_def split: sum.splits)
  obtain r out0 where w: "sessionWrite js wr [] start = (r, out0)" by (cases "sessionWrite js wr [] start")
  show ?thesis
  proof (cases r)
    case (WErr c)
    then show ?thesis using assms a n w sentFirst_sessionWrite(2) [OF w] by (auto simp: streamRoundTrip_def Let_def)
  next
    case WOk
    have "WriteEnvelope js start \<noteq> Inl x" for x using w WOk by (auto simp: sessionWrite_def)
    then have f0: "sentFirst out0 start"
      using w sentFirst_sessionWrite(2) [OF w] by (auto simp: sessionWrite_def split: sum.splits)
    have "sentFirst out start"
      using assms(1) a n w WOk f0
      by (auto simp: streamRoundTrip_def Let_def split: sum.splits prod.splits wres.splits option.splits
          dest!: sentFirst_body [OF _ f0])
         (drule (1) sentFirst_write, (drule (1) sentFirst_read)?, simp)+
    with n show ?thesis by blast
  qed
qed

lemma sentFirst_notices [simp]:
  "sentFirst out env \<Longrightarrow> sentFirst (snd (SendClose js wr s st out code reason)) env"
  "sentFirst out env \<Longrightarrow> sentFirst (snd (SendCancel js wr s st out reason2)) env"
  "sentFirst out env \<Longrightarrow> sentFirst (snd (SendMessage wr s st out t d)) env"
  by (auto simp: SendClose_def SendCancel_def SendMessage_def writeBinaryBody_def sentFirst_sessionWrite(1) split: sum.splits)

lemma sentFirst_SendMessage: "SendMessage wr s st out t d = (r, out') \<Longrightarrow> sentFirst out env \<Longrightarrow> sentFirst out' env"
  using sentFirst_notices(3) [of out env wr s st t d] by simp

lemma sentFirst_pump:
  "sentFirst (ry_sent st) env \<Longrightarrow> sentFirst (ry_sent (pumpPublicToAgent js wr s w ev st)) env"
  by (auto simp: pumpPublicToAgent_def closeOrCancelForReadError_def Let_def
      split: relay_event.splits option.splits prod.splits wres.splits if_splits dest: sentFirst_SendMessage)

lemma sentFirst_relay:
  assumes "relayPublicWebSocket js wr s w out evs = Some (rb, pb, e, out', fs)" "sentFirst out env"
  shows "sentFirst out' env"
proof -
  have "sentFirst (ry_sent (relayRun js wr s w evs st)) env" if "sentFirst (ry_sent st) env" for st
    using that by (induction evs arbitrary: st) (auto simp: sentFirst_pump split: relay_event.splits)
  from this [of "initRelay out"] assms show ?thesis
    by (auto simp: relayPublicWebSocket_def initRelay_def Let_def split: pump.splits option.splits if_splits)
qed

lemma openWSStream_first:
  assumes "openWSStream js wr s ch sid opn ev = Some (r, out, s')" "out \<noteq> [] \<or> \<not> isl r"
  shows "\<exists>env. NewStream js TypeWSOpen sid (ss_TunnelID (as_tunnel s)) (PWSOpen opn) = Inr env \<and> sentFirst out env"
proof -
  from assms obtain s1 env where a: "acquireStream s = Inr s1"
    and n: "NewStream js TypeWSOpen sid (ss_TunnelID (as_tunnel s)) (PWSOpen opn) = Inr env"
    by (auto simp: openWSStream_def Let_def split: sum.splits)
  obtain x out0 where w: "sessionWrite js wr [] env = (x, out0)" by (cases "sessionWrite js wr [] env")
  have o: "out = out0" and x: "x = WOk \<or> isl r"
    using assms a n w
    by (auto simp: openWSStream_def Let_def split: sum.splits wres.splits option.splits event.splits if_splits)
  have "out0 \<noteq> []" if "x = WOk" using w that by (auto simp: sessionWrite_def split: sum.splits)
  with assms(2) o x have "out0 \<noteq> []" by auto
  with sentFirst_sessionWrite(2) [OF w] n o show ?thesis by blast
qed

lemma routeForHost_state:
  "routeForHost E now s h w = (res, s1, w1) \<Longrightarrow> s1 = s\<lparr>sv_metrics := sv_metrics s1, sv_domains := sv_domains s1\<rparr>"
  by (auto simp: routeForHost_def Let_def addOne_def split: option.splits if_splits sum.splits prod.splits)

lemma routeForHost_keeps:
  assumes "routeForHost E now s h w = (res, s1, w1)"
  shows "sv_cfg s1 = sv_cfg s" "sv_registry s1 = sv_registry s" "sv_access s1 = sv_access s" "sv_sessions s1 = sv_sessions s"
    "sv_clientIPs s1 = sv_clientIPs s" "sv_authAttempts s1 = sv_authAttempts s" "sv_requestLogs s1 = sv_requestLogs s"
    "sv_store s1 = sv_store s"
  by (subst routeForHost_state [OF assms], simp)+

lemma routeForHost_same:
  assumes "routeForHost E now s h w = (res, s1, w1)"
  shows "sessionBySubdomain s1 sd = sessionBySubdomain s sd" "clientIP s1 r = clientIP s r"
    "evaluatePublicAccess E s1 r sd w2 = evaluatePublicAccess E s r sd w2"
    "tunnelRequest s1 r a t = tunnelRequest s r a t"
  using routeForHost_keeps [OF assms]
  by (simp_all add: sessionBySubdomain_def clientIP_def evaluatePublicAccess_def tunnelRequest_def split: option.split)

lemma admitPublic_Inr:
  assumes "admitPublic E io s r rw w = (Inr (l, ses, a), s2, w2)"
  shows "\<exists>route s1 w1 ses0. routeForHost E (io_resolved io) s (r_Host r) w = (Inr (route, True), s1, w1) \<and>
    admitted E io s r w route ses0 a w2 \<and> s2 = putSession s1 ses \<and> ses = snd (allowRequest (ge_fl E) ses0 (io_limited io)) \<and>
    pr_Subdomain l = ro_Subdomain route \<and> pr_TunnelID l = ss_TunnelID (as_tunnel ses0) \<and> pr_Started l = io_started io"
proof -
  obtain res s1 w1 where ro: "routeForHost E (io_resolved io) s (r_Host r) w = (res, s1, w1)"
    by (cases "routeForHost E (io_resolved io) s (r_Host r) w") auto
  note same = routeForHost_keeps [OF ro] routeForHost_same [OF ro]
  from assms ro obtain route where route: "res = Inr (route, True)"
    by (auto simp: admitPublic_def Let_def split: sum.splits if_splits prod.splits)
  from assms ro route obtain ses0 l0 where s0: "sessionBySubdomain s (ro_Subdomain route) = Some ses0"
    and A: "admitSession E io s1 r rw l0 ses0 w1 = (Inr (l, ses, a), s2, w2)"
    and l0: "pr_Subdomain l0 = ro_Subdomain route" "pr_TunnelID l0 = ss_TunnelID (as_tunnel ses0)" "pr_Started l0 = io_started io"
    by (auto simp: admitPublic_def Let_def same split: option.splits)
  from A have "l = l0" "s2 = putSession s1 ses" "allowRequest (ge_fl E) ses0 (io_limited io) = (True, ses)"
    "\<not> blocked (ge_fl E) (Some (sv_authAttempts s)) (pr_Subdomain l0 @ ''|'' @ clientIP s r) (io_started io)"
    "evaluatePublicAccess E s r (pr_Subdomain l0) w1 = (Inr a, w2)" "pe_Allowed a"
    by (auto simp: admitSession_def Let_def same split: prod.splits if_splits sum.splits)
  with ro route s0 l0 show ?thesis by (auto simp: admitted_def)
qed

lemma sentFirst_filter:
  "sentFirst out env \<Longrightarrow> env_Type env \<noteq> TypeHTTPStreamCancel \<Longrightarrow> sentFirst (filter (\<lambda>m. \<not> isCancel m) out) env"
  by (auto simp: sentFirst_def isCancel_def)

lemma allowRequest_tunnel: "allowRequest f ses now = (ok, ses') \<Longrightarrow> as_tunnel ses' = as_tunnel ses"
  by (auto simp: allowRequest_def split: prod.splits)

lemma forwardRequest_first:
  assumes "forwardRequest E io s r rw ses a sid = Some y" "py_Sent y \<noteq> []"
  shows "\<exists>env. NewStream (ge_js E) TypeHTTPRequestStart sid (ss_TunnelID (as_tunnel ses))
      (PRequestStart (tunnelRequest s r a (ss_TunnelID (as_tunnel ses)))) = Inr env \<and> sentFirst (py_Sent y) env"
proof -
  from assms(1) obtain result err out ps ses' where
    rt: "streamRoundTrip (ge_js E) (io_agent io) (io_client io) ses (io_channel io) sid
      (tunnelRequest s r a (ss_TunnelID (as_tunnel ses))) (r_Body r) (cfg_MaxBodyBytes (sv_cfg s))
      (cfg_StreamChunkBytes (sv_cfg s)) (io_events io) = Some (result, err, out, ps, ses')"
    and y: "py_Sent y = out \<or> py_Sent y = filter (\<lambda>m. \<not> isCancel m) out"
    by (auto simp: forwardRequest_def split: option.splits prod.splits if_splits)
  from y assms(2) have "out \<noteq> []" by auto
  from streamRoundTrip_first [OF rt this] obtain env where
    env: "NewStream (ge_js E) TypeHTTPRequestStart sid (ss_TunnelID (as_tunnel ses))
      (PRequestStart (tunnelRequest s r a (ss_TunnelID (as_tunnel ses)))) = Inr env" "sentFirst out env" by blast
  have "sentFirst (filter (\<lambda>m. \<not> isCancel m) out) env"
    using env(2) NewStream_Inr_type [OF env(1)] by (simp add: sentFirst_filter)
  with env y show ?thesis by auto
qed

lemma handlePublicWebSocket_first:
  assumes "handlePublicWebSocket E io s r rw ses a sid = Some y" "py_Sent y \<noteq> []"
  shows "\<exists>env. NewStream (ge_js E) TypeWSOpen sid (ss_TunnelID (as_tunnel ses))
      (PWSOpen (buildWSOpen r (accessConsumesAuthorization a))) = Inr env \<and> sentFirst (py_Sent y) env"
proof -
  from assms obtain res out ses' where
    op: "openWSStream (ge_js E) (io_agent io) ses (io_channel io) sid (buildWSOpen r (accessConsumesAuthorization a)) (io_opened io) =
      Some (res, out, ses')"
    by (auto simp: handlePublicWebSocket_def Let_def split: if_splits option.splits)
  show ?thesis
  proof (cases res)
    case (Inl e)
    with assms op have "py_Sent y = out"
      by (auto simp: handlePublicWebSocket_def Let_def split: if_splits)
    with openWSStream_first [OF op] assms(2) show ?thesis by auto
  next
    case (Inr acc)
    with openWSStream_first [OF op] obtain env where
      env: "NewStream (ge_js E) TypeWSOpen sid (ss_TunnelID (as_tunnel ses))
        (PWSOpen (buildWSOpen r (accessConsumesAuthorization a))) = Inr env" "sentFirst out env" by auto
    have "sentFirst (py_Sent y) env"
      using assms op Inr env(2)
      by (auto simp: handlePublicWebSocket_def Let_def split: if_splits option.splits prod.splits bool.splits dest: sentFirst_relay)
    with env(1) show ?thesis by blast
  qed
qed

lemma finishPublic_simps [simp]:
  "sx_Sent (finishPublic E io r v) = sx_Sent v" "sx_Writer (finishPublic E io r v) = sx_Writer v"
  "sx_Frames (finishPublic E io r v) = sx_Frames v"
  by (simp_all add: finishPublic_def Let_def)


lemma requestProto_nonempty: "requestProto r \<noteq> []"
  by (simp add: requestProto_def Let_def)

lemma handshake_canonical:
  "CanonicalMIMEHeaderKey ` set webSocketHandshakeHeaders =
     {''Sec-Websocket-Key'', ''Sec-Websocket-Version'', ''Sec-Websocket-Extensions'', ''Sec-Websocket-Accept'',
      ''Sec-Websocket-Protocol''}"
proof -
  have "map CanonicalMIMEHeaderKey webSocketHandshakeHeaders =
    [''Sec-Websocket-Key'', ''Sec-Websocket-Version'', ''Sec-Websocket-Extensions'', ''Sec-Websocket-Accept'',
     ''Sec-Websocket-Protocol'']" by code_simp
  from arg_cong [OF this, of set] show ?thesis by (simp only: set_map list.set)
qed

lemma AddForwardedHeaders_unset:
  "AddForwardedHeaders h [] host p ip ''X-Porthook-Tunnel-Id'' = h ''X-Porthook-Tunnel-Id''"
  "AddForwardedHeaders h t host p [] ''X-Forwarded-For'' = h ''X-Forwarded-For''"
  "AddForwardedHeaders h t [] p ip ''X-Forwarded-Host'' = h ''X-Forwarded-Host''"
  by (simp_all add: AddForwardedHeaders_def hdrSet_def canonical_names Let_def)

lemma keepsTotals_updates:
  "keepsTotals None" "keepsTotals (Some gm_publicRequestRateLimitedTotal_update)"
  "keepsTotals (Some gm_publicRequestAuthAttemptsLimitedTotal_update)" "keepsTotals (Some gm_publicRequestTimeoutsTotal_update)"
  "keepsTotals (Some gm_publicRequestStreamIdleTimeoutsTotal_update)" "keepsTotals (Some gm_publicRequestStreamMaxLifetimeTotal_update)"
  "keepsTotals (Some gm_publicRequestBodyTooLargeTotal_update)" "keepsTotals (Some gm_publicRequestClientCanceledTotal_update)"
  "keepsTotals (Some gm_publicRequestNoActiveSessionTotal_update)" "keepsTotals (Some gm_publicRequestAccessDeniedTotal_update)"
  "keepsTotals (Some gm_publicRequestAccessPolicyErrorsTotal_update)"
  by (simp_all add: keepsTotals_def)

lemma outcomeCounter_frame: "keepsTotals (outcomeCounter oc)"
  unfolding outcomeCounter_def by (intro if_both [where P = keepsTotals] keepsTotals_updates)

lemma recordMetrics_frame:
  "sv_cfg (recordPublicRequestMetrics f st oc d s) = sv_cfg s" "sv_registry (recordPublicRequestMetrics f st oc d s) = sv_registry s"
  "sv_sessions (recordPublicRequestMetrics f st oc d s) = sv_sessions s" "sv_requestLogs (recordPublicRequestMetrics f st oc d s) = sv_requestLogs s"
  "sv_store (recordPublicRequestMetrics f st oc d s) = sv_store s"
  by (simp_all add: recordPublicRequestMetrics_def Let_def split: option.split)

lemma recordMetrics_counts:
  "gm_publicRequestsTotal (sv_metrics (recordPublicRequestMetrics f st oc d s)) = gm_publicRequestsTotal (sv_metrics s) + 1"
  "gm_publicRequestErrorsTotal (sv_metrics (recordPublicRequestMetrics f st oc d s)) =
     gm_publicRequestErrorsTotal (sv_metrics s) + (if st \<ge> 500 then 1 else 0)"
  "gm_publicRequestDuration (sv_metrics (recordPublicRequestMetrics f st oc d s)) =
     Observe f (gm_publicRequestDuration (sv_metrics s)) d"
  using outcomeCounter_frame [of oc, unfolded keepsTotals_def]
  by (simp_all add: recordPublicRequestMetrics_def Let_def addOne_def split: option.splits)

lemma quiet_refl [simp]: "quiet s s"
  by (simp add: quiet_def)

lemma quiet_addOne [simp]:
  "quiet s (addOne gm_customDomainLookupsTotal_update s1) = quiet s s1"
  "quiet s (addOne gm_customDomainLookupErrorsTotal_update s1) = quiet s s1"
  "quiet s (addOne gm_customDomainLookupMissesTotal_update s1) = quiet s s1"
  "quiet s (addOne gm_customDomainLookupHitsTotal_update s1) = quiet s s1"
  "quiet s (s1\<lparr>sv_domains := d\<rparr>) = quiet s s1"
  by (simp_all add: quiet_def addOne_def)

lemma quiet_route: "routeForHost E now s h w = (res, s1, w1) \<Longrightarrow> quiet s s1"
  by (auto simp: routeForHost_def Let_def split: option.splits if_splits sum.splits prod.splits)

lemma quiet_putSession [simp]: "quiet s (putSession s1 ses) = quiet s s1"
  by (simp add: quiet_def putSession_def)

lemma quiet_attempts [simp]: "quiet s (s1\<lparr>sv_authAttempts := t\<rparr>) = quiet s s1"
  by (simp add: quiet_def)

lemma quiet_admit:
  assumes "admitPublic E io s r rw w = (res, s2, w2)"
  shows "quiet s s2"
proof -
  obtain ro s1 w1 where ro: "routeForHost E (io_resolved io) s (r_Host r) w = (ro, s1, w1)"
    by (cases "routeForHost E (io_resolved io) s (r_Host r) w") auto
  have "quiet s s2" if "admitSession E io s1 r rw l ses w1 = (res, s2, w2)" for l ses
    using that quiet_route [OF ro] by (auto simp: admitSession_def Let_def split: prod.splits if_splits sum.splits)
  with assms ro quiet_route [OF ro] show ?thesis
    by (auto simp: admitPublic_def Let_def split: sum.splits prod.splits if_splits option.splits)
qed

lemma quiet_serve: "servePublic E io s r rw w = Some (v, w') \<Longrightarrow> quiet s (sx_Server v)"
  by (auto simp: servePublic_def split: sum.splits prod.splits option.splits if_splits dest!: quiet_admit)

lemma admit_started:
  assumes "admitPublic E io s r rw w = (res, s2, w2)"
  shows "case res of Inl (l, x) \<Rightarrow> pr_Started l = io_started io | Inr (l, x) \<Rightarrow> pr_Started l = io_started io"
proof -
  obtain ro s1 w1 where ro: "routeForHost E (io_resolved io) s (r_Host r) w = (ro, s1, w1)"
    by (cases "routeForHost E (io_resolved io) s (r_Host r) w") auto
  have "case res of Inl (l, x) \<Rightarrow> pr_Started l = io_started io | Inr (l, x) \<Rightarrow> pr_Started l = io_started io"
    if "admitSession E io s1 r rw l0 ses w1 = (res, s2, w2)" "pr_Started l0 = io_started io" for l0 ses
    using that by (auto simp: admitSession_def refuse_def Let_def split: prod.splits if_splits sum.splits)
  with assms ro show ?thesis
    by (auto simp: admitPublic_def refuse_def Let_def split: sum.splits prod.splits if_splits option.splits)
qed

lemma serve_started: "servePublic E io s r rw w = Some (v, w') \<Longrightarrow> pr_Started (sx_Log v) = io_started io"
  by (auto simp: servePublic_def refuse_def split: sum.splits prod.splits option.splits if_splits dest!: admit_started)

lemma finish_status: "pr_Status (sx_Log (finishPublic E io r v)) \<noteq> 0" "pr_Started (sx_Log (finishPublic E io r v)) = pr_Started (sx_Log v)"
  by (simp_all add: finishPublic_def Let_def)

lemma finish_server:
  "sx_Server (finishPublic E io r v) =
     (let l = sx_Log (finishPublic E io r v) in
      recordPublicRequestMetrics (ge_fl E) (pr_Status l) (pr_Outcome l) (io_observed io - pr_Started l)
        (recordRequestLog (io_stored io) (requestLogEntryFromPublicRequest io r l (clientIP (sx_Server v) r)) (sx_Server v)))"
  by (simp add: finishPublic_def Let_def)

lemma demo_route:
  "routeForHost demoEnv 0 demoGateway ''demo.localhost'' () =
     (Inr (\<lparr>ro_Subdomain = ''demo'', ro_CustomDomain = [], ro_MissReason = []\<rparr>, True), demoGateway, ())"
proof -
  have "subdomainFromHost id ''localhost'' ''demo.localhost'' = Some ''demo''" by code_simp
  then show ?thesis by (simp add: routeForHost_def demoGateway_def demoServer_root demoEnv_def Let_def)
qed

lemma demo_access: "evaluatePublicAccess demoEnv demoGateway r sd () =
    (Inr \<lparr>pe_Allowed = True, pe_Mode = ''public'', pe_Reason = ''no_control_plane''\<rparr>, ())"
  by (simp add: evaluatePublicAccess_def EvaluateAccessPolicy_def demoGateway_def demoServer_fields split: prod.splits)

lemma demo_admit:
  "\<exists>l. admitPublic demoEnv demoIO demoGateway demoRequest emptyWriter () =
     (Inr (l, demoAgent, \<lparr>pe_Allowed = True, pe_Mode = ''public'', pe_Reason = ''no_control_plane''\<rparr>), demoGateway, ())"
proof -
  have "th_entries (sv_authAttempts demoGateway) k = None" for k
    by (simp add: demoGateway_def demoServer_def newServerWithRequestLogWriter_def Let_def newAuthAttemptThrottle_def)
  moreover have "sessionBySubdomain demoGateway ''demo'' = Some demoAgent"
    by (simp add: demoGateway_def sessionBySubdomain_def LookupBySubdomain_def demoRegistry_def demoSession_def)
  moreover have "putSession demoGateway demoAgent = demoGateway"
    by (simp add: putSession_def demoGateway_def demoAgent_def demoSession_def)
  moreover have "allowRequest f demoAgent now = (True, demoAgent)" for f now
    by (simp add: allowRequest_def demoAgent_def allow_def)
  moreover have "r_Host demoRequest = ''demo.localhost''" "io_resolved demoIO = 0"
    by (simp_all add: demoRequest_def demoIO_def)
  ultimately show ?thesis
    by (simp add: admitPublic_def admitSession_def Let_def demo_route demo_access blocked_def)
qed

lemma demo_forward:
  "\<exists>v. handlePublicRequest demoEnv demoIO demoGateway demoRequest emptyWriter () = Some (v, ()) \<and> sx_Sent v \<noteq> []"
proof -
  obtain l where adm: "admitPublic demoEnv demoIO demoGateway demoRequest emptyWriter () =
     (Inr (l, demoAgent, \<lparr>pe_Allowed = True, pe_Mode = ''public'', pe_Reason = ''no_control_plane''\<rparr>), demoGateway, ())"
    using demo_admit by blast
  have ws: "\<not> isWebSocketUpgradeRequest ef demoRequest" for ef
    by (simp add: isWebSocketUpgradeRequest_def headerContainsToken_def demoRequest_def hdrGet_def hdrValues_def EqualFold_def
        TrimSpace_Nil isASCII_def)
  have sid: "newStreamID (io_draw demoIO) = Inr ''str_aaaaaaaaaaaaaaaaaaaa''"
    by (simp add: newStreamID_def demoIO_def demo_ID)
  have "\<exists>y. forwardRequest demoEnv demoIO demoGateway demoRequest emptyWriter demoAgent
      \<lparr>pe_Allowed = True, pe_Mode = ''public'', pe_Reason = ''no_control_plane''\<rparr> ''str_aaaaaaaaaaaaaaaaaaaa'' = Some y \<and> py_Sent y \<noteq> []"
    by (simp add: forwardRequest_def streamRoundTrip_def demoAgent_def demoEnv_def demoIO_def demoRequest_def demoJSON_def
        acquireStream_def NewStream_def marshalPayload_def sessionWrite_def WriteEnvelope_def writeRequestBody_def Let_def
        roundTripFailure_def isStreamContextDoneCause_def cancelStream_def split: prod.splits)
  with adm ws sid show ?thesis
    by (auto simp: handlePublicRequest_def servePublic_def)
qed
lemma admitted_first:
  assumes "handlePublicRequest E io s r rw w = Some (v, w')" "sx_Sent v \<noteq> []"
  shows "\<exists>route ses a sid env. admitted E io s r w route ses a w' \<and> sentFirst (sx_Sent v) env \<and>
    (NewStream (ge_js E) TypeHTTPRequestStart sid (ss_TunnelID (as_tunnel ses))
       (PRequestStart (tunnelRequest s r a (ss_TunnelID (as_tunnel ses)))) = Inr env \<or>
     NewStream (ge_js E) TypeWSOpen sid (ss_TunnelID (as_tunnel ses))
       (PWSOpen (buildWSOpen r (accessConsumesAuthorization a))) = Inr env)"
proof -
  from assms obtain v0 where v0: "servePublic E io s r rw w = Some (v0, w')" "sx_Sent v0 \<noteq> []" "sx_Sent v = sx_Sent v0"
    by (auto simp: handlePublicRequest_def split: option.splits)
  from v0(1, 2) obtain l ses a s2 sid y where
    adm: "admitPublic E io s r rw w = (Inr (l, ses, a), s2, w')" and
    y: "(if isWebSocketUpgradeRequest (ge_ef E) r then handlePublicWebSocket E io s2 r rw ses a sid
         else forwardRequest E io s2 r rw ses a sid) = Some y" "sx_Sent v0 = py_Sent y"
    by (auto simp: servePublic_def refuse_def split: sum.splits prod.splits option.splits)
  from admitPublic_Inr [OF adm] obtain route s1 w1 ses0 where
    ro: "routeForHost E (io_resolved io) s (r_Host r) w = (Inr (route, True), s1, w1)" "admitted E io s r w route ses0 a w'"
    "s2 = putSession s1 ses" "ses = snd (allowRequest (ge_fl E) ses0 (io_limited io))" by blast
  have t: "as_tunnel ses = as_tunnel ses0"
    using ro(4) allowRequest_tunnel [of "ge_fl E" ses0 "io_limited io"] by (metis prod.collapse)
  have "tunnelRequest s2 r a tid = tunnelRequest s r a tid" for tid
    using ro(3) routeForHost_same(4) [OF ro(1)] by (simp add: tunnelRequest_def putSession_def clientIP_def)
  then have "\<exists>env. sentFirst (sx_Sent v) env \<and>
    (NewStream (ge_js E) TypeHTTPRequestStart sid (ss_TunnelID (as_tunnel ses0))
       (PRequestStart (tunnelRequest s r a (ss_TunnelID (as_tunnel ses0)))) = Inr env \<or>
     NewStream (ge_js E) TypeWSOpen sid (ss_TunnelID (as_tunnel ses0))
       (PWSOpen (buildWSOpen r (accessConsumesAuthorization a))) = Inr env)"
    using y v0(2, 3) handlePublicWebSocket_first [of E io s2 r rw ses a sid y] forwardRequest_first [of E io s2 r rw ses a sid y] t
    by (auto split: if_splits)
  with ro(2) show ?thesis by blast
qed

lemma NewStream_Inr_ids: "NewStream js t sid tid p = Inr env \<Longrightarrow> env_StreamID env = sid \<and> env_TunnelID env = tid"
  by (auto simp: NewStream_def split: if_splits sum.splits)

lemma admitted_sent:
  assumes "handlePublicRequest E io s r rw w = Some (v, w')" "sx_Sent v \<noteq> []"
  shows "\<exists>route ses a env. admitted E io s r w route ses a w' \<and> sentFirst (sx_Sent v) env \<and>
    env_TunnelID env = ss_TunnelID (as_tunnel ses)"
  using admitted_first [OF assms] NewStream_Inr_ids by blast

section \<open>Properties\<close>

text \<open>
  C9: only admitted requests reach an agent.  Whenever the gateway sends anything to an agent for a
  public request, the host was routed to a subdomain, the agent is the one connected for it, the
  tunnel was within its rate limit, the client was not blocked for failed attempts, and the access
  policy was evaluated for this client and this subdomain and allowed the request.  The first
  message carries the id of that tunnel and the rewritten request.
\<close>

theorem only_admitted_requests_reach_agents:
  assumes "handlePublicRequest E io s r rw w = Some (v, w')" "sx_Sent v \<noteq> []"
  shows "\<exists>route ses a sid env. admitted E io s r w route ses a w' \<and> sentFirst (sx_Sent v) env \<and>
    (NewStream (ge_js E) TypeHTTPRequestStart sid (ss_TunnelID (as_tunnel ses))
       (PRequestStart (tunnelRequest s r a (ss_TunnelID (as_tunnel ses)))) = Inr env \<or>
     NewStream (ge_js E) TypeWSOpen sid (ss_TunnelID (as_tunnel ses))
       (PWSOpen (buildWSOpen r (accessConsumesAuthorization a))) = Inr env)"
  by (rule admitted_first [OF assms])

theorem only_admitted_requests_reach_agents_witness:
  "\<exists>v route ses a. handlePublicRequest demoEnv demoIO demoGateway demoRequest emptyWriter () = Some (v, ()) \<and> sx_Sent v \<noteq> [] \<and>
     admitted demoEnv demoIO demoGateway demoRequest () route ses a ()"
proof -
  from demo_forward obtain v where
    v: "handlePublicRequest demoEnv demoIO demoGateway demoRequest emptyWriter () = Some (v, ())" "sx_Sent v \<noteq> []" by blast
  with only_admitted_requests_reach_agents [OF v] show ?thesis by blast
qed

text \<open>
  C31: what the agent gets of the header of a public request.  The hop-by-hop fields and those named by
  \<open>Connection\<close> are gone, the \<open>Authorization\<close> field is gone if the access policy used it, the
  forwarding fields hold the values of the gateway whatever the client sent, and every other
  field arrives as it was sent.
\<close>

theorem forwarded_header_is_exact:
  "rs_Header (tunnelRequest s r a t) n =
     (if n = ''X-Forwarded-Proto'' then Some [requestProto r]
      else if n = ''X-Forwarded-For'' \<and> clientIP s r \<noteq> [] then Some [clientIP s r]
      else if n = ''X-Forwarded-Host'' \<and> r_Host r \<noteq> [] then Some [r_Host r]
      else if n = ''X-Porthook-Tunnel-Id'' \<and> t \<noteq> [] then Some [t]
      else if n \<in> {''Connection'', ''Keep-Alive'', ''Proxy-Authenticate'', ''Proxy-Authorization'', ''Te'', ''Trailer'',
                   ''Transfer-Encoding'', ''Upgrade''} \<union> CanonicalMIMEHeaderKey ` set (connectionTokens (r_Header r)) \<union>
                  (if accessConsumesAuthorization a then {''Authorization''} else {}) then None
      else r_Header r n)"
proof -
  let ?h = "if accessConsumesAuthorization a then hdrDel ''Authorization'' (StripHopByHopHeaders (r_Header r))
    else StripHopByHopHeaders (r_Header r)"
  have h: "?h n = (if n \<in> {''Connection'', ''Keep-Alive'', ''Proxy-Authenticate'', ''Proxy-Authorization'', ''Te'', ''Trailer'',
                   ''Transfer-Encoding'', ''Upgrade''} \<union> CanonicalMIMEHeaderKey ` set (connectionTokens (r_Header r)) \<union>
                  (if accessConsumesAuthorization a then {''Authorization''} else {}) then None
      else r_Header r n)" for n
    by (auto simp: StripHopByHopHeaders_apply image_Un hop_canonical hdrDel_def canonical_names)
  have q: "rs_Header (tunnelRequest s r a t) = AddForwardedHeaders ?h t (r_Host r) (requestProto r) (clientIP s r)"
    by (simp add: tunnelRequest_def Let_def)
  consider "n = ''X-Forwarded-Proto''" | "n = ''X-Forwarded-For''" | "n = ''X-Forwarded-Host''" | "n = ''X-Porthook-Tunnel-Id''"
    | "n \<notin> {''X-Forwarded-For'', ''X-Forwarded-Host'', ''X-Forwarded-Proto'', ''X-Porthook-Tunnel-Id''}" by blast
  then show ?thesis
  proof cases
    case 1
    then show ?thesis unfolding q by (simp add: AddForwardedHeaders_set requestProto_nonempty)
  next
    case 2
    then show ?thesis unfolding q using h [of n] by (cases "clientIP s r = []") (simp_all add: AddForwardedHeaders_set AddForwardedHeaders_unset)
  next
    case 3
    then show ?thesis unfolding q using h [of n] by (cases "r_Host r = []") (simp_all add: AddForwardedHeaders_set AddForwardedHeaders_unset)
  next
    case 4
    then show ?thesis unfolding q using h [of n] by (cases "t = []") (simp_all add: AddForwardedHeaders_set AddForwardedHeaders_unset)
  next
    case 5
    then show ?thesis unfolding q using h [of n] by (simp add: AddForwardedHeaders_other)
  qed
qed

text \<open>
  C32: a WebSocket upgrade is forwarded without the forwarding fields of the gateway.  Only the
  hop-by-hop fields, those named by \<open>Connection\<close>, the fields of the handshake and a used
  \<open>Authorization\<close> field are removed; \<open>X-Forwarded-For\<close> and its relatives arrive as the client
  wrote them.
\<close>

theorem websocket_header_is_exact:
  "wo_Header (buildWSOpen r strip) n =
     (if n \<in> {''Connection'', ''Keep-Alive'', ''Proxy-Authenticate'', ''Proxy-Authorization'', ''Te'', ''Trailer'',
              ''Transfer-Encoding'', ''Upgrade''} \<union> CanonicalMIMEHeaderKey ` set (connectionTokens (r_Header r)) \<union>
             {''Sec-Websocket-Key'', ''Sec-Websocket-Version'', ''Sec-Websocket-Extensions'', ''Sec-Websocket-Accept'',
              ''Sec-Websocket-Protocol''} \<union> (if strip then {''Authorization''} else {}) then None
      else r_Header r n)"
  by (simp add: buildWSOpen_def Let_def hdrDel_def fold_hdrDel canonical_names handshake_canonical StripHopByHopHeaders_apply
      image_Un hop_canonical)

text \<open>
  C33: every public request is accounted for exactly once.  Whatever happened to it, one entry with
  the attributed address, the request id, a status and the outcome is added to the log and handed to
  the database, the total is raised by one, the errors by one for a status of 500 and above, and its
  duration is observed; the configuration and the registry are as before.
\<close>

theorem requests_are_accounted:
  assumes "handlePublicRequest E io s r rw w = Some (v, w')" "sx_Server v = s'" "sx_Log v = l"
  shows "\<exists>entry. le_RemoteIP entry = clientIP s r \<and> le_RequestID entry = requestID r \<and> le_Status entry = pr_Status l \<and>
      le_Outcome entry = pr_Outcome l \<and> pr_Status l \<noteq> 0 \<and>
      sv_requestLogs s' = addLogEntry (sv_requestLogs s) entry \<and>
      sv_store s' = (case sv_store s of None \<Rightarrow> None | Some es \<Rightarrow> Some (if io_stored io then es @ [entry] else es)) \<and>
      gm_publicRequestsTotal (sv_metrics s') = gm_publicRequestsTotal (sv_metrics s) + 1 \<and>
      gm_publicRequestErrorsTotal (sv_metrics s') = gm_publicRequestErrorsTotal (sv_metrics s) + (if pr_Status l \<ge> 500 then 1 else 0) \<and>
      gm_publicRequestDuration (sv_metrics s') = Observe (ge_fl E) (gm_publicRequestDuration (sv_metrics s)) (io_observed io - io_started io) \<and>
      sv_cfg s' = sv_cfg s \<and> sv_registry s' = sv_registry s"
proof -
  from assms(1) obtain v0 where v0: "servePublic E io s r rw w = Some (v0, w')" "v = finishPublic E io r v0"
    by (auto simp: handlePublicRequest_def split: option.splits)
  let ?e = "requestLogEntryFromPublicRequest io r l (clientIP s r)"
  have ip: "clientIP (sx_Server v0) r = clientIP s r"
    using quiet_serve [OF v0(1)] by (simp add: quiet_def clientIP_def)
  have st: "pr_Started l = io_started io" "pr_Status l \<noteq> 0"
    using serve_started [OF v0(1)] assms(3) v0(2) by (auto simp: finish_status)
  have s': "s' = recordPublicRequestMetrics (ge_fl E) (pr_Status l) (pr_Outcome l) (io_observed io - io_started io)
      (recordRequestLog (io_stored io) ?e (sx_Server v0))"
    using assms(2, 3) v0(2) st(1) ip by (simp add: finish_server Let_def)
  show ?thesis
    using quiet_serve [OF v0(1)] st(2) unfolding s'
    by (intro exI [of _ ?e])
       (simp add: quiet_def recordMetrics_frame recordMetrics_counts recordRequestLog_def requestLogEntryFromPublicRequest_def
          split: option.split)
qed

theorem requests_are_accounted_witness:
  "\<exists>v. handlePublicRequest demoEnv demoIO demoGateway demoRequest emptyWriter () = Some (v, ()) \<and>
     gm_publicRequestsTotal (sv_metrics (sx_Server v)) = gm_publicRequestsTotal (sv_metrics demoGateway) + 1"
proof -
  from demo_forward obtain v where
    v: "handlePublicRequest demoEnv demoIO demoGateway demoRequest emptyWriter () = Some (v, ())" by blast
  from requests_are_accounted [OF v refl refl] v show ?thesis by auto
qed

end
