(* ===== verification/Management.thy ===== *)
theory Management
  imports PublicRequest "HOL-Library.List_Lexorder" "HOL-Library.Char_ord"
begin

text \<open>
  The management API of the gateway (\<open>ManagementHandler\<close> and its handlers in \<open>server.go\<close>,
  \<open>handleMetrics\<close> in \<open>metrics.go\<close>) and the pruning of the request log.

  The record \<open>mgmt\<close> is what a request sees of its surroundings: the clock, the query parameters, the
  formats of times and cursors, the JSON encoder, the iteration orders over maps and the answers of
  the database, which stands behind a \<open>requestLogStore\<close> that is not nil.
\<close>

section \<open>Summaries\<close>

record tunnelRequestSummary =
  qs_Count :: nat
  qs_LastRequestAt :: "gotime option"
  qs_LastStatus :: int
  qs_LastOutcome :: string
  qs_LastRequestID :: string
  qs_ErrorCount :: nat
  qs_CustomDomains :: "string list"

record tunnelSummary =
  ts_TunnelID :: string
  ts_Subdomain :: string
  ts_PublicURL :: string
  ts_Protocol :: string
  ts_ConnectedAt :: gotime

record tunnelDetail = tunnelSummary +
  ts_AgentVersion :: string
  ts_ProtocolVersion :: string
  ts_ConnectedSeconds :: int
  ts_ActiveStreams :: nat
  ts_StreamCapacity :: nat
  ts_RecentRequests :: tunnelRequestSummary

record runtimeLimits =
  li_MaxBodyBytes :: int
  li_MaxConcurrentStreams :: int
  li_RateLimitRequestsPerSecond :: int
  li_RateLimitBurst :: int
  li_AuthAttemptLimit :: int
  li_AuthAttemptWindowSeconds :: int
  li_StreamChunkBytes :: int

record runtimeTimeouts =
  to_ControlPlaneTimeoutSeconds :: int
  to_ReadHeaderTimeoutSeconds :: int
  to_ReadTimeoutSeconds :: int
  to_WriteTimeoutSeconds :: int
  to_IdleTimeoutSeconds :: int
  to_HandshakeTimeoutSeconds :: int
  to_StreamRequestTimeoutSeconds :: int
  to_StreamIdleTimeoutSeconds :: int
  to_StreamMaxLifetimeSeconds :: int
  to_WebSocketWriteTimeoutSeconds :: int
  to_WebSocketPingIntervalSeconds :: int
  to_WebSocketPongTimeoutSeconds :: int
  to_ShutdownTimeoutSeconds :: int

text \<open>The counters are those of \<open>gatewayMetrics\<close>, in the same order and without the histogram.\<close>

record runtimeSummary =
  ru_StartedAt :: gotime
  ru_UptimeSeconds :: int
  ru_RootDomain :: string
  ru_PublicURL :: string
  ru_ControlPlaneConfigured :: bool
  ru_ActiveTunnels :: nat
  ru_ActiveStreams :: nat
  ru_StreamCapacity :: nat
  ru_RequestLogEntries :: nat
  ru_RequestLogCapacity :: nat
  ru_Limits :: runtimeLimits
  ru_Timeouts :: runtimeTimeouts
  ru_Counters :: "(string \<times> uint64) list"

record requestLogsResponse =
  gr_RequestLogs :: "requestLogEntry list"
  gr_NextCursor :: string
  gr_Filters :: requestLogFiltersResponse

datatype management_payload =
    TunnelList "tunnelSummary list"
  | TunnelDetail tunnelDetail
  | RuntimeSummary runtimeSummary
  | RequestLogs requestLogsResponse

record mgmt =
  mg_now :: gotime
  mg_query :: "string \<Rightarrow> string"
  mg_parseTime :: "string \<Rightarrow> gotime option"
  mg_formatTime :: "gotime \<Rightarrow> string"
  mg_mar :: "requestLogCursor \<Rightarrow> bytes option"
  mg_unm :: "bytes \<Rightarrow> requestLogCursor option"
  mg_logText :: "log_error \<Rightarrow> string"
  mg_json :: "management_payload \<Rightarrow> bytes"
  mg_tunnels :: "string list"
  mg_sessions :: "string list"
  mg_ping :: "string option"
  mg_list :: "requestLogListOptions \<Rightarrow> string + requestLogListPage"
  mg_process :: processStats
  mg_dbStats :: DBStats
  mg_float :: "rat \<Rightarrow> string"

text \<open>\<open>int64(d.Seconds())\<close>\<close>

definition wholeSeconds :: "(rat \<Rightarrow> rat) \<Rightarrow> duration \<Rightarrow> int" where
  "wholeSeconds rnd d = (let s = Seconds rnd d in if s \<ge> 0 then \<lfloor>s\<rfloor> else - \<lfloor>- s\<rfloor>)"

text \<open>The loop of \<open>tunnelRequestSummary\<close>; the host names are kept as a list.\<close>

primrec summarizeLogs :: "string \<Rightarrow> requestLogEntry list \<Rightarrow> tunnelRequestSummary \<Rightarrow> tunnelRequestSummary" where
  "summarizeLogs tunnelID [] summary = summary"
| "summarizeLogs tunnelID (entry # es) summary =
     (if le_TunnelID entry \<noteq> tunnelID then summarizeLogs tunnelID es summary
      else let s1 = summary\<lparr>qs_Count := Suc (qs_Count summary)\<rparr>;
               s2 = (if qs_LastRequestAt s1 = None
                     then s1\<lparr>qs_LastRequestAt := Some (le_Time entry), qs_LastStatus := le_Status entry,
                             qs_LastOutcome := le_Outcome entry, qs_LastRequestID := le_RequestID entry\<rparr>
                     else s1);
               s3 = (if le_Status entry \<ge> 500 then s2\<lparr>qs_ErrorCount := Suc (qs_ErrorCount s2)\<rparr> else s2);
               s4 = (if le_CustomDomain entry \<noteq> [] then s3\<lparr>qs_CustomDomains := le_CustomDomain entry # qs_CustomDomains s3\<rparr> else s3)
           in summarizeLogs tunnelID es s4)"

definition tunnelRequestSummaryOf :: "'w genv \<Rightarrow> mgmt \<Rightarrow> Server \<Rightarrow> string \<Rightarrow> tunnelRequestSummary" where
  "tunnelRequestSummaryOf E m s tunnelID =
     (let logs = logList (ge_uc E) (mg_mar m) (sv_requestLogs s) (cfg_RequestLogLimit (sv_cfg s));
          summary = summarizeLogs tunnelID logs
            \<lparr>qs_Count = 0, qs_LastRequestAt = None, qs_LastStatus = 0, qs_LastOutcome = [], qs_LastRequestID = [],
             qs_ErrorCount = 0, qs_CustomDomains = []\<rparr>
      in summary\<lparr>qs_CustomDomains := sort (remdups (qs_CustomDomains summary))\<rparr>)"

definition tunnelDetailOf :: "'w genv \<Rightarrow> mgmt \<Rightarrow> Server \<Rightarrow> agentSession \<Rightarrow> tunnelDetail" where
  "tunnelDetailOf E m s session =
     (let t = as_tunnel session in
      \<lparr>ts_TunnelID = ss_TunnelID t, ts_Subdomain = ss_Subdomain t, ts_PublicURL = ss_PublicURL t, ts_Protocol = ss_Protocol t,
       ts_ConnectedAt = ss_CreatedAt t, ts_AgentVersion = ss_AgentVersion t, ts_ProtocolVersion = ss_ProtocolVersion t,
       ts_ConnectedSeconds = wholeSeconds (ge_fl E) (mg_now m - ss_CreatedAt t),
       ts_ActiveStreams = activeStreams session, ts_StreamCapacity = streamCapacity session,
       ts_RecentRequests = tunnelRequestSummaryOf E m s (ss_TunnelID t)\<rparr>)"

definition runtimeCounters :: "gatewayMetrics \<Rightarrow> (string \<times> uint64) list" where
  "runtimeCounters g =
     [(''public_requests_total'', gm_publicRequestsTotal g),
      (''public_request_errors_total'', gm_publicRequestErrorsTotal g),
      (''public_request_rate_limited_total'', gm_publicRequestRateLimitedTotal g),
      (''public_request_auth_attempts_limited_total'', gm_publicRequestAuthAttemptsLimitedTotal g),
      (''public_request_timeouts_total'', gm_publicRequestTimeoutsTotal g),
      (''public_request_stream_idle_timeouts_total'', gm_publicRequestStreamIdleTimeoutsTotal g),
      (''public_request_stream_max_lifetime_total'', gm_publicRequestStreamMaxLifetimeTotal g),
      (''public_request_body_too_large_total'', gm_publicRequestBodyTooLargeTotal g),
      (''public_request_client_canceled_total'', gm_publicRequestClientCanceledTotal g),
      (''public_request_no_active_session_total'', gm_publicRequestNoActiveSessionTotal g),
      (''public_request_access_denied_total'', gm_publicRequestAccessDeniedTotal g),
      (''public_request_access_policy_errors_total'', gm_publicRequestAccessPolicyErrorsTotal g),
      (''custom_domain_lookups_total'', gm_customDomainLookupsTotal g),
      (''custom_domain_lookup_hits_total'', gm_customDomainLookupHitsTotal g),
      (''custom_domain_lookup_misses_total'', gm_customDomainLookupMissesTotal g),
      (''custom_domain_lookup_errors_total'', gm_customDomainLookupErrorsTotal g),
      (''token_validations_total'', gm_tokenValidationsTotal g),
      (''token_validation_errors_total'', gm_tokenValidationErrorsTotal g),
      (''auth_failures_total'', gm_authFailuresTotal g),
      (''tunnel_registrations_total'', gm_tunnelRegistrationsTotal g),
      (''tunnel_registration_failures_total'', gm_tunnelRegistrationFailuresTotal g)]"

definition runtimeSummaryOf :: "'w genv \<Rightarrow> mgmt \<Rightarrow> Server \<Rightarrow> runtimeSummary" where
  "runtimeSummaryOf E m s =
     (let cfg = sv_cfg s; secs = wholeSeconds (ge_fl E) in
      case streamStats s (mg_sessions m) of
        (active, capacity) \<Rightarrow>
          \<lparr>ru_StartedAt = sv_startedAt s, ru_UptimeSeconds = secs (mg_now m - sv_startedAt s),
           ru_RootDomain = cfg_RootDomain cfg, ru_PublicURL = cfg_PublicURL cfg,
           ru_ControlPlaneConfigured = (cfg_ControlPlaneURL cfg \<noteq> []), ru_ActiveTunnels = RegistryCount (sv_registry s),
           ru_ActiveStreams = active, ru_StreamCapacity = capacity, ru_RequestLogEntries = logCount (sv_requestLogs s),
           ru_RequestLogCapacity = logCapacity (sv_requestLogs s),
           ru_Limits = \<lparr>li_MaxBodyBytes = cfg_MaxBodyBytes cfg, li_MaxConcurrentStreams = cfg_MaxConcurrentStreams cfg,
             li_RateLimitRequestsPerSecond = cfg_RateLimitRequestsPerSecond cfg, li_RateLimitBurst = cfg_RateLimitBurst cfg,
             li_AuthAttemptLimit = cfg_AuthAttemptLimit cfg, li_AuthAttemptWindowSeconds = secs (cfg_AuthAttemptWindow cfg),
             li_StreamChunkBytes = cfg_StreamChunkBytes cfg\<rparr>,
           ru_Timeouts = \<lparr>to_ControlPlaneTimeoutSeconds = secs (cfg_ControlPlaneTimeout cfg),
             to_ReadHeaderTimeoutSeconds = secs (cfg_ReadHeaderTimeout cfg), to_ReadTimeoutSeconds = secs (cfg_ReadTimeout cfg),
             to_WriteTimeoutSeconds = secs (cfg_WriteTimeout cfg), to_IdleTimeoutSeconds = secs (cfg_IdleTimeout cfg),
             to_HandshakeTimeoutSeconds = secs (cfg_HandshakeTimeout cfg),
             to_StreamRequestTimeoutSeconds = secs (cfg_StreamRequestTimeout cfg),
             to_StreamIdleTimeoutSeconds = secs (cfg_StreamIdleTimeout cfg),
             to_StreamMaxLifetimeSeconds = secs (cfg_StreamMaxLifetime cfg),
             to_WebSocketWriteTimeoutSeconds = secs (cfg_WebSocketWriteTimeout cfg),
             to_WebSocketPingIntervalSeconds = secs (cfg_WebSocketPingInterval cfg),
             to_WebSocketPongTimeoutSeconds = secs (cfg_WebSocketPongTimeout cfg),
             to_ShutdownTimeoutSeconds = secs (cfg_ShutdownTimeout cfg)\<rparr>,
           ru_Counters = runtimeCounters (sv_metrics s)\<rparr>)"

section \<open>Handlers\<close>

definition writeJSON :: "mgmt \<Rightarrow> int \<Rightarrow> management_payload \<Rightarrow> responseWriter \<Rightarrow> responseWriter" where
  "writeJSON m st payload w =
     writeBytes (mg_json m payload) (WriteHeader st (setHeader ''Content-Type'' ''application/json'' w))"

definition methodNotAllowed :: "string \<Rightarrow> responseWriter \<Rightarrow> responseWriter" where
  "methodNotAllowed allowed w = WriteHeader 405 (setHeader ''Allow'' allowed w)"

definition handleTunnelList :: "mgmt \<Rightarrow> Server \<Rightarrow> httpRequest \<Rightarrow> responseWriter \<Rightarrow> responseWriter" where
  "handleTunnelList m s r w =
     (if r_Method r \<noteq> ''GET'' then methodNotAllowed ''GET'' w
      else writeJSON m 200 (TunnelList (map (\<lambda>t. \<lparr>ts_TunnelID = ss_TunnelID t, ts_Subdomain = ss_Subdomain t,
             ts_PublicURL = ss_PublicURL t, ts_Protocol = ss_Protocol t, ts_ConnectedAt = ss_CreatedAt t\<rparr>)
             (RegistryList (sv_registry s) (mg_tunnels m)))) w)"

definition handleTunnelDetail :: "'w genv \<Rightarrow> mgmt \<Rightarrow> Server \<Rightarrow> httpRequest \<Rightarrow> responseWriter \<Rightarrow> responseWriter" where
  "handleTunnelDetail E m s r w =
     (if r_Method r \<noteq> ''GET'' then methodNotAllowed ''GET'' w
      else case PathUnescape (ge_url E) (TrimPrefix (r_Path r) ''/api/v1/tunnels/'') of
             None \<Rightarrow> httpError ''tunnel id is required'' 400 w
           | Some tunnelID \<Rightarrow>
               if tunnelID = [] \<or> Contains tunnelID ''/'' then httpError ''tunnel id is required'' 400 w
               else case sessionByTunnelID s tunnelID of
                      None \<Rightarrow> httpError ''tunnel not found'' 404 w
                    | Some session \<Rightarrow> writeJSON m 200 (TunnelDetail (tunnelDetailOf E m s session)) w)"

definition handleRuntimeSummary :: "'w genv \<Rightarrow> mgmt \<Rightarrow> Server \<Rightarrow> httpRequest \<Rightarrow> responseWriter \<Rightarrow> responseWriter" where
  "handleRuntimeSummary E m s r w =
     (if r_Method r \<noteq> ''GET'' then methodNotAllowed ''GET'' w
      else writeJSON m 200 (RuntimeSummary (runtimeSummaryOf E m s)) w)"

definition listRequestLogs :: "'w genv \<Rightarrow> mgmt \<Rightarrow> Server \<Rightarrow> requestLogListOptions \<Rightarrow> string + requestLogListPage" where
  "listRequestLogs E m s opts =
     (if sv_store s \<noteq> None then mg_list m opts else Inr (listPage (ge_uc E) (mg_mar m) (sv_requestLogs s) opts))"

definition handleRequestLogs :: "'w genv \<Rightarrow> mgmt \<Rightarrow> Server \<Rightarrow> httpRequest \<Rightarrow> responseWriter \<Rightarrow> responseWriter" where
  "handleRequestLogs E m s r w =
     (if r_Method r \<noteq> ''GET'' then methodNotAllowed ''GET'' w
      else case requestLogListOptionsFromRequest (ge_uc E) (mg_parseTime m) (mg_unm m) (mg_query m) (cfg_RequestLogLimit (sv_cfg s)) of
             Inl e \<Rightarrow> httpError (mg_logText m e) 400 w
           | Inr opts \<Rightarrow>
               (case listRequestLogs E m s opts of
                  Inl e \<Rightarrow> httpError (''list request logs: '' @ e) 500 w
                | Inr page \<Rightarrow>
                    writeJSON m 200 (RequestLogs \<lparr>gr_RequestLogs = lp_RequestLogs page, gr_NextCursor = lp_NextCursor page,
                      gr_Filters = requestLogFiltersForResponse (mg_formatTime m) opts (TrimSpace (mg_query m ''cursor''))\<rparr>) w))"

definition metricsText :: "'w genv \<Rightarrow> mgmt \<Rightarrow> Server \<Rightarrow> string" where
  "metricsText E m s =
     (let g = sv_metrics s; c = (\<lambda>name help v. writeSample (''porthook_gateway_'' @ name) help ''counter'' v) in
      writeSample ''porthook_gateway_active_tunnels'' ''Current active tunnel sessions.'' ''gauge'' (word_of_nat (RegistryCount (sv_registry s))) @
      writeSample ''porthook_gateway_uptime_seconds'' ''Gateway process uptime in seconds.'' ''gauge''
        (word_of_int (wholeSeconds (ge_fl E) (mg_now m - sv_startedAt s))) @
      c ''public_requests_total'' ''Public HTTP requests handled by the gateway.'' (gm_publicRequestsTotal g) @
      c ''public_request_errors_total'' ''Public HTTP requests that returned status >= 500.'' (gm_publicRequestErrorsTotal g) @
      c ''public_request_rate_limited_total'' ''Public HTTP requests rejected by per-tunnel rate limits.'' (gm_publicRequestRateLimitedTotal g) @
      c ''public_request_auth_attempts_limited_total'' ''Public HTTP requests rejected by bounded authentication-attempt protection.''
        (gm_publicRequestAuthAttemptsLimitedTotal g) @
      c ''public_request_timeouts_total'' ''Public HTTP requests that timed out waiting for the tunnel.'' (gm_publicRequestTimeoutsTotal g) @
      c ''public_request_stream_idle_timeouts_total'' ''Public HTTP streams closed for exceeding the idle timeout.''
        (gm_publicRequestStreamIdleTimeoutsTotal g) @
      c ''public_request_stream_max_lifetime_total'' ''Public HTTP streams closed for exceeding their maximum lifetime.''
        (gm_publicRequestStreamMaxLifetimeTotal g) @
      c ''public_request_body_too_large_total'' ''Public HTTP requests rejected because the request body was too large.''
        (gm_publicRequestBodyTooLargeTotal g) @
      c ''public_request_client_canceled_total'' ''Public HTTP requests canceled by the client before completion.''
        (gm_publicRequestClientCanceledTotal g) @
      c ''public_request_no_active_session_total'' ''Public HTTP requests for hosts without an active tunnel session.''
        (gm_publicRequestNoActiveSessionTotal g) @
      c ''public_request_access_denied_total'' ''Public HTTP requests rejected by tunnel access policy.'' (gm_publicRequestAccessDeniedTotal g) @
      c ''public_request_access_policy_errors_total'' ''Public HTTP requests that could not evaluate tunnel access policy.''
        (gm_publicRequestAccessPolicyErrorsTotal g) @
      c ''custom_domain_lookups_total'' ''Custom domain lookups attempted by the gateway.'' (gm_customDomainLookupsTotal g) @
      c ''custom_domain_lookup_hits_total'' ''Custom domain lookups that found a tunnel route.'' (gm_customDomainLookupHitsTotal g) @
      c ''custom_domain_lookup_misses_total'' ''Custom domain lookups that did not find a tunnel route.'' (gm_customDomainLookupMissesTotal g) @
      c ''custom_domain_lookup_errors_total'' ''Custom domain lookups that failed before producing a route.'' (gm_customDomainLookupErrorsTotal g) @
      c ''token_validations_total'' ''Agent token validation attempts.'' (gm_tokenValidationsTotal g) @
      c ''token_validation_errors_total'' ''Agent token validation attempts that failed before a valid/invalid result.''
        (gm_tokenValidationErrorsTotal g) @
      c ''auth_failures_total'' ''Agent authentication failures.'' (gm_authFailuresTotal g) @
      c ''tunnel_registrations_total'' ''Successful tunnel registrations.'' (gm_tunnelRegistrationsTotal g) @
      c ''tunnel_registration_failures_total'' ''Tunnel registration attempts that failed after agent authentication.''
        (gm_tunnelRegistrationFailuresTotal g) @
      HistogramWriteTo (ge_fl E) (mg_float m) (gm_publicRequestDuration g) ''porthook_gateway_public_request_duration_seconds''
        ''Public HTTP request duration in seconds.'' @
      WriteRuntimeStats ''porthook_gateway'' (mg_process m) @
      (if sv_store s \<noteq> None then WriteDBPoolStats ''porthook_gateway'' (mg_dbStats m) else []))"

definition handleMetrics :: "'w genv \<Rightarrow> mgmt \<Rightarrow> Server \<Rightarrow> httpRequest \<Rightarrow> responseWriter \<Rightarrow> responseWriter" where
  "handleMetrics E m s r w =
     (if r_Method r \<noteq> ''GET'' then methodNotAllowed ''GET'' w
      else writeBytes (metricsText E m s) (setHeader ''Content-Type'' ''text/plain; version=0.0.4; charset=utf-8'' w))"

definition gatewayReady :: "mgmt \<Rightarrow> Server \<Rightarrow> string option" where
  "gatewayReady m s =
     (case sv_store s of
        None \<Rightarrow> None
      | Some es \<Rightarrow> (case mg_ping m of None \<Rightarrow> None | Some e \<Rightarrow> Some (''request log store: '' @ e)))"

definition requireManagementAuth ::
  "'w genv \<Rightarrow> Server \<Rightarrow> httpRequest \<Rightarrow> (responseWriter \<Rightarrow> responseWriter) \<Rightarrow> responseWriter \<Rightarrow> responseWriter" where
  "requireManagementAuth E s r handler w =
     (if cfg_ManagementToken (sv_cfg s) = [] then handler w
      else if \<not> gatewaySecretEqual (ge_sha E) (bearerToken r) (cfg_ManagementToken (sv_cfg s)) then
        httpError ''unauthorized'' 401
          (setHeader ''WWW-Authenticate'' (''Bearer realm='' @ [CHR 0x22] @ ''Porthook gateway management'' @ [CHR 0x22]) w)
      else handler w)"

text \<open>
  \<open>http.ServeMux\<close> for a clean path: a pattern that ends in a slash matches the paths below it, every
  other pattern itself.
\<close>

definition ManagementHandler :: "'w genv \<Rightarrow> mgmt \<Rightarrow> Server \<Rightarrow> httpRequest \<Rightarrow> responseWriter \<Rightarrow> responseWriter" where
  "ManagementHandler E m s r w =
     (let auth = (\<lambda>h. requireManagementAuth E s r h w) in
      if r_Path r = ''/healthz'' then writeBytes (''ok'' @ newline) (WriteHeader 200 w)
      else if r_Path r = ''/readyz'' then
        (case gatewayReady m s of
           Some e \<Rightarrow> httpError (''not ready: '' @ e) 503 w
         | None \<Rightarrow> writeBytes (''ready'' @ newline) (WriteHeader 200 w))
      else if HasPrefix (r_Path r) ''/api/v1/tunnels/'' then auth (handleTunnelDetail E m s r)
      else if r_Path r = ''/api/v1/tunnels'' then auth (handleTunnelList m s r)
      else if r_Path r = ''/api/v1/runtime'' then auth (handleRuntimeSummary E m s r)
      else if r_Path r = ''/api/v1/request-logs'' then auth (handleRequestLogs E m s r)
      else if r_Path r = ''/metrics'' then auth (handleMetrics E m s r)
      else httpError ''404 page not found'' 404 w)"

section \<open>Pruning\<close>

text \<open>
  One run of the pruner, which is started when both settings are positive; \<open>db\<close> is the
  deletion in the database, \<^term>\<open>None\<close> if it fails.
\<close>

definition pruneRequestLogs ::
  "(gotime \<Rightarrow> requestLogEntry list \<Rightarrow> requestLogEntry list option) \<Rightarrow> gotime \<Rightarrow> Server \<Rightarrow> Server" where
  "pruneRequestLogs db now s =
     (if cfg_RequestLogRetention (sv_cfg s) \<le> 0 \<or> cfg_RequestLogPruneInterval (sv_cfg s) \<le> 0 then s
      else let cutoff = now - cfg_RequestLogRetention (sv_cfg s) in
           case sv_store s of
             None \<Rightarrow> s\<lparr>sv_requestLogs := snd (logPruneBefore (sv_requestLogs s) cutoff)\<rparr>
           | Some es \<Rightarrow> (case db cutoff es of None \<Rightarrow> s | Some es' \<Rightarrow> s\<lparr>sv_store := Some es'\<rparr>))"

end
