(* ===== verification/GatewayRun.thy ===== *)
theory GatewayRun
  imports Management
begin

text \<open>
  The life of a gateway: agents connect and leave, public requests are served and the log is pruned,
  in any order.  In all states that occur the registry and the table of sessions agree, so that a
  request is answered by the agent that owns its subdomain.  The last part shows that a configuration
  that passed the production checks gives a closed gateway.
\<close>

section \<open>States\<close>

inductive gateway_reach :: "'w genv \<Rightarrow> Server \<Rightarrow> bool" for E :: "'w genv" where
  run_start: "gateway_reach E (newServerWithRequestLogWriter E now cfg store)"
| run_handshake:
    "gateway_reach E s \<Longrightarrow>
     handleAgentWebSocket E nameText regText now sdraw tdraw s rd1 ok1 rd2 ok2 w = (res, out, s', w') \<Longrightarrow> gateway_reach E s'"
| run_leave: "gateway_reach E s \<Longrightarrow> gateway_reach E (removeSession s tunnelID)"
| run_request: "gateway_reach E s \<Longrightarrow> handlePublicRequest E io s r rw w = Some (v, w') \<Longrightarrow> gateway_reach E (sx_Server v)"
| run_prune: "gateway_reach E s \<Longrightarrow> gateway_reach E (pruneRequestLogs db now s)"

definition gateway_inv :: "Server \<Rightarrow> bool" where
  "gateway_inv s \<longleftrightarrow>
     registry_inv (sv_registry s) \<and> (\<forall>t. byTunnelID (sv_registry s) t = map_option as_tunnel (sv_sessions s t))"

text \<open>Settings that pass the production checks, for the examples below.\<close>

definition prodURLs :: urls where
  "prodURLs =
     \<lparr>urlParse = (\<lambda>s. Inr \<lparr>url_Scheme = ''https'', url_Host = ''example.com'', url_Path = [], url_RawQuery = [], url_Fragment = [], url_User = []\<rparr>),
      urlString = url_Host, PathUnescape = Some\<rparr>"

definition prodConfig :: Config where
  "prodConfig =
     demoConfig\<lparr>cfg_TrustedProxies := ''0.0.0.1/32'', cfg_ManagementToken := ''m4nag3'', cfg_RootDomain := ''example.com'',
                 cfg_PublicURL := ''https://example.com'', cfg_ControlPlaneURL := ''https://cp.example.com'',
                 cfg_ControlPlaneToken := ''s3cr3t''\<rparr>"

definition prodEnv :: "unit genv" where
  "prodEnv = demoEnv\<lparr>ge_url := prodURLs\<rparr>"

section \<open>Lemmas\<close>

lemma gateway_invD:
  assumes "gateway_inv s" "sv_sessions s t = Some ses"
  shows "byTunnelID (sv_registry s) t = Some (as_tunnel ses)" "ss_TunnelID (as_tunnel ses) = t"
    "bySubdomain (sv_registry s) (ss_Subdomain (as_tunnel ses)) = Some (as_tunnel ses)"
proof -
  show b: "byTunnelID (sv_registry s) t = Some (as_tunnel ses)" using assms by (simp add: gateway_inv_def)
  from assms(1) have r: "registry_inv (sv_registry s)" by (simp add: gateway_inv_def)
  show i: "ss_TunnelID (as_tunnel ses) = t" using registry_invD(2) [OF r b] by simp
  show "bySubdomain (sv_registry s) (ss_Subdomain (as_tunnel ses)) = Some (as_tunnel ses)"
    using registry_invD(3) [OF r, of "ss_Subdomain (as_tunnel ses)" "as_tunnel ses"] b i by simp
qed

lemma sessionBySubdomain_owner:
  assumes "gateway_inv s" "sessionBySubdomain s sd = Some ses"
  shows "ss_Subdomain (as_tunnel ses) = sd" "sv_sessions s (ss_TunnelID (as_tunnel ses)) = Some ses"
proof -
  from assms(1) have r: "registry_inv (sv_registry s)" by (simp add: gateway_inv_def)
  from assms(2) obtain t where t: "bySubdomain (sv_registry s) sd = Some t" "sv_sessions s (ss_TunnelID t) = Some ses"
    by (auto simp: sessionBySubdomain_def LookupBySubdomain_def split: option.splits)
  have b: "byTunnelID (sv_registry s) (ss_TunnelID t) = Some t" "ss_Subdomain t = sd"
    using registry_invD(3) [OF r, of sd t] t(1) by simp_all
  with gateway_invD(1) [OF assms(1) t(2)] have "as_tunnel ses = t" by simp
  with b t show "ss_Subdomain (as_tunnel ses) = sd" "sv_sessions s (ss_TunnelID (as_tunnel ses)) = Some ses" by simp_all
qed

lemma byTunnelID_Unregister: "byTunnelID (Unregister r i) = (byTunnelID r)(i := None)"
  by (auto simp: Unregister_def fun_upd_idem split: option.splits)

lemma gateway_inv_handshake:
  assumes inv: "gateway_inv s"
    and h: "handleAgentWebSocket E nameText regText now sdraw tdraw s rd1 ok1 rd2 ok2 w = (res, out, s', w')"
  shows "gateway_inv s'"
proof (cases res)
  case (Inl e)
  with h have "onlyCounters s s'"
    by (auto simp: handleAgentWebSocket_def split: prod.splits sum.splits dest!: registerTunnel_Inl dest: authenticateAgent_state)
  with inv show ?thesis by (simp add: gateway_inv_def onlyCountersD)
next
  case (Inr ses)
  with h obtain identity out1 s1 w1 out2 s2 where H:
    "authenticateAgent E s rd1 ok1 w = (Inr identity, out1, s1, w1)"
    "registerTunnel E nameText regText now sdraw tdraw s1 rd2 ok2 identity w1 = (Inr ses, out2, s2, w')"
    "s' = addOne gm_tunnelRegistrationsTotal_update (addSession s2 ses)"
    by (auto simp: handleAgentWebSocket_def split: prod.splits sum.splits)
  from registerTunnel_Inr [OF H(2)] obtain r where r: "Register (sv_registry s1) (Some (as_tunnel ses)) = Inr r"
    "s2 = s1\<lparr>sv_registry := r\<rparr>" by blast
  note same = onlyCountersD [OF authenticateAgent_state [OF H(1)]]
  have "registry_inv r" using registry_inv_Register inv r(1) same by (auto simp: gateway_inv_def)
  with inv r same H(3) show ?thesis by (auto simp: gateway_inv_def addSession_def Register_Inr_iff)
qed

text \<open>What a public request does to the table of sessions.\<close>

lemma putSession_sessions [simp]:
  "sv_sessions (putSession s ses) = (sv_sessions s)(ss_TunnelID (as_tunnel ses) \<mapsto> ses)" "sv_registry (putSession s ses) = sv_registry s"
  by (simp_all add: putSession_def)

lemma gateway_inv_putSession:
  assumes "gateway_inv s" "sv_sessions s (ss_TunnelID (as_tunnel ses)) = Some ses0" "as_tunnel ses = as_tunnel ses0"
  shows "gateway_inv (putSession s ses)"
  using assms by (auto simp: gateway_inv_def)

lemma gateway_inv_same:
  assumes "gateway_inv s" "sv_registry s' = sv_registry s" "sv_sessions s' = sv_sessions s"
  shows "gateway_inv s'"
  using assms by (simp add: gateway_inv_def)

lemma slots_tunnel [simp]:
  "as_tunnel (releaseStream s) = as_tunnel s" "as_tunnel (removePending sid s) = as_tunnel s" "as_tunnel (addPending sid ch s) = as_tunnel s"
  by (auto simp: releaseStream_def removePending_def addPending_def split: option.splits prod.splits)

lemma acquireStream_tunnel: "acquireStream s = Inr s1 \<Longrightarrow> as_tunnel s1 = as_tunnel s"
  by (auto simp: acquireStream_def split: if_splits option.splits prod.splits)

lemma streamRoundTrip_tunnel:
  assumes "streamRoundTrip js wr wb s ch sid req body mx ck evs = Some (res, e, out, ps, s')"
  shows "as_tunnel s' = as_tunnel s"
  using streamRoundTrip_Some [OF assms] by (auto dest: acquireStream_tunnel)

lemma openWSStream_tunnel:
  assumes "openWSStream js wr s ch sid opn ev = Some (r, out, s')"
  shows "as_tunnel s' = as_tunnel s"
  using openWSStream_Some [OF assms] by (auto dest: acquireStream_tunnel)

lemma wsClose_tunnel: "as_tunnel (fst (wsClose s w)) = as_tunnel s"
  by (simp add: wsClose_def)

lemma forwardRequest_tunnel: "forwardRequest E io s r rw ses a sid = Some y \<Longrightarrow> as_tunnel (py_Session y) = as_tunnel ses"
  by (auto simp: forwardRequest_def split: option.splits prod.splits if_splits dest: streamRoundTrip_tunnel)

lemma handlePublicWebSocket_tunnel:
  "handlePublicWebSocket E io s r rw ses a sid = Some y \<Longrightarrow> as_tunnel (py_Session y) = as_tunnel ses"
  by (auto simp: handlePublicWebSocket_def Let_def wsClose_tunnel
      split: option.splits prod.splits sum.splits if_splits bool.splits dest: openWSStream_tunnel)


lemma gateway_inv_attempts [simp]: "gateway_inv (s\<lparr>sv_authAttempts := t\<rparr>) = gateway_inv s"
  by (simp add: gateway_inv_def)

lemma admitSession_state:
  assumes "admitSession E io s r rw l ses0 w = (res, s2, w2)"
  shows "s2 = putSession s (snd (allowRequest (ge_fl E) ses0 (io_limited io))) \<or>
    (\<exists>t. s2 = (putSession s (snd (allowRequest (ge_fl E) ses0 (io_limited io))))\<lparr>sv_authAttempts := t\<rparr>)"
  using assms by (auto simp: admitSession_def Let_def split: prod.splits if_splits sum.splits)

lemma gateway_inv_admit:
  assumes inv: "gateway_inv s" and adm: "admitPublic E io s r rw w = (res, s2, w2)"
  shows "gateway_inv s2"
proof -
  obtain ro s1 w1 where ro: "routeForHost E (io_resolved io) s (r_Host r) w = (ro, s1, w1)"
    by (cases "routeForHost E (io_resolved io) s (r_Host r) w") auto
  have inv1: "gateway_inv s1" using gateway_inv_same [OF inv] routeForHost_keeps [OF ro] by simp
  have A: "gateway_inv s2"
    if "admitSession E io s1 r rw l0 ses0 w1 = (res, s2, w2)" "sessionBySubdomain s1 sd = Some ses0" for l0 ses0 sd
  proof -
    have "as_tunnel (snd (allowRequest (ge_fl E) ses0 (io_limited io))) = as_tunnel ses0"
      by (metis allowRequest_tunnel prod.collapse)
    with gateway_inv_putSession [OF inv1] sessionBySubdomain_owner(2) [OF inv1 that(2)]
    have "gateway_inv (putSession s1 (snd (allowRequest (ge_fl E) ses0 (io_limited io))))" by simp
    with admitSession_state [OF that(1)] show ?thesis by auto
  qed
  from adm ro inv1 A show ?thesis
    by (auto simp: admitPublic_def Let_def split: sum.splits prod.splits if_splits option.splits)
qed

lemma servePublic_sessions:
  assumes inv: "gateway_inv s" and v: "servePublic E io s r rw w = Some (v, w')"
  shows "gateway_inv (sx_Server v)"
proof -
  obtain res s2 w2 where adm: "admitPublic E io s r rw w = (res, s2, w2)" by (cases "admitPublic E io s r rw w") auto
  note inv2 = gateway_inv_admit [OF inv adm]
  have put: "gateway_inv (putSession s2 (py_Session y))"
    if "res = Inr (l, ses, a)" "handlePublicWebSocket E io s2 r rw ses a sid = Some y \<or> forwardRequest E io s2 r rw ses a sid = Some y"
    for l ses a sid y
  proof -
    from admitPublic_Inr [OF adm [unfolded that(1)]] obtain s1 where "s2 = putSession s1 ses" by blast
    then have "sv_sessions s2 (ss_TunnelID (as_tunnel ses)) = Some ses" by simp
    moreover have "as_tunnel (py_Session y) = as_tunnel ses"
      using that(2) handlePublicWebSocket_tunnel forwardRequest_tunnel by blast
    ultimately show ?thesis using gateway_inv_putSession [OF inv2, of "py_Session y" ses] by simp
  qed
  from inv2 adm v show ?thesis
    by (auto simp: servePublic_def split: sum.splits prod.splits option.splits if_splits intro: put [OF _ disjI1] put [OF _ disjI2])
qed

lemma gateway_reach_inv: "gateway_reach E s \<Longrightarrow> gateway_inv s"
proof (induction rule: gateway_reach.induct)
  case (run_start now cfg store)
  then show ?case
    by (simp add: gateway_inv_def newServerWithRequestLogWriter_def Let_def registry_reach_inv [OF reach_new])
       (simp add: NewRegistry_def)
next
  case (run_handshake s nameText regText now sdraw tdraw rd1 ok1 rd2 ok2 w res out s' w')
  then show ?case by (blast intro: gateway_inv_handshake)
next
  case (run_leave s tunnelID)
  then show ?case by (auto simp: gateway_inv_def removeSession_def byTunnelID_Unregister intro: registry_inv_Unregister)
next
  case (run_request s io r rw w v w')
  then obtain v0 where v0: "servePublic E io s r rw w = Some (v0, w')" "v = finishPublic E io r v0"
    by (auto simp: handlePublicRequest_def split: option.splits)
  show ?case
    by (rule gateway_inv_same [OF servePublic_sessions [OF run_request.IH v0(1)]])
       (simp_all add: v0(2) finish_server Let_def recordMetrics_frame recordRequestLog_def)
next
  case (run_prune s db now)
  then show ?case by (auto simp: gateway_inv_def pruneRequestLogs_def Let_def split: option.splits)
qed

lemma demoRunning_reach: "gateway_reach handshakeEnv demoRunning"
proof -
  obtain out where run: "handshakeRun = (Inr demoConnected, out, demoRunning, ())" using handshakeRun_ok by blast
  have "gateway_reach handshakeEnv (newServerWithRequestLogWriter handshakeEnv 0 demoConfig None)" by (rule run_start)
  then have "gateway_reach handshakeEnv demoServer"
    by (simp add: demoServer_def newServerWithRequestLogWriter_def handshakeEnv_def demoEnv_def)
  from run_handshake [OF this run [unfolded handshakeRun_def]] show ?thesis .
qed

lemma demoRunning_fields:
  "sv_cfg demoRunning = sv_cfg demoServer" "sv_access demoRunning = StaticAccess" "sv_authAttempts demoRunning = sv_authAttempts demoServer"
  "sv_sessions demoRunning = [''tun_aaaaaaaaaaaaaaaaaaaa'' \<mapsto> demoConnected]" "sessionBySubdomain demoRunning ''demo'' = Some demoConnected"
  by (simp_all add: demoRunning_def addSession_def demoServer_fields demoConnected_tunnel sessionBySubdomain_def LookupBySubdomain_def)
     (simp_all add: demoTunnel_def)

lemma demo_subdomain: "subdomainFromHost id ''localhost'' ''demo.localhost'' = Some ''demo''"
  by code_simp

lemma demoConnected_allows: "\<exists>ses. allowRequest id demoConnected 0 = (True, ses) \<and> as_tunnel ses = demoTunnel \<and>
    as_done ses = False \<and> as_streams ses = Some (0, 64)"
proof -
  have "cfg_MaxConcurrentStreams (sv_cfg demoServer) = 64" "cfg_RateLimitRequestsPerSecond (sv_cfg demoServer) = 60"
    "cfg_RateLimitBurst (sv_cfg demoServer) = 120"
    by (simp_all add: demoServer_def newServerWithRequestLogWriter_def Let_def demoConfig_def ConfigFromEnv_def normalizeConfig_def
        envInt_def ifNotPositive_def defaultMaxConcurrentStreams_def defaultRateLimitRPS_def defaultRateLimitBurst_def TrimSpace_Nil)
  then show ?thesis
    by (simp add: demoConnected_def newAgentSession_def allowRequest_def newRateLimiter_def allow_def Let_def refilled_def
        split: prod.splits)
qed

lemma demoRunning_forward:
  "\<exists>v. handlePublicRequest handshakeEnv demoIO demoRunning demoRequest emptyWriter () = Some (v, ()) \<and> sx_Sent v \<noteq> []"
proof -
  obtain ses where al: "allowRequest id demoConnected 0 = (True, ses)" "as_tunnel ses = demoTunnel" "as_done ses = False"
    "as_streams ses = Some (0, 64)" using demoConnected_allows by blast
  let ?a = "\<lparr>pe_Allowed = True, pe_Mode = ''public'', pe_Reason = ''no_control_plane''\<rparr>"
  have e: "ge_fl handshakeEnv = id" "ge_uc handshakeEnv = id" "ge_js handshakeEnv = demoJSON\<lparr>unAuthRequest := (\<lambda>b. Some demoAuth), unTunnelRegister := (\<lambda>b. Some demoRegister)\<rparr>"
    by (simp_all add: handshakeEnv_def demoEnv_def)
  have ro: "routeForHost handshakeEnv 0 demoRunning ''demo.localhost'' () =
     (Inr (\<lparr>ro_Subdomain = ''demo'', ro_CustomDomain = [], ro_MissReason = []\<rparr>, True), demoRunning, ())"
    by (simp add: routeForHost_def demoRunning_fields demoServer_root e demo_subdomain Let_def)
  have acc: "evaluatePublicAccess handshakeEnv demoRunning r sd () = (Inr ?a, ())" for r sd
    by (simp add: evaluatePublicAccess_def EvaluateAccessPolicy_def demoRunning_fields split: prod.splits)
  have thr: "th_entries (sv_authAttempts demoRunning) k = None" for k
    by (simp add: demoRunning_fields demoServer_def newServerWithRequestLogWriter_def Let_def newAuthAttemptThrottle_def)
  have q: "r_Host demoRequest = ''demo.localhost''" "io_resolved demoIO = 0" "io_limited demoIO = 0"
    by (simp_all add: demoRequest_def demoIO_def)
  have adm: "\<exists>l. admitPublic handshakeEnv demoIO demoRunning demoRequest emptyWriter () = (Inr (l, ses, ?a), putSession demoRunning ses, ())"
    by (simp add: admitPublic_def admitSession_def Let_def q ro acc demoRunning_fields(5) al e(1) blocked_def thr)
  have ws: "\<not> isWebSocketUpgradeRequest ef demoRequest" for ef
    by (simp add: isWebSocketUpgradeRequest_def headerContainsToken_def demoRequest_def hdrGet_def hdrValues_def EqualFold_def
        TrimSpace_Nil isASCII_def)
  have sid: "newStreamID (io_draw demoIO) = Inr ''str_aaaaaaaaaaaaaaaaaaaa''"
    by (simp add: newStreamID_def demoIO_def demo_ID)
  have "\<exists>y. forwardRequest handshakeEnv demoIO s demoRequest emptyWriter ses ?a ''str_aaaaaaaaaaaaaaaaaaaa'' = Some y \<and> py_Sent y \<noteq> []" for s
    by (simp add: forwardRequest_def streamRoundTrip_def al e demoIO_def demoRequest_def demoJSON_def
        acquireStream_def NewStream_def marshalPayload_def sessionWrite_def WriteEnvelope_def writeRequestBody_def Let_def
        roundTripFailure_def isStreamContextDoneCause_def cancelStream_def split: prod.splits)
  from this [of "putSession demoRunning ses"] adm ws sid show ?thesis
    by (auto simp: handlePublicRequest_def servePublic_def)
qed

lemma prod_fields:
  "cfg_PublicAddr (normalizeConfig prodConfig) = defaultPublicAddr" "cfg_AgentAddr (normalizeConfig prodConfig) = defaultAgentAddr"
  "cfg_ManagementAddr (normalizeConfig prodConfig) = defaultManagementAddr" "cfg_TrustedProxies (normalizeConfig prodConfig) = ''0.0.0.1/32''"
  "cfg_ManagementToken (normalizeConfig prodConfig) = ''m4nag3''" "cfg_RootDomain (normalizeConfig prodConfig) = ''example.com''"
  "cfg_ControlPlaneURL (normalizeConfig prodConfig) = ''https://cp.example.com''"
  "cfg_ControlPlaneToken (normalizeConfig prodConfig) = ''s3cr3t''"
  by (simp_all add: prodConfig_def demoConfig_def ConfigFromEnv_def normalizeConfig_def envString_def ifEmpty_def config_defaults)

lemma prod_checks:
  "validateListenAddr defaultPublicAddr = None" "validateListenAddr defaultAgentAddr = None" "validateListenAddr defaultManagementAddr = None"
  "\<exists>ps. ParseTrustedProxies ''0.0.0.1/32'' = Inr ps" "TrimSpace ''0.0.0.1/32'' \<noteq> []" "TrimSpace ''m4nag3'' \<noteq> []"
  "\<not> looksLikePlaceholderSecret id ''m4nag3''" "validateRootDomain ''example.com'' = None"
  "\<not> EqualFold (\<lambda>s t. s = t) ''example.com'' ''localhost''" "TrimSpace ''https://cp.example.com'' \<noteq> []" "TrimSpace ''s3cr3t'' \<noteq> []"
  "\<not> looksLikePlaceholderSecret id ''s3cr3t''"
proof -
  have "case ParseTrustedProxies ''0.0.0.1/32'' of Inl e \<Rightarrow> False | Inr ps \<Rightarrow> True" by code_simp
  then show "\<exists>ps. ParseTrustedProxies ''0.0.0.1/32'' = Inr ps" by (simp split: sum.splits)
qed code_simp+

lemma prod_ok: "\<not> HasErrors (ValidateConfig (ge_uc prodEnv) (ge_ef prodEnv) (ge_quo prodEnv) id (ge_url prodEnv) prodConfig True)"
proof -
  have u: "validateHTTPURL prodURLs f v req = None" for f v req
    by (simp add: validateHTTPURL_def prodURLs_def)
  have e: "ge_uc prodEnv = id" "ge_ef prodEnv = (\<lambda>s t. s = t)" "ge_url prodEnv = prodURLs"
    by (simp_all add: prodEnv_def demoEnv_def)
  obtain ps where ps: "ParseTrustedProxies ''0.0.0.1/32'' = Inr ps" using prod_checks(4) by blast
  have "addressErrors (ge_quo prodEnv) id (normalizeConfig prodConfig) True = []"
    unfolding addressErrors_def prod_fields prod_checks(1-3) ps by (simp add: prod_checks(5))
  moreover have "publicErrors id (\<lambda>s t. s = t) prodURLs (normalizeConfig prodConfig) True = []"
    unfolding publicErrors_def prod_fields prod_checks(8) u by (simp only: prod_checks) simp
  moreover have "controlPlaneErrors id prodURLs (normalizeConfig prodConfig) True = []"
    unfolding controlPlaneErrors_def prod_fields u by (simp only: prod_checks) simp
  moreover have "rangeErrors (normalizeConfig prodConfig) = []"
    by (rule rangeErrors_Nil [OF normalSettings_normalizeConfig])
  ultimately show ?thesis unfolding e by (simp add: HasErrors_def ValidateConfig_def Let_def)
qed

section \<open>Properties\<close>

text \<open>
  C8: a request for a subdomain reaches the agent that owns it and no other.  In every state the
  gateway can get into, whatever connected, failed, left or was served before, a message sent for a
  host below the root domain goes to a connected agent whose tunnel was registered for exactly
  this label, carries the id of that tunnel, and there is no second session for the label.
\<close>

theorem requests_reach_the_owner:
  assumes "gateway_reach E s" "handlePublicRequest E io s r rw w = Some (v, w')" "sx_Sent v \<noteq> []"
    and "subdomainFromHost (ge_uc E) (cfg_RootDomain (sv_cfg s)) (r_Host r) = Some sd"
  shows "\<exists>ses env. sv_sessions s (ss_TunnelID (as_tunnel ses)) = Some ses \<and> ss_Subdomain (as_tunnel ses) = sd \<and>
    sentFirst (sx_Sent v) env \<and> env_TunnelID env = ss_TunnelID (as_tunnel ses) \<and>
    (\<forall>t ses'. sv_sessions s t = Some ses' \<and> ss_Subdomain (as_tunnel ses') = sd \<longrightarrow> t = ss_TunnelID (as_tunnel ses))"
proof -
  have inv: "gateway_inv s" by (rule gateway_reach_inv [OF assms(1)])
  from admitted_sent [OF assms(2, 3)] obtain route ses a env where
    A: "admitted E io s r w route ses a w'" "sentFirst (sx_Sent v) env" "env_TunnelID env = ss_TunnelID (as_tunnel ses)" by blast
  from A(1) assms(4) have sd: "sessionBySubdomain s sd = Some ses"
    by (auto simp: admitted_def routeForHost_def Let_def)
  note own = sessionBySubdomain_owner [OF inv sd]
  have "t = ss_TunnelID (as_tunnel ses)" if "sv_sessions s t = Some ses'" "ss_Subdomain (as_tunnel ses') = sd" for t ses'
    using gateway_invD [OF inv that(1)] gateway_invD [OF inv own(2)] that(2) own(1) by simp
  with A own show ?thesis by blast
qed

theorem requests_reach_the_owner_witness:
  "\<exists>v ses env. gateway_reach handshakeEnv demoRunning \<and>
     handlePublicRequest handshakeEnv demoIO demoRunning demoRequest emptyWriter () = Some (v, ()) \<and>
     sv_sessions demoRunning (ss_TunnelID (as_tunnel ses)) = Some ses \<and>
     ss_Subdomain (as_tunnel ses) = ''demo'' \<and> sentFirst (sx_Sent v) env \<and> env_TunnelID env = ss_TunnelID (as_tunnel ses)"
proof -
  from demoRunning_forward obtain v where
    v: "handlePublicRequest handshakeEnv demoIO demoRunning demoRequest emptyWriter () = Some (v, ())" "sx_Sent v \<noteq> []" by blast
  have sd: "subdomainFromHost (ge_uc handshakeEnv) (cfg_RootDomain (sv_cfg demoRunning)) (r_Host demoRequest) = Some ''demo''"
    by (simp add: demoRunning_fields demoServer_root demoRequest_def handshakeEnv_def demoEnv_def demo_subdomain)
  from requests_reach_the_owner [OF demoRunning_reach v sd] obtain ses env where
    "ss_Subdomain (as_tunnel ses) = ''demo''" "sentFirst (sx_Sent v) env" "env_TunnelID env = ss_TunnelID (as_tunnel ses)"
    "sv_sessions demoRunning (ss_TunnelID (as_tunnel ses)) = Some ses" by blast
  with demoRunning_reach v(1) show ?thesis by blast
qed

text \<open>
  C34: a gateway whose settings pass the production checks is closed.  Agents are admitted and public
  requests are let through only by the control plane or not at all, never by a static token or
  without a policy; and apart from the two health checks the management API answers a request without
  the right token with the same page whatever the state of the gateway is.
\<close>

theorem production_gateway_is_closed:
  assumes "\<not> HasErrors (ValidateConfig uc ef quo perr u cfg True)" "s = newServerWithRequestLogWriter E now cfg store"
    and "\<not> gatewaySecretEqual (ge_sha E) (bearerToken r) (cfg_ManagementToken cfg)" "r_Path r \<noteq> ''/healthz''" "r_Path r \<noteq> ''/readyz''"
  shows "(\<forall>secret. sv_tokens s \<noteq> StaticTokens secret) \<and> sv_reserved s \<noteq> StaticReserved \<and> sv_access s \<noteq> StaticAccess \<and>
    ManagementHandler E m s r w \<in>
      {httpError ''unauthorized'' 401
         (setHeader ''WWW-Authenticate'' (''Bearer realm='' @ [CHR 0x22] @ ''Porthook gateway management'' @ [CHR 0x22]) w),
       httpError ''404 page not found'' 404 w}"
proof -
  from assms(1) have "publicErrors uc ef u (normalizeConfig cfg) True = []" "controlPlaneErrors uc u (normalizeConfig cfg) True = []"
    by (simp_all add: HasErrors_def ValidateConfig_def Let_def)
  then have t: "TrimSpace (cfg_ManagementToken (normalizeConfig cfg)) \<noteq> []" and c: "TrimSpace (cfg_ControlPlaneURL (normalizeConfig cfg)) \<noteq> []"
    by (auto simp: publicErrors_def controlPlaneErrors_def split: if_splits)
  have "cfg_ManagementToken (normalizeConfig cfg) = cfg_ManagementToken cfg" by (simp add: normalizeConfig_def)
  with t have m: "cfg_ManagementToken (sv_cfg s) = cfg_ManagementToken cfg" "cfg_ManagementToken cfg \<noteq> []"
    by (auto simp: assms(2) newServerWithRequestLogWriter_def Let_def TrimSpace_Nil)
  have "ManagementHandler E m s r w \<in>
      {httpError ''unauthorized'' 401
         (setHeader ''WWW-Authenticate'' (''Bearer realm='' @ [CHR 0x22] @ ''Porthook gateway management'' @ [CHR 0x22]) w),
       httpError ''404 page not found'' 404 w}"
    using assms(3-5) m by (simp add: ManagementHandler_def requireManagementAuth_def Let_def)
  with c show ?thesis
    by (auto simp: assms(2) newServerWithRequestLogWriter_def Let_def newAgentTokenValidator_def newReservedSubdomainAuthorizer_def
        newAccessPolicyEvaluator_def split: sum.splits)
qed

theorem production_gateway_is_closed_witness:
  "\<not> HasErrors (ValidateConfig (ge_uc prodEnv) (ge_ef prodEnv) (ge_quo prodEnv) id (ge_url prodEnv) prodConfig True) \<and>
   sv_access (newServerWithRequestLogWriter prodEnv 0 prodConfig None) \<noteq> StaticAccess"
proof -
  have "bearerToken demoRequest = []"
    by (simp add: bearerToken_def demoRequest_def hdrGet_def hdrValues_def CutPrefix_def)
  then have "\<not> gatewaySecretEqual (ge_sha prodEnv) (bearerToken demoRequest) (cfg_ManagementToken prodConfig)"
    by (simp add: gatewaySecretEqual_def prodConfig_def)
  moreover have "r_Path demoRequest \<noteq> ''/healthz''" "r_Path demoRequest \<noteq> ''/readyz''" by (simp_all add: demoRequest_def)
  ultimately show ?thesis
    using production_gateway_is_closed [OF prod_ok refl, of prodEnv demoRequest 0 None] prod_ok by blast
qed

end
