(* ===== verification/ControlConfig.thy ===== *)
theory ControlConfig
  imports GatewayConfig
begin

text \<open>
  \<open>config.go\<close> and \<open>config_validation.go\<close> of the control plane: its settings, their defaults, and the
  check that the binary runs on them.  The environment, \<open>net/url\<close> and the texts are arguments as in
  the configuration of the gateway.
\<close>

section \<open>Settings\<close>

definition controlDefaultAddr :: string where
  "controlDefaultAddr = '':8082''"

definition defaultGatewayManagementTimeout :: duration where
  "defaultGatewayManagementTimeout = 5 * Second"

definition defaultAuditEventRetention :: duration where
  "defaultAuditEventRetention = 90 * 24 * Hour"

definition defaultAuditEventPruneInterval :: duration where
  "defaultAuditEventPruneInterval = Hour"

definition controlDefaultShutdownTimeout :: duration where
  "controlDefaultShutdownTimeout = 5 * Second"

definition controlDefaultDBMaxOpenConns :: int where
  "controlDefaultDBMaxOpenConns = 20"

definition controlDefaultDBMaxIdleConns :: int where
  "controlDefaultDBMaxIdleConns = 5"

definition controlDefaultDBConnMaxLifetime :: duration where
  "controlDefaultDBConnMaxLifetime = 30 * Minute"

definition controlDefaultDBConnMaxIdleTime :: duration where
  "controlDefaultDBConnMaxIdleTime = 5 * Minute"

record ControlConfig =
  kc_Addr :: string
  kc_AdminToken :: string
  kc_ValidatorToken :: string
  kc_GatewayManagementURL :: string
  kc_GatewayManagementToken :: string
  kc_GatewayManagementTimeout :: duration
  kc_TrustedProxies :: string
  kc_DatabaseURL :: string
  kc_Version :: string
  kc_AuditEventRetention :: duration
  kc_AuditEventPruneInterval :: duration
  kc_DNSResolverAddr :: string
  kc_ShutdownTimeout :: duration
  kc_DBMaxOpenConns :: int
  kc_DBMaxIdleConns :: int
  kc_DBConnMaxLifetime :: duration
  kc_DBConnMaxIdleTime :: duration

definition controlEnvString :: "(string \<Rightarrow> string) \<Rightarrow> string \<Rightarrow> string \<Rightarrow> string" where
  "controlEnvString getenv name fallback =
     (let val = getenv name in if val = [] then fallback else val)"

definition controlEnvInt :: "(string \<Rightarrow> string) \<Rightarrow> string \<Rightarrow> int \<Rightarrow> int" where
  "controlEnvInt getenv name fallback =
     (let val = getenv name in
      if val = [] then fallback
      else case Atoi val of
             None \<Rightarrow> fallback
           | Some parsed \<Rightarrow> if parsed \<le> 0 then fallback else parsed)"

definition controlEnvDuration :: "(rat \<Rightarrow> rat) \<Rightarrow> (string \<Rightarrow> string) \<Rightarrow> string \<Rightarrow> duration \<Rightarrow> duration" where
  "controlEnvDuration rnd getenv name fallback =
     (let val = getenv name in
      if val = [] then fallback
      else case ParseDuration rnd val of
             None \<Rightarrow> fallback
           | Some parsed \<Rightarrow> if parsed < 0 then fallback else parsed)"

definition controlConfigFromEnv :: "(rat \<Rightarrow> rat) \<Rightarrow> (string \<Rightarrow> string) \<Rightarrow> ControlConfig" where
  "controlConfigFromEnv rnd getenv =
     (let dur = controlEnvDuration rnd getenv; num = controlEnvInt getenv;
          cfg = \<lparr>kc_Addr = controlEnvString getenv ''PORTHOOK_CONTROL_ADDR'' controlDefaultAddr,
                 kc_AdminToken = getenv ''PORTHOOK_CONTROL_ADMIN_TOKEN'',
                 kc_ValidatorToken = getenv ''PORTHOOK_CONTROL_VALIDATOR_TOKEN'',
                 kc_GatewayManagementURL = getenv ''PORTHOOK_GATEWAY_MANAGEMENT_URL'',
                 kc_GatewayManagementToken = getenv ''PORTHOOK_GATEWAY_MANAGEMENT_TOKEN'',
                 kc_GatewayManagementTimeout = dur ''PORTHOOK_GATEWAY_MANAGEMENT_TIMEOUT'' defaultGatewayManagementTimeout,
                 kc_TrustedProxies = getenv ''PORTHOOK_TRUSTED_PROXIES'',
                 kc_DatabaseURL = getenv ''PORTHOOK_DATABASE_URL'',
                 kc_Version = [],
                 kc_AuditEventRetention = dur ''PORTHOOK_AUDIT_EVENT_RETENTION'' defaultAuditEventRetention,
                 kc_AuditEventPruneInterval = dur ''PORTHOOK_AUDIT_EVENT_PRUNE_INTERVAL'' defaultAuditEventPruneInterval,
                 kc_DNSResolverAddr = getenv ''PORTHOOK_DNS_RESOLVER_ADDR'',
                 kc_ShutdownTimeout = dur ''PORTHOOK_SHUTDOWN_TIMEOUT'' controlDefaultShutdownTimeout,
                 kc_DBMaxOpenConns = num ''PORTHOOK_DB_MAX_OPEN_CONNS'' controlDefaultDBMaxOpenConns,
                 kc_DBMaxIdleConns = num ''PORTHOOK_DB_MAX_IDLE_CONNS'' controlDefaultDBMaxIdleConns,
                 kc_DBConnMaxLifetime = dur ''PORTHOOK_DB_CONN_MAX_LIFETIME'' controlDefaultDBConnMaxLifetime,
                 kc_DBConnMaxIdleTime = dur ''PORTHOOK_DB_CONN_MAX_IDLE_TIME'' controlDefaultDBConnMaxIdleTime\<rparr>
      in cfg\<lparr>kc_Addr := ifEmpty (kc_Addr cfg) controlDefaultAddr,
             kc_ShutdownTimeout := ifNotPositive (kc_ShutdownTimeout cfg) controlDefaultShutdownTimeout,
             kc_DBMaxOpenConns := ifNotPositive (kc_DBMaxOpenConns cfg) controlDefaultDBMaxOpenConns,
             kc_DBMaxIdleConns := ifNegative (kc_DBMaxIdleConns cfg) controlDefaultDBMaxIdleConns,
             kc_DBConnMaxLifetime := ifNegative (kc_DBConnMaxLifetime cfg) controlDefaultDBConnMaxLifetime,
             kc_DBConnMaxIdleTime := ifNegative (kc_DBConnMaxIdleTime cfg) controlDefaultDBConnMaxIdleTime\<rparr>)"

section \<open>Validation\<close>

text \<open>The field \<open>url_User\<close> is empty for a URL without userinfo and the userinfo up to its \<open>@\<close> otherwise.\<close>

definition controlValidateHTTPURL :: "urls \<Rightarrow> string \<Rightarrow> string option" where
  "controlValidateHTTPURL u val =
     (case urlParse u (TrimSpace val) of
        Inl e \<Rightarrow> Some (''must be a valid URL: '' @ e)
      | Inr parsed \<Rightarrow>
          if url_Scheme parsed \<noteq> ''http'' \<and> url_Scheme parsed \<noteq> ''https'' \<or> url_Host parsed = []
          then Some ''must use http or https and include a host''
          else if url_User parsed \<noteq> [] \<or> url_RawQuery parsed \<noteq> [] \<or> url_Fragment parsed \<noteq> []
          then Some ''must not include userinfo, query, or fragment''
          else None)"

definition controlValidateListenAddr :: "string \<Rightarrow> string option" where
  "controlValidateListenAddr val =
     (if TrimSpace val = [] then Some ''must not be empty''
      else case SplitHostPort val of
             None \<Rightarrow> Some ''must be a listen address such as :8082 or 127.0.0.1:8082''
           | Some (host, port) \<Rightarrow>
               (case Atoi port of
                  None \<Rightarrow> Some ''must include a TCP port between 1 and 65535''
                | Some parsed \<Rightarrow>
                    if parsed \<le> 0 \<or> parsed > 65535 then Some ''must include a TCP port between 1 and 65535''
                    else None))"

definition validateHostPortAddr :: "string \<Rightarrow> string option" where
  "validateHostPortAddr val =
     (case SplitHostPort val of
        None \<Rightarrow> Some (''must be a '' @ [CHR 0x22] @ ''host:port'' @ [CHR 0x22] @ '' address'')
      | Some (host, port) \<Rightarrow>
          (case Atoi port of
             None \<Rightarrow> Some ''must include a TCP port between 1 and 65535''
           | Some parsed \<Rightarrow>
               if parsed \<le> 0 \<or> parsed > 65535 then Some ''must include a TCP port between 1 and 65535''
               else None))"

definition controlLooksLikePlaceholderSecret :: "(string \<Rightarrow> string) \<Rightarrow> string \<Rightarrow> bool" where
  "controlLooksLikePlaceholderSecret uc val0 =
     (let val = ToLower uc (TrimSpace val0) in
      val = [] \<or> Contains val ''change-me'' \<or> Contains val ''changeme'' \<or> Contains val ''dev-token'')"

text \<open>The errors of \<open>ValidateConfig\<close> in three groups, in the order in which they are reported.\<close>

definition secretErrors :: "(string \<Rightarrow> string) \<Rightarrow> ControlConfig \<Rightarrow> bool \<Rightarrow> ConfigValidationProblem list" where
  "secretErrors uc cfg production =
     (if TrimSpace (kc_AdminToken cfg) = []
      then problemIf production ''PORTHOOK_CONTROL_ADMIN_TOKEN'' ''is required in production mode''
      else problemIf (production \<and> controlLooksLikePlaceholderSecret uc (kc_AdminToken cfg))
             ''PORTHOOK_CONTROL_ADMIN_TOKEN'' ''must be replaced with a generated secret in production mode'') @
     (if TrimSpace (kc_ValidatorToken cfg) = []
      then problemIf production ''PORTHOOK_CONTROL_VALIDATOR_TOKEN'' ''is required in production mode''
      else problemIf (production \<and> controlLooksLikePlaceholderSecret uc (kc_ValidatorToken cfg))
             ''PORTHOOK_CONTROL_VALIDATOR_TOKEN'' ''must be replaced with a generated secret in production mode'') @
     problemIf (kc_AdminToken cfg \<noteq> [] \<and> kc_AdminToken cfg = kc_ValidatorToken cfg \<and> production)
       ''PORTHOOK_CONTROL_VALIDATOR_TOKEN'' ''must be different from PORTHOOK_CONTROL_ADMIN_TOKEN in production mode''"

definition gatewayManagementErrors ::
  "(string \<Rightarrow> string) \<Rightarrow> urls \<Rightarrow> ControlConfig \<Rightarrow> bool \<Rightarrow> ConfigValidationProblem list" where
  "gatewayManagementErrors uc u cfg production =
     (let configured = (TrimSpace (kc_GatewayManagementURL cfg) \<noteq> []);
          tokenConfigured = (TrimSpace (kc_GatewayManagementToken cfg) \<noteq> []) in
      (if \<not> configured
       then problemIf production ''PORTHOOK_GATEWAY_MANAGEMENT_URL'' ''is required in production mode''
       else problemOf (controlValidateHTTPURL u (kc_GatewayManagementURL cfg)) ''PORTHOOK_GATEWAY_MANAGEMENT_URL'') @
      (if \<not> tokenConfigured
       then problemIf (configured \<or> production) ''PORTHOOK_GATEWAY_MANAGEMENT_TOKEN''
              ''is required when gateway management is configured''
       else problemIf (production \<and> controlLooksLikePlaceholderSecret uc (kc_GatewayManagementToken cfg))
              ''PORTHOOK_GATEWAY_MANAGEMENT_TOKEN'' ''must be replaced with a generated secret in production mode'') @
      problemIf (production \<and> tokenConfigured \<and>
                 (kc_GatewayManagementToken cfg = kc_AdminToken cfg \<or> kc_GatewayManagementToken cfg = kc_ValidatorToken cfg))
        ''PORTHOOK_GATEWAY_MANAGEMENT_TOKEN''
        ''must be different from control-plane admin and validator tokens in production mode'')"

definition controlRangeErrors :: "ControlConfig \<Rightarrow> bool \<Rightarrow> ConfigValidationProblem list" where
  "controlRangeErrors cfg production =
     problemIf (kc_GatewayManagementTimeout cfg \<le> 0) ''PORTHOOK_GATEWAY_MANAGEMENT_TIMEOUT'' ''must be positive'' @
     problemIf (TrimSpace (kc_DatabaseURL cfg) = [] \<and> production) ''PORTHOOK_DATABASE_URL'' ''is required in production mode'' @
     problemIf (kc_AuditEventRetention cfg < 0) ''PORTHOOK_AUDIT_EVENT_RETENTION'' ''must not be negative'' @
     problemIf (kc_AuditEventPruneInterval cfg < 0) ''PORTHOOK_AUDIT_EVENT_PRUNE_INTERVAL'' ''must not be negative'' @
     (let resolverAddr = TrimSpace (kc_DNSResolverAddr cfg) in
      if resolverAddr = [] then [] else problemOf (validateHostPortAddr resolverAddr) ''PORTHOOK_DNS_RESOLVER_ADDR'') @
     problemIf (kc_ShutdownTimeout cfg \<le> 0) ''PORTHOOK_SHUTDOWN_TIMEOUT'' ''must be positive'' @
     problemIf (kc_DBMaxOpenConns cfg \<le> 0) ''PORTHOOK_DB_MAX_OPEN_CONNS'' ''must be positive'' @
     problemIf (kc_DBMaxIdleConns cfg < 0) ''PORTHOOK_DB_MAX_IDLE_CONNS'' ''must not be negative'' @
     problemIf (kc_DBConnMaxLifetime cfg < 0) ''PORTHOOK_DB_CONN_MAX_LIFETIME'' ''must not be negative'' @
     problemIf (kc_DBConnMaxIdleTime cfg < 0) ''PORTHOOK_DB_CONN_MAX_IDLE_TIME'' ''must not be negative''"

definition controlWarnings :: "ControlConfig \<Rightarrow> bool \<Rightarrow> ConfigValidationProblem list" where
  "controlWarnings cfg production =
     problemIf (TrimSpace (kc_AdminToken cfg) = [] \<and> \<not> production)
       ''PORTHOOK_CONTROL_ADMIN_TOKEN'' ''is not configured; admin token APIs will be disabled'' @
     problemIf (production \<and> TrimSpace (kc_AdminToken cfg) \<noteq> []) ''PORTHOOK_CONTROL_ADMIN_TOKEN''
       ''is a full-scope bootstrap/recovery token; create scoped admin tokens for routine operations and keep this value offline'' @
     problemIf (TrimSpace (kc_ValidatorToken cfg) = [] \<and> \<not> production)
       ''PORTHOOK_CONTROL_VALIDATOR_TOKEN'' ''is not configured; gateway token validation will be disabled'' @
     problemIf (kc_AdminToken cfg \<noteq> [] \<and> kc_AdminToken cfg = kc_ValidatorToken cfg \<and> \<not> production)
       ''PORTHOOK_CONTROL_VALIDATOR_TOKEN'' ''matches PORTHOOK_CONTROL_ADMIN_TOKEN'' @
     problemIf (TrimSpace (kc_GatewayManagementURL cfg) = [] \<and> \<not> production)
       ''PORTHOOK_GATEWAY_MANAGEMENT_URL'' ''is not configured; gateway operator APIs will be disabled'' @
     problemIf (TrimSpace (kc_DatabaseURL cfg) = [] \<and> \<not> production)
       ''PORTHOOK_DATABASE_URL'' ''is not configured; control-plane data will be in-memory only'' @
     problemIf (kc_DBMaxOpenConns cfg > 0 \<and> kc_DBMaxIdleConns cfg > kc_DBMaxOpenConns cfg) ''PORTHOOK_DB_MAX_IDLE_CONNS''
       ''exceeds PORTHOOK_DB_MAX_OPEN_CONNS; database/sql will reduce it to match, so the configured value has no effect''"

text \<open>\<open>ValidateConfig\<close>; \<open>perr\<close> is the text of the error of \<open>netip.ParsePrefix\<close>.\<close>

definition controlValidateConfig ::
  "(string \<Rightarrow> string) \<Rightarrow> (string \<Rightarrow> string) \<Rightarrow> (string \<Rightarrow> string) \<Rightarrow> urls \<Rightarrow> ControlConfig \<Rightarrow> bool \<Rightarrow> ConfigValidationReport" where
  "controlValidateConfig uc quo perr u cfg0 production =
     (let cfg = cfg0\<lparr>kc_Addr := ifEmpty (kc_Addr cfg0) controlDefaultAddr\<rparr> in
      \<lparr>rp_Errors =
         problemOf (controlValidateListenAddr (kc_Addr cfg)) ''PORTHOOK_CONTROL_ADDR'' @
         (case ParseTrustedProxies (kc_TrustedProxies cfg) of
            Inl e \<Rightarrow> [\<lparr>pb_Field = ''PORTHOOK_TRUSTED_PROXIES'',
                        pb_Message = (case e of BadTrustedProxy f \<Rightarrow> ''parse trusted proxy '' @ quo f @ '': '' @ perr f)\<rparr>]
          | Inr ps \<Rightarrow> problemIf (production \<and> TrimSpace (kc_TrustedProxies cfg) = [])
                        ''PORTHOOK_TRUSTED_PROXIES'' ''is required in production mode'') @
         secretErrors uc cfg production @
         gatewayManagementErrors uc u cfg production @
         controlRangeErrors cfg production,
       rp_Warnings = controlWarnings cfg production\<rparr>)"

end
