(* ===== verification/ControlBase.thy ===== *)
theory ControlBase
  imports ControlConfig Tokens AdminTokens Reserved CustomDomains Access AuditLog PublicBase
begin

text \<open>
  The server of the control plane (\<open>server.go\<close> and \<open>metrics.go\<close> of \<open>controlplane\<close>): its state over the
  memory stores of its services, the authorisation of a request, the audit trail, and the coding of
  bodies.  The handlers are in the theory \<open>ControlPlane\<close>.

  What a request sees of its surroundings is the record \<open>kio\<close>: the readings of the clock when the
  admin token is checked, when the service runs and when the event is logged, the random source, the
  orders in which Go visits the maps, the query parameters, DNS, and the gateway behind the operator
  API.  The record \<open>kenv\<close> has what is fixed.  The logger is not modelled.
\<close>

section \<open>Bodies\<close>

record evaluateAccessPolicyResponse =
  er_Allowed :: bool
  er_Mode :: PolicyMode
  er_Reason :: string

record lookupCustomDomainResponse =
  lc_Found :: bool
  lc_Reason :: string
  lc_Hostname :: string
  lc_CustomDomainID :: string
  lc_ReservedSubdomainID :: string
  lc_Subdomain :: string
  lc_Status :: "DomainStatus option"

record statusResponse =
  sr_Status :: string
  sr_Ready :: bool
  sr_Version :: string
  sr_Error :: string

record auditEventsResponse =
  ar_Events :: "AuditEvent list"
  ar_NextCursor :: string
  ar_Filters :: auditEventFiltersResponse

datatype control_payload =
    StatusPayload statusResponse
  | EventsPayload auditEventsResponse
  | AdminTokensPayload "AdminTokenSummary list"
  | AdminTokenPayload AdminCreatedToken
  | TokensPayload "TokenSummary list"
  | TokenPayload CreatedToken
  | ValidationPayload ValidationResult
  | ReservationsPayload "ReservationRecord list"
  | ReservationPayload ReservationRecord
  | AuthorizationPayload AuthorizationResult
  | PoliciesPayload "PolicySummary list"
  | PolicyPayload PolicySummary
  | EvaluationPayload evaluateAccessPolicyResponse
  | DomainsPayload "DomainSummary list"
  | DomainPayload DomainSummary
  | LookupPayload lookupCustomDomainResponse

text \<open>
  \<open>encoding/json\<close>: \<open>cj_next\<close> finds the next value at the start of the bytes that were read, where the
  flag says that the end of the input was reached, and returns its bytes and those behind it;
  \<^term>\<open>ScanMore\<close> means that the bytes hold no complete value.  The other fields convert a value to
  and from a Go type, refusing unknown fields; \<open>cj_readError\<close> is the text of an error of the connection.
\<close>

datatype json_scan = ScanValue bytes bytes | ScanSyntax string | ScanMore

record control_json =
  cj_next :: "bytes \<Rightarrow> bool \<Rightarrow> json_scan"
  cj_any :: "bytes \<Rightarrow> string option"
  cj_readError :: string
  cj_createToken :: "bytes \<Rightarrow> string + string \<times> string list"
  cj_validate :: "bytes \<Rightarrow> string + validateTokenRequest"
  cj_reserve :: "bytes \<Rightarrow> string + string \<times> string"
  cj_authorize :: "bytes \<Rightarrow> string + authorizeReservedSubdomainRequest"
  cj_createPolicy :: "bytes \<Rightarrow> string + CreatePolicyRequest"
  cj_updatePolicy :: "bytes \<Rightarrow> string + UpdatePolicyRequest"
  cj_evaluate :: "bytes \<Rightarrow> string + accessPolicyEvaluationRequest"
  cj_createDomain :: "bytes \<Rightarrow> string + string \<times> string"
  cj_lookup :: "bytes \<Rightarrow> string + string"
  cj_payload :: "control_payload \<Rightarrow> bytes"

section \<open>State\<close>

record controlMetrics =
  km_tokenAdminCreatesTotal :: uint64
  km_tokenAdminListsTotal :: uint64
  km_tokenAdminRevokesTotal :: uint64
  km_tokenValidationsTotal :: uint64
  km_tokenValidationValidTotal :: uint64
  km_tokenValidationInvalidTotal :: uint64
  km_tokenValidationErrorsTotal :: uint64
  km_reservationAdminCreatesTotal :: uint64
  km_reservationAdminListsTotal :: uint64
  km_reservationAdminDeletesTotal :: uint64
  km_reservationAuthorizationsTotal :: uint64
  km_reservationAuthorizationAllowedTotal :: uint64
  km_reservationAuthorizationDeniedTotal :: uint64
  km_accessPolicyAdminCreatesTotal :: uint64
  km_accessPolicyAdminListsTotal :: uint64
  km_accessPolicyAdminUpdatesTotal :: uint64
  km_accessPolicyAdminDeletesTotal :: uint64
  km_accessPolicyEvaluationsTotal :: uint64
  km_accessPolicyEvaluationAllowedTotal :: uint64
  km_accessPolicyEvaluationDeniedTotal :: uint64
  km_accessPolicyEvaluationErrorsTotal :: uint64
  km_customDomainAdminCreatesTotal :: uint64
  km_customDomainAdminListsTotal :: uint64
  km_customDomainAdminDeletesTotal :: uint64
  km_customDomainLookupsTotal :: uint64
  km_customDomainLookupHitsTotal :: uint64
  km_customDomainLookupMissesTotal :: uint64
  km_customDomainLookupErrorsTotal :: uint64
  km_authFailuresTotal :: uint64
  km_readinessFailuresTotal :: uint64
  km_requestDuration :: Histogram

record ControlServer =
  ks_cfg :: ControlConfig
  ks_service :: TokenStore
  ks_reservations :: ReservationStore
  ks_accessPolicies :: PolicyStore
  ks_customDomains :: DomainStore
  ks_adminTokens :: AdminTokenStore
  ks_metrics :: controlMetrics
  ks_startedAt :: gotime
  ks_auditEvents :: MemoryAuditEventStore
  ks_clientIPs :: Resolver

record kenv =
  ke_sha :: "bytes \<Rightarrow> bytes"
  ke_uc :: "string \<Rightarrow> string"
  ke_a2 :: argon2
  ke_quo :: "string \<Rightarrow> string"
  ke_url :: urls
  ke_fl :: "rat \<Rightarrow> rat"
  ke_ff :: "rat \<Rightarrow> string"
  ke_json :: control_json
  ke_randText :: string
  ke_parseTime :: "string \<Rightarrow> gotime option"
  ke_formatTime :: "gotime \<Rightarrow> string"
  ke_formatG :: "rat \<Rightarrow> string"
  ke_durationText :: "duration \<Rightarrow> string"
  ke_marCursor :: "auditEventCursor \<Rightarrow> bytes option"
  ke_unmCursor :: "bytes \<Rightarrow> auditEventCursor option"

record kio =
  ki_authNow :: gotime
  ki_opNow :: gotime
  ki_logNow :: gotime
  ki_elapsed :: duration
  ki_rand :: "nat \<Rightarrow> nat \<Rightarrow> bytes option"
  ki_requestIDRand :: "nat \<Rightarrow> bytes option"
  ki_tokenOrder :: "string list"
  ki_adminTokenOrder :: "string list"
  ki_reservationOrder :: "string list"
  ki_policyOrder :: "string list"
  ki_domainOrder :: "string list"
  ki_fieldOrder :: "AuditEvent \<Rightarrow> string list"
  ki_query :: "string \<Rightarrow> string"
  ki_lookupTXT :: "string \<Rightarrow> string list option"
  ki_gateway :: "http_request \<Rightarrow> (int \<times> http_header \<times> bytes) option"
  ki_dashboard :: "responseWriter \<Rightarrow> responseWriter"
  ki_redirect :: "responseWriter \<Rightarrow> responseWriter"
  ki_process :: processStats

definition newControlMetrics :: "(rat \<Rightarrow> rat) \<Rightarrow> controlMetrics" where
  "newControlMetrics rnd =
     \<lparr>km_tokenAdminCreatesTotal = 0, km_tokenAdminListsTotal = 0, km_tokenAdminRevokesTotal = 0,
      km_tokenValidationsTotal = 0, km_tokenValidationValidTotal = 0, km_tokenValidationInvalidTotal = 0,
      km_tokenValidationErrorsTotal = 0, km_reservationAdminCreatesTotal = 0, km_reservationAdminListsTotal = 0,
      km_reservationAdminDeletesTotal = 0, km_reservationAuthorizationsTotal = 0,
      km_reservationAuthorizationAllowedTotal = 0, km_reservationAuthorizationDeniedTotal = 0,
      km_accessPolicyAdminCreatesTotal = 0, km_accessPolicyAdminListsTotal = 0, km_accessPolicyAdminUpdatesTotal = 0,
      km_accessPolicyAdminDeletesTotal = 0, km_accessPolicyEvaluationsTotal = 0,
      km_accessPolicyEvaluationAllowedTotal = 0, km_accessPolicyEvaluationDeniedTotal = 0,
      km_accessPolicyEvaluationErrorsTotal = 0, km_customDomainAdminCreatesTotal = 0, km_customDomainAdminListsTotal = 0,
      km_customDomainAdminDeletesTotal = 0, km_customDomainLookupsTotal = 0, km_customDomainLookupHitsTotal = 0,
      km_customDomainLookupMissesTotal = 0, km_customDomainLookupErrorsTotal = 0, km_authFailuresTotal = 0,
      km_readinessFailuresTotal = 0, km_requestDuration = NewHistogram (DefaultLatencyBuckets rnd)\<rparr>"

text \<open>\<open>NewServer\<close>, which gives every service a memory store.\<close>

definition NewControlServer :: "(rat \<Rightarrow> rat) \<Rightarrow> gotime \<Rightarrow> ControlConfig \<Rightarrow> ControlServer" where
  "NewControlServer rnd now cfg0 =
     (let cfg = cfg0\<lparr>kc_Addr := ifEmpty (kc_Addr cfg0) controlDefaultAddr,
                     kc_Version := ifEmpty (kc_Version cfg0) ''dev'',
                     kc_GatewayManagementTimeout :=
                       ifNotPositive (kc_GatewayManagementTimeout cfg0) defaultGatewayManagementTimeout\<rparr>;
          trustedProxies = (case ParseTrustedProxies (kc_TrustedProxies cfg) of Inl e \<Rightarrow> [] | Inr ps \<Rightarrow> ps)
      in \<lparr>ks_cfg = cfg, ks_service = NewTokenStore, ks_reservations = NewReservationStore,
          ks_accessPolicies = NewPolicyStore, ks_customDomains = NewDomainStore, ks_adminTokens = NewAdminTokenStore,
          ks_metrics = newControlMetrics rnd, ks_startedAt = now,
          ks_auditEvents = NewMemoryAuditEventStore defaultAuditEventLimit, ks_clientIPs = NewResolver trustedProxies\<rparr>)"

text \<open>\<open>Add(1)\<close> on a counter, which is named by its update function.\<close>

definition bump :: "((uint64 \<Rightarrow> uint64) \<Rightarrow> controlMetrics \<Rightarrow> controlMetrics) \<Rightarrow> ControlServer \<Rightarrow> ControlServer" where
  "bump upd s = s\<lparr>ks_metrics := upd (\<lambda>n. n + 1) (ks_metrics s)\<rparr>"

section \<open>Texts of errors\<close>

fun tokenErrorText :: "kenv \<Rightarrow> token_error \<Rightarrow> string" where
  "tokenErrorText E TokenStoreRequired = ''token store is required''"
| "tokenErrorText E ErrTokenAlreadyExists = ''token already exists''"
| "tokenErrorText E ErrTokenNameRequired = ''token name is required''"
| "tokenErrorText E (ErrUnsupportedScope sc) = ''unsupported token scope '' @ ke_quo E sc"
| "tokenErrorText E TokenSecret = ''generate token secret: '' @ ke_randText E"

fun adminTokenErrorText :: "kenv \<Rightarrow> admin_token_error \<Rightarrow> string" where
  "adminTokenErrorText E AdminTokenStoreRequired = ''admin token store is required''"
| "adminTokenErrorText E ErrAdminTokenAlreadyExists = ''admin token already exists''"
| "adminTokenErrorText E ErrAdminTokenNameRequired = ''admin token name is required''"
| "adminTokenErrorText E (ErrUnsupportedAdminScope sc) = ''unsupported admin token scope '' @ ke_quo E sc"
| "adminTokenErrorText E AdminTokenSecret = ''generate admin token secret: '' @ ke_randText E"

fun nameErrorText :: "kenv \<Rightarrow> name_error \<Rightarrow> string" where
  "nameErrorText E SubdomainRequired = ''subdomain is required''"
| "nameErrorText E SubdomainTooLong = ''subdomain must be at most '' @ showNat MaxSubdomainLength @ '' characters''"
| "nameErrorText E SubdomainHyphen = ''subdomain cannot start or end with hyphen''"
| "nameErrorText E SubdomainCharacter = ''subdomain can contain only lowercase ASCII letters, numbers, and hyphens''"
| "nameErrorText E RandomLength = ''random subdomain length must be between 1 and '' @ showNat MaxSubdomainLength"
| "nameErrorText E RandomSource = ''generate random subdomain: '' @ ke_randText E"

fun reservedErrorText :: "kenv \<Rightarrow> reserved_error \<Rightarrow> string" where
  "reservedErrorText E ReservedStoreRequired = ''reserved subdomain store is required''"
| "reservedErrorText E ErrReservationAlreadyExists = ''reserved subdomain already exists''"
| "reservedErrorText E ErrReservationNameRequired = ''reserved subdomain name is required''"
| "reservedErrorText E ErrReservationTokenIDRequired = ''reserved subdomain token_id is required''"
| "reservedErrorText E ErrReservationNotFound = ''reserved subdomain not found''"
| "reservedErrorText E (InvalidReservedSubdomain name e) =
     ''invalid reserved subdomain '' @ ke_quo E name @ '': '' @ nameErrorText E e"
| "reservedErrorText E ReservationSecret = ''generate reserved subdomain id: '' @ ke_randText E"

text \<open>
  A panic of the key derivation ends the request before a text is needed; a malformed hash is
  dropped by the check that meets it.
\<close>

fun accessErrorText :: "kenv \<Rightarrow> access_error \<Rightarrow> string" where
  "accessErrorText E PolicyStoreRequired = ''access policy store is required''"
| "accessErrorText E ErrPolicyAlreadyExists = ''access policy already exists''"
| "accessErrorText E ErrPolicyReservedSubdomainIDRequired = ''reserved_subdomain_id is required''"
| "accessErrorText E ErrPolicyModeRequired = ''access policy mode is required''"
| "accessErrorText E (ErrPolicyModeUnsupported mode) = ''unsupported access policy mode '' @ ke_quo E mode"
| "accessErrorText E ErrPolicySecretRequired = ''access policy secret is required''"
| "accessErrorText E ErrPolicyBasicUsernameRequired = ''basic auth username is required''"
| "accessErrorText E ErrPolicyIPAllowlistRequired = ''ip allowlist is required''"
| "accessErrorText E (InvalidAllowlistEntry v) = ''invalid ip allowlist entry '' @ ke_quo E v"
| "accessErrorText E ErrPolicyNotFound = ''access policy not found''"
| "accessErrorText E (PolicyHash e) = ''generate password salt: '' @ ke_randText E"
| "accessErrorText E PolicySecret = ''generate access policy id: '' @ ke_randText E"

fun labelErrorText :: "label_error \<Rightarrow> string" where
  "labelErrorText LabelEmpty = ''hostname labels cannot be empty''"
| "labelErrorText LabelTooLong = ''hostname labels must be at most 63 characters''"
| "labelErrorText LabelHyphen = ''hostname labels cannot start or end with hyphen''"
| "labelErrorText LabelCharacter =
     ''hostname labels can contain only lowercase ASCII letters, numbers, and hyphens''"

text \<open>The detail that \<open>NormalizeHostname\<close> appends is a function of the host name it refuses.\<close>

definition invalidHostnameDetail :: "string \<Rightarrow> string" where
  "invalidHostnameDetail hostname =
     (if Contains hostname '':'' \<or> Contains hostname ''*'' then []
      else if length hostname > 253 then '': hostname must be at most 253 characters''
      else if \<not> Contains hostname ''.'' then '': hostname must contain at least one dot''
      else case find (\<lambda>label. validateHostnameLabel label \<noteq> None) (Split hostname CHR ''.'') of
             None \<Rightarrow> []
           | Some label \<Rightarrow> '': '' @ labelErrorText (the (validateHostnameLabel label)))"

text \<open>The flag says that the identifier of the domain was drawn, so that its token failed.\<close>

fun domainErrorText :: "kenv \<Rightarrow> bool \<Rightarrow> domain_error \<Rightarrow> string" where
  "domainErrorText E idDrawn DomainStoreRequired = ''custom domain store is required''"
| "domainErrorText E idDrawn ErrDomainAlreadyExists = ''custom domain already exists''"
| "domainErrorText E idDrawn ErrDomainHostnameRequired = ''custom domain hostname is required''"
| "domainErrorText E idDrawn ErrDomainReservedSubdomainIDRequired = ''reserved_subdomain_id is required''"
| "domainErrorText E idDrawn (ErrDomainInvalidHostname h) =
     ''invalid custom domain hostname '' @ ke_quo E h @ invalidHostnameDetail h"
| "domainErrorText E idDrawn ErrDomainNotFound = ''custom domain not found''"
| "domainErrorText E idDrawn VerificationTokenEmpty = ''custom domain verification token is empty''"
| "domainErrorText E idDrawn DomainSecret =
     (if idDrawn then ''generate custom domain verification token: '' else ''generate custom domain id: '') @ ke_randText E"

fun domainStatusText :: "DomainStatus \<Rightarrow> string" where
  "domainStatusText StatusPendingVerification = ''pending_verification''"
| "domainStatusText StatusActive = ''active''"
| "domainStatusText StatusVerificationFailed = ''verification_failed''"

fun auditErrorText :: "audit_error \<Rightarrow> string" where
  "auditErrorText AuditBadSince = ''since must be an RFC3339 timestamp''"
| "auditErrorText AuditBadUntil = ''until must be an RFC3339 timestamp''"
| "auditErrorText AuditSinceAfterUntil = ''since must be before until''"
| "auditErrorText AuditBadCursor = ''cursor is invalid''"

fun isTokenRequestError :: "token_error \<Rightarrow> bool" where
  "isTokenRequestError ErrTokenNameRequired = True"
| "isTokenRequestError (ErrUnsupportedScope sc) = True"
| "isTokenRequestError e = False"

fun isAdminTokenRequestError :: "admin_token_error \<Rightarrow> bool" where
  "isAdminTokenRequestError ErrAdminTokenNameRequired = True"
| "isAdminTokenRequestError (ErrUnsupportedAdminScope sc) = True"
| "isAdminTokenRequestError e = False"

definition isReservationRequestError :: "kenv \<Rightarrow> reserved_error \<Rightarrow> bool" where
  "isReservationRequestError E e \<longleftrightarrow>
     e = ErrReservationNameRequired \<or> e = ErrReservationTokenIDRequired \<or>
     Contains (reservedErrorText E e) ''invalid reserved subdomain''"

definition isAccessPolicyRequestError :: "kenv \<Rightarrow> access_error \<Rightarrow> bool" where
  "isAccessPolicyRequestError E e \<longleftrightarrow>
     e = ErrPolicyReservedSubdomainIDRequired \<or> e = ErrPolicyModeRequired \<or> (case e of ErrPolicyModeUnsupported mode \<Rightarrow> True | _ \<Rightarrow> False) \<or>
     e = ErrPolicySecretRequired \<or> e = ErrPolicyBasicUsernameRequired \<or> e = ErrPolicyIPAllowlistRequired \<or>
     Contains (accessErrorText E e) ''invalid ip allowlist''"

fun isCustomDomainRequestError :: "domain_error \<Rightarrow> bool" where
  "isCustomDomainRequestError ErrDomainHostnameRequired = True"
| "isCustomDomainRequestError ErrDomainReservedSubdomainIDRequired = True"
| "isCustomDomainRequestError (ErrDomainInvalidHostname h) = True"
| "isCustomDomainRequestError e = False"

section \<open>Requests and responses\<close>

definition controlClientIP :: "ControlServer \<Rightarrow> httpRequest \<Rightarrow> string" where
  "controlClientIP s r = ResolveString (ks_clientIPs s) (r_RemoteAddr r) (r_Header r)"

definition controlWriteJSON :: "kenv \<Rightarrow> int \<Rightarrow> control_payload \<Rightarrow> responseWriter \<Rightarrow> responseWriter" where
  "controlWriteJSON E st payload w =
     writeBytes (cj_payload (ke_json E) payload) (WriteHeader st (setHeader ''Content-Type'' ''application/json'' w))"

definition controlMethodNotAllowed :: "string \<Rightarrow> responseWriter \<Rightarrow> responseWriter" where
  "controlMethodNotAllowed allowed w = WriteHeader 405 (setHeader ''Allow'' allowed w)"

text \<open>\<open>http.NotFound\<close>\<close>

definition httpNotFound :: "responseWriter \<Rightarrow> responseWriter" where
  "httpNotFound w = httpError ''404 page not found'' 404 w"

definition maxJSONBodyBytes :: nat where
  "maxJSONBodyBytes = 1048576"

text \<open>
  What \<open>http.MaxBytesReader\<close> yields of a body: the bytes up to the limit, and how the reads end.
\<close>

datatype body_end = BodyEOF | BodyTooLarge | BodyFailed

definition limitedBody :: "(bytes \<times> read_end option) list option \<Rightarrow> bytes \<times> body_end" where
  "limitedBody body =
     (let reads = (case body of None \<Rightarrow> [] | Some rs \<Rightarrow> rs);
          whole = concat (map fst reads);
          failed = list_ex (\<lambda>x. case snd x of Some (ReadFailed c) \<Rightarrow> True | _ \<Rightarrow> False) reads
      in (take maxJSONBodyBytes whole,
          if length whole > maxJSONBodyBytes then BodyTooLarge else if failed then BodyFailed else BodyEOF))"

definition jsonBlank :: "bytes \<Rightarrow> bool" where
  "jsonBlank b = list_all (\<lambda>c. c = CHR '' '' \<or> c = CHR 0x09 \<or> c = CHR 0x0D \<or> c = CHR 0x0A) b"

text \<open>
  One \<open>Decode\<close>: the value with the bytes behind it, or the error, of which \<open>io.EOF\<close> and the error of
  the limit are told apart.
\<close>

datatype decode_error = DecodeEOF | DecodeTooLarge | DecodeFailed string

definition decodeNext ::
  "control_json \<Rightarrow> (bytes \<Rightarrow> string + 'a) \<Rightarrow> bytes \<Rightarrow> body_end \<Rightarrow> decode_error + 'a \<times> bytes" where
  "decodeNext js un data fin =
     (case cj_next js data (fin = BodyEOF) of
        ScanSyntax e \<Rightarrow> Inl (DecodeFailed e)
      | ScanMore \<Rightarrow>
          Inl (case fin of
                 BodyTooLarge \<Rightarrow> DecodeTooLarge
               | BodyFailed \<Rightarrow> DecodeFailed (cj_readError js)
               | BodyEOF \<Rightarrow> if jsonBlank data then DecodeEOF else DecodeFailed ''unexpected EOF'')
      | ScanValue v rest \<Rightarrow> (case un v of Inl e \<Rightarrow> Inl (DecodeFailed e) | Inr x \<Rightarrow> Inr (x, rest)))"

definition anyJSON :: "control_json \<Rightarrow> bytes \<Rightarrow> string + unit" where
  "anyJSON js v = (case cj_any js v of None \<Rightarrow> Inr () | Some e \<Rightarrow> Inl e)"

definition decodeJSON ::
  "control_json \<Rightarrow> (bytes \<Rightarrow> string + 'a) \<Rightarrow> (bytes \<times> read_end option) list option \<Rightarrow> string + 'a" where
  "decodeJSON js un body =
     (case limitedBody body of
        (data, fin) \<Rightarrow>
          (case decodeNext js un data fin of
             Inl DecodeTooLarge \<Rightarrow> Inl (''json body is too large: maximum '' @ showNat maxJSONBodyBytes @ '' bytes'')
           | Inl DecodeEOF \<Rightarrow> Inl ''json body is required''
           | Inl (DecodeFailed e) \<Rightarrow> Inl (''invalid json: '' @ e)
           | Inr (x, rest) \<Rightarrow>
               (case decodeNext js (anyJSON js) rest fin of
                  Inl DecodeEOF \<Rightarrow> Inr x
                | Inl DecodeTooLarge \<Rightarrow> Inl ''invalid json: http: request body too large''
                | Inl (DecodeFailed e) \<Rightarrow> Inl (''invalid json: '' @ e)
                | Inr y \<Rightarrow> Inl ''invalid json: multiple json values'')))"

section \<open>Audit trail\<close>

text \<open>
  The values of \<open>slog\<close> attributes; a value of kind \<open>Any\<close> is a slice of strings or an error here, and
  \<open>fmt.Sprint\<close> prints the one between brackets and the other as its text.
\<close>

datatype attr_value =
    AttrString string
  | AttrBool bool
  | AttrInt int
  | AttrUint uint64
  | AttrFloat rat
  | AttrDuration duration
  | AttrTime gotime
  | AttrStrings "string list"
  | AttrError string

fun auditEventFieldValue :: "kenv \<Rightarrow> attr_value \<Rightarrow> string" where
  "auditEventFieldValue E (AttrString s) = s"
| "auditEventFieldValue E (AttrBool b) = (if b then ''true'' else ''false'')"
| "auditEventFieldValue E (AttrInt n) = showInt n"
| "auditEventFieldValue E (AttrUint n) = showNat (unat n)"
| "auditEventFieldValue E (AttrFloat x) = ke_formatG E x"
| "auditEventFieldValue E (AttrDuration d) = ke_durationText E d"
| "auditEventFieldValue E (AttrTime t) = ke_formatTime E t"
| "auditEventFieldValue E (AttrStrings xs) = ''['' @ Join xs '' '' @ '']''"
| "auditEventFieldValue E (AttrError e) = e"

definition auditEventFields :: "kenv \<Rightarrow> (string \<times> attr_value) list \<Rightarrow> string \<rightharpoonup> string" where
  "auditEventFields E attrs =
     fold (\<lambda>(key, val) fs. if key = [] then fs else fs(key \<mapsto> auditEventFieldValue E val)) attrs Map.empty"

datatype log_level = LevelInfo | LevelWarn

fun levelText :: "log_level \<Rightarrow> string" where
  "levelText LevelInfo = ''INFO''"
| "levelText LevelWarn = ''WARN''"

definition logAudit ::
  "kenv \<Rightarrow> kio \<Rightarrow> httpRequest \<Rightarrow> log_level \<Rightarrow> string \<Rightarrow> string \<Rightarrow> (string \<times> attr_value) list \<Rightarrow> ControlServer \<Rightarrow> ControlServer" where
  "logAudit E io r level msg event attrs s =
     s\<lparr>ks_auditEvents := auditAdd (ks_auditEvents s)
        \<lparr>ae_ID = 0, ae_Time = ki_logNow io, ae_Level = levelText level, ae_Message = msg, ae_Event = event,
         ae_Method = r_Method r, ae_Path = r_Path r, ae_RemoteIP = controlClientIP s r, ae_RequestID = requestID r,
         ae_Fields = auditEventFields E attrs\<rparr>\<rparr>"

section \<open>Authorisation\<close>

record adminAuthorization =
  aa_Authenticated :: bool
  aa_Authorized :: bool
  aa_Source :: string
  aa_TokenID :: string
  aa_TokenName :: string
  aa_Scopes :: "string list"

definition noAuthorization :: adminAuthorization where
  "noAuthorization = \<lparr>aa_Authenticated = False, aa_Authorized = False, aa_Source = [], aa_TokenID = [],
     aa_TokenName = [], aa_Scopes = []\<rparr>"

definition controlSecretEqual :: "(bytes \<Rightarrow> bytes) \<Rightarrow> string \<Rightarrow> string \<Rightarrow> bool" where
  "controlSecretEqual sha256 got want = (if got = [] \<or> want = [] then False else sha256 got = sha256 want)"

definition controlBearerToken :: "httpRequest \<Rightarrow> string \<times> bool" where
  "controlBearerToken r =
     (case CutPrefix (hdrGet (r_Header r) ''Authorization'') ''Bearer '' of
        (tok, ok) \<Rightarrow> (TrimSpace tok, ok \<and> TrimSpace tok \<noteq> []))"

definition authorizedBearer :: "kenv \<Rightarrow> httpRequest \<Rightarrow> string \<Rightarrow> bool" where
  "authorizedBearer E r configuredToken =
     (if configuredToken = [] then False
      else case controlBearerToken r of (tok, ok) \<Rightarrow> ok \<and> controlSecretEqual (ke_sha E) tok configuredToken)"

definition validatorAuthorized :: "kenv \<Rightarrow> ControlServer \<Rightarrow> httpRequest \<Rightarrow> bool" where
  "validatorAuthorized E s r = authorizedBearer E r (kc_ValidatorToken (ks_cfg s))"

definition adminAuthorizationHasScope :: "string list \<Rightarrow> string \<Rightarrow> bool" where
  "adminAuthorizationHasScope scopes required = list_ex (\<lambda>scope. scope = required) scopes"

definition authorizeAdmin ::
  "kenv \<Rightarrow> kio \<Rightarrow> ControlServer \<Rightarrow> httpRequest \<Rightarrow> string list \<Rightarrow> (admin_token_error + adminAuthorization) \<times> ControlServer" where
  "authorizeAdmin E io s r requiredScopes =
     (case controlBearerToken r of
        (tok, ok) \<Rightarrow>
          if \<not> ok then (Inr noAuthorization, s)
          else if kc_AdminToken (ks_cfg s) \<noteq> [] \<and> controlSecretEqual (ke_sha E) tok (kc_AdminToken (ks_cfg s)) then
            (Inr \<lparr>aa_Authenticated = True, aa_Authorized = True, aa_Source = ''bootstrap'', aa_TokenID = [],
                  aa_TokenName = [], aa_Scopes = DefaultScopes\<rparr>, s)
          else case ValidateAdminToken (ke_sha E) (ki_authNow io) (Some (ks_adminTokens s)) tok [] of
                 Inl e \<Rightarrow> (Inl e, s)
               | Inr (result, store) \<Rightarrow>
                   let s1 = s\<lparr>ks_adminTokens := store\<rparr> in
                   if \<not> avr_Valid result then (Inr noAuthorization, s1)
                   else (Inr \<lparr>aa_Authenticated = True,
                              aa_Authorized = list_all (\<lambda>scope. scope = [] \<or> adminAuthorizationHasScope (avr_Scopes result) scope)
                                                requiredScopes,
                              aa_Source = ''admin_token'', aa_TokenID = avr_TokenID result, aa_TokenName = avr_Name result,
                              aa_Scopes = avr_Scopes result\<rparr>, s1))"

text \<open>
  \<open>authorizeAdminRequest\<close>: \<^term>\<open>Inl\<close> is the answer to a request that was refused.
\<close>

definition authFailed ::
  "kenv \<Rightarrow> kio \<Rightarrow> httpRequest \<Rightarrow> (string \<times> attr_value) list \<Rightarrow> ControlServer \<Rightarrow> ControlServer" where
  "authFailed E io r attrs s =
     logAudit E io r LevelWarn ''control-plane authorization failed'' ''control_plane.auth_failed'' attrs
       (bump km_authFailuresTotal_update s)"

definition authorizeAdminRequest ::
  "kenv \<Rightarrow> kio \<Rightarrow> ControlServer \<Rightarrow> httpRequest \<Rightarrow> string list \<Rightarrow> responseWriter
     \<Rightarrow> (responseWriter + adminAuthorization) \<times> ControlServer" where
  "authorizeAdminRequest E io s r requiredScopes w =
     (let configured = (''bootstrap_token_configured'', AttrBool (kc_AdminToken (ks_cfg s) \<noteq> []));
          available = (''admin_token_store_available'', AttrBool True);
          required = (''required_scopes'', AttrStrings requiredScopes);
          surface = (''surface'', AttrString ''admin'')
      in case authorizeAdmin E io s r requiredScopes of
           (Inl e, s1) \<Rightarrow>
             (Inl (httpError ''admin authorization failed'' 500 w),
              authFailed E io r [surface, (''reason'', AttrString ''auth_store_error''), configured, available, required,
                                 (''error'', AttrError (adminTokenErrorText E e))] s1)
         | (Inr auth, s1) \<Rightarrow>
             if \<not> aa_Authenticated auth then
               (Inl (httpError ''unauthorized'' 401 w),
                authFailed E io r [surface, (''reason'', AttrString ''unauthorized''), configured, available, required] s1)
             else if \<not> aa_Authorized auth then
               (Inl (httpError ''forbidden: admin token is missing a required scope'' 403 w),
                authFailed E io r
                  ([surface, (''reason'', AttrString ''insufficient_scope''), configured, available,
                    (''auth_source'', AttrString (aa_Source auth)), required, (''granted_scopes'', AttrStrings (aa_Scopes auth))] @
                   (if aa_TokenID auth \<noteq> [] then [(''admin_token_id'', AttrString (aa_TokenID auth))] else [])) s1)
             else (Inr auth, s1))"

text \<open>The guard of the four endpoints that the gateway calls.\<close>

definition validatorRefused :: "kenv \<Rightarrow> kio \<Rightarrow> ControlServer \<Rightarrow> httpRequest \<Rightarrow> responseWriter \<Rightarrow> responseWriter \<times> ControlServer" where
  "validatorRefused E io s r w =
     (httpError ''unauthorized'' 401 w,
      authFailed E io r [(''surface'', AttrString ''validator''),
                         (''token_configured'', AttrBool (kc_ValidatorToken (ks_cfg s) \<noteq> []))] s)"

end
