(* ===== verification/ControlPlane.thy ===== *)
theory ControlPlane
  imports ControlBase
begin

text \<open>
  The handlers of the control plane (\<open>server.go\<close>, \<open>metrics.go\<close> and \<open>gateway_management.go\<close> of
  \<open>controlplane\<close>) and the mux that chooses among them.  A handler takes the state, the request and the
  response writer, and yields the writer and the state it leaves.
\<close>

section \<open>Guards\<close>

text \<open>The calls of \<open>authorizeAdminRequest\<close>, \<open>validatorAuthorized\<close> and \<open>decodeJSON\<close> that open a handler.\<close>

type_synonym outcome = "responseWriter \<times> ControlServer"

definition withAdmin ::
  "kenv \<Rightarrow> kio \<Rightarrow> string \<Rightarrow> ControlServer \<Rightarrow> httpRequest \<Rightarrow> responseWriter \<Rightarrow> (ControlServer \<Rightarrow> outcome) \<Rightarrow> outcome" where
  "withAdmin E io scope s r w body =
     (case authorizeAdminRequest E io s r [scope] w of
        (Inl w', s1) \<Rightarrow> (w', s1)
      | (Inr auth, s1) \<Rightarrow> body s1)"

definition withValidator ::
  "kenv \<Rightarrow> kio \<Rightarrow> ControlServer \<Rightarrow> httpRequest \<Rightarrow> responseWriter \<Rightarrow> outcome \<Rightarrow> outcome" where
  "withValidator E io s r w body =
     (if \<not> validatorAuthorized E s r then validatorRefused E io s r w else body)"

definition withJSON ::
  "kenv \<Rightarrow> (control_json \<Rightarrow> bytes \<Rightarrow> string + 'a) \<Rightarrow> ControlServer \<Rightarrow> httpRequest \<Rightarrow> responseWriter
     \<Rightarrow> ('a \<Rightarrow> outcome) \<Rightarrow> outcome" where
  "withJSON E un s r w body =
     (case decodeJSON (ke_json E) (un (ke_json E)) (r_Body r) of
        Inl e \<Rightarrow> (httpError e 400 w, s)
      | Inr req \<Rightarrow> body req)"

section \<open>Status and audit events\<close>

text \<open>The stores in memory are always ready.\<close>

definition controlReady :: "ControlServer \<Rightarrow> string option" where
  "controlReady s = None"

definition handleReady :: "ControlServer \<Rightarrow> httpRequest \<Rightarrow> responseWriter \<Rightarrow> outcome" where
  "handleReady s r w =
     (if r_Method r \<noteq> ''GET'' then (controlMethodNotAllowed ''GET'' w, s)
      else case controlReady s of
             Some e \<Rightarrow> (httpError (''not ready: '' @ e) 503 w, bump km_readinessFailuresTotal_update s)
           | None \<Rightarrow> (writeBytes (''ready'' @ newline) (WriteHeader 200 w), s))"

definition handleStatus :: "kenv \<Rightarrow> ControlServer \<Rightarrow> httpRequest \<Rightarrow> responseWriter \<Rightarrow> outcome" where
  "handleStatus E s r w =
     (if r_Method r \<noteq> ''GET'' then (controlMethodNotAllowed ''GET'' w, s)
      else let resp = \<lparr>sr_Status = ''ready'', sr_Ready = True, sr_Version = kc_Version (ks_cfg s), sr_Error = []\<rparr> in
           case controlReady s of
             Some e \<Rightarrow> (controlWriteJSON E 503
                          (StatusPayload (resp\<lparr>sr_Status := ''not_ready'', sr_Ready := False, sr_Error := e\<rparr>)) w, s)
           | None \<Rightarrow> (controlWriteJSON E 200 (StatusPayload resp) w, s))"

definition handleEvents :: "kenv \<Rightarrow> kio \<Rightarrow> ControlServer \<Rightarrow> httpRequest \<Rightarrow> responseWriter \<Rightarrow> outcome" where
  "handleEvents E io s r w =
     (if r_Method r \<noteq> ''GET'' then (controlMethodNotAllowed ''GET'' w, s)
      else withAdmin E io ScopeAuditHistory s r w (\<lambda>s1.
        case auditEventListOptionsFromRequest (ke_uc E) (ke_parseTime E) (ke_unmCursor E) (ki_query io) defaultAuditEventLimit of
          Inl e \<Rightarrow> (httpError (auditErrorText e) 400 w, s1)
        | Inr opts \<Rightarrow>
            let page = auditList (ke_uc E) (ki_fieldOrder io) (ke_marCursor E) (ks_auditEvents s1) opts in
            (controlWriteJSON E 200
               (EventsPayload \<lparr>ar_Events = ap_Events page, ar_NextCursor = ap_NextCursor page,
                  ar_Filters = auditEventFiltersForResponse (ke_formatTime E) opts (TrimSpace (ki_query io ''cursor''))\<rparr>) w,
             logAudit E io r LevelInfo ''control-plane audit events listed'' ''control_plane.audit_events_listed''
               [(''count'', AttrInt (int (length (ap_Events page))))] s1)))"

section \<open>Admin tokens\<close>

definition handleAdminTokens :: "kenv \<Rightarrow> kio \<Rightarrow> ControlServer \<Rightarrow> httpRequest \<Rightarrow> responseWriter \<Rightarrow> outcome" where
  "handleAdminTokens E io s r w =
     (if r_Path r \<noteq> ''/api/v1/admin-tokens'' then (httpNotFound w, s)
      else if r_Method r \<noteq> ''GET'' \<and> r_Method r \<noteq> ''POST'' then (controlMethodNotAllowed ''GET, POST'' w, s)
      else withAdmin E io ScopeAdminTokens s r w (\<lambda>s1.
        if r_Method r = ''GET'' then
          (case ListAdminTokens (Some (ks_adminTokens s1)) (ki_adminTokenOrder io) of
             Inl e \<Rightarrow> (httpError (adminTokenErrorText E e) 500 w, s1)
           | Inr listed \<Rightarrow>
               (controlWriteJSON E 200 (AdminTokensPayload listed) w,
                logAudit E io r LevelInfo ''control-plane admin tokens listed'' ''control_plane.admin_tokens_listed''
                  [(''count'', AttrInt (int (length listed)))] s1))
        else withJSON E cj_createToken s1 r w (\<lambda>(name, scopes).
          case CreateAdminToken (ke_sha E) (ki_rand io) (ki_opNow io) (Some (ks_adminTokens s1)) name scopes of
            Inl e \<Rightarrow> (httpError (adminTokenErrorText E e) (if isAdminTokenRequestError e then 400 else 500) w, s1)
          | Inr (created, store) \<Rightarrow>
              (controlWriteJSON E 201 (AdminTokenPayload created) w,
               logAudit E io r LevelInfo ''control-plane admin token created'' ''control_plane.admin_token_created''
                 [(''admin_token_id'', AttrString (act_ID created)), (''name'', AttrString (act_Name created)),
                  (''scopes'', AttrStrings (act_Scopes created))]
                 (s1\<lparr>ks_adminTokens := store\<rparr>)))))"

definition handleAdminTokenByID :: "kenv \<Rightarrow> kio \<Rightarrow> ControlServer \<Rightarrow> httpRequest \<Rightarrow> responseWriter \<Rightarrow> outcome" where
  "handleAdminTokenByID E io s r w =
     (if r_Method r \<noteq> ''DELETE'' then (controlMethodNotAllowed ''DELETE'' w, s)
      else withAdmin E io ScopeAdminTokens s r w (\<lambda>s1.
        let i = TrimPrefix (r_Path r) ''/api/v1/admin-tokens/'' in
        if i = [] \<or> Contains i ''/'' then (httpNotFound w, s1)
        else case RevokeAdminToken (ki_opNow io) (Some (ks_adminTokens s1)) i of
               Inl e \<Rightarrow> (httpError (adminTokenErrorText E e) 500 w, s1)
             | Inr store \<Rightarrow>
                 (WriteHeader 204 w,
                  logAudit E io r LevelInfo ''control-plane admin token revoked'' ''control_plane.admin_token_revoked''
                    [(''admin_token_id'', AttrString i)] (s1\<lparr>ks_adminTokens := store\<rparr>))))"

section \<open>Agent tokens\<close>

definition handleTokens :: "kenv \<Rightarrow> kio \<Rightarrow> ControlServer \<Rightarrow> httpRequest \<Rightarrow> responseWriter \<Rightarrow> outcome" where
  "handleTokens E io s r w =
     (if r_Path r \<noteq> ''/api/v1/tokens'' then (httpNotFound w, s)
      else if r_Method r \<noteq> ''GET'' \<and> r_Method r \<noteq> ''POST'' then (controlMethodNotAllowed ''GET, POST'' w, s)
      else withAdmin E io ScopeTokens s r w (\<lambda>s1.
        if r_Method r = ''GET'' then
          (case ListTokens (Some (ks_service s1)) (ki_tokenOrder io) of
             Inl e \<Rightarrow> (httpError (tokenErrorText E e) 500 w, s1)
           | Inr listed \<Rightarrow>
               (controlWriteJSON E 200 (TokensPayload listed) w,
                logAudit E io r LevelInfo ''control-plane tokens listed'' ''control_plane.tokens_listed''
                  [(''count'', AttrInt (int (length listed)))] (bump km_tokenAdminListsTotal_update s1)))
        else withJSON E cj_createToken s1 r w (\<lambda>(name, scopes).
          case CreateToken (ke_sha E) (ki_rand io) (ki_opNow io) (Some (ks_service s1)) name scopes of
            Inl e \<Rightarrow> (httpError (tokenErrorText E e) (if isTokenRequestError e then 400 else 500) w, s1)
          | Inr (created, store) \<Rightarrow>
              (controlWriteJSON E 201 (TokenPayload created) w,
               logAudit E io r LevelInfo ''control-plane token created'' ''control_plane.token_created''
                 [(''token_id'', AttrString (ct_ID created)), (''name'', AttrString (ct_Name created)),
                  (''scopes'', AttrStrings (ct_Scopes created))]
                 (bump km_tokenAdminCreatesTotal_update (s1\<lparr>ks_service := store\<rparr>))))))"

definition handleTokenByID :: "kenv \<Rightarrow> kio \<Rightarrow> ControlServer \<Rightarrow> httpRequest \<Rightarrow> responseWriter \<Rightarrow> outcome" where
  "handleTokenByID E io s r w =
     (if r_Method r \<noteq> ''DELETE'' then (controlMethodNotAllowed ''DELETE'' w, s)
      else withAdmin E io ScopeTokens s r w (\<lambda>s1.
        let i = TrimPrefix (r_Path r) ''/api/v1/tokens/'' in
        if i = [] \<or> i = ''validate'' \<or> Contains i ''/'' then (httpNotFound w, s1)
        else case RevokeToken (ki_opNow io) (Some (ks_service s1)) i of
               Inl e \<Rightarrow> (httpError (tokenErrorText E e) 500 w, s1)
             | Inr store \<Rightarrow>
                 (WriteHeader 204 w,
                  logAudit E io r LevelInfo ''control-plane token revoked'' ''control_plane.token_revoked''
                    [(''token_id'', AttrString i)] (bump km_tokenAdminRevokesTotal_update (s1\<lparr>ks_service := store\<rparr>)))))"

definition handleValidateToken :: "kenv \<Rightarrow> kio \<Rightarrow> ControlServer \<Rightarrow> httpRequest \<Rightarrow> responseWriter \<Rightarrow> outcome" where
  "handleValidateToken E io s r w =
     (if r_Method r \<noteq> ''POST'' then (controlMethodNotAllowed ''POST'' w, s)
      else withValidator E io s r w (withJSON E cj_validate s r w (\<lambda>req.
        let s1 = bump km_tokenValidationsTotal_update s in
        case ValidateToken (ke_sha E) (ki_opNow io) (Some (ks_service s1)) (vq_Token req) (vq_Scope req) of
          Inl e \<Rightarrow>
            let st = (case e of ErrUnsupportedScope sc \<Rightarrow> 400 | _ \<Rightarrow> 500) in
            (httpError (tokenErrorText E e) st w,
             logAudit E io r LevelWarn ''control-plane token validation failed'' ''control_plane.token_validation_failed''
               [(''scope'', AttrString (vq_Scope req)), (''status'', AttrInt st), (''error'', AttrError (tokenErrorText E e))]
               (bump km_tokenValidationErrorsTotal_update s1))
        | Inr (result, store) \<Rightarrow>
            let s2 = s1\<lparr>ks_service := store\<rparr>;
                s3 = (if vr_Valid result then bump km_tokenValidationValidTotal_update s2
                      else bump km_tokenValidationInvalidTotal_update s2)
            in (controlWriteJSON E 200 (ValidationPayload result) w,
                logAudit E io r LevelInfo ''control-plane token validated'' ''control_plane.token_validated''
                  ([(''scope'', AttrString (vq_Scope req)), (''valid'', AttrBool (vr_Valid result))] @
                   (if vr_TokenID result \<noteq> [] then [(''token_id'', AttrString (vr_TokenID result))] else [])) s3))))"

section \<open>Reserved subdomains\<close>

definition handleReservedSubdomains :: "kenv \<Rightarrow> kio \<Rightarrow> ControlServer \<Rightarrow> httpRequest \<Rightarrow> responseWriter \<Rightarrow> outcome" where
  "handleReservedSubdomains E io s r w =
     (if r_Path r \<noteq> ''/api/v1/reserved-subdomains'' then (httpNotFound w, s)
      else if r_Method r \<noteq> ''GET'' \<and> r_Method r \<noteq> ''POST'' then (controlMethodNotAllowed ''GET, POST'' w, s)
      else withAdmin E io ScopeReservations s r w (\<lambda>s1.
        if r_Method r = ''GET'' then
          (case ListReservations (Some (ks_reservations s1)) (ki_reservationOrder io) of
             Inl e \<Rightarrow> (httpError (reservedErrorText E e) 500 w, s1)
           | Inr listed \<Rightarrow>
               (controlWriteJSON E 200 (ReservationsPayload listed) w,
                logAudit E io r LevelInfo ''control-plane reserved subdomains listed'' ''control_plane.reservations_listed''
                  [(''count'', AttrInt (int (length listed)))] (bump km_reservationAdminListsTotal_update s1)))
        else withJSON E cj_reserve s1 r w (\<lambda>(name, tokenID).
          case GetToken (Some (ks_service s1)) tokenID of
            Inl e \<Rightarrow> (httpError (tokenErrorText E e) 500 w, s1)
          | Inr None \<Rightarrow> (httpError ''token_id was not found'' 400 w, s1)
          | Inr (Some tok) \<Rightarrow>
              if tsm_RevokedAt tok \<noteq> None then (httpError ''token_id belongs to a revoked token'' 400 w, s1)
              else case CreateReservation (ke_uc E) (ki_rand io) (ki_opNow io) (Some (ks_reservations s1)) name tokenID of
                     Inl e \<Rightarrow>
                       (httpError (reservedErrorText E e)
                          (if e = ErrReservationAlreadyExists then 409 else if isReservationRequestError E e then 400 else 500) w, s1)
                   | Inr (created, store) \<Rightarrow>
                       (controlWriteJSON E 201 (ReservationPayload created) w,
                        logAudit E io r LevelInfo ''control-plane reserved subdomain created'' ''control_plane.reservation_created''
                          [(''reservation_id'', AttrString (rv_ID created)), (''subdomain'', AttrString (rv_Name created)),
                           (''token_id'', AttrString (rv_TokenID created))]
                          (bump km_reservationAdminCreatesTotal_update (s1\<lparr>ks_reservations := store\<rparr>))))))"

definition handleReservedSubdomainByID :: "kenv \<Rightarrow> kio \<Rightarrow> ControlServer \<Rightarrow> httpRequest \<Rightarrow> responseWriter \<Rightarrow> outcome" where
  "handleReservedSubdomainByID E io s r w =
     (if r_Method r \<noteq> ''DELETE'' then (controlMethodNotAllowed ''DELETE'' w, s)
      else withAdmin E io ScopeReservations s r w (\<lambda>s1.
        let i = TrimPrefix (r_Path r) ''/api/v1/reserved-subdomains/'' in
        if i = [] \<or> i = ''authorize'' \<or> Contains i ''/'' then (httpNotFound w, s1)
        else case DeleteReservation (Some (ks_reservations s1)) i of
               Inl e \<Rightarrow> (httpError (reservedErrorText E e) (if e = ErrReservationNotFound then 404 else 500) w, s1)
             | Inr store \<Rightarrow>
                 (WriteHeader 204 w,
                  logAudit E io r LevelInfo ''control-plane reserved subdomain deleted'' ''control_plane.reservation_deleted''
                    [(''reservation_id'', AttrString i)]
                    (bump km_reservationAdminDeletesTotal_update (s1\<lparr>ks_reservations := store\<rparr>)))))"

definition handleAuthorizeReservedSubdomain :: "kenv \<Rightarrow> kio \<Rightarrow> ControlServer \<Rightarrow> httpRequest \<Rightarrow> responseWriter \<Rightarrow> outcome" where
  "handleAuthorizeReservedSubdomain E io s r w =
     (if r_Method r \<noteq> ''POST'' then (controlMethodNotAllowed ''POST'' w, s)
      else withValidator E io s r w (withJSON E cj_authorize s r w (\<lambda>req.
        let s1 = bump km_reservationAuthorizationsTotal_update s in
        case Authorize (ke_uc E) (Some (ks_reservations s1)) (zq_TokenID req) (zq_Subdomain req) of
          Inl e \<Rightarrow>
            let st = (if isReservationRequestError E e then 400 else 500) in
            (httpError (reservedErrorText E e) st w,
             logAudit E io r LevelWarn ''control-plane reserved subdomain authorization failed''
               ''control_plane.reservation_authorization_failed''
               [(''token_id'', AttrString (zq_TokenID req)), (''subdomain'', AttrString (zq_Subdomain req)),
                (''status'', AttrInt st), (''error'', AttrError (reservedErrorText E e))] s1)
        | Inr result \<Rightarrow>
            (controlWriteJSON E 200 (AuthorizationPayload result) w,
             logAudit E io r LevelInfo ''control-plane reserved subdomain authorized'' ''control_plane.reservation_authorized''
               [(''token_id'', AttrString (zq_TokenID req)), (''subdomain'', AttrString (zq_Subdomain req)),
                (''allowed'', AttrBool (az_Allowed result)), (''reason'', AttrString (az_Reason result))]
               (if az_Allowed result then bump km_reservationAuthorizationAllowedTotal_update s1
                else bump km_reservationAuthorizationDeniedTotal_update s1)))))"

section \<open>Access policies\<close>

definition handleAccessPolicies :: "kenv \<Rightarrow> kio \<Rightarrow> ControlServer \<Rightarrow> httpRequest \<Rightarrow> responseWriter \<Rightarrow> outcome" where
  "handleAccessPolicies E io s r w =
     (if r_Path r \<noteq> ''/api/v1/access-policies'' then (httpNotFound w, s)
      else if r_Method r \<noteq> ''GET'' \<and> r_Method r \<noteq> ''POST'' then (controlMethodNotAllowed ''GET, POST'' w, s)
      else withAdmin E io ScopeAccessPolicies s r w (\<lambda>s1.
        if r_Method r = ''GET'' then
          (case ListPolicies (Some (ks_accessPolicies s1)) (ki_policyOrder io) of
             Inl e \<Rightarrow> (httpError (accessErrorText E e) 500 w, s1)
           | Inr listed \<Rightarrow>
               (controlWriteJSON E 200 (PoliciesPayload listed) w,
                logAudit E io r LevelInfo ''control-plane access policies listed'' ''control_plane.access_policies_listed''
                  [(''count'', AttrInt (int (length listed)))] (bump km_accessPolicyAdminListsTotal_update s1)))
        else withJSON E cj_createPolicy s1 r w (\<lambda>req.
          case GetReservation (Some (ks_reservations s1)) (cp_ReservedSubdomainID req) of
            Inl e \<Rightarrow> (httpError (reservedErrorText E e) 500 w, s1)
          | Inr None \<Rightarrow> (httpError ''reserved_subdomain_id was not found'' 400 w, s1)
          | Inr (Some res) \<Rightarrow>
              (case CreatePolicy (ke_uc E) (ke_sha E) (ke_a2 E) (ki_rand io 0) (ki_rand io 1) goNetip (ki_opNow io)
                      (Some (ks_accessPolicies s1)) req of
                 Inl e \<Rightarrow>
                   (httpError (accessErrorText E e)
                      (if e = ErrPolicyAlreadyExists then 409 else if isAccessPolicyRequestError E e then 400 else 500) w, s1)
               | Inr (created, store) \<Rightarrow>
                   (controlWriteJSON E 201 (PolicyPayload created) w,
                    logAudit E io r LevelInfo ''control-plane access policy created'' ''control_plane.access_policy_created''
                      [(''access_policy_id'', AttrString (ps_ID created)),
                       (''reserved_subdomain_id'', AttrString (ps_ReservedSubdomainID created)),
                       (''mode'', AttrString (policyModeString (ps_Mode created)))]
                      (bump km_accessPolicyAdminCreatesTotal_update (s1\<lparr>ks_accessPolicies := store\<rparr>)))))))"

definition handleAccessPolicyByID :: "kenv \<Rightarrow> kio \<Rightarrow> ControlServer \<Rightarrow> httpRequest \<Rightarrow> responseWriter \<Rightarrow> outcome" where
  "handleAccessPolicyByID E io s r w =
     (if r_Method r \<noteq> ''GET'' \<and> r_Method r \<noteq> ''PUT'' \<and> r_Method r \<noteq> ''DELETE''
      then (controlMethodNotAllowed ''GET, PUT, DELETE'' w, s)
      else withAdmin E io ScopeAccessPolicies s r w (\<lambda>s1.
        let i = TrimPrefix (r_Path r) ''/api/v1/access-policies/'' in
        if i = [] \<or> i = ''evaluate'' \<or> Contains i ''/'' then (httpNotFound w, s1)
        else if r_Method r = ''GET'' then
          (case GetPolicy (Some (ks_accessPolicies s1)) i of
             Inl e \<Rightarrow> (httpError (accessErrorText E e) 500 w, s1)
           | Inr None \<Rightarrow> (httpError (accessErrorText E ErrPolicyNotFound) 404 w, s1)
           | Inr (Some policy) \<Rightarrow> (controlWriteJSON E 200 (PolicyPayload policy) w, s1))
        else if r_Method r = ''PUT'' then
          withJSON E cj_updatePolicy s1 r w (\<lambda>req.
            case UpdatePolicy (ke_uc E) (ke_sha E) (ke_a2 E) (ki_rand io 0) goNetip (ki_opNow io)
                   (Some (ks_accessPolicies s1)) i req of
              Inl e \<Rightarrow>
                (httpError (accessErrorText E e)
                   (if e = ErrPolicyNotFound then 404 else if isAccessPolicyRequestError E e then 400 else 500) w, s1)
            | Inr (updated, store) \<Rightarrow>
                (controlWriteJSON E 200 (PolicyPayload updated) w,
                 logAudit E io r LevelInfo ''control-plane access policy updated'' ''control_plane.access_policy_updated''
                   [(''access_policy_id'', AttrString (ps_ID updated)),
                    (''reserved_subdomain_id'', AttrString (ps_ReservedSubdomainID updated)),
                    (''mode'', AttrString (policyModeString (ps_Mode updated)))]
                   (bump km_accessPolicyAdminUpdatesTotal_update (s1\<lparr>ks_accessPolicies := store\<rparr>))))
        else
          (case DeletePolicy (Some (ks_accessPolicies s1)) i of
             Inl e \<Rightarrow> (httpError (accessErrorText E e) (if e = ErrPolicyNotFound then 404 else 500) w, s1)
           | Inr store \<Rightarrow>
               (WriteHeader 204 w,
                logAudit E io r LevelInfo ''control-plane access policy deleted'' ''control_plane.access_policy_deleted''
                  [(''access_policy_id'', AttrString i)]
                  (bump km_accessPolicyAdminDeletesTotal_update (s1\<lparr>ks_accessPolicies := store\<rparr>))))))"

text \<open>
  \<open>evaluateAccessPolicy\<close>, with the name of the reservation id that is logged; the error comes from
  one of two services.
\<close>

definition evaluateAccessPolicy ::
  "kenv \<Rightarrow> kio \<Rightarrow> ControlServer \<Rightarrow> accessPolicyEvaluationRequest
     \<Rightarrow> ((reserved_error + access_error) + CheckPolicyResult \<times> string) \<times> ControlServer" where
  "evaluateAccessPolicy E io s req =
     (case GetReservationByName (ke_uc E) (Some (ks_reservations s)) (aq_Subdomain req) of
        Inl e \<Rightarrow> (Inl (Inl e), s)
      | Inr None \<Rightarrow> (Inr (decided True ModePublic ''not_reserved'', []), s)
      | Inr (Some reservation) \<Rightarrow>
          (case CheckPolicy (ke_sha E) (ke_a2 E) (ki_rand io 0) goNetip (Some (ks_accessPolicies s))
                  \<lparr>ck_ReservedSubdomainID = rv_ID reservation, ck_RemoteIP = aq_RemoteIP req,
                   ck_BasicUsername = aq_BasicUsername req, ck_BasicPassword = aq_BasicPassword req,
                   ck_BearerToken = aq_BearerToken req\<rparr> of
             Inl e \<Rightarrow> (Inl (Inr e), s)
           | Inr (result, store) \<Rightarrow> (Inr (result, rv_ID reservation), s\<lparr>ks_accessPolicies := store\<rparr>)))"

definition handleEvaluateAccessPolicy :: "kenv \<Rightarrow> kio \<Rightarrow> ControlServer \<Rightarrow> httpRequest \<Rightarrow> responseWriter \<Rightarrow> outcome" where
  "handleEvaluateAccessPolicy E io s r w =
     (if r_Method r \<noteq> ''POST'' then (controlMethodNotAllowed ''POST'' w, s)
      else withValidator E io s r w (withJSON E cj_evaluate s r w (\<lambda>req0.
        let req1 = req0\<lparr>aq_Subdomain := TrimSpace (aq_Subdomain req0)\<rparr> in
        if aq_Subdomain req1 = [] then (httpError ''subdomain is required'' 400 w, s)
        else
          let req = (if aq_RemoteIP req1 = [] then req1\<lparr>aq_RemoteIP := controlClientIP s r\<rparr> else req1);
              s1 = bump km_accessPolicyEvaluationsTotal_update s
          in case evaluateAccessPolicy E io s1 req of
               (Inl e, s2) \<Rightarrow>
                 let text = (case e of Inl e1 \<Rightarrow> reservedErrorText E e1 | Inr e2 \<Rightarrow> accessErrorText E e2);
                     st = (case e of
                             Inl e1 \<Rightarrow> if isReservationRequestError E e1 then 400 else 500
                           | Inr e2 \<Rightarrow> if Contains (accessErrorText E e2) ''invalid reserved subdomain'' then 400 else 500)
                 in (httpError text st w,
                     logAudit E io r LevelWarn ''control-plane access policy evaluation failed''
                       ''control_plane.access_policy_evaluation_failed''
                       [(''subdomain'', AttrString (aq_Subdomain req)), (''status'', AttrInt st), (''error'', AttrError text)]
                       (bump km_accessPolicyEvaluationErrorsTotal_update s2))
             | (Inr (result, reservationID), s2) \<Rightarrow>
                 (controlWriteJSON E 200
                    (EvaluationPayload \<lparr>er_Allowed = cr_Allowed result, er_Mode = cr_Mode result, er_Reason = cr_Reason result\<rparr>) w,
                  logAudit E io r LevelInfo ''control-plane access policy evaluated'' ''control_plane.access_policy_evaluated''
                    ([(''subdomain'', AttrString (aq_Subdomain req)), (''mode'', AttrString (policyModeString (cr_Mode result))),
                      (''allowed'', AttrBool (cr_Allowed result)), (''reason'', AttrString (cr_Reason result))] @
                     (if reservationID \<noteq> [] then [(''reservation_id'', AttrString reservationID)] else []))
                    (if cr_Allowed result then bump km_accessPolicyEvaluationAllowedTotal_update s2
                     else bump km_accessPolicyEvaluationDeniedTotal_update s2)))))"

section \<open>Custom domains\<close>

definition handleCustomDomains :: "kenv \<Rightarrow> kio \<Rightarrow> ControlServer \<Rightarrow> httpRequest \<Rightarrow> responseWriter \<Rightarrow> outcome" where
  "handleCustomDomains E io s r w =
     (if r_Path r \<noteq> ''/api/v1/custom-domains'' then (httpNotFound w, s)
      else if r_Method r \<noteq> ''GET'' \<and> r_Method r \<noteq> ''POST'' then (controlMethodNotAllowed ''GET, POST'' w, s)
      else withAdmin E io ScopeDomains s r w (\<lambda>s1.
        let text = domainErrorText E (ki_rand io 0 16 \<noteq> None) in
        if r_Method r = ''GET'' then
          (case ListDomains (ke_uc E) (Some (ks_customDomains s1)) (ki_domainOrder io) of
             Inl e \<Rightarrow> (httpError (text e) 500 w, s1)
           | Inr listed \<Rightarrow>
               (controlWriteJSON E 200 (DomainsPayload listed) w,
                logAudit E io r LevelInfo ''control-plane custom domains listed'' ''control_plane.custom_domains_listed''
                  [(''count'', AttrInt (int (length listed)))] (bump km_customDomainAdminListsTotal_update s1)))
        else withJSON E cj_createDomain s1 r w (\<lambda>(hostname, reservedID).
          case GetReservation (Some (ks_reservations s1)) reservedID of
            Inl e \<Rightarrow> (httpError (reservedErrorText E e) 500 w, s1)
          | Inr None \<Rightarrow> (httpError ''reserved_subdomain_id was not found'' 400 w, s1)
          | Inr (Some res) \<Rightarrow>
              (case CreateDomain (ke_uc E) (ki_rand io) (ki_opNow io) (Some (ks_customDomains s1)) hostname reservedID of
                 Inl e \<Rightarrow>
                   (httpError (text e)
                      (if e = ErrDomainAlreadyExists then 409 else if isCustomDomainRequestError e then 400 else 500) w, s1)
               | Inr (created, store) \<Rightarrow>
                   (controlWriteJSON E 201 (DomainPayload created) w,
                    logAudit E io r LevelInfo ''control-plane custom domain created'' ''control_plane.custom_domain_created''
                      [(''custom_domain_id'', AttrString (ds_ID created)), (''hostname'', AttrString (ds_Hostname created)),
                       (''reserved_subdomain_id'', AttrString (ds_ReservedSubdomainID created)),
                       (''status'', AttrString (domainStatusText (ds_Status created)))]
                      (bump km_customDomainAdminCreatesTotal_update (s1\<lparr>ks_customDomains := store\<rparr>)))))))"

definition verifyCustomDomain :: "kenv \<Rightarrow> kio \<Rightarrow> string \<Rightarrow> ControlServer \<Rightarrow> httpRequest \<Rightarrow> responseWriter \<Rightarrow> outcome" where
  "verifyCustomDomain E io i s1 r w =
     (if r_Method r \<noteq> ''POST'' then (controlMethodNotAllowed ''POST'' w, s1)
      else if i = [] \<or> i = ''lookup'' \<or> Contains i ''/'' then (httpNotFound w, s1)
      else case VerifyDomain (ke_uc E) (ki_lookupTXT io) (ki_opNow io) (Some (ks_customDomains s1)) i of
             Inl e \<Rightarrow> (httpError (domainErrorText E True e) (if e = ErrDomainNotFound then 404 else 500) w, s1)
           | Inr (verified, store) \<Rightarrow>
               (controlWriteJSON E 200 (DomainPayload verified) w,
                logAudit E io r LevelInfo ''control-plane custom domain verification checked''
                  ''control_plane.custom_domain_verification_checked''
                  [(''custom_domain_id'', AttrString (ds_ID verified)), (''hostname'', AttrString (ds_Hostname verified)),
                   (''status'', AttrString (domainStatusText (ds_Status verified)))]
                  (s1\<lparr>ks_customDomains := store\<rparr>)))"

definition handleCustomDomainByID :: "kenv \<Rightarrow> kio \<Rightarrow> ControlServer \<Rightarrow> httpRequest \<Rightarrow> responseWriter \<Rightarrow> outcome" where
  "handleCustomDomainByID E io s r w =
     (if r_Method r \<noteq> ''GET'' \<and> r_Method r \<noteq> ''DELETE'' \<and> r_Method r \<noteq> ''POST''
      then (controlMethodNotAllowed ''GET, DELETE, POST'' w, s)
      else withAdmin E io ScopeDomains s r w (\<lambda>s1.
        let i = TrimPrefix (r_Path r) ''/api/v1/custom-domains/'' in
        if HasSuffix i ''/verify'' then verifyCustomDomain E io (TrimSuffix i ''/verify'') s1 r w
        else if r_Method r = ''POST'' then (controlMethodNotAllowed ''GET, DELETE'' w, s1)
        else if i = [] \<or> i = ''lookup'' \<or> Contains i ''/'' then (httpNotFound w, s1)
        else if r_Method r = ''GET'' then
          (case GetDomain (ke_uc E) (Some (ks_customDomains s1)) i of
             Inl e \<Rightarrow> (httpError (domainErrorText E True e) 500 w, s1)
           | Inr None \<Rightarrow> (httpError (domainErrorText E True ErrDomainNotFound) 404 w, s1)
           | Inr (Some domain) \<Rightarrow> (controlWriteJSON E 200 (DomainPayload domain) w, s1))
        else
          (case DeleteDomain (Some (ks_customDomains s1)) i of
             Inl e \<Rightarrow> (httpError (domainErrorText E True e) (if e = ErrDomainNotFound then 404 else 500) w, s1)
           | Inr store \<Rightarrow>
               (WriteHeader 204 w,
                logAudit E io r LevelInfo ''control-plane custom domain deleted'' ''control_plane.custom_domain_deleted''
                  [(''custom_domain_id'', AttrString i)]
                  (bump km_customDomainAdminDeletesTotal_update (s1\<lparr>ks_customDomains := store\<rparr>))))))"

definition lookupCustomDomain ::
  "kenv \<Rightarrow> ControlServer \<Rightarrow> string \<Rightarrow> (domain_error + reserved_error) + lookupCustomDomainResponse" where
  "lookupCustomDomain E s hostname =
     (let none = \<lparr>lc_Found = False, lc_Reason = [], lc_Hostname = [], lc_CustomDomainID = [],
                  lc_ReservedSubdomainID = [], lc_Subdomain = [], lc_Status = None\<rparr> in
      case GetDomainByHostname (ke_uc E) (Some (ks_customDomains s)) hostname of
        Inl e \<Rightarrow> Inl (Inl e)
      | Inr None \<Rightarrow>
          (case NormalizeHostname (ke_uc E) hostname of
             Inl e \<Rightarrow> Inl (Inl e)
           | Inr normalized \<Rightarrow> Inr (none\<lparr>lc_Hostname := normalized, lc_Reason := ''not_found''\<rparr>))
      | Inr (Some domain) \<Rightarrow>
          let found = none\<lparr>lc_Hostname := ds_Hostname domain, lc_CustomDomainID := ds_ID domain,
                           lc_ReservedSubdomainID := ds_ReservedSubdomainID domain, lc_Status := Some (ds_Status domain)\<rparr>
          in if ds_Status domain \<noteq> StatusActive then
               Inr (found\<lparr>lc_Reason := (if ds_Status domain = StatusVerificationFailed then ''verification_failed''
                                       else ''not_verified'')\<rparr>)
             else (case GetReservation (Some (ks_reservations s)) (ds_ReservedSubdomainID domain) of
                     Inl e \<Rightarrow> Inl (Inr e)
                   | Inr None \<Rightarrow> Inr (found\<lparr>lc_Reason := ''reservation_not_found''\<rparr>)
                   | Inr (Some reservation) \<Rightarrow> Inr (found\<lparr>lc_Found := True, lc_Subdomain := rv_Name reservation\<rparr>)))"

definition handleLookupCustomDomain :: "kenv \<Rightarrow> kio \<Rightarrow> ControlServer \<Rightarrow> httpRequest \<Rightarrow> responseWriter \<Rightarrow> outcome" where
  "handleLookupCustomDomain E io s r w =
     (if r_Method r \<noteq> ''POST'' then (controlMethodNotAllowed ''POST'' w, s)
      else withValidator E io s r w (withJSON E cj_lookup s r w (\<lambda>hostname.
        let s1 = bump km_customDomainLookupsTotal_update s in
        case lookupCustomDomain E s1 hostname of
          Inl e \<Rightarrow>
            let text = (case e of Inl e1 \<Rightarrow> domainErrorText E True e1 | Inr e2 \<Rightarrow> reservedErrorText E e2);
                st = (case e of Inl e1 \<Rightarrow> if isCustomDomainRequestError e1 then 400 else 500 | Inr e2 \<Rightarrow> 500)
            in (httpError text st w,
                logAudit E io r LevelWarn ''control-plane custom domain lookup failed'' ''control_plane.custom_domain_lookup_failed''
                  [(''hostname'', AttrString hostname), (''status'', AttrInt st), (''error'', AttrError text)]
                  (bump km_customDomainLookupErrorsTotal_update s1))
        | Inr result \<Rightarrow>
            (controlWriteJSON E 200 (LookupPayload result) w,
             logAudit E io r LevelInfo ''control-plane custom domain looked up'' ''control_plane.custom_domain_lookup''
               [(''hostname'', AttrString hostname), (''found'', AttrBool (lc_Found result)),
                (''reason'', AttrString (lc_Reason result)), (''custom_domain_id'', AttrString (lc_CustomDomainID result)),
                (''subdomain'', AttrString (lc_Subdomain result))]
               (if lc_Found result then bump km_customDomainLookupHitsTotal_update s1
                else bump km_customDomainLookupMissesTotal_update s1)))))"

section \<open>Operator API of the gateway\<close>

definition gatewayOperatorPrefix :: string where
  "gatewayOperatorPrefix = ''/api/v1/gateway''"

definition gatewayOperatorRoute :: "string \<Rightarrow> (string \<times> string) option" where
  "gatewayOperatorRoute path =
     (let suffix = TrimPrefix path gatewayOperatorPrefix in
      if suffix = ''/healthz'' \<or> suffix = ''/readyz'' \<or> suffix = ''/metrics'' then Some (suffix, ScopeRuntimeDiagnostics)
      else if suffix = ''/runtime'' \<or> suffix = ''/tunnels'' then Some (''/api/v1'' @ suffix, ScopeRuntimeDiagnostics)
      else if suffix = ''/request-logs'' then Some (''/api/v1/request-logs'', ScopeAuditHistory)
      else let tunnelID = TrimPrefix suffix ''/tunnels/'' in
           if HasPrefix suffix ''/tunnels/'' \<and> tunnelID \<noteq> [] \<and> \<not> Contains tunnelID ''/''
           then Some (''/api/v1'' @ suffix, ScopeRuntimeDiagnostics)
           else None)"

definition copyGatewayResponseHeader :: "http_header \<Rightarrow> http_header \<Rightarrow> http_header" where
  "copyGatewayResponseHeader dst src =
     fold (\<lambda>name h. if hdrGet src name \<noteq> [] then hdrSet name (hdrGet src name) h else h)
       [''Content-Type'', ''Cache-Control'', ''ETag'', ''Last-Modified''] dst"

text \<open>\<open>strings.TrimRight(s, "/")\<close>\<close>

definition trimRightSlashes :: "string \<Rightarrow> string" where
  "trimRightSlashes s = rev (dropWhile (\<lambda>c. c = CHR ''/'') (rev s))"

definition handleGatewayOperator :: "kenv \<Rightarrow> kio \<Rightarrow> ControlServer \<Rightarrow> httpRequest \<Rightarrow> responseWriter \<Rightarrow> outcome" where
  "handleGatewayOperator E io s r w =
     (if r_Method r \<noteq> ''GET'' then (controlMethodNotAllowed ''GET'' w, s)
      else case gatewayOperatorRoute (r_Path r) of
             None \<Rightarrow> (httpNotFound w, s)
           | Some (upstreamPath, requiredScope) \<Rightarrow>
               withAdmin E io requiredScope s r w (\<lambda>s1.
                 let cfg = ks_cfg s1 in
                 if TrimSpace (kc_GatewayManagementURL cfg) = [] \<or> TrimSpace (kc_GatewayManagementToken cfg) = []
                 then (httpError ''gateway management is not configured'' 503 w, s1)
                 else case urlParse (ke_url E) (trimRightSlashes (kc_GatewayManagementURL cfg) @ upstreamPath) of
                        Inl e \<Rightarrow> (httpError ''gateway management is not configured'' 503 w, s1)
                      | Inr baseURL \<Rightarrow>
                          (case urlParse (ke_url E) (urlString (ke_url E) (baseURL\<lparr>url_RawQuery := r_RawQuery r\<rparr>)) of
                             Inl e \<Rightarrow> (httpError ''create gateway management request'' 500 w, s1)
                           | Inr target \<Rightarrow>
                               let copied = (\<lambda>name h. if hdrGet (r_Header r) name \<noteq> []
                                                       then hdrSet name (hdrGet (r_Header r) name) h else h);
                                   req = \<lparr>hq_Method = ''GET'', hq_URL = target,
                                          hq_Header = copied ''X-Request-ID'' (copied ''Accept''
                                            (hdrSet ''Authorization'' (''Bearer '' @ kc_GatewayManagementToken cfg) Map.empty)),
                                          hq_Body = []\<rparr>
                               in case ki_gateway io req of
                                    None \<Rightarrow> (httpError ''gateway management request failed'' 502 w, s1)
                                  | Some (st, respHeader, body) \<Rightarrow>
                                      let w1 = w\<lparr>rw_Header := copyGatewayResponseHeader (rw_Header w) respHeader\<rparr> in
                                      if writeHeaderPanics st w1 then (w1, s1)
                                      else (writeBytes body (WriteHeader st w1), s1))))"

section \<open>Metrics\<close>

definition controlWriteMetric :: "string \<Rightarrow> string \<Rightarrow> string \<Rightarrow> uint64 \<Rightarrow> string" where
  "controlWriteMetric name help metricType val =
     ''# HELP '' @ name @ '' '' @ help @ newline @
     ''# TYPE '' @ name @ '' '' @ metricType @ newline @
     name @ '' '' @ showNat (unat val) @ newline"

definition readinessGauge :: "ControlServer \<Rightarrow> uint64" where
  "readinessGauge s = (case controlReady s of Some e \<Rightarrow> 0 | None \<Rightarrow> 1)"

definition writeInventoryMetrics :: "kenv \<Rightarrow> kio \<Rightarrow> ControlServer \<Rightarrow> string" where
  "writeInventoryMetrics E io s =
     (let gauge = (\<lambda>name help n. controlWriteMetric (''porthook_control_plane_'' @ name) help ''gauge'' (word_of_nat n)) in
      (case ListTokens (Some (ks_service s)) (ki_tokenOrder io) of
         Inl e \<Rightarrow> []
       | Inr listed \<Rightarrow>
           gauge ''tokens'' ''Current token records in the control plane.'' (length listed) @
           gauge ''tokens_revoked'' ''Current revoked token records in the control plane.''
             (length (filter (\<lambda>t. tsm_RevokedAt t \<noteq> None) listed))) @
      (case ListReservations (Some (ks_reservations s)) (ki_reservationOrder io) of
         Inl e \<Rightarrow> []
       | Inr listed \<Rightarrow>
           gauge ''reserved_subdomains'' ''Current reserved subdomain records in the control plane.'' (length listed)) @
      (case ListPolicies (Some (ks_accessPolicies s)) (ki_policyOrder io) of
         Inl e \<Rightarrow> []
       | Inr listed \<Rightarrow>
           gauge ''access_policies'' ''Current access policy records in the control plane.'' (length listed)) @
      (case ListDomains (ke_uc E) (Some (ks_customDomains s)) (ki_domainOrder io) of
         Inl e \<Rightarrow> []
       | Inr listed \<Rightarrow>
           gauge ''custom_domains'' ''Current custom domain records in the control plane.'' (length listed)))"

definition controlMetricsText :: "kenv \<Rightarrow> kio \<Rightarrow> ControlServer \<Rightarrow> string" where
  "controlMetricsText E io s =
     (let m = ks_metrics s;
          c = (\<lambda>name help val. controlWriteMetric (''porthook_control_plane_'' @ name) help ''counter'' val) in
      controlWriteMetric ''porthook_control_plane_ready''
        ''Control-plane readiness state, 1 for ready and 0 for not ready.'' ''gauge'' (readinessGauge s) @
      controlWriteMetric ''porthook_control_plane_uptime_seconds'' ''Control-plane process uptime in seconds.'' ''gauge''
        (word_of_int \<lfloor>Seconds (ke_fl E) (ki_opNow io - ks_startedAt s)\<rfloor>) @
      writeInventoryMetrics E io s @
      c ''token_admin_creates_total'' ''Successful token create operations.'' (km_tokenAdminCreatesTotal m) @
      c ''token_admin_lists_total'' ''Successful token list operations.'' (km_tokenAdminListsTotal m) @
      c ''token_admin_revokes_total'' ''Successful token revoke operations.'' (km_tokenAdminRevokesTotal m) @
      c ''token_validations_total'' ''Token validation requests handled by the control plane.'' (km_tokenValidationsTotal m) @
      c ''token_validation_valid_total'' ''Token validation requests that returned valid=true.'' (km_tokenValidationValidTotal m) @
      c ''token_validation_invalid_total'' ''Token validation requests that returned valid=false.'' (km_tokenValidationInvalidTotal m) @
      c ''token_validation_errors_total'' ''Token validation requests that failed before producing a result.'' (km_tokenValidationErrorsTotal m) @
      c ''reservation_admin_creates_total'' ''Successful reserved subdomain create operations.'' (km_reservationAdminCreatesTotal m) @
      c ''reservation_admin_lists_total'' ''Successful reserved subdomain list operations.'' (km_reservationAdminListsTotal m) @
      c ''reservation_admin_deletes_total'' ''Successful reserved subdomain delete operations.'' (km_reservationAdminDeletesTotal m) @
      c ''reservation_authorizations_total'' ''Reserved subdomain authorization requests handled by the control plane.'' (km_reservationAuthorizationsTotal m) @
      c ''reservation_authorization_allowed_total'' ''Reserved subdomain authorization requests that returned allowed=true.'' (km_reservationAuthorizationAllowedTotal m) @
      c ''reservation_authorization_denied_total'' ''Reserved subdomain authorization requests that returned allowed=false.'' (km_reservationAuthorizationDeniedTotal m) @
      c ''access_policy_admin_creates_total'' ''Successful access policy create operations.'' (km_accessPolicyAdminCreatesTotal m) @
      c ''access_policy_admin_lists_total'' ''Successful access policy list operations.'' (km_accessPolicyAdminListsTotal m) @
      c ''access_policy_admin_updates_total'' ''Successful access policy update operations.'' (km_accessPolicyAdminUpdatesTotal m) @
      c ''access_policy_admin_deletes_total'' ''Successful access policy delete operations.'' (km_accessPolicyAdminDeletesTotal m) @
      c ''access_policy_evaluations_total'' ''Access policy evaluation requests handled by the control plane.'' (km_accessPolicyEvaluationsTotal m) @
      c ''access_policy_evaluation_allowed_total'' ''Access policy evaluation requests that returned allowed=true.'' (km_accessPolicyEvaluationAllowedTotal m) @
      c ''access_policy_evaluation_denied_total'' ''Access policy evaluation requests that returned allowed=false.'' (km_accessPolicyEvaluationDeniedTotal m) @
      c ''access_policy_evaluation_errors_total'' ''Access policy evaluation requests that failed before producing a result.'' (km_accessPolicyEvaluationErrorsTotal m) @
      c ''custom_domain_admin_creates_total'' ''Successful custom domain create operations.'' (km_customDomainAdminCreatesTotal m) @
      c ''custom_domain_admin_lists_total'' ''Successful custom domain list operations.'' (km_customDomainAdminListsTotal m) @
      c ''custom_domain_admin_deletes_total'' ''Successful custom domain delete operations.'' (km_customDomainAdminDeletesTotal m) @
      c ''custom_domain_lookups_total'' ''Custom domain lookup requests handled by the control plane.'' (km_customDomainLookupsTotal m) @
      c ''custom_domain_lookup_hits_total'' ''Custom domain lookup requests that found a domain mapping.'' (km_customDomainLookupHitsTotal m) @
      c ''custom_domain_lookup_misses_total'' ''Custom domain lookup requests that did not find a domain mapping.'' (km_customDomainLookupMissesTotal m) @
      c ''custom_domain_lookup_errors_total'' ''Custom domain lookup requests that failed before producing a result.'' (km_customDomainLookupErrorsTotal m) @
      c ''auth_failures_total'' ''Bearer authorization failures on control-plane endpoints.'' (km_authFailuresTotal m) @
      c ''readiness_failures_total'' ''Readiness checks that failed.'' (km_readinessFailuresTotal m) @
      HistogramWriteTo (ke_fl E) (ke_ff E) (km_requestDuration m) ''porthook_control_plane_request_duration_seconds''
        ''HTTP request duration in seconds.'' @
      WriteRuntimeStats ''porthook_control_plane'' (ki_process io))"

definition handleControlMetrics :: "kenv \<Rightarrow> kio \<Rightarrow> ControlServer \<Rightarrow> httpRequest \<Rightarrow> responseWriter \<Rightarrow> outcome" where
  "handleControlMetrics E io s r w =
     (if r_Method r \<noteq> ''GET'' then (controlMethodNotAllowed ''GET'' w, s)
      else (writeBytes (controlMetricsText E io s)
              (setHeader ''Content-Type'' ''text/plain; version=0.0.4; charset=utf-8'' w), s))"

section \<open>The mux and its middleware\<close>

text \<open>
  \<open>http.ServeMux\<close> for a clean path: a pattern that ends in a slash matches the paths below it, every
  other pattern itself; the longest pattern that matches wins, and a path that only has a pattern with
  a slash behind it is redirected there.  Tracing is not modelled.
\<close>

definition patternMatches :: "string \<Rightarrow> string \<Rightarrow> bool" where
  "patternMatches path pat \<longleftrightarrow> pat = path \<or> HasSuffix pat ''/'' \<and> HasPrefix path pat"

primrec longestMatch :: "string \<Rightarrow> (string \<times> 'h) list \<Rightarrow> (string \<times> 'h) option \<Rightarrow> (string \<times> 'h) option" where
  "longestMatch path [] best = best"
| "longestMatch path (ph # pats) best =
     longestMatch path pats
       (if patternMatches path (fst ph) \<and> (case best of None \<Rightarrow> True | Some b \<Rightarrow> length (fst b) < length (fst ph))
        then Some ph else best)"

datatype 'h mux_match = MuxHandler 'h | MuxRedirect | MuxNotFound

definition muxMatch :: "(string \<times> 'h) list \<Rightarrow> string \<Rightarrow> 'h mux_match" where
  "muxMatch pats path =
     (if list_all (\<lambda>ph. fst ph \<noteq> path) pats \<and> list_ex (\<lambda>ph. fst ph = path @ ''/'') pats then MuxRedirect
      else case longestMatch path pats None of None \<Rightarrow> MuxNotFound | Some ph \<Rightarrow> MuxHandler (snd ph))"

datatype control_route =
    Healthz | Readyz | ControlMetricsPage | Dashboard | Status | GatewayOperator | Events
  | AdminTokens | AdminTokenByID | TokenList | TokenByID | ValidateTokenRoute
  | AccessPolicies | AccessPolicyByID | EvaluateAccessPolicyRoute
  | CustomDomainList | CustomDomainByID | LookupCustomDomainRoute
  | ReservedSubdomains | ReservedSubdomainByID | AuthorizeReservedSubdomainRoute

definition controlPatterns :: "(string \<times> control_route) list" where
  "controlPatterns =
     [(''/healthz'', Healthz), (''/readyz'', Readyz), (''/metrics'', ControlMetricsPage),
      (''/dashboard'', Dashboard), (''/dashboard/'', Dashboard),
      (''/api/v1/status'', Status), (gatewayOperatorPrefix @ ''/'', GatewayOperator), (''/api/v1/events'', Events),
      (''/api/v1/admin-tokens'', AdminTokens), (''/api/v1/admin-tokens/'', AdminTokenByID),
      (''/api/v1/tokens'', TokenList), (''/api/v1/tokens/'', TokenByID), (''/api/v1/tokens/validate'', ValidateTokenRoute),
      (''/api/v1/access-policies'', AccessPolicies), (''/api/v1/access-policies/'', AccessPolicyByID),
      (''/api/v1/access-policies/evaluate'', EvaluateAccessPolicyRoute),
      (''/api/v1/custom-domains'', CustomDomainList), (''/api/v1/custom-domains/'', CustomDomainByID),
      (''/api/v1/custom-domains/lookup'', LookupCustomDomainRoute),
      (''/api/v1/reserved-subdomains'', ReservedSubdomains), (''/api/v1/reserved-subdomains/'', ReservedSubdomainByID),
      (''/api/v1/reserved-subdomains/authorize'', AuthorizeReservedSubdomainRoute)]"

fun controlServe :: "kenv \<Rightarrow> kio \<Rightarrow> control_route \<Rightarrow> ControlServer \<Rightarrow> httpRequest \<Rightarrow> responseWriter \<Rightarrow> outcome" where
  "controlServe E io Healthz s r w = (writeBytes (''ok'' @ newline) (WriteHeader 200 w), s)"
| "controlServe E io Readyz s r w = handleReady s r w"
| "controlServe E io ControlMetricsPage s r w = handleControlMetrics E io s r w"
| "controlServe E io Dashboard s r w = (ki_dashboard io w, s)"
| "controlServe E io Status s r w = handleStatus E s r w"
| "controlServe E io GatewayOperator s r w = handleGatewayOperator E io s r w"
| "controlServe E io Events s r w = handleEvents E io s r w"
| "controlServe E io AdminTokens s r w = handleAdminTokens E io s r w"
| "controlServe E io AdminTokenByID s r w = handleAdminTokenByID E io s r w"
| "controlServe E io TokenList s r w = handleTokens E io s r w"
| "controlServe E io TokenByID s r w = handleTokenByID E io s r w"
| "controlServe E io ValidateTokenRoute s r w = handleValidateToken E io s r w"
| "controlServe E io AccessPolicies s r w = handleAccessPolicies E io s r w"
| "controlServe E io AccessPolicyByID s r w = handleAccessPolicyByID E io s r w"
| "controlServe E io EvaluateAccessPolicyRoute s r w = handleEvaluateAccessPolicy E io s r w"
| "controlServe E io CustomDomainList s r w = handleCustomDomains E io s r w"
| "controlServe E io CustomDomainByID s r w = handleCustomDomainByID E io s r w"
| "controlServe E io LookupCustomDomainRoute s r w = handleLookupCustomDomain E io s r w"
| "controlServe E io ReservedSubdomains s r w = handleReservedSubdomains E io s r w"
| "controlServe E io ReservedSubdomainByID s r w = handleReservedSubdomainByID E io s r w"
| "controlServe E io AuthorizeReservedSubdomainRoute s r w = handleAuthorizeReservedSubdomain E io s r w"

definition controlMux :: "kenv \<Rightarrow> kio \<Rightarrow> ControlServer \<Rightarrow> httpRequest \<Rightarrow> responseWriter \<Rightarrow> outcome" where
  "controlMux E io s r w =
     (case muxMatch controlPatterns (r_Path r) of
        MuxHandler route \<Rightarrow> controlServe E io route s r w
      | MuxRedirect \<Rightarrow> (ki_redirect io w, s)
      | MuxNotFound \<Rightarrow> (httpNotFound w, s))"

definition latencyMiddleware :: "kenv \<Rightarrow> kio \<Rightarrow> outcome \<Rightarrow> outcome" where
  "latencyMiddleware E io out =
     (fst out, (snd out)\<lparr>ks_metrics := (ks_metrics (snd out))
        \<lparr>km_requestDuration := Observe (ke_fl E) (km_requestDuration (ks_metrics (snd out))) (ki_elapsed io)\<rparr>\<rparr>)"

definition ControlHandler :: "kenv \<Rightarrow> kio \<Rightarrow> ControlServer \<Rightarrow> httpRequest \<Rightarrow> responseWriter \<Rightarrow> outcome" where
  "ControlHandler E io s r w =
     (case requestIDMiddleware (ki_requestIDRand io) (r_Header r) (rw_Header w) of
        (i, h) \<Rightarrow> latencyMiddleware E io (controlMux E io s (r\<lparr>r_ctxID := i\<rparr>) (w\<lparr>rw_Header := h\<rparr>)))"

text \<open>One run of the pruner, which is started when both settings are positive.\<close>

definition pruneAuditEvents :: "gotime \<Rightarrow> ControlServer \<Rightarrow> ControlServer" where
  "pruneAuditEvents now s =
     (if kc_AuditEventRetention (ks_cfg s) \<le> 0 \<or> kc_AuditEventPruneInterval (ks_cfg s) \<le> 0 then s
      else s\<lparr>ks_auditEvents := snd (auditPruneBefore (ks_auditEvents s) (now - kc_AuditEventRetention (ks_cfg s)))\<rparr>)"

end
