(* ===== verification/ControlRun.thy ===== *)
theory ControlRun
  imports ControlPlane
begin

text \<open>
  A control plane in operation.  \<open>control_op\<close> is the specification of what a request may do to the
  records: one operation of one service, for a caller who may ask for it.  Every handler is shown to
  refine it, so that the lemmas on the services carry over to the server, and the records of all
  services stay well formed together.
\<close>

section \<open>What a request may do\<close>

text \<open>The bearer of a request may act on a part of the admin API.\<close>

definition adminMay :: "kenv \<Rightarrow> ControlServer \<Rightarrow> httpRequest \<Rightarrow> string \<Rightarrow> bool" where
  "adminMay E s r scope \<longleftrightarrow>
     (case controlBearerToken r of
        (tok, ok) \<Rightarrow> ok \<and>
          (controlSecretEqual (ke_sha E) tok (kc_AdminToken (ks_cfg s)) \<or>
           (case adminTokenLookupByHash (ks_adminTokens s) (HashAdminToken (ke_sha E) tok) of
              None \<Rightarrow> False
            | Some record \<Rightarrow> at_RevokedAt record = None \<and> scope \<in> set (at_Scopes record))))"

text \<open>The authorisation notes the use of the admin token, and nothing else.\<close>

definition marked :: "kio \<Rightarrow> ControlServer \<Rightarrow> ControlServer \<Rightarrow> bool" where
  "marked io s s1 \<longleftrightarrow> s1 = s \<or>
     (\<exists>i. s1 = s\<lparr>ks_adminTokens := adminTokenMarkUsed (ks_adminTokens s) i (ki_authNow io)\<rparr>)"

text \<open>Two states with the same records and settings.\<close>

definition sameStores :: "ControlServer \<Rightarrow> ControlServer \<Rightarrow> bool" where
  "sameStores s s' \<longleftrightarrow>
     ks_cfg s' = ks_cfg s \<and> ks_service s' = ks_service s \<and> ks_reservations s' = ks_reservations s \<and>
     ks_accessPolicies s' = ks_accessPolicies s \<and> ks_customDomains s' = ks_customDomains s \<and>
     ks_adminTokens s' = ks_adminTokens s \<and> ks_clientIPs s' = ks_clientIPs s"

inductive control_op :: "kenv \<Rightarrow> kio \<Rightarrow> httpRequest \<Rightarrow> ControlServer \<Rightarrow> ControlServer \<Rightarrow> bool" for E io r s where
  create_admin_token:
    "adminMay E s r ScopeAdminTokens \<Longrightarrow>
     CreateAdminToken (ke_sha E) (ki_rand io) (ki_opNow io) (Some (ks_adminTokens s)) n sc = Inr (c, st) \<Longrightarrow>
     control_op E io r s (s\<lparr>ks_adminTokens := st\<rparr>)"
| revoke_admin_token:
    "adminMay E s r ScopeAdminTokens \<Longrightarrow>
     RevokeAdminToken (ki_opNow io) (Some (ks_adminTokens s)) i = Inr st \<Longrightarrow>
     control_op E io r s (s\<lparr>ks_adminTokens := st\<rparr>)"
| create_token:
    "adminMay E s r ScopeTokens \<Longrightarrow>
     CreateToken (ke_sha E) (ki_rand io) (ki_opNow io) (Some (ks_service s)) n sc = Inr (ct, st') \<Longrightarrow>
     control_op E io r s (s\<lparr>ks_service := st'\<rparr>)"
| revoke_token:
    "adminMay E s r ScopeTokens \<Longrightarrow>
     RevokeToken (ki_opNow io) (Some (ks_service s)) i = Inr st' \<Longrightarrow>
     control_op E io r s (s\<lparr>ks_service := st'\<rparr>)"
| create_reservation:
    "adminMay E s r ScopeReservations \<Longrightarrow>
     GetToken (Some (ks_service s)) tokenID = Inr (Some tok) \<Longrightarrow> tsm_RevokedAt tok = None \<Longrightarrow>
     CreateReservation (ke_uc E) (ki_rand io) (ki_opNow io) (Some (ks_reservations s)) n tokenID = Inr (cr, rs) \<Longrightarrow>
     control_op E io r s (s\<lparr>ks_reservations := rs\<rparr>)"
| delete_reservation:
    "adminMay E s r ScopeReservations \<Longrightarrow>
     DeleteReservation (Some (ks_reservations s)) i = Inr rs \<Longrightarrow>
     control_op E io r s (s\<lparr>ks_reservations := rs\<rparr>)"
| create_policy:
    "adminMay E s r ScopeAccessPolicies \<Longrightarrow>
     GetReservation (Some (ks_reservations s)) (cp_ReservedSubdomainID req) = Inr (Some res) \<Longrightarrow>
     CreatePolicy (ke_uc E) (ke_sha E) (ke_a2 E) (ki_rand io 0) (ki_rand io 1) goNetip (ki_opNow io)
       (Some (ks_accessPolicies s)) req = Inr (cp, ps) \<Longrightarrow>
     control_op E io r s (s\<lparr>ks_accessPolicies := ps\<rparr>)"
| update_policy:
    "adminMay E s r ScopeAccessPolicies \<Longrightarrow>
     UpdatePolicy (ke_uc E) (ke_sha E) (ke_a2 E) (ki_rand io 0) goNetip (ki_opNow io)
       (Some (ks_accessPolicies s)) i ureq = Inr (cp, ps) \<Longrightarrow>
     control_op E io r s (s\<lparr>ks_accessPolicies := ps\<rparr>)"
| delete_policy:
    "adminMay E s r ScopeAccessPolicies \<Longrightarrow>
     DeletePolicy (Some (ks_accessPolicies s)) i = Inr ps \<Longrightarrow>
     control_op E io r s (s\<lparr>ks_accessPolicies := ps\<rparr>)"
| create_domain:
    "adminMay E s r ScopeDomains \<Longrightarrow>
     GetReservation (Some (ks_reservations s)) rid = Inr (Some res) \<Longrightarrow>
     CreateDomain (ke_uc E) (ki_rand io) (ki_opNow io) (Some (ks_customDomains s)) h rid = Inr (cd, ds) \<Longrightarrow>
     control_op E io r s (s\<lparr>ks_customDomains := ds\<rparr>)"
| verify_domain:
    "adminMay E s r ScopeDomains \<Longrightarrow>
     VerifyDomain (ke_uc E) (ki_lookupTXT io) (ki_opNow io) (Some (ks_customDomains s)) i = Inr (vd, ds) \<Longrightarrow>
     control_op E io r s (s\<lparr>ks_customDomains := ds\<rparr>)"
| delete_domain:
    "adminMay E s r ScopeDomains \<Longrightarrow>
     DeleteDomain (Some (ks_customDomains s)) i = Inr ds \<Longrightarrow>
     control_op E io r s (s\<lparr>ks_customDomains := ds\<rparr>)"
| validate_token:
    "validatorAuthorized E s r \<Longrightarrow>
     ValidateToken (ke_sha E) (ki_opNow io) (Some (ks_service s)) t sc1 = Inr (vr, st') \<Longrightarrow>
     control_op E io r s (s\<lparr>ks_service := st'\<rparr>)"
| check_policy:
    "validatorAuthorized E s r \<Longrightarrow>
     CheckPolicy (ke_sha E) (ke_a2 E) (ki_rand io 0) goNetip (Some (ks_accessPolicies s)) creq = Inr (res', ps) \<Longrightarrow>
     control_op E io r s (s\<lparr>ks_accessPolicies := ps\<rparr>)"

definition audited :: "httpRequest \<Rightarrow> ControlServer \<Rightarrow> ControlServer \<Rightarrow> bool" where
  "audited r s s' \<longleftrightarrow> (\<exists>e. ks_auditEvents s' = auditAdd (ks_auditEvents s) e \<and> ae_Level e = ''INFO'' \<and>
     ae_Method e = r_Method r \<and> ae_Path e = r_Path r \<and> ae_RemoteIP e = controlClientIP s r)"

definition succeeds :: "responseWriter \<Rightarrow> responseWriter \<Rightarrow> bool" where
  "succeeds w w' \<longleftrightarrow> (rw_Sent w = None \<longrightarrow> (\<exists>st h. rw_Sent w' = Some (st, h) \<and> 200 \<le> st \<and> st < 300))"

text \<open>A request after its authorisation, and a whole request.\<close>

definition handledFrom :: "kenv \<Rightarrow> kio \<Rightarrow> httpRequest \<Rightarrow> ControlServer \<Rightarrow> responseWriter \<Rightarrow> outcome \<Rightarrow> bool" where
  "handledFrom E io r s w out \<longleftrightarrow>
     sameStores s (snd out) \<or>
     (\<exists>s2. control_op E io r s s2 \<and> sameStores s2 (snd out) \<and> audited r s (snd out) \<and> succeeds w (fst out))"

definition handled :: "kenv \<Rightarrow> kio \<Rightarrow> httpRequest \<Rightarrow> ControlServer \<Rightarrow> responseWriter \<Rightarrow> outcome \<Rightarrow> bool" where
  "handled E io r s w out \<longleftrightarrow> (\<exists>s1. marked io s s1 \<and> handledFrom E io r s1 w out)"

text \<open>
  The records of all services at once: each store is well formed, and a reserved subdomain belongs to
  a token that was issued.
\<close>

definition control_inv :: "ControlServer \<Rightarrow> bool" where
  "control_inv s \<longleftrightarrow>
     token_inv (ks_service s) \<and> admin_token_inv (ks_adminTokens s) \<and> reservation_wf (ks_reservations s) \<and>
     policy_wf (ks_accessPolicies s) \<and> domain_inv (ks_customDomains s) \<and>
     (\<forall>i rv. reservationLookupByID (ks_reservations s) i = Some rv \<longrightarrow>
        tokenLookupByID (ks_service s) (rv_TokenID rv) \<noteq> None)"

text \<open>A control plane in operation: its start, requests one after the other, and runs of the pruner.\<close>

inductive control_reach :: "kenv \<Rightarrow> ControlConfig \<Rightarrow> ControlServer \<Rightarrow> bool" for E cfg where
  start: "control_reach E cfg (NewControlServer (ke_fl E) now cfg)"
| request: "control_reach E cfg s \<Longrightarrow> ControlHandler E io s r w = (w', s') \<Longrightarrow> control_reach E cfg s'"
| prune: "control_reach E cfg s \<Longrightarrow> control_reach E cfg (pruneAuditEvents now s)"

text \<open>The admin tokens without the time of their last use.\<close>

definition adminRecords :: "ControlServer \<Rightarrow> string \<Rightarrow> AdminTokenRecord option" where
  "adminRecords s i = map_option (\<lambda>r. r\<lparr>at_LastUsedAt := None\<rparr>) (at_byID (ks_adminTokens s) i)"

text \<open>
  A small instance for the examples: a text is coded by its length in unary, a semicolon and its bytes,
  and a message as the text of its parts.
\<close>

definition frame :: "string \<Rightarrow> bytes" where
  "frame s = replicate (length s) CHR ''x'' @ '';'' @ s"

definition unframe :: "bytes \<Rightarrow> (string \<times> bytes) option" where
  "unframe b =
     (let n = length (takeWhile (\<lambda>c. c = CHR ''x'') b); rest = drop (Suc n) b in
      if n < length b \<and> n \<le> length rest then Some (take n rest, drop n rest) else None)"

definition demoParts :: "string list \<Rightarrow> bytes" where
  "demoParts parts = frame (concat (map frame parts))"

fun partsOf :: "nat \<Rightarrow> bytes \<Rightarrow> string list" where
  "partsOf 0 b = []"
| "partsOf (Suc n) b = (case unframe b of None \<Rightarrow> [] | Some (s, rest) \<Rightarrow> s # partsOf n rest)"

definition flag :: "bool \<Rightarrow> string" where
  "flag b = (if b then ''t'' else [])"

definition demoControlJSON :: control_json where
  "demoControlJSON =
     \<lparr>cj_next = (\<lambda>b fin. case unframe b of None \<Rightarrow> ScanMore | Some (v, rest) \<Rightarrow> ScanValue v rest),
      cj_any = (\<lambda>b. None), cj_readError = [],
      cj_createToken = (\<lambda>v. Inr (partsOf 1 v ! 0, [])),
      cj_validate = (\<lambda>v. let p = partsOf 2 v in Inr \<lparr>vq_Token = p ! 0, vq_Scope = p ! 1\<rparr>),
      cj_reserve = (\<lambda>v. let p = partsOf 2 v in Inr (p ! 0, p ! 1)),
      cj_authorize = (\<lambda>v. let p = partsOf 2 v in Inr \<lparr>zq_TokenID = p ! 0, zq_Subdomain = p ! 1\<rparr>),
      cj_createPolicy = (\<lambda>v. Inl []), cj_updatePolicy = (\<lambda>v. Inl []),
      cj_evaluate = (\<lambda>v. let p = partsOf 5 v in
         Inr \<lparr>aq_Subdomain = p ! 0, aq_RemoteIP = p ! 1, aq_BasicUsername = p ! 2, aq_BasicPassword = p ! 3,
              aq_BearerToken = p ! 4\<rparr>),
      cj_createDomain = (\<lambda>v. let p = partsOf 2 v in Inr (p ! 0, p ! 1)),
      cj_lookup = (\<lambda>v. Inr (partsOf 1 v ! 0)),
      cj_payload = (\<lambda>p. case p of
         ValidationPayload x \<Rightarrow> demoParts [flag (vr_Valid x), vr_TokenID x]
       | AuthorizationPayload x \<Rightarrow> demoParts [flag (az_Allowed x), az_Reason x]
       | EvaluationPayload x \<Rightarrow> demoParts [flag (er_Allowed x), policyModeString (er_Mode x), er_Reason x]
       | LookupPayload x \<Rightarrow> demoParts [flag (lc_Found x), lc_Reason x, lc_Hostname x, lc_Subdomain x]
       | _ \<Rightarrow> [])\<rparr>"

definition demoKenv :: kenv where
  "demoKenv =
     \<lparr>ke_sha = demoSHA, ke_uc = id, ke_a2 = demoArgon2, ke_quo = id,
      ke_url = \<lparr>urlParse = (\<lambda>s. Inl s), urlString = url_Host, PathUnescape = Some\<rparr>, ke_fl = id, ke_ff = (\<lambda>x. []),
      ke_json = demoControlJSON, ke_randText = [], ke_parseTime = (\<lambda>s. None), ke_formatTime = (\<lambda>t. []),
      ke_formatG = (\<lambda>x. []), ke_durationText = (\<lambda>d. []), ke_marCursor = (\<lambda>c. None), ke_unmCursor = (\<lambda>b. None)\<rparr>"

definition demoKio :: kio where
  "demoKio =
     \<lparr>ki_authNow = 1, ki_opNow = 2, ki_logNow = 3, ki_elapsed = 0, ki_rand = (\<lambda>i n. None), ki_requestIDRand = (\<lambda>n. None),
      ki_tokenOrder = [], ki_adminTokenOrder = [], ki_reservationOrder = [], ki_policyOrder = [], ki_domainOrder = [],
      ki_fieldOrder = (\<lambda>e. []), ki_query = (\<lambda>q. []), ki_lookupTXT = (\<lambda>n. None), ki_gateway = (\<lambda>q. None),
      ki_dashboard = id, ki_redirect = id, ki_process = \<lparr>rt_NumGoroutine = 0, rt_HeapAlloc = 0, rt_HeapSys = 0, rt_openFDs = None\<rparr>\<rparr>"

definition demoControlConfig :: ControlConfig where
  "demoControlConfig =
     \<lparr>kc_Addr = [], kc_AdminToken = ''root'', kc_ValidatorToken = ''gw'', kc_GatewayManagementURL = [],
      kc_GatewayManagementToken = [], kc_GatewayManagementTimeout = 0, kc_TrustedProxies = [], kc_DatabaseURL = [],
      kc_Version = [], kc_AuditEventRetention = 0, kc_AuditEventPruneInterval = 0, kc_DNSResolverAddr = [],
      kc_ShutdownTimeout = 0, kc_DBMaxOpenConns = 0, kc_DBMaxIdleConns = 0, kc_DBConnMaxLifetime = 0, kc_DBConnMaxIdleTime = 0\<rparr>"

definition demoControl :: ControlServer where
  "demoControl =
     \<lparr>ks_cfg = demoControlConfig, ks_service = NewTokenStore, ks_reservations = NewReservationStore,
      ks_accessPolicies = NewPolicyStore, ks_customDomains = NewDomainStore, ks_adminTokens = NewAdminTokenStore,
      ks_metrics = (newControlMetrics id)\<lparr>km_requestDuration := NewHistogram []\<rparr>, ks_startedAt = 0,
      ks_auditEvents = NewMemoryAuditEventStore 1, ks_clientIPs = NewResolver []\<rparr>"

text \<open>An administrator revokes a token.\<close>

definition demoRevoke :: httpRequest where
  "demoRevoke =
     \<lparr>r_Method = ''DELETE'', r_Host = [], r_Path = ''/api/v1/tokens/a'', r_RawQuery = [],
      r_Header = [''Authorization'' \<mapsto> [''Bearer root'']], r_ContentLength = 0, r_RemoteAddr = ''10.0.0.1:9'', r_TLS = False,
      r_ctxID = [], r_Body = None\<rparr>"

definition freshWriter :: responseWriter where
  "freshWriter = \<lparr>rw_Header = Map.empty, rw_Info = [], rw_Sent = None, rw_Body = []\<rparr>"

definition demoOneToken :: ControlServer where
  "demoOneToken = demoControl
     \<lparr>ks_service := \<lparr>tk_byID = [''a'' \<mapsto> \<lparr>tk_ID = ''a'', tk_Name = ''n'', tk_TokenHash = ''h'', tk_Scopes = [''register_tunnel''],
        tk_CreatedAt = 0, tk_LastUsedAt = None, tk_RevokedAt = None\<rparr>], tk_byHash = [''h'' \<mapsto> ''a'']\<rparr>\<rparr>"

section \<open>Lemmas\<close>

lemma bump_frame [simp]:
  "ks_cfg (bump u s) = ks_cfg s" "ks_service (bump u s) = ks_service s" "ks_reservations (bump u s) = ks_reservations s"
  "ks_accessPolicies (bump u s) = ks_accessPolicies s" "ks_customDomains (bump u s) = ks_customDomains s"
  "ks_adminTokens (bump u s) = ks_adminTokens s" "ks_clientIPs (bump u s) = ks_clientIPs s"
  "ks_auditEvents (bump u s) = ks_auditEvents s" "ks_startedAt (bump u s) = ks_startedAt s"
  by (simp_all add: bump_def)

lemma bump_commute [simp]:
  "(bump u s)\<lparr>ks_service := x\<rparr> = bump u (s\<lparr>ks_service := x\<rparr>)"
  "(bump u s)\<lparr>ks_accessPolicies := y\<rparr> = bump u (s\<lparr>ks_accessPolicies := y\<rparr>)"
  by (simp_all add: bump_def)

lemma logAudit_frame [simp]:
  "ks_cfg (logAudit E io r l m ev at1 s) = ks_cfg s" "ks_service (logAudit E io r l m ev at1 s) = ks_service s"
  "ks_reservations (logAudit E io r l m ev at1 s) = ks_reservations s"
  "ks_accessPolicies (logAudit E io r l m ev at1 s) = ks_accessPolicies s"
  "ks_customDomains (logAudit E io r l m ev at1 s) = ks_customDomains s"
  "ks_adminTokens (logAudit E io r l m ev at1 s) = ks_adminTokens s"
  "ks_clientIPs (logAudit E io r l m ev at1 s) = ks_clientIPs s"
  by (simp_all add: logAudit_def)

lemma authFailed_frame [simp]:
  "ks_cfg (authFailed E io r at1 s) = ks_cfg s" "ks_service (authFailed E io r at1 s) = ks_service s"
  "ks_reservations (authFailed E io r at1 s) = ks_reservations s"
  "ks_accessPolicies (authFailed E io r at1 s) = ks_accessPolicies s"
  "ks_customDomains (authFailed E io r at1 s) = ks_customDomains s"
  "ks_adminTokens (authFailed E io r at1 s) = ks_adminTokens s"
  "ks_clientIPs (authFailed E io r at1 s) = ks_clientIPs s"
  by (simp_all add: authFailed_def)

lemma sameStores_refl [simp]: "sameStores s s"
  by (simp add: sameStores_def)

lemma markUsed_hash [simp]: "at_byHash (adminTokenMarkUsed st i now) = at_byHash st"
  by (simp add: adminTokenMarkUsed_def split: option.split)

lemma markUsed_lookup:
  "map_option (\<lambda>x. (at_RevokedAt x, at_Scopes x)) (adminTokenLookupByHash (adminTokenMarkUsed st i now) h) =
   map_option (\<lambda>x. (at_RevokedAt x, at_Scopes x)) (adminTokenLookupByHash st h)"
  by (auto simp: adminTokenLookupByHash_def adminTokenMarkUsed_def split: option.split)

lemma adminMay_alt:
  "adminMay E s r scope \<longleftrightarrow> snd (controlBearerToken r) \<and>
     (controlSecretEqual (ke_sha E) (fst (controlBearerToken r)) (kc_AdminToken (ks_cfg s)) \<or>
      (\<exists>scopes. map_option (\<lambda>x. (at_RevokedAt x, at_Scopes x))
         (adminTokenLookupByHash (ks_adminTokens s) (HashAdminToken (ke_sha E) (fst (controlBearerToken r)))) = Some (None, scopes) \<and>
         scope \<in> set scopes))"
  by (auto simp: adminMay_def split: prod.split option.split)

lemma marked_adminMay:
  assumes "marked io s s1"
  shows "adminMay E s1 r scope \<longleftrightarrow> adminMay E s r scope"
proof (cases "s1 = s")
  case False
  then obtain i where "s1 = s\<lparr>ks_adminTokens := adminTokenMarkUsed (ks_adminTokens s) i (ki_authNow io)\<rparr>"
    using assms by (auto simp: marked_def)
  then have "ks_cfg s1 = ks_cfg s" "ks_adminTokens s1 = adminTokenMarkUsed (ks_adminTokens s) i (ki_authNow io)" by simp_all
  then show ?thesis by (simp only: adminMay_alt markUsed_lookup)
qed simp

lemma controlBearerToken_trim: "controlBearerToken r = (tok, ok) \<Longrightarrow> TrimSpace tok = tok \<and> (ok \<longrightarrow> tok \<noteq> [])"
  by (auto simp: controlBearerToken_def TrimSpace_idem split: prod.splits)

lemma authorizeAdmin_cases:
  assumes a: "authorizeAdmin E io s r [scope] = (res, s1)" and sc: "scope \<noteq> []"
  shows "marked io s s1 \<and> (\<exists>auth. res = Inr auth \<and>
    (aa_Authenticated auth \<and> aa_Authorized auth \<longrightarrow> adminMay E s r scope))"
proof -
  obtain tok ok where t: "controlBearerToken r = (tok, ok)" by fastforce
  note tt = controlBearerToken_trim [OF t]
  let ?boot = "kc_AdminToken (ks_cfg s) \<noteq> [] \<and> controlSecretEqual (ke_sha E) tok (kc_AdminToken (ks_cfg s))"
  consider "\<not> ok" | "ok" "?boot" | "ok" "\<not> ?boot" by blast
  then show ?thesis
  proof cases
    case 1
    then have "res = Inr noAuthorization" "s1 = s" using a by (simp_all add: authorizeAdmin_def t)
    then show ?thesis by (simp add: noAuthorization_def marked_def)
  next
    case 2
    then have "s1 = s" "\<exists>auth. res = Inr auth" "adminMay E s r scope"
      using a by (auto simp: authorizeAdmin_def t adminMay_def)
    then show ?thesis by (auto simp: marked_def)
  next
    case 3
    have au: "(res, s1) = (case ValidateAdminToken (ke_sha E) (ki_authNow io) (Some (ks_adminTokens s)) tok [] of
          Inl e \<Rightarrow> (Inl e, s)
        | Inr (result, store) \<Rightarrow>
            let s1 = s\<lparr>ks_adminTokens := store\<rparr> in
            if \<not> avr_Valid result then (Inr noAuthorization, s1)
            else (Inr \<lparr>aa_Authenticated = True,
                       aa_Authorized = list_all (\<lambda>scope. scope = [] \<or> adminAuthorizationHasScope (avr_Scopes result) scope) [scope],
                       aa_Source = ''admin_token'', aa_TokenID = avr_TokenID result, aa_TokenName = avr_Name result,
                       aa_Scopes = avr_Scopes result\<rparr>, s1))"
      using a 3 unfolding authorizeAdmin_def t by (simp only: prod.case if_False simp_thms)
    have va: "ValidateAdminToken (ke_sha E) (ki_authNow io) (Some (ks_adminTokens s)) tok [] =
        (case adminTokenLookupByHash (ks_adminTokens s) (HashAdminToken (ke_sha E) tok) of
           None \<Rightarrow> Inr (invalidAdminToken, ks_adminTokens s)
         | Some record \<Rightarrow> if at_RevokedAt record \<noteq> None then Inr (invalidAdminToken, ks_adminTokens s)
             else Inr (\<lparr>avr_Valid = True, avr_TokenID = at_ID record, avr_Name = at_Name record, avr_Scopes = at_Scopes record\<rparr>,
                       adminTokenMarkUsed (ks_adminTokens s) (at_ID record) (ki_authNow io)))"
      using tt 3 by (simp add: ValidateAdminToken_def split: option.split)
    show ?thesis
    proof (cases "\<exists>record. adminTokenLookupByHash (ks_adminTokens s) (HashAdminToken (ke_sha E) tok) = Some record \<and>
        at_RevokedAt record = None")
      case False
      then have "res = Inr noAuthorization" "s1 = s"
        using au by (auto simp: va invalidAdminToken_def split: option.splits)
      then show ?thesis by (simp add: noAuthorization_def marked_def)
    next
      case True
      then obtain entry where rec: "adminTokenLookupByHash (ks_adminTokens s) (HashAdminToken (ke_sha E) tok) = Some entry"
        "at_RevokedAt entry = None" by blast
      then have "s1 = s\<lparr>ks_adminTokens := adminTokenMarkUsed (ks_adminTokens s) (at_ID entry) (ki_authNow io)\<rparr>"
        "\<exists>auth. res = Inr auth \<and> (aa_Authorized auth \<longrightarrow> scope \<in> set (at_Scopes entry))"
        using au sc by (auto simp: va adminAuthorizationHasScope_def list_ex_iff)
      moreover have "scope \<in> set (at_Scopes entry) \<Longrightarrow> adminMay E s r scope"
        using rec 3 by (simp add: adminMay_def t)
      ultimately show ?thesis by (auto simp: marked_def)
    qed
  qed
qed

lemma withAdmin_handled:
  assumes sc: "scope \<noteq> []"
    and body: "\<And>s1. marked io s s1 \<Longrightarrow> adminMay E s1 r scope \<Longrightarrow> handledFrom E io r s1 w (body s1)"
  shows "handled E io r s w (withAdmin E io scope s r w body)"
proof -
  obtain res s1 where a: "authorizeAdmin E io s r [scope] = (res, s1)" by fastforce
  from authorizeAdmin_cases [OF a sc] obtain auth where m: "marked io s s1" and res: "res = Inr auth"
    and may: "aa_Authenticated auth \<Longrightarrow> aa_Authorized auth \<Longrightarrow> adminMay E s1 r scope"
    by (auto simp: marked_adminMay)
  show ?thesis
  proof (cases "aa_Authenticated auth \<and> aa_Authorized auth")
    case True
    then have "withAdmin E io scope s r w body = body s1"
      by (simp add: withAdmin_def authorizeAdminRequest_def a res)
    then show ?thesis using m body may True by (auto simp: handled_def)
  next
    case False
    then have "\<exists>w' attrs. withAdmin E io scope s r w body = (w', authFailed E io r attrs s1)"
      by (auto simp: withAdmin_def authorizeAdminRequest_def a res Let_def)
    then show ?thesis using m by (auto simp: handled_def handledFrom_def sameStores_def)
  qed
qed

lemma handledFrom_same: "sameStores s s' \<Longrightarrow> handledFrom E io r s w (w', s')"
  by (simp add: handledFrom_def)

lemma sameStores_steps [simp]:
  "sameStores s (bump u s') \<longleftrightarrow> sameStores s s'"
  "sameStores s (logAudit E io r l m ev at1 s') \<longleftrightarrow> sameStores s s'"
  "sameStores s (authFailed E io r at1 s') \<longleftrightarrow> sameStores s s'"
  by (simp_all add: sameStores_def)

lemma handledFrom_frame [simp]:
  "handledFrom E io r s w (w', s)" "handledFrom E io r s w (w', logAudit E io r l m ev at1 s)"
  "handledFrom E io r s w (w', logAudit E io r l m ev at1 (bump u s))"
  "handledFrom E io r s w (w', logAudit E io r l m ev at1 (bump u (bump u' s)))"
  by (simp_all add: handledFrom_same)

lemma handledFrom_op:
  assumes "control_op E io r s s2" "succeeds w w'"
  shows "handledFrom E io r s w (w', logAudit E io r LevelInfo m ev at1 s2)"
    "handledFrom E io r s w (w', logAudit E io r LevelInfo m ev at1 (bump u s2))"
    "handledFrom E io r s w (w', logAudit E io r LevelInfo m ev at1 (bump u (bump u' s2)))"
proof -
  have "ks_auditEvents s2 = ks_auditEvents s \<and> ks_clientIPs s2 = ks_clientIPs s"
    using assms(1) by cases simp_all
  then have "audited r s (logAudit E io r LevelInfo m ev at1 s2)" "audited r s (logAudit E io r LevelInfo m ev at1 (bump u s2))"
    "audited r s (logAudit E io r LevelInfo m ev at1 (bump u (bump u' s2)))"
    by (auto simp: audited_def logAudit_def controlClientIP_def)
  then show "handledFrom E io r s w (w', logAudit E io r LevelInfo m ev at1 s2)"
    "handledFrom E io r s w (w', logAudit E io r LevelInfo m ev at1 (bump u s2))"
    "handledFrom E io r s w (w', logAudit E io r LevelInfo m ev at1 (bump u (bump u' s2)))"
    using assms by (auto simp: handledFrom_def)
qed

lemma withJSON_handled:
  assumes "\<And>req. handledFrom E io r s w (body req)"
  shows "handledFrom E io r s w (withJSON E un s r w body)"
  using assms by (auto simp: withJSON_def handledFrom_same split: sum.split)

lemma withValidator_handled:
  assumes "validatorAuthorized E s r \<Longrightarrow> handledFrom E io r s w body"
  shows "handledFrom E io r s w (withValidator E io s r w body)"
  using assms by (auto simp: withValidator_def validatorRefused_def handledFrom_same)

lemma handledFrom_handled: "handledFrom E io r s w out \<Longrightarrow> handled E io r s w out"
  by (auto simp: handled_def marked_def)

lemma succeeds_ok [simp]:
  "200 \<le> st \<Longrightarrow> st < 300 \<Longrightarrow> succeeds w (controlWriteJSON E st p w)"
  "succeeds w (WriteHeader 204 w)"
  by (auto simp: succeeds_def controlWriteJSON_def writeBytes_def WriteHeader_def setHeader_def)

lemma scopes_nonempty [simp]:
  "ScopeAdminTokens \<noteq> []" "ScopeTokens \<noteq> []" "ScopeReservations \<noteq> []" "ScopeDomains \<noteq> []"
  "ScopeAccessPolicies \<noteq> []" "ScopeAuditHistory \<noteq> []" "ScopeRuntimeDiagnostics \<noteq> []"
  by (simp_all add: ScopeAdminTokens_def ScopeTokens_def ScopeReservations_def ScopeDomains_def
      ScopeAccessPolicies_def ScopeAuditHistory_def ScopeRuntimeDiagnostics_def)

lemmas handled_intros = handledFrom_handled [OF handledFrom_same [OF sameStores_refl]] withAdmin_handled
  withJSON_handled

lemma handleAdminTokens_handled: "handled E io r s w (handleAdminTokens E io s r w)"
  unfolding handleAdminTokens_def
  by (auto intro!: handled_intros handledFrom_op create_admin_token split: sum.split)

lemma handleAdminTokenByID_handled: "handled E io r s w (handleAdminTokenByID E io s r w)"
  unfolding handleAdminTokenByID_def Let_def
  by (auto intro!: handled_intros handledFrom_op revoke_admin_token split: sum.split)

lemma handleTokens_handled: "handled E io r s w (handleTokens E io s r w)"
  unfolding handleTokens_def
  by (auto intro!: handled_intros handledFrom_op create_token split: sum.split)

lemma handleTokenByID_handled: "handled E io r s w (handleTokenByID E io s r w)"
  unfolding handleTokenByID_def Let_def
  by (auto intro!: handled_intros handledFrom_op revoke_token split: sum.split)

lemma handleReservedSubdomains_handled: "handled E io r s w (handleReservedSubdomains E io s r w)"
  unfolding handleReservedSubdomains_def
  by (auto intro!: handled_intros handledFrom_op intro: create_reservation split: sum.split option.split)

lemma handleReservedSubdomainByID_handled: "handled E io r s w (handleReservedSubdomainByID E io s r w)"
  unfolding handleReservedSubdomainByID_def Let_def
  by (auto intro!: handled_intros handledFrom_op delete_reservation split: sum.split)

lemma handleAccessPolicies_handled: "handled E io r s w (handleAccessPolicies E io s r w)"
  unfolding handleAccessPolicies_def
  by (auto intro!: handled_intros handledFrom_op intro: create_policy split: sum.split option.split simp del: One_nat_def)

lemma handleAccessPolicyByID_handled: "handled E io r s w (handleAccessPolicyByID E io s r w)"
  unfolding handleAccessPolicyByID_def Let_def
  apply (auto intro!: handled_intros handledFrom_op split: sum.split option.split)
  apply (rule update_policy, assumption, assumption)
  apply (rule delete_policy, assumption, assumption)
  done

lemma handleCustomDomains_handled: "handled E io r s w (handleCustomDomains E io s r w)"
  unfolding handleCustomDomains_def Let_def
  by (auto intro!: handled_intros handledFrom_op intro: create_domain split: sum.split option.split)

lemma handleCustomDomainByID_handled: "handled E io r s w (handleCustomDomainByID E io s r w)"
  unfolding handleCustomDomainByID_def verifyCustomDomain_def Let_def
  by (auto intro!: handled_intros handledFrom_op intro: verify_domain delete_domain split: sum.split option.split)

lemma handleValidateToken_handled: "handled E io r s w (handleValidateToken E io s r w)"
  unfolding handleValidateToken_def Let_def
  by (auto intro!: handled_intros handledFrom_handled withValidator_handled handledFrom_op intro: validate_token split: sum.split)

lemma handleAuthorizeReservedSubdomain_handled: "handled E io r s w (handleAuthorizeReservedSubdomain E io s r w)"
  unfolding handleAuthorizeReservedSubdomain_def Let_def
  by (auto intro!: handled_intros handledFrom_handled withValidator_handled split: sum.split)

lemma handleLookupCustomDomain_handled: "handled E io r s w (handleLookupCustomDomain E io s r w)"
  unfolding handleLookupCustomDomain_def Let_def
  by (auto intro!: handled_intros handledFrom_handled withValidator_handled split: sum.split)

lemma handleEvents_handled: "handled E io r s w (handleEvents E io s r w)"
  unfolding handleEvents_def Let_def
  by (auto intro!: handled_intros split: sum.split)

lemma gatewayOperatorRoute_scope: "gatewayOperatorRoute p = Some (u, scope) \<Longrightarrow> scope \<noteq> []"
  by (auto simp: gatewayOperatorRoute_def Let_def simp del: Contains_iff split: if_splits)

lemma handleGatewayOperator_handled: "handled E io r s w (handleGatewayOperator E io s r w)"
proof (cases "gatewayOperatorRoute (r_Path r)")
  case (Some us)
  then show ?thesis using gatewayOperatorRoute_scope [of "r_Path r" "fst us" "snd us"]
    unfolding handleGatewayOperator_def Let_def
    by (auto intro!: handled_intros split: sum.split option.split prod.split)
qed (auto simp: handleGatewayOperator_def intro!: handled_intros)

lemma evaluateAccessPolicy_cases:
  assumes "evaluateAccessPolicy E io s req = (res, s2)"
  shows "case res of
      Inl e \<Rightarrow> s2 = s
    | Inr x \<Rightarrow> s2 = s \<or> (\<exists>creq c ps. CheckPolicy (ke_sha E) (ke_a2 E) (ki_rand io 0) goNetip (Some (ks_accessPolicies s)) creq = Inr (c, ps) \<and>
                             s2 = s\<lparr>ks_accessPolicies := ps\<rparr>)"
  using assms unfolding evaluateAccessPolicy_def by (fastforce split: sum.splits option.splits prod.splits)

lemma handleEvaluateAccessPolicy_handled: "handled E io r s w (handleEvaluateAccessPolicy E io s r w)"
proof -
  have "handledFrom E io r s w
      (case evaluateAccessPolicy E io (bump km_accessPolicyEvaluationsTotal_update s) req of
         (Inl e, s2) \<Rightarrow> (w1 e, logAudit E io r LevelWarn m1 e1 (a1 e) (bump u1 s2))
       | (Inr (result, i), s2) \<Rightarrow> (controlWriteJSON E 200 (p result) w,
            logAudit E io r LevelInfo m2 e2 (a2 result i) (if cr_Allowed result then bump u2 s2 else bump u3 s2)))"
    if v: "validatorAuthorized E s r" for req w1 m1 e1 a1 u1 p m2 e2 a2 u2 u3
  proof -
    obtain res s2 where ev: "evaluateAccessPolicy E io (bump km_accessPolicyEvaluationsTotal_update s) req = (res, s2)"
      by fastforce
    show ?thesis
    proof (cases "s2 = bump km_accessPolicyEvaluationsTotal_update s")
      case True
      then show ?thesis by (auto simp: ev split: sum.split)
    next
      case False
      then show ?thesis
        using evaluateAccessPolicy_cases [OF ev] v
        by (auto simp: ev intro!: handledFrom_op intro: check_policy split: sum.splits)
    qed
  qed
  then show ?thesis
    unfolding handleEvaluateAccessPolicy_def Let_def
    by (auto intro!: handled_intros handledFrom_handled withValidator_handled)
qed

lemma controlMux_handled: "handled E io r s w (controlMux E io s r w)"
proof -
  have ready: "handled E io r s w (handleReady s r w)" "handled E io r s w (handleStatus E s r w)"
    "handled E io r s w (handleControlMetrics E io s r w)"
    by (auto simp: handleReady_def handleStatus_def handleControlMetrics_def controlReady_def Let_def intro!: handled_intros)
  have "handled E io r s w (controlServe E io route s r w)" for route
    by (cases route)
       (simp_all add: ready handleAdminTokens_handled handleAdminTokenByID_handled
        handleTokens_handled handleTokenByID_handled handleValidateToken_handled handleReservedSubdomains_handled
        handleReservedSubdomainByID_handled handleAuthorizeReservedSubdomain_handled handleAccessPolicies_handled
        handleAccessPolicyByID_handled handleEvaluateAccessPolicy_handled handleCustomDomains_handled
        handleCustomDomainByID_handled handleLookupCustomDomain_handled handleEvents_handled handleGatewayOperator_handled
        handledFrom_handled)
  then show ?thesis by (auto simp: controlMux_def handledFrom_handled split: mux_match.split)
qed

lemma guards_ctxID [simp]:
  "adminMay E s (r\<lparr>r_ctxID := i\<rparr>) scope = adminMay E s r scope"
  "validatorAuthorized E s (r\<lparr>r_ctxID := i\<rparr>) = validatorAuthorized E s r"
  by (simp_all add: adminMay_def validatorAuthorized_def authorizedBearer_def controlBearerToken_def)

lemma control_op_ctxID: "control_op E io (r\<lparr>r_ctxID := i\<rparr>) s s2 \<Longrightarrow> control_op E io r s s2"
  by (induction rule: control_op.induct) (simp_all add: control_op.intros)

lemma ControlHandler_handled: "handled E io r s w (ControlHandler E io s r w)"
proof -
  obtain i h where ih: "requestIDMiddleware (ki_requestIDRand io) (r_Header r) (rw_Header w) = (i, h)" by fastforce
  let ?r = "r\<lparr>r_ctxID := i\<rparr>" and ?w = "w\<lparr>rw_Header := h\<rparr>"
  have "handled E io ?r s ?w (controlMux E io s ?r ?w)" by (rule controlMux_handled)
  then obtain s1 where s1: "marked io s s1" "handledFrom E io ?r s1 ?w (controlMux E io s ?r ?w)" by (auto simp: handled_def)
  let ?o = "controlMux E io s ?r ?w"
  have eq: "ControlHandler E io s r w = latencyMiddleware E io ?o" by (simp add: ControlHandler_def ih)
  have "handledFrom E io r s1 w (latencyMiddleware E io ?o)"
    using s1(2) by (auto simp: handledFrom_def latencyMiddleware_def sameStores_def audited_def succeeds_def controlClientIP_def
        dest!: control_op_ctxID)
  then show ?thesis using s1(1) by (auto simp: handled_def eq)
qed

lemma token_step_keeps:
  assumes t: "token_step sha256 st st'" and inv: "token_inv st" and i: "tokenLookupByID st i \<noteq> None"
  shows "tokenLookupByID st' i \<noteq> None"
  using t
proof (cases rule: token_step.cases)
  case (1 rand now n sc ct)
  then obtain x where "tokenCreate st x = Inr st'" using CreateToken_Inr by blast
  then show ?thesis using i tok.create_lookup [OF inv] by auto
next
  case (2 now t sc v)
  then show ?thesis using ValidateToken_Inr [OF 2] i tok_use.modify_lookup [OF inv] by (auto simp: split: if_splits)
next
  case (3 now j)
  then show ?thesis using RevokeToken_Inr [OF 3] i tok_revoke.modify_lookup [OF inv] by (auto split: if_splits)
qed

lemma GetToken_stored: "GetToken (Some st) i = Inr (Some x) \<Longrightarrow> tokenLookupByID st (TrimSpace i) \<noteq> None"
  by (auto simp: GetToken_def Let_def split: if_splits)

lemma domain_step_inv: "domain_step uc a b \<Longrightarrow> domain_inv (fst a) \<Longrightarrow> domain_inv (fst b)"
proof (induction rule: domain_step.induct)
  case (create rand now s h i r s' l)
  then obtain x where "domainCreate s x = Inr s'" using CreateDomain_Inr by blast
  then show ?case using create(2) dom.create_inv by simp
next
  case (verify lk now s i r s' l' l)
  then show ?case using VerifyDomain_Inr [OF verify(1)] dom_upd.update_inv by auto
next
  case (remove s i s' l)
  then show ?case using DeleteDomain_Inr [OF remove(1)] dom.delete_inv by simp
qed

text \<open>Each operation is a step of one of the services.\<close>

lemma control_op_step:
  assumes "control_op E io r s s2"
  obtains (admin) st where "s2 = s\<lparr>ks_adminTokens := st\<rparr>" "admin_token_step (ke_sha E) (ks_adminTokens s) st"
      "adminMay E s r ScopeAdminTokens"
    | (token) st where "s2 = s\<lparr>ks_service := st\<rparr>" "token_step (ke_sha E) (ks_service s) st"
      "adminMay E s r ScopeTokens \<or> validatorAuthorized E s r"
    | (reserve) n tokenID tok rv rs where "s2 = s\<lparr>ks_reservations := rs\<rparr>" "adminMay E s r ScopeReservations"
      "GetToken (Some (ks_service s)) tokenID = Inr (Some tok)"
      "CreateReservation (ke_uc E) (ki_rand io) (ki_opNow io) (Some (ks_reservations s)) n tokenID = Inr (rv, rs)"
    | (release) i rs where "s2 = s\<lparr>ks_reservations := rs\<rparr>" "adminMay E s r ScopeReservations"
      "DeleteReservation (Some (ks_reservations s)) i = Inr rs"
    | (policy) ps where "s2 = s\<lparr>ks_accessPolicies := ps\<rparr>"
      "policy_step (ke_uc E) (ke_sha E) (ke_a2 E) goNetip (ks_accessPolicies s) ps"
      "adminMay E s r ScopeAccessPolicies \<or> validatorAuthorized E s r"
    | (domain) ds l where "s2 = s\<lparr>ks_customDomains := ds\<rparr>" "domain_step (ke_uc E) (ks_customDomains s, []) (ds, l)"
      "adminMay E s r ScopeDomains"
  using assms
proof (cases rule: control_op.cases)
  case (create_admin_token n sc c st)
  then show ?thesis using admin admin_token_step.intros(1) by blast
next
  case (revoke_admin_token i st)
  then show ?thesis using admin admin_token_step.intros(3) by blast
next
  case (create_token n sc ct st')
  then show ?thesis using token token_step.intros(1) by blast
next
  case (revoke_token i st')
  then show ?thesis using token token_step.intros(3) by blast
next
  case (create_reservation tokenID tok n cr rs)
  then show ?thesis using reserve by blast
next
  case (delete_reservation i rs)
  then show ?thesis using release by blast
next
  case (create_policy req res cp ps)
  then show ?thesis using policy policy_step.intros(1) by blast
next
  case (update_policy i ureq cp ps)
  then show ?thesis using policy policy_step.intros(2) by blast
next
  case (delete_policy i ps)
  then show ?thesis using policy policy_step.intros(3) by blast
next
  case (create_domain rid res h cd ds)
  then show ?thesis using domain domain_step.create by blast
next
  case (verify_domain i vd ds)
  then show ?thesis using domain domain_step.verify [OF verify_domain(3) refl] by blast
next
  case (delete_domain i ds)
  then show ?thesis using domain domain_step.remove by blast
next
  case (validate_token t sc1 vr st')
  then show ?thesis using token token_step.intros(2) by blast
next
  case (check_policy creq res' ps)
  then show ?thesis using policy policy_step.intros(4) by blast
qed

lemma control_op_inv:
  assumes h: "hashes (ke_sha E)" and "control_op E io r s s2" and inv: "control_inv s"
  shows "control_inv s2"
  using assms(2)
proof (cases rule: control_op_step)
  case (admin st)
  then show ?thesis using inv admin_token_step_inv by (auto simp: control_inv_def)
next
  case (token st)
  then show ?thesis using inv token_step_inv token_step_keeps by (auto simp: control_inv_def)
next
  case (reserve n tokenID tok rv rs)
  have c: "reservationCreate (ks_reservations s) rv = Inr rs" "rv_TokenID rv = TrimSpace tokenID"
    using CreateReservation_Inr [OF reserve(4)] by auto
  have "reservation_inv (ks_reservations s)" using inv by (simp add: control_inv_def reservation_wf_def)
  from rsv.create_lookup [OF this c(1)] show ?thesis
    using inv reserve reservation_wf_step [OF reservation_step.intros(1) [OF reserve(4)]] GetToken_stored [OF reserve(3)] c(2)
    by (auto simp: control_inv_def split: if_splits)
next
  case (release i rs)
  have "rs = reservationDelete (ks_reservations s) (TrimSpace i)" using DeleteReservation_Inr [OF release(3)] by simp
  moreover have "reservation_inv (ks_reservations s)" using inv by (simp add: control_inv_def reservation_wf_def)
  ultimately show ?thesis
    using inv release reservation_wf_step [OF reservation_step.intros(2) [OF release(3)]] rsv.delete_lookup
    by (auto simp: control_inv_def split: if_splits)
next
  case (policy ps)
  then show ?thesis using inv policy_wf_step [OF h] by (auto simp: control_inv_def)
next
  case (domain ds l)
  then show ?thesis using inv domain_step_inv [OF domain(2)] by (simp add: control_inv_def)
qed

lemma control_inv_same: "sameStores s s' \<Longrightarrow> control_inv s' = control_inv s"
  by (simp add: sameStores_def control_inv_def)

lemma marked_inv: "marked io s s1 \<Longrightarrow> control_inv s \<Longrightarrow> control_inv s1"
  using adm_use.modify_inv by (auto simp: marked_def control_inv_def)

lemma handled_inv:
  assumes "hashes (ke_sha E)" "handled E io r s w out" "control_inv s"
  shows "control_inv (snd out)"
  using assms control_op_inv marked_inv control_inv_same unfolding handled_def handledFrom_def by blast

lemma control_start_inv: "control_inv (NewControlServer rnd now cfg)"
  using tok.empty_inv adm.empty_inv dom.empty_inv reservation_reach_wf [OF rtranclp.rtrancl_refl]
    rsv.empty_lookup
  by (auto simp: control_inv_def NewControlServer_def Let_def policy_wf_def pol.empty_inv pol.empty_lookup)

lemma control_reach_inv:
  assumes "hashes (ke_sha E)" "control_reach E cfg s"
  shows "control_inv s"
  using assms(2)
proof (induction rule: control_reach.induct)
  case (start now)
  then show ?case by (rule control_start_inv)
next
  case (request s io r w w' s')
  then show ?case using handled_inv [OF assms(1) ControlHandler_handled [of E io r s w]] by simp
next
  case (prune s now)
  then show ?case by (simp add: pruneAuditEvents_def control_inv_def)
qed

lemma withAdmin_root:
  assumes "controlBearerToken r = (tok, True)" "tok \<noteq> []" "kc_AdminToken (ks_cfg s) = tok"
  shows "withAdmin E io scope s r w body = body s"
  using assms by (simp add: withAdmin_def authorizeAdminRequest_def authorizeAdmin_def controlSecretEqual_def)

lemma demoRevoke_bearer: "controlBearerToken (demoRevoke\<lparr>r_ctxID := i\<rparr>) = (''root'', True)"
proof -
  have "TrimSpace ''root'' = ''root''" by (rule TrimSpace_visible) (simp add: visible_def)
  moreover have "hdrGet (r_Header demoRevoke) ''Authorization'' = ''Bearer root''"
    by code_simp
  ultimately show ?thesis by (simp add: controlBearerToken_def demoRevoke_def CutPrefix_def HasPrefix_def)
qed

lemma demoRevoke_route: "muxMatch controlPatterns ''/api/v1/tokens/a'' = MuxHandler TokenByID"
  by code_simp

lemma demoRevoke_serve:
  "tokenLookupByID (ks_service (snd (controlServe demoKenv demoKio TokenByID demoOneToken (demoRevoke\<lparr>r_ctxID := i\<rparr>) w))) ''a'' \<noteq>
   tokenLookupByID (ks_service demoOneToken) ''a''"
proof -
  have i: "TrimPrefix ''/api/v1/tokens/a'' ''/api/v1/tokens/'' = ''a''" "\<not> Contains ''a'' ''/''"
    by code_simp+
  have "TrimSpace ''a'' = ''a''" by (rule TrimSpace_visible) (simp add: visible_def)
  then have rv: "RevokeToken 2 (Some (ks_service demoOneToken)) ''a'' = Inr (tokenRevoke (ks_service demoOneToken) ''a'' 2)"
    by (simp add: RevokeToken_def)
  have root: "kc_AdminToken (ks_cfg demoOneToken) = ''root''" by (simp add: demoOneToken_def demoControl_def demoControlConfig_def)
  have d: "r_Method demoRevoke = ''DELETE''" "r_Path demoRevoke = ''/api/v1/tokens/a''" "ki_opNow demoKio = 2"
    by (simp_all add: demoRevoke_def demoKio_def)
  show ?thesis
    by (simp add: handleTokenByID_def d withAdmin_root [OF demoRevoke_bearer _ root] i rv Let_def HasPrefix_def)
       (simp add: tokenRevoke_def tokenLookupByID_def demoOneToken_def)
qed

lemma demoRevoke_changes: "ks_service (snd (ControlHandler demoKenv demoKio demoOneToken demoRevoke w)) \<noteq> ks_service demoOneToken"
proof -
  obtain i h where ih: "requestIDMiddleware (ki_requestIDRand demoKio) (r_Header demoRevoke) (rw_Header w) = (i, h)" by fastforce
  have p: "r_Path demoRevoke = ''/api/v1/tokens/a''" by (simp add: demoRevoke_def)
  have "ks_service (snd (ControlHandler demoKenv demoKio demoOneToken demoRevoke w)) =
      ks_service (snd (controlServe demoKenv demoKio TokenByID demoOneToken (demoRevoke\<lparr>r_ctxID := i\<rparr>) (w\<lparr>rw_Header := h\<rparr>)))"
    by (simp add: ControlHandler_def ih latencyMiddleware_def controlMux_def p demoRevoke_route)
  then show ?thesis using demoRevoke_serve by metis
qed

lemma marked_frame:
  assumes "marked io s s1"
  shows "ks_service s1 = ks_service s" "ks_reservations s1 = ks_reservations s" "ks_accessPolicies s1 = ks_accessPolicies s"
    "ks_customDomains s1 = ks_customDomains s" "ks_cfg s1 = ks_cfg s" "ks_auditEvents s1 = ks_auditEvents s"
    "ks_clientIPs s1 = ks_clientIPs s" "adminRecords s1 = adminRecords s"
  using assms by (auto simp: marked_def adminRecords_def adminTokenMarkUsed_def fun_eq_iff split: option.split)

lemma marked_guards:
  assumes "marked io s s1"
  shows "validatorAuthorized E s1 r = validatorAuthorized E s r" "audited r s1 s' = audited r s s'"
  using marked_frame [OF assms] by (simp_all add: validatorAuthorized_def audited_def controlClientIP_def)

lemma handled_changes:
  assumes h: "handled E io r s w (w', s')"
  shows "sameStores s s' \<or> adminRecords s' = adminRecords s \<and> ks_service s' = ks_service s \<and> ks_reservations s' = ks_reservations s \<and>
      ks_accessPolicies s' = ks_accessPolicies s \<and> ks_customDomains s' = ks_customDomains s \<or>
    audited r s s' \<and> succeeds w w' \<and>
    (ks_reservations s' \<noteq> ks_reservations s \<longrightarrow> adminMay E s r ScopeReservations) \<and>
    (ks_customDomains s' \<noteq> ks_customDomains s \<longrightarrow> adminMay E s r ScopeDomains) \<and>
    (ks_accessPolicies s' \<noteq> ks_accessPolicies s \<longrightarrow> adminMay E s r ScopeAccessPolicies \<or> validatorAuthorized E s r) \<and>
    (ks_service s' \<noteq> ks_service s \<longrightarrow> adminMay E s r ScopeTokens \<or> validatorAuthorized E s r) \<and>
    (adminRecords s' \<noteq> adminRecords s \<longrightarrow> adminMay E s r ScopeAdminTokens)"
proof -
  from h obtain s1 where m: "marked io s s1" and f: "handledFrom E io r s1 w (w', s')" by (auto simp: handled_def)
  note mf = marked_frame [OF m] marked_guards [OF m] marked_adminMay [OF m]
  show ?thesis
  proof (cases "sameStores s1 s'")
    case True
    moreover from this have "adminRecords s' = adminRecords s1" by (simp add: sameStores_def adminRecords_def fun_eq_iff)
    ultimately show ?thesis using mf by (simp add: sameStores_def)
  next
    case False
    with f obtain s2 where op: "control_op E io r s1 s2" and same: "sameStores s2 s'" and "audited r s1 s'" "succeeds w w'"
      by (auto simp: handledFrom_def)
    moreover have "adminRecords s' = adminRecords s2" using same by (simp add: sameStores_def adminRecords_def fun_eq_iff)
    moreover have "(ks_reservations s2 \<noteq> ks_reservations s \<longrightarrow> adminMay E s r ScopeReservations) \<and>
      (ks_customDomains s2 \<noteq> ks_customDomains s \<longrightarrow> adminMay E s r ScopeDomains) \<and>
      (ks_accessPolicies s2 \<noteq> ks_accessPolicies s \<longrightarrow> adminMay E s r ScopeAccessPolicies \<or> validatorAuthorized E s r) \<and>
      (ks_service s2 \<noteq> ks_service s \<longrightarrow> adminMay E s r ScopeTokens \<or> validatorAuthorized E s r) \<and>
      (adminRecords s2 \<noteq> adminRecords s \<longrightarrow> adminMay E s r ScopeAdminTokens)"
      using op mf(1-4) mf(8-)
      by (cases rule: control_op_step) (auto simp: adminRecords_def fun_eq_iff)
    ultimately show ?thesis using mf by (auto simp: sameStores_def)
  qed
qed

section \<open>Properties\<close>

text \<open>
  C7: nothing changes in the control plane without authority and a trace.  When a request, whatever it
  is, changes the reserved subdomains, custom domains, access policies, agent tokens or admin tokens
  (apart from the time an admin token was last used), its bearer is the bootstrap token or a live
  admin token with the scope of that part of the API, or, for the two stores the gateway's endpoints
  write to, the validator; an audit event with the method, the path and the client's address was
  added to the log; and the response has a status of success.
\<close>

theorem changes_are_authorised_and_audited:
  assumes "ControlHandler E io s r w = (w', s')"
    and "ks_service s' \<noteq> ks_service s \<or> ks_reservations s' \<noteq> ks_reservations s \<or> ks_accessPolicies s' \<noteq> ks_accessPolicies s \<or>
      ks_customDomains s' \<noteq> ks_customDomains s \<or> adminRecords s' \<noteq> adminRecords s"
  shows "audited r s s' \<and> succeeds w w' \<and>
    (ks_reservations s' \<noteq> ks_reservations s \<longrightarrow> adminMay E s r ScopeReservations) \<and>
    (ks_customDomains s' \<noteq> ks_customDomains s \<longrightarrow> adminMay E s r ScopeDomains) \<and>
    (ks_accessPolicies s' \<noteq> ks_accessPolicies s \<longrightarrow> adminMay E s r ScopeAccessPolicies \<or> validatorAuthorized E s r) \<and>
    (ks_service s' \<noteq> ks_service s \<longrightarrow> adminMay E s r ScopeTokens \<or> validatorAuthorized E s r) \<and>
    (adminRecords s' \<noteq> adminRecords s \<longrightarrow> adminMay E s r ScopeAdminTokens)"
proof -
  have "handled E io r s w (w', s')" using ControlHandler_handled [of E io r s w] assms(1) by simp
  from handled_changes [OF this] assms(2) show ?thesis by (auto simp: sameStores_def adminRecords_def)
qed

theorem changes_are_authorised_and_audited_witness:
  "\<exists>w' s'. ControlHandler demoKenv demoKio demoOneToken demoRevoke freshWriter = (w', s') \<and>
     ks_service s' \<noteq> ks_service demoOneToken \<and> audited demoRevoke demoOneToken s' \<and>
     (adminMay demoKenv demoOneToken demoRevoke ScopeTokens \<or> validatorAuthorized demoKenv demoOneToken demoRevoke)"
proof -
  obtain w' s' where run: "ControlHandler demoKenv demoKio demoOneToken demoRevoke freshWriter = (w', s')" by fastforce
  then have "ks_service s' \<noteq> ks_service demoOneToken" using demoRevoke_changes [of freshWriter] by simp
  with changes_are_authorised_and_audited [OF run] run show ?thesis by blast
qed

text \<open>
  C10: the control plane refines its specification.  Whatever a request does to the records, it is one
  operation of one service that the caller may ask for (\<open>control_op\<close>), or nothing; before it only the
  use of the admin token is noted.  An operation that took place is audited and answered with success.
\<close>

theorem control_plane_refines_its_operations:
  assumes "ControlHandler E io s r w = (w', s')"
  shows "\<exists>s1. marked io s s1 \<and>
    (sameStores s1 s' \<or> (\<exists>s2. control_op E io r s1 s2 \<and> sameStores s2 s' \<and> audited r s1 s' \<and> succeeds w w'))"
proof -
  have "handled E io r s w (w', s')" using ControlHandler_handled [of E io r s w] assms by simp
  then show ?thesis by (simp add: handled_def handledFrom_def)
qed

theorem control_plane_refines_its_operations_witness:
  "\<exists>w' s' s1 s2. ControlHandler demoKenv demoKio demoOneToken demoRevoke freshWriter = (w', s') \<and>
     marked demoKio demoOneToken s1 \<and> control_op demoKenv demoKio demoRevoke s1 s2 \<and> sameStores s2 s'"
proof -
  obtain w' s' where run: "ControlHandler demoKenv demoKio demoOneToken demoRevoke freshWriter = (w', s')" by fastforce
  then have ch: "ks_service s' \<noteq> ks_service demoOneToken" using demoRevoke_changes [of freshWriter] by simp
  from control_plane_refines_its_operations [OF run] obtain s1 where m: "marked demoKio demoOneToken s1"
    and c: "sameStores s1 s' \<or> (\<exists>s2. control_op demoKenv demoKio demoRevoke s1 s2 \<and> sameStores s2 s')" by blast
  have "\<not> sameStores s1 s'" using ch marked_frame(1) [OF m] by (auto simp: sameStores_def)
  with c m run show ?thesis by blast
qed

text \<open>
  C11: the records of the control plane fit together in every state it can reach: each of the five
  stores is consistent, the name of a reserved subdomain is a valid label and its owner is a token
  that was issued, and every access policy has the credentials that its mode needs.
\<close>

theorem control_plane_records_are_wellformed:
  assumes "hashes (ke_sha E)" "control_reach E cfg s"
  shows "token_inv (ks_service s) \<and> admin_token_inv (ks_adminTokens s) \<and> domain_inv (ks_customDomains s) \<and>
    reservation_inv (ks_reservations s) \<and> policy_inv (ks_accessPolicies s) \<and>
    (\<forall>i rv. reservationLookupByID (ks_reservations s) i = Some rv \<longrightarrow>
       ValidateSubdomain (rv_Name rv) = None \<and> tokenLookupByID (ks_service s) (rv_TokenID rv) \<noteq> None) \<and>
    (\<forall>i p. policyLookupByID (ks_accessPolicies s) i = Some p \<longrightarrow> policy_complete p)"
  using control_reach_inv [OF assms] by (auto simp: control_inv_def reservation_wf_def policy_wf_def)

theorem control_plane_records_are_wellformed_witness:
  "\<exists>s. control_reach demoKenv demoControlConfig s \<and> reservation_inv (ks_reservations s) \<and> policy_inv (ks_accessPolicies s)"
proof -
  have r: "control_reach demoKenv demoControlConfig (NewControlServer (ke_fl demoKenv) 0 demoControlConfig)"
    by (rule control_reach.start)
  have "hashes (ke_sha demoKenv)" by (simp add: demoKenv_def demo_parameters)
  from control_plane_records_are_wellformed [OF this r] r show ?thesis by blast
qed

end
