(* ===== verification/System.thy ===== *)
theory System
  imports GatewayRun ControlRun
begin

text \<open>
  The gateway and the control plane together.  The gateway's HTTP client is connected to the handler of
  the control plane (\<open>controlRT\<close>), with any traffic of others in between and with calls that are lost.
  The theorems compare what the gateway does with the records of the control plane: the decisions on
  access (\<open>granted\<close>), the tokens (\<open>liveToken\<close>) and the owners of subdomains (\<open>ownsSubdomain\<close>).
\<close>

section \<open>The gateway in front of the control plane\<close>

text \<open>
  What lies between the two servers: for the \<open>n\<close>-th call of the gateway, the requests of others that
  the control plane handled since the call before it, the surroundings in which it handles this one,
  and how far the call gets.  The peer address and the header fields that the HTTP client or a proxy
  adds are those that the control plane sees.
\<close>

datatype call_fate = NotDelivered | AnswerLost | Answered

record control_net =
  cn_others :: "nat \<Rightarrow> (kio \<times> httpRequest) list"
  cn_io :: "nat \<Rightarrow> kio"
  cn_fate :: "nat \<Rightarrow> call_fate"
  cn_peer :: string
  cn_extra :: http_header

definition serverRequest :: "control_net \<Rightarrow> http_request \<Rightarrow> httpRequest" where
  "serverRequest net q =
     \<lparr>r_Method = hq_Method q, r_Host = url_Host (hq_URL q), r_Path = url_Path (hq_URL q),
      r_RawQuery = url_RawQuery (hq_URL q), r_Header = cn_extra net ++ hq_Header q,
      r_ContentLength = int (length (hq_Body q)), r_RemoteAddr = cn_peer net, r_TLS = False, r_ctxID = [],
      r_Body = Some [(hq_Body q, Some ReadEOF)]\<rparr>"

definition wireResponse :: "responseWriter \<Rightarrow> int \<times> bytes" where
  "wireResponse w = ((case rw_Sent w of None \<Rightarrow> 200 | Some (st, h) \<Rightarrow> st), rw_Body w)"

definition handleOthers :: "kenv \<Rightarrow> (kio \<times> httpRequest) list \<Rightarrow> ControlServer \<Rightarrow> ControlServer" where
  "handleOthers E rs s = fold (\<lambda>(io, r) s. snd (ControlHandler E io s r freshWriter)) rs s"

definition controlRT :: "kenv \<Rightarrow> control_net \<Rightarrow> (ControlServer \<times> nat) round_tripper" where
  "controlRT E net q world =
     (case world of (s, n) \<Rightarrow>
        let s1 = handleOthers E (cn_others net n) s in
        if cn_fate net n = NotDelivered then (None, (s1, Suc n))
        else case ControlHandler E (cn_io net n) s1 (serverRequest net q) freshWriter of
               (w, s2) \<Rightarrow> (if cn_fate net n = Answered then Some (wireResponse w) else None, (s2, Suc n)))"

text \<open>A control plane that goes on for any number of requests.\<close>

inductive control_step :: "kenv \<Rightarrow> ControlServer \<Rightarrow> ControlServer \<Rightarrow> bool" for E where
  request: "ControlHandler E io s r w = (w', s') \<Longrightarrow> control_step E s s'"
| prune: "control_step E s (pruneAuditEvents now s)"

text \<open>
  What the gateway and the control plane rely on of \<open>encoding/json\<close>: a coded request is one value, which
  is decoded to the fields that were sent; texts of ASCII characters arrive unchanged (bytes that are
  not UTF-8 are replaced).  Of a response the flags arrive as they were sent.
\<close>

definition ascii :: "string \<Rightarrow> bool" where
  "ascii s = list_all isASCII s"

definition sentText :: "string \<Rightarrow> string \<Rightarrow> bool" where
  "sentText a b \<longleftrightarrow> (ascii a \<longrightarrow> b = a)"

definition sentEvaluation :: "accessPolicyEvaluationRequest \<Rightarrow> accessPolicyEvaluationRequest \<Rightarrow> bool" where
  "sentEvaluation q q' \<longleftrightarrow> sentText (aq_Subdomain q) (aq_Subdomain q') \<and> sentText (aq_RemoteIP q) (aq_RemoteIP q') \<and>
     sentText (aq_BasicUsername q) (aq_BasicUsername q') \<and> sentText (aq_BasicPassword q) (aq_BasicPassword q') \<and>
     sentText (aq_BearerToken q) (aq_BearerToken q')"

definition json_reads :: "control_json \<Rightarrow> (bytes \<Rightarrow> string + 'a) \<Rightarrow> bytes \<Rightarrow> 'a \<Rightarrow> bool" where
  "json_reads js un b x \<longleftrightarrow>
     (\<exists>v rest. cj_next js b True = ScanValue v rest \<and> un v = Inr x \<and> jsonBlank rest \<and> cj_next js rest True = ScanMore)"

definition codec_ok :: "control_json \<Rightarrow> cp_codec \<Rightarrow> bool" where
  "codec_ok js cd \<longleftrightarrow>
     (\<forall>q b. encEvaluate cd q = Some b \<longrightarrow> (\<exists>q'. json_reads js (cj_evaluate js) b q' \<and> sentEvaluation q q')) \<and>
     (\<forall>q b. encValidate cd q = Some b \<longrightarrow>
        (\<exists>q'. json_reads js (cj_validate js) b q' \<and> sentText (vq_Token q) (vq_Token q') \<and> sentText (vq_Scope q) (vq_Scope q'))) \<and>
     (\<forall>q b. encAuthorize cd q = Some b \<longrightarrow>
        (\<exists>q'. json_reads js (cj_authorize js) b q' \<and> sentText (zq_TokenID q) (zq_TokenID q') \<and>
           sentText (zq_Subdomain q) (zq_Subdomain q'))) \<and>
     (\<forall>h b. encLookup cd h = Some b \<longrightarrow> (\<exists>h'. json_reads js (cj_lookup js) b h' \<and> sentText h h')) \<and>
     (\<forall>p x. decEvaluated cd (cj_payload js (EvaluationPayload p)) = Some x \<longrightarrow> pe_Allowed x = er_Allowed p) \<and>
     (\<forall>p x. decValidated cd (cj_payload js (ValidationPayload p)) = Some x \<longrightarrow>
        tv_Valid x = vr_Valid p \<and> sentText (vr_TokenID p) (tv_TokenID x)) \<and>
     (\<forall>p x. decAuthorized cd (cj_payload js (AuthorizationPayload p)) = Some x \<longrightarrow> ra_Allowed x = az_Allowed p)"

text \<open>\<open>net/url\<close> parses the endpoints that the client has built to their paths.\<close>

definition endpoint_ok :: "urls \<Rightarrow> string \<Rightarrow> string \<Rightarrow> bool" where
  "endpoint_ok u endpoint path \<longleftrightarrow> (\<exists>x. urlParse u endpoint = Inr x \<and> url_Path x = path)"

definition endpoints_ok :: "urls \<Rightarrow> controlPlaneClient \<Rightarrow> bool" where
  "endpoints_ok u c \<longleftrightarrow>
     endpoint_ok u (cc_tokenValidationEndpoint c) ''/api/v1/tokens/validate'' \<and>
     endpoint_ok u (cc_reservedSubdomainAuthzEndpoint c) ''/api/v1/reserved-subdomains/authorize'' \<and>
     endpoint_ok u (cc_accessPolicyEvaluationEndpoint c) ''/api/v1/access-policies/evaluate'' \<and>
     endpoint_ok u (cc_customDomainLookupEndpoint c) ''/api/v1/custom-domains/lookup''"

text \<open>The gateway \<open>G\<close> asks the control plane \<open>E\<close> over this network through the client \<open>c\<close>.\<close>

definition linked :: "kenv \<Rightarrow> control_net \<Rightarrow> (ControlServer \<times> nat) genv \<Rightarrow> controlPlaneClient \<Rightarrow> bool" where
  "linked E net G c \<longleftrightarrow> ge_rt G = controlRT E net \<and> codec_ok (ke_json E) (ge_cd G) \<and> endpoints_ok (ge_url G) c"

text \<open>
  The decisions the system is to make, over the records of the control plane: whether a request may
  pass, whether a token is live, and whether it owns a subdomain.
\<close>

definition granted :: "kenv \<Rightarrow> ControlServer \<Rightarrow> accessPolicyEvaluationRequest \<Rightarrow> bool" where
  "granted E s q \<longleftrightarrow>
     (case reservationLookupByName (ks_reservations s) (ToLower (ke_uc E) (TrimSpace (aq_Subdomain q))) of
        None \<Rightarrow> True
      | Some rv \<Rightarrow>
          (case policyLookupByReservedSubdomainID (ks_accessPolicies s) (TrimSpace (rv_ID rv)) of
             None \<Rightarrow> True
           | Some p \<Rightarrow> satisfies (ke_sha E) (ke_a2 E) goNetip p
               \<lparr>ck_ReservedSubdomainID = rv_ID rv, ck_RemoteIP = aq_RemoteIP q, ck_BasicUsername = aq_BasicUsername q,
                ck_BasicPassword = aq_BasicPassword q, ck_BearerToken = aq_BearerToken q\<rparr>))"

definition liveToken :: "kenv \<Rightarrow> ControlServer \<Rightarrow> string \<Rightarrow> string \<Rightarrow> bool" where
  "liveToken E s tok i \<longleftrightarrow>
     (\<exists>t. tokenLookupByID (ks_service s) i = Some t \<and> tk_TokenHash t = HashToken (ke_sha E) (TrimSpace tok) \<and>
        tk_RevokedAt t = None \<and> scopeRegisterTunnel \<in> set (tk_Scopes t))"

definition ownsSubdomain :: "kenv \<Rightarrow> ControlServer \<Rightarrow> string \<Rightarrow> string \<Rightarrow> bool" where
  "ownsSubdomain E s i subdomain \<longleftrightarrow>
     (\<exists>j rv. reservationLookupByID (ks_reservations s) j = Some rv \<and>
        rv_Name rv = ToLower (ke_uc E) (TrimSpace subdomain) \<and> rv_TokenID rv = TrimSpace i)"

text \<open>The bearer token of the gateway is the validator token of the control plane.\<close>

definition trusts :: "ControlServer \<Rightarrow> controlPlaneClient \<Rightarrow> bool" where
  "trusts s c \<longleftrightarrow> kc_ValidatorToken (ks_cfg s) = cc_bearerToken c \<and> cc_bearerToken c \<noteq> [] \<and>
     TrimSpace (cc_bearerToken c) = cc_bearerToken c"

text \<open>A call that gets through.\<close>

definition call_request :: "control_net \<Rightarrow> controlPlaneClient \<Rightarrow> URL \<Rightarrow> bytes \<Rightarrow> httpRequest" where
  "call_request net c url b = serverRequest net
     \<lparr>hq_Method = ''POST'', hq_URL = url,
      hq_Header = hdrSet ''Authorization'' (''Bearer '' @ cc_bearerToken c) (hdrSet ''Content-Type'' ''application/json'' Map.empty),
      hq_Body = b\<rparr>"

text \<open>A gateway and a control plane for the examples.\<close>

definition demoCodec :: cp_codec where
  "demoCodec =
     \<lparr>encValidate = (\<lambda>q. Some (demoParts [vq_Token q, vq_Scope q])),
      decValidated = (\<lambda>b. case unframe b of None \<Rightarrow> None | Some (v, r) \<Rightarrow>
         let p = partsOf 2 v in Some \<lparr>tv_Valid = (p ! 0 \<noteq> []), tv_TokenID = p ! 1\<rparr>),
      encAuthorize = (\<lambda>q. Some (demoParts [zq_TokenID q, zq_Subdomain q])),
      decAuthorized = (\<lambda>b. case unframe b of None \<Rightarrow> None | Some (v, r) \<Rightarrow>
         let p = partsOf 2 v in Some \<lparr>ra_Allowed = (p ! 0 \<noteq> []), ra_Reason = p ! 1\<rparr>),
      encEvaluate = (\<lambda>q. Some (demoParts [aq_Subdomain q, aq_RemoteIP q, aq_BasicUsername q, aq_BasicPassword q, aq_BearerToken q])),
      decEvaluated = (\<lambda>b. case unframe b of None \<Rightarrow> None | Some (v, r) \<Rightarrow>
         let p = partsOf 3 v in Some \<lparr>pe_Allowed = (p ! 0 \<noteq> []), pe_Mode = p ! 1, pe_Reason = p ! 2\<rparr>),
      encLookup = (\<lambda>h. Some (demoParts [h])),
      decLookedUp = (\<lambda>b. None)\<rparr>"

definition demoURLs :: urls where
  "demoURLs = \<lparr>urlParse = (\<lambda>s. Inr \<lparr>url_Scheme = ''http'', url_Host = ''control'', url_Path = s, url_RawQuery = [],
     url_Fragment = [], url_User = []\<rparr>), urlString = url_Path, PathUnescape = Some\<rparr>"

definition demoClient :: controlPlaneClient where
  "demoClient =
     \<lparr>cc_tokenValidationEndpoint = ''/api/v1/tokens/validate'',
      cc_reservedSubdomainAuthzEndpoint = ''/api/v1/reserved-subdomains/authorize'',
      cc_accessPolicyEvaluationEndpoint = ''/api/v1/access-policies/evaluate'',
      cc_customDomainLookupEndpoint = ''/api/v1/custom-domains/lookup'', cc_bearerToken = ''gw'', cc_timeout = 0\<rparr>"

definition demoNet :: control_net where
  "demoNet = \<lparr>cn_others = (\<lambda>n. []), cn_io = (\<lambda>n. demoKio), cn_fate = (\<lambda>n. Answered), cn_peer = ''10.0.0.2:9'', cn_extra = Map.empty\<rparr>"

definition systemEnv :: "(ControlServer \<times> nat) genv" where
  "systemEnv =
     \<lparr>ge_sha = id, ge_uc = id, ge_ef = (\<lambda>s t. s = t), ge_quo = id, ge_url = demoURLs, ge_cd = demoCodec,
      ge_rt = controlRT demoKenv demoNet, ge_js = demoJSON, ge_fl = id\<rparr>"

definition systemGateway :: Server where
  "systemGateway = demoGateway\<lparr>sv_access := ClientAccess demoClient, sv_domains := ClientDomains demoClient\<rparr>"

text \<open>A request whose connection has no address.\<close>

definition localRequest :: httpRequest where
  "localRequest = demoRequest\<lparr>r_RemoteAddr := []\<rparr>"

text \<open>An administrator creates a token, and an agent connects with it.\<close>

definition demoStart :: ControlServer where
  "demoStart = NewControlServer id 0 demoControlConfig"

definition drawing :: kio where
  "drawing = demoKio\<lparr>ki_rand := (\<lambda>i n. Some (replicate n CHR ''k''))\<rparr>"

definition demoCreate :: httpRequest where
  "demoCreate = demoRevoke\<lparr>r_Method := ''POST'', r_Path := ''/api/v1/tokens'', r_Body := Some [(demoParts [''ci''], Some ReadEOF)]\<rparr>"

definition demoIssued :: ControlServer where
  "demoIssued = snd (ControlHandler demoKenv drawing demoStart demoCreate freshWriter)"

definition issuedToken :: string where
  "issuedToken = ''ph_'' @ RawURLEncoding (replicate 32 CHR ''k'')"

definition agentEnv :: "(ControlServer \<times> nat) genv" where
  "agentEnv = systemEnv\<lparr>ge_js := demoJSON\<lparr>unAuthRequest := (\<lambda>b. Some (demoAuth\<lparr>ar_Token := issuedToken\<rparr>)),
     unTunnelRegister := (\<lambda>b. Some (demoRegister\<lparr>tr_RequestedSubdomain := []\<rparr>))\<rparr>\<rparr>"

definition agentGateway :: Server where
  "agentGateway = demoServer\<lparr>sv_tokens := ClientTokens demoClient, sv_reserved := ClientReserved demoClient\<rparr>"

section \<open>Lemmas\<close>

lemma wireResponse_json [simp]:
  "wireResponse (controlWriteJSON E 200 p (freshWriter\<lparr>rw_Header := h\<rparr>)) = (200, cj_payload (ke_json E) p)"
  by (simp add: wireResponse_def controlWriteJSON_def freshWriter_def setHeader_def WriteHeader_def writeBytes_def)

lemma wireResponse_error [simp]:
  "200 < st \<Longrightarrow> fst (wireResponse (httpError msg st (freshWriter\<lparr>rw_Header := h\<rparr>))) = st"
  by (simp add: wireResponse_def httpError_def freshWriter_def WriteHeader_def writeBytes_def Let_def)

lemma wireResponse_405 [simp]: "fst (wireResponse (controlMethodNotAllowed a (freshWriter\<lparr>rw_Header := h\<rparr>))) = 405"
  by (simp add: wireResponse_def controlMethodNotAllowed_def setHeader_def freshWriter_def WriteHeader_def)

lemma decodeJSON_reads:
  assumes "json_reads js un b x" "decodeJSON js un (Some [(b, Some ReadEOF)]) = Inr y"
  shows "y = x"
proof (cases "length b > maxJSONBodyBytes")
  case True
  then have lb: "limitedBody (Some [(b, Some ReadEOF)]) = (take maxJSONBodyBytes b, BodyTooLarge)" by (simp add: limitedBody_def Let_def)
  have "decodeNext js (anyJSON js) rest BodyTooLarge \<noteq> Inl DecodeEOF" for rest
    by (simp add: decodeNext_def split: json_scan.split sum.split)
  with assms(2) show ?thesis by (auto simp: decodeJSON_def lb split: sum.splits decode_error.splits)
next
  case False
  then have "limitedBody (Some [(b, Some ReadEOF)]) = (b, BodyEOF)" by (simp add: limitedBody_def Let_def)
  with assms show ?thesis by (auto simp: decodeJSON_def json_reads_def decodeNext_def)
qed

lemma api_routes:
  "muxMatch controlPatterns ''/api/v1/tokens/validate'' = MuxHandler ValidateTokenRoute"
  "muxMatch controlPatterns ''/api/v1/reserved-subdomains/authorize'' = MuxHandler AuthorizeReservedSubdomainRoute"
  "muxMatch controlPatterns ''/api/v1/access-policies/evaluate'' = MuxHandler EvaluateAccessPolicyRoute"
  "muxMatch controlPatterns ''/api/v1/custom-domains/lookup'' = MuxHandler LookupCustomDomainRoute"
  by code_simp+

lemma ControlHandler_route:
  assumes "muxMatch controlPatterns (r_Path r) = MuxHandler route"
  shows "\<exists>i h. fst (ControlHandler E io s r w) = fst (controlServe E io route s (r\<lparr>r_ctxID := i\<rparr>) (w\<lparr>rw_Header := h\<rparr>))"
  using assms
  by (simp add: ControlHandler_def latencyMiddleware_def controlMux_def split: prod.split) blast

lemma handleOthers_steps: "(control_step E)\<^sup>*\<^sup>* s (handleOthers E rs s)"
proof (induction rs arbitrary: s)
  case (Cons x rs)
  obtain io r where x: "x = (io, r)" by fastforce
  have "control_step E s (snd (ControlHandler E io s r freshWriter))" by (rule control_step.request) (rule prod.collapse [symmetric])
  with Cons.IH show ?case by (auto simp: handleOthers_def x intro: converse_rtranclp_into_rtranclp)
qed (simp add: handleOthers_def)

lemma control_reach_steps: "(control_step E)\<^sup>*\<^sup>* s s' \<Longrightarrow> control_reach E cfg s \<Longrightarrow> control_reach E cfg s'"
  by (induction rule: rtranclp_induct) (auto elim!: control_step.cases intro: control_reach.intros)

text \<open>
  A call that is answered with a result: it was handled by the handler of its route, in a state
  the control plane had come to in the meantime.
\<close>

lemma answered_call:
  assumes "postControlPlane u (controlRT E net) c endpoint body dec (s, n) = (Inr x, s2, m)"
    "endpoint_ok u endpoint path" "muxMatch controlPatterns path = MuxHandler route"
  obtains b q i h s1 w where "body = Some b" "r_Body q = Some [(b, Some ReadEOF)]"
    "s1 = handleOthers E (cn_others net n) s" "control_step E s1 s2"
    "w = fst (controlServe E (cn_io net n) route s1 q (freshWriter\<lparr>rw_Header := h\<rparr>))"
    "fst (wireResponse w) = 200" "dec (snd (wireResponse w)) = Some x"
proof -
  from assms(1,2) obtain b parsed where b: "body = Some b" "urlParse u endpoint = Inr parsed" "url_Path parsed = path"
    by (auto simp: postControlPlane_def endpoint_ok_def split: option.splits)
  define hq where "hq = \<lparr>hq_Method = ''POST'', hq_URL = parsed,
      hq_Header = hdrSet ''Authorization'' (''Bearer '' @ cc_bearerToken c) (hdrSet ''Content-Type'' ''application/json'' Map.empty),
      hq_Body = b\<rparr>"
  let ?q = "serverRequest net hq" and ?s1 = "handleOthers E (cn_others net n) s"
  obtain w where run: "ControlHandler E (cn_io net n) ?s1 ?q freshWriter = (w, s2)" "fst (wireResponse w) = 200"
    "dec (snd (wireResponse w)) = Some x"
    using assms(1) b by (auto simp: postControlPlane_def controlRT_def Let_def hq_def
        split: option.splits if_splits prod.splits)
  have "r_Path ?q = path" using b by (simp add: serverRequest_def hq_def)
  then obtain i h where w: "w = fst (controlServe E (cn_io net n) route ?s1 (?q\<lparr>r_ctxID := i\<rparr>) (freshWriter\<lparr>rw_Header := h\<rparr>))"
    using ControlHandler_route [of ?q route E "cn_io net n" ?s1 freshWriter] assms(3) run(1) by auto
  have "control_step E ?s1 s2" by (rule control_step.request [OF run(1)])
  moreover have "r_Body (?q\<lparr>r_ctxID := i\<rparr>) = Some [(b, Some ReadEOF)]" by (simp add: serverRequest_def hq_def)
  ultimately show thesis using that b(1) w run by blast
qed

lemma client_endpoints:
  assumes "newControlPlaneClient u cfg = Inr c" "urlParse u (cfg_ControlPlaneURL cfg) = Inr base" "url_Path base \<in> {[], ''/''}"
    and "\<And>p. \<exists>x. urlParse u (urlString u (base\<lparr>url_Path := p, url_RawQuery := [], url_Fragment := []\<rparr>)) = Inr x \<and> url_Path x = p"
  shows "endpoints_ok u c \<and> cc_bearerToken c \<noteq> [] \<and> TrimSpace (cc_bearerToken c) = cc_bearerToken c"
  using assms
  by (auto simp: newControlPlaneClient_def endpoints_ok_def endpoint_ok_def controlPlaneEndpoint_def joinURLPath_def Let_def split: if_splits)

lemma codec_okD:
  assumes "codec_ok js cd"
  shows "encEvaluate cd q = Some b \<Longrightarrow> \<exists>q'. json_reads js (cj_evaluate js) b q' \<and> sentEvaluation q q'"
    "encValidate cd v = Some b \<Longrightarrow>
       \<exists>v'. json_reads js (cj_validate js) b v' \<and> sentText (vq_Token v) (vq_Token v') \<and> sentText (vq_Scope v) (vq_Scope v')"
    "encAuthorize cd z = Some b \<Longrightarrow>
       \<exists>z'. json_reads js (cj_authorize js) b z' \<and> sentText (zq_TokenID z) (zq_TokenID z') \<and> sentText (zq_Subdomain z) (zq_Subdomain z')"
    "decEvaluated cd (cj_payload js (EvaluationPayload p)) = Some x \<Longrightarrow> pe_Allowed x = er_Allowed p"
    "decValidated cd (cj_payload js (ValidationPayload t)) = Some y \<Longrightarrow> tv_Valid y = vr_Valid t \<and> sentText (vr_TokenID t) (tv_TokenID y)"
    "decAuthorized cd (cj_payload js (AuthorizationPayload a)) = Some k \<Longrightarrow> ra_Allowed k = az_Allowed a"
  using assms unfolding codec_ok_def by blast+

lemma post_steps:
  assumes "postControlPlane u (controlRT E net) c endpoint body dec (s, n) = (x, s', m)"
  shows "(control_step E)\<^sup>*\<^sup>* s s'"
proof -
  have step: "(control_step E)\<^sup>*\<^sup>* s s2" if "controlRT E net q (s, n) = (a, s2, k)" for q a s2 k
  proof -
    let ?s1 = "handleOthers E (cn_others net n) s"
    have "s2 = ?s1 \<or> control_step E ?s1 s2"
      using that by (auto simp: controlRT_def Let_def split: if_splits prod.splits intro: control_step.request)
    then show ?thesis using handleOthers_steps [of E s "cn_others net n"] by (auto intro: rtranclp.rtrancl_into_rtrancl)
  qed
  show ?thesis
    using assms by (auto simp: postControlPlane_def Let_def split: option.splits sum.splits prod.splits if_splits dest!: step)
qed

lemma post_handler:
  assumes "(if r_Method r \<noteq> ''POST'' then (controlMethodNotAllowed ''POST'' (freshWriter\<lparr>rw_Header := h\<rparr>), s)
      else withValidator E io s r (freshWriter\<lparr>rw_Header := h\<rparr>) (withJSON E un s r (freshWriter\<lparr>rw_Header := h\<rparr>) body)) = out"
    "fst (wireResponse (fst out)) = 200"
  shows "\<exists>q. validatorAuthorized E s r \<and> decodeJSON (ke_json E) (un (ke_json E)) (r_Body r) = Inr q \<and> out = body q"
  using assms by (auto simp: withValidator_def validatorRefused_def withJSON_def split: if_splits sum.splits)

lemma evaluateAccessPolicy_granted:
  assumes "evaluateAccessPolicy E io s q = (Inr (result, i), s')"
  shows "cr_Allowed result \<longleftrightarrow> granted E s q"
proof -
  have dec: "cr_Allowed c \<longleftrightarrow> (case policyLookupByReservedSubdomainID ps (TrimSpace (ck_ReservedSubdomainID k)) of
        None \<Rightarrow> True | Some p \<Rightarrow> satisfies (ke_sha E) (ke_a2 E) goNetip p k)"
    if "CheckPolicy (ke_sha E) (ke_a2 E) rand goNetip (Some ps) k = Inr (c, ps')" for rand ps k c ps'
  proof -
    have "TrimSpace (ck_ReservedSubdomainID k) \<noteq> []" using that by (auto simp: CheckPolicy_def Let_def)
    from CheckPolicy_decision [of k "ke_sha E" "ke_a2 E" rand goNetip ps] this that show ?thesis by auto
  qed
  from assms obtain name rv where n: "NormalizeName (ke_uc E) (aq_Subdomain q) = Inr name"
    and l: "reservationLookupByName (ks_reservations s) name = rv"
    by (auto simp: evaluateAccessPolicy_def GetReservationByName_def split: sum.splits)
  have name: "name = ToLower (ke_uc E) (TrimSpace (aq_Subdomain q))"
    using n by (auto simp: NormalizeName_Inr_iff)
  show ?thesis
  proof (cases rv)
    case None
    then show ?thesis using assms n l name
      by (auto simp: evaluateAccessPolicy_def GetReservationByName_def granted_def decided_def)
  next
    case (Some r)
    let ?k = "\<lparr>ck_ReservedSubdomainID = rv_ID r, ck_RemoteIP = aq_RemoteIP q, ck_BasicUsername = aq_BasicUsername q,
        ck_BasicPassword = aq_BasicPassword q, ck_BearerToken = aq_BearerToken q\<rparr>"
    from assms n l Some obtain ps' where
      "CheckPolicy (ke_sha E) (ke_a2 E) (ki_rand io 0) goNetip (Some (ks_accessPolicies s)) ?k = Inr (result, ps')"
      by (auto simp: evaluateAccessPolicy_def GetReservationByName_def split: sum.splits)
    from dec [OF this] show ?thesis using l Some name by (simp add: granted_def)
  qed
qed

lemma granted_bump [simp]: "granted E (bump u s) q = granted E s q"
  by (simp add: granted_def cong: option.case_cong)

lemma granted_cong:
  assumes "TrimSpace (aq_Subdomain q) = TrimSpace (aq_Subdomain q')" "aq_RemoteIP q = aq_RemoteIP q'"
    "aq_BasicUsername q = aq_BasicUsername q'" "aq_BasicPassword q = aq_BasicPassword q'" "aq_BearerToken q = aq_BearerToken q'"
  shows "granted E s q = granted E s q'"
  by (simp add: granted_def assms cong: option.case_cong)

lemma answered_evaluation:
  assumes "clientEvaluateAccessPolicy u cd (controlRT E net) c q (s, n) = (Inr x, s2, m)"
    "codec_ok (ke_json E) cd" "endpoints_ok u c"
  shows "\<exists>s1 q' ip. s1 = handleOthers E (cn_others net n) s \<and> control_step E s1 s2 \<and> sentEvaluation q q' \<and>
    (aq_RemoteIP q' \<noteq> [] \<longrightarrow> ip = aq_RemoteIP q') \<and> pe_Allowed x = granted E s1 (q'\<lparr>aq_RemoteIP := ip\<rparr>)"
proof -
  from assms(3) have "endpoint_ok u (cc_accessPolicyEvaluationEndpoint c) ''/api/v1/access-policies/evaluate''"
    by (simp add: endpoints_ok_def)
  from answered_call [OF assms(1) [unfolded clientEvaluateAccessPolicy_def] this api_routes(3)]
  obtain b r h s1 w where A: "encEvaluate cd q = Some b" "r_Body r = Some [(b, Some ReadEOF)]"
    "s1 = handleOthers E (cn_others net n) s" "control_step E s1 s2"
    "w = fst (handleEvaluateAccessPolicy E (cn_io net n) s1 r (freshWriter\<lparr>rw_Header := h\<rparr>))"
    "fst (wireResponse w) = 200" "decEvaluated cd (snd (wireResponse w)) = Some x" by (metis controlServe.simps(15))
  obtain q' where q': "json_reads (ke_json E) (cj_evaluate (ke_json E)) b q'" "sentEvaluation q q'"
    using codec_okD(1) [OF assms(2) A(1)] by blast
  let ?q1 = "q'\<lparr>aq_Subdomain := TrimSpace (aq_Subdomain q')\<rparr>"
  let ?q2 = "if aq_RemoteIP ?q1 = [] then ?q1\<lparr>aq_RemoteIP := controlClientIP s1 r\<rparr> else ?q1"
  have d: "y = q'" if "decodeJSON (ke_json E) (cj_evaluate (ke_json E)) (r_Body r) = Inr y" for y
    using decodeJSON_reads [OF q'(1)] that A(2) by simp
  have "\<exists>result i s3. evaluateAccessPolicy E (cn_io net n) (bump km_accessPolicyEvaluationsTotal_update s1) ?q2 = (Inr (result, i), s3) \<and>
      snd (wireResponse w) = cj_payload (ke_json E)
        (EvaluationPayload \<lparr>er_Allowed = cr_Allowed result, er_Mode = cr_Mode result, er_Reason = cr_Reason result\<rparr>)"
  proof -
    let ?w = "freshWriter\<lparr>rw_Header := h\<rparr>"
    obtain out where out: "handleEvaluateAccessPolicy E (cn_io net n) s1 r ?w = out" "fst (wireResponse (fst out)) = 200" "w = fst out"
      using A(5,6) by blast
    note body = post_handler [OF out(1) [unfolded handleEvaluateAccessPolicy_def] out(2)]
    obtain res s3 where ev: "evaluateAccessPolicy E (cn_io net n) (bump km_accessPolicyEvaluationsTotal_update s1) ?q2 = (res, s3)" by fastforce
    from body obtain y where y: "decodeJSON (ke_json E) (cj_evaluate (ke_json E)) (r_Body r) = Inr y" by blast
    show ?thesis
    proof (cases "aq_Subdomain ?q1 = []")
      case True
      then show ?thesis using body d out(2) by (auto simp: Let_def)
    next
      case False
      have "fst out = (case res of
          Inl e \<Rightarrow> httpError (case e of Inl e1 \<Rightarrow> reservedErrorText E e1 | Inr e2 \<Rightarrow> accessErrorText E e2)
            (case e of Inl e1 \<Rightarrow> if isReservationRequestError E e1 then 400 else 500
               | Inr e2 \<Rightarrow> if Contains (accessErrorText E e2) ''invalid reserved subdomain'' then 400 else 500) ?w
        | Inr (result, i) \<Rightarrow> controlWriteJSON E 200
            (EvaluationPayload \<lparr>er_Allowed = cr_Allowed result, er_Mode = cr_Mode result, er_Reason = cr_Reason result\<rparr>) ?w)"
        using body d False ev unfolding Let_def by (cases "aq_RemoteIP q' = []"; cases res) auto
      with out(2,3) ev show ?thesis by (cases res) (auto split: sum.splits if_splits)
    qed
  qed
  then obtain result i s3 where R: "evaluateAccessPolicy E (cn_io net n) (bump km_accessPolicyEvaluationsTotal_update s1) ?q2 = (Inr (result, i), s3)"
    "snd (wireResponse w) = cj_payload (ke_json E)
        (EvaluationPayload \<lparr>er_Allowed = cr_Allowed result, er_Mode = cr_Mode result, er_Reason = cr_Reason result\<rparr>)" by blast
  have "pe_Allowed x = cr_Allowed result" using codec_okD(4) [OF assms(2)] A(7) R(2) by fastforce
  also have "\<dots> = granted E s1 ?q2" using evaluateAccessPolicy_granted [OF R(1)] by simp
  also have "\<dots> = granted E s1 (q'\<lparr>aq_RemoteIP := if aq_RemoteIP q' = [] then controlClientIP s1 r else aq_RemoteIP q'\<rparr>)"
    by (rule granted_cong) auto
  finally show ?thesis using A(3,4) q'(2)
    by (intro exI [of _ s1] exI [of _ q'] exI [of _ "if aq_RemoteIP q' = [] then controlClientIP s1 r else aq_RemoteIP q'"]) simp
qed

lemma answered_validation:
  assumes "clientValidateAgentToken u cd (controlRT E net) c tok (s, n) = (Inr x, s2, m)" "tv_Valid x"
    "codec_ok (ke_json E) cd" "endpoints_ok u c"
  shows "\<exists>s1 t i. s1 = handleOthers E (cn_others net n) s \<and> control_step E s1 s2 \<and> sentText tok t \<and> sentText i (tv_TokenID x) \<and>
    (token_inv (ks_service s1) \<longrightarrow> liveToken E s1 t i)"
proof -
  from assms(4) have "endpoint_ok u (cc_tokenValidationEndpoint c) ''/api/v1/tokens/validate''"
    by (simp add: endpoints_ok_def)
  from answered_call [OF assms(1) [unfolded clientValidateAgentToken_def] this api_routes(1)]
  obtain b r h s1 w where A: "encValidate cd \<lparr>vq_Token = tok, vq_Scope = scopeRegisterTunnel\<rparr> = Some b" "r_Body r = Some [(b, Some ReadEOF)]"
    "s1 = handleOthers E (cn_others net n) s" "control_step E s1 s2"
    "w = fst (handleValidateToken E (cn_io net n) s1 r (freshWriter\<lparr>rw_Header := h\<rparr>))"
    "fst (wireResponse w) = 200" "decValidated cd (snd (wireResponse w)) = Some x" by (metis controlServe.simps(12))
  have "ascii scopeRegisterTunnel" by code_simp
  then obtain q' where q': "json_reads (ke_json E) (cj_validate (ke_json E)) b q'" "sentText tok (vq_Token q')"
    "vq_Scope q' = scopeRegisterTunnel" using codec_okD(2) [OF assms(3) A(1)] by (auto simp: sentText_def)
  have d: "y = q'" if "decodeJSON (ke_json E) (cj_validate (ke_json E)) (r_Body r) = Inr y" for y
    using decodeJSON_reads [OF q'(1)] that A(2) by simp
  have "\<exists>result store. ValidateToken (ke_sha E) (ki_opNow (cn_io net n)) (Some (ks_service s1)) (vq_Token q') scopeRegisterTunnel = Inr (result, store) \<and>
      snd (wireResponse w) = cj_payload (ke_json E) (ValidationPayload result)"
  proof -
    obtain out where out: "handleValidateToken E (cn_io net n) s1 r (freshWriter\<lparr>rw_Header := h\<rparr>) = out"
      "fst (wireResponse (fst out)) = 200" "w = fst out" using A(5,6) by blast
    from post_handler [OF out(1) [unfolded handleValidateToken_def] out(2)] d out(2,3) q'(3) show ?thesis
      by (cases "ValidateToken (ke_sha E) (ki_opNow (cn_io net n)) (Some (ks_service s1)) (vq_Token q') scopeRegisterTunnel")
        (auto simp: Let_def split: token_error.splits)
  qed
  then obtain result store where R: "ValidateToken (ke_sha E) (ki_opNow (cn_io net n)) (Some (ks_service s1)) (vq_Token q') scopeRegisterTunnel = Inr (result, store)"
    "snd (wireResponse w) = cj_payload (ke_json E) (ValidationPayload result)" by blast
  have v: "vr_Valid result" "sentText (vr_TokenID result) (tv_TokenID x)" using codec_okD(5) [OF assms(3)] A(7) R(2) assms(2) by fastforce+
  have sc: "TrimSpace scopeRegisterTunnel = scopeRegisterTunnel" "scopeRegisterTunnel \<noteq> []" by code_simp+
  have "liveToken E s1 (vq_Token q') (vr_TokenID result)" if "token_inv (ks_service s1)"
    using ValidateToken_Inr [OF R(1)] v(1) tok.lookup_key [OF that] sc by (auto simp: liveToken_def invalidToken_def)
  then show ?thesis using A(3,4) q'(2) v(2) by blast
qed

lemma answered_authorization:
  assumes "clientAuthorizeReservedSubdomain u cd (controlRT E net) c i sub (s, n) = (Inr x, s2, m)" "ra_Allowed x"
    "codec_ok (ke_json E) cd" "endpoints_ok u c"
  shows "\<exists>s1 i' d. s1 = handleOthers E (cn_others net n) s \<and> control_step E s1 s2 \<and> sentText i i' \<and> sentText sub d \<and>
    (reservation_inv (ks_reservations s1) \<longrightarrow> ownsSubdomain E s1 i' d)"
proof -
  from assms(4) have ep: "endpoint_ok u (cc_reservedSubdomainAuthzEndpoint c) ''/api/v1/reserved-subdomains/authorize''"
    by (simp add: endpoints_ok_def)
  have "postControlPlane u (controlRT E net) c (cc_reservedSubdomainAuthzEndpoint c)
      (encAuthorize cd \<lparr>zq_TokenID = i, zq_Subdomain = sub\<rparr>) (decAuthorized cd) (s, n) = (Inr x, s2, m)"
    using assms(1) by (auto simp: clientAuthorizeReservedSubdomain_def split: if_splits)
  from answered_call [OF this ep api_routes(2)]
  obtain b r h s1 w where A: "encAuthorize cd \<lparr>zq_TokenID = i, zq_Subdomain = sub\<rparr> = Some b" "r_Body r = Some [(b, Some ReadEOF)]"
    "s1 = handleOthers E (cn_others net n) s" "control_step E s1 s2"
    "w = fst (handleAuthorizeReservedSubdomain E (cn_io net n) s1 r (freshWriter\<lparr>rw_Header := h\<rparr>))"
    "fst (wireResponse w) = 200" "decAuthorized cd (snd (wireResponse w)) = Some x" by (metis controlServe.simps(21))
  obtain q' where q': "json_reads (ke_json E) (cj_authorize (ke_json E)) b q'" "sentText i (zq_TokenID q')"
    "sentText sub (zq_Subdomain q')" using codec_okD(3) [OF assms(3) A(1)] by auto
  have d: "y = q'" if "decodeJSON (ke_json E) (cj_authorize (ke_json E)) (r_Body r) = Inr y" for y
    using decodeJSON_reads [OF q'(1)] that A(2) by simp
  have "\<exists>result. Authorize (ke_uc E) (Some (ks_reservations s1)) (zq_TokenID q') (zq_Subdomain q') = Inr result \<and>
      snd (wireResponse w) = cj_payload (ke_json E) (AuthorizationPayload result)"
  proof -
    obtain out where out: "handleAuthorizeReservedSubdomain E (cn_io net n) s1 r (freshWriter\<lparr>rw_Header := h\<rparr>) = out"
      "fst (wireResponse (fst out)) = 200" "w = fst out" using A(5,6) by blast
    from post_handler [OF out(1) [unfolded handleAuthorizeReservedSubdomain_def] out(2)] d out(2,3) show ?thesis
      by (cases "Authorize (ke_uc E) (Some (ks_reservations s1)) (zq_TokenID q') (zq_Subdomain q')") (auto simp: Let_def split: if_splits)
  qed
  then obtain result where R: "Authorize (ke_uc E) (Some (ks_reservations s1)) (zq_TokenID q') (zq_Subdomain q') = Inr result"
    "snd (wireResponse w) = cj_payload (ke_json E) (AuthorizationPayload result)" by blast
  have "az_Allowed result" using codec_okD(6) [OF assms(3)] A(7) R(2) assms(2) by fastforce
  then have "ownsSubdomain E s1 (zq_TokenID q') (zq_Subdomain q')" if inv: "reservation_inv (ks_reservations s1)"
  proof -
    obtain rv where "rv \<in> rsv.records (ks_reservations s1)" "rv_Name rv = ToLower (ke_uc E) (TrimSpace (zq_Subdomain q'))"
      "rv_TokenID rv = TrimSpace (zq_TokenID q')"
      using Authorize_allowed_iff [OF inv, of "ke_uc E" "zq_TokenID q'" "zq_Subdomain q'" result] R(1) \<open>az_Allowed result\<close> by blast
    then show ?thesis using rsv.records_iff [OF inv] unfolding ownsSubdomain_def by blast
  qed
  then show ?thesis using A(3,4) q'(2,3) by blast
qed

lemma decodeJSON_ok:
  assumes "json_reads js un b x" "length b \<le> maxJSONBodyBytes"
  shows "decodeJSON js un (Some [(b, Some ReadEOF)]) = Inr x"
proof -
  have "limitedBody (Some [(b, Some ReadEOF)]) = (b, BodyEOF)" using assms(2) by (simp add: limitedBody_def Let_def)
  with assms(1) show ?thesis by (auto simp: decodeJSON_def json_reads_def decodeNext_def)
qed

lemma call_authorized:
  assumes "trusts s c"
  shows "validatorAuthorized E s ((call_request net c url b)\<lparr>r_ctxID := i\<rparr>)"
proof -
  have "hdrGet (r_Header (call_request net c url b)) ''Authorization'' = ''Bearer '' @ cc_bearerToken c"
    by (simp add: call_request_def serverRequest_def hdrGet_def hdrValues_def hdrSet_def canonical_names)
  then show ?thesis using assms
    by (simp add: validatorAuthorized_def authorizedBearer_def controlBearerToken_def CutPrefix_def HasPrefix_def
        controlSecretEqual_def trusts_def)
qed

lemma call_answered:
  assumes "urlParse u endpoint = Inr url" "url_Path url = path" "muxMatch controlPatterns path = MuxHandler route"
    "cn_fate net n = Answered" "s1 = handleOthers E (cn_others net n) s"
    and answer: "\<And>i h. \<exists>s2. controlServe E (cn_io net n) route s1 ((call_request net c url b)\<lparr>r_ctxID := i\<rparr>) (freshWriter\<lparr>rw_Header := h\<rparr>) =
      (controlWriteJSON E 200 p (freshWriter\<lparr>rw_Header := h\<rparr>), s2)"
    and "dec (cj_payload (ke_json E) p) = Some x"
  shows "\<exists>s2. postControlPlane u (controlRT E net) c endpoint (Some b) dec (s, n) = (Inr x, s2, Suc n)"
proof -
  obtain w s2 where run: "ControlHandler E (cn_io net n) s1 (call_request net c url b) freshWriter = (w, s2)" by fastforce
  have "r_Path (call_request net c url b) = path" using assms(2) by (simp add: call_request_def serverRequest_def)
  then obtain i h where "w = fst (controlServe E (cn_io net n) route s1 ((call_request net c url b)\<lparr>r_ctxID := i\<rparr>) (freshWriter\<lparr>rw_Header := h\<rparr>))"
    using ControlHandler_route [of "call_request net c url b" route E "cn_io net n" s1 freshWriter] assms(3) run by auto
  with answer [of i h] have "wireResponse w = (200, cj_payload (ke_json E) p)" by auto
  with run assms show ?thesis
    by (simp add: postControlPlane_def controlRT_def Let_def call_request_def)
qed

lemma ValidateSubdomain_ascii: "ValidateSubdomain d = None \<Longrightarrow> ascii d"
  using labelChar_ascii by (auto simp: ascii_def ValidateSubdomain_iff list_all_iff)

lemma evaluateAccessPolicy_answers:
  assumes "ValidateSubdomain (aq_Subdomain q) = None" "reservation_inv (ks_reservations s)"
    and ids: "\<And>i rv. reservationLookupByID (ks_reservations s) i = Some rv \<Longrightarrow> TrimSpace (rv_ID rv) \<noteq> []"
  shows "\<exists>result i s'. evaluateAccessPolicy E io s q = (Inr (result, i), s')"
proof (cases "reservationLookupByName (ks_reservations s) (aq_Subdomain q)")
  case None
  then show ?thesis using NormalizeName_fix [OF assms(1)] by (simp add: evaluateAccessPolicy_def GetReservationByName_def)
next
  case (Some rv)
  let ?k = "\<lparr>ck_ReservedSubdomainID = rv_ID rv, ck_RemoteIP = aq_RemoteIP q, ck_BasicUsername = aq_BasicUsername q,
        ck_BasicPassword = aq_BasicPassword q, ck_BearerToken = aq_BearerToken q\<rparr>"
  have "TrimSpace (ck_ReservedSubdomainID ?k) \<noteq> []" using ids Some rsv.lookup_key [OF assms(2)] by auto
  then show ?thesis
    using CheckPolicy_decision [of ?k "ke_sha E" "ke_a2 E" "ki_rand io 0" goNetip "ks_accessPolicies s"] NormalizeName_fix [OF assms(1)] Some
    by (auto simp: evaluateAccessPolicy_def GetReservationByName_def)
qed

lemma evaluation_answered:
  assumes L: "linked E net G c" and tr: "trusts s1 c" and fate: "cn_fate net n = Answered"
    and s1: "s1 = handleOthers E (cn_others net n) s"
    and q: "ValidateSubdomain (aq_Subdomain q) = None"
    and enc: "encEvaluate (ge_cd G) q = Some b" "length b \<le> maxJSONBodyBytes"
    and dec: "\<And>p. decEvaluated (ge_cd G) (cj_payload (ke_json E) (EvaluationPayload p)) \<noteq> None"
    and inv: "reservation_inv (ks_reservations s1)"
    and ids: "\<And>i rv. reservationLookupByID (ks_reservations s1) i = Some rv \<Longrightarrow> TrimSpace (rv_ID rv) \<noteq> []"
  shows "\<exists>x s2. clientEvaluateAccessPolicy (ge_url G) (ge_cd G) (ge_rt G) c q (s, n) = (Inr x, s2, Suc n)"
proof -
  from L have cd: "codec_ok (ke_json E) (ge_cd G)" and rt: "ge_rt G = controlRT E net" by (simp_all add: linked_def)
  from L obtain url where url: "urlParse (ge_url G) (cc_accessPolicyEvaluationEndpoint c) = Inr url"
    "url_Path url = ''/api/v1/access-policies/evaluate''" by (auto simp: linked_def endpoints_ok_def endpoint_ok_def)
  obtain q' where q': "json_reads (ke_json E) (cj_evaluate (ke_json E)) b q'" "sentEvaluation q q'"
    using codec_okD(1) [OF cd enc(1)] by blast
  have f: "aq_Subdomain q' = aq_Subdomain q"
    using q'(2) ValidateSubdomain_ascii [OF q] by (auto simp: sentEvaluation_def sentText_def)
  have t: "TrimSpace (aq_Subdomain q) = aq_Subdomain q" "aq_Subdomain q \<noteq> []"
    using q TrimSpace_label [OF valid_labelD [OF q]] by (auto simp: ValidateSubdomain_iff)
  let ?s = "bump km_accessPolicyEvaluationsTotal_update s1" 
    and ?q = "q'\<lparr>aq_Subdomain := aq_Subdomain q,
      aq_RemoteIP := if aq_RemoteIP q' = [] then controlClientIP s1 (call_request net c url b) else aq_RemoteIP q'\<rparr>"
  have "\<exists>result i s'. evaluateAccessPolicy E (cn_io net n) ?s ?q = (Inr (result, i), s')"
    using q inv ids by (intro evaluateAccessPolicy_answers) auto
  then obtain result i s' where ev: "evaluateAccessPolicy E (cn_io net n) ?s ?q = (Inr (result, i), s')" by blast
  let ?p = "EvaluationPayload \<lparr>er_Allowed = cr_Allowed result, er_Mode = cr_Mode result, er_Reason = cr_Reason result\<rparr>"
  obtain x where x: "decEvaluated (ge_cd G) (cj_payload (ke_json E) ?p) = Some x" using dec by blast
  have "\<exists>s2. controlServe E (cn_io net n) EvaluateAccessPolicyRoute s1 ((call_request net c url b)\<lparr>r_ctxID := j\<rparr>) (freshWriter\<lparr>rw_Header := h\<rparr>) =
      (controlWriteJSON E 200 ?p (freshWriter\<lparr>rw_Header := h\<rparr>), s2)" for j h
  proof -
    have "r_Method (call_request net c url b) = ''POST''" "r_Body (call_request net c url b) = Some [(b, Some ReadEOF)]"
      by (simp_all add: call_request_def serverRequest_def)
    moreover have "controlClientIP s1 ((call_request net c url b)\<lparr>r_ctxID := j\<rparr>) = controlClientIP s1 (call_request net c url b)"
      by (simp add: controlClientIP_def)
    ultimately show ?thesis
      using call_authorized [OF tr] decodeJSON_ok [OF q'(1) enc(2)] ev f t
      by (cases "aq_RemoteIP q' = []") (simp_all add: handleEvaluateAccessPolicy_def withValidator_def withJSON_def Let_def)
  qed
  from call_answered [where dec = "decEvaluated (ge_cd G)", OF url api_routes(3) fate s1 this x] enc(1) show ?thesis
    by (auto simp: clientEvaluateAccessPolicy_def rt)
qed


lemma unframe_frame [simp]: "unframe (frame s @ rest) = Some (s, rest)"
proof -
  have "takeWhile (\<lambda>c. c = CHR ''x'') (replicate n CHR ''x'' @ CHR '';'' # u) = replicate n CHR ''x''" for n u
    by (induction n) auto
  moreover have "drop (Suc n) (replicate n CHR ''x'' @ CHR '';'' # u) = u" for n u
    by simp
  ultimately show ?thesis by (simp add: unframe_def frame_def Let_def)
qed

lemma unframe_end [simp]: "unframe (frame s) = Some (s, [])"
  using unframe_frame [of s "[]"] by simp

lemma partsOf_frames [simp]:
  "partsOf (Suc 0) (frame a) = [a]" "partsOf 2 (frame a @ frame b) = [a, b]"
  "partsOf 3 (frame a @ frame b @ frame c) = [a, b, c]"
  "partsOf 5 (frame a @ frame b @ frame c @ frame d @ frame e) = [a, b, c, d, e]"
  by (simp_all add: numeral_eq_Suc)

lemma demoParts_scan: "cj_next demoControlJSON (demoParts ps) True = ScanValue (concat (map frame ps)) []"
  "cj_next demoControlJSON [] True = ScanMore" "unframe (demoParts ps) = Some (concat (map frame ps), [])"
  using unframe_frame [of "concat (map frame ps)" "[]"]
  by (simp_all add: demoControlJSON_def demoParts_def unframe_def)

lemma demo_codec: "codec_ok demoControlJSON demoCodec"
proof -
  have "flag b = [] \<longleftrightarrow> \<not> b" for b by (simp add: flag_def)
  moreover have "cj_payload demoControlJSON (EvaluationPayload p) = demoParts [flag (er_Allowed p), policyModeString (er_Mode p), er_Reason p]"
    "cj_payload demoControlJSON (ValidationPayload v) = demoParts [flag (vr_Valid v), vr_TokenID v]"
    "cj_payload demoControlJSON (AuthorizationPayload a) = demoParts [flag (az_Allowed a), az_Reason a]"
    "cj_evaluate demoControlJSON b = (let p = partsOf 5 b in
         Inr \<lparr>aq_Subdomain = p ! 0, aq_RemoteIP = p ! 1, aq_BasicUsername = p ! 2, aq_BasicPassword = p ! 3, aq_BearerToken = p ! 4\<rparr>)"
    "cj_validate demoControlJSON b = (let p = partsOf 2 b in Inr \<lparr>vq_Token = p ! 0, vq_Scope = p ! 1\<rparr>)"
    "cj_authorize demoControlJSON b = (let p = partsOf 2 b in Inr \<lparr>zq_TokenID = p ! 0, zq_Subdomain = p ! 1\<rparr>)"
    "cj_lookup demoControlJSON b = Inr (partsOf 1 b ! 0)" for p v a b
    by (simp_all add: demoControlJSON_def)
  ultimately show ?thesis
    by (auto simp: codec_ok_def demoCodec_def json_reads_def demoParts_scan jsonBlank_def sentEvaluation_def sentText_def Let_def)
qed

lemma demo_linked: "linked demoKenv demoNet systemEnv demoClient"
  using demo_codec by (simp add: linked_def systemEnv_def endpoints_ok_def endpoint_ok_def demoURLs_def demoClient_def demoKenv_def)

lemma visible_ascii: "list_all visible s \<Longrightarrow> ascii s"
  by (auto simp: ascii_def list_all_iff visible_def isASCII_def)

lemma ascii_id: "ascii (p @ RawURLEncoding d) \<longleftrightarrow> ascii p"
  using visible_ascii [OF RawURLEncoding_visible [of d]] by (simp add: ascii_def)

text \<open>What requests do to two of the stores, seen as steps of their services.\<close>

lemma request_stores:
  assumes "ControlHandler E io s r w = (w', s')"
  shows "(reservation_step (ke_uc E))\<^sup>=\<^sup>= (ks_reservations s) (ks_reservations s')"
    "(token_step (ke_sha E))\<^sup>=\<^sup>= (ks_service s) (ks_service s')" "ks_cfg s' = ks_cfg s"
proof -
  have "handled E io r s w (w', s')" using ControlHandler_handled [of E io r s w] assms by simp
  then obtain s1 s2 where m: "marked io s s1" and o: "s2 = s1 \<or> control_op E io r s1 s2" and same: "sameStores s2 s'"
    by (auto simp: handled_def handledFrom_def)
  from o have "(reservation_step (ke_uc E))\<^sup>=\<^sup>= (ks_reservations s1) (ks_reservations s2) \<and>
    (token_step (ke_sha E))\<^sup>=\<^sup>= (ks_service s1) (ks_service s2) \<and> ks_cfg s2 = ks_cfg s1"
  proof
    assume "control_op E io r s1 s2"
    then show ?thesis by (cases rule: control_op_step) (auto intro: reservation_step.intros)
  qed simp
  with marked_frame [OF m] same show "(reservation_step (ke_uc E))\<^sup>=\<^sup>= (ks_reservations s) (ks_reservations s')"
    "(token_step (ke_sha E))\<^sup>=\<^sup>= (ks_service s) (ks_service s')" "ks_cfg s' = ks_cfg s"
    by (auto simp: sameStores_def)
qed

lemma control_reach_stores:
  assumes "control_reach E cfg s"
  shows "(reservation_step (ke_uc E))\<^sup>*\<^sup>* NewReservationStore (ks_reservations s) \<and>
    (token_step (ke_sha E))\<^sup>*\<^sup>* NewTokenStore (ks_service s) \<and> kc_ValidatorToken (ks_cfg s) = kc_ValidatorToken cfg"
  using assms
proof (induction rule: control_reach.induct)
  case (request s io r w w' s')
  then show ?case using request_stores [OF request.hyps(2)]
    by (metis rtranclp.rtrancl_into_rtrancl rtranclp_reflclp reflclp_tranclp sup2E)
qed (auto simp: NewControlServer_def Let_def pruneAuditEvents_def)

lemma token_ids:
  assumes "(token_step sha256)\<^sup>*\<^sup>* NewTokenStore s"
  shows "tokenLookupByID s i = Some t \<Longrightarrow> \<exists>data. tk_ID t = ''tok_'' @ RawURLEncoding data"
  using assms
proof (induction arbitrary: i t rule: rtranclp_induct)
  case base
  then show ?case by (simp add: NewTokenStore_def tokenLookupByID_def)
next
  case (step y z)
  have inv: "token_inv y" by (rule token_reach_inv [OF step.hyps(1)])
  from step.hyps(2) show ?case
  proof cases
    case (1 rand now n sc ct)
    then have "\<exists>x data. tokenCreate y x = Inr z \<and> tk_ID x = ''tok_'' @ RawURLEncoding data"
      by (auto simp: CreateToken_def randomSecret_def Let_def split: sum.splits if_splits option.splits) force+
    then obtain x where "tokenCreate y x = Inr z" "\<exists>data. tk_ID x = ''tok_'' @ RawURLEncoding data" by blast
    then show ?thesis using step.IH step.prems tok.create_lookup [OF inv] by (fastforce split: if_splits)
  next
    case (2 now tk sc v)
    then show ?thesis using ValidateToken_Inr [OF 2] step.IH step.prems tok_use.modify_lookup [OF inv]
      by (fastforce split: if_splits option.splits)
  next
    case (3 now j)
    then show ?thesis using RevokeToken_Inr [OF 3] step.IH step.prems tok_revoke.modify_lookup [OF inv]
      by (fastforce split: if_splits option.splits)
  qed
qed


lemma route_steps:
  assumes "ge_rt G = controlRT E net" "routeForHost G now sv host (s, n) = (x, sv', s', m)"
  shows "(control_step E)\<^sup>*\<^sup>* s s'"
proof -
  have c: "(control_step E)\<^sup>*\<^sup>* a a'" if "clientResolveCustomDomain u cd (controlRT E net) c h (a, k) = (y, a', k')" for u cd c h a k y a' k'
    using that by (auto simp: clientResolveCustomDomain_def dest: post_steps)
  have cr: "(control_step E)\<^sup>*\<^sup>* a a'"
    if "cachedResolve uc (clientResolveCustomDomain u cd (controlRT E net) c) t v h (a, k) = (y, v', a', k')" for uc u cd c t v h a k y v' a' k'
    using that by (auto simp: cachedResolve_def Let_def split: if_splits option.splits prod.splits sum.splits dest: c)
  have "(control_step E)\<^sup>*\<^sup>* a a'" if "ResolveCustomDomain uc u cd (controlRT E net) t v h (a, k) = (y, v', a', k')" for uc u cd t v h a k y v' a' k'
    using that by (auto simp: ResolveCustomDomain_def split: domainBackend.splits prod.splits dest: c cr)
  with assms show ?thesis
    by (auto simp: routeForHost_def Let_def split: option.splits if_splits prod.splits sum.splits)
qed

lemma liveToken_ascii:
  assumes "control_reach E cfg s" "liveToken E s t i"
  shows "ascii i"
proof -
  have st: "(token_step (ke_sha E))\<^sup>*\<^sup>* NewTokenStore (ks_service s)" using control_reach_stores [OF assms(1)] by blast
  from assms(2) obtain x where x: "tokenLookupByID (ks_service s) i = Some x" by (auto simp: liveToken_def)
  obtain d where "tk_ID x = ''tok_'' @ RawURLEncoding d" using token_ids [OF st x] by blast
  then have "i = ''tok_'' @ RawURLEncoding d" using tok.lookup_ident [OF token_reach_inv [OF st] x] by simp
  moreover have "ascii ''tok_''" by code_simp
  ultimately show ?thesis using ascii_id [of "''tok_''"] by metis
qed

lemma validation_answered:
  assumes L: "linked E net G c" and tr: "trusts s1 c" and fate: "cn_fate net n = Answered"
    and s1: "s1 = handleOthers E (cn_others net n) s"
    and enc: "ascii tok" "encValidate (ge_cd G) \<lparr>vq_Token = tok, vq_Scope = scopeRegisterTunnel\<rparr> = Some b" "length b \<le> maxJSONBodyBytes"
    and dec: "\<And>p. decValidated (ge_cd G) (cj_payload (ke_json E) (ValidationPayload p)) \<noteq> None"
    and run: "\<And>t. \<exists>r st. ValidateToken (ke_sha E) t (Some (ks_service s1)) tok scopeRegisterTunnel = Inr (r, st) \<and> vr_Valid r"
  shows "\<exists>x s2. clientValidateAgentToken (ge_url G) (ge_cd G) (ge_rt G) c tok (s, n) = (Inr x, s2, Suc n) \<and> tv_Valid x"
proof -
  from L have cd: "codec_ok (ke_json E) (ge_cd G)" and rt: "ge_rt G = controlRT E net" by (simp_all add: linked_def)
  from L obtain url where url: "urlParse (ge_url G) (cc_tokenValidationEndpoint c) = Inr url"
    "url_Path url = ''/api/v1/tokens/validate''" by (auto simp: linked_def endpoints_ok_def endpoint_ok_def)
  have "ascii scopeRegisterTunnel" by code_simp
  then obtain q' where q': "json_reads (ke_json E) (cj_validate (ke_json E)) b q'" "vq_Token q' = tok" "vq_Scope q' = scopeRegisterTunnel"
    using codec_okD(2) [OF cd enc(2)] enc(1) by (auto simp: sentText_def)
  obtain result store where v: "ValidateToken (ke_sha E) (ki_opNow (cn_io net n)) (Some (ks_service s1)) tok scopeRegisterTunnel = Inr (result, store)"
    "vr_Valid result" using run by blast
  obtain x where x: "decValidated (ge_cd G) (cj_payload (ke_json E) (ValidationPayload result)) = Some x" using dec by blast
  have "\<exists>s2. controlServe E (cn_io net n) ValidateTokenRoute s1 ((call_request net c url b)\<lparr>r_ctxID := j\<rparr>) (freshWriter\<lparr>rw_Header := h\<rparr>) =
      (controlWriteJSON E 200 (ValidationPayload result) (freshWriter\<lparr>rw_Header := h\<rparr>), s2)" for j h
  proof -
    have "r_Method (call_request net c url b) = ''POST''" "r_Body (call_request net c url b) = Some [(b, Some ReadEOF)]"
      by (simp_all add: call_request_def serverRequest_def)
    with call_authorized [OF tr] decodeJSON_ok [OF q'(1) enc(3)] q'(2,3) v(1) show ?thesis
      by (simp add: handleValidateToken_def withValidator_def withJSON_def Let_def)
  qed
  from call_answered [where dec = "decValidated (ge_cd G)", OF url api_routes(1) fate s1 this x] enc(2)
  show ?thesis using codec_okD(5) [OF cd x] v(2) by (auto simp: clientValidateAgentToken_def rt)
qed

lemma demo_dec:
  "decEvaluated demoCodec (cj_payload demoControlJSON (EvaluationPayload p)) \<noteq> None"
  "decValidated demoCodec (cj_payload demoControlJSON (ValidationPayload v)) \<noteq> None"
  by (simp_all add: demoCodec_def demoControlJSON_def demoParts_scan Let_def)

lemma demo_fields [simp]:
  "ke_json demoKenv = demoControlJSON" "ke_sha demoKenv = demoSHA" "cn_fate demoNet n = Answered" "cn_others demoNet n = []"
  "ge_cd systemEnv = demoCodec" "ge_js systemEnv = demoJSON" "cc_bearerToken demoClient = ''gw''" "kc_ValidatorToken demoControlConfig = ''gw''"
  "ge_fl systemEnv = id" "ge_ef systemEnv = (\<lambda>s t. s = t)" "ge_uc systemEnv = id" "ge_quo systemEnv = id"
  by (simp_all add: demoKenv_def demoNet_def systemEnv_def demoClient_def demoControlConfig_def)

lemma demo_gw: "TrimSpace ''gw'' = ''gw''"
  by (rule TrimSpace_visible) (simp add: visible_def)

lemma demoStart_reach: "control_reach demoKenv demoControlConfig demoStart"
  unfolding demoStart_def using control_reach.start [of demoKenv demoControlConfig 0] by (simp add: demoKenv_def)

lemma length_frame [simp]: "length (frame s) = Suc (2 * length s)"
  by (simp add: frame_def)

lemma demo_evaluation:
  assumes "ValidateSubdomain (aq_Subdomain q) = None"
    and "length (demoParts [aq_Subdomain q, aq_RemoteIP q, aq_BasicUsername q, aq_BasicPassword q, aq_BearerToken q]) \<le> maxJSONBodyBytes"
  shows "\<exists>x s2. clientEvaluateAccessPolicy (ge_url systemEnv) demoCodec (ge_rt systemEnv) demoClient q (demoStart, n) = (Inr x, s2, Suc n) \<and> pe_Allowed x"
proof -
  have e: "ks_reservations demoStart = NewReservationStore" by (simp add: demoStart_def NewControlServer_def Let_def)
  have n: "reservationLookupByID NewReservationStore i = None" "reservationLookupByName NewReservationStore d = None" for i d
    by (simp_all add: NewReservationStore_def reservationLookupByID_def reservationLookupByName_def)
  have inv: "reservation_inv NewReservationStore" by (rule rsv.empty_inv)
  have tr: "trusts demoStart demoClient" using control_reach_stores [OF demoStart_reach] by (simp add: trusts_def demo_gw)
  have start: "demoStart = handleOthers demoKenv (cn_others demoNet n) demoStart" by (simp add: handleOthers_def)
  have enc: "encEvaluate (ge_cd systemEnv) q =
      Some (demoParts [aq_Subdomain q, aq_RemoteIP q, aq_BasicUsername q, aq_BasicPassword q, aq_BearerToken q])"
    by (simp add: demoCodec_def)
  have "\<exists>x s2. clientEvaluateAccessPolicy (ge_url systemEnv) (ge_cd systemEnv) (ge_rt systemEnv) demoClient q (demoStart, n) = (Inr x, s2, Suc n)"
    using demo_dec by (intro evaluation_answered [OF demo_linked tr _ start assms(1) enc assms(2)]) (auto simp: e n inv)
  then obtain x s2 where run: "clientEvaluateAccessPolicy (ge_url systemEnv) demoCodec (controlRT demoKenv demoNet) demoClient q (demoStart, n) = (Inr x, s2, Suc n)"
    by (auto simp: systemEnv_def)
  have "endpoints_ok (ge_url systemEnv) demoClient" using demo_linked by (simp add: linked_def)
  from answered_evaluation [OF run _ this] demo_codec obtain q' where "pe_Allowed x = granted demoKenv demoStart q'"
    using start by fastforce
  then have "pe_Allowed x" by (simp add: granted_def e n)
  with run show ?thesis by (auto simp: systemEnv_def)
qed

lemma demo_public:
  "\<exists>v s2 m. handlePublicRequest systemEnv demoIO systemGateway localRequest freshWriter (demoStart, 0) = Some (v, s2, m) \<and> sx_Sent v \<noteq> []"
proof -
  have g [simp]: "sv_clientIPs systemGateway = sv_clientIPs demoServer" "sv_cfg systemGateway = sv_cfg demoServer"
    "sv_access systemGateway = ClientAccess demoClient" by (simp_all add: systemGateway_def demoGateway_def)
  have "parseRemoteAddr [] = None" by code_simp
  then have ip: "clientIP systemGateway localRequest = []" by (simp add: clientIP_def localRequest_def ResolveString_def Resolve_def)
  have ba: "BasicAuth localRequest = ([], [])" "PublicBase.bearerToken localRequest = []"
    by (simp_all add: BasicAuth_def PublicBase.bearerToken_def localRequest_def demoRequest_def hdrGet_def hdrValues_def CutPrefix_def HasPrefix_def Let_def)
  let ?q = "\<lparr>aq_Subdomain = ''demo'', aq_RemoteIP = [], aq_BasicUsername = [], aq_BasicPassword = [], aq_BearerToken = []\<rparr>"
  obtain x s2 where x: "clientEvaluateAccessPolicy (ge_url systemEnv) demoCodec (ge_rt systemEnv) demoClient ?q (demoStart, 0) = (Inr x, s2, Suc 0)" "pe_Allowed x"
    using demo_evaluation [of ?q 0] demo_valid by (auto simp: ascii_def isASCII_def demoParts_def maxJSONBodyBytes_def)
  have ev: "evaluatePublicAccess systemEnv systemGateway localRequest ''demo'' (demoStart, 0) = (Inr x, s2, Suc 0)"
    using x(1) by (simp add: evaluatePublicAccess_def EvaluateAccessPolicy_def ba ip)
  have ro: "routeForHost systemEnv 0 systemGateway ''demo.localhost'' (demoStart, 0) =
     (Inr (\<lparr>ro_Subdomain = ''demo'', ro_CustomDomain = [], ro_MissReason = []\<rparr>, True), systemGateway, demoStart, 0)"
  proof -
    have "subdomainFromHost id ''localhost'' ''demo.localhost'' = Some ''demo''" by code_simp
    then show ?thesis by (simp add: routeForHost_def demoServer_root Let_def)
  qed
  have "th_entries (sv_authAttempts systemGateway) k = None" for k
    by (simp add: systemGateway_def demoGateway_def demoServer_def newServerWithRequestLogWriter_def Let_def newAuthAttemptThrottle_def)
  moreover have "sessionBySubdomain systemGateway ''demo'' = Some demoAgent"
    by (simp add: systemGateway_def demoGateway_def sessionBySubdomain_def LookupBySubdomain_def demoRegistry_def demoSession_def)
  moreover have "putSession systemGateway demoAgent = systemGateway"
    by (simp add: putSession_def systemGateway_def demoGateway_def demoAgent_def demoSession_def)
  moreover have "allowRequest f demoAgent now = (True, demoAgent)" for f now
    by (simp add: allowRequest_def demoAgent_def allow_def)
  moreover have "r_Host localRequest = ''demo.localhost''" "io_resolved demoIO = 0"
    by (simp_all add: localRequest_def demoRequest_def demoIO_def)
  ultimately have adm: "\<exists>l. admitPublic systemEnv demoIO systemGateway localRequest freshWriter (demoStart, 0) =
     (Inr (l, demoAgent, x), systemGateway, s2, Suc 0)"
    using x(2) by (simp add: admitPublic_def admitSession_def Let_def ro ev blocked_def)
  have ws: "\<not> isWebSocketUpgradeRequest ef localRequest" for ef
    by (simp add: isWebSocketUpgradeRequest_def headerContainsToken_def localRequest_def demoRequest_def hdrGet_def hdrValues_def EqualFold_def
        TrimSpace_Nil isASCII_def)
  have sid: "newStreamID (io_draw demoIO) = Inr ''str_aaaaaaaaaaaaaaaaaaaa''"
    by (simp add: newStreamID_def demoIO_def demo_ID)
  have "\<exists>y. forwardRequest systemEnv demoIO systemGateway localRequest freshWriter demoAgent x ''str_aaaaaaaaaaaaaaaaaaaa'' = Some y \<and> py_Sent y \<noteq> []"
    by (simp add: forwardRequest_def streamRoundTrip_def demoAgent_def demoIO_def localRequest_def demoRequest_def demoJSON_def
        acquireStream_def NewStream_def marshalPayload_def sessionWrite_def WriteEnvelope_def writeRequestBody_def Let_def
        roundTripFailure_def isStreamContextDoneCause_def cancelStream_def split: prod.splits)
  with adm ws sid show ?thesis
    by (auto simp: handlePublicRequest_def servePublic_def)
qed

lemma demoIssued_reach: "control_reach demoKenv demoControlConfig demoIssued"
  unfolding demoIssued_def by (rule control_reach.request [OF demoStart_reach]) (rule prod.collapse [symmetric])

lemma demoIssued_token:
  "\<exists>ct. CreateToken demoSHA (\<lambda>i n. Some (replicate n CHR ''k'')) 2 (Some NewTokenStore) ''ci'' [] = Inr (ct, ks_service demoIssued) \<and>
     ct_Token ct = issuedToken \<and> ct_Scopes ct = [ScopeRegisterTunnel]"
proof -
  have "TrimSpace ''ci'' = ''ci''" by (rule TrimSpace_visible) (simp add: visible_def)
  then obtain ct st where ct: "CreateToken demoSHA (\<lambda>i n. Some (replicate n CHR ''k'')) 2 (Some NewTokenStore) ''ci'' [] = Inr (ct, st)"
    "ct_Token ct = issuedToken" "ct_Scopes ct = [ScopeRegisterTunnel]"
    by (simp add: CreateToken_def randomSecret_def normalizeScopes_def tokenCreate_def NewTokenStore_def issuedToken_def Let_def)
  obtain i h where ih: "requestIDMiddleware (ki_requestIDRand drawing) (r_Header demoCreate) (rw_Header freshWriter) = (i, h)" by fastforce
  have p: "r_Path demoCreate = ''/api/v1/tokens''" "r_Method demoCreate = ''POST''" "r_Body demoCreate = Some [(demoParts [''ci''], Some ReadEOF)]"
    by (simp_all add: demoCreate_def)
  have route: "muxMatch controlPatterns ''/api/v1/tokens'' = MuxHandler TokenList" by code_simp
  have json: "json_reads demoControlJSON (cj_createToken demoControlJSON) (demoParts [''ci'']) (''ci'', [])"
    by (simp add: json_reads_def demoParts_scan jsonBlank_def) (simp add: demoControlJSON_def)
  have len: "length (demoParts [''ci'']) \<le> maxJSONBodyBytes" by (simp add: demoParts_def maxJSONBodyBytes_def)
  have body: "decodeJSON demoControlJSON (cj_createToken demoControlJSON) (Some [(demoParts [''ci''], Some ReadEOF)]) = Inr (''ci'', [])"
    by (rule decodeJSON_ok [OF json len])
  have b: "controlBearerToken (demoCreate\<lparr>r_ctxID := i\<rparr>) = (''root'', True)"
    using demoRevoke_bearer [of i] by (simp add: demoCreate_def controlBearerToken_def)
  have d: "kc_AdminToken (ks_cfg demoStart) = ''root''" "ks_service demoStart = NewTokenStore"
    "ki_rand drawing = (\<lambda>i n. Some (replicate n CHR ''k''))" "ki_opNow drawing = 2"
    by (simp_all add: demoStart_def NewControlServer_def Let_def demoControlConfig_def drawing_def demoKio_def)
  have "ks_service demoIssued = ks_service (snd (handleTokens demoKenv drawing demoStart (demoCreate\<lparr>r_ctxID := i\<rparr>) (freshWriter\<lparr>rw_Header := h\<rparr>)))"
    by (simp add: demoIssued_def ControlHandler_def ih latencyMiddleware_def controlMux_def p route)
  also have "\<dots> = st" by (simp add: handleTokens_def p withAdmin_root [OF b _ d(1)] withJSON_def body d ct(1))
  finally show ?thesis using ct by blast
qed

lemma issuedToken_valid:
  "\<exists>r st. ValidateToken demoSHA t (Some (ks_service demoIssued)) issuedToken scopeRegisterTunnel = Inr (r, st) \<and> vr_Valid r"
proof -
  obtain ct where ct: "CreateToken demoSHA (\<lambda>i n. Some (replicate n CHR ''k'')) 2 (Some NewTokenStore) ''ci'' [] = Inr (ct, ks_service demoIssued)"
     "ct_Token ct = issuedToken" "ct_Scopes ct = [ScopeRegisterTunnel]" using demoIssued_token by blast
  have "scopeRegisterTunnel \<in> set (ct_Scopes ct)" "isKnownScope scopeRegisterTunnel" "TrimSpace scopeRegisterTunnel = scopeRegisterTunnel"
    using ct(3) by (simp add: scopeRegisterTunnel_def ScopeRegisterTunnel_def) code_simp+
  from CreateToken_validates [OF tok.empty_inv ct(1) this, of t] ct(2) show ?thesis by auto
qed

lemma sextets_length: "length (sextets b) \<le> 2 * length b"
  by (induction b rule: sextets.induct) (auto simp: Let_def)

lemma demo_validation:
  "\<exists>x s2. clientValidateAgentToken (ge_url agentEnv) (ge_cd agentEnv) (ge_rt agentEnv) demoClient issuedToken (demoIssued, 0) = (Inr x, s2, Suc 0) \<and> tv_Valid x"
proof -
  have tr: "trusts demoIssued demoClient" using control_reach_stores [OF demoIssued_reach] by (simp add: trusts_def demo_gw)
  have l: "linked demoKenv demoNet agentEnv demoClient" using demo_linked by (simp add: linked_def agentEnv_def)
  have "length issuedToken \<le> 67"
    using sextets_length [of "replicate 32 CHR ''k''"] unfolding issuedToken_def RawURLEncoding_def length_append length_map length_replicate by simp
  then have len: "length (demoParts [issuedToken, scopeRegisterTunnel]) \<le> maxJSONBodyBytes"
    by (simp add: demoParts_def maxJSONBodyBytes_def scopeRegisterTunnel_def)
  have a: "ascii issuedToken" unfolding issuedToken_def ascii_id by code_simp
  show ?thesis
    using demo_dec(2) issuedToken_valid by (intro validation_answered [OF l tr _ _ a _ len]) (auto simp: handleOthers_def agentEnv_def demoCodec_def)
qed

lemma demo_agent:
  "\<exists>ses out sv s2 m. handleAgentWebSocket agentEnv (\<lambda>e. []) (\<lambda>e. []) 0 (\<lambda>i j. Some 0) (\<lambda>i j. Some 0) agentGateway
     (Some (demoEnvelope TypeAuthRequest)) True (Some (demoEnvelope TypeTunnelRegister)) True (demoIssued, 0) = (Inr ses, out, sv, s2, m)"
proof -
  obtain x s2 where x: "clientValidateAgentToken (ge_url agentEnv) (ge_cd agentEnv) (ge_rt agentEnv) demoClient issuedToken (demoIssued, 0) = (Inr x, s2, Suc 0)"
    "tv_Valid x" using demo_validation by blast
  have "MissingRequiredCapabilities DefaultProtocolCapabilities RequiredProtocolCapabilities = []"
    by (auto simp: MissingRequiredCapabilities_Nil_iff DefaultProtocolCapabilities_def)
  moreover have "IsProtocolVersionSupported ''0.3''" by code_simp
  moreover have "sv_tokens agentGateway = ClientTokens demoClient" by (simp add: agentGateway_def)
  ultimately have "\<exists>i out sv. authenticateAgent agentEnv agentGateway (Some (demoEnvelope TypeAuthRequest)) True (demoIssued, 0) =
      (Inr i, out, sv, s2, Suc 0) \<and> sv_registry sv = NewRegistry"
    using x by (simp add: authenticateAgent_def Let_def agentEnv_def demoEnvelope_def demoAuth_def DecodePayload_def
        ValidateAgentToken_def NewEnvelope_def NewStream_def marshalPayload_def demoJSON_def) (simp add: agentGateway_def demoServer_fields)
  then obtain i out sv where au: "authenticateAgent agentEnv agentGateway (Some (demoEnvelope TypeAuthRequest)) True (demoIssued, 0) =
      (Inr i, out, sv, s2, Suc 0)" "sv_registry sv = NewRegistry" by blast
  have rs: "RandomSubdomain (\<lambda>j. Some 0) randomSubdomainLength = Inr ''aaaaaaaa''" by code_simp
  have va: "ValidateSubdomain ''aaaaaaaa'' = None" by (simp add: ValidateSubdomain_iff labelChar_def)
  obtain tun where tun: "newTunnelSession agentEnv 0 (\<lambda>j. Some 0) sv (demoRegister\<lparr>tr_RequestedSubdomain := []\<rparr>) i ''aaaaaaaa'' = Inr tun"
    by (simp add: newTunnelSession_def newTunnelID_def demo_ID)
  have "\<exists>r. Register NewRegistry (Some tun) = Inr r" using tun
    by (auto simp: Register_Inr_iff NewRegistry_def newTunnelSession_def newTunnelID_def demo_ID)
  then obtain r where r: "Register NewRegistry (Some tun) = Inr r" by blast
  have "registerTunnelSession agentEnv (\<lambda>e. []) (\<lambda>e. []) 0 (\<lambda>i j. Some 0) (\<lambda>i j. Some 0) sv i (demoRegister\<lparr>tr_RequestedSubdomain := []\<rparr>) (s2, Suc 0) =
      (Inr tun, [], sv\<lparr>sv_registry := r\<rparr>, s2, Suc 0)"
    using tun r au(2) by (simp add: registerTunnelSession_def registerRandomSubdomain_def randomSubdomainAttempts_def numeral_eq_Suc rs va)
  with au(1) show ?thesis
    by (simp add: handleAgentWebSocket_def registerTunnel_def Let_def demoEnvelope_def DecodePayload_def agentEnv_def
        NewEnvelope_def NewStream_def marshalPayload_def demoJSON_def demoRegister_def)
qed

section \<open>Properties\<close>



text \<open>
  C1: end to end, a public request reaches an agent only with the permission of the control plane.
  Whenever the gateway sends anything to an agent for a public request, the access policy that the
  control plane had for the subdomain at that time was satisfied by the credentials of this request.
\<close>

theorem public_requests_satisfy_the_policy:
  assumes "linked E net G c" "sv_access sv = ClientAccess c"
    and "handlePublicRequest G io sv r rw (s, n) = Some (v, s2, m)" "sx_Sent v \<noteq> []"
  shows "\<exists>route ses a s1 q' ip. admitted G io sv r (s, n) route ses a (s2, m) \<and>
    (control_step E)\<^sup>*\<^sup>* s s1 \<and> control_step E s1 s2 \<and>
    sentEvaluation \<lparr>aq_Subdomain = ro_Subdomain route, aq_RemoteIP = clientIP sv r, aq_BasicUsername = fst (BasicAuth r),
      aq_BasicPassword = snd (BasicAuth r), aq_BearerToken = PublicBase.bearerToken r\<rparr> q' \<and>
    (aq_RemoteIP q' \<noteq> [] \<longrightarrow> ip = aq_RemoteIP q') \<and> granted E s1 (q'\<lparr>aq_RemoteIP := ip\<rparr>)"
proof -
  from admitted_first [OF assms(3,4)] obtain route ses a where adm: "admitted G io sv r (s, n) route ses a (s2, m)" by blast
  then obtain sv1 s0 n0 where ro: "routeForHost G (io_resolved io) sv (r_Host r) (s, n) = (Inr (route, True), sv1, s0, n0)"
    and ev: "evaluatePublicAccess G sv r (ro_Subdomain route) (s0, n0) = (Inr a, s2, m)" "pe_Allowed a"
    by (auto simp: admitted_def)
  from assms(1) have l: "ge_rt G = controlRT E net" "codec_ok (ke_json E) (ge_cd G)" "endpoints_ok (ge_url G) c"
    by (simp_all add: linked_def)
  let ?q = "\<lparr>aq_Subdomain = ro_Subdomain route, aq_RemoteIP = clientIP sv r, aq_BasicUsername = fst (BasicAuth r),
      aq_BasicPassword = snd (BasicAuth r), aq_BearerToken = PublicBase.bearerToken r\<rparr>"
  have "clientEvaluateAccessPolicy (ge_url G) (ge_cd G) (controlRT E net) c ?q (s0, n0) = (Inr a, s2, m)"
    using ev(1) l(1) assms(2) by (simp add: evaluatePublicAccess_def EvaluateAccessPolicy_def split: prod.splits)
  from answered_evaluation [OF this l(2,3)] ev(2) obtain s1 q' ip where
    A: "s1 = handleOthers E (cn_others net n0) s0" "control_step E s1 s2" "sentEvaluation ?q q'" "aq_RemoteIP q' \<noteq> [] \<longrightarrow> ip = aq_RemoteIP q'"
    "granted E s1 (q'\<lparr>aq_RemoteIP := ip\<rparr>)" by blast
  have "(control_step E)\<^sup>*\<^sup>* s s1" unfolding A(1) by (rule rtranclp_trans [OF route_steps [OF l(1) ro] handleOthers_steps])
  with A(2-5) adm show ?thesis by blast
qed

theorem public_requests_satisfy_the_policy_witness:
  "\<exists>v s2 m s1 q'. handlePublicRequest systemEnv demoIO systemGateway localRequest freshWriter (demoStart, 0) = Some (v, s2, m) \<and> sx_Sent v \<noteq> [] \<and>
     (control_step demoKenv)\<^sup>*\<^sup>* demoStart s1 \<and> granted demoKenv s1 q'"
proof -
  obtain v s2 m where run: "handlePublicRequest systemEnv demoIO systemGateway localRequest freshWriter (demoStart, 0) = Some (v, s2, m)"
    "sx_Sent v \<noteq> []" using demo_public by blast
  have "sv_access systemGateway = ClientAccess demoClient" by (simp add: systemGateway_def)
  from public_requests_satisfy_the_policy [OF demo_linked this run] run show ?thesis by blast
qed

text \<open>
  C2: end to end, a tunnel belongs to the owner of its name.  When an agent gets a tunnel, the token it
  sent was a live token of the control plane with the scope for tunnels; and if it asked for a
  subdomain, the control plane had a reservation of that name for exactly this token.
\<close>

theorem tunnels_belong_to_their_tokens:
  assumes "linked E net G c" "hashes (ke_sha E)" "control_reach E cfg s"
    and "sv_tokens sv = ClientTokens c" "sv_reserved sv = ClientReserved c"
    and "handleAgentWebSocket G nameText regText now sdraw tdraw sv rd1 ok1 rd2 ok2 (s, n) = (Inr ses, out, sv', s2, m)"
  shows "\<exists>env1 auth env2 reg t i s1.
    rd1 = Some env1 \<and> DecodePayload (unAuthRequest (ge_js G)) env1 = Inr auth \<and>
    rd2 = Some env2 \<and> DecodePayload (unTunnelRegister (ge_js G)) env2 = Inr reg \<and>
    (control_step E)\<^sup>*\<^sup>* s s1 \<and> sentText (ar_Token auth) t \<and> liveToken E s1 t i \<and>
    (tr_RequestedSubdomain reg \<noteq> [] \<longrightarrow> ss_Subdomain (as_tunnel ses) = tr_RequestedSubdomain reg \<and>
       (\<exists>s3. (control_step E)\<^sup>*\<^sup>* s1 s3 \<and> ownsSubdomain E s3 i (tr_RequestedSubdomain reg)))"
proof -
  from assms(1) have l: "ge_rt G = controlRT E net" "codec_ok (ke_json E) (ge_cd G)" "endpoints_ok (ge_url G) c"
    by (simp_all add: linked_def)
  from assms(6) obtain identity out1 sv1 w1 out2 sv2 where H:
    "authenticateAgent G sv rd1 ok1 (s, n) = (Inr identity, out1, sv1, w1)"
    "registerTunnel G nameText regText now sdraw tdraw sv1 rd2 ok2 identity w1 = (Inr ses, out2, sv2, s2, m)"
    by (auto simp: handleAgentWebSocket_def split: prod.splits sum.splits)
  obtain sa na where w1: "w1 = (sa, na)" by fastforce
  have same: "sv_reserved sv1 = ClientReserved c"
    using onlyCountersD [OF authenticateAgent_state [OF H(1)]] assms(5) by simp
  from authenticateAgent_Inr [OF H(1)] obtain env1 auth val where a:
    "rd1 = Some env1" "DecodePayload (unAuthRequest (ge_js G)) env1 = Inr auth"
    "clientValidateAgentToken (ge_url G) (ge_cd G) (controlRT E net) c (ar_Token auth) (s, n) = (Inr val, sa, na)"
    "tv_Valid val" "ai_TokenID identity = tv_TokenID val"
    using l(1) assms(4) w1 by (auto simp: ValidateAgentToken_def)
  from answered_validation [OF a(3,4) l(2,3)] obtain s1 t i where s1: "s1 = handleOthers E (cn_others net n) s" and v: "(control_step E)\<^sup>*\<^sup>* s s1" "control_step E s1 sa"
    "sentText (ar_Token auth) t" "sentText i (tv_TokenID val)" "token_inv (ks_service s1) \<longrightarrow> liveToken E s1 t i" using handleOthers_steps by blast
  have r1: "control_reach E cfg s1" by (rule control_reach_steps [OF v(1) assms(3)])
  have live: "liveToken E s1 t i" using v(5) control_reach_inv [OF assms(2) r1] by (simp add: control_inv_def)
  then have i: "ascii i" by (rule liveToken_ascii [OF r1])
  from registerTunnel_Inr [OF H(2)] obtain env2 reg where g: "rd2 = Some env2" "DecodePayload (unTunnelRegister (ge_js G)) env2 = Inr reg"
    "ValidateSubdomain (ss_Subdomain (as_tunnel ses)) = None"
    "tr_RequestedSubdomain reg \<noteq> [] \<longrightarrow> ss_Subdomain (as_tunnel ses) = tr_RequestedSubdomain reg \<and>
      (\<exists>x. clientAuthorizeReservedSubdomain (ge_url G) (ge_cd G) (controlRT E net) c (ai_TokenID identity) (tr_RequestedSubdomain reg) (sa, na)
            = (Inr x, s2, m) \<and> ra_Allowed x)"
    using l(1) same w1 by (auto simp: AuthorizeReservedSubdomain_def)
  have "\<exists>s3. (control_step E)\<^sup>*\<^sup>* s1 s3 \<and> ownsSubdomain E s3 i (tr_RequestedSubdomain reg)" if req: "tr_RequestedSubdomain reg \<noteq> []"
  proof -
    from g(4) req obtain x where x: "clientAuthorizeReservedSubdomain (ge_url G) (ge_cd G) (controlRT E net) c (ai_TokenID identity)
        (tr_RequestedSubdomain reg) (sa, na) = (Inr x, s2, m)" "ra_Allowed x" by blast
    from answered_authorization [OF x l(2,3)] obtain s3 i' sub where o: "s3 = handleOthers E (cn_others net na) sa" "control_step E s3 s2"
      "sentText (ai_TokenID identity) i'" "sentText (tr_RequestedSubdomain reg) sub"
      "reservation_inv (ks_reservations s3) \<longrightarrow> ownsSubdomain E s3 i' sub" by blast
    have st: "(control_step E)\<^sup>*\<^sup>* s1 s3" unfolding o(1) using v(2) handleOthers_steps by (rule converse_rtranclp_into_rtranclp)
    have "reservation_inv (ks_reservations s3)"
      using control_reach_inv [OF assms(2) control_reach_steps [OF st r1]] by (simp add: control_inv_def reservation_wf_def)
    moreover have "i' = i" "sub = tr_RequestedSubdomain reg"
      using v(4) i a(5) o(3,4) ValidateSubdomain_ascii [OF g(3)] g(4) req by (auto simp: sentText_def)
    ultimately show ?thesis using st o(5) by blast
  qed
  with a g v(1,3) live show ?thesis by blast
qed

theorem tunnels_belong_to_their_tokens_witness:
  "\<exists>ses out sv s2 m t i s1. handleAgentWebSocket agentEnv (\<lambda>e. []) (\<lambda>e. []) 0 (\<lambda>i j. Some 0) (\<lambda>i j. Some 0) agentGateway
     (Some (demoEnvelope TypeAuthRequest)) True (Some (demoEnvelope TypeTunnelRegister)) True (demoIssued, 0) = (Inr ses, out, sv, s2, m) \<and>
     (control_step demoKenv)\<^sup>*\<^sup>* demoIssued s1 \<and> liveToken demoKenv s1 t i"
proof -
  obtain ses out sv s2 m where run: "handleAgentWebSocket agentEnv (\<lambda>e. []) (\<lambda>e. []) 0 (\<lambda>i j. Some 0) (\<lambda>i j. Some 0) agentGateway
     (Some (demoEnvelope TypeAuthRequest)) True (Some (demoEnvelope TypeTunnelRegister)) True (demoIssued, 0) = (Inr ses, out, sv, s2, m)"
    using demo_agent by blast
  have "hashes (ke_sha demoKenv)" "linked demoKenv demoNet agentEnv demoClient"
    using demo_linked by (simp_all add: demo_parameters linked_def agentEnv_def)
  moreover have "sv_tokens agentGateway = ClientTokens demoClient" "sv_reserved agentGateway = ClientReserved demoClient"
    by (simp_all add: agentGateway_def)
  ultimately show ?thesis using tunnels_belong_to_their_tokens [OF _ _ demoIssued_reach _ _ run] run by blast
qed

end
