(* ===== verification/AgentConfig.thy ===== *)
theory AgentConfig
  imports GatewayConfig
begin

text \<open>
  The settings of the agent (\<open>config.go\<close> and \<open>config_file.go\<close> of \<open>agent/internal/agent\<close>), the delays
  between its attempts to reconnect (\<open>reconnect.go\<close>), and the URLs it builds (\<open>forward.go\<close>,
  \<open>runner.go\<close>).  The operating system is the record \<open>agent_os\<close>; the files are a map from paths to
  contents, and \<open>os_denied\<close> says which operations the system refuses.
\<close>

section \<open>Settings\<close>

definition defaultServerURL :: string where
  "defaultServerURL = ''http://localhost:8081''"

definition defaultToken :: string where
  "defaultToken = ''dev-token''"

definition agentDefaultHandshakeTimeout :: duration where
  "agentDefaultHandshakeTimeout = 10 * Second"

definition defaultRequestTimeout :: duration where
  "defaultRequestTimeout = 30 * Second"

definition defaultMaxResponseBodyBytes :: int where
  "defaultMaxResponseBodyBytes = 2 ^ 20"

definition agentDefaultWSMessageMaxBytes :: int where
  "agentDefaultWSMessageMaxBytes = 2 ^ 20"

definition agentDefaultStreamChunkBytes :: int where
  "agentDefaultStreamChunkBytes = 32768"

definition agentDefaultWriteTimeout :: duration where
  "agentDefaultWriteTimeout = 10 * Second"

definition agentDefaultPingInterval :: duration where
  "agentDefaultPingInterval = 15 * Second"

definition agentDefaultPongTimeout :: duration where
  "agentDefaultPongTimeout = 5 * Second"

definition defaultReconnectInitialDelay :: duration where
  "defaultReconnectInitialDelay = 500000000"

definition defaultReconnectMaxDelay :: duration where
  "defaultReconnectMaxDelay = 5 * Second"

definition defaultReconnectJitter :: duration where
  "defaultReconnectJitter = 250000000"

record AgentConfig =
  ac_ServerURL :: string
  ac_Token :: string
  ac_RequestedSubdomain :: string
  ac_Port :: int
  ac_LocalTarget :: string
  ac_AgentVersion :: string
  ac_HandshakeTimeout :: duration
  ac_RequestTimeout :: duration
  ac_MaxResponseBodyBytes :: int
  ac_WSMessageMaxBytes :: int
  ac_StreamChunkBytes :: int
  ac_WebSocketWriteTimeout :: duration
  ac_WebSocketPingInterval :: duration
  ac_WebSocketPongTimeout :: duration
  ac_ReconnectInitialDelay :: duration
  ac_ReconnectMaxDelay :: duration
  ac_ReconnectJitter :: duration
  ac_CACertFile :: string
  ac_ConnectAddr :: string

definition agentEnvString :: "(string \<Rightarrow> string) \<Rightarrow> string \<Rightarrow> string \<Rightarrow> string" where
  "agentEnvString getenv name fallback = (let val = getenv name in if val = [] then fallback else val)"

definition agentEnvInt64 :: "(string \<Rightarrow> string) \<Rightarrow> string \<Rightarrow> int \<Rightarrow> int" where
  "agentEnvInt64 getenv name fallback =
     (let val = getenv name in
      if val = [] then fallback
      else case Atoi val of
             None \<Rightarrow> fallback
           | Some parsed \<Rightarrow> if parsed \<le> 0 then fallback else parsed)"

definition agentEnvInt :: "(string \<Rightarrow> string) \<Rightarrow> string \<Rightarrow> int \<Rightarrow> int" where
  "agentEnvInt getenv name fallback =
     (let val = getenv name in
      if val = [] then fallback
      else case Atoi val of
             None \<Rightarrow> fallback
           | Some parsed \<Rightarrow> if parsed \<le> 0 then fallback else parsed)"

definition agentEnvDuration :: "(rat \<Rightarrow> rat) \<Rightarrow> (string \<Rightarrow> string) \<Rightarrow> string \<Rightarrow> duration \<Rightarrow> duration" where
  "agentEnvDuration rnd getenv name fallback =
     (let val = getenv name in
      if val = [] then fallback
      else case ParseDuration rnd val of
             None \<Rightarrow> fallback
           | Some parsed \<Rightarrow> if parsed \<le> 0 then fallback else parsed)"

definition normalizeAgentConfig :: "AgentConfig \<Rightarrow> AgentConfig" where
  "normalizeAgentConfig cfg0 =
     (let cfg = cfg0
        \<lparr>ac_ServerURL := ifEmpty (ac_ServerURL cfg0) defaultServerURL,
         ac_Token := ifEmpty (ac_Token cfg0) defaultToken,
         ac_HandshakeTimeout := ifNotPositive (ac_HandshakeTimeout cfg0) agentDefaultHandshakeTimeout,
         ac_RequestTimeout := ifNotPositive (ac_RequestTimeout cfg0) defaultRequestTimeout,
         ac_MaxResponseBodyBytes := ifNotPositive (ac_MaxResponseBodyBytes cfg0) defaultMaxResponseBodyBytes,
         ac_WSMessageMaxBytes := ifNotPositive (ac_WSMessageMaxBytes cfg0) agentDefaultWSMessageMaxBytes,
         ac_StreamChunkBytes := ifNotPositive (ac_StreamChunkBytes cfg0) agentDefaultStreamChunkBytes,
         ac_WebSocketWriteTimeout := ifNotPositive (ac_WebSocketWriteTimeout cfg0) agentDefaultWriteTimeout,
         ac_WebSocketPingInterval := ifNotPositive (ac_WebSocketPingInterval cfg0) agentDefaultPingInterval,
         ac_WebSocketPongTimeout := ifNotPositive (ac_WebSocketPongTimeout cfg0) agentDefaultPongTimeout,
         ac_ReconnectInitialDelay := ifNotPositive (ac_ReconnectInitialDelay cfg0) defaultReconnectInitialDelay,
         ac_ReconnectMaxDelay := ifNotPositive (ac_ReconnectMaxDelay cfg0) defaultReconnectMaxDelay,
         ac_ReconnectJitter := ifNegative (ac_ReconnectJitter cfg0) defaultReconnectJitter\<rparr>
      in if ac_ReconnectMaxDelay cfg < ac_ReconnectInitialDelay cfg
         then cfg\<lparr>ac_ReconnectMaxDelay := ac_ReconnectInitialDelay cfg\<rparr> else cfg)"

section \<open>The configuration file\<close>

record ConfigFile =
  fc_ServerURL :: string
  fc_Token :: string

datatype file_op = ReadFile | MkdirAll | WriteFile | RemoveFile

type_synonym files = "string \<rightharpoonup> bytes"

text \<open>
  \<open>os_joinPath\<close> and \<open>os_dir\<close> are \<open>filepath.Join\<close> and \<open>filepath.Dir\<close>, \<open>os_unmarshal\<close> and \<open>os_marshalIndent\<close>
  are \<open>encoding/json\<close> on \<open>ConfigFile\<close>.
\<close>

record agent_os =
  os_getenv :: "string \<Rightarrow> string"
  os_userConfigDir :: "string option"
  os_joinPath :: "string list \<Rightarrow> string"
  os_dir :: "string \<Rightarrow> string"
  os_denied :: "file_op \<Rightarrow> string \<Rightarrow> bool"
  os_unmarshal :: "bytes \<Rightarrow> ConfigFile option"
  os_marshalIndent :: "ConfigFile \<Rightarrow> bytes option"

datatype config_file_error =
    ResolveConfigDir | ReadConfigFile | DecodeConfigFile | CreateConfigDir | EncodeConfigFile | WriteConfigFile | RemoveConfig

definition ConfigFilePath :: "agent_os \<Rightarrow> config_file_error + string" where
  "ConfigFilePath os =
     (let path = os_getenv os ''PORTHOOK_CONFIG_PATH'' in
      if path \<noteq> [] then Inr path
      else case os_userConfigDir os of
             None \<Rightarrow> Inl ResolveConfigDir
           | Some configDir \<Rightarrow> Inr (os_joinPath os [configDir, ''porthook'', ''config.json'']))"

text \<open>The result \<^term>\<open>Inr None\<close> stands for the flag \<open>false\<close> without an error.\<close>

definition LoadConfigFile :: "agent_os \<Rightarrow> files \<Rightarrow> config_file_error + ConfigFile option" where
  "LoadConfigFile os fs =
     (case ConfigFilePath os of
        Inl e \<Rightarrow> Inl e
      | Inr path \<Rightarrow>
          (case fs path of
             None \<Rightarrow> if os_denied os ReadFile path then Inl ReadConfigFile else Inr None
           | Some data \<Rightarrow>
               if os_denied os ReadFile path then Inl ReadConfigFile
               else case os_unmarshal os data of None \<Rightarrow> Inl DecodeConfigFile | Some cfg \<Rightarrow> Inr (Some cfg)))"

text \<open>A refused \<open>os.WriteFile\<close> leaves the file as it was.\<close>

definition SaveConfigFile :: "agent_os \<Rightarrow> files \<Rightarrow> ConfigFile \<Rightarrow> config_file_error option \<times> files" where
  "SaveConfigFile os fs cfg =
     (case ConfigFilePath os of
        Inl e \<Rightarrow> (Some e, fs)
      | Inr path \<Rightarrow>
          if os_denied os MkdirAll (os_dir os path) then (Some CreateConfigDir, fs)
          else case os_marshalIndent os cfg of
                 None \<Rightarrow> (Some EncodeConfigFile, fs)
               | Some data \<Rightarrow>
                   if os_denied os WriteFile path then (Some WriteConfigFile, fs)
                   else (None, fs(path \<mapsto> data @ [CHR 0x0A])))"

definition RemoveConfigFile :: "agent_os \<Rightarrow> files \<Rightarrow> config_file_error option \<times> files" where
  "RemoveConfigFile os fs =
     (case ConfigFilePath os of
        Inl e \<Rightarrow> (Some e, fs)
      | Inr path \<Rightarrow>
          (case fs path of
             None \<Rightarrow> (if os_denied os RemoveFile path then Some RemoveConfig else None, fs)
           | Some data \<Rightarrow>
               if os_denied os RemoveFile path then (Some RemoveConfig, fs) else (None, fs(path := None))))"

definition agentConfigFromEnv :: "(rat \<Rightarrow> rat) \<Rightarrow> agent_os \<Rightarrow> files \<Rightarrow> AgentConfig" where
  "agentConfigFromEnv rnd os fs =
     (let getenv = os_getenv os; dur = agentEnvDuration rnd getenv;
          cfg = \<lparr>ac_ServerURL = defaultServerURL, ac_Token = defaultToken, ac_RequestedSubdomain = [], ac_Port = 0,
                 ac_LocalTarget = [], ac_AgentVersion = [],
                 ac_HandshakeTimeout = dur ''PORTHOOK_HANDSHAKE_TIMEOUT'' agentDefaultHandshakeTimeout,
                 ac_RequestTimeout = dur ''PORTHOOK_REQUEST_TIMEOUT'' defaultRequestTimeout,
                 ac_MaxResponseBodyBytes = agentEnvInt64 getenv ''PORTHOOK_MAX_RESPONSE_BODY_BYTES'' defaultMaxResponseBodyBytes,
                 ac_WSMessageMaxBytes = agentEnvInt64 getenv ''PORTHOOK_WS_MESSAGE_MAX_BYTES'' agentDefaultWSMessageMaxBytes,
                 ac_StreamChunkBytes = agentEnvInt getenv ''PORTHOOK_STREAM_CHUNK_BYTES'' agentDefaultStreamChunkBytes,
                 ac_WebSocketWriteTimeout = dur ''PORTHOOK_WS_WRITE_TIMEOUT'' agentDefaultWriteTimeout,
                 ac_WebSocketPingInterval = dur ''PORTHOOK_WS_PING_INTERVAL'' agentDefaultPingInterval,
                 ac_WebSocketPongTimeout = dur ''PORTHOOK_WS_PONG_TIMEOUT'' agentDefaultPongTimeout,
                 ac_ReconnectInitialDelay = dur ''PORTHOOK_RECONNECT_INITIAL_DELAY'' defaultReconnectInitialDelay,
                 ac_ReconnectMaxDelay = dur ''PORTHOOK_RECONNECT_MAX_DELAY'' defaultReconnectMaxDelay,
                 ac_ReconnectJitter = dur ''PORTHOOK_RECONNECT_JITTER'' defaultReconnectJitter,
                 ac_CACertFile = getenv ''PORTHOOK_CA_FILE'', ac_ConnectAddr = getenv ''PORTHOOK_CONNECT_ADDR''\<rparr>;
          cfg1 = (case LoadConfigFile os fs of
                    Inr (Some file) \<Rightarrow>
                      cfg\<lparr>ac_ServerURL := (if fc_ServerURL file \<noteq> [] then fc_ServerURL file else ac_ServerURL cfg),
                          ac_Token := (if fc_Token file \<noteq> [] then fc_Token file else ac_Token cfg)\<rparr>
                  | _ \<Rightarrow> cfg)
      in normalizeAgentConfig
           (cfg1\<lparr>ac_ServerURL := agentEnvString getenv ''PORTHOOK_SERVER_URL'' (ac_ServerURL cfg1),
                 ac_Token := agentEnvString getenv ''PORTHOOK_TOKEN'' (ac_Token cfg1)\<rparr>))"

section \<open>Delays between attempts\<close>

text \<open>
  Durations are 64-bit integers: \<open>delay *= 2\<close> and \<open>delay += jitterFunc(jitter)\<close> wrap around.  The loop
  runs at most \<open>attempt\<close> times; \<open>jitterFunc\<close> is \<^term>\<open>None\<close> when it is \<open>nil\<close>.
\<close>

primrec doubleDelay :: "nat \<Rightarrow> duration \<Rightarrow> duration \<Rightarrow> duration" where
  "doubleDelay 0 mx delay = delay"
| "doubleDelay (Suc left) mx delay =
     (if delay < mx
      then let d = wrap64 (delay * 2) in doubleDelay left mx (if d > mx then mx else d)
      else delay)"

definition reconnectDelay ::
  "int \<Rightarrow> duration \<Rightarrow> duration \<Rightarrow> duration \<Rightarrow> (duration \<Rightarrow> duration) option \<Rightarrow> duration" where
  "reconnectDelay attempt initial0 mx0 jitter0 jitterFunc =
     (let initial = (if initial0 \<le> 0 then defaultReconnectInitialDelay else initial0);
          mx1 = (if mx0 \<le> 0 then initial else mx0);
          mx = (if mx1 < initial then initial else mx1);
          delay = doubleDelay (nat attempt) mx initial
      in if jitter0 \<le> 0 then delay
         else case jitterFunc of
                None \<Rightarrow> delay
              | Some f \<Rightarrow>
                  let jitter = (if jitter0 > delay then delay else jitter0);
                      d = wrap64 (delay + f jitter)
                  in if d > mx then mx else d)"

text \<open>\<open>draw\<close> is \<open>rand.Int(rand.Reader, n)\<close>, a number below \<open>n\<close>, or \<^term>\<open>None\<close> if it fails.\<close>

definition randomReconnectJitter :: "(int \<Rightarrow> int option) \<Rightarrow> duration \<Rightarrow> duration" where
  "randomReconnectJitter draw limit =
     (if limit \<le> 0 then 0
      else case draw (wrap64 (limit + 1)) of None \<Rightarrow> 0 | Some n \<Rightarrow> n)"

section \<open>URLs\<close>

definition agentJoinURLPath :: "string \<Rightarrow> string \<Rightarrow> string" where
  "agentJoinURLPath basePath requestPath =
     (if basePath = [] \<or> basePath = ''/'' then requestPath
      else if HasSuffix basePath ''/'' \<and> HasPrefix requestPath ''/'' then basePath @ TrimPrefix requestPath ''/''
      else if \<not> HasSuffix basePath ''/'' \<and> \<not> HasPrefix requestPath ''/'' then basePath @ ''/'' @ requestPath
      else basePath @ requestPath)"

definition agentWebSocketPath :: string where
  "agentWebSocketPath = ''/agent/connect''"

definition BuildWebSocketURL :: "urls \<Rightarrow> string \<Rightarrow> string + string" where
  "BuildWebSocketURL u serverURL =
     (case urlParse u serverURL of
        Inl e \<Rightarrow> Inl (''parse server URL: '' @ e)
      | Inr parsed \<Rightarrow>
          let scheme = (if url_Scheme parsed = ''http'' then Some ''ws''
                        else if url_Scheme parsed = ''https'' then Some ''wss''
                        else if url_Scheme parsed = ''ws'' \<or> url_Scheme parsed = ''wss'' then Some (url_Scheme parsed)
                        else None)
          in case scheme of
               None \<Rightarrow> Inl ''server URL must use http, https, ws, or wss''
             | Some sch \<Rightarrow>
                 if url_Host parsed = [] then Inl ''server URL must include host''
                 else Inr (urlString u (parsed\<lparr>url_Scheme := sch,
                        url_Path := agentJoinURLPath (url_Path parsed) agentWebSocketPath,
                        url_RawQuery := [], url_Fragment := []\<rparr>)))"

definition buildLocalURL :: "urls \<Rightarrow> string \<Rightarrow> string \<Rightarrow> string \<Rightarrow> string + string" where
  "buildLocalURL u localTarget requestPath0 rawQuery =
     (case urlParse u localTarget of
        Inl e \<Rightarrow> Inl (''parse local target: '' @ e)
      | Inr base \<Rightarrow>
          if url_Scheme base = [] \<or> url_Host base = [] then Inl ''local target must include scheme and host''
          else let requestPath1 = (if requestPath0 = [] then ''/'' else requestPath0);
                   requestPath = (if \<not> HasPrefix requestPath1 ''/'' then ''/'' @ requestPath1 else requestPath1)
               in Inr (urlString u (base\<lparr>url_Path := agentJoinURLPath (url_Path base) requestPath,
                         url_RawQuery := rawQuery, url_Fragment := []\<rparr>)))"

definition buildLocalWSURL :: "urls \<Rightarrow> string \<Rightarrow> string \<Rightarrow> string \<Rightarrow> string + string" where
  "buildLocalWSURL u localTarget requestPath rawQuery =
     (case buildLocalURL u localTarget requestPath rawQuery of
        Inl e \<Rightarrow> Inl e
      | Inr httpURL \<Rightarrow>
          (case urlParse u httpURL of
             Inl e \<Rightarrow> Inl (''parse local websocket target: '' @ e)
           | Inr parsed \<Rightarrow>
               Inr (urlString u (parsed\<lparr>url_Scheme :=
                 (if url_Scheme parsed = ''http'' then ''ws''
                  else if url_Scheme parsed = ''https'' then ''wss'' else url_Scheme parsed)\<rparr>))))"

definition requestDisplayPath :: "string \<Rightarrow> string \<Rightarrow> string" where
  "requestDisplayPath path query = (if TrimSpace query = [] then path else path @ ''?'' @ query)"

section \<open>The clients of a runner\<close>

text \<open>
  \<open>x_system\<close> is \<open>x509.SystemCertPool\<close> (\<^term>\<open>None\<close> when it fails), \<open>x_new\<close> an empty pool and \<open>x_append\<close> is
  \<open>AppendCertsFromPEM\<close>, \<^term>\<open>None\<close> when the data holds no certificate.
\<close>

record 'p cert_pools =
  x_system :: "'p option"
  x_new :: 'p
  x_append :: "'p \<Rightarrow> bytes \<Rightarrow> 'p option"

definition loadCACertPool :: "'p cert_pools \<Rightarrow> (string \<Rightarrow> bytes option) \<Rightarrow> string \<Rightarrow> string + 'p option" where
  "loadCACertPool x readFile path0 =
     (let path = TrimSpace path0 in
      if path = [] then Inr None
      else case readFile path of
             None \<Rightarrow> Inl ''read CA certificate file''
           | Some pemData \<Rightarrow>
               let pool = (case x_system x of None \<Rightarrow> x_new x | Some p \<Rightarrow> p) in
               (case x_append x pool pemData of
                  None \<Rightarrow> Inl ''no valid certificates found in CA certificate file''
                | Some p \<Rightarrow> Inr (Some p)))"

text \<open>The transport of a client: the trusted roots and the address that is dialled, if they are not the default ones.\<close>

record 'p transport =
  tp_RootCAs :: "'p option"
  tp_DialAddr :: "string option"

record 'p Runner =
  rn_cfg :: AgentConfig
  rn_gatewayTransport :: "'p transport option"
  rn_clientTimeout :: duration

definition NewRunner :: "'p cert_pools \<Rightarrow> (string \<Rightarrow> bytes option) \<Rightarrow> AgentConfig \<Rightarrow> 'p Runner" where
  "NewRunner x readFile cfg0 =
     (let cfg = normalizeAgentConfig cfg0;
          t1 = (case loadCACertPool x readFile (ac_CACertFile cfg) of
                  Inl e \<Rightarrow> None
                | Inr None \<Rightarrow> None
                | Inr (Some pool) \<Rightarrow> Some \<lparr>tp_RootCAs = Some pool, tp_DialAddr = None\<rparr>);
          connectAddr = TrimSpace (ac_ConnectAddr cfg);
          t2 = (if connectAddr \<noteq> []
                then Some ((case t1 of None \<Rightarrow> \<lparr>tp_RootCAs = None, tp_DialAddr = None\<rparr> | Some t \<Rightarrow> t)\<lparr>tp_DialAddr := Some connectAddr\<rparr>)
                else t1)
      in \<lparr>rn_cfg = cfg, rn_gatewayTransport = t2, rn_clientTimeout = ac_RequestTimeout cfg\<rparr>)"

text \<open>A system that grants everything and stores the two settings one after the other.\<close>

definition demoOS :: agent_os where
  "demoOS = \<lparr>os_getenv = (\<lambda>name. []), os_userConfigDir = Some ''/home/dev/.config'', os_joinPath = (\<lambda>parts. Join parts ''/''),
     os_dir = (\<lambda>path. path), os_denied = (\<lambda>op path. False),
     os_unmarshal = (\<lambda>data. Some \<lparr>fc_ServerURL = takeWhile (\<lambda>c. c \<noteq> CHR '' '') data,
       fc_Token = takeWhile (\<lambda>c. c \<noteq> CHR 0x0A) (tl (dropWhile (\<lambda>c. c \<noteq> CHR '' '') data))\<rparr>),
     os_marshalIndent = (\<lambda>cfg. Some (fc_ServerURL cfg @ '' '' @ fc_Token cfg))\<rparr>"

definition demoLogin :: ConfigFile where
  "demoLogin = \<lparr>fc_ServerURL = ''https://tunnels.example.com'', fc_Token = ''ph_live_abc''\<rparr>"

section \<open>Lemmas\<close>

lemma doubleDelay_min:
  assumes "0 < d" "d \<le> mx" "mx < 2 ^ 62"
  shows "doubleDelay n mx d = min mx (d * 2 ^ n)"
  using assms
proof (induction n arbitrary: d)
  case (Suc n)
  show ?case
  proof (cases "d < mx")
    case True
    then have w: "wrap64 (d * 2) = d * 2" using Suc.prems by (intro wrap64_id) (simp add: int64_def)
    have two: "d * 2 \<le> d * 2 ^ Suc n" using Suc.prems(1) by simp
    have "doubleDelay n mx (if d * 2 > mx then mx else d * 2) = min mx (d * 2 ^ Suc n)"
    proof (cases "d * 2 > mx")
      case True
      have "mx \<le> mx * 2 ^ n" using Suc.prems by simp
      moreover have "mx \<le> d * 2 ^ Suc n" using True two by linarith
      ultimately show ?thesis using True Suc.prems by (simp add: Suc.IH)
    next
      case False
      then show ?thesis using Suc.prems by (simp add: Suc.IH mult.assoc)
    qed
    with True w show ?thesis by (simp add: Let_def)
  next
    case False
    then have "d = mx" using Suc.prems by simp
    moreover have "(1 :: int) \<le> 2 ^ Suc n" by (rule one_le_power) simp
    with Suc.prems have "mx * 1 \<le> mx * 2 ^ Suc n" by (intro mult_left_mono) simp_all
    ultimately show ?thesis by simp
  qed
qed simp

lemma demo_delay: "reconnectDelay 2 500000000 5000000000 250000000 (Some (\<lambda>limit. limit)) = 2250000000"
  by code_simp

section \<open>Properties\<close>

text \<open>
  C35: The delay before the \<open>attempt\<close>-th reconnection is the initial delay doubled \<open>attempt\<close> times and
  cut off at the maximum, plus a random jitter that never takes it above the maximum and never below the
  value without jitter.  The loop of doublings computes this closed form without wrapping around, for
  every maximum below \<open>2 ^ 62\<close> nanoseconds (146 years).
\<close>

theorem reconnect_delay_is_exponential:
  assumes "0 < initial" "initial \<le> mx" "mx < 2 ^ 62" "0 \<le> attempt"
    and "\<And>limit. 0 < limit \<Longrightarrow> 0 \<le> f limit \<and> f limit \<le> limit"
  shows "reconnectDelay attempt initial mx 0 (Some f) = min mx (initial * 2 ^ nat attempt) \<and>
    min mx (initial * 2 ^ nat attempt) \<le> reconnectDelay attempt initial mx jitter (Some f) \<and>
    reconnectDelay attempt initial mx jitter (Some f) \<le> min mx (min mx (initial * 2 ^ nat attempt) + max 0 jitter)"
proof -
  define d where "d = min mx (initial * 2 ^ nat attempt)"
  have d: "doubleDelay (nat attempt) mx initial = d" "0 < d" "d \<le> mx"
    using assms by (simp_all add: d_def doubleDelay_min)
  have base: "reconnectDelay attempt initial mx j (Some f) =
      (if j \<le> 0 then d else min mx (d + f (min j d)))" for j
  proof (cases "j \<le> 0")
    case False
    then have fj: "0 \<le> f (min j d)" "f (min j d) \<le> min j d" using assms(5) [of "min j d"] d(2) by auto
    then have "wrap64 (d + f (min j d)) = d + f (min j d)"
      using d assms(3) by (intro wrap64_id) (simp add: int64_def)
    then have "d < j \<Longrightarrow> wrap64 (d + f d) = d + f d" "\<not> d < j \<Longrightarrow> wrap64 (d + f j) = d + f j" by simp_all
    with False assms(1,2) d(1) show ?thesis by (simp add: reconnectDelay_def Let_def)
  qed (use assms(1,2) d(1) in \<open>simp add: reconnectDelay_def Let_def\<close>)
  show ?thesis
    unfolding base d_def [symmetric]
  proof (cases "jitter \<le> 0")
    case False
    then have "0 \<le> f (min jitter d)" "f (min jitter d) \<le> min jitter d" using assms(5) [of "min jitter d"] d(2) by auto
    with False d show "(if 0 \<le> (0::int) then d else min mx (d + f (min 0 d))) = d \<and>
      d \<le> (if jitter \<le> 0 then d else min mx (d + f (min jitter d))) \<and>
      (if jitter \<le> 0 then d else min mx (d + f (min jitter d))) \<le> min mx (d + max 0 jitter)" by (simp add: min_le_iff_disj)
  qed (use d in simp)
qed

theorem reconnect_delay_is_exponential_witness:
  "reconnectDelay 2 500000000 5000000000 250000000 (Some (\<lambda>limit. limit)) = 2250000000 \<and>
   (2000000000 :: int) \<le> reconnectDelay 2 500000000 5000000000 250000000 (Some (\<lambda>limit. limit))"
  using reconnect_delay_is_exponential [of 500000000 5000000000 2 "\<lambda>limit. limit" 250000000]
  by (simp add: demo_delay)

text \<open>
  The settings that \<open>SaveConfigFile\<close> has stored without an error are the ones the agent runs with
  the next time: the server URL and the token of the file are used unless the environment overrides them
  (or the stored value is empty, when the default is used).  After \<open>RemoveConfigFile\<close> they are gone.
\<close>

theorem saved_settings_are_used:
  assumes "SaveConfigFile os fs file = (None, fs1)" "\<And>path. \<not> os_denied os ReadFile path"
    and "\<And>data. os_marshalIndent os file = Some data \<Longrightarrow> os_unmarshal os (data @ [CHR 0x0A]) = Some file"
  shows "LoadConfigFile os fs1 = Inr (Some file) \<and>
    ac_Token (agentConfigFromEnv rnd os fs1) =
      (if os_getenv os ''PORTHOOK_TOKEN'' \<noteq> [] then os_getenv os ''PORTHOOK_TOKEN''
       else if fc_Token file \<noteq> [] then fc_Token file else defaultToken) \<and>
    ac_ServerURL (agentConfigFromEnv rnd os fs1) =
      (if os_getenv os ''PORTHOOK_SERVER_URL'' \<noteq> [] then os_getenv os ''PORTHOOK_SERVER_URL''
       else if fc_ServerURL file \<noteq> [] then fc_ServerURL file else defaultServerURL) \<and>
    (\<forall>fs2. RemoveConfigFile os fs1 = (None, fs2) \<longrightarrow> LoadConfigFile os fs2 = Inr None)"
proof -
  from assms(1) obtain path data where p: "ConfigFilePath os = Inr path" "os_marshalIndent os file = Some data"
      "fs1 = fs(path \<mapsto> data @ [CHR 0x0A])"
    by (auto simp: SaveConfigFile_def split: sum.splits if_splits option.splits)
  then have load: "LoadConfigFile os fs1 = Inr (Some file)" using assms(2,3) by (simp add: LoadConfigFile_def)
  have gone: "LoadConfigFile os fs2 = Inr None" if "RemoveConfigFile os fs1 = (None, fs2)" for fs2
    using that p assms(2) by (auto simp: RemoveConfigFile_def LoadConfigFile_def split: if_splits)
  have nonempty: "defaultToken \<noteq> []" "defaultServerURL \<noteq> []" by (simp_all add: defaultToken_def defaultServerURL_def)
  have "ac_Token (normalizeAgentConfig cfg) = (if ac_Token cfg = [] then defaultToken else ac_Token cfg)"
    "ac_ServerURL (normalizeAgentConfig cfg) = (if ac_ServerURL cfg = [] then defaultServerURL else ac_ServerURL cfg)" for cfg
    by (simp_all add: normalizeAgentConfig_def Let_def ifEmpty_def)
  with load gone nonempty show ?thesis by (simp add: agentConfigFromEnv_def Let_def agentEnvString_def)
qed

theorem saved_settings_are_used_witness:
  "LoadConfigFile demoOS (snd (SaveConfigFile demoOS Map.empty demoLogin)) = Inr (Some demoLogin) \<and>
   ac_Token (agentConfigFromEnv (\<lambda>x. x) demoOS (snd (SaveConfigFile demoOS Map.empty demoLogin))) = ''ph_live_abc'' \<and>
   LoadConfigFile demoOS (snd (RemoveConfigFile demoOS (snd (SaveConfigFile demoOS Map.empty demoLogin)))) = Inr None"
proof -
  define fs where "fs = snd (SaveConfigFile demoOS Map.empty demoLogin)"
  have s: "SaveConfigFile demoOS Map.empty demoLogin = (None, fs)"
    by (simp add: fs_def SaveConfigFile_def ConfigFilePath_def demoOS_def)
  have r: "RemoveConfigFile demoOS fs = (None, snd (RemoveConfigFile demoOS fs))"
    by (simp add: RemoveConfigFile_def ConfigFilePath_def demoOS_def split: option.splits)
  have "os_unmarshal demoOS (data @ [CHR 0x0A]) = Some demoLogin" if "os_marshalIndent demoOS demoLogin = Some data" for data
    using that by (auto simp: demoOS_def demoLogin_def)
  then show ?thesis
    using saved_settings_are_used [OF s, of "\<lambda>x. x"] r
    by (simp add: fs_def [symmetric]) (simp add: demoOS_def demoLogin_def)
qed

end
