(* ===== verification/AgentForward.thy ===== *)
theory AgentForward
  imports AgentConfig Session Encodings
begin

text \<open>
  The forwarding of HTTP requests by the agent: \<open>forward.go\<close> and the handlers \<open>handleHTTPRequest\<close> and
  \<open>handleHTTPStream\<close> of \<open>runner.go\<close>.  The local service, behind \<open>http.Client\<close>, is the record
  \<open>localClient\<close>; a response body is the list of results of its \<open>Read\<close>.  Errors are their texts,
  because the agent only prints them and sends them to the gateway.  As for the gateway, a list that
  ends before the code returns gives \<^term>\<open>None\<close>: the code is still waiting.  The property of this theory is
  that the handler of a stream returns and keeps to the limit of the response body.
\<close>

section \<open>Texts of errors\<close>

fun typeName :: "msg_type \<Rightarrow> string" where
  "typeName TypeAuthRequest = ''auth.request''"
| "typeName TypeAuthOK = ''auth.ok''"
| "typeName TypeAuthError = ''auth.error''"
| "typeName TypeTunnelRegister = ''tunnel.register''"
| "typeName TypeTunnelRegistered = ''tunnel.registered''"
| "typeName TypeTunnelError = ''tunnel.error''"
| "typeName TypePing = ''ping''"
| "typeName TypePong = ''pong''"
| "typeName TypeHTTPRequest = ''http.request''"
| "typeName TypeHTTPRequestStart = ''http.request.start''"
| "typeName TypeHTTPRequestBody = ''http.request.body''"
| "typeName TypeHTTPRequestEnd = ''http.request.end''"
| "typeName TypeHTTPResponse = ''http.response''"
| "typeName TypeHTTPResponseStart = ''http.response.start''"
| "typeName TypeHTTPResponseBody = ''http.response.body''"
| "typeName TypeHTTPResponseEnd = ''http.response.end''"
| "typeName TypeHTTPStreamError = ''http.stream.error''"
| "typeName TypeHTTPStreamCancel = ''http.stream.cancel''"
| "typeName TypeWSOpen = ''ws.open''"
| "typeName TypeWSAccept = ''ws.accept''"
| "typeName TypeWSError = ''ws.error''"
| "typeName TypeWSClose = ''ws.close''"
| "typeName TypeWSCancel = ''ws.cancel''"
| "typeName TypeWSMessageText = ''ws.message.text''"
| "typeName TypeWSMessageBinary = ''ws.message.binary''"
| "typeName (OtherType t) = t"

text \<open>\<open>cause\<close> is the text of the error of \<open>encoding/json\<close> or of the connection.\<close>

fun msgErrorText :: "string \<Rightarrow> msg_error \<Rightarrow> string" where
  "msgErrorText cause MessageTypeRequired = ''message type is required''"
| "msgErrorText cause EncodePayload = ''encode payload: '' @ cause"
| "msgErrorText cause PayloadRequired = ''payload is required''"
| "msgErrorText cause (DecodePayloadFailed t) = ''decode '' @ typeName t @ '' payload: '' @ cause"
| "msgErrorText cause (UnsupportedBodyType t) = ''unsupported binary body message type '' @ typeName t"
| "msgErrorText cause (UnsupportedFrameByte b) = ''unsupported binary body frame type '' @ showNat (of_char b)"
| "msgErrorText cause StreamIDRequired = ''stream id is required''"
| "msgErrorText cause StreamIDTooLong = ''stream id is too long''"
| "msgErrorText cause TunnelIDTooLong = ''tunnel id is too long''"
| "msgErrorText cause FrameTooShort = ''binary body frame is too short''"
| "msgErrorText cause FrameMagic = ''invalid binary body frame magic''"
| "msgErrorText cause FrameTruncated = ''binary body frame has truncated stream metadata''"
| "msgErrorText cause JSONMessage = ''encode websocket json message: '' @ cause"
| "msgErrorText cause UnsupportedMessageType = ''unsupported websocket message type'' @ cause"
| "msgErrorText cause ConnError = cause"

section \<open>Messages to the gateway\<close>

text \<open>
  \<open>aw_write i\<close> is the result of the \<open>i\<close>-th write of a stream to the connection of the gateway, with the
  text of its error.
\<close>

record agent_wire =
  aw_json :: json
  aw_jsonText :: string
  aw_write :: "nat \<Rightarrow> string option"

definition agentWrite :: "agent_wire \<Rightarrow> sent list \<Rightarrow> Envelope \<Rightarrow> string option \<times> sent list" where
  "agentWrite w out env =
     (case WriteEnvelope (aw_json w) env of
        Inl e \<Rightarrow> (Some (msgErrorText (aw_jsonText w) e), out)
      | Inr frame \<Rightarrow> (aw_write w (length out), out @ [SentEnvelope env]))"

definition agentWriteBinaryBody ::
  "agent_wire \<Rightarrow> sent list \<Rightarrow> msg_type \<Rightarrow> string \<Rightarrow> string \<Rightarrow> bytes \<Rightarrow> string option \<times> sent list" where
  "agentWriteBinaryBody w out typ streamID tunnelID body =
     (case WriteBinaryBody typ streamID tunnelID body of
        Inl e \<Rightarrow> (Some (msgErrorText [] e), out)
      | Inr frame \<Rightarrow> (aw_write w (length out), out @ [SentBody typ streamID body]))"

section \<open>The local service\<close>

datatype agent_end = AgentEOF | AgentReadErr string

datatype body_end = BodyEOF | BodyFailed string | BodyOpen | BodyClosed

text \<open>
  A request as it is handed to \<open>client.Do\<close>: \<open>lr_Body\<close> is what the transport reads of its body, and
  \<open>lr_BodyEnd\<close> how the body ends: at its end, with an error, not yet, or closed by the transport itself.
\<close>

record localRequest =
  lr_Method :: string
  lr_URL :: string
  lr_Header :: http_header
  lr_ContentLength :: int
  lr_Body :: bytes
  lr_BodyEnd :: body_end

datatype local_answer = LocalFailed string | LocalResponse int http_header "(bytes \<times> agent_end option) list"

record localClient =
  lc_newRequest :: "string \<Rightarrow> string \<Rightarrow> string option"
  lc_do :: "localRequest \<Rightarrow> local_answer option"

definition exceedsText :: "int \<Rightarrow> string" where
  "exceedsText limit = ''local response body exceeds '' @ showInt limit @ '' bytes''"

text \<open>\<open>io.ReadAll (io.LimitReader body n)\<close>: the limited reader ends after \<open>n\<close> bytes.\<close>

fun readAllLimited :: "int \<Rightarrow> bytes \<Rightarrow> (bytes \<times> agent_end option) list \<Rightarrow> (string + bytes) option" where
  "readAllLimited n data reads =
     (if n \<le> 0 then Some (Inr data)
      else case reads of
             [] \<Rightarrow> None
           | (chunk, e) # rest \<Rightarrow>
               if n < int (length chunk) then Some (Inr (data @ take (nat n) chunk))
               else case e of
                      Some AgentEOF \<Rightarrow> Some (Inr (data @ chunk))
                    | Some (AgentReadErr err) \<Rightarrow> Some (Inl err)
                    | None \<Rightarrow> readAllLimited (n - int (length chunk)) (data @ chunk) rest)"

declare readAllLimited.simps [simp del]

definition readLimitedResponseBody :: "(bytes \<times> agent_end option) list \<Rightarrow> int \<Rightarrow> (string + bytes) option" where
  "readLimitedResponseBody body limit0 =
     (let limit = (if limit0 \<le> 0 then defaultMaxResponseBodyBytes else limit0) in
      case readAllLimited (wrap64 (limit + 1)) [] body of
        None \<Rightarrow> None
      | Some (Inl err) \<Rightarrow> Some (Inl err)
      | Some (Inr data) \<Rightarrow> Some (if int (length data) > limit then Inl (exceedsText limit) else Inr data))"

text \<open>\<open>st\<close> is the state that \<open>writeChunk\<close> changes.\<close>

fun streamLoop ::
  "(bytes \<Rightarrow> 's \<Rightarrow> string option \<times> 's) \<Rightarrow> int \<Rightarrow> int \<Rightarrow> 's \<Rightarrow> (bytes \<times> agent_end option) list
     \<Rightarrow> (int \<times> string option \<times> 's) option" where
  "streamLoop writeChunk limit sofar st [] = None"
| "streamLoop writeChunk limit sofar st ((chunk, readErr) # reads) =
     (let sofar' = sofar + int (length chunk) in
      if chunk \<noteq> [] \<and> sofar' > limit then Some (sofar', Some (exceedsText limit), st)
      else case (if chunk \<noteq> [] then writeChunk chunk st else (None, st)) of
             (Some err, st') \<Rightarrow> Some (sofar', Some err, st')
           | (None, st') \<Rightarrow>
               (case readErr of
                  Some AgentEOF \<Rightarrow> Some (sofar', None, st')
                | Some (AgentReadErr err) \<Rightarrow> Some (sofar', Some err, st')
                | None \<Rightarrow> streamLoop writeChunk limit sofar' st' reads))"

definition streamLimitedResponseBody ::
  "(bytes \<times> agent_end option) list \<Rightarrow> int \<Rightarrow> (bytes \<Rightarrow> 's \<Rightarrow> string option \<times> 's) \<Rightarrow> 's
     \<Rightarrow> (int \<times> string option \<times> 's) option" where
  "streamLimitedResponseBody body limit writeChunk st =
     streamLoop writeChunk (if limit \<le> 0 then defaultMaxResponseBodyBytes else limit) 0 st body"

definition ForwardHTTPRequest ::
  "urls \<Rightarrow> localClient \<Rightarrow> string \<Rightarrow> Request \<Rightarrow> int \<Rightarrow> (string + Response) option" where
  "ForwardHTTPRequest u client localTarget req maxResponseBodyBytes =
     (case buildLocalURL u localTarget (req_Path req) (req_Query req) of
        Inl err \<Rightarrow> Some (Inl err)
      | Inr targetURL \<Rightarrow>
          (case lc_newRequest client (req_Method req) targetURL of
             Some err \<Rightarrow> Some (Inl (''build local request: '' @ err))
           | None \<Rightarrow>
               (case lc_do client \<lparr>lr_Method = req_Method req, lr_URL = targetURL,
                       lr_Header = StripHopByHopHeaders (req_Header req), lr_ContentLength = int (length (req_Body req)),
                       lr_Body = req_Body req, lr_BodyEnd = BodyEOF\<rparr> of
                  None \<Rightarrow> None
                | Some (LocalFailed err) \<Rightarrow> Some (Inl (''call local service: '' @ err))
                | Some (LocalResponse status header body) \<Rightarrow>
                    (case readLimitedResponseBody body maxResponseBodyBytes of
                       None \<Rightarrow> None
                     | Some (Inl err) \<Rightarrow> Some (Inl (''read local response: '' @ err))
                     | Some (Inr data) \<Rightarrow>
                         Some (Inr \<lparr>resp_Status = status, resp_Header = StripHopByHopHeaders header, resp_Body = data\<rparr>)))))"

text \<open>\<open>body\<close> is what the transport reads of the request body and how the body ends.\<close>

definition ForwardHTTPStream ::
  "urls \<Rightarrow> localClient \<Rightarrow> string \<Rightarrow> RequestStart \<Rightarrow> bytes \<times> body_end \<Rightarrow> int
     \<Rightarrow> (ResponseStart \<Rightarrow> 's \<Rightarrow> string option \<times> 's) \<Rightarrow> (bytes \<Rightarrow> 's \<Rightarrow> string option \<times> 's) \<Rightarrow> 's
     \<Rightarrow> (int \<times> int \<times> string option \<times> 's) option" where
  "ForwardHTTPStream u client localTarget req body maxResponseBodyBytes writeResponseStart writeResponseBody st =
     (case buildLocalURL u localTarget (rs_Path req) (rs_Query req) of
        Inl err \<Rightarrow> Some (0, 0, Some err, st)
      | Inr targetURL \<Rightarrow>
          (case lc_newRequest client (rs_Method req) targetURL of
             Some err \<Rightarrow> Some (0, 0, Some (''build local request: '' @ err), st)
           | None \<Rightarrow>
               (case lc_do client \<lparr>lr_Method = rs_Method req, lr_URL = targetURL,
                       lr_Header = StripHopByHopHeaders (rs_Header req),
                       lr_ContentLength = (if rs_ContentLength req > 0 then rs_ContentLength req else 0),
                       lr_Body = fst body, lr_BodyEnd = snd body\<rparr> of
                  None \<Rightarrow> None
                | Some (LocalFailed err) \<Rightarrow> Some (0, 0, Some (''call local service: '' @ err), st)
                | Some (LocalResponse status header reads) \<Rightarrow>
                    (case writeResponseStart \<lparr>rst_Status = status, rst_Header = StripHopByHopHeaders header\<rparr> st of
                       (Some err, st1) \<Rightarrow> Some (status, 0, Some err, st1)
                     | (None, st1) \<Rightarrow>
                         (case streamLimitedResponseBody reads maxResponseBodyBytes writeResponseBody st1 of
                            None \<Rightarrow> None
                          | Some (n, Some err, st2) \<Rightarrow> Some (status, n, Some (''read local response: '' @ err), st2)
                          | Some (n, None, st2) \<Rightarrow> Some (status, n, None, st2))))))"

section \<open>The body of a request\<close>

datatype requestBodyChunk = BodyData bytes | BodyFinished

datatype chunk_event = ChunkReceived requestBodyChunk | ChunksCanceled string

text \<open>
  The goroutine of \<open>requestBodyFromChunks\<close>, which copies chunks into a pipe.  \<open>taken i\<close> tells whether
  the transport reads the \<open>i\<close>-th chunk that is written to the pipe or has closed the pipe.
\<close>

fun copyChunks :: "(nat \<Rightarrow> bool) \<Rightarrow> nat \<Rightarrow> bytes \<Rightarrow> int \<Rightarrow> chunk_event list \<Rightarrow> (bytes \<times> body_end) \<times> int" where
  "copyChunks taken i body requestBytes [] = ((body, BodyOpen), requestBytes)"
| "copyChunks taken i body requestBytes (ChunksCanceled err # evs) = ((body, BodyFailed err), requestBytes)"
| "copyChunks taken i body requestBytes (ChunkReceived BodyFinished # evs) = ((body, BodyEOF), requestBytes)"
| "copyChunks taken i body requestBytes (ChunkReceived (BodyData data) # evs) =
     (if data = [] then copyChunks taken i body requestBytes evs
      else if taken i then copyChunks taken (Suc i) (body @ data) (requestBytes + int (length data)) evs
      else ((body, BodyClosed), requestBytes + int (length data)))"

definition requestBodyFromChunks :: "(nat \<Rightarrow> bool) \<Rightarrow> chunk_event list \<Rightarrow> (bytes \<times> body_end) \<times> int" where
  "requestBodyFromChunks taken chunks = copyChunks taken 0 [] 0 chunks"

section \<open>What the agent prints and logs\<close>

definition writeRequestOutputFields :: "string \<Rightarrow> string \<Rightarrow> string \<Rightarrow> int \<Rightarrow> duration \<Rightarrow> string option \<Rightarrow> string" where
  "writeRequestOutputFields method path query status d err =
     (case err of
        Some e \<Rightarrow> method @ '' '' @ requestDisplayPath path query @ '' -> error '' @ showInt (Milliseconds d) @ ''ms: '' @ e @ [CHR 0x0A]
      | None \<Rightarrow> method @ '' '' @ requestDisplayPath path query @ '' -> '' @ showInt status @ '' '' @ showInt (Milliseconds d)
                @ ''ms'' @ [CHR 0x0A])"

datatype log_level = LevelInfo | LevelWarn

record local_log =
  ll_level :: log_level
  ll_stream_id :: string
  ll_tunnel_id :: string
  ll_method :: string
  ll_path :: string
  ll_status :: int
  ll_outcome :: string
  ll_request_bytes :: int
  ll_response_bytes :: int
  ll_duration_ms :: int
  ll_error :: "string option"

definition logLocalRequestFields ::
  "string \<Rightarrow> string \<Rightarrow> string \<Rightarrow> string \<Rightarrow> string \<Rightarrow> int \<Rightarrow> string \<Rightarrow> int \<Rightarrow> int \<Rightarrow> duration \<Rightarrow> string option \<Rightarrow> local_log" where
  "logLocalRequestFields streamID tunnelID method path query status outcome requestBytes responseBytes d err =
     \<lparr>ll_level = (if err \<noteq> None \<or> status \<ge> 500 then LevelWarn else LevelInfo),
      ll_stream_id = streamID, ll_tunnel_id = tunnelID, ll_method = method, ll_path = requestDisplayPath path query,
      ll_status = status, ll_outcome = outcome, ll_request_bytes = requestBytes, ll_response_bytes = responseBytes,
      ll_duration_ms = Milliseconds d, ll_error = err\<rparr>"

section \<open>The handlers\<close>

text \<open>
  \<open>se_ctxErr\<close> is \<open>ctx.Err()\<close> of the stream when the local request has failed, \<open>se_printed\<close> and
  \<open>se_logged\<close> are the values of \<open>time.Since(started)\<close>, and \<open>se_partial\<close> is what \<open>json.Unmarshal\<close> leaves
  of a request that it cannot decode.
\<close>

record stream_env =
  se_wire :: agent_wire
  se_url :: urls
  se_client :: localClient
  se_ctxErr :: "string option"
  se_printed :: duration
  se_logged :: duration
  se_partial :: Request

record handled =
  hd_err :: "string option"
  hd_sent :: "sent list"
  hd_printed :: "string list"
  hd_log :: local_log

definition streamErrorEnvelope :: "agent_wire \<Rightarrow> string \<Rightarrow> string \<Rightarrow> string \<Rightarrow> msg_error + Envelope" where
  "streamErrorEnvelope w streamID tunnelID err =
     NewStream (aw_json w) TypeHTTPStreamError streamID tunnelID
       (PError \<lparr>ep_Code = ''local_request_failed'', ep_Message = err\<rparr>)"

definition handleHTTPRequest :: "stream_env \<Rightarrow> AgentConfig \<Rightarrow> string \<Rightarrow> Envelope \<Rightarrow> handled option" where
  "handleHTTPRequest E cfg tunnelID env =
     (let w = se_wire E; js = aw_json w; sid = env_StreamID env;
          finish = (\<lambda>req status outcome responseBytes err out printed.
            Some \<lparr>hd_err = err, hd_sent = out, hd_printed = printed,
                  hd_log = logLocalRequestFields sid tunnelID (req_Method req) (req_Path req) (req_Query req) status outcome
                    (int (length (req_Body req))) responseBytes (se_logged E) err\<rparr>);
          line = (\<lambda>req status err. writeRequestOutputFields (req_Method req) (req_Path req) (req_Query req) status (se_printed E) err)
      in case DecodePayload (unRequest js) env of
           Inl e \<Rightarrow> finish (if e = PayloadRequired then \<lparr>req_Method = [], req_Path = [], req_Query = [], req_Header = Map.empty, req_Body = []\<rparr>
                            else se_partial E) 0 ''decode_failed'' 0 (Some (msgErrorText (aw_jsonText w) e)) [] []
         | Inr req \<Rightarrow>
             (case ForwardHTTPRequest (se_url E) (se_client E) (ac_LocalTarget cfg) req (ac_MaxResponseBodyBytes cfg) of
                None \<Rightarrow> None
              | Some (Inl err) \<Rightarrow>
                  (case se_ctxErr E of
                     Some c \<Rightarrow> finish req 0 ''stream_canceled'' 0 (Some c) [] [line req 0 (Some c)]
                   | None \<Rightarrow>
                       (case streamErrorEnvelope w sid tunnelID err of
                          Inl e \<Rightarrow> finish req 0 ''stream_error_build_failed'' 0 (Some (msgErrorText (aw_jsonText w) e)) [] []
                        | Inr streamErr \<Rightarrow>
                            (case agentWrite w [] streamErr of
                               (Some we, out) \<Rightarrow> finish req 0 ''stream_error_write_failed'' 0 (Some (''write stream error: '' @ we)) out []
                             | (None, out) \<Rightarrow> finish req 0 ''local_request_failed'' 0 (Some err) out [line req 0 (Some err)])))
              | Some (Inr resp) \<Rightarrow>
                  let status = resp_Status resp; responseBytes = int (length (resp_Body resp)) in
                  (case NewStream js TypeHTTPResponse sid tunnelID (PResponse resp) of
                     Inl e \<Rightarrow> finish req status ''response_build_failed'' responseBytes (Some (msgErrorText (aw_jsonText w) e)) [] []
                   | Inr response \<Rightarrow>
                       (case agentWrite w [] response of
                          (Some we, out) \<Rightarrow>
                            finish req status ''response_write_failed'' responseBytes (Some (''write http response: '' @ we)) out []
                        | (None, out) \<Rightarrow> finish req status ''completed'' responseBytes None out [line req status None]))))"

definition writeResponseStart ::
  "agent_wire \<Rightarrow> string \<Rightarrow> string \<Rightarrow> ResponseStart \<Rightarrow> sent list \<Rightarrow> string option \<times> sent list" where
  "writeResponseStart w streamID tunnelID resp out =
     (case NewStream (aw_json w) TypeHTTPResponseStart streamID tunnelID
             (PResponseStart (resp\<lparr>rst_Status := statusOr502 (rst_Status resp)\<rparr>)) of
        Inl e \<Rightarrow> (Some (msgErrorText (aw_jsonText w) e), out)
      | Inr start \<Rightarrow> agentWrite w out start)"

definition handleHTTPStream ::
  "stream_env \<Rightarrow> AgentConfig \<Rightarrow> string \<Rightarrow> Envelope \<Rightarrow> RequestStart \<Rightarrow> (nat \<Rightarrow> bool) \<Rightarrow> chunk_event list \<Rightarrow> handled option" where
  "handleHTTPStream E cfg tunnelID env req taken chunks =
     (let w = se_wire E; js = aw_json w; sid = env_StreamID env;
          (body, requestBytes) = requestBodyFromChunks taken chunks;
          finish = (\<lambda>status outcome responseBytes err out printed.
            Some \<lparr>hd_err = err, hd_sent = out, hd_printed = printed,
                  hd_log = logLocalRequestFields sid tunnelID (rs_Method req) (rs_Path req) (rs_Query req) status outcome
                    requestBytes responseBytes (se_logged E) err\<rparr>);
          line = (\<lambda>status err. writeRequestOutputFields (rs_Method req) (rs_Path req) (rs_Query req) status (se_printed E) err)
      in case ForwardHTTPStream (se_url E) (se_client E) (ac_LocalTarget cfg) req body (ac_MaxResponseBodyBytes cfg)
                (writeResponseStart w sid tunnelID)
                (\<lambda>chunk out. agentWriteBinaryBody w out TypeHTTPResponseBody sid tunnelID chunk) [] of
           None \<Rightarrow> None
         | Some (status, responseBytes, Some err, out) \<Rightarrow>
             (case se_ctxErr E of
                Some c \<Rightarrow> finish status ''stream_canceled'' responseBytes (Some c) out [line 0 (Some c)]
              | None \<Rightarrow>
                  (case streamErrorEnvelope w sid tunnelID err of
                     Inl e \<Rightarrow> finish status ''stream_error_build_failed'' responseBytes (Some (msgErrorText (aw_jsonText w) e)) out []
                   | Inr streamErr \<Rightarrow>
                       (case agentWrite w out streamErr of
                          (Some we, out1) \<Rightarrow>
                            finish status ''stream_error_write_failed'' responseBytes (Some (''write stream error: '' @ we)) out1 []
                        | (None, out1) \<Rightarrow> finish status ''local_request_failed'' responseBytes (Some err) out1 [line 0 (Some err)])))
         | Some (status, responseBytes, None, out) \<Rightarrow>
             (case NewStream js TypeHTTPResponseEnd sid tunnelID PNil of
                Inl e \<Rightarrow> finish status ''response_end_build_failed'' responseBytes (Some (msgErrorText (aw_jsonText w) e)) out []
              | Inr end0 \<Rightarrow>
                  (case agentWrite w out end0 of
                     (Some we, out1) \<Rightarrow>
                       finish status ''response_end_write_failed'' responseBytes (Some (''write response end: '' @ we)) out1 []
                   | (None, out1) \<Rightarrow> finish status ''completed'' responseBytes None out1 [line status None])))"

text \<open>A local service that answers every request with the two bytes \<open>ok\<close>.\<close>

definition okEnv :: stream_env where
  "okEnv =
     \<lparr>se_wire = \<lparr>aw_json = demoJSON, aw_jsonText = [], aw_write = (\<lambda>i. None)\<rparr>,
      se_url = \<lparr>urlParse = (\<lambda>s. Inr \<lparr>url_Scheme = ''http'', url_Host = s, url_Path = [], url_RawQuery = [], url_Fragment = [],
                  url_User = []\<rparr>), urlString = url_Host, PathUnescape = Some\<rparr>,
      se_client = \<lparr>lc_newRequest = (\<lambda>m u. None), lc_do = (\<lambda>r. Some (LocalResponse 200 Map.empty [(''ok'', Some AgentEOF)]))\<rparr>,
      se_ctxErr = None, se_printed = 0, se_logged = 0,
      se_partial = \<lparr>req_Method = [], req_Path = [], req_Query = [], req_Header = Map.empty, req_Body = []\<rparr>\<rparr>"

text \<open>The local service answers every request, with a body that ends or fails.\<close>

definition answersAll :: "localClient \<Rightarrow> bool" where
  "answersAll client \<longleftrightarrow>
     (\<forall>r. case lc_do client r of
            None \<Rightarrow> False
          | Some (LocalFailed err) \<Rightarrow> True
          | Some (LocalResponse status header reads) \<Rightarrow> \<exists>x \<in> set reads. snd x \<noteq> None)"

section \<open>Lemmas\<close>

lemma streamLoop_returns: "\<exists>x \<in> set reads. snd x \<noteq> None \<Longrightarrow> streamLoop wc limit n st reads \<noteq> None"
proof (induction reads arbitrary: n st)
  case (Cons rd reads)
  obtain c e where "rd = (c, e)" by (cases rd)
  with Cons show ?case
    by (cases e) (auto simp: Let_def split: prod.splits option.splits agent_end.splits)
qed simp

lemma agentWriteBinaryBody_bytes:
  "agentWriteBinaryBody w out t sid tid c = (e, out') \<Longrightarrow> length (bodyBytes out') \<le> length (bodyBytes out) + length c"
  by (auto simp: agentWriteBinaryBody_def bodyBytes_def split: sum.splits)

lemma streamLoop_bounded:
  assumes "streamLoop (\<lambda>c out. agentWriteBinaryBody w out t sid tid c) limit n out reads = Some (k, e, out')" "n \<le> limit"
  shows "int (length (bodyBytes out')) + n \<le> int (length (bodyBytes out)) + limit"
  using assms
proof (induction reads arbitrary: n out)
  case (Cons rd reads)
  obtain c readErr where rd: "rd = (c, readErr)" by (cases rd)
  show ?case
  proof (cases "c \<noteq> [] \<and> n + int (length c) > limit")
    case True
    with Cons.prems rd show ?thesis by (simp add: Let_def)
  next
    case False
    then have small: "n + int (length c) \<le> limit" using Cons.prems(2) by auto
    obtain err out1 where w: "(if c \<noteq> [] then agentWriteBinaryBody w out t sid tid c else (None, out)) = (err, out1)" by fastforce
    have grown: "int (length (bodyBytes out1)) \<le> int (length (bodyBytes out)) + int (length c)"
      using w agentWriteBinaryBody_bytes [of w out t sid tid c] by (auto split: if_splits)
    show ?thesis
    proof (cases "err = None \<and> readErr = None")
      case True
      with Cons.prems(1) rd w False have "streamLoop (\<lambda>c out. agentWriteBinaryBody w out t sid tid c) limit (n + int (length c)) out1 reads
          = Some (k, e, out')" by (simp add: Let_def)
      from Cons.IH [OF this small] grown show ?thesis by linarith
    next
      case other: False
      with Cons.prems(1) rd w False have "out' = out1"
        by (auto simp: Let_def split: option.splits agent_end.splits)
      with grown small show ?thesis by simp
    qed
  qed
qed simp

lemma bodyBytes_agentWrite [simp]: "bodyBytes (snd (agentWrite w out env)) = bodyBytes out"
  by (auto simp: agentWrite_def split: sum.splits)

lemma writeResponseStart_bytes: "writeResponseStart w sid tid resp out = (e, out') \<Longrightarrow> bodyBytes out' = bodyBytes out"
  by (auto simp: writeResponseStart_def split: sum.splits dest: arg_cong [of _ _ "\<lambda>p. bodyBytes (snd p)"])

lemma ForwardHTTPStream_returns:
  assumes "answersAll client"
  shows "\<exists>status n err out. ForwardHTTPStream u client target req body mx (writeResponseStart w sid tid)
      (\<lambda>chunk out. agentWriteBinaryBody w out TypeHTTPResponseBody sid tid chunk) [] = Some (status, n, err, out) \<and>
    int (length (bodyBytes out)) \<le> (if mx \<le> 0 then defaultMaxResponseBodyBytes else mx)"
proof -
  define limit where "limit = (if mx \<le> 0 then defaultMaxResponseBodyBytes else mx)"
  have limit: "0 \<le> limit" by (simp add: limit_def defaultMaxResponseBodyBytes_def)
  define call where "call url = \<lparr>lr_Method = rs_Method req, lr_URL = url, lr_Header = StripHopByHopHeaders (rs_Header req),
    lr_ContentLength = (if rs_ContentLength req > 0 then rs_ContentLength req else 0), lr_Body = fst body, lr_BodyEnd = snd body\<rparr>" for url
  have stream: "\<exists>n err out'. streamLimitedResponseBody reads mx (\<lambda>chunk out. agentWriteBinaryBody w out TypeHTTPResponseBody sid tid chunk) out
      = Some (n, err, out') \<and> int (length (bodyBytes out')) \<le> int (length (bodyBytes out)) + limit"
    if ends: "\<exists>x \<in> set reads. snd x \<noteq> None" for reads out
  proof -
    obtain n err out' where "streamLimitedResponseBody reads mx (\<lambda>chunk out. agentWriteBinaryBody w out TypeHTTPResponseBody sid tid chunk) out
        = Some (n, err, out')"
      using streamLoop_returns [OF ends] unfolding streamLimitedResponseBody_def by (metis not_None_eq prod_cases3)
    with streamLoop_bounded [of w TypeHTTPResponseBody sid tid limit 0 out reads n err out'] limit show ?thesis
      by (auto simp: streamLimitedResponseBody_def limit_def)
  qed
  show ?thesis
  proof (cases "buildLocalURL u target (rs_Path req) (rs_Query req)")
    case (Inl e)
    then show ?thesis using limit by (simp add: ForwardHTTPStream_def limit_def)
  next
    case (Inr url)
    show ?thesis
    proof (cases "\<exists>status header reads. lc_newRequest client (rs_Method req) url = None \<and> lc_do client (call url) = Some (LocalResponse status header reads)")
      case True
      then obtain status header reads where c: "lc_newRequest client (rs_Method req) url = None"
          "lc_do client (call url) = Some (LocalResponse status header reads)" by blast
      then have reads: "\<exists>x \<in> set reads. snd x \<noteq> None"
        using assms unfolding answersAll_def by (force dest: spec [of _ "call url"])
      obtain e out1 where ws: "writeResponseStart w sid tid \<lparr>rst_Status = status, rst_Header = StripHopByHopHeaders header\<rparr> [] = (e, out1)"
        by fastforce
      note none = writeResponseStart_bytes [OF ws]
      show ?thesis
      proof (cases e)
        case None
        with stream [OF reads, of out1] Inr c ws none show ?thesis
          by (fastforce simp: ForwardHTTPStream_def call_def limit_def split: option.splits)
      qed (use Inr c ws none limit in \<open>simp add: ForwardHTTPStream_def call_def limit_def\<close>)
    next
      case False
      have "lc_do client (call url) \<noteq> None" using assms by (cases "lc_do client (call url)") (auto simp: answersAll_def dest: spec [of _ "call url"])
      with False Inr limit show ?thesis
        by (cases "lc_newRequest client (rs_Method req) url"; cases "the (lc_do client (call url))")
           (auto simp: ForwardHTTPStream_def call_def limit_def)
    qed
  qed
qed

section \<open>Properties\<close>

text \<open>
  C40: The handler of a stream terminates: when the local service answers and the body of its response ends
  or fails, \<open>handleHTTPStream\<close> returns, however the chunks of the request arrive and whatever becomes of its
  writes to the gateway, and it has sent at most \<open>MaxResponseBodyBytes\<close> bytes of the response body.
\<close>

theorem stream_handler_returns:
  assumes "answersAll (se_client E)" "0 < ac_MaxResponseBodyBytes cfg"
  shows "\<exists>h. handleHTTPStream E cfg tid env req tk chunks = Some h \<and>
    int (length (bodyBytes (hd_sent h))) \<le> ac_MaxResponseBodyBytes cfg"
proof -
  obtain body requestBytes where rb: "requestBodyFromChunks tk chunks = (body, requestBytes)" by fastforce
  obtain status n err out where f: "ForwardHTTPStream (se_url E) (se_client E) (ac_LocalTarget cfg) req body (ac_MaxResponseBodyBytes cfg)
      (writeResponseStart (se_wire E) (env_StreamID env) tid)
      (\<lambda>chunk out. agentWriteBinaryBody (se_wire E) out TypeHTTPResponseBody (env_StreamID env) tid chunk) [] = Some (status, n, err, out)"
      "int (length (bodyBytes out)) \<le> ac_MaxResponseBodyBytes cfg"
    using ForwardHTTPStream_returns [OF assms(1)] assms(2) by (metis not_le)
  have keep: "agentWrite (se_wire E) out m = (e, out1) \<Longrightarrow> bodyBytes out1 = bodyBytes out" for m e out1
    by (metis bodyBytes_agentWrite snd_conv)
  show ?thesis
    using f by (cases err) (auto simp: handleHTTPStream_def Let_def rb dest: keep split: option.splits sum.splits prod.splits)
qed

theorem stream_handler_returns_witness:
  "\<exists>h. handleHTTPStream okEnv (normalizeAgentConfig \<lparr>ac_ServerURL = [], ac_Token = [], ac_RequestedSubdomain = [], ac_Port = 0,
       ac_LocalTarget = ''http://127.0.0.1:3000'', ac_AgentVersion = [], ac_HandshakeTimeout = 0, ac_RequestTimeout = 0,
       ac_MaxResponseBodyBytes = 16, ac_WSMessageMaxBytes = 0, ac_StreamChunkBytes = 0, ac_WebSocketWriteTimeout = 0,
       ac_WebSocketPingInterval = 0, ac_WebSocketPongTimeout = 0, ac_ReconnectInitialDelay = 0, ac_ReconnectMaxDelay = 0,
       ac_ReconnectJitter = 0, ac_CACertFile = [], ac_ConnectAddr = []\<rparr>) ''tun_1'' (msg_Envelope (demoMessage TypeHTTPRequestStart))
     demoStart (\<lambda>i. True) [] = Some h \<and> int (length (bodyBytes (hd_sent h))) \<le> 16"
proof -
  let ?cfg = "normalizeAgentConfig \<lparr>ac_ServerURL = [], ac_Token = [], ac_RequestedSubdomain = [], ac_Port = 0,
       ac_LocalTarget = ''http://127.0.0.1:3000'', ac_AgentVersion = [], ac_HandshakeTimeout = 0, ac_RequestTimeout = 0,
       ac_MaxResponseBodyBytes = 16, ac_WSMessageMaxBytes = 0, ac_StreamChunkBytes = 0, ac_WebSocketWriteTimeout = 0,
       ac_WebSocketPingInterval = 0, ac_WebSocketPongTimeout = 0, ac_ReconnectInitialDelay = 0, ac_ReconnectMaxDelay = 0,
       ac_ReconnectJitter = 0, ac_CACertFile = [], ac_ConnectAddr = []\<rparr>"
  have "ac_MaxResponseBodyBytes ?cfg = 16" by (simp add: normalizeAgentConfig_def Let_def ifNotPositive_def)
  moreover have "answersAll (se_client okEnv)" by (simp add: answersAll_def okEnv_def)
  ultimately show ?thesis using stream_handler_returns [of okEnv ?cfg] by simp
qed

end
