(* ===== verification/AgentWS.thy ===== *)
theory AgentWS
  imports AgentForward
begin

text \<open>
  The WebSocket side of the agent (\<open>wsforward.go\<close>): \<open>handleWSStream\<close> dials the local service and the two
  pumps of \<open>relayWSStream\<close> copy messages between it and the gateway.

  As on the side of the gateway, the two pumps run interleaved, and a run is the list of the events they
  receive.  \<open>LocalRead\<close> and \<open>LocalFail\<close> are results of \<open>localConn.Read\<close> (the latter with the close status,
  \<^term>\<open>None\<close> for -1, and the text of the error), \<open>GatewayMsg\<close> is a message of the channel \<open>inbound\<close> with the
  result of writing it to the local service, \<open>GatewayCtx\<close> is the branch \<open>ctx.Done()\<close>, \<open>StreamCtx\<close> the end of
  the context of the stream, and \<open>RelayCanceled\<close> the call of \<open>cancelRelay\<close> after the first result.
\<close>

section \<open>Events and state\<close>

datatype agent_event =
    LocalRead ws_kind bytes
  | LocalFail "int option" string
  | GatewayMsg Message "string option"
  | GatewayGone
  | GatewayCtx
  | StreamCtx string
  | RelayCanceled

datatype local_frame = LocalFrame ws_kind bytes | LocalClose int string

datatype agent_pump = PumpRuns | PumpReturned "string option"

record agent_relay =
  al_up :: agent_pump
  al_down :: agent_pump
  al_first :: "string option option"
  al_ctx :: "string option"
  al_localToGateway :: int
  al_gatewayToLocal :: int
  al_sent :: "sent list"
  al_local :: "local_frame list"

definition initAgentRelay :: "sent list \<Rightarrow> agent_relay" where
  "initAgentRelay out =
     \<lparr>al_up = PumpRuns, al_down = PumpRuns, al_first = None, al_ctx = None, al_localToGateway = 0, al_gatewayToLocal = 0,
      al_sent = out, al_local = []\<rparr>"

text \<open>A pump returns: the first result is kept.  After it \<open>cancelRelay\<close> ends the context of the relay.\<close>

definition pumpResult :: "string option \<Rightarrow> agent_relay \<Rightarrow> agent_relay" where
  "pumpResult e st = st\<lparr>al_first := (case al_first st of None \<Rightarrow> Some e | Some f \<Rightarrow> Some f)\<rparr>"

definition endAgentRelay :: "string \<Rightarrow> agent_relay \<Rightarrow> agent_relay" where
  "endAgentRelay c st = st\<lparr>al_ctx := (case al_ctx st of None \<Rightarrow> Some c | Some c0 \<Rightarrow> Some c0)\<rparr>"

definition cancelAgentRelay :: "agent_relay \<Rightarrow> agent_relay" where
  "cancelAgentRelay st = (if al_first st = None then st else endAgentRelay ''context canceled'' st)"

definition upDone :: "string option \<Rightarrow> agent_relay \<Rightarrow> agent_relay" where
  "upDone e st = pumpResult e (st\<lparr>al_up := PumpReturned e\<rparr>)"

definition downDone :: "string option \<Rightarrow> agent_relay \<Rightarrow> agent_relay" where
  "downDone e st = pumpResult e (st\<lparr>al_down := PumpReturned e\<rparr>)"

section \<open>The pumps\<close>

definition closeOrCancelForLocalReadError ::
  "agent_wire \<Rightarrow> string \<Rightarrow> string \<Rightarrow> int option \<Rightarrow> string \<Rightarrow> sent list \<Rightarrow> string option \<times> sent list" where
  "closeOrCancelForLocalReadError w tunnelID streamID closeStatus err out =
     (case closeStatus of
        Some status \<Rightarrow>
          (None, case NewStream (aw_json w) TypeWSClose streamID tunnelID (PWSClose \<lparr>wc_Code = status, wc_Reason = []\<rparr>) of
                   Inl e \<Rightarrow> out
                 | Inr closeEnv \<Rightarrow> snd (agentWrite w out closeEnv))
      | None \<Rightarrow>
          (Some err, case NewStream (aw_json w) TypeWSCancel streamID tunnelID
                            (PStreamCancel \<lparr>sc_Reason = ''local websocket connection failed''\<rparr>) of
                       Inl e \<Rightarrow> out
                     | Inr cancelEnv \<Rightarrow> snd (agentWrite w out cancelEnv)))"

definition pumpLocalToGateway ::
  "agent_wire \<Rightarrow> string \<Rightarrow> string \<Rightarrow> agent_event \<Rightarrow> agent_relay \<Rightarrow> agent_relay" where
  "pumpLocalToGateway w tunnelID streamID ev st =
     (if al_up st \<noteq> PumpRuns then st
      else case ev of
             LocalFail closeStatus err \<Rightarrow>
               (case al_ctx st of
                  Some done \<Rightarrow> upDone (Some done) st
                | None \<Rightarrow>
                    (case closeOrCancelForLocalReadError w tunnelID streamID closeStatus err (al_sent st) of
                       (e, out) \<Rightarrow> upDone e (st\<lparr>al_sent := out\<rparr>)))
           | LocalRead kind data \<Rightarrow>
               let frameType = (if kind = MessageText then TypeWSMessageText else TypeWSMessageBinary);
                   st1 = st\<lparr>al_localToGateway := al_localToGateway st + int (length data)\<rparr>
               in (case agentWriteBinaryBody w (al_sent st) frameType streamID tunnelID data of
                     (Some sendErr, out) \<Rightarrow> upDone (Some sendErr) (st1\<lparr>al_sent := out\<rparr>)
                   | (None, out) \<Rightarrow> st1\<lparr>al_sent := out\<rparr>)
           | _ \<Rightarrow> st)"

definition pumpGatewayToLocal :: "agent_wire \<Rightarrow> agent_event \<Rightarrow> agent_relay \<Rightarrow> agent_relay" where
  "pumpGatewayToLocal w ev st =
     (if al_down st \<noteq> PumpRuns then st
      else case ev of
             GatewayCtx \<Rightarrow> (case al_ctx st of Some done \<Rightarrow> downDone (Some done) st | None \<Rightarrow> st)
           | GatewayGone \<Rightarrow> downDone (Some ''gateway stream closed'') st
           | GatewayMsg m writeErr \<Rightarrow>
               let env = msg_Envelope m in
               if env_Type env = TypeWSMessageText \<or> env_Type env = TypeWSMessageBinary then
                 let wsType = (if env_Type env = TypeWSMessageText then MessageText else MessageBinary);
                     st1 = st\<lparr>al_gatewayToLocal := al_gatewayToLocal st + int (length (msg_Body m)),
                              al_local := al_local st @ [LocalFrame wsType (msg_Body m)]\<rparr>
                 in (case writeErr of Some e \<Rightarrow> downDone (Some e) st1 | None \<Rightarrow> st1)
               else if env_Type env = TypeWSClose then
                 (case DecodePayload (unWSClose (aw_json w)) env of
                    Inl e \<Rightarrow> downDone (Some (msgErrorText (aw_jsonText w) e)) st
                  | Inr p \<Rightarrow> downDone None (st\<lparr>al_local := al_local st @ [LocalClose (wc_Code p) (wc_Reason p)]\<rparr>))
               else if env_Type env = TypeWSCancel then
                 downDone (Some (''gateway canceled the websocket stream: '' @
                   (case DecodePayload (unStreamCancel (aw_json w)) env of Inl e \<Rightarrow> [] | Inr p \<Rightarrow> sc_Reason p))) st
               else downDone (Some (''unexpected websocket relay message '' @ typeName (env_Type env))) st
           | _ \<Rightarrow> st)"

section \<open>The relay\<close>

definition agentRelayStep :: "agent_wire \<Rightarrow> string \<Rightarrow> string \<Rightarrow> agent_event \<Rightarrow> agent_relay \<Rightarrow> agent_relay" where
  "agentRelayStep w tunnelID streamID ev st =
     (case ev of
        StreamCtx c \<Rightarrow> endAgentRelay c st
      | RelayCanceled \<Rightarrow> cancelAgentRelay st
      | _ \<Rightarrow> pumpGatewayToLocal w ev (pumpLocalToGateway w tunnelID streamID ev st))"

definition agentRelayOutcome :: "string option \<Rightarrow> string option \<Rightarrow> string option" where
  "agentRelayOutcome first second = (if first = None \<or> second = None then None else first)"

text \<open>\<^term>\<open>None\<close> while a pump is still running.\<close>

definition relayWSStream ::
  "agent_wire \<Rightarrow> string \<Rightarrow> string \<Rightarrow> sent list \<Rightarrow> agent_event list
     \<Rightarrow> (int \<times> int \<times> string option \<times> sent list \<times> local_frame list) option" where
  "relayWSStream w tunnelID streamID out evs =
     (let st = fold (agentRelayStep w tunnelID streamID) evs (initAgentRelay out) in
      case (al_up st, al_down st, al_first st) of
        (PumpReturned a, PumpReturned b, Some first) \<Rightarrow>
          Some (al_localToGateway st, al_gatewayToLocal st, agentRelayOutcome first (if first = a then b else a), al_sent st, al_local st)
      | _ \<Rightarrow> None)"

definition sendWSError :: "agent_wire \<Rightarrow> string \<Rightarrow> string \<Rightarrow> string \<Rightarrow> string \<Rightarrow> sent list \<Rightarrow> sent list" where
  "sendWSError w tunnelID streamID code message out =
     (case NewStream (aw_json w) TypeWSError streamID tunnelID (PError \<lparr>ep_Code = code, ep_Message = message\<rparr>) of
        Inl e \<Rightarrow> out
      | Inr env \<Rightarrow> snd (agentWrite w out env))"

definition writeWSOutput :: "string \<Rightarrow> string \<Rightarrow> duration \<Rightarrow> string option \<Rightarrow> string" where
  "writeWSOutput path query d err =
     (case err of
        Some e \<Rightarrow> ''WS '' @ requestDisplayPath path query @ '' -> error '' @ showInt (Milliseconds d) @ ''ms: '' @ e @ [CHR 0x0A]
      | None \<Rightarrow> ''WS '' @ requestDisplayPath path query @ '' -> completed '' @ showInt (Milliseconds d) @ ''ms'' @ [CHR 0x0A])"

definition logWSStream ::
  "string \<Rightarrow> string \<Rightarrow> string \<Rightarrow> string \<Rightarrow> int \<Rightarrow> int \<Rightarrow> duration \<Rightarrow> string option \<Rightarrow> local_log \<times> string" where
  "logWSStream streamID tunnelID path query requestBytes responseBytes d err =
     (let outcome = (if err \<noteq> None then ''local_websocket_failed'' else ''completed'') in
      (logLocalRequestFields streamID tunnelID ''WS'' path query 0 outcome requestBytes responseBytes d err,
       writeWSOutput path query d err))"

record ws_handled =
  wh_sent :: "sent list"
  wh_local :: "local_frame list"
  wh_printed :: "string list"
  wh_log :: "local_log option"

text \<open>\<open>dial\<close> is \<open>websocket.Dial\<close>: an error, or the subprotocol of the connection.\<close>

definition handleWSStream ::
  "agent_wire \<Rightarrow> urls \<Rightarrow> (string \<Rightarrow> http_header \<Rightarrow> string list \<Rightarrow> (string + string) option) \<Rightarrow> duration \<Rightarrow> AgentConfig
     \<Rightarrow> string \<Rightarrow> Envelope \<Rightarrow> WSOpen \<Rightarrow> agent_event list \<Rightarrow> ws_handled option" where
  "handleWSStream w u dial d cfg tunnelID env opn evs =
     (let sid = env_StreamID env; path = wo_Path opn; query = wo_Query opn in
      case buildLocalWSURL u (ac_LocalTarget cfg) path query of
        Inl err \<Rightarrow>
          Some \<lparr>wh_sent = sendWSError w tunnelID sid ''invalid_local_target'' err [], wh_local = [],
                wh_printed = [writeWSOutput path query d (Some err)], wh_log = None\<rparr>
      | Inr localURL \<Rightarrow>
          (case dial localURL (wo_Header opn) (wo_Subprotocols opn) of
             None \<Rightarrow> None
           | Some (Inl dialErr) \<Rightarrow>
               Some \<lparr>wh_sent = sendWSError w tunnelID sid ''local_dial_failed'' (''dial local websocket endpoint: '' @ dialErr) [],
                     wh_local = [], wh_printed = [writeWSOutput path query d (Some dialErr)], wh_log = None\<rparr>
           | Some (Inr subprotocol) \<Rightarrow>
               (case NewStream (aw_json w) TypeWSAccept sid tunnelID (PWSAccept \<lparr>wa_Subprotocol = subprotocol\<rparr>) of
                  Inl e \<Rightarrow> Some \<lparr>wh_sent = [], wh_local = [], wh_printed = [], wh_log = None\<rparr>
                | Inr accept \<Rightarrow>
                    (case agentWrite w [] accept of
                       (Some we, out) \<Rightarrow> Some \<lparr>wh_sent = out, wh_local = [], wh_printed = [], wh_log = None\<rparr>
                     | (None, out) \<Rightarrow>
                         (case relayWSStream w tunnelID sid out evs of
                            None \<Rightarrow> None
                          | Some (requestBytes, responseBytes, relayErr, out1, local) \<Rightarrow>
                              (case logWSStream sid tunnelID path query requestBytes responseBytes d relayErr of
                                 (entry, line) \<Rightarrow>
                                   Some \<lparr>wh_sent = out1, wh_local = local, wh_printed = [line], wh_log = Some entry\<rparr>))))))"

end
