(* ===== verification/AgentStreams.thy ===== *)
theory AgentStreams
  imports AgentWS "HOL-Library.Sublist"
begin

text \<open>
  The read loop of the agent (\<open>serve\<close> of \<open>runner.go\<close>) and the table of its active streams, with the
  interleaving of the loop and the goroutines of the streams: one rule of \<open>serve_step\<close> per atomic step.
  Streams are objects with a number, as the code has pointers; the table maps stream ids to them.
  \<open>ag_in\<close> and \<open>ag_got\<close> are history: the messages that the loop has looked up a stream for, and what the
  goroutine of the stream, or the one that \<open>requestBodyFromChunks\<close> has started for it and that can outlive
  it, has taken out of its channel.
\<close>

section \<open>Streams\<close>

record activeStream =
  at_chunks :: "requestBodyChunk list option"
  at_wsInbound :: "Message list option"
  at_canceled :: bool
  at_done :: bool

definition newActiveStream :: "requestBodyChunk list option \<Rightarrow> activeStream" where
  "newActiveStream chunks = \<lparr>at_chunks = chunks, at_wsInbound = None, at_canceled = False, at_done = False\<rparr>"

definition newActiveWSStream :: activeStream where
  "newActiveWSStream = \<lparr>at_chunks = None, at_wsInbound = Some [], at_canceled = False, at_done = False\<rparr>"

text \<open>The goroutines that the loop starts, with what they are given.\<close>

datatype goroutine =
    RunHTTPRequest Envelope
  | RunHTTPStream Envelope RequestStart
  | RunWSStream Envelope WSOpen

fun goEnvelope :: "goroutine \<Rightarrow> Envelope" where
  "goEnvelope (RunHTTPRequest env) = env"
| "goEnvelope (RunHTTPStream env req) = env"
| "goEnvelope (RunWSStream env opn) = env"

datatype serve_loop = ServeReading | SendingChunk nat requestBodyChunk | SendingMessage nat Message | ServeReturned "string option"

record agent_state =
  ag_objects :: "nat \<rightharpoonup> activeStream"
  ag_started :: "nat \<rightharpoonup> goroutine"
  ag_table :: "string \<rightharpoonup> nat"
  ag_running :: "nat set"
  ag_ctxDone :: bool
  ag_loop :: serve_loop
  ag_sent :: "sent list"
  ag_in :: "nat \<Rightarrow> Message list"
  ag_got :: "nat \<Rightarrow> (requestBodyChunk + Message) list"

definition initAgent :: agent_state where
  "initAgent = \<lparr>ag_objects = Map.empty, ag_started = Map.empty, ag_table = Map.empty, ag_running = {}, ag_ctxDone = False,
     ag_loop = ServeReading, ag_sent = [], ag_in = (\<lambda>h. []), ag_got = (\<lambda>h. [])\<rparr>"

definition closeStreamDone :: "nat \<Rightarrow> agent_state \<Rightarrow> agent_state" where
  "closeStreamDone h s = s\<lparr>ag_objects := (ag_objects s)(h := map_option (at_done_update (\<lambda>d. True)) (ag_objects s h))\<rparr>"

definition cancelContext :: "nat \<Rightarrow> agent_state \<Rightarrow> agent_state" where
  "cancelContext h s = s\<lparr>ag_objects := (ag_objects s)(h := map_option (at_canceled_update (\<lambda>c. True)) (ag_objects s h))\<rparr>"

definition addActiveStream :: "string \<Rightarrow> nat \<Rightarrow> agent_state \<Rightarrow> agent_state" where
  "addActiveStream streamID h s = (if streamID = [] then s else s\<lparr>ag_table := (ag_table s)(streamID \<mapsto> h)\<rparr>)"

definition cancelActiveStream :: "string \<Rightarrow> agent_state \<Rightarrow> bool \<times> agent_state" where
  "cancelActiveStream streamID s =
     (case ag_table s streamID of
        None \<Rightarrow> (False, s)
      | Some h \<Rightarrow> (True, closeStreamDone h (cancelContext h s)))"

text \<open>
  The lookup of \<open>deliverActiveStreamChunk\<close> and \<open>deliverActiveStreamMessage\<close>; the loop then stands at their
  \<open>select\<close>.  An unknown stream is only logged.
\<close>

definition deliverActiveStreamChunk :: "string \<Rightarrow> requestBodyChunk \<Rightarrow> Message \<Rightarrow> agent_state \<Rightarrow> agent_state" where
  "deliverActiveStreamChunk streamID chunk m s =
     (case ag_table s streamID of
        None \<Rightarrow> s
      | Some h \<Rightarrow>
          (case ag_objects s h of
             Some a \<Rightarrow> if at_chunks a = None then s
                       else s\<lparr>ag_loop := SendingChunk h chunk, ag_in := (ag_in s)(h := ag_in s h @ [m])\<rparr>
           | None \<Rightarrow> s))"

definition deliverActiveStreamMessage :: "string \<Rightarrow> Message \<Rightarrow> agent_state \<Rightarrow> agent_state" where
  "deliverActiveStreamMessage streamID m s =
     (case ag_table s streamID of
        None \<Rightarrow> s
      | Some h \<Rightarrow>
          (case ag_objects s h of
             Some a \<Rightarrow> if at_wsInbound a = None then s
                       else s\<lparr>ag_loop := SendingMessage h m, ag_in := (ag_in s)(h := ag_in s h @ [m])\<rparr>
           | None \<Rightarrow> s))"

definition removeActiveStream :: "string \<Rightarrow> agent_state \<Rightarrow> agent_state" where
  "removeActiveStream streamID s =
     (if streamID = [] then s
      else case ag_table s streamID of
             None \<Rightarrow> s
           | Some h \<Rightarrow> (closeStreamDone h s)\<lparr>ag_table := (ag_table s)(streamID := None)\<rparr>)"

section \<open>The read loop\<close>

definition startGoroutine :: "nat \<Rightarrow> activeStream \<Rightarrow> goroutine \<Rightarrow> agent_state \<Rightarrow> agent_state" where
  "startGoroutine h a g s =
     (let s1 = s\<lparr>ag_objects := (ag_objects s)(h \<mapsto> a), ag_started := (ag_started s)(h \<mapsto> g), ag_running := insert h (ag_running s)\<rparr>
      in addActiveStream (env_StreamID (goEnvelope g)) h s1)"

text \<open>The data of a request body message: of a binary frame, or of a JSON payload.\<close>

definition requestBodyData :: "json \<Rightarrow> Message \<Rightarrow> msg_error + bytes" where
  "requestBodyData js m =
     (if msg_BinaryBody m then Inr (msg_Body m)
      else case DecodePayload (unBodyChunk js) (msg_Envelope m) of Inl e \<Rightarrow> Inl e | Inr p \<Rightarrow> Inr (bc_Data p))"

text \<open>One round of the loop for the message \<open>m\<close>; \<open>h\<close> is the address of the stream it may allocate.\<close>

definition serveMessage :: "agent_wire \<Rightarrow> AgentConfig \<Rightarrow> nat \<Rightarrow> Message \<Rightarrow> agent_state \<Rightarrow> agent_state" where
  "serveMessage w cfg h m s =
     (let env = msg_Envelope m; js = aw_json w; sid = env_StreamID env in
      case env_Type env of
        TypeHTTPRequest \<Rightarrow> startGoroutine h (newActiveStream None) (RunHTTPRequest env) s
      | TypeHTTPRequestStart \<Rightarrow>
          (case DecodePayload (unRequestStart js) env of
             Inl e \<Rightarrow> s
           | Inr req \<Rightarrow> startGoroutine h (newActiveStream (Some [])) (RunHTTPStream env req) s)
      | TypeHTTPRequestBody \<Rightarrow>
          (case requestBodyData js m of
             Inl e \<Rightarrow> s
           | Inr data \<Rightarrow>
               if int (length data) > ac_StreamChunkBytes cfg then snd (cancelActiveStream sid s)
               else deliverActiveStreamChunk sid (BodyData data) m s)
      | TypeHTTPRequestEnd \<Rightarrow> deliverActiveStreamChunk sid BodyFinished m s
      | TypeHTTPStreamCancel \<Rightarrow>
          (case DecodePayload (unStreamCancel js) env of
             Inl e \<Rightarrow> s
           | Inr payload \<Rightarrow> snd (cancelActiveStream sid s))
      | TypeWSOpen \<Rightarrow>
          (case DecodePayload (unWSOpen js) env of
             Inl e \<Rightarrow> s
           | Inr opn \<Rightarrow> startGoroutine h newActiveWSStream (RunWSStream env opn) s)
      | TypeWSMessageText \<Rightarrow> deliverActiveStreamMessage sid m s
      | TypeWSMessageBinary \<Rightarrow> deliverActiveStreamMessage sid m s
      | TypeWSClose \<Rightarrow> deliverActiveStreamMessage sid m s
      | TypeWSCancel \<Rightarrow> deliverActiveStreamMessage sid m s
      | TypePing \<Rightarrow>
          (case NewEnvelope js TypePong PNil of
             Inl e \<Rightarrow> s\<lparr>ag_loop := ServeReturned (Some (msgErrorText (aw_jsonText w) e))\<rparr>
           | Inr pong \<Rightarrow>
               (case agentWrite w (ag_sent s) pong of
                  (Some err, out) \<Rightarrow> s\<lparr>ag_loop := ServeReturned (Some (''write pong: '' @ err)), ag_sent := out\<rparr>
                | (None, out) \<Rightarrow> s\<lparr>ag_sent := out\<rparr>))
      | _ \<Rightarrow> s)"

text \<open>What \<open>serve\<close> returns when \<open>wswire.Read\<close> fails; 1000 is \<open>websocket.StatusNormalClosure\<close>.\<close>

definition serveReadError :: "bool \<Rightarrow> int option \<Rightarrow> string \<Rightarrow> string option" where
  "serveReadError ctxDone closeStatus err =
     (if ctxDone then None else if closeStatus = Some 1000 then None else Some (''read gateway message: '' @ err))"

section \<open>Interleaving\<close>

definition chunkCapacity :: nat where
  "chunkCapacity = 32"

definition agentWSPendingBuffer :: nat where
  "agentWSPendingBuffer = 64"

definition setObject :: "nat \<Rightarrow> activeStream \<Rightarrow> agent_state \<Rightarrow> agent_state" where
  "setObject h a s = s\<lparr>ag_objects := (ag_objects s)(h \<mapsto> a)\<rparr>"

definition taken :: "nat \<Rightarrow> requestBodyChunk + Message \<Rightarrow> agent_state \<Rightarrow> agent_state" where
  "taken h x s = s\<lparr>ag_got := (ag_got s)(h := ag_got s h @ [x])\<rparr>"

inductive serve_step :: "agent_wire \<Rightarrow> AgentConfig \<Rightarrow> agent_state \<Rightarrow> agent_state \<Rightarrow> bool" for w cfg where
  loop_serves: "ag_loop s = ServeReading \<Longrightarrow> ag_objects s h = None \<Longrightarrow> serve_step w cfg s (serveMessage w cfg h m s)"
| loop_sends_chunk: "ag_loop s = SendingChunk h c \<Longrightarrow> ag_objects s h = Some a \<Longrightarrow> at_chunks a = Some q \<Longrightarrow>
     length q < chunkCapacity \<Longrightarrow>
     serve_step w cfg s ((setObject h (a\<lparr>at_chunks := Some (q @ [c])\<rparr>) s)\<lparr>ag_loop := ServeReading\<rparr>)"
| loop_sends_message: "ag_loop s = SendingMessage h m \<Longrightarrow> ag_objects s h = Some a \<Longrightarrow> at_wsInbound a = Some q \<Longrightarrow>
     length q < agentWSPendingBuffer \<Longrightarrow>
     serve_step w cfg s ((setObject h (a\<lparr>at_wsInbound := Some (q @ [m])\<rparr>) s)\<lparr>ag_loop := ServeReading\<rparr>)"
| loop_gives_up: "ag_loop s = SendingChunk h c \<or> ag_loop s = SendingMessage h m \<Longrightarrow> ag_objects s h = Some a \<Longrightarrow>
     at_done a \<or> ag_ctxDone s \<Longrightarrow> serve_step w cfg s (s\<lparr>ag_loop := ServeReading\<rparr>)"
| loop_fails: "ag_loop s = ServeReading \<Longrightarrow>
     serve_step w cfg s (s\<lparr>ag_loop := ServeReturned (serveReadError (ag_ctxDone s) closeStatus err)\<rparr>)"
| takes_chunk: "ag_objects s h = Some a \<Longrightarrow> at_chunks a = Some (c # q) \<Longrightarrow>
     serve_step w cfg s (taken h (Inl c) (setObject h (a\<lparr>at_chunks := Some q\<rparr>) s))"
| takes_message: "h \<in> ag_running s \<Longrightarrow> ag_objects s h = Some a \<Longrightarrow> at_wsInbound a = Some (m # q) \<Longrightarrow>
     serve_step w cfg s (taken h (Inr m) (setObject h (a\<lparr>at_wsInbound := Some q\<rparr>) s))"
| goroutine_ends: "h \<in> ag_running s \<Longrightarrow> ag_started s h = Some g \<Longrightarrow>
     serve_step w cfg s
       ((removeActiveStream (env_StreamID (goEnvelope g)) (cancelContext h s))\<lparr>ag_running := ag_running s - {h}\<rparr>)"
| context_ends: "serve_step w cfg s (s\<lparr>ag_ctxDone := True\<rparr>)"

text \<open>What the stream of a message is handed for it.\<close>

definition itemOf :: "json \<Rightarrow> Message \<Rightarrow> requestBodyChunk + Message" where
  "itemOf js m =
     (case env_Type (msg_Envelope m) of
        TypeHTTPRequestBody \<Rightarrow> Inl (BodyData (case requestBodyData js m of Inl e \<Rightarrow> [] | Inr data \<Rightarrow> data))
      | TypeHTTPRequestEnd \<Rightarrow> Inl BodyFinished
      | _ \<Rightarrow> Inr m)"

definition queued :: "agent_state \<Rightarrow> nat \<Rightarrow> (requestBodyChunk + Message) list" where
  "queued s h =
     (case ag_objects s h of
        None \<Rightarrow> []
      | Some a \<Rightarrow> (case at_chunks a of Some q \<Rightarrow> map Inl q | None \<Rightarrow> []) @ (case at_wsInbound a of Some q \<Rightarrow> map Inr q | None \<Rightarrow> []))"

definition sending :: "agent_state \<Rightarrow> nat \<Rightarrow> (requestBodyChunk + Message) list" where
  "sending s h =
     (case ag_loop s of
        SendingChunk k c \<Rightarrow> if k = h then [Inl c] else []
      | SendingMessage k m \<Rightarrow> if k = h then [Inr m] else []
      | _ \<Rightarrow> [])"

definition streamDone :: "agent_state \<Rightarrow> nat \<Rightarrow> bool" where
  "streamDone s h \<longleftrightarrow> (case ag_objects s h of None \<Rightarrow> False | Some a \<Rightarrow> at_done a)"

text \<open>The stream that the loop is waiting for.\<close>

definition waitsFor :: "agent_state \<Rightarrow> nat option" where
  "waitsFor s = (case ag_loop s of SendingChunk h c \<Rightarrow> Some h | SendingMessage h m \<Rightarrow> Some h | _ \<Rightarrow> None)"

definition table_inv :: "agent_state \<Rightarrow> bool" where
  "table_inv s \<longleftrightarrow>
     (\<forall>sid h. ag_table s sid = Some h \<longrightarrow> 
        h \<in> ag_running s \<and> (\<exists>g. ag_started s h = Some g \<and> env_StreamID (goEnvelope g) = sid \<and> sid \<noteq> [])) \<and>
     (\<forall>h. ag_started s h = None \<longleftrightarrow> ag_objects s h = None) \<and>
     (\<forall>h. ag_started s h = None \<longrightarrow> h \<notin> ag_running s \<and> ag_in s h = [] \<and> ag_got s h = []) \<and>
     (\<forall>h a. ag_objects s h = Some a \<longrightarrow> at_chunks a = None \<or> at_wsInbound a = None)"

definition waiting_inv :: "agent_state \<Rightarrow> bool" where
  "waiting_inv s \<longleftrightarrow>
     (\<forall>h. waitsFor s = Some h \<longrightarrow>
        (\<exists>g a. ag_started s h = Some g \<and> ag_objects s h = Some a \<and>
           (at_done a \<or> h \<in> ag_running s \<and> ag_table s (env_StreamID (goEnvelope g)) = Some h) \<and>
           (case ag_loop s of SendingChunk k c \<Rightarrow> at_chunks a \<noteq> None | _ \<Rightarrow> at_wsInbound a \<noteq> None)))"

definition fifo_inv :: "json \<Rightarrow> agent_state \<Rightarrow> nat \<Rightarrow> bool" where
  "fifo_inv js s h \<longleftrightarrow>
     subseq (ag_got s h @ queued s h @ sending s h) (map (itemOf js) (ag_in s h)) \<and>
     (\<not> streamDone s h \<and> \<not> ag_ctxDone s \<longrightarrow> ag_got s h @ queued s h @ sending s h = map (itemOf js) (ag_in s h)) \<and>
     (\<forall>m \<in> set (ag_in s h). \<exists>g. ag_started s h = Some g \<and> env_StreamID (msg_Envelope m) = env_StreamID (goEnvelope g))"

text \<open>A stream of one chunk, from its first message to the moment its goroutine has taken the chunk.\<close>

definition oneJSON :: json where
  "oneJSON =
     \<lparr>marshal = (\<lambda>p. Some ''{}''), unAuthRequest = (\<lambda>b. None), unAuthOK = (\<lambda>b. None), unError = (\<lambda>b. None),
      unTunnelRegister = (\<lambda>b. None), unTunnelRegistered = (\<lambda>b. None), unStreamCancel = (\<lambda>b. Some \<lparr>sc_Reason = []\<rparr>),
      unRequest = (\<lambda>b. None),
      unRequestStart = (\<lambda>b. Some \<lparr>rs_Method = ''POST'', rs_Path = ''/'', rs_Query = [], rs_Header = Map.empty, rs_ContentLength = 2\<rparr>),
      unResponse = (\<lambda>b. None), unResponseStart = (\<lambda>b. None), unBodyChunk = (\<lambda>b. None), unWSOpen = (\<lambda>b. None),
      unWSAccept = (\<lambda>b. None), unWSClose = (\<lambda>b. None), marshalEnvelope = (\<lambda>e. Some ''{}''), unEnvelope = (\<lambda>b. None)\<rparr>"

definition oneWire :: agent_wire where
  "oneWire = \<lparr>aw_json = oneJSON, aw_jsonText = [], aw_write = (\<lambda>i. None)\<rparr>"

definition oneMessage :: "msg_type \<Rightarrow> Message" where
  "oneMessage t =
     \<lparr>msg_Envelope = \<lparr>env_Type = t, env_StreamID = ''str_1'', env_TunnelID = ''tun_1'', env_Payload = ''{}''\<rparr>,
      msg_Body = ''hi'', msg_BinaryBody = True\<rparr>"

definition oneConfig :: AgentConfig where
  "oneConfig = \<lparr>ac_ServerURL = defaultServerURL, ac_Token = defaultToken, ac_RequestedSubdomain = [], ac_Port = 3000,
     ac_LocalTarget = ''http://127.0.0.1:3000'', ac_AgentVersion = [], ac_HandshakeTimeout = agentDefaultHandshakeTimeout,
     ac_RequestTimeout = defaultRequestTimeout, ac_MaxResponseBodyBytes = defaultMaxResponseBodyBytes,
     ac_WSMessageMaxBytes = agentDefaultWSMessageMaxBytes, ac_StreamChunkBytes = agentDefaultStreamChunkBytes,
     ac_WebSocketWriteTimeout = agentDefaultWriteTimeout, ac_WebSocketPingInterval = agentDefaultPingInterval,
     ac_WebSocketPongTimeout = agentDefaultPongTimeout, ac_ReconnectInitialDelay = defaultReconnectInitialDelay,
     ac_ReconnectMaxDelay = defaultReconnectMaxDelay, ac_ReconnectJitter = defaultReconnectJitter, ac_CACertFile = [], ac_ConnectAddr = []\<rparr>"

definition oneSending :: agent_state where
  "oneSending = serveMessage oneWire oneConfig 1 (oneMessage TypeHTTPRequestBody)
     (serveMessage oneWire oneConfig 0 (oneMessage TypeHTTPRequestStart) initAgent)"

definition oneTaken :: agent_state where
  "oneTaken = taken 0 (Inl (BodyData ''hi''))
     (setObject 0 (newActiveStream (Some [])) ((setObject 0 (newActiveStream (Some [BodyData ''hi''])) oneSending)\<lparr>ag_loop := ServeReading\<rparr>))"

section \<open>Lemmas\<close>

lemmas agent_ops =
  closeStreamDone_def cancelContext_def addActiveStream_def cancelActiveStream_def deliverActiveStreamChunk_def
  deliverActiveStreamMessage_def removeActiveStream_def startGoroutine_def setObject_def taken_def

lemmas stream_views = queued_def sending_def streamDone_def waitsFor_def

text \<open>What one round of the loop does, apart from the messages it sends itself.\<close>

lemma serveMessage_elim:
  obtains (quiet) l out where "serveMessage w cfg h m s = s\<lparr>ag_loop := l, ag_sent := out\<rparr>" "l = ag_loop s \<or> (\<exists>e. l = ServeReturned e)"
  | (starts) a g where "serveMessage w cfg h m s = startGoroutine h a g s"
      "a = newActiveStream None \<or> a = newActiveStream (Some []) \<or> a = newActiveWSStream"
  | (cancels) "serveMessage w cfg h m s = snd (cancelActiveStream (env_StreamID (msg_Envelope m)) s)"
  | (chunk) c where "serveMessage w cfg h m s = deliverActiveStreamChunk (env_StreamID (msg_Envelope m)) c m s"
      "itemOf (aw_json w) m = Inl c"
  | (message) "serveMessage w cfg h m s = deliverActiveStreamMessage (env_StreamID (msg_Envelope m)) m s"
      "itemOf (aw_json w) m = Inr m"
proof (cases "env_Type (msg_Envelope m)")
  case TypeHTTPRequest
  then show ?thesis using starts by (simp add: serveMessage_def Let_def)
next
  case TypeHTTPRequestStart
  then show ?thesis using starts quiet [of "ag_sent s" "ag_loop s"]
    by (cases "DecodePayload (unRequestStart (aw_json w)) (msg_Envelope m)") (simp_all add: serveMessage_def Let_def)
next
  case TypeHTTPRequestBody
  show ?thesis
  proof (cases "requestBodyData (aw_json w) m")
    case (Inr data)
    then show ?thesis using TypeHTTPRequestBody cancels chunk [of "BodyData data"]
      by (cases "ac_StreamChunkBytes cfg < int (length data)") (simp_all add: serveMessage_def Let_def itemOf_def)
  qed (use TypeHTTPRequestBody quiet [of "ag_sent s" "ag_loop s"] in \<open>simp add: serveMessage_def Let_def\<close>)
next
  case TypeHTTPRequestEnd
  then show ?thesis using chunk by (simp add: serveMessage_def Let_def itemOf_def)
next
  case TypeHTTPStreamCancel
  then show ?thesis using cancels quiet [of "ag_sent s" "ag_loop s"]
    by (cases "DecodePayload (unStreamCancel (aw_json w)) (msg_Envelope m)") (simp_all add: serveMessage_def Let_def)
next
  case TypeWSOpen
  then show ?thesis using starts quiet [of "ag_sent s" "ag_loop s"]
    by (cases "DecodePayload (unWSOpen (aw_json w)) (msg_Envelope m)") (simp_all add: serveMessage_def Let_def)
next
  case TypePing
  show ?thesis
  proof (cases "NewEnvelope (aw_json w) TypePong PNil")
    case (Inl e)
    then show ?thesis using TypePing quiet [of "ag_sent s" "ServeReturned (Some (msgErrorText (aw_jsonText w) e))"]
      by (simp add: serveMessage_def Let_def)
  next
    case (Inr pong)
    obtain e out where "agentWrite w (ag_sent s) pong = (e, out)" by (cases "agentWrite w (ag_sent s) pong")
    then show ?thesis
      using TypePing Inr quiet [of out "ag_loop s"] quiet [of out "ServeReturned (Some (''write pong: '' @ the e))"]
      by (cases e) (simp_all add: serveMessage_def Let_def)
  qed
qed (use message quiet [of "ag_sent s" "ag_loop s"] in \<open>simp_all add: serveMessage_def Let_def itemOf_def\<close>)

lemma table_invD:
  assumes "table_inv s" "ag_table s sid = Some h"
  obtains g a where "h \<in> ag_running s" "ag_started s h = Some g" "env_StreamID (goEnvelope g) = sid" "sid \<noteq> []" "ag_objects s h = Some a"
  using assms unfolding table_inv_def by (metis not_None_eq)

lemma table_shape:
  assumes "table_inv s" "ag_objects s h = Some a"
  shows "at_chunks a = Some q \<Longrightarrow> at_wsInbound a = None" "at_wsInbound a = Some r \<Longrightarrow> at_chunks a = None"
  using assms unfolding table_inv_def by (metis option.distinct(1))+

lemma table_inv_step:
  assumes "serve_step w cfg s t" "table_inv s"
  shows "table_inv t"
  using assms
proof (induction rule: serve_step.induct)
  case (loop_serves s h m)
  have fresh: "ag_started s h = None" using loop_serves by (simp add: table_inv_def)
  show ?case
  proof (cases rule: serveMessage_elim [of w cfg h m s])
    case (starts a g)
    have "ag_table s sid \<noteq> Some h" for sid using loop_serves(3) fresh by (auto simp: table_inv_def)
    with starts loop_serves fresh show ?thesis
      by (auto simp: table_inv_def agent_ops Let_def newActiveStream_def newActiveWSStream_def split: if_splits)
  next
    case cancels
    show ?thesis
    proof (cases "ag_table s (env_StreamID (msg_Envelope m))")
      case (Some k)
      then obtain a where "ag_objects s k = Some a" "at_chunks a = None \<or> at_wsInbound a = None"
        using loop_serves(3) by (auto simp: table_inv_def elim: table_invD [OF loop_serves(3)])
      with Some cancels loop_serves show ?thesis by (auto simp: table_inv_def agent_ops)
    qed (use cancels loop_serves in \<open>simp add: agent_ops\<close>)
  qed (use loop_serves in \<open>auto simp: table_inv_def agent_ops split: option.splits\<close>)
next
  case (goroutine_ends h s g)
  have "sid = env_StreamID (goEnvelope g)" if "ag_table s sid = Some h" for sid
    using table_invD [OF goroutine_ends(3) that] goroutine_ends(2) by (metis option.inject)
  then have left: "ag_table s sid = Some k \<Longrightarrow> sid \<noteq> env_StreamID (goEnvelope g) \<Longrightarrow> k \<noteq> h" for sid k by blast
  have keep: "table_inv t" if "t = s\<lparr>ag_objects := obj, ag_table := tab, ag_running := ag_running s - {h}\<rparr>"
    "\<And>k. (obj k = None) = (ag_objects s k = None)" "\<And>k a. obj k = Some a \<Longrightarrow> at_chunks a = None \<or> at_wsInbound a = None"
    "\<And>sid k. tab sid = Some k \<Longrightarrow> ag_table s sid = Some k \<and> k \<noteq> h" for t obj tab
    using goroutine_ends(3) that(2-4) unfolding that(1) table_inv_def by simp blast
  have shape: "at_chunks a = None \<or> at_wsInbound a = None" if "ag_objects s k = Some a" for k a
    using goroutine_ends(3) that by (simp add: table_inv_def)
  show ?case
  proof (cases "ag_table s (env_StreamID (goEnvelope g))")
    case None
    with left have "k \<noteq> h" if "ag_table s sid = Some k" for sid k using that by (cases "sid = env_StreamID (goEnvelope g)") auto
    with None show ?thesis
      by (intro keep [where obj = "ag_objects (cancelContext h s)" and tab = "ag_table s"]) (auto simp: agent_ops dest: shape split: if_splits)
  next
    case (Some k)
    then have "env_StreamID (goEnvelope g) \<noteq> []" using table_invD [OF goroutine_ends(3)] by blast
    with Some left show ?thesis
      by (intro keep [where obj = "ag_objects (closeStreamDone k (cancelContext h s))" and tab = "(ag_table s)(env_StreamID (goEnvelope g) := None)"])
         (auto simp: agent_ops dest: shape split: if_splits)
  qed
next
  case (loop_sends_chunk s h c a q)
  note shape = table_shape(1) [OF loop_sends_chunk(5,2,3)]
  from loop_sends_chunk shape show ?case by (auto simp: table_inv_def agent_ops)
next
  case (loop_sends_message s h m a q)
  note shape = table_shape(2) [OF loop_sends_message(5,2,3)]
  from loop_sends_message shape show ?case by (auto simp: table_inv_def agent_ops)
next
  case (takes_chunk s h a c q)
  note shape = table_shape(1) [OF takes_chunk(3,1,2)]
  from takes_chunk shape show ?case by (auto simp: table_inv_def agent_ops)
next
  case (takes_message h s a m q)
  note shape = table_shape(2) [OF takes_message(4,2,3)]
  from takes_message shape show ?case by (auto simp: table_inv_def agent_ops)
qed (auto simp: table_inv_def)

lemma waiting_inv_step:
  assumes "serve_step w cfg s t" "table_inv s" "waiting_inv s"
  shows "waiting_inv t"
  using assms
proof (induction rule: serve_step.induct)
  case (loop_serves s h m)
  show ?case
  proof (cases rule: serveMessage_elim [of w cfg h m s])
    case (chunk c)
    then show ?thesis using loop_serves table_invD [OF loop_serves(3), of "env_StreamID (msg_Envelope m)"]
      by (cases "ag_table s (env_StreamID (msg_Envelope m))")
         (fastforce simp: waiting_inv_def waitsFor_def deliverActiveStreamChunk_def split: option.splits)+
  next
    case message
    then show ?thesis using loop_serves table_invD [OF loop_serves(3), of "env_StreamID (msg_Envelope m)"]
      by (cases "ag_table s (env_StreamID (msg_Envelope m))")
         (fastforce simp: waiting_inv_def waitsFor_def deliverActiveStreamMessage_def split: option.splits)+
  qed (use loop_serves in \<open>auto simp: waiting_inv_def waitsFor_def agent_ops Let_def split: option.splits\<close>)
next
  case (goroutine_ends h s g)
  show ?case
  proof (cases "waitsFor s")
    case (Some k)
    then obtain g' a where k: "ag_started s k = Some g'" "ag_objects s k = Some a"
        "at_done a \<or> k \<in> ag_running s \<and> ag_table s (env_StreamID (goEnvelope g')) = Some k"
        "case ag_loop s of SendingChunk k c \<Rightarrow> at_chunks a \<noteq> None | _ \<Rightarrow> at_wsInbound a \<noteq> None"
      using goroutine_ends(4) by (auto simp: waiting_inv_def)
    let ?sid = "env_StreamID (goEnvelope g)"
    have h: "k = h \<Longrightarrow> g' = g" using k(1) goroutine_ends(2) by simp
    show ?thesis
    proof (cases "at_done a")
      case True
      with k Some show ?thesis
        by (auto simp: waiting_inv_def waitsFor_def agent_ops split: option.splits serve_loop.splits)
    next
      case False
      then have tab: "ag_table s (env_StreamID (goEnvelope g')) = Some k" "env_StreamID (goEnvelope g') \<noteq> []"
        using k(3) table_invD [OF goroutine_ends(3)] by blast+
      have "k = h \<Longrightarrow> ag_table s ?sid = Some k" using tab h by simp
      with k Some tab False h show ?thesis
        by (cases "env_StreamID (goEnvelope g') = ?sid")
           (auto simp: waiting_inv_def waitsFor_def agent_ops split: option.splits serve_loop.splits)
    qed
  qed (use goroutine_ends in \<open>auto simp: waiting_inv_def waitsFor_def agent_ops split: option.splits\<close>)
qed (auto simp: waiting_inv_def waitsFor_def agent_ops split: serve_loop.splits)

lemma subseq_without_last: "subseq (xs @ ys @ zs) ws \<Longrightarrow> subseq (xs @ ys) ws"
  by (metis append.assoc list_emb_append2 list_emb_prefix subseq_order.order_refl subseq_order.trans)

lemma fifo_inv_cong:
  assumes "fifo_inv js s h" "ag_got t h = ag_got s h" "queued t h = queued s h" "sending t h = sending s h" "ag_in t h = ag_in s h"
    and "streamDone s h \<Longrightarrow> streamDone t h" "ag_ctxDone s \<Longrightarrow> ag_ctxDone t"
    and "\<And>g. ag_started s h = Some g \<Longrightarrow> ag_started t h = Some g"
  shows "fifo_inv js t h"
  using assms unfolding fifo_inv_def by (metis (no_types, lifting))

lemma fifo_inv_lookup:
  assumes "fifo_inv js s h" "sending s h = []" "ag_got t h = ag_got s h" "queued t h = queued s h" "sending t h = [itemOf js m]"
    and "ag_in t h = ag_in s h @ [m]" "streamDone t h = streamDone s h" "ag_ctxDone t = ag_ctxDone s" "ag_started t = ag_started s"
    and "ag_started s h = Some g" "env_StreamID (goEnvelope g) = env_StreamID (msg_Envelope m)"
  shows "fifo_inv js t h"
proof -
  have "subseq ((ag_got s h @ queued s h) @ [itemOf js m]) (map (itemOf js) (ag_in s h) @ [itemOf js m])"
    using assms(1,2) by (intro list_emb_append_mono) (simp_all add: fifo_inv_def)
  with assms show ?thesis by (auto simp: fifo_inv_def)
qed

lemma fifo_inv_step:
  assumes "serve_step w cfg s t" "table_inv s" "fifo_inv (aw_json w) s k"
  shows "fifo_inv (aw_json w) t k"
  using assms
proof (induction rule: serve_step.induct)
  case (loop_serves s h m)
  note idle = loop_serves(1)
  show ?case
  proof (cases rule: serveMessage_elim [of w cfg h m s])
    case (quiet l out)
    then show ?thesis using loop_serves
      by (intro fifo_inv_cong [OF loop_serves(4)]) (auto simp: stream_views split: serve_loop.splits)
  next
    case (starts a g)
    have fresh: "ag_started s h = None" using loop_serves(2,3) by (simp add: table_inv_def)
    then have "ag_in s h = []" "ag_got s h = []" using loop_serves(3) by (simp_all add: table_inv_def)
    with fresh starts loop_serves show ?thesis
      by (cases "k = h")
         (auto intro!: fifo_inv_cong [OF loop_serves(4)]
            simp: fifo_inv_def stream_views agent_ops Let_def newActiveStream_def newActiveWSStream_def)
  next
    case cancels
    then show ?thesis
      by (intro fifo_inv_cong [OF loop_serves(4)]) (auto simp: stream_views agent_ops split: option.splits)
  next
    case (chunk c)
    show ?thesis
    proof (cases "serveMessage w cfg h m s = s")
      case False
      then obtain j a g where j: "ag_table s (env_StreamID (msg_Envelope m)) = Some j" "ag_objects s j = Some a"
          "ag_started s j = Some g" "env_StreamID (goEnvelope g) = env_StreamID (msg_Envelope m)"
          "serveMessage w cfg h m s = s\<lparr>ag_loop := SendingChunk j c, ag_in := (ag_in s)(j := ag_in s j @ [m])\<rparr>"
        using chunk table_invD [OF loop_serves(3), of "env_StreamID (msg_Envelope m)"]
        by (fastforce simp: deliverActiveStreamChunk_def split: option.splits if_splits)
      show ?thesis
      proof (cases "k = j")
        case True
        show ?thesis unfolding True
          by (rule fifo_inv_lookup [OF loop_serves(4) [unfolded True], where g = g and m = m])
             (use j idle chunk(2) in \<open>simp_all add: stream_views\<close>)
      next
        case False
        then show ?thesis using j idle
          by (intro fifo_inv_cong [OF loop_serves(4)]) (simp_all add: stream_views)
      qed
    qed (use loop_serves in simp)
  next
    case message
    show ?thesis
    proof (cases "serveMessage w cfg h m s = s")
      case False
      then obtain j a g where j: "ag_table s (env_StreamID (msg_Envelope m)) = Some j" "ag_objects s j = Some a"
          "ag_started s j = Some g" "env_StreamID (goEnvelope g) = env_StreamID (msg_Envelope m)"
          "serveMessage w cfg h m s = s\<lparr>ag_loop := SendingMessage j m, ag_in := (ag_in s)(j := ag_in s j @ [m])\<rparr>"
        using message table_invD [OF loop_serves(3), of "env_StreamID (msg_Envelope m)"]
        by (fastforce simp: deliverActiveStreamMessage_def split: option.splits if_splits)
      show ?thesis
      proof (cases "k = j")
        case True
        show ?thesis unfolding True
          by (rule fifo_inv_lookup [OF loop_serves(4) [unfolded True], where g = g and m = m])
             (use j idle message(2) in \<open>simp_all add: stream_views\<close>)
      next
        case False
        then show ?thesis using j idle
          by (intro fifo_inv_cong [OF loop_serves(4)]) (simp_all add: stream_views)
      qed
    qed (use loop_serves in simp)
  qed
next
  case (loop_sends_chunk s h c a q)
  note shape = table_shape(1) [OF loop_sends_chunk(5,2,3)]
  from shape loop_sends_chunk show ?case by (auto simp: fifo_inv_def stream_views agent_ops)
next
  case (loop_sends_message s h m a q)
  note shape = table_shape(2) [OF loop_sends_message(5,2,3)]
  from shape loop_sends_message show ?case by (auto simp: fifo_inv_def stream_views agent_ops)
next
  case (loop_gives_up s h c m a)
  let ?t = "s\<lparr>ag_loop := ServeReading\<rparr>"
  have same: "queued ?t k = queued s k" "streamDone ?t k = streamDone s k" "sending ?t k = []" by (simp_all add: stream_views)
  show ?case
  proof (cases "k = h")
    case True
    have "streamDone s k \<or> ag_ctxDone s" using loop_gives_up(2,3) True by (simp add: stream_views)
    then show ?thesis
      using loop_gives_up(5) subseq_without_last [of "ag_got s k" "queued s k" "sending s k"] by (auto simp: fifo_inv_def same)
  next
    case False
    then have "sending s k = []" using loop_gives_up(1) by (auto simp: sending_def)
    then show ?thesis using loop_gives_up(5) same by (intro fifo_inv_cong [OF loop_gives_up(5)]) simp_all
  qed
next
  case (takes_chunk s h a c q)
  note shape = table_shape(1) [OF takes_chunk(3,1,2)]
  from shape takes_chunk show ?case by (auto simp: fifo_inv_def stream_views agent_ops)
next
  case (takes_message h s a m q)
  note shape = table_shape(2) [OF takes_message(4,2,3)]
  from shape takes_message show ?case by (auto simp: fifo_inv_def stream_views agent_ops)
next
  case (goroutine_ends h s g)
  show ?case
    by (rule fifo_inv_cong [OF goroutine_ends(4)]) (auto simp: stream_views agent_ops split: option.splits)
qed (auto simp: fifo_inv_def stream_views split: serve_loop.splits)

lemma agent_reachable_inv:
  assumes "(serve_step w cfg)\<^sup>*\<^sup>* initAgent s"
  shows "table_inv s \<and> waiting_inv s \<and> fifo_inv (aw_json w) s h"
  using assms
proof (induction rule: rtranclp_induct)
  case base
  show ?case by (simp add: table_inv_def waiting_inv_def fifo_inv_def initAgent_def stream_views)
next
  case (step s t)
  then show ?case using table_inv_step waiting_inv_step fifo_inv_step by blast
qed

lemma loop_proceeds:
  assumes "table_inv s" "waiting_inv s" "waitsFor s = Some h" "\<not> (\<exists>t. serve_step w cfg s t \<and> ag_loop t = ServeReading)"
  shows "h \<in> ag_running s \<and> \<not> streamDone s h \<and> \<not> ag_ctxDone s \<and> chunkCapacity \<le> length (queued s h)"
proof -
  from assms(2,3) obtain g a where a: "ag_objects s h = Some a" "at_done a \<or> h \<in> ag_running s"
      "case ag_loop s of SendingChunk k c \<Rightarrow> at_chunks a \<noteq> None | _ \<Rightarrow> at_wsInbound a \<noteq> None"
    by (auto simp: waiting_inv_def)
  have busy: "\<not> at_done a" "\<not> ag_ctxDone s"
    using assms(3,4) a(1) loop_gives_up [of s h] by (force simp: waitsFor_def split: serve_loop.splits)+
  have full: "chunkCapacity \<le> length (queued s h)"
  proof (cases "ag_loop s")
    case (SendingChunk k c)
    then obtain q where "at_chunks a = Some q" "k = h" using a(3) assms(3) by (auto simp: waitsFor_def)
    with SendingChunk a(1) assms(4) loop_sends_chunk [of s h c a q w cfg] show ?thesis
      by (fastforce simp: queued_def not_less [symmetric])
  next
    case (SendingMessage k m)
    then obtain q where "at_wsInbound a = Some q" "k = h" using a(3) assms(3) by (auto simp: waitsFor_def)
    with SendingMessage a(1) assms(4) loop_sends_message [of s h m a q w cfg] show ?thesis
      by (fastforce simp: queued_def chunkCapacity_def agentWSPendingBuffer_def not_less [symmetric])
  qed (use assms(3) in \<open>simp_all add: waitsFor_def\<close>)
  from a busy full show ?thesis by (auto simp: streamDone_def)
qed

section \<open>The example\<close>

lemmas one_defs = oneSending_def oneTaken_def oneMessage_def oneWire_def oneJSON_def oneConfig_def initAgent_def serveMessage_def
  requestBodyData_def DecodePayload_def agentDefaultStreamChunkBytes_def agent_ops newActiveStream_def Let_def

lemma oneSending_reached: "(serve_step oneWire oneConfig)\<^sup>*\<^sup>* initAgent oneSending"
proof -
  let ?s = "serveMessage oneWire oneConfig 0 (oneMessage TypeHTTPRequestStart) initAgent"
  have "serve_step oneWire oneConfig initAgent ?s" by (rule loop_serves) (simp_all add: initAgent_def)
  moreover have "serve_step oneWire oneConfig ?s oneSending"
    unfolding oneSending_def by (rule loop_serves) (simp_all add: one_defs)
  ultimately show ?thesis by simp
qed

lemma oneSending_waits: "waitsFor oneSending = Some 0"
  by (simp add: one_defs waitsFor_def)

lemma oneTaken_reached: "(serve_step oneWire oneConfig)\<^sup>*\<^sup>* initAgent oneTaken"
proof -
  let ?q = "(setObject 0 (newActiveStream (Some [BodyData ''hi''])) oneSending)\<lparr>ag_loop := ServeReading\<rparr>"
  have "serve_step oneWire oneConfig oneSending ?q"
    using loop_sends_chunk [of oneSending 0 "BodyData ''hi''" "newActiveStream (Some [])" "[]" oneWire oneConfig]
    by (simp add: one_defs chunkCapacity_def)
  moreover have "serve_step oneWire oneConfig ?q oneTaken"
    using takes_chunk [of ?q 0 "newActiveStream (Some [BodyData ''hi''])" "BodyData ''hi''" "[]" oneWire oneConfig]
    by (simp add: one_defs)
  ultimately show ?thesis using oneSending_reached by simp
qed

section \<open>Properties\<close>

text \<open>
  C36: Streams of the agent do not interfere.  However the read loop and the goroutines of the streams are
  interleaved, what a stream has received is, in order, what was sent for it: the chunks and messages it
  has taken, those in its channel and the one the loop is about to send are exactly the items of the
  messages that were read for it, as long as the stream is not cancelled or finished and the session has
  not ended; after that, items may be missing but never reordered or invented.  Every one of these
  messages carries the id of the stream.
\<close>

theorem agent_streams_do_not_interfere:
  assumes "(serve_step w cfg)\<^sup>*\<^sup>* initAgent s"
  shows "subseq (ag_got s h @ queued s h @ sending s h) (map (itemOf (aw_json w)) (ag_in s h)) \<and>
    (\<not> streamDone s h \<and> \<not> ag_ctxDone s \<longrightarrow> ag_got s h @ queued s h @ sending s h = map (itemOf (aw_json w)) (ag_in s h)) \<and>
    (\<forall>m \<in> set (ag_in s h). \<exists>g. ag_started s h = Some g \<and> env_StreamID (msg_Envelope m) = env_StreamID (goEnvelope g)) \<and>
    (\<forall>sid. ag_table s sid = Some h \<longrightarrow> h \<in> ag_running s \<and> (\<exists>g. ag_started s h = Some g \<and> env_StreamID (goEnvelope g) = sid))"
  using agent_reachable_inv [OF assms, of h] unfolding fifo_inv_def table_inv_def by blast

theorem agent_streams_do_not_interfere_witness:
  "ag_got oneTaken 0 = [Inl (BodyData ''hi'')] \<and> queued oneTaken 0 = [] \<and>
   ag_got oneTaken 0 @ queued oneTaken 0 @ sending oneTaken 0 = map (itemOf oneJSON) (ag_in oneTaken 0)"
proof -
  have "\<not> streamDone oneTaken 0" "\<not> ag_ctxDone oneTaken" "ag_got oneTaken 0 = [Inl (BodyData ''hi'')]" "queued oneTaken 0 = []"
    "aw_json oneWire = oneJSON"
    by (simp_all add: one_defs stream_views)
  with agent_streams_do_not_interfere [OF oneTaken_reached, of 0] show ?thesis by simp
qed

text \<open>
  C37: The read loop of the agent is never stuck on a stream that is over.  Whenever it waits for the
  channel of a stream, either it can go on at once, or the goroutine of that stream is still running, not
  cancelled, and has at least 32 items in its channel that it has not taken; when it takes one, the loop
  goes on.
\<close>

theorem agent_loop_waits_for_running_streams:
  assumes "(serve_step w cfg)\<^sup>*\<^sup>* initAgent s" "waitsFor s = Some h"
  shows "(\<exists>t. serve_step w cfg s t \<and> ag_loop t = ServeReading) \<or>
    (h \<in> ag_running s \<and> \<not> streamDone s h \<and> \<not> ag_ctxDone s \<and> chunkCapacity \<le> length (queued s h))"
  using loop_proceeds [of s h w cfg] agent_reachable_inv [OF assms(1), of h] assms(2) by blast

theorem agent_loop_waits_for_running_streams_witness:
  "waitsFor oneSending = Some 0 \<and> (\<exists>t. serve_step oneWire oneConfig oneSending t \<and> ag_loop t = ServeReading)"
proof -
  have "\<not> chunkCapacity \<le> length (queued oneSending 0)" by (simp add: one_defs stream_views chunkCapacity_def)
  with agent_loop_waits_for_running_streams [OF oneSending_reached oneSending_waits] oneSending_waits show ?thesis by blast
qed

end
