(* ===== verification/AgentRun.thy ===== *)
theory AgentRun
  imports AgentStreams
begin

text \<open>
  The connection of the agent to the gateway (\<open>runner.go\<close>): the handshake (\<open>authenticate\<close>,
  \<open>registerTunnel\<close>), one connection (\<open>runOnce\<close>), and the loop of \<open>Run\<close> that reconnects.  Errors are their
  texts, wrapped in \<open>Permanent\<close> when the code calls \<open>permanent\<close>.
\<close>

section \<open>Errors\<close>

datatype agent_error = Transient string | Permanent string

definition isPermanent :: "agent_error \<Rightarrow> bool" where
  "isPermanent e = (case e of Permanent t \<Rightarrow> True | Transient t \<Rightarrow> False)"

fun agentErrorText :: "agent_error \<Rightarrow> string" where
  "agentErrorText (Transient t) = t"
| "agentErrorText (Permanent t) = t"

definition errorPayloadMessage :: "ErrorPayload \<Rightarrow> string" where
  "errorPayloadMessage payload =
     (let message = TrimSpace (ep_Message payload) in
      if message \<noteq> [] then message
      else if ep_Code payload \<noteq> [] then ep_Code payload
      else ''unknown error'')"

definition formatAuthError :: "ErrorPayload \<Rightarrow> string" where
  "formatAuthError payload =
     (if ep_Code payload = ''invalid_token''
      then ''authentication failed: invalid token; check --token or PORTHOOK_TOKEN''
      else ''authentication failed: '' @ errorPayloadMessage payload)"

definition formatTunnelRegistrationError :: "ErrorPayload \<Rightarrow> string" where
  "formatTunnelRegistrationError payload = ''tunnel registration failed: '' @ errorPayloadMessage payload"

section \<open>The handshake\<close>

text \<open>
  \<open>hs_write i\<close> and \<open>hs_read i\<close> are the results of the \<open>i\<close>-th \<open>wsjson.Write\<close> and \<open>wsjson.Read\<close> of the
  handshake, \<open>hs_jsonText\<close> the text of an error of \<open>encoding/json\<close>, and \<open>hs_quo\<close> the verb \<open>%q\<close>.
\<close>

record handshake_env =
  hs_json :: json
  hs_jsonText :: string
  hs_quo :: "string \<Rightarrow> string"
  hs_write :: "nat \<Rightarrow> string option"
  hs_read :: "nat \<Rightarrow> string + Envelope"

definition validateAuthOK :: "(string \<Rightarrow> string) \<Rightarrow> AuthOK \<Rightarrow> string option" where
  "validateAuthOK quo payload =
     (if \<not> IsProtocolVersionSupported (ok_ProtocolVersion payload)
      then Some (''gateway protocol version '' @ quo (ok_ProtocolVersion payload) @
                 '' is not supported, minimum supported version is '' @ quo MinSupportedProtocolVersion)
      else let missing = MissingRequiredCapabilities (ok_Capabilities payload) RequiredProtocolCapabilities in
           if missing \<noteq> [] then Some (''gateway protocol is incompatible: missing capabilities: '' @ Join missing '', '')
           else None)"

definition agentAuthRequest :: "AgentConfig \<Rightarrow> AuthRequest" where
  "agentAuthRequest cfg =
     \<lparr>ar_Token = ac_Token cfg, ar_AgentVersion = ac_AgentVersion cfg, ar_ProtocolVersion = ProtocolVersion,
      ar_Capabilities = DefaultProtocolCapabilities\<rparr>"

definition agentAuthenticate :: "handshake_env \<Rightarrow> AgentConfig \<Rightarrow> agent_error option \<times> Envelope list" where
  "agentAuthenticate H cfg =
     (case NewEnvelope (hs_json H) TypeAuthRequest (PAuthRequest (agentAuthRequest cfg)) of
        Inl e \<Rightarrow> (Some (Transient (msgErrorText (hs_jsonText H) e)), [])
      | Inr auth \<Rightarrow>
          (case hs_write H 0 of
             Some err \<Rightarrow> (Some (Transient (''send auth request: '' @ err)), [auth])
           | None \<Rightarrow>
               (case hs_read H 0 of
                  Inl err \<Rightarrow> (Some (Transient (''read auth response: '' @ err)), [auth])
                | Inr resp \<Rightarrow>
                    (if env_Type resp = TypeAuthOK then
                       (case DecodePayload (unAuthOK (hs_json H)) resp of
                          Inl e \<Rightarrow> Some (Permanent (msgErrorText (hs_jsonText H) e))
                        | Inr payload \<Rightarrow> map_option Permanent (validateAuthOK (hs_quo H) payload))
                     else if env_Type resp = TypeAuthError then
                       (case DecodePayload (unError (hs_json H)) resp of
                          Inl e \<Rightarrow> Some (Permanent (msgErrorText (hs_jsonText H) e))
                        | Inr payload \<Rightarrow>
                            if ep_Code payload = ''auth_unavailable'' then Some (Transient (formatAuthError payload))
                            else Some (Permanent (formatAuthError payload)))
                     else Some (Permanent (''unexpected auth response '' @ typeName (env_Type resp))), [auth]))))"

definition agentTunnelRegister :: "AgentConfig \<Rightarrow> TunnelRegister" where
  "agentTunnelRegister cfg =
     \<lparr>tr_Protocol = ''http'', tr_LocalTarget = ac_LocalTarget cfg, tr_RequestedSubdomain = ac_RequestedSubdomain cfg\<rparr>"

definition agentRegisterTunnel :: "handshake_env \<Rightarrow> AgentConfig \<Rightarrow> (agent_error + TunnelRegistered) \<times> Envelope list" where
  "agentRegisterTunnel H cfg =
     (case NewEnvelope (hs_json H) TypeTunnelRegister (PTunnelRegister (agentTunnelRegister cfg)) of
        Inl e \<Rightarrow> (Inl (Transient (msgErrorText (hs_jsonText H) e)), [])
      | Inr registration \<Rightarrow>
          (case hs_write H 1 of
             Some err \<Rightarrow> (Inl (Transient (''send tunnel registration: '' @ err)), [registration])
           | None \<Rightarrow>
               (case hs_read H 1 of
                  Inl err \<Rightarrow> (Inl (Transient (''read tunnel registration: '' @ err)), [registration])
                | Inr resp \<Rightarrow>
                    (if env_Type resp = TypeTunnelRegistered then
                       (case DecodePayload (unTunnelRegistered (hs_json H)) resp of
                          Inl e \<Rightarrow> Inl (Transient (msgErrorText (hs_jsonText H) e))
                        | Inr payload \<Rightarrow> Inr payload)
                     else if env_Type resp = TypeTunnelError then
                       (case DecodePayload (unError (hs_json H)) resp of
                          Inl e \<Rightarrow> Inl (Permanent (msgErrorText (hs_jsonText H) e))
                        | Inr payload \<Rightarrow> Inl (Permanent (formatTunnelRegistrationError payload)))
                     else Inl (Permanent (''unexpected tunnel registration response '' @ typeName (env_Type resp))), [registration]))))"

section \<open>One connection\<close>

definition writeTunnelReadyOutput :: "AgentConfig \<Rightarrow> bool \<Rightarrow> string \<Rightarrow> string list" where
  "writeTunnelReadyOutput cfg restored publicURL =
     [(if restored then ''Tunnel restored'' else ''Tunnel established'') @ [CHR 0x0A],
      ''Forwarding: '' @ publicURL @ '' -> '' @ ac_LocalTarget cfg @ [CHR 0x0A]]"

text \<open>
  \<open>oe_dial\<close> is the error of \<open>websocket.Dial\<close>, and \<open>oe_serve\<close> what \<open>serve\<close> returns for the tunnel with the
  given id (\<open>AgentStreams\<close>).
\<close>

record once_env =
  oe_dial :: "string option"
  oe_handshake :: handshake_env
  oe_serve :: "string \<Rightarrow> string option"

definition runOnce :: "once_env \<Rightarrow> AgentConfig \<Rightarrow> string \<Rightarrow> bool \<Rightarrow> bool \<times> agent_error option \<times> string list" where
  "runOnce E cfg wsURL restored =
     (case oe_dial E of
        Some err \<Rightarrow> (False, Some (Transient (''connect to gateway '' @ wsURL @ '': '' @ err)), [])
      | None \<Rightarrow>
          (case fst (agentAuthenticate (oe_handshake E) cfg) of
             Some e \<Rightarrow> (False, Some e, [])
           | None \<Rightarrow>
               (case fst (agentRegisterTunnel (oe_handshake E) cfg) of
                  Inl e \<Rightarrow> (False, Some e, [])
                | Inr registered \<Rightarrow>
                    (True, map_option Transient (oe_serve E (td_TunnelID registered)),
                     writeTunnelReadyOutput cfg restored (td_PublicURL registered)))))"

section \<open>The loop\<close>

text \<open>
  \<open>delayText\<close> is \<open>delay.Round(time.Millisecond)\<close> as \<open>%s\<close> prints it.
\<close>

definition writeReconnectOutput :: "(duration \<Rightarrow> string) \<Rightarrow> agent_error \<Rightarrow> duration \<Rightarrow> bool \<Rightarrow> string" where
  "writeReconnectOutput delayText e delay disconnected =
     (if disconnected
      then ''Disconnected, reconnecting in '' @ delayText delay @ '': '' @ agentErrorText e @ [CHR 0x0A]
      else ''Connection failed, retrying in '' @ delayText delay @ '': '' @ agentErrorText e @ [CHR 0x0A])"

text \<open>
  One round of the loop: the connection, \<open>ctx.Err() \<noteq> nil\<close> after it, the draw of the jitter, and whether
  the context ends while \<open>waitForReconnect\<close> waits.
\<close>

record round_env =
  re_once :: once_env
  re_ctxDone :: bool
  re_draw :: "int \<Rightarrow> int option"
  re_waitCanceled :: bool

text \<open>
  \<^term>\<open>None\<close> while the loop goes on; otherwise the error it returns, if any.  The second component is
  what was printed, the third the delays it has waited for.
\<close>

fun runLoop ::
  "(duration \<Rightarrow> string) \<Rightarrow> AgentConfig \<Rightarrow> string \<Rightarrow> int \<Rightarrow> bool \<Rightarrow> string list \<Rightarrow> duration list \<Rightarrow> round_env list
     \<Rightarrow> agent_error option option \<times> string list \<times> duration list" where
  "runLoop delayText cfg wsURL attempt connectedBefore printed delays [] = (None, printed, delays)"
| "runLoop delayText cfg wsURL attempt connectedBefore printed delays (R # rounds) =
     (case runOnce (re_once R) cfg wsURL connectedBefore of
        (online, res, out) \<Rightarrow>
          let wasOnline = (online \<or> connectedBefore);
              attempt1 = (if online then 0 else attempt);
              printed1 = printed @ out
          in case res of
               None \<Rightarrow> (Some None, printed1, delays)
             | Some e \<Rightarrow>
                 if re_ctxDone R then (Some None, printed1, delays)
                 else if isPermanent e then (Some (Some e), printed1, delays)
                 else let delay = reconnectDelay attempt1 (ac_ReconnectInitialDelay cfg) (ac_ReconnectMaxDelay cfg)
                                    (ac_ReconnectJitter cfg) (Some (randomReconnectJitter (re_draw R)));
                          printed2 = printed1 @ [writeReconnectOutput delayText e delay wasOnline]
                      in if re_waitCanceled R then (Some None, printed2, delays @ [delay])
                         else runLoop delayText cfg wsURL (attempt1 + 1) wasOnline printed2 (delays @ [delay]) rounds)"

definition agentRun ::
  "(duration \<Rightarrow> string) \<Rightarrow> urls \<Rightarrow> AgentConfig \<Rightarrow> round_env list \<Rightarrow> agent_error option option \<times> string list \<times> duration list" where
  "agentRun delayText u cfg rounds =
     (case BuildWebSocketURL u (ac_ServerURL cfg) of
        Inl err \<Rightarrow> (Some (Some (Transient err)), [], [])
      | Inr wsURL \<Rightarrow> runLoop delayText cfg wsURL 0 False [] [] rounds)"

section \<open>Keepalive\<close>

text \<open>
  The goroutine of \<open>startKeepalive\<close>: each tick pings the gateway, and the first failure closes the
  connection.  \<open>pings\<close> are the results of the pings at the ticks so far; the result tells whether the
  connection was closed, with its code and reason.
\<close>

fun keepalive :: "string option list \<Rightarrow> (int \<times> string) option" where
  "keepalive [] = None"
| "keepalive (None # pings) = keepalive pings"
| "keepalive (Some err # pings) = Some (1001, ''websocket keepalive failed'')"

definition startKeepalive :: "AgentConfig \<Rightarrow> string option list \<Rightarrow> (int \<times> string) option" where
  "startKeepalive cfg pings = (if ac_WebSocketPingInterval cfg \<le> 0 then None else keepalive pings)"

text \<open>The handshake of the examples: the gateway accepts the token and then refuses the tunnel.\<close>

definition refusedTunnel :: "string \<Rightarrow> once_env" where
  "refusedTunnel code =
     \<lparr>oe_dial = None,
      oe_handshake =
        \<lparr>hs_json = oneJSON\<lparr>unAuthOK := (\<lambda>b. Some \<lparr>ok_ProtocolVersion = ProtocolVersion, ok_Capabilities = DefaultProtocolCapabilities\<rparr>),
                         unError := (\<lambda>b. Some \<lparr>ep_Code = code, ep_Message = ''refused''\<rparr>)\<rparr>,
         hs_jsonText = [], hs_quo = (\<lambda>s. s), hs_write = (\<lambda>i. None),
         hs_read = (\<lambda>i. Inr \<lparr>env_Type = (if i = 0 then TypeAuthOK else TypeTunnelError), env_StreamID = [], env_TunnelID = [],
                               env_Payload = ''{}''\<rparr>)\<rparr>,
      oe_serve = (\<lambda>tid. None)\<rparr>"

definition refusedToken :: "string \<Rightarrow> once_env" where
  "refusedToken code =
     (refusedTunnel code)\<lparr>oe_handshake := (oe_handshake (refusedTunnel code))\<lparr>hs_read :=
        (\<lambda>i. Inr \<lparr>env_Type = TypeAuthError, env_StreamID = [], env_TunnelID = [], env_Payload = ''{}''\<rparr>)\<rparr>\<rparr>"

definition demoRounds :: "round_env list" where
  "demoRounds =
     [\<lparr>re_once = (refusedTunnel [])\<lparr>oe_dial := Some ''refused''\<rparr>, re_ctxDone = False, re_draw = (\<lambda>n. if 0 < n then Some 0 else None), re_waitCanceled = False\<rparr>,
      \<lparr>re_once = refusedToken ''auth_unavailable'', re_ctxDone = False, re_draw = (\<lambda>n. if 0 < n then Some 0 else None), re_waitCanceled = False\<rparr>,
      \<lparr>re_once = refusedTunnel ''subdomain_authorization_unavailable'', re_ctxDone = False, re_draw = (\<lambda>n. if 0 < n then Some 0 else None),
       re_waitCanceled = False\<rparr>]"

definition wsURLs :: urls where
  "wsURLs = \<lparr>urlParse = (\<lambda>s. Inr \<lparr>url_Scheme = ''http'', url_Host = s, url_Path = [], url_RawQuery = [], url_Fragment = [],
     url_User = []\<rparr>), urlString = (\<lambda>u. url_Scheme u @ ''://'' @ url_Host u @ url_Path u), PathUnescape = Some\<rparr>"

section \<open>What the loop should do\<close>

text \<open>
  The outcome of a round: whether the tunnel was established, and the error.  The loop goes on exactly
  when the error is not permanent and the context lives; otherwise it returns the permanent error, or
  nothing when the connection was closed normally or the context has ended.
\<close>

definition roundOnline :: "AgentConfig \<Rightarrow> string \<Rightarrow> round_env \<Rightarrow> bool" where
  "roundOnline cfg wsURL R = fst (runOnce (re_once R) cfg wsURL False)"

definition roundError :: "AgentConfig \<Rightarrow> string \<Rightarrow> round_env \<Rightarrow> agent_error option" where
  "roundError cfg wsURL R = fst (snd (runOnce (re_once R) cfg wsURL False))"

definition waitsAfter :: "AgentConfig \<Rightarrow> string \<Rightarrow> round_env \<Rightarrow> bool" where
  "waitsAfter cfg wsURL R \<longleftrightarrow> \<not> re_ctxDone R \<and> (case roundError cfg wsURL R of None \<Rightarrow> False | Some e \<Rightarrow> \<not> isPermanent e)"

definition keepsTrying :: "AgentConfig \<Rightarrow> string \<Rightarrow> round_env \<Rightarrow> bool" where
  "keepsTrying cfg wsURL R \<longleftrightarrow> waitsAfter cfg wsURL R \<and> \<not> re_waitCanceled R"

definition roundVerdict :: "AgentConfig \<Rightarrow> string \<Rightarrow> round_env \<Rightarrow> agent_error option" where
  "roundVerdict cfg wsURL R =
     (case roundError cfg wsURL R of
        None \<Rightarrow> None
      | Some e \<Rightarrow> if isPermanent e \<and> \<not> re_ctxDone R then Some e else None)"

text \<open>The number of rounds since the last one in which the tunnel was established, or since the first round.\<close>

definition roundsOffline :: "AgentConfig \<Rightarrow> string \<Rightarrow> round_env list \<Rightarrow> nat \<Rightarrow> nat" where
  "roundsOffline cfg wsURL rounds i =
     min i (length (takeWhile (\<lambda>R. \<not> roundOnline cfg wsURL R) (rev (take (Suc i) rounds))))"

text \<open>The attempt with which the loop computes the delay after round \<open>i\<close>, when it starts with \<open>attempt\<close>.\<close>

fun attemptAt :: "AgentConfig \<Rightarrow> string \<Rightarrow> int \<Rightarrow> round_env list \<Rightarrow> nat \<Rightarrow> int" where
  "attemptAt cfg wsURL attempt [] i = attempt"
| "attemptAt cfg wsURL attempt (R # rounds) 0 = (if roundOnline cfg wsURL R then 0 else attempt)"
| "attemptAt cfg wsURL attempt (R # rounds) (Suc i) =
     attemptAt cfg wsURL ((if roundOnline cfg wsURL R then 0 else attempt) + 1) rounds i"

definition roundDelay :: "AgentConfig \<Rightarrow> int \<Rightarrow> round_env \<Rightarrow> duration" where
  "roundDelay cfg attempt R = reconnectDelay attempt (ac_ReconnectInitialDelay cfg) (ac_ReconnectMaxDelay cfg)
     (ac_ReconnectJitter cfg) (Some (randomReconnectJitter (re_draw R)))"

text \<open>The answer of the gateway to the \<open>i\<close>-th message of the handshake, and what it can say.\<close>

definition gatewayAnswer :: "handshake_env \<Rightarrow> nat \<Rightarrow> Envelope option" where
  "gatewayAnswer H i =
     (if hs_write H i \<noteq> None then None else case hs_read H i of Inl err \<Rightarrow> None | Inr resp \<Rightarrow> Some resp)"

definition tokenAccepted :: "once_env \<Rightarrow> bool" where
  "tokenAccepted E \<longleftrightarrow> oe_dial E = None \<and>
     (case gatewayAnswer (oe_handshake E) 0 of
        None \<Rightarrow> False
      | Some resp \<Rightarrow> env_Type resp = TypeAuthOK \<and>
          (case DecodePayload (unAuthOK (hs_json (oe_handshake E))) resp of
             Inl e \<Rightarrow> False
           | Inr payload \<Rightarrow> validateAuthOK (hs_quo (oe_handshake E)) payload = None))"

definition tokenRefused :: "once_env \<Rightarrow> ErrorPayload \<Rightarrow> bool" where
  "tokenRefused E p \<longleftrightarrow> oe_dial E = None \<and>
     (case gatewayAnswer (oe_handshake E) 0 of
        None \<Rightarrow> False
      | Some resp \<Rightarrow> env_Type resp = TypeAuthError \<and> DecodePayload (unError (hs_json (oe_handshake E))) resp = Inr p)"

definition tunnelRefused :: "once_env \<Rightarrow> ErrorPayload \<Rightarrow> bool" where
  "tunnelRefused E p \<longleftrightarrow> tokenAccepted E \<and>
     (case gatewayAnswer (oe_handshake E) 1 of
        None \<Rightarrow> False
      | Some resp \<Rightarrow> env_Type resp = TypeTunnelError \<and> DecodePayload (unError (hs_json (oe_handshake E))) resp = Inr p)"

text \<open>
  The network fails: the gateway cannot be dialled, a message of the handshake is not sent or not answered,
  or the connection is lost while the tunnel is served.
\<close>

definition networkFails :: "once_env \<Rightarrow> bool" where
  "networkFails E \<longleftrightarrow> oe_dial E \<noteq> None \<or> gatewayAnswer (oe_handshake E) 0 = None \<or>
     tokenAccepted E \<and>
     (case gatewayAnswer (oe_handshake E) 1 of
        None \<Rightarrow> True
      | Some resp \<Rightarrow> env_Type resp = TypeTunnelRegistered \<and>
          (case DecodePayload (unTunnelRegistered (hs_json (oe_handshake E))) resp of
             Inl e \<Rightarrow> False
           | Inr registered \<Rightarrow> oe_serve E (td_TunnelID registered) \<noteq> None))"

text \<open>The two messages of the agent can be encoded.\<close>

definition canEncode :: "once_env \<Rightarrow> AgentConfig \<Rightarrow> bool" where
  "canEncode E cfg \<longleftrightarrow>
     \<not> isl (NewEnvelope (hs_json (oe_handshake E)) TypeAuthRequest (PAuthRequest (agentAuthRequest cfg))) \<and>
     \<not> isl (NewEnvelope (hs_json (oe_handshake E)) TypeTunnelRegister (PTunnelRegister (agentTunnelRegister cfg)))"

section \<open>Lemmas\<close>

lemma randomReconnectJitter_bounds:
  assumes "0 < limit" "limit < 2 ^ 62" "\<And>n k. draw n = Some k \<Longrightarrow> 0 \<le> k \<and> k < n"
  shows "0 \<le> randomReconnectJitter draw limit \<and> randomReconnectJitter draw limit \<le> limit"
proof -
  have "wrap64 (limit + 1) = limit + 1" using assms(1,2) by (intro wrap64_id) (simp add: int64_def)
  with assms(1) assms(3) [of "limit + 1"] show ?thesis
    by (cases "draw (limit + 1)") (auto simp: randomReconnectJitter_def)
qed

lemma reconnectDelay_random:
  assumes "0 < initial" "initial \<le> mx" "mx < 2 ^ 62" "0 \<le> attempt" "\<And>n k. draw n = Some k \<Longrightarrow> 0 \<le> k \<and> k < n"
  shows "initial \<le> reconnectDelay attempt initial mx jitter (Some (randomReconnectJitter draw)) \<and>
    reconnectDelay attempt initial mx jitter (Some (randomReconnectJitter draw)) \<le> mx"
proof -
  define d where "d = doubleDelay (nat attempt) mx initial"
  have "initial * 1 \<le> initial * 2 ^ nat attempt" using assms(1) by (intro mult_left_mono) simp_all
  then have d: "initial \<le> d" "d \<le> mx" using assms(1-3) by (simp_all add: d_def doubleDelay_min)
  have j: "0 \<le> randomReconnectJitter draw x \<and> randomReconnectJitter draw x \<le> x" if "0 < x" "x \<le> d" for x
    using that d assms(3,5) by (intro randomReconnectJitter_bounds) auto
  have w: "wrap64 (d + randomReconnectJitter draw x) = d + randomReconnectJitter draw x" if "0 < x" "x \<le> d" for x
    using j [OF that] that d assms(1,3) by (intro wrap64_id) (simp add: int64_def)
  show ?thesis
    using j [of d] j [of jitter] w [of d] w [of jitter] d assms(1,2)
    by (auto simp: reconnectDelay_def Let_def d_def [symmetric])
qed

lemma runOnce_restored:
  "fst (runOnce E cfg wsURL restored) = fst (runOnce E cfg wsURL False)"
  "fst (snd (runOnce E cfg wsURL restored)) = fst (snd (runOnce E cfg wsURL False))"
  by (simp_all add: runOnce_def split: option.split sum.split)

lemma runOnce_outcome:
  "runOnce (re_once R) cfg wsURL restored = (online, err, out) \<Longrightarrow> online = roundOnline cfg wsURL R \<and> err = roundError cfg wsURL R"
  using runOnce_restored [of "re_once R" cfg wsURL restored] by (simp add: roundOnline_def roundError_def)

lemma offline_snoc:
  "length (takeWhile P (rev (take (Suc (Suc i)) (R # rounds)))) =
     (if \<forall>x \<in> set (take (Suc i) rounds). P x then length (take (Suc i) rounds) + (if P R then 1 else 0)
      else length (takeWhile P (rev (take (Suc i) rounds))))"
  by (simp add: takeWhile_append)

lemma attemptAt_offline:
  assumes "i < length rounds"
  shows "attemptAt cfg wsURL attempt rounds i =
    (let n = length (takeWhile (\<lambda>R. \<not> roundOnline cfg wsURL R) (rev (take (Suc i) rounds)))
     in if n = Suc i then attempt + int i else int n)"
  using assms
proof (induction rounds arbitrary: attempt i)
  case (Cons R rounds)
  show ?case
  proof (cases i)
    case (Suc j)
    let ?P = "\<lambda>R. \<not> roundOnline cfg wsURL R" and ?xs = "rev (take (Suc j) rounds)"
    have len: "length ?xs = Suc j" using Cons.prems Suc by simp
    have all: "(\<forall>x \<in> set (take (Suc j) rounds). ?P x) \<longleftrightarrow> length (takeWhile ?P ?xs) = Suc j"
      using takeWhile_eq_all_conv [of ?P ?xs] len by (metis length_takeWhile_le nat_less_le set_rev takeWhile_eq_take take_all_iff)
    have "length (takeWhile ?P ?xs) \<le> Suc j" using length_takeWhile_le [of ?P ?xs] len by simp
    with Cons.IH [of j] Cons.prems Suc len show ?thesis
      unfolding Suc attemptAt.simps(3) offline_snoc all Let_def by auto
  qed simp
qed simp

lemma attemptAt_roundsOffline:
  assumes "i < length rounds"
  shows "attemptAt cfg wsURL 0 rounds i = int (roundsOffline cfg wsURL rounds i)"
proof -
  have "length (takeWhile (\<lambda>R. \<not> roundOnline cfg wsURL R) (rev (take (Suc i) rounds))) \<le> Suc i"
    using length_takeWhile_le [of "\<lambda>R. \<not> roundOnline cfg wsURL R" "rev (take (Suc i) rounds)"] assms by simp
  then show ?thesis using assms by (auto simp: attemptAt_offline roundsOffline_def Let_def)
qed

text \<open>The loop, with what it has waited for.\<close>

lemma runLoop_outcome:
  assumes "runLoop dt cfg wsURL attempt before printed delays rounds = (r, printed', delays')"
  shows "r = (case dropWhile (keepsTrying cfg wsURL) rounds of [] \<Rightarrow> None | R # rest \<Rightarrow> Some (roundVerdict cfg wsURL R)) \<and>
    (\<exists>n \<le> length rounds. n = length (takeWhile (keepsTrying cfg wsURL) rounds) +
          (case dropWhile (keepsTrying cfg wsURL) rounds of [] \<Rightarrow> 0 | R # rest \<Rightarrow> if waitsAfter cfg wsURL R then 1 else 0) \<and>
       delays' = delays @ map (\<lambda>i. roundDelay cfg (attemptAt cfg wsURL attempt rounds i) (rounds ! i)) [0..<n])"
  using assms
proof (induction rounds arbitrary: attempt before printed delays)
  case (Cons R rounds)
  obtain online err out where once: "runOnce (re_once R) cfg wsURL before = (online, err, out)"
    by (cases "runOnce (re_once R) cfg wsURL before") auto
  note o = runOnce_outcome [OF once]
  define a where "a = (if online then 0 else attempt)"
  define delay where "delay = roundDelay cfg a R"
  have first: "map (\<lambda>i. roundDelay cfg (attemptAt cfg wsURL attempt (R # rounds) i) ((R # rounds) ! i)) [0..<Suc n] =
      delay # map (\<lambda>i. roundDelay cfg (attemptAt cfg wsURL (a + 1) rounds i) (rounds ! i)) [0..<n]" for n
    using o by (simp add: delay_def a_def map_upt_Suc del: upt_Suc)
  show ?case
  proof (cases "keepsTrying cfg wsURL R")
    case True
    then obtain e where e: "err = Some e" "\<not> isPermanent e" "\<not> re_ctxDone R" "\<not> re_waitCanceled R"
      using o by (auto simp: keepsTrying_def waitsAfter_def split: option.splits)
    with Cons.prems once have
      "runLoop dt cfg wsURL (a + 1) (online \<or> before)
         (printed @ out @ [writeReconnectOutput dt e delay (online \<or> before)]) (delays @ [delay]) rounds = (r, printed', delays')"
      by (simp add: Let_def delay_def roundDelay_def a_def)
    from Cons.IH [OF this] True first show ?thesis by auto
  next
    case False
    show ?thesis
    proof (cases "waitsAfter cfg wsURL R")
      case True
      with False o obtain e where e: "err = Some e" "\<not> isPermanent e" "\<not> re_ctxDone R" "re_waitCanceled R"
        by (auto simp: keepsTrying_def waitsAfter_def split: option.splits)
      with Cons.prems once have "r = Some None" "delays' = delays @ [delay]"
        by (auto simp: Let_def delay_def roundDelay_def a_def)
      with e o True False first [of 0] show ?thesis by (auto simp: roundVerdict_def)
    next
      case no: False
      have "r = Some (roundVerdict cfg wsURL R) \<and> delays' = delays"
        using Cons.prems once no o by (auto simp: waitsAfter_def roundVerdict_def Let_def split: option.splits if_splits)
      with no False show ?thesis by simp
    qed
  qed
qed simp

lemma agentRun_outcome:
  assumes "BuildWebSocketURL u (ac_ServerURL cfg) = Inr wsURL" "agentRun dt u cfg rounds = (r, printed, delays)"
  shows "r = (case dropWhile (keepsTrying cfg wsURL) rounds of [] \<Rightarrow> None | R # rest \<Rightarrow> Some (roundVerdict cfg wsURL R))"
    and "length delays = length (takeWhile (keepsTrying cfg wsURL) rounds) +
      (case dropWhile (keepsTrying cfg wsURL) rounds of [] \<Rightarrow> 0 | R # rest \<Rightarrow> if waitsAfter cfg wsURL R then 1 else 0)"
    and "i < length delays \<Longrightarrow> i < length rounds \<and> delays ! i = roundDelay cfg (int (roundsOffline cfg wsURL rounds i)) (rounds ! i)"
  using runLoop_outcome [of dt cfg wsURL 0 False "[]" "[]" rounds r printed delays] assms
  by (auto simp: agentRun_def attemptAt_roundsOffline)

text \<open>The two steps of the handshake, by the answer of the gateway.\<close>

lemma authenticate_unanswered: "gatewayAnswer H 0 = None \<Longrightarrow> \<exists>t. fst (agentAuthenticate H cfg) = Some (Transient t)"
  by (auto simp: agentAuthenticate_def gatewayAnswer_def split: option.splits sum.splits if_splits)

lemma authenticate_answered:
  assumes "gatewayAnswer H 0 = Some resp" "\<not> isl (NewEnvelope (hs_json H) TypeAuthRequest (PAuthRequest (agentAuthRequest cfg)))"
  shows "env_Type resp = TypeAuthOK \<Longrightarrow> DecodePayload (unAuthOK (hs_json H)) resp = Inr payload \<Longrightarrow>
      fst (agentAuthenticate H cfg) = map_option Permanent (validateAuthOK (hs_quo H) payload)"
    and "env_Type resp = TypeAuthError \<Longrightarrow> DecodePayload (unError (hs_json H)) resp = Inr p \<Longrightarrow>
      fst (agentAuthenticate H cfg) =
        Some (if ep_Code p = ''auth_unavailable'' then Transient (formatAuthError p) else Permanent (formatAuthError p))"
proof -
  obtain auth where "NewEnvelope (hs_json H) TypeAuthRequest (PAuthRequest (agentAuthRequest cfg)) = Inr auth"
    using assms(2) by (metis isl_def sum.exhaust)
  moreover have "hs_write H 0 = None" "hs_read H 0 = Inr resp"
    using assms(1) by (auto simp: gatewayAnswer_def split: if_splits sum.splits)
  ultimately have unfolded: "fst (agentAuthenticate H cfg) =
      (if env_Type resp = TypeAuthOK then
         (case DecodePayload (unAuthOK (hs_json H)) resp of
            Inl e \<Rightarrow> Some (Permanent (msgErrorText (hs_jsonText H) e))
          | Inr payload \<Rightarrow> map_option Permanent (validateAuthOK (hs_quo H) payload))
       else if env_Type resp = TypeAuthError then
         (case DecodePayload (unError (hs_json H)) resp of
            Inl e \<Rightarrow> Some (Permanent (msgErrorText (hs_jsonText H) e))
          | Inr payload \<Rightarrow>
              if ep_Code payload = ''auth_unavailable'' then Some (Transient (formatAuthError payload))
              else Some (Permanent (formatAuthError payload)))
       else Some (Permanent (''unexpected auth response '' @ typeName (env_Type resp))))"
    by (simp add: agentAuthenticate_def)
  show "env_Type resp = TypeAuthOK \<Longrightarrow> DecodePayload (unAuthOK (hs_json H)) resp = Inr payload \<Longrightarrow>
      fst (agentAuthenticate H cfg) = map_option Permanent (validateAuthOK (hs_quo H) payload)"
    by (simp add: unfolded)
  show "env_Type resp = TypeAuthError \<Longrightarrow> DecodePayload (unError (hs_json H)) resp = Inr p \<Longrightarrow>
      fst (agentAuthenticate H cfg) =
        Some (if ep_Code p = ''auth_unavailable'' then Transient (formatAuthError p) else Permanent (formatAuthError p))"
    by (simp add: unfolded)
qed

lemma register_unanswered: "gatewayAnswer H 1 = None \<Longrightarrow> \<exists>t. fst (agentRegisterTunnel H cfg) = Inl (Transient t)"
  by (auto simp: agentRegisterTunnel_def gatewayAnswer_def split: option.splits sum.splits if_splits)

lemma register_answered:
  assumes "gatewayAnswer H 1 = Some resp" "\<not> isl (NewEnvelope (hs_json H) TypeTunnelRegister (PTunnelRegister (agentTunnelRegister cfg)))"
  shows "env_Type resp = TypeTunnelRegistered \<Longrightarrow> DecodePayload (unTunnelRegistered (hs_json H)) resp = Inr payload \<Longrightarrow>
      fst (agentRegisterTunnel H cfg) = Inr payload"
    and "env_Type resp = TypeTunnelError \<Longrightarrow> DecodePayload (unError (hs_json H)) resp = Inr p \<Longrightarrow>
      fst (agentRegisterTunnel H cfg) = Inl (Permanent (formatTunnelRegistrationError p))"
proof -
  obtain reg where "NewEnvelope (hs_json H) TypeTunnelRegister (PTunnelRegister (agentTunnelRegister cfg)) = Inr reg"
    using assms(2) by (metis isl_def sum.exhaust)
  moreover have "hs_write H 1 = None" "hs_read H 1 = Inr resp"
    using assms(1) by (auto simp: gatewayAnswer_def split: if_splits sum.splits)
  moreover note agentRegisterTunnel_def [of H cfg]
  ultimately show "env_Type resp = TypeTunnelRegistered \<Longrightarrow> DecodePayload (unTunnelRegistered (hs_json H)) resp = Inr payload \<Longrightarrow>
      fst (agentRegisterTunnel H cfg) = Inr payload"
    and "env_Type resp = TypeTunnelError \<Longrightarrow> DecodePayload (unError (hs_json H)) resp = Inr p \<Longrightarrow>
      fst (agentRegisterTunnel H cfg) = Inl (Permanent (formatTunnelRegistrationError p))" by simp_all
qed

lemma tokenAccepted_authenticates:
  assumes "canEncode E cfg" "tokenAccepted E"
  shows "oe_dial E = None \<and> fst (agentAuthenticate (oe_handshake E) cfg) = None"
  using assms authenticate_answered(1) [of "oe_handshake E" _ cfg]
  by (auto simp: tokenAccepted_def canEncode_def split: option.splits sum.splits)

lemma runOnce_network:
  assumes "canEncode (re_once R) cfg" "networkFails (re_once R)"
  shows "\<exists>t. roundError cfg wsURL R = Some (Transient t)"
proof -
  let ?E = "re_once R" and ?H = "oe_handshake (re_once R)"
  consider "oe_dial ?E \<noteq> None" | "oe_dial ?E = None" "gatewayAnswer ?H 0 = None"
    | "tokenAccepted ?E" "gatewayAnswer ?H 1 = None"
    | resp registered err where "tokenAccepted ?E" "gatewayAnswer ?H 1 = Some resp" "env_Type resp = TypeTunnelRegistered"
        "DecodePayload (unTunnelRegistered (hs_json ?H)) resp = Inr registered" "oe_serve ?E (td_TunnelID registered) = Some err"
    using assms(2) by (auto simp: networkFails_def split: option.splits sum.splits)
  then show ?thesis
  proof cases
    case 2
    with authenticate_unanswered [of ?H cfg] show ?thesis by (auto simp: roundError_def runOnce_def)
  next
    case 3
    with tokenAccepted_authenticates [OF assms(1)] register_unanswered [of ?H cfg] show ?thesis by (auto simp: roundError_def runOnce_def)
  next
    case 4
    with tokenAccepted_authenticates [OF assms(1)] register_answered(1) [of ?H resp cfg registered] assms(1) show ?thesis
      by (auto simp: roundError_def runOnce_def canEncode_def)
  qed (auto simp: roundError_def runOnce_def)
qed

lemma runOnce_token:
  assumes "canEncode (re_once R) cfg" "tokenRefused (re_once R) p"
  shows "roundError cfg wsURL R = Some (if ep_Code p = ''auth_unavailable'' then Transient (formatAuthError p) else Permanent (formatAuthError p))"
proof -
  obtain resp where "oe_dial (re_once R) = None" "gatewayAnswer (oe_handshake (re_once R)) 0 = Some resp" "env_Type resp = TypeAuthError"
      "DecodePayload (unError (hs_json (oe_handshake (re_once R)))) resp = Inr p"
    using assms(2) by (auto simp: tokenRefused_def split: option.splits)
  with authenticate_answered(2) [of _ resp cfg p] assms(1) show ?thesis by (simp add: roundError_def runOnce_def canEncode_def)
qed

lemma runOnce_tunnel:
  assumes "canEncode (re_once R) cfg" "tunnelRefused (re_once R) p"
  shows "roundError cfg wsURL R = Some (Permanent (formatTunnelRegistrationError p))"
proof -
  obtain resp where "tokenAccepted (re_once R)" "gatewayAnswer (oe_handshake (re_once R)) 1 = Some resp" "env_Type resp = TypeTunnelError"
      "DecodePayload (unError (hs_json (oe_handshake (re_once R)))) resp = Inr p"
    using assms(2) by (auto simp: tunnelRefused_def split: option.splits)
  with tokenAccepted_authenticates [OF assms(1)] register_answered(2) [of _ resp cfg p] assms(1) show ?thesis
    by (simp add: roundError_def runOnce_def canEncode_def)
qed


lemma demo_url: "BuildWebSocketURL wsURLs (ac_ServerURL oneConfig) = Inr ''ws://http://localhost:8081/agent/connect''"
  by (simp add: BuildWebSocketURL_def wsURLs_def oneConfig_def defaultServerURL_def agentJoinURLPath_def agentWebSocketPath_def)

lemma demo_message: "TrimSpace ''refused'' = ''refused''"
  by code_simp

lemma demo_accepts:
  "validateAuthOK (\<lambda>s. s) \<lparr>ok_ProtocolVersion = ProtocolVersion, ok_Capabilities = DefaultProtocolCapabilities\<rparr> = None"
  by code_simp

lemmas demo_handshake = refusedTunnel_def refusedToken_def oneJSON_def DecodePayload_def

lemma demo_rounds:
  "canEncode (re_once (demoRounds ! 0)) cfg" "canEncode (re_once (demoRounds ! 1)) cfg" "canEncode (re_once (demoRounds ! 2)) cfg"
  "\<not> re_ctxDone (demoRounds ! 0)" "\<not> re_ctxDone (demoRounds ! 1)" "\<not> re_ctxDone (demoRounds ! 2)"
  "\<not> re_waitCanceled (demoRounds ! 0)" "\<not> re_waitCanceled (demoRounds ! 1)" "\<not> re_waitCanceled (demoRounds ! 2)"
  by (simp_all add: demoRounds_def numeral_2_eq_2 canEncode_def demo_handshake NewEnvelope_def NewStream_def marshalPayload_def)

lemma demo_errors:
  "dropWhile (keepsTrying oneConfig wsURL) demoRounds = [demoRounds ! 2]"
  "length (takeWhile (keepsTrying oneConfig wsURL) demoRounds) = 2"
  "roundVerdict oneConfig wsURL (demoRounds ! 2) = Some (Permanent ''tunnel registration failed: refused'')"
  "\<not> waitsAfter oneConfig wsURL (demoRounds ! 2)"
proof -
  let ?p = "\<lambda>code. \<lparr>ep_Code = code, ep_Message = ''refused''\<rparr>"
  have "networkFails (re_once (demoRounds ! 0))" by (simp add: demoRounds_def networkFails_def)
  with runOnce_network [OF demo_rounds(1)]
  obtain t where 0: "roundError oneConfig wsURL (demoRounds ! 0) = Some (Transient t)" by blast
  have "tokenRefused (re_once (demoRounds ! 1)) (?p ''auth_unavailable'')"
    by (simp add: demoRounds_def tokenRefused_def gatewayAnswer_def demo_handshake)
  from runOnce_token [OF demo_rounds(2) this]
  obtain t1 where 1: "roundError oneConfig wsURL (demoRounds ! 1) = Some (Transient t1)" by simp
  have "tunnelRefused (re_once (demoRounds ! 2)) (?p ''subdomain_authorization_unavailable'')"
    by (simp add: demoRounds_def numeral_2_eq_2 tunnelRefused_def tokenAccepted_def gatewayAnswer_def demo_handshake demo_accepts)
  from runOnce_tunnel [OF demo_rounds(3) this]
  have 2: "roundError oneConfig wsURL (demoRounds ! 2) = Some (Permanent ''tunnel registration failed: refused'')"
    by (simp add: formatTunnelRegistrationError_def errorPayloadMessage_def demo_message)
  have tries: "keepsTrying oneConfig wsURL (demoRounds ! 0)" "keepsTrying oneConfig wsURL (demoRounds ! 1)"
    and no: "\<not> waitsAfter oneConfig wsURL (demoRounds ! 2)" "\<not> keepsTrying oneConfig wsURL (demoRounds ! 2)"
    using 0 1 2 demo_rounds by (simp_all add: keepsTrying_def waitsAfter_def isPermanent_def)
  have three: "demoRounds = [demoRounds ! 0, demoRounds ! 1, demoRounds ! 2]"
    by (simp add: demoRounds_def numeral_2_eq_2)
  show "dropWhile (keepsTrying oneConfig wsURL) demoRounds = [demoRounds ! 2]"
    "length (takeWhile (keepsTrying oneConfig wsURL) demoRounds) = 2"
    by (subst three; use tries no in simp)+
  show "roundVerdict oneConfig wsURL (demoRounds ! 2) = Some (Permanent ''tunnel registration failed: refused'')"
    using 2 demo_rounds by (simp add: roundVerdict_def isPermanent_def)
  show "\<not> waitsAfter oneConfig wsURL (demoRounds ! 2)" by (rule no(1))
qed

section \<open>Properties\<close>

text \<open>
  C38: The agent keeps trying.  It is still running exactly as long as every connection so far has failed
  with an error that is not permanent and its context lives, however often that was; otherwise it has
  returned after the first round of another kind, with the permanent error of that round, or without an
  error when the connection was closed normally or the context has ended.  It has waited once after every
  failed round, each time for the delay of the number of rounds since the tunnel was last up, and always
  between the initial and the maximal delay, so that it neither gives up nor floods the gateway.
\<close>

theorem agent_reconnects_until_permanent:
  assumes "0 < ac_ReconnectInitialDelay cfg" "ac_ReconnectInitialDelay cfg \<le> ac_ReconnectMaxDelay cfg" "ac_ReconnectMaxDelay cfg < 2 ^ 62"
    and "\<forall>R \<in> set rounds. \<forall>n k. re_draw R n = Some k \<longrightarrow> 0 \<le> k \<and> k < n"
    and "BuildWebSocketURL u (ac_ServerURL cfg) = Inr wsURL" "agentRun dt u cfg rounds = (r, printed, delays)"
  shows "r = (case dropWhile (keepsTrying cfg wsURL) rounds of [] \<Rightarrow> None | R # rest \<Rightarrow> Some (roundVerdict cfg wsURL R)) \<and>
    length delays = length (takeWhile (keepsTrying cfg wsURL) rounds) +
      (case dropWhile (keepsTrying cfg wsURL) rounds of [] \<Rightarrow> 0 | R # rest \<Rightarrow> if waitsAfter cfg wsURL R then 1 else 0) \<and>
    (\<forall>i < length delays.
       delays ! i = reconnectDelay (int (roundsOffline cfg wsURL rounds i)) (ac_ReconnectInitialDelay cfg) (ac_ReconnectMaxDelay cfg)
         (ac_ReconnectJitter cfg) (Some (randomReconnectJitter (re_draw (rounds ! i)))) \<and>
       ac_ReconnectInitialDelay cfg \<le> delays ! i \<and> delays ! i \<le> ac_ReconnectMaxDelay cfg)"
proof -
  note out = agentRun_outcome [OF assms(5,6)]
  have "delays ! i = roundDelay cfg (int (roundsOffline cfg wsURL rounds i)) (rounds ! i) \<and>
      ac_ReconnectInitialDelay cfg \<le> delays ! i \<and> delays ! i \<le> ac_ReconnectMaxDelay cfg" if "i < length delays" for i
  proof -
    have "i < length rounds" using out(3) [OF that] by simp
    then have "\<forall>n k. re_draw (rounds ! i) n = Some k \<longrightarrow> 0 \<le> k \<and> k < n" using assms(4) nth_mem by blast
    then show ?thesis using reconnectDelay_random [OF assms(1-3), of "int (roundsOffline cfg wsURL rounds i)"] out(3) [OF that]
      by (simp add: roundDelay_def)
  qed
  with out(1,2) show ?thesis unfolding roundDelay_def by blast
qed

theorem agent_reconnects_until_permanent_witness:
  "\<exists>r printed delays. agentRun (\<lambda>d. []) wsURLs oneConfig demoRounds = (r, printed, delays) \<and>
     r = Some (Some (Permanent ''tunnel registration failed: refused'')) \<and> length delays = 2 \<and>
     (\<forall>i < 2. 500000000 \<le> delays ! i \<and> delays ! i \<le> 5000000000)"
proof -
  obtain r printed delays where run: "agentRun (\<lambda>d. []) wsURLs oneConfig demoRounds = (r, printed, delays)"
    by (cases "agentRun (\<lambda>d. []) wsURLs oneConfig demoRounds") auto
  note err = demo_errors [of "''ws://http://localhost:8081/agent/connect''"]
  have "0 < ac_ReconnectInitialDelay oneConfig" "ac_ReconnectInitialDelay oneConfig = 500000000"
    "ac_ReconnectMaxDelay oneConfig = 5000000000"
    by (simp_all add: oneConfig_def defaultReconnectInitialDelay_def defaultReconnectMaxDelay_def Second_def)
  moreover have "\<forall>R \<in> set demoRounds. \<forall>n k. re_draw R n = Some k \<longrightarrow> 0 \<le> k \<and> k < n"
    by (auto simp: demoRounds_def split: if_splits)
  ultimately show ?thesis
    using agent_reconnects_until_permanent [OF _ _ _ _ demo_url run] run err by auto
qed



end
