(* ===== verification/Tunnel.thy ===== *)
theory Tunnel
  imports AgentRun Registration WSRelay
begin

text \<open>
  The gateway and the agent together: what one side writes to the connection is what the other side
  reads.  The theorems are about the round trip of an HTTP request through both, the messages of a
  WebSocket, and the handshake.
\<close>

section \<open>The connection\<close>

text \<open>A message of one side as \<open>wswire.Read\<close> of the other side returns it.\<close>

fun carried :: "json \<Rightarrow> string \<Rightarrow> sent \<Rightarrow> msg_error + Message" where
  "carried js tid (SentEnvelope env) = (case WriteEnvelope js env of Inl e \<Rightarrow> Inl e | Inr frame \<Rightarrow> wireRead js (Some frame))"
| "carried js tid (SentBody typ sid body) =
     (case WriteBinaryBody typ sid tid body of Inl e \<Rightarrow> Inl e | Inr frame \<Rightarrow> wireRead js (Some frame))"

definition arrives :: "json \<Rightarrow> string \<Rightarrow> sent list \<Rightarrow> Message list \<Rightarrow> bool" where
  "arrives js tid out ms \<longleftrightarrow> list_all2 (\<lambda>m x. carried js tid m = Inr x) out ms"

text \<open>
  What \<open>encoding/json\<close> does for the values that are sent: a payload is decoded to the value that was
  encoded, and an envelope with an encoded payload to itself.
\<close>

definition payloadKept :: "json \<Rightarrow> payload \<Rightarrow> (bytes \<Rightarrow> 'a option) \<Rightarrow> 'a \<Rightarrow> bool" where
  "payloadKept js p un v \<longleftrightarrow> (\<exists>raw. marshal js p = Some raw \<and> raw \<noteq> [] \<and> un raw = Some v)"

definition streamTypes :: "msg_type set" where
  "streamTypes = {TypeHTTPRequestStart, TypeHTTPRequestEnd, TypeHTTPResponseStart, TypeHTTPResponseEnd}"

definition envelopesKept :: "json \<Rightarrow> string \<Rightarrow> string \<Rightarrow> bool" where
  "envelopesKept js sid tid \<longleftrightarrow>
     (\<forall>t \<in> streamTypes. \<forall>p env. NewStream js t sid tid p = Inr env \<longrightarrow>
        (\<exists>b. marshalEnvelope js env = Some b \<and> unEnvelope js b = Some env))"

section \<open>A request through both sides\<close>

text \<open>The events of the channel \<open>chunks\<close> for a message of the gateway (\<open>serveMessage\<close>).\<close>

definition chunkEvent :: "json \<Rightarrow> AgentConfig \<Rightarrow> Message \<Rightarrow> chunk_event option" where
  "chunkEvent js cfg m =
     (case env_Type (msg_Envelope m) of
        TypeHTTPRequestBody \<Rightarrow>
          (case requestBodyData js m of
             Inl e \<Rightarrow> None
           | Inr data \<Rightarrow> Some (if int (length data) > ac_StreamChunkBytes cfg then ChunksCanceled ''context canceled''
                               else ChunkReceived (BodyData data)))
      | TypeHTTPRequestEnd \<Rightarrow> Some (ChunkReceived BodyFinished)
      | _ \<Rightarrow> None)"

text \<open>What the agent does with the messages of one stream; the transport reads the whole request body.\<close>

definition agentSide :: "stream_env \<Rightarrow> AgentConfig \<Rightarrow> string \<Rightarrow> Message list \<Rightarrow> handled option" where
  "agentSide E cfg tid ms =
     (let js = aw_json (se_wire E) in
      case ms of
        [] \<Rightarrow> None
      | m # rest \<Rightarrow>
          if env_Type (msg_Envelope m) \<noteq> TypeHTTPRequestStart then None
          else case DecodePayload (unRequestStart js) (msg_Envelope m) of
                 Inl e \<Rightarrow> None
               | Inr req \<Rightarrow> handleHTTPStream E cfg tid (msg_Envelope m) req (\<lambda>i. True) (List.map_filter (chunkEvent js cfg) rest))"

text \<open>Reads that deliver a body up to its end.\<close>

definition wholeReads :: "'e \<Rightarrow> (bytes \<times> 'e option) list \<Rightarrow> bool" where
  "wholeReads eof reads \<longleftrightarrow> reads \<noteq> [] \<and> snd (last reads) = Some eof \<and> (\<forall>r \<in> set (butlast reads). snd r = None)"

definition chunksOf :: "(bytes \<times> 'e option) list \<Rightarrow> bytes list" where
  "chunksOf reads = filter (\<lambda>c. c \<noteq> []) (map fst reads)"

definition localRequestOf :: "RequestStart \<Rightarrow> string \<Rightarrow> bytes \<Rightarrow> localRequest" where
  "localRequestOf req url body =
     \<lparr>lr_Method = rs_Method req, lr_URL = url, lr_Header = StripHopByHopHeaders (rs_Header req),
      lr_ContentLength = (if rs_ContentLength req > 0 then rs_ContentLength req else 0), lr_Body = body, lr_BodyEnd = BodyEOF\<rparr>"

text \<open>Messages as they are read: of a binary frame and of an envelope.\<close>

definition bodyMessage :: "msg_type \<Rightarrow> string \<Rightarrow> string \<Rightarrow> bytes \<Rightarrow> Message" where
  "bodyMessage t sid tid b =
     \<lparr>msg_Envelope = \<lparr>env_Type = t, env_StreamID = sid, env_TunnelID = tid, env_Payload = ''{}''\<rparr>, msg_Body = b, msg_BinaryBody = True\<rparr>"

definition envelopeMessage :: "Envelope \<Rightarrow> Message" where
  "envelopeMessage env = \<lparr>msg_Envelope = env, msg_Body = [], msg_BinaryBody = False\<rparr>"

section \<open>WebSockets\<close>

text \<open>What the pumps of the agent read and pass on, as for the gateway in \<open>WSRelay\<close>.\<close>

definition localReads :: "agent_event list \<Rightarrow> (ws_kind \<times> bytes) list" where
  "localReads evs = List.map_filter (\<lambda>ev. case ev of LocalRead k d \<Rightarrow> Some (k, d) | _ \<Rightarrow> None) evs"

definition gatewayReads :: "agent_event list \<Rightarrow> Message list" where
  "gatewayReads evs = List.map_filter (\<lambda>ev. case ev of GatewayMsg m e \<Rightarrow> if isFrame m then Some m else None | _ \<Rightarrow> None) evs"

definition toLocal :: "Message \<Rightarrow> local_frame" where
  "toLocal m = LocalFrame (if env_Type (msg_Envelope m) = TypeWSMessageText then MessageText else MessageBinary) (msg_Body m)"

definition localFrames :: "local_frame list \<Rightarrow> local_frame list" where
  "localFrames fs = filter (\<lambda>f. case f of LocalFrame k d \<Rightarrow> True | LocalClose c r \<Rightarrow> False) fs"

definition passedToGateway :: "string \<Rightarrow> agent_event list \<Rightarrow> agent_relay \<Rightarrow> bool" where
  "passedToGateway sid evs st \<longleftrightarrow>
     (\<exists>n. frames (al_sent st) = map (toAgent sid) (take n (localReads evs)) \<and> n \<le> length (localReads evs) \<and>
          (al_up st = PumpRuns \<longrightarrow> n = length (localReads evs)))"

definition passedToLocal :: "agent_event list \<Rightarrow> agent_relay \<Rightarrow> bool" where
  "passedToLocal evs st \<longleftrightarrow>
     (\<exists>n. localFrames (al_local st) = map toLocal (take n (gatewayReads evs)) \<and> n \<le> length (gatewayReads evs) \<and>
          (al_down st = PumpRuns \<longrightarrow> n = length (gatewayReads evs)))"

text \<open>A message as the other end of the tunnel gets it: text stays text, everything else is binary.\<close>

definition tunnelled :: "ws_kind \<times> bytes \<Rightarrow> ws_kind \<times> bytes" where
  "tunnelled kd = (if fst kd = MessageText then MessageText else MessageBinary, snd kd)"

section \<open>The handshake\<close>

text \<open>The agent reads the answers of the gateway and then the end of the connection.\<close>

definition answersRead :: "handshake_env \<Rightarrow> Envelope list \<Rightarrow> bool" where
  "answersRead H out \<longleftrightarrow> (\<forall>i. if i < length out then hs_read H i = Inr (out ! i) else (\<exists>e. hs_read H i = Inl e))"

definition gatewayOK :: AuthOK where
  "gatewayOK = \<lparr>ok_ProtocolVersion = ProtocolVersion, ok_Capabilities = DefaultProtocolCapabilities\<rparr>"

definition registeredFor :: "Session \<Rightarrow> TunnelRegistered" where
  "registeredFor t = \<lparr>td_TunnelID = ss_TunnelID t, td_PublicURL = ss_PublicURL t, td_Subdomain = ss_Subdomain t\<rparr>"

section \<open>Examples\<close>

text \<open>A coding of the few values of the example, and a local service that echoes the body.\<close>

definition echoStart :: RequestStart where
  "echoStart = \<lparr>rs_Method = ''POST'', rs_Path = ''/echo'', rs_Query = [], rs_Header = Map.empty, rs_ContentLength = 2\<rparr>"

definition echoResponse :: ResponseStart where
  "echoResponse = \<lparr>rst_Status = 200, rst_Header = StripHopByHopHeaders Map.empty\<rparr>"

definition echoJSON :: json where
  "echoJSON = oneJSON
     \<lparr>unRequestStart := (\<lambda>b. Some echoStart), unResponseStart := (\<lambda>b. Some echoResponse),
      marshalEnvelope := (\<lambda>env. Some ((case env_Type env of TypeHTTPRequestStart \<Rightarrow> CHR ''1'' | TypeHTTPRequestEnd \<Rightarrow> CHR ''2''
                                         | TypeHTTPResponseStart \<Rightarrow> CHR ''3'' | _ \<Rightarrow> CHR ''4'') # env_Payload env)),
      unEnvelope := (\<lambda>b. case b of [] \<Rightarrow> None
        | c # raw \<Rightarrow> Some \<lparr>env_Type = (if c = CHR ''1'' then TypeHTTPRequestStart else if c = CHR ''2'' then TypeHTTPRequestEnd
                                        else if c = CHR ''3'' then TypeHTTPResponseStart else TypeHTTPResponseEnd),
                           env_StreamID = ''str_1'', env_TunnelID = ss_TunnelID (as_tunnel demoAgent), env_Payload = raw\<rparr>)\<rparr>"

definition echoEnv :: stream_env where
  "echoEnv =
     \<lparr>se_wire = \<lparr>aw_json = echoJSON, aw_jsonText = [], aw_write = (\<lambda>i. None)\<rparr>, se_url = wsURLs,
      se_client = \<lparr>lc_newRequest = (\<lambda>m u. None), lc_do = (\<lambda>r. Some (LocalResponse 200 Map.empty [(lr_Body r, Some AgentEOF)]))\<rparr>,
      se_ctxErr = None, se_printed = 0, se_logged = 0,
      se_partial = \<lparr>req_Method = [], req_Path = [], req_Query = [], req_Header = Map.empty, req_Body = []\<rparr>\<rparr>"

text \<open>The agent of the handshake in \<open>Registration\<close>.\<close>

definition handshakeConfig :: AgentConfig where
  "handshakeConfig = oneConfig\<lparr>ac_AgentVersion := ''1'', ac_RequestedSubdomain := ''demo''\<rparr>"

definition handshakeReads :: "Envelope list \<Rightarrow> handshake_env" where
  "handshakeReads out =
     \<lparr>hs_json = demoJSON\<lparr>unAuthOK := (\<lambda>b. Some gatewayOK), unTunnelRegistered := (\<lambda>b. Some (registeredFor demoTunnel))\<rparr>,
      hs_jsonText = [], hs_quo = (\<lambda>s. s), hs_write = (\<lambda>i. None),
      hs_read = (\<lambda>i. if i < length out then Inr (out ! i) else Inl ''EOF'')\<rparr>"

section \<open>Lemmas\<close>

lemma wholeReads_Cons:
  "wholeReads eof ((c, e) # reads) \<longleftrightarrow> (if reads = [] then e = Some eof else e = None \<and> wholeReads eof reads)"
  by (auto simp: wholeReads_def)

lemma chunksOf_Cons: "chunksOf ((c, e) # reads) = (if c = [] then [] else [c]) @ chunksOf reads" "chunksOf [] = []"
  by (simp_all add: chunksOf_def)

lemma frame_ok:
  assumes "sid \<noteq> []" "length sid \<le> 65535" "length tid \<le> 65535" "t \<in> {TypeHTTPRequestBody, TypeHTTPResponseBody, TypeWSMessageText, TypeWSMessageBinary}"
  shows "\<exists>frame. NewBinaryBodyFrame t sid tid b = Inr frame"
  using assms by (auto simp: NewBinaryBodyFrame_def binaryBodyFrameType_def)

lemma carried_body:
  assumes "sid \<noteq> []" "length sid \<le> 65535" "length tid \<le> 65535" "t \<in> {TypeHTTPRequestBody, TypeHTTPResponseBody, TypeWSMessageText, TypeWSMessageBinary}"
  shows "carried js tid (SentBody t sid b) =
    Inr \<lparr>msg_Envelope = \<lparr>env_Type = t, env_StreamID = sid, env_TunnelID = tid, env_Payload = ''{}''\<rparr>, msg_Body = b, msg_BinaryBody = True\<rparr>"
proof -
  obtain frame where f: "NewBinaryBodyFrame t sid tid b = Inr frame" using frame_ok [OF assms] by blast
  then have "DecodeBinaryBodyFrame frame = Inr \<lparr>bf_Type = t, bf_StreamID = sid, bf_TunnelID = tid, bf_Data = b\<rparr>"
    by (rule decode_encode)
  with f assms(4) show ?thesis
    by (auto simp: WriteBinaryBody_def wireRead_def NewStream_def marshalPayload_def)
qed

lemma carried_envelope:
  assumes "envelopesKept js sid tid" "t \<in> streamTypes" "NewStream js t sid tid p = Inr env"
  shows "carried js tid (SentEnvelope env) = Inr \<lparr>msg_Envelope = env, msg_Body = [], msg_BinaryBody = False\<rparr>"
  using assms by (fastforce simp: envelopesKept_def WriteEnvelope_def wireRead_def)

lemma NewStream_kept:
  assumes "payloadKept js p un v" "t \<noteq> OtherType []" "p \<noteq> PNil"
  shows "\<exists>env. NewStream js t sid tid p = Inr env \<and> DecodePayload un env = Inr v \<and> env_Type env = t \<and> env_StreamID env = sid"
proof -
  from assms(1) obtain raw where "marshal js p = Some raw" "raw \<noteq> []" "un raw = Some v" by (auto simp: payloadKept_def)
  with assms(2,3) show ?thesis
    by (intro exI [of _ "\<lparr>env_Type = t, env_StreamID = sid, env_TunnelID = tid, env_Payload = raw\<rparr>"])
       (simp add: NewStream_def marshalPayload_def DecodePayload_def)
qed

lemma NewStream_nil:
  "t \<noteq> OtherType [] \<Longrightarrow> NewStream js t sid tid PNil = Inr \<lparr>env_Type = t, env_StreamID = sid, env_TunnelID = tid, env_Payload = ''{}''\<rparr>"
  by (simp add: NewStream_def marshalPayload_def)

lemma envelopesKept_write:
  "envelopesKept js sid tid \<Longrightarrow> t \<in> streamTypes \<Longrightarrow> NewStream js t sid tid p = Inr env \<Longrightarrow> \<exists>frame. WriteEnvelope js env = Inr frame"
  by (fastforce simp: envelopesKept_def WriteEnvelope_def)

text \<open>The body of the request, from the public client to the pipe of the agent.\<close>

lemma writeBodyLoop_whole:
  assumes "sid \<noteq> []" "length sid \<le> 65535" "length (ss_TunnelID (as_tunnel s)) \<le> 65535"
    and "wholeReads ReadEOF reads" "n + int (length (concat (chunksOf reads))) \<le> mx"
  shows "writeBodyLoop (\<lambda>i. WOk) s sid mx n out reads =
    Some (n + int (length (concat (chunksOf reads))), None, out @ map (SentBody TypeHTTPRequestBody sid) (chunksOf reads))"
  using assms(4,5)
proof (induction reads arbitrary: n out)
  case (Cons rd reads)
  obtain c e where rd: "rd = (c, e)" by (cases rd)
  obtain frame where "NewBinaryBodyFrame TypeHTTPRequestBody sid (ss_TunnelID (as_tunnel s)) c = Inr frame"
    using frame_ok [OF assms(1-3)] by blast
  then have w: "writeBinaryBody (\<lambda>i. WOk) s out TypeHTTPRequestBody sid c = (WOk, out @ [SentBody TypeHTTPRequestBody sid c])"
    by (simp add: writeBinaryBody_def WriteBinaryBody_def)
  show ?case
  proof (cases "reads = []")
    case True
    with Cons.prems rd w show ?thesis by (cases "c = []") (simp_all add: wholeReads_Cons chunksOf_Cons Let_def)
  next
    case False
    with Cons.prems rd w Cons.IH [of "n + int (length c)" "if c = [] then out else out @ [SentBody TypeHTTPRequestBody sid c]"] show ?thesis
      by (cases "c = []") (simp_all add: wholeReads_Cons chunksOf_Cons Let_def add.assoc)
  qed
qed (simp add: wholeReads_def)

lemma copyChunks_whole:
  assumes "\<forall>c \<in> set cs. c \<noteq> []"
  shows "copyChunks (\<lambda>i. True) i body n (map (\<lambda>c. ChunkReceived (BodyData c)) cs @ [ChunkReceived BodyFinished])
    = ((body @ concat cs, BodyEOF), n + int (length (concat cs)))"
  using assms by (induction cs arbitrary: i body n) (auto simp: add.assoc)

text \<open>The body of the response, from the local service to the public client.\<close>

lemma streamLoop_whole:
  assumes "\<And>c st. c \<noteq> [] \<Longrightarrow> wc c st = (None, st @ [f c])" "wholeReads AgentEOF reads"
    and "n + int (length (concat (chunksOf reads))) \<le> limit"
  shows "streamLoop wc limit n st reads = Some (n + int (length (concat (chunksOf reads))), None, st @ map f (chunksOf reads))"
  using assms(2,3)
proof (induction reads arbitrary: n st)
  case (Cons rd reads)
  obtain c e where rd: "rd = (c, e)" by (cases rd)
  show ?case
  proof (cases "reads = []")
    case True
    with Cons.prems rd assms(1) show ?thesis by (cases "c = []") (simp_all add: wholeReads_Cons chunksOf_Cons Let_def)
  next
    case False
    with Cons.prems rd assms(1) Cons.IH [of "n + int (length c)" "if c = [] then st else st @ [f c]"] show ?thesis
      by (cases "c = []") (simp_all add: wholeReads_Cons chunksOf_Cons Let_def add.assoc)
  qed
qed (simp add: wholeReads_def)

lemma readStreamResponse_bodies:
  assumes "\<forall>m \<in> set ms. env_Type (msg_Envelope m) = TypeHTTPResponseBody \<and> msg_BinaryBody m \<and> int (length (msg_Body m)) \<le> ck"
    and "\<forall>i < length ms. wb (length pub + i) = (length (msg_Body (ms ! i)), None)"
  shows "readStreamResponse js wr wb s sid ck True res out pub (map Received ms @ evs) =
    readStreamResponse js wr wb s sid ck True
      (res\<lparr>rr_ResponseBytes := rr_ResponseBytes res + int (length (concat (map msg_Body ms)))\<rparr>) out
      (pub @ map (\<lambda>m. PubBody (msg_Body m) (length (msg_Body m))) ms) evs"
  using assms
proof (induction ms arbitrary: res pub)
  case (Cons m ms)
  have "wb (length pub) = (length (msg_Body m), None)" using Cons.prems(2) by force
  moreover have "\<forall>i < length ms. wb (length (pub @ [PubBody (msg_Body m) (length (msg_Body m))]) + i) = (length (msg_Body (ms ! i)), None)"
    using Cons.prems(2) by fastforce
  ultimately show ?case
    using Cons.prems(1) Cons.IH [of "pub @ [PubBody (msg_Body m) (length (msg_Body m))]" "res\<lparr>rr_ResponseBytes := rr_ResponseBytes res + int (length (msg_Body m))\<rparr>"]
    by (simp add: responseBodyChunk_def pubWrite_def Let_def add.assoc)
qed simp

lemma concat_chunksOf: "concat (chunksOf reads) = concat (map fst reads)"
  by (induction reads) (auto simp: chunksOf_def)

lemma readData_whole: "wholeReads ReadEOF reads \<Longrightarrow> readData reads = concat (chunksOf reads)"
proof (induction reads)
  case (Cons rd reads)
  obtain c e where "rd = (c, e)" by (cases rd)
  with Cons show ?case by (cases "reads = []") (auto simp: wholeReads_Cons concat_chunksOf)
qed (simp add: wholeReads_def)

lemma statusOr502_idem [simp]: "statusOr502 (statusOr502 x) = statusOr502 x"
  by (simp add: statusOr502_def)

lemma chunksOf_nonempty: "c \<in> set (chunksOf reads) \<Longrightarrow> c \<noteq> []"
  by (simp add: chunksOf_def)

lemma arrives_stream:
  assumes "sid \<noteq> []" "length sid \<le> 65535" "length tid \<le> 65535" "t \<in> {TypeHTTPRequestBody, TypeHTTPResponseBody}"
    and "envelopesKept js sid tid" "t1 \<in> streamTypes" "t2 \<in> streamTypes"
    and "NewStream js t1 sid tid p1 = Inr e1" "NewStream js t2 sid tid p2 = Inr e2"
  shows "arrives js tid (SentEnvelope e1 # map (SentBody t sid) cs @ [SentEnvelope e2])
    (envelopeMessage e1 # map (bodyMessage t sid tid) cs @ [envelopeMessage e2])"
proof -
  have b: "carried js tid (SentBody t sid c) = Inr (bodyMessage t sid tid c)" for c
    using assms(1-4) by (subst carried_body) (auto simp: bodyMessage_def)
  have e: "carried js tid (SentEnvelope e1) = Inr (envelopeMessage e1)" "carried js tid (SentEnvelope e2) = Inr (envelopeMessage e2)"
    using carried_envelope [OF assms(5)] assms(6-9) by (simp_all add: envelopeMessage_def del: carried.simps)
  show ?thesis unfolding arrives_def
    by (auto simp: e b list_all2_conv_all_nth nth_append nth_Cons' simp del: carried.simps intro!: list_all2_appendI)
qed

lemma chunkEvents_whole:
  assumes "\<forall>c \<in> set cs. int (length c) \<le> ac_StreamChunkBytes cfg" "env_Type e2 = TypeHTTPRequestEnd"
  shows "List.map_filter (chunkEvent js cfg) (map (bodyMessage TypeHTTPRequestBody sid tid) cs @ [envelopeMessage e2])
    = map (\<lambda>c. ChunkReceived (BodyData c)) cs @ [ChunkReceived BodyFinished]"
  using assms
  by (induction cs) (auto simp: List.map_filter_def chunkEvent_def bodyMessage_def envelopeMessage_def requestBodyData_def)

lemma handleHTTPStream_whole:
  fixes E cfg
  defines "js \<equiv> aw_json (se_wire E)"
  defines "limit \<equiv> (if ac_MaxResponseBodyBytes cfg \<le> 0 then defaultMaxResponseBodyBytes else ac_MaxResponseBodyBytes cfg)"
  assumes "sid \<noteq> []" "length sid \<le> 65535" "length tid \<le> 65535" "envelopesKept js sid tid" "aw_write (se_wire E) = (\<lambda>i. None)"
    and "buildLocalURL (se_url E) (ac_LocalTarget cfg) (rs_Path req) (rs_Query req) = Inr url"
    and "lc_newRequest (se_client E) (rs_Method req) url = None"
    and "lc_do (se_client E) (localRequestOf req url (concat cs)) = Some (LocalResponse status header reads)"
    and "wholeReads AgentEOF reads" "int (length (concat (chunksOf reads))) \<le> limit" "\<forall>c \<in> set cs. c \<noteq> []"
    and "NewStream js TypeHTTPResponseStart sid tid
      (PResponseStart \<lparr>rst_Status = statusOr502 status, rst_Header = StripHopByHopHeaders header\<rparr>) = Inr start"
    and "NewStream js TypeHTTPResponseEnd sid tid PNil = Inr fin" "env_StreamID env = sid"
  shows "\<exists>h. handleHTTPStream E cfg tid env req (\<lambda>i. True) (map (\<lambda>c. ChunkReceived (BodyData c)) cs @ [ChunkReceived BodyFinished]) = Some h \<and>
    hd_err h = None \<and> hd_sent h = SentEnvelope start # map (SentBody TypeHTTPResponseBody sid) (chunksOf reads) @ [SentEnvelope fin]"
proof -
  have ws: "agentWrite (se_wire E) out env' = (None, out @ [SentEnvelope env'])" if "t \<in> streamTypes" "NewStream js t sid tid p = Inr env'" for out t p env'
    using envelopesKept_write [OF assms(6) that] assms(7) by (auto simp: agentWrite_def js_def)
  have wb: "agentWriteBinaryBody (se_wire E) out TypeHTTPResponseBody sid tid c = (None, out @ [SentBody TypeHTTPResponseBody sid c])" for out c
    using frame_ok [OF assms(3-5), of TypeHTTPResponseBody c] assms(7) by (auto simp: agentWriteBinaryBody_def WriteBinaryBody_def)
  have body: "requestBodyFromChunks (\<lambda>i. True) (map (\<lambda>c. ChunkReceived (BodyData c)) cs @ [ChunkReceived BodyFinished])
      = ((concat cs, BodyEOF), int (length (concat cs)))"
    using copyChunks_whole [OF assms(13), of 0 "[]" 0] by (simp add: requestBodyFromChunks_def)
  have loop: "streamLimitedResponseBody reads (ac_MaxResponseBodyBytes cfg)
      (\<lambda>chunk out. agentWriteBinaryBody (se_wire E) out TypeHTTPResponseBody sid tid chunk) out
      = Some (int (length (concat (chunksOf reads))), None, out @ map (SentBody TypeHTTPResponseBody sid) (chunksOf reads))" for out
    using streamLoop_whole [where f = "SentBody TypeHTTPResponseBody sid" and n = 0, OF wb assms(11)] assms(12)
    by (simp add: streamLimitedResponseBody_def limit_def [symmetric])
  have st: "writeResponseStart (se_wire E) sid tid \<lparr>rst_Status = status, rst_Header = StripHopByHopHeaders header\<rparr> []
      = (None, [SentEnvelope start])"
    using assms(14) ws [OF _ assms(14)] by (simp add: writeResponseStart_def js_def streamTypes_def)
  show ?thesis
    using assms(8-10,15,16) st loop ws [OF _ assms(15)]
    by (simp add: handleHTTPStream_def Let_def body ForwardHTTPStream_def localRequestOf_def js_def streamTypes_def)
qed

lemma readStreamResponse_whole:
  assumes "DecodePayload (unResponseStart js) r1 = Inr resp" "env_Type r1 = TypeHTTPResponseStart" "env_Type r2 = TypeHTTPResponseEnd"
    and "statusOr502 (rst_Status resp) = rst_Status resp" "\<forall>c \<in> set cs. int (length c) \<le> ck"
    and "\<forall>i < length cs. wb (Suc i) = (length (cs ! i), None)"
  shows "readStreamResponse js wr wb s sid ck False res out []
      (map Received (envelopeMessage r1 # map (bodyMessage TypeHTTPResponseBody sid tid) cs @ [envelopeMessage r2])) =
    Some (res\<lparr>rr_Status := rst_Status resp, rr_ResponseBytes := rr_ResponseBytes res + int (length (concat cs))\<rparr>, None, out,
          PubStart resp # map (\<lambda>c. PubBody c (length c)) cs)"
proof -
  let ?ms = "map (bodyMessage TypeHTTPResponseBody sid tid) cs"
  have ms: "\<forall>m \<in> set ?ms. env_Type (msg_Envelope m) = TypeHTTPResponseBody \<and> msg_BinaryBody m \<and> int (length (msg_Body m)) \<le> ck"
    using assms(5) by (simp add: bodyMessage_def)
  have resp: "resp\<lparr>rst_Status := rst_Status resp\<rparr> = resp" by simp
  have "map msg_Body ?ms = cs" by (simp add: bodyMessage_def comp_def)
  moreover have "map (\<lambda>m. PubBody (msg_Body m) (length (msg_Body m))) ?ms = map (\<lambda>c. PubBody c (length c)) cs"
    by (simp add: bodyMessage_def)
  moreover have "\<forall>i < length ?ms. wb (length [PubStart resp] + i) = (length (msg_Body (?ms ! i)), None)"
    using assms(6) by (simp add: bodyMessage_def)
  ultimately show ?thesis
    using assms(1-4) readStreamResponse_bodies [OF ms, of wb "[PubStart resp]" js wr s sid "res\<lparr>rr_Status := rst_Status resp\<rparr>" out
        "[Received (envelopeMessage r2)]"]
    by (simp add: envelopeMessage_def Let_def resp)
qed

lemma streamRoundTrip_whole:
  assumes "acquireStream s = Inr s1" "as_pending s sid = None" "tid = ss_TunnelID (as_tunnel s)"
    and "sid \<noteq> []" "length sid \<le> 65535" "length tid \<le> 65535" "envelopesKept js sid tid"
    and "NewStream js TypeHTTPRequestStart sid tid (PRequestStart req) = Inr e1" "NewStream js TypeHTTPRequestEnd sid tid PNil = Inr e2"
    and "wholeReads ReadEOF reads" "0 < maxBody" "int (length (concat (chunksOf reads))) \<le> maxBody" "0 < chunkBytes"
    and "\<And>s' res out. readStreamResponse js (\<lambda>i. WOk) wb s' sid chunkBytes False res out [] evs = Some (f res, None, out, pub)"
  shows "streamRoundTrip js (\<lambda>i. WOk) wb s ch sid req (Some reads) maxBody chunkBytes evs =
    Some (f \<lparr>rr_Status = 0, rr_RequestBytes = int (length (concat (chunksOf reads))), rr_ResponseBytes = 0\<rparr>, None,
          SentEnvelope e1 # map (SentBody TypeHTTPRequestBody sid) (chunksOf reads) @ [SentEnvelope e2], pub, s)"
proof -
  have w: "sessionWrite js (\<lambda>i. WOk) out env = (WOk, out @ [SentEnvelope env])" if "t \<in> streamTypes" "NewStream js t sid tid p = Inr env" for out t p env
    using envelopesKept_write [OF assms(7) that] by (auto simp: sessionWrite_def)
  have tun: "ss_TunnelID (as_tunnel (addPending sid ch s1)) = tid"
    using assms(1,3) by (auto simp: acquireStream_def addPending_def split: if_splits option.splits)
  have body: "writeRequestBody (\<lambda>i. WOk) (addPending sid ch s1) sid (Some reads) maxBody out =
      Some (int (length (concat (chunksOf reads))), None, out @ map (SentBody TypeHTTPRequestBody sid) (chunksOf reads))" for out
    using writeBodyLoop_whole [of sid "addPending sid ch s1" reads 0 maxBody out] assms(4-6,10-12) tun
    by (simp add: writeRequestBody_def)
  show ?thesis
    using assms(1,8,9,13,14) restored [OF assms(1,2), of ch] w [OF _ assms(8)] w [OF _ assms(9)] body
    by (simp add: streamRoundTrip_def Let_def assms(3) [symmetric] streamTypes_def)
qed

section \<open>Lemmas on WebSockets\<close>

lemma pump_results [simp]:
  "al_up (upDone e st) = PumpReturned e" "al_down (upDone e st) = al_down st" "al_sent (upDone e st) = al_sent st"
  "al_local (upDone e st) = al_local st" "al_up (downDone e st) = al_up st" "al_down (downDone e st) = PumpReturned e"
  "al_sent (downDone e st) = al_sent st" "al_local (downDone e st) = al_local st"
  by (simp_all add: upDone_def downDone_def pumpResult_def)

lemma endAgentRelay_simps [simp]:
  "al_up (endAgentRelay c st) = al_up st" "al_down (endAgentRelay c st) = al_down st"
  "al_sent (endAgentRelay c st) = al_sent st" "al_local (endAgentRelay c st) = al_local st"
  "al_up (cancelAgentRelay st) = al_up st" "al_down (cancelAgentRelay st) = al_down st"
  "al_sent (cancelAgentRelay st) = al_sent st" "al_local (cancelAgentRelay st) = al_local st"
  by (simp_all add: endAgentRelay_def cancelAgentRelay_def)

lemma agentWrite_frames [simp]: "frames (snd (agentWrite w out env)) = frames out"
  by (auto simp: agentWrite_def split: sum.splits)

lemma close_frames: "closeOrCancelForLocalReadError w tid sid cs err out = (e, out') \<Longrightarrow> frames out' = frames out"
  by (auto simp: closeOrCancelForLocalReadError_def split: option.splits sum.splits)

lemma localReads_snoc: "localReads (evs @ [ev]) = localReads evs @ (case ev of LocalRead k d \<Rightarrow> [(k, d)] | _ \<Rightarrow> [])"
  by (simp add: localReads_def List.map_filter_def split: agent_event.splits)

lemma gatewayReads_snoc:
  "gatewayReads (evs @ [ev]) = gatewayReads evs @ (case ev of GatewayMsg m e \<Rightarrow> if isFrame m then [m] else [] | _ \<Rightarrow> [])"
  by (simp add: gatewayReads_def List.map_filter_def split: agent_event.splits)

lemma pumps_apart [simp]:
  "al_sent (pumpGatewayToLocal w ev st) = al_sent st" "al_up (pumpGatewayToLocal w ev st) = al_up st"
  "al_local (pumpLocalToGateway w tid sid ev st) = al_local st" "al_down (pumpLocalToGateway w tid sid ev st) = al_down st"
  by (auto simp: pumpGatewayToLocal_def pumpLocalToGateway_def Let_def split: agent_event.splits option.splits sum.splits prod.splits)

lemma agentWriteBinaryBody_frame:
  assumes "sid \<noteq> []" "length sid \<le> 65535" "length tid \<le> 65535"
  shows "agentWriteBinaryBody w out (if k = MessageText then TypeWSMessageText else TypeWSMessageBinary) sid tid d
    = (aw_write w (length out), out @ [toAgent sid (k, d)])"
  using frame_ok [OF assms, of "if k = MessageText then TypeWSMessageText else TypeWSMessageBinary" d]
  by (auto simp: agentWriteBinaryBody_def WriteBinaryBody_def toAgent_def)

lemma passedToGateway_step:
  assumes "sid \<noteq> []" "length sid \<le> 65535" "length tid \<le> 65535" "passedToGateway sid evs st"
  shows "passedToGateway sid (evs @ [ev]) (agentRelayStep w tid sid ev st)"
proof -
  from assms(4) obtain n where n: "frames (al_sent st) = map (toAgent sid) (take n (localReads evs))" "n \<le> length (localReads evs)"
      "al_up st = PumpRuns \<longrightarrow> n = length (localReads evs)" by (auto simp: passedToGateway_def)
  let ?st = "agentRelayStep w tid sid ev st"
  show ?thesis
  proof (cases "\<exists>k d. ev = LocalRead k d \<and> al_up st = PumpRuns")
    case True
    then obtain k d where ev: "ev = LocalRead k d" "al_up st = PumpRuns" by auto
    have "frames (al_sent ?st) = map (toAgent sid) (localReads (evs @ [ev]))"
      using ev n by (cases "aw_write w (length (al_sent st))")
        (simp_all add: agentRelayStep_def pumpLocalToGateway_def Let_def agentWriteBinaryBody_frame [OF assms(1-3)] localReads_snoc
          toAgent_def)
    then show ?thesis unfolding passedToGateway_def by (intro exI [of _ "length (localReads (evs @ [ev]))"]) simp
  next
    case False
    have "frames (al_sent ?st) = frames (al_sent st)"
      using False by (auto simp: agentRelayStep_def pumpLocalToGateway_def dest: close_frames split: agent_event.splits option.splits prod.splits)
    moreover have "al_up ?st = PumpRuns \<Longrightarrow> al_up st = PumpRuns \<and> localReads (evs @ [ev]) = localReads evs"
      using False by (cases "al_up st = PumpRuns")
        (auto simp: agentRelayStep_def pumpLocalToGateway_def localReads_snoc split: agent_event.splits option.splits prod.splits)
    ultimately show ?thesis unfolding passedToGateway_def
      by (intro exI [of _ n]) (use n in \<open>auto simp: localReads_snoc\<close>)
  qed
qed

lemma passedToLocal_step:
  assumes "passedToLocal evs st"
  shows "passedToLocal (evs @ [ev]) (agentRelayStep w tid sid ev st)"
proof -
  from assms obtain n where n: "localFrames (al_local st) = map toLocal (take n (gatewayReads evs))" "n \<le> length (gatewayReads evs)"
      "al_down st = PumpRuns \<longrightarrow> n = length (gatewayReads evs)" by (auto simp: passedToLocal_def)
  let ?st = "agentRelayStep w tid sid ev st"
  show ?thesis
  proof (cases "\<exists>m e. ev = GatewayMsg m e \<and> isFrame m \<and> al_down st = PumpRuns")
    case True
    then obtain m e where ev: "ev = GatewayMsg m e" "isFrame m" "al_down st = PumpRuns" by auto
    have "localFrames (al_local ?st) = map toLocal (gatewayReads (evs @ [ev]))"
      using ev n by (cases e)
        (auto simp: agentRelayStep_def pumpGatewayToLocal_def Let_def gatewayReads_snoc toLocal_def isFrame_def localFrames_def)
    then show ?thesis unfolding passedToLocal_def by (intro exI [of _ "length (gatewayReads (evs @ [ev]))"]) simp
  next
    case False
    have "localFrames (al_local ?st) = localFrames (al_local st)"
      using False by (cases ev) (auto simp: agentRelayStep_def pumpGatewayToLocal_def Let_def isFrame_def localFrames_def
          split: option.splits sum.splits)
    moreover have "al_down ?st = PumpRuns \<Longrightarrow> al_down st = PumpRuns \<and> gatewayReads (evs @ [ev]) = gatewayReads evs"
      using False by (cases "al_down st = PumpRuns"; cases ev)
        (auto simp: agentRelayStep_def pumpGatewayToLocal_def Let_def isFrame_def gatewayReads_snoc split: option.splits sum.splits if_splits)
    ultimately show ?thesis unfolding passedToLocal_def
      by (intro exI [of _ n]) (use n in \<open>auto simp: gatewayReads_snoc\<close>)
  qed
qed

lemma agent_passed:
  assumes "sid \<noteq> []" "length sid \<le> 65535" "length tid \<le> 65535" "frames out = []"
  shows "passedToGateway sid evs (fold (agentRelayStep w tid sid) evs (initAgentRelay out)) \<and>
    passedToLocal evs (fold (agentRelayStep w tid sid) evs (initAgentRelay out))"
proof (induction evs rule: rev_induct)
  case Nil
  then show ?case using assms(4)
    by (simp add: initAgentRelay_def passedToGateway_def passedToLocal_def localReads_def gatewayReads_def localFrames_def)
next
  case (snoc ev evs)
  then show ?case using passedToGateway_step [OF assms(1-3)] passedToLocal_step by simp
qed

text \<open>A frame of one side, read and passed on by the other.\<close>

lemma carried_toAgent:
  assumes "sid \<noteq> []" "length sid \<le> 65535" "length tid \<le> 65535" "carried js tid (toAgent sid kd) = Inr m"
  shows "isFrame m \<and> toLocal m = LocalFrame (fst (tunnelled kd)) (snd (tunnelled kd)) \<and>
    toPublic m = PubFrame (fst (tunnelled kd)) (snd (tunnelled kd))"
  using assms carried_body [OF assms(1-3), of "if fst kd = MessageText then TypeWSMessageText else TypeWSMessageBinary" js "snd kd"]
  by (auto simp: toAgent_def isFrame_def toLocal_def toPublic_def tunnelled_def split: if_splits)

lemma arrives_frames:
  assumes "sid \<noteq> []" "length sid \<le> 65535" "length tid \<le> 65535" "arrives js tid (map (toAgent sid) kds) ms"
  shows "map toLocal ms = map (\<lambda>kd. LocalFrame (fst (tunnelled kd)) (snd (tunnelled kd))) kds \<and>
    map toPublic ms = map (\<lambda>kd. PubFrame (fst (tunnelled kd)) (snd (tunnelled kd))) kds"
  using assms(4) unfolding arrives_def
proof (induction kds arbitrary: ms)
  case (Cons kd kds)
  then obtain m rest where m: "ms = m # rest" "carried js tid (toAgent sid kd) = Inr m"
      "list_all2 (\<lambda>m x. carried js tid m = Inr x) (map (toAgent sid) kds) rest"
    by (cases ms) (auto simp del: carried.simps)
  with Cons.IH carried_toAgent [OF assms(1-3) m(2)] show ?case by simp
qed simp

section \<open>Lemmas on the handshake\<close>

lemma answersRead_in: "answersRead H out \<Longrightarrow> hs_read H i = Inr m \<Longrightarrow> m \<in> set out"
  unfolding answersRead_def by (metis Inl_Inr_False Inr_inject nth_mem)

lemma answersRead_nth: "answersRead H out \<Longrightarrow> i < length out \<Longrightarrow> hs_read H i = Inr (out ! i)"
  unfolding answersRead_def by metis

lemma answersRead_end: "answersRead H out \<Longrightarrow> \<not> i < length out \<Longrightarrow> \<exists>e. hs_read H i = Inl e"
  unfolding answersRead_def by metis

lemma gatewayOK_valid: "validateAuthOK quo gatewayOK = None"
proof -
  have "IsProtocolVersionSupported ProtocolVersion" by code_simp
  then show ?thesis
    by (auto simp: validateAuthOK_def gatewayOK_def MissingRequiredCapabilities_Nil_iff DefaultProtocolCapabilities_def)
qed

lemma authError_type: "env_Type (authError js code message) \<noteq> TypeAuthOK"
  by (auto simp: authError_def zeroEnvelope_def NewEnvelope_def NewStream_def split: sum.splits)

lemma writeTunnelError_type: "m \<in> set (writeTunnelError js code message) \<Longrightarrow> env_Type m = TypeTunnelError"
  by (auto simp: writeTunnelError_def NewEnvelope_def NewStream_def split: sum.splits if_splits)

lemma authenticateAgent_out:
  assumes "authenticateAgent E s rd True w = (r, out, s1, w1)"
  shows "case r of
      Inl e \<Rightarrow> length out \<le> 1 \<and> (\<forall>m \<in> set out. env_Type m \<noteq> TypeAuthOK)
    | Inr identity \<Rightarrow> \<exists>ok env auth. out = [ok] \<and> NewEnvelope (ge_js E) TypeAuthOK (PAuthOK gatewayOK) = Inr ok \<and> rd = Some env \<and>
        DecodePayload (unAuthRequest (ge_js E)) env = Inr auth \<and> ai_AgentVersion identity = ar_AgentVersion auth"
  using assms
  by (auto simp: authenticateAgent_def Let_def gatewayOK_def authError_type split: option.splits if_splits sum.splits prod.splits)

lemma newTunnelSession_fields:
  "newTunnelSession E now draw s payload identity sub = Inr t \<Longrightarrow>
     ss_LocalTarget t = tr_LocalTarget payload \<and> ss_AgentVersion t = ai_AgentVersion identity"
  by (auto simp: newTunnelSession_def split: sum.splits)

lemma registerRequestedSubdomain_out:
  assumes "registerRequestedSubdomain E nt rt now tdraw s identity payload w = (r, out, s1, w1)"
  shows "case r of
      Inl e \<Rightarrow> \<forall>m \<in> set out. env_Type m = TypeTunnelError
    | Inr t \<Rightarrow> out = [] \<and> ss_LocalTarget t = tr_LocalTarget payload \<and> ss_AgentVersion t = ai_AgentVersion identity"
  using assms
  by (auto simp: registerRequestedSubdomain_def Let_def split: option.splits sum.splits prod.splits if_splits
      dest: writeTunnelError_type newTunnelSession_fields)

lemma randomAttempts_out:
  assumes "randomAttempts k E rt now sdraw tdraw s identity payload i err = (r, out, s1)"
  shows "case r of
      Inl e \<Rightarrow> \<forall>m \<in> set out. env_Type m = TypeTunnelError
    | Inr t \<Rightarrow> out = [] \<and> ss_LocalTarget t = tr_LocalTarget payload \<and> ss_AgentVersion t = ai_AgentVersion identity"
  using assms
proof (induction k arbitrary: i err)
  case 0
  then show ?case by (auto simp: Let_def dest: writeTunnelError_type)
next
  case (Suc k)
  then show ?case
    by (auto split: option.splits sum.splits if_splits dest: writeTunnelError_type newTunnelSession_fields)
qed

lemma registerTunnel_out:
  assumes "registerTunnel E nt rt now sdraw tdraw s rd True identity w = (r, out, s1, w1)"
  shows "case r of
      Inl e \<Rightarrow> \<forall>m \<in> set out. env_Type m \<noteq> TypeTunnelRegistered
    | Inr ses \<Rightarrow> \<exists>registered env reg. out = [registered] \<and> rd = Some env \<and> DecodePayload (unTunnelRegister (ge_js E)) env = Inr reg \<and>
        NewEnvelope (ge_js E) TypeTunnelRegistered (PTunnelRegistered (registeredFor (as_tunnel ses))) = Inr registered \<and>
        ss_LocalTarget (as_tunnel ses) = tr_LocalTarget reg \<and> ss_AgentVersion (as_tunnel ses) = ai_AgentVersion identity"
proof (cases "\<exists>env reg. rd = Some env \<and> env_Type env = TypeTunnelRegister \<and> DecodePayload (unTunnelRegister (ge_js E)) env = Inr reg \<and>
    tr_Protocol reg = ''http''")
  case True
  then obtain env reg where rd: "rd = Some env" "env_Type env = TypeTunnelRegister" "DecodePayload (unTunnelRegister (ge_js E)) env = Inr reg"
      "tr_Protocol reg = ''http''" by blast
  obtain q out1 s2 w2 where ts: "registerTunnelSession E nt rt now sdraw tdraw s identity reg w = (q, out1, s2, w2)"
    by (cases "registerTunnelSession E nt rt now sdraw tdraw s identity reg w") auto
  then have "case q of Inl e \<Rightarrow> \<forall>m \<in> set out1. env_Type m = TypeTunnelError
    | Inr t \<Rightarrow> out1 = [] \<and> ss_LocalTarget t = tr_LocalTarget reg \<and> ss_AgentVersion t = ai_AgentVersion identity"
    by (auto simp: registerTunnelSession_def registerRandomSubdomain_def split: if_splits prod.splits
        dest: registerRequestedSubdomain_out randomAttempts_out)
  with assms rd ts show ?thesis
    by (auto simp: registerTunnel_def Let_def registeredFor_def newAgentSession_def split: sum.splits)
qed (use assms in \<open>auto simp: registerTunnel_def dest: writeTunnelError_type split: option.splits if_splits sum.splits\<close>)

section \<open>Properties\<close>

text \<open>
  C4: HTTP requests cross the tunnel unchanged.  When the connection between gateway and agent works and
  the local service answers, the public request is answered with what the local service has sent: the
  local service gets the method, the path and query, the header without the hop-by-hop fields and the
  whole body of the request, and the public client gets the status, the header without the hop-by-hop
  fields and the whole body of the response, chunk by chunk in order.  The round trip ends, without an
  error on either side, and the slot of the stream is free again.
\<close>

theorem http_requests_cross_the_tunnel:
  assumes "acquireStream s = Inr s1" "as_pending s sid = None" "tid = ss_TunnelID (as_tunnel s)"
    and "sid \<noteq> []" "length sid \<le> 65535" "length tid \<le> 65535"
    and "aw_json (se_wire E) = js" "envelopesKept js sid tid" "aw_write (se_wire E) = (\<lambda>i. None)"
    and "payloadKept js (PRequestStart req) (unRequestStart js) req"
    and "resp = \<lparr>rst_Status = statusOr502 status, rst_Header = StripHopByHopHeaders header\<rparr>"
    and "payloadKept js (PResponseStart resp) (unResponseStart js) resp"
    and "wholeReads ReadEOF reads" "0 < maxBody" "int (length (readData reads)) \<le> maxBody"
    and "\<forall>c \<in> set (chunksOf reads). int (length c) \<le> ac_StreamChunkBytes cfg"
    and "buildLocalURL (se_url E) (ac_LocalTarget cfg) (rs_Path req) (rs_Query req) = Inr url"
    and "lc_newRequest (se_client E) (rs_Method req) url = None"
    and "lc_do (se_client E) (localRequestOf req url (readData reads)) = Some (LocalResponse status header reads2)"
    and "wholeReads AgentEOF reads2" "0 < ac_MaxResponseBodyBytes cfg"
    and "int (length (concat (chunksOf reads2))) \<le> ac_MaxResponseBodyBytes cfg"
    and "0 < chunkBytes" "\<forall>c \<in> set (chunksOf reads2). int (length c) \<le> chunkBytes"
    and "\<forall>i < length (chunksOf reads2). wb (Suc i) = (length (chunksOf reads2 ! i), None)"
  shows "\<exists>out ms h answers.
    streamRoundTrip js (\<lambda>i. WOk) wb s ch sid req (Some reads) maxBody chunkBytes (map Received answers) =
      Some (\<lparr>rr_Status = rst_Status resp, rr_RequestBytes = int (length (readData reads)),
             rr_ResponseBytes = int (length (concat (chunksOf reads2)))\<rparr>, None, out,
            PubStart resp # map (\<lambda>c. PubBody c (length c)) (chunksOf reads2), s) \<and>
    arrives js tid out ms \<and> agentSide E cfg tid ms = Some h \<and> hd_err h = None \<and> arrives js tid (hd_sent h) answers"
proof -
  note data = readData_whole [OF assms(13)]
  obtain e1 where e1: "NewStream js TypeHTTPRequestStart sid tid (PRequestStart req) = Inr e1"
      "DecodePayload (unRequestStart js) e1 = Inr req" "env_Type e1 = TypeHTTPRequestStart" "env_StreamID e1 = sid"
    using NewStream_kept [OF assms(10), of TypeHTTPRequestStart sid tid] by auto
  obtain r1 where r1: "NewStream js TypeHTTPResponseStart sid tid (PResponseStart resp) = Inr r1"
      "DecodePayload (unResponseStart js) r1 = Inr resp" "env_Type r1 = TypeHTTPResponseStart"
    using NewStream_kept [OF assms(12), of TypeHTTPResponseStart sid tid] by auto
  obtain e2 r2 where fin: "NewStream js TypeHTTPRequestEnd sid tid PNil = Inr e2" "env_Type e2 = TypeHTTPRequestEnd"
      "NewStream js TypeHTTPResponseEnd sid tid PNil = Inr r2" "env_Type r2 = TypeHTTPResponseEnd"
    using NewStream_nil [of TypeHTTPRequestEnd js sid tid] NewStream_nil [of TypeHTTPResponseEnd js sid tid] by force
  let ?out = "SentEnvelope e1 # map (SentBody TypeHTTPRequestBody sid) (chunksOf reads) @ [SentEnvelope e2]"
  let ?ms = "envelopeMessage e1 # map (bodyMessage TypeHTTPRequestBody sid tid) (chunksOf reads) @ [envelopeMessage e2]"
  let ?answers = "envelopeMessage r1 # map (bodyMessage TypeHTTPResponseBody sid tid) (chunksOf reads2) @ [envelopeMessage r2]"
  have "arrives js tid ?out ?ms" 
    by (rule arrives_stream [OF assms(4-6) _ assms(8) _ _ e1(1) fin(1)]) (simp_all add: streamTypes_def)
  moreover have "\<exists>h. handleHTTPStream E cfg tid e1 req (\<lambda>i. True)
        (map (\<lambda>c. ChunkReceived (BodyData c)) (chunksOf reads) @ [ChunkReceived BodyFinished]) = Some h \<and> hd_err h = None \<and>
      hd_sent h = SentEnvelope r1 # map (SentBody TypeHTTPResponseBody sid) (chunksOf reads2) @ [SentEnvelope r2]"
    by (rule handleHTTPStream_whole [where status = status and header = header and url = url])
       (use assms(4-6,8,9,17-22) r1(1) fin(3) e1(4) in \<open>simp_all add: assms(7,11) data chunksOf_nonempty\<close>)
  then obtain h where h: "handleHTTPStream E cfg tid e1 req (\<lambda>i. True)
        (map (\<lambda>c. ChunkReceived (BodyData c)) (chunksOf reads) @ [ChunkReceived BodyFinished]) = Some h" "hd_err h = None"
      "hd_sent h = SentEnvelope r1 # map (SentBody TypeHTTPResponseBody sid) (chunksOf reads2) @ [SentEnvelope r2]"
    by blast
  moreover have "agentSide E cfg tid ?ms = Some h"
    using h(1) e1(2,3) chunkEvents_whole [OF assms(16) fin(2), of js sid tid]
    by (simp add: agentSide_def assms(7) Let_def) (simp add: envelopeMessage_def)
  moreover have "arrives js tid (hd_sent h) ?answers"
    unfolding h(3) by (rule arrives_stream [OF assms(4-6) _ assms(8) _ _ r1(1) fin(3)]) (simp_all add: streamTypes_def)
  moreover have "streamRoundTrip js (\<lambda>i. WOk) wb s ch sid req (Some reads) maxBody chunkBytes (map Received ?answers) =
      Some (\<lparr>rr_Status = rst_Status resp, rr_RequestBytes = int (length (readData reads)),
             rr_ResponseBytes = int (length (concat (chunksOf reads2)))\<rparr>, None, ?out,
            PubStart resp # map (\<lambda>c. PubBody c (length c)) (chunksOf reads2), s)"
    using streamRoundTrip_whole [OF assms(1-6,8) e1(1) fin(1) assms(13,14) _ assms(23)
        readStreamResponse_whole [OF r1(2,3) fin(4) _ assms(24,25)], of ch] assms(11,15)
    by (simp add: data)
  ultimately show ?thesis by blast
qed

theorem http_requests_cross_the_tunnel_witness:
  "\<exists>out ms h answers.
    streamRoundTrip echoJSON (\<lambda>i. WOk) (\<lambda>i. (2, None)) demoAgent 0 ''str_1'' echoStart (Some [(''hi'', Some ReadEOF)]) 1024 1024
      (map Received answers) =
      Some (\<lparr>rr_Status = 200, rr_RequestBytes = 2, rr_ResponseBytes = 2\<rparr>, None, out, [PubStart echoResponse, PubBody ''hi'' 2], demoAgent) \<and>
    agentSide echoEnv oneConfig (ss_TunnelID (as_tunnel demoAgent)) ms = Some h \<and> hd_err h = None"
proof -
  let ?tid = "ss_TunnelID (as_tunnel demoAgent)"
  have acq: "acquireStream demoAgent = Inr demoAgent" "as_pending demoAgent ''str_1'' = None" "length ?tid \<le> 65535"
    by (simp_all add: acquireStream_def demoAgent_def demoSession_def)
  have kept: "envelopesKept echoJSON ''str_1'' ?tid"
    by (auto simp: envelopesKept_def streamTypes_def NewStream_def echoJSON_def split: sum.splits)
  have pay: "payloadKept echoJSON (PRequestStart echoStart) (unRequestStart echoJSON) echoStart"
    "payloadKept echoJSON (PResponseStart echoResponse) (unResponseStart echoJSON) echoResponse"
    by (simp_all add: payloadKept_def echoJSON_def oneJSON_def)
  have resp: "echoResponse = \<lparr>rst_Status = statusOr502 200, rst_Header = StripHopByHopHeaders Map.empty\<rparr>"
    by (simp add: echoResponse_def statusOr502_def)
  have url: "\<exists>url. buildLocalURL (se_url echoEnv) (ac_LocalTarget oneConfig) (rs_Path echoStart) (rs_Query echoStart) = Inr url"
    by (simp add: buildLocalURL_def echoEnv_def wsURLs_def oneConfig_def Let_def)
  then obtain url where url: "buildLocalURL (se_url echoEnv) (ac_LocalTarget oneConfig) (rs_Path echoStart) (rs_Query echoStart) = Inr url" ..
  have reads: "wholeReads ReadEOF [(''hi'', Some ReadEOF)]" "chunksOf [(''hi'', Some ReadEOF)] = [''hi'']"
    "wholeReads AgentEOF [(''hi'', Some AgentEOF)]" "chunksOf [(''hi'', Some AgentEOF)] = [''hi'']"
    by (simp_all add: wholeReads_def chunksOf_def)
  have do: "lc_do (se_client echoEnv) (localRequestOf echoStart url (readData [(''hi'', Some ReadEOF)]))
      = Some (LocalResponse 200 Map.empty [(''hi'', Some AgentEOF)])"
    by (simp add: echoEnv_def localRequestOf_def)
  have wires: "aw_json (se_wire echoEnv) = echoJSON" "aw_write (se_wire echoEnv) = (\<lambda>i. None)"
    "lc_newRequest (se_client echoEnv) (rs_Method echoStart) url = None" "rst_Status echoResponse = 200"
    "ac_StreamChunkBytes oneConfig = 32768" "ac_MaxResponseBodyBytes oneConfig = 1048576"
    by (simp_all add: echoEnv_def echoResponse_def oneConfig_def agentDefaultStreamChunkBytes_def defaultMaxResponseBodyBytes_def)
  have "\<exists>out ms h answers.
    streamRoundTrip echoJSON (\<lambda>i. WOk) (\<lambda>i. (2, None)) demoAgent 0 ''str_1'' echoStart (Some [(''hi'', Some ReadEOF)]) 1024 1024
      (map Received answers) =
      Some (\<lparr>rr_Status = rst_Status echoResponse, rr_RequestBytes = int (length (readData [(''hi'', Some ReadEOF)])),
             rr_ResponseBytes = int (length (concat (chunksOf [(''hi'', Some AgentEOF)])))\<rparr>, None, out,
            PubStart echoResponse # map (\<lambda>c. PubBody c (length c)) (chunksOf [(''hi'', Some AgentEOF)]), demoAgent) \<and>
    arrives echoJSON ?tid out ms \<and> agentSide echoEnv oneConfig ?tid ms = Some h \<and> hd_err h = None \<and> arrives echoJSON ?tid (hd_sent h) answers"
    by (rule http_requests_cross_the_tunnel [OF acq(1,2) refl _ _ acq(3) wires(1) kept wires(2) pay(1) resp pay(2) reads(1) _ _ _ url
          wires(3) do reads(3)]) (simp_all add: reads(2,4) wires)
  moreover have sizes: "int (length (readData [(''hi'', Some ReadEOF)])) = 2" "int (length (concat [''hi''])) = 2"
    "map (\<lambda>c. PubBody c (length c)) [''hi''] = [PubBody ''hi'' 2]" by simp_all
  ultimately show ?thesis unfolding reads wires sizes by blast
qed

text \<open>
  C5: WebSocket messages cross the tunnel in both directions: however the pumps of gateway and agent are
  interleaved, the local service gets the first messages of the public client and the public client the
  first messages of the local service, each once, in order, with its bytes, and text as text.  While the
  pumps run and the connection has delivered everything, no message is missing.
\<close>

theorem websocket_messages_cross_the_tunnel:
  assumes "framable s w" "sid = wst_streamID w" "tid = ss_TunnelID (as_tunnel s)" "frames gout = []" "frames aout = []"
    and "gst = relayRun js wr s w gevs (initRelay gout)" "ast = fold (agentRelayStep aw tid sid) aevs (initAgentRelay aout)"
    and "arrives js tid (take i (frames (ry_sent gst))) (gatewayReads aevs)"
    and "arrives js tid (take j (frames (al_sent ast))) (downReads gevs)"
  shows "(\<exists>n. localFrames (al_local ast) = map (\<lambda>kd. LocalFrame (fst (tunnelled kd)) (snd (tunnelled kd))) (take n (upReads gevs)) \<and>
      (ry_up gst = Running \<and> length (frames (ry_sent gst)) \<le> i \<and> al_down ast = PumpRuns \<longrightarrow> n = length (upReads gevs))) \<and>
    (\<exists>n. pubFrames (ry_pub gst) = map (\<lambda>kd. PubFrame (fst (tunnelled kd)) (snd (tunnelled kd))) (take n (localReads aevs)) \<and>
      (al_up ast = PumpRuns \<and> length (frames (al_sent ast)) \<le> j \<and> ry_down gst = Running \<longrightarrow> n = length (localReads aevs)))"
proof -
  have ids: "sid \<noteq> []" "length sid \<le> 65535" "length tid \<le> 65535" using assms(1-3) by (simp_all add: framable_def)
  from passed_run [OF assms(1,4), of gevs js wr] obtain a b where
    g: "frames (ry_sent gst) = map (toAgent sid) (take a (upReads gevs))" "a \<le> length (upReads gevs)"
       "ry_up gst = Running \<longrightarrow> a = length (upReads gevs)" "pubFrames (ry_pub gst) = map toPublic (take b (downReads gevs))"
       "ry_down gst = Running \<longrightarrow> b = length (downReads gevs)"
    unfolding assms(2,6) passedUp_def passedDown_def by blast
  from agent_passed [OF ids assms(5), of aevs aw] obtain c d where
    l: "frames (al_sent ast) = map (toAgent sid) (take c (localReads aevs))" "c \<le> length (localReads aevs)"
       "al_up ast = PumpRuns \<longrightarrow> c = length (localReads aevs)" "localFrames (al_local ast) = map toLocal (take d (gatewayReads aevs))"
       "al_down ast = PumpRuns \<longrightarrow> d = length (gatewayReads aevs)"
    unfolding assms(7) passedToGateway_def passedToLocal_def by blast
  have up: "map toLocal (gatewayReads aevs) = map (\<lambda>kd. LocalFrame (fst (tunnelled kd)) (snd (tunnelled kd))) (take i (take a (upReads gevs)))"
    using arrives_frames [OF ids, of js "take i (take a (upReads gevs))" "gatewayReads aevs"] assms(8) g(1) by (simp add: take_map)
  have down: "map toPublic (downReads gevs) = map (\<lambda>kd. PubFrame (fst (tunnelled kd)) (snd (tunnelled kd))) (take j (take c (localReads aevs)))"
    using arrives_frames [OF ids, of js "take j (take c (localReads aevs))" "downReads gevs"] assms(9) l(1) by (simp add: take_map)
  have len: "length (gatewayReads aevs) = min i a" "length (downReads gevs) = min j c"
    using up down g(2) l(2) by (simp_all add: list_eq_iff_nth_eq)
  have "localFrames (al_local ast) = map (\<lambda>kd. LocalFrame (fst (tunnelled kd)) (snd (tunnelled kd))) (take (min d (min i a)) (upReads gevs))"
    using l(4) up by (simp add: take_map [symmetric] min.assoc)
  moreover have "pubFrames (ry_pub gst) = map (\<lambda>kd. PubFrame (fst (tunnelled kd)) (snd (tunnelled kd))) (take (min b (min j c)) (localReads aevs))"
    using g(4) down by (simp add: take_map [symmetric] min.assoc)
  moreover have "length (frames (ry_sent gst)) = a" "length (frames (al_sent ast)) = c" using g(1,2) l(1,2) by simp_all
  then have "ry_up gst = Running \<and> length (frames (ry_sent gst)) \<le> i \<and> al_down ast = PumpRuns \<longrightarrow> min d (min i a) = length (upReads gevs)"
    "al_up ast = PumpRuns \<and> length (frames (al_sent ast)) \<le> j \<and> ry_down gst = Running \<longrightarrow> min b (min j c) = length (localReads aevs)"
    using g(3,5) l(3,5) len by (auto simp: min_def)
  ultimately show ?thesis by blast
qed

theorem websocket_messages_cross_the_tunnel_witness:
  "let w = \<lparr>wst_streamID = ''str_1'', wst_closed = False\<rparr>; tid = ss_TunnelID (as_tunnel demoAgent);
       gst = relayRun demoJSON (\<lambda>i. WOk) demoAgent w [UpRead MessageText ''hi''] (initRelay []);
       ast = fold (agentRelayStep oneWire tid ''str_1'') [GatewayMsg (bodyMessage TypeWSMessageText ''str_1'' tid ''hi'') None] (initAgentRelay [])
   in localFrames (al_local ast) = [LocalFrame MessageText ''hi'']"
proof -
  let ?w = "\<lparr>wst_streamID = ''str_1'', wst_closed = False\<rparr>" and ?tid = "ss_TunnelID (as_tunnel demoAgent)"
  let ?m = "bodyMessage TypeWSMessageText ''str_1'' ?tid ''hi''"
  let ?gevs = "[UpRead MessageText ''hi'']" and ?aevs = "[GatewayMsg ?m None]"
  let ?gst = "relayRun demoJSON (\<lambda>i. WOk) demoAgent ?w ?gevs (initRelay [])"
  let ?ast = "fold (agentRelayStep oneWire ?tid ''str_1'') ?aevs (initAgentRelay [])"
  have f: "framable demoAgent ?w" "frames [] = []" by (simp_all add: framable_def frames_def demoAgent_def demoSession_def)
  have sent: "ry_up ?gst = Running" "frames (ry_sent ?gst) = [toAgent ''str_1'' (MessageText, ''hi'')]"
    using SendMessage_frame [OF f(1), of "\<lambda>i. WOk" "[]" MessageText "''hi''"]
    by (auto simp: initRelay_def pumpPublicToAgent_def pumpAgentToPublic_def SendMessage_def writeBinaryBody_def toAgent_def Let_def
        split: sum.splits)
  have reads: "gatewayReads ?aevs = [?m]" "localReads ?aevs = []" "downReads ?gevs = []" "upReads ?gevs = [(MessageText, ''hi'')]"
    by (simp_all add: gatewayReads_def localReads_def downReads_def upReads_def List.map_filter_def isFrame_def bodyMessage_def)
  have runs: "al_down ?ast = PumpRuns"
    by (simp add: agentRelayStep_def pumpLocalToGateway_def pumpGatewayToLocal_def initAgentRelay_def Let_def bodyMessage_def)
  have up: "arrives demoJSON ?tid (take 1 (frames (ry_sent ?gst))) (gatewayReads ?aevs)"
    using carried_body [of "''str_1''" ?tid TypeWSMessageText demoJSON "''hi''"]
    unfolding arrives_def sent reads
    by (simp add: toAgent_def bodyMessage_def demoAgent_def demoSession_def del: carried.simps)
  have down: "arrives demoJSON ?tid (take 0 (frames (al_sent ?ast))) (downReads ?gevs)" by (simp add: arrives_def reads)
  have sid: "''str_1'' = wst_streamID ?w" and all: "length (frames (ry_sent ?gst)) \<le> 1" unfolding sent(2) by simp_all
  obtain n where "localFrames (al_local ?ast) = map (\<lambda>kd. LocalFrame (fst (tunnelled kd)) (snd (tunnelled kd))) (take n (upReads ?gevs))"
      "n = length (upReads ?gevs)"
    using websocket_messages_cross_the_tunnel [OF f(1) sid refl f(2) f(2) refl refl up down] sent(1) all runs by blast
  moreover have "map (\<lambda>kd. LocalFrame (fst (tunnelled kd)) (snd (tunnelled kd))) (take (length (upReads ?gevs)) (upReads ?gevs))
      = [LocalFrame MessageText ''hi'']"
    unfolding reads by (simp add: tunnelled_def)
  ultimately show ?thesis unfolding Let_def by (metis (no_types))
qed

text \<open>
  C6: The two sides of a handshake agree on its outcome.  When the agent reads what the gateway answers, it
  gets a tunnel exactly if the gateway has registered one, and then it is that tunnel: the id, the public
  URL and the subdomain of the session of the gateway, which in turn has the local target and the version
  of the agent.
\<close>

theorem handshake_agrees:
  assumes "hs_write H = (\<lambda>i. None)"
    and "payloadKept (hs_json H) (PAuthRequest (agentAuthRequest cfg)) (unAuthRequest (ge_js E)) (agentAuthRequest cfg)"
    and "payloadKept (hs_json H) (PTunnelRegister (agentTunnelRegister cfg)) (unTunnelRegister (ge_js E)) (agentTunnelRegister cfg)"
    and "payloadKept (ge_js E) (PAuthOK gatewayOK) (unAuthOK (hs_json H)) gatewayOK"
    and "\<And>session. res = Inr session \<Longrightarrow> payloadKept (ge_js E) (PTunnelRegistered (registeredFor (as_tunnel session)))
           (unTunnelRegistered (hs_json H)) (registeredFor (as_tunnel session))"
    and "NewEnvelope (hs_json H) TypeAuthRequest (PAuthRequest (agentAuthRequest cfg)) = Inr auth"
    and "NewEnvelope (hs_json H) TypeTunnelRegister (PTunnelRegister (agentTunnelRegister cfg)) = Inr reg"
    and "handleAgentWebSocket E nt rt now sdraw tdraw s (Some auth) True (Some reg) True w = (res, out, s', w')" "answersRead H out"
  shows "((\<exists>session. res = Inr session) \<longleftrightarrow> fst (agentAuthenticate H cfg) = None \<and> (\<exists>r. fst (agentRegisterTunnel H cfg) = Inr r)) \<and>
    (\<forall>session. res = Inr session \<longrightarrow>
       fst (agentRegisterTunnel H cfg) = Inr (registeredFor (as_tunnel session)) \<and>
       ss_LocalTarget (as_tunnel session) = ac_LocalTarget cfg \<and> ss_AgentVersion (as_tunnel session) = ac_AgentVersion cfg)"
proof -
  have decoded: "DecodePayload (unAuthRequest (ge_js E)) auth = Inr (agentAuthRequest cfg)"
    "DecodePayload (unTunnelRegister (ge_js E)) reg = Inr (agentTunnelRegister cfg)"
    using assms(2,3,6,7) by (auto simp: payloadKept_def NewEnvelope_def NewStream_def marshalPayload_def DecodePayload_def)
  have accepted: "fst (agentAuthenticate H cfg) = None" if "hs_read H 0 = Inr ok" "NewEnvelope (ge_js E) TypeAuthOK (PAuthOK gatewayOK) = Inr ok" for ok
  proof -
    have "env_Type ok = TypeAuthOK" "DecodePayload (unAuthOK (hs_json H)) ok = Inr gatewayOK"
      using that(2) assms(4) by (auto simp: payloadKept_def NewEnvelope_def NewStream_def marshalPayload_def DecodePayload_def)
    with that(1) show ?thesis by (simp add: agentAuthenticate_def assms(1,6) gatewayOK_valid)
  qed
  obtain r1 out1 s1 w1 where a: "authenticateAgent E s (Some auth) True w = (r1, out1, s1, w1)"
    by (cases "authenticateAgent E s (Some auth) True w") auto
  show ?thesis
  proof (cases r1)
    case (Inl e)
    then have "out = out1" "res = Inl e" using assms(8) a by (simp_all add: handleAgentWebSocket_def)
    then have "\<And>m. hs_read H 0 = Inr m \<Longrightarrow> env_Type m \<noteq> TypeAuthOK"
      using authenticateAgent_out [OF a] Inl answersRead_in [OF assms(9)] by auto
    then have "fst (agentAuthenticate H cfg) \<noteq> None"
      by (auto simp: agentAuthenticate_def assms(1,6) split: sum.splits)
    with \<open>res = Inl e\<close> show ?thesis by simp
  next
    case (Inr identity)
    obtain ok where ok: "out1 = [ok]" "NewEnvelope (ge_js E) TypeAuthOK (PAuthOK gatewayOK) = Inr ok"
        "ai_AgentVersion identity = ac_AgentVersion cfg"
      using authenticateAgent_out [OF a] Inr decoded(1) by (auto simp: agentAuthRequest_def)
    obtain r2 out2 s2 w2 where t: "registerTunnel E nt rt now sdraw tdraw s1 (Some reg) True identity w1 = (r2, out2, s2, w2)"
      by (cases "registerTunnel E nt rt now sdraw tdraw s1 (Some reg) True identity w1") auto
    have res: "out = ok # out2" "res = r2" using assms(8) a t Inr ok(1) by (auto simp: handleAgentWebSocket_def split: sum.splits)
    then have "hs_read H 0 = Inr ok" and second: "out2 \<noteq> [] \<and> hs_read H 1 = Inr (out2 ! 0) \<or> out2 = [] \<and> (\<exists>e. hs_read H 1 = Inl e)"
      using answersRead_nth [OF assms(9), of 0] answersRead_nth [OF assms(9), of 1] answersRead_end [OF assms(9), of 1]
      by (cases out2; simp)+
    then have auth: "fst (agentAuthenticate H cfg) = None" using accepted ok(2) by blast
    show ?thesis
    proof (cases r2)
      case (Inl e)
      then have "\<And>m. hs_read H 1 = Inr m \<Longrightarrow> env_Type m \<noteq> TypeTunnelRegistered"
        using registerTunnel_out [OF t] second by (cases out2) auto
      then have "\<nexists>r. fst (agentRegisterTunnel H cfg) = Inr r"
        by (auto simp: agentRegisterTunnel_def assms(1,7) split: sum.splits)
      with res Inl show ?thesis by simp
    next
      case (Inr session)
      obtain registered where rg: "out2 = [registered]" "ss_LocalTarget (as_tunnel session) = ac_LocalTarget cfg"
          "NewEnvelope (ge_js E) TypeTunnelRegistered (PTunnelRegistered (registeredFor (as_tunnel session))) = Inr registered"
          "ss_AgentVersion (as_tunnel session) = ac_AgentVersion cfg"
        using registerTunnel_out [OF t] Inr decoded(2) ok(3) by (auto simp: agentTunnelRegister_def)
      moreover have "env_Type registered = TypeTunnelRegistered"
        "DecodePayload (unTunnelRegistered (hs_json H)) registered = Inr (registeredFor (as_tunnel session))"
        using rg(3) assms(5) [of session] res(2) Inr
        by (auto simp: payloadKept_def NewEnvelope_def NewStream_def marshalPayload_def DecodePayload_def)
      ultimately have "fst (agentRegisterTunnel H cfg) = Inr (registeredFor (as_tunnel session))"
        using second by (simp add: agentRegisterTunnel_def assms(1,7))
      with auth rg res Inr show ?thesis by auto
    qed
  qed
qed

theorem handshake_agrees_witness:
  "\<exists>out. handshakeRun = (Inr demoConnected, out, demoRunning, ()) \<and>
     fst (agentAuthenticate (handshakeReads out) handshakeConfig) = None \<and>
     fst (agentRegisterTunnel (handshakeReads out) handshakeConfig) = Inr (registeredFor demoTunnel)"
proof -
  obtain out where run: "handshakeRun = (Inr demoConnected, out, demoRunning, ())" using handshakeRun_ok by blast
  let ?H = "handshakeReads out"
  have ask: "agentAuthRequest handshakeConfig = demoAuth" "agentTunnelRegister handshakeConfig = demoRegister"
    by (simp_all add: agentAuthRequest_def agentTunnelRegister_def handshakeConfig_def oneConfig_def demoAuth_def demoRegister_def
        defaultToken_def ProtocolVersion_def)
  have env: "NewEnvelope (hs_json ?H) TypeAuthRequest (PAuthRequest (agentAuthRequest handshakeConfig)) = Inr (demoEnvelope TypeAuthRequest)"
    "NewEnvelope (hs_json ?H) TypeTunnelRegister (PTunnelRegister (agentTunnelRegister handshakeConfig)) = Inr (demoEnvelope TypeTunnelRegister)"
    "hs_write ?H = (\<lambda>i. None)" "answersRead ?H out"
    by (simp_all add: handshakeReads_def NewEnvelope_def NewStream_def marshalPayload_def demoJSON_def demoEnvelope_def answersRead_def)
  have kept: "payloadKept (hs_json ?H) (PAuthRequest (agentAuthRequest handshakeConfig)) (unAuthRequest (ge_js handshakeEnv)) (agentAuthRequest handshakeConfig)"
    "payloadKept (hs_json ?H) (PTunnelRegister (agentTunnelRegister handshakeConfig)) (unTunnelRegister (ge_js handshakeEnv)) (agentTunnelRegister handshakeConfig)"
    "payloadKept (ge_js handshakeEnv) (PAuthOK gatewayOK) (unAuthOK (hs_json ?H)) gatewayOK"
    "Inr demoConnected = Inr session \<Longrightarrow> payloadKept (ge_js handshakeEnv) (PTunnelRegistered (registeredFor (as_tunnel session)))
       (unTunnelRegistered (hs_json ?H)) (registeredFor (as_tunnel session))" for session
    unfolding ask
    by (auto simp: payloadKept_def handshakeReads_def handshakeEnv_def demoJSON_def demoConnected_tunnel)
  note agree = handshake_agrees [OF env(3) kept env(1,2) run [unfolded handshakeRun_def] env(4)]
  have "fst (agentAuthenticate ?H handshakeConfig) = None"
    "fst (agentRegisterTunnel ?H handshakeConfig) = Inr (registeredFor (as_tunnel demoConnected))"
    using agree by blast+
  with run show ?thesis unfolding demoConnected_tunnel by blast
qed

end
