(* ===== verification/Spec2Isabelle.thy ===== *)
theory Spec2Isabelle
  imports Names Headers Messages Registry Tokens AdminTokens Reserved CustomDomains Access RateLimit StreamDeadline
    Session Delivery RequestLog AuditLog ClientIP GatewayConfig Backends Metrics Gateway Registration PublicBase WSRelay PublicRequest Management GatewayRun
    ControlRun System AgentRun Tunnel
begin

text \<open>
  \<^bold>\<open>Verification of porthook\<close>

  porthook is a self-hosted HTTP tunnel.  An \<^emph>\<open>agent\<close> (\<open>agent/\<close>) behind a firewall keeps one WebSocket
  connection to a public \<^emph>\<open>gateway\<close> (\<open>server/gateway\<close>), which sends it the HTTP requests and WebSockets
  of the public clients of its subdomain; the agent forwards them to a local service.  A \<^emph>\<open>control plane\<close>
  (\<open>server/control-plane\<close>) keeps the tokens, reserved subdomains, access policies and custom domains that the
  gateway asks it about over HTTP.  Gateway and agent share \<open>protocol/\<close>, the servers \<open>server/internal\<close>.

  \<^bold>\<open>Conventions.\<close>  Strings and byte slices are \<open>string\<close>; a result \<open>(T, error)\<close> is a sum with the error on
  the left, a lone error an option; a struct is a record, an enumeration a datatype.  Times and durations
  are integers of nanoseconds, and \<open>wrap64\<close> is written where the code can overflow; counters of the
  metrics are 64-bit words.  Go maps are HOL maps, and where the code ranges over one the order is an
  argument.  Random numbers, clocks, hashes, the network, \<open>net/url\<close> and \<open>encoding/json\<close> are arguments.
  Goroutines that share state are step relations with one rule per atomic step; a goroutine on its own is
  a function of what it receives, and \<^term>\<open>None\<close> means that it is still waiting.

  \<^bold>\<open>Shared theories.\<close>  \<open>Prelude\<close> has the functions of package \<open>strings\<close>, 64-bit arithmetic and lemmas on
  maps and lists; \<open>Stores\<close> the locale of a store with a secondary index, interpreted for every memory store;
  \<open>RingLog\<close> the locale of the ring buffers of both logs; \<open>Encodings\<close> base64, hexadecimal and decimal numbers;
  \<open>NetIP\<close> addresses and prefixes; \<open>Float64\<close> rounding to binary64 with its error, which the rate limiter
  uses.

  \<^bold>\<open>Protocol.\<close>  \<open>Names\<close> (\<open>names/subdomain.go\<close>), \<open>Headers\<close> (\<open>httpwire\<close>) and \<open>Messages\<close> (\<open>messages\<close>, \<open>wsproxy\<close>,
  \<open>wswire\<close>): labels, header rewriting, envelopes, negotiation, and binary frames, which are coded one to one.

  \<^bold>\<open>Control plane.\<close>  One theory per service over its memory store: \<open>Tokens\<close>, \<open>AdminTokens\<close>, \<open>Reserved\<close>,
  \<open>CustomDomains\<close>, \<open>Access\<close> with \<open>Password\<close>, and \<open>AuditLog\<close>.  They show that a revoked token never validates
  again, that a reserved name is granted to its owner only, that an active domain was verified, and that
  \<open>CheckPolicy\<close> decides exactly what the policy says.  \<open>ControlConfig\<close> is the configuration, \<open>ControlBase\<close> the
  server state, authorisation, JSON bodies and audit, \<open>ControlPlane\<close> the handlers, the routing and the
  proxy to the gateway.  \<open>ControlRun\<close> shows for every request that what it changes is one authorised and
  audited operation of one service, and that the records stay well formed.

  \<^bold>\<open>Gateway.\<close>  \<open>Registry\<close>, \<open>RateLimit\<close> (limiter and throttle), \<open>StreamDeadline\<close>, \<open>ClientIP\<close> (with request
  ids), \<open>RequestLog\<close>, \<open>Metrics\<close> and \<open>GatewayConfig\<close> are single components.  \<open>Session\<close> is the connection to one
  agent and the round trip of a request (\<open>session.go\<close>, \<open>wsstream.go\<close>); \<open>Delivery\<close> the interleaving of its
  goroutines.  \<open>Backends\<close> is the client of the control plane and the cache of domains; \<open>Gateway\<close> the server
  state and the routing of hosts, \<open>Registration\<close> the handshake with agents, \<open>PublicBase\<close>, \<open>WSRelay\<close> and
  \<open>PublicRequest\<close> the public side, \<open>Management\<close> the management API.  \<open>GatewayRun\<close> shows that in every reachable
  state a request reaches only the agent that registered the subdomain, and what the production checks give.

  \<^bold>\<open>Agent.\<close>  \<open>AgentConfig\<close> (configuration, configuration file, URLs, delays), \<open>AgentForward\<close> (HTTP requests),
  \<open>AgentWS\<close> (WebSockets), \<open>AgentStreams\<close> (read loop and table of streams, interleaved with the goroutines of
  the streams), and \<open>AgentRun\<close> (handshake and reconnection): it shows which failures are retried, after which
  delay, and which end the agent.

  \<^bold>\<open>The parts together.\<close>  \<open>System\<close> connects the HTTP client of the gateway to the handlers of the control
  plane, over a network that may lose calls, while other clients change the records: decisions follow the
  stored policies, and an agent has a tunnel only for a live token.  \<open>Tunnel\<close> connects gateway and agent:
  requests and responses cross the tunnel unchanged, and both sides of a handshake agree.

  \<^bold>\<open>Bounds.\<close>  The models run without fuel, with these exceptions: \<open>trimFuel\<close> (\<open>TrimSpace\<close>) has the length of its text
  as fuel, since every step removes a byte; \<open>ParseDuration\<close> likewise; the parser of IPv6 addresses in \<open>NetIP\<close> has one
  step for each of the eight groups; \<open>randomAttempts\<close> has the attempts of the code.  \<open>AgentForward\<close> shows that the
  handler of a stream returns whenever the local service answers and its response ends.  Byte counters that add
  the lengths of data in memory are not wrapped, nor is the counter of request log entries.  Lookups in the cache of
  custom domains are modelled one after the other.  Path cleaning and redirects of \<open>http.ServeMux\<close> are left out.

  \<^bold>\<open>Not modelled.\<close>  The PostgreSQL stores and schemas, whose behaviour is that of SQL statements; the services
  are modelled over the memory stores with the same interface.  The command line of the agent
  (\<open>agent/cmd\<close>), the main functions of the servers, listening and shutdown, the dashboard page, traces, log
  lines of the servers, the container health check, and the programs for tests under \<open>scripts/\<close>.  Redirects,
  compression and the total timeout of \<open>http.Client\<close> are part of the argument \<open>lc_do\<close> of the agent.
\<close>

end
